(* ===== verification/Awa_Prelude.thy ===== *)
theory Awa_Prelude
  imports Complex_Main
begin

text \<open>
  What every component theory shares: the collections of facts that carry the component
  proofs, the result type of a fallible Python function, and the list functions that stand
  for the SQLAlchemy query verbs used under \<^verbatim>\<open>services/\<close> (a table is the list of its rows in
  insertion order, a query is a filter over it).
\<close>

named_theorems run_simps \<open>how a computation built from the session combinators runs\<close>
named_theorems frame_simps \<open>what an operation leaves alone\<close>
named_theorems table_simps \<open>the tables after an insertion or an update\<close>

section \<open>Fallible functions\<close>

text \<open>
  A Python function that returns or raises is a value of \<open>'e + 'a\<close>: \<open>Inl e\<close> for a
  raised exception, \<open>Inr x\<close> for a returned value.
\<close>

fun bind_result :: "'e + 'a \<Rightarrow> ('a \<Rightarrow> 'e + 'b) \<Rightarrow> 'e + 'b" where
  "bind_result (Inl e) f = Inl e"
| "bind_result (Inr x) f = f x"

lemma bind_result_Inr_iff [simp]:
  "bind_result r f = Inr y \<longleftrightarrow> (\<exists>x. r = Inr x \<and> f x = Inr y)"
  by (cases r) auto

fun map_result :: "('a \<Rightarrow> 'b) \<Rightarrow> 'e + 'a \<Rightarrow> 'e + 'b" where
  "map_result f (Inl e) = Inl e"
| "map_result f (Inr x) = Inr (f x)"

lemma map_result_Inr_iff [simp]:
  "map_result f r = Inr y \<longleftrightarrow> (\<exists>x. r = Inr x \<and> y = f x)"
  by (cases r) auto

lemma map_result_Inl_iff [simp]: "map_result f r = Inl e \<longleftrightarrow> r = Inl e"
  by (cases r) auto

section \<open>Rows and queries\<close>

text \<open>\<open>result.scalars().first()\<close>: the first row, or \<open>None\<close>.\<close>

fun first_row :: "'a list \<Rightarrow> 'a option" where
  "first_row [] = None"
| "first_row (x # xs) = Some x"

lemma first_row_SomeD: "first_row xs = Some x \<Longrightarrow> x \<in> set xs"
  by (cases xs) auto

lemma first_row_None_iff [simp]: "first_row xs = None \<longleftrightarrow> xs = []"
  by (cases xs) auto

lemma first_row_filterD: "first_row (filter P xs) = Some x \<Longrightarrow> x \<in> set xs \<and> P x"
  by (drule first_row_SomeD) auto

text \<open>\<open>UPDATE ... SET ... WHERE\<close>, and the write of a changed ORM object.\<close>

definition update_where :: "('a \<Rightarrow> bool) \<Rightarrow> ('a \<Rightarrow> 'a) \<Rightarrow> 'a list \<Rightarrow> 'a list" where
  "update_where P f xs = map (\<lambda>x. if P x then f x else x) xs"

lemma update_where_simps [simp]:
  "update_where P f [] = []"
  "update_where P f (x # xs) = (if P x then f x else x) # update_where P f xs"
  by (simp_all add: update_where_def)

lemma length_update_where [simp]: "length (update_where P f xs) = length xs"
  by (simp add: update_where_def)

lemma set_update_where:
  "set (update_where P f xs) = {x \<in> set xs. \<not> P x} \<union> f ` {x \<in> set xs. P x}"
  by (auto simp: update_where_def)

lemma map_update_where [simp]:
  "(\<And>x. g (f x) = g x) \<Longrightarrow> map g (update_where P f xs) = map g xs"
  by (auto simp: update_where_def)

lemma map_update_where_if:
  "(\<And>x. x \<in> set xs \<Longrightarrow> P x \<Longrightarrow> g (f x) = g x) \<Longrightarrow> map g (update_where P f xs) = map g xs"
  by (auto simp: update_where_def)

lemma update_where_none: "(\<And>x. x \<in> set xs \<Longrightarrow> \<not> P x) \<Longrightarrow> update_where P f xs = xs"
  by (induction xs) auto

lemma filter_update_where_other:
  "(\<And>x. Q x \<Longrightarrow> \<not> P x) \<Longrightarrow> (\<And>x. P x \<Longrightarrow> \<not> Q (f x)) \<Longrightarrow>
   filter Q (update_where P f xs) = filter Q xs"
  by (induction xs) auto

lemma filter_update_where_same:
  "(\<And>x. P x \<Longrightarrow> Q (f x) = Q x) \<Longrightarrow>
   filter Q (update_where P f xs) = update_where P f (filter Q xs)"
  by (induction xs) auto

text \<open>A column without duplicates: at most one row has a given value.\<close>

lemma filter_key_unique:
  assumes "distinct (map k xs)" and "x \<in> set xs"
  shows "filter (\<lambda>y. k y = k x) xs = [x]"
  using assms
proof (induction xs)
  case Nil
  then show ?case by simp
next
  case (Cons y ys)
  show ?case
  proof (cases "x = y")
    case True
    with Cons.prems have "\<forall>z \<in> set ys. k z \<noteq> k x" by (auto simp: image_iff)
    then have "filter (\<lambda>z. k z = k x) ys = []" by (simp add: filter_empty_conv)
    with True show ?thesis by simp
  next
    case False
    with Cons.prems have "k y \<noteq> k x" by (auto simp: image_iff)
    with False Cons show ?thesis by simp
  qed
qed

lemma filter_key_length:
  assumes "distinct (map k xs)" shows "length (filter (\<lambda>y. k y = v) xs) \<le> 1"
proof (cases "\<exists>x \<in> set xs. k x = v")
  case True
  then obtain x where "x \<in> set xs" and "k x = v" by blast
  with filter_key_unique [OF assms] show ?thesis by fastforce
next
  case False
  then have "filter (\<lambda>y. k y = v) xs = []" by (auto simp: filter_empty_conv)
  then show ?thesis by simp
qed

lemma distinct_map_inj_on_eq:
  "distinct (map k xs) \<Longrightarrow> x \<in> set xs \<Longrightarrow> y \<in> set xs \<Longrightarrow> k x = k y \<Longrightarrow> x = y"
  by (auto simp: distinct_map inj_on_def)

text \<open>\<open>ORDER BY\<close>: a stable sort; its rows are the rows of the query.\<close>

abbreviation order_by :: "('a \<Rightarrow> 'k::linorder) \<Rightarrow> 'a list \<Rightarrow> 'a list" where
  "order_by \<equiv> sort_key"

lemma sort_key_singleton [simp]: "sort_key k [x] = [x]"
  by (simp add: sort_key_def)

lemma filter_True_id: "(\<And>x. x \<in> set xs \<Longrightarrow> P x) \<Longrightarrow> filter P xs = xs"
  by (induction xs) auto

end
