(* ===== verification/Py_Text.thy ===== *)
theory Py_Text
  imports Awa_Prelude "HOL-Library.Sublist"
begin

text \<open>
  Python strings and the \<^verbatim>\<open>str\<close> methods the sources call. A \<open>string\<close> is a list of
  8-bit characters, read as the code points U+0000 to U+00FF: on that range \<open>strip\<close>,
  \<open>lower\<close>, \<open>isspace\<close> and \<open>int()\<close> below are Python's own functions. Text outside the
  range (the Arabic labels) only passes through the model unchanged.
\<close>

section \<open>strip and lower\<close>

definition is_space :: "char \<Rightarrow> bool" where
  "is_space c = (let n = of_char c :: nat in
     (9 \<le> n \<and> n \<le> 13) \<or> (28 \<le> n \<and> n \<le> 32) \<or> n = 133 \<or> n = 160)"

definition lstrip :: "string \<Rightarrow> string" where
  "lstrip s = dropWhile is_space s"

definition rstrip :: "string \<Rightarrow> string" where
  "rstrip s = rev (lstrip (rev s))"

definition strip :: "string \<Rightarrow> string" where
  "strip s = rstrip (lstrip s)"

definition lower_char :: "char \<Rightarrow> char" where
  "lower_char c = (let n = of_char c :: nat in
     if (65 \<le> n \<and> n \<le> 90) \<or> (192 \<le> n \<and> n \<le> 222 \<and> n \<noteq> 215)
     then char_of (n + 32) else c)"

definition lower :: "string \<Rightarrow> string" where
  "lower s = map lower_char s"

lemma of_char_lt_256: "(of_char c :: nat) < 256"
  using of_char_mod_256 [of c, where 'a = nat] by (metis mod_less_divisor zero_less_numeral)

lemma of_char_char_of_nat: "(of_char (char_of (n::nat)) :: nat) = n mod 256"
  by simp

lemma lower_char_idem [simp]: "lower_char (lower_char c) = lower_char c"
  by (auto simp: lower_char_def Let_def)

lemma is_space_lower_char [simp]: "is_space (lower_char c) = is_space c"
  by (auto simp: lower_char_def is_space_def Let_def)

lemma lower_idem [simp]: "lower (lower s) = lower s"
  by (simp add: lower_def)

lemma lower_Nil_iff [simp]: "lower s = [] \<longleftrightarrow> s = []"
  by (simp add: lower_def)

lemma lower_Cons [simp]: "lower [] = []" "lower (c # s) = lower_char c # lower s"
  by (simp_all add: lower_def)

lemma lower_append [simp]: "lower (s @ t) = lower s @ lower t"
  by (simp add: lower_def)

lemma rstrip_no_trailing: "rstrip s = [] \<or> \<not> is_space (last (rstrip s))"
proof (cases "dropWhile is_space (rev s)")
  case Nil
  then show ?thesis by (simp add: rstrip_def lstrip_def)
next
  case (Cons c cs)
  then have "\<not> is_space c" by (metis dropWhile_eq_Cons_conv)
  with Cons show ?thesis by (simp add: rstrip_def lstrip_def)
qed

lemma lstrip_no_leading: "lstrip s = [] \<or> \<not> is_space (hd (lstrip s))"
  by (metis hd_dropWhile lstrip_def)

lemma rstrip_prefix: "prefix (rstrip s) s"
  by (metis lstrip_def rstrip_def suffix_dropWhile suffix_to_prefix rev_rev_ident)

lemma rstrip_id: "s = [] \<or> \<not> is_space (last s) \<Longrightarrow> rstrip s = s"
  by (cases s rule: rev_cases) (auto simp: rstrip_def lstrip_def)

lemma lstrip_id: "s = [] \<or> \<not> is_space (hd s) \<Longrightarrow> lstrip s = s"
  by (cases s) (auto simp: lstrip_def)

lemma strip_no_leading: "strip s = [] \<or> \<not> is_space (hd (strip s))"
proof (cases "strip s")
  case (Cons c cs)
  then obtain t where "lstrip s = (c # cs) @ t"
    using rstrip_prefix [of "lstrip s"] by (auto simp: strip_def prefix_def)
  then show ?thesis using lstrip_no_leading [of s] Cons by auto
qed simp

lemma strip_no_trailing: "strip s = [] \<or> \<not> is_space (last (strip s))"
  by (simp add: strip_def rstrip_no_trailing)

lemma strip_idem [simp]: "strip (strip s) = strip s"
  by (metis strip_def lstrip_id rstrip_id strip_no_leading strip_no_trailing)

lemma lower_lstrip: "lstrip (lower s) = lower (lstrip s)"
  by (induction s) (auto simp: lstrip_def lower_def)

lemma lower_rev: "rev (lower s) = lower (rev s)"
  by (simp add: lower_def rev_map)

lemma lower_strip: "strip (lower s) = lower (strip s)"
  by (simp add: strip_def rstrip_def lower_lstrip lower_rev)

lemma strip_empty_iff: "strip s = [] \<longleftrightarrow> (\<forall>c \<in> set s. is_space c)"
proof -
  have "rstrip t = [] \<longleftrightarrow> (\<forall>c \<in> set t. is_space c)" for t
    by (simp add: rstrip_def lstrip_def)
  moreover have "(\<forall>c \<in> set (lstrip s). is_space c) \<longleftrightarrow> (\<forall>c \<in> set s. is_space c)"
    by (induction s) (auto simp: lstrip_def)
  ultimately show ?thesis by (simp add: strip_def)
qed

section \<open>Searching and splitting\<close>

text \<open>\<open>s.startswith(p)\<close> and \<open>s[len(p):]\<close>.\<close>

definition startswith :: "string \<Rightarrow> string \<Rightarrow> bool" where
  "startswith s p = prefix p s"

text \<open>\<open>s.split(sep)[0]\<close> for a one-character separator.\<close>

definition split_first :: "char \<Rightarrow> string \<Rightarrow> string" where
  "split_first sep s = takeWhile (\<lambda>c. c \<noteq> sep) s"

text \<open>\<open>sep.join(parts)\<close>.\<close>

fun join :: "string \<Rightarrow> string list \<Rightarrow> string" where
  "join sep [] = []"
| "join sep [x] = x"
| "join sep (x # y # xs) = x @ sep @ join sep (y # xs)"

text \<open>\<open>s.replace(p, '')\<close> for a non-empty \<open>p\<close>: left to right, without overlaps.\<close>

fun remove_all :: "string \<Rightarrow> string \<Rightarrow> string" where
  "remove_all p [] = []"
| "remove_all p (c # cs) =
     (if p \<noteq> [] \<and> prefix p (c # cs) then remove_all p (drop (length p - 1) cs)
      else c # remove_all p cs)"

text \<open>\<open>s.strip(chars)\<close> for a set of characters.\<close>

definition strip_chars :: "string \<Rightarrow> string \<Rightarrow> string" where
  "strip_chars cs s =
     rev (dropWhile (\<lambda>c. c \<in> set cs) (rev (dropWhile (\<lambda>c. c \<in> set cs) s)))"

lemma split_first_no_sep: "sep \<notin> set (split_first sep s)"
  by (auto simp: split_first_def dest: set_takeWhileD)

lemma remove_all_id: "p \<noteq> [] \<Longrightarrow> hd p \<notin> set s \<Longrightarrow> remove_all p s = s"
  by (induction s) (cases p; auto)+

lemma strip_chars_id:
  assumes "\<forall>c \<in> set s. c \<notin> set cs" shows "strip_chars cs s = s"
proof -
  have drop: "dropWhile (\<lambda>c. c \<in> set cs) t = t" if "\<forall>c \<in> set t. c \<notin> set cs" for t
    using that by (cases t) auto
  show ?thesis using assms drop [of s] drop [of "rev s"] by (simp add: strip_chars_def)
qed

section \<open>Integers as text\<close>

text \<open>
  \<open>int(s, base)\<close>: surrounding white space, one sign, for base 16 an optional \<open>0x\<close>, then
  digits with single underscores between them; \<open>None\<close> stands for \<open>ValueError\<close>. A
  string with only ASCII characters is trimmed by the C notion of white space, any other one
  by Python's. In base 10 more than 4300 digits are refused
  (\<open>sys.int_info.default_max_str_digits\<close>).
\<close>

definition c_space :: "char \<Rightarrow> bool" where
  "c_space c = (let n = of_char c :: nat in (9 \<le> n \<and> n \<le> 13) \<or> n = 32)"

definition int_trim :: "string \<Rightarrow> string" where
  "int_trim s =
     (let sp = (if \<forall>c \<in> set s. (of_char c :: nat) < 128 then c_space else is_space)
      in rev (dropWhile sp (rev (dropWhile sp s))))"

definition digit_value :: "char \<Rightarrow> nat option" where
  "digit_value c = (let n = of_char c :: nat in
     if 48 \<le> n \<and> n \<le> 57 then Some (n - 48)
     else if 97 \<le> n \<and> n \<le> 122 then Some (n - 87)
     else if 65 \<le> n \<and> n \<le> 90 then Some (n - 55)
     else None)"

fun parse_digits :: "nat \<Rightarrow> bool \<Rightarrow> nat \<Rightarrow> string \<Rightarrow> nat option" where
  "parse_digits b after_digit acc [] = (if after_digit then Some acc else None)"
| "parse_digits b after_digit acc (c # cs) =
     (if c = CHR ''_'' then (if after_digit then parse_digits b False acc cs else None)
      else (case digit_value c of
              None \<Rightarrow> None
            | Some d \<Rightarrow> if d < b then parse_digits b True (acc * b + d) cs else None))"

definition drop_base_prefix :: "nat \<Rightarrow> string \<Rightarrow> string" where
  "drop_base_prefix b s =
     (if b = 16 \<and> (prefix ''0x'' s \<or> prefix ''0X'' s)
      then (let t = drop 2 s in if prefix ''_'' t then drop 1 t else t)
      else s)"

definition py_int :: "nat \<Rightarrow> string \<Rightarrow> int option" where
  "py_int b s =
     (let t = int_trim s;
          neg = prefix ''-'' t;
          u = (if neg \<or> prefix ''+'' t then drop 1 t else t);
          body = drop_base_prefix b u
      in if b = 10 \<and> length (filter (\<lambda>c. digit_value c \<noteq> None) body) > 4300 then None
         else map_option (\<lambda>n. if neg then - int n else int n) (parse_digits b False 0 body))"

text \<open>\<open>str(n)\<close> for an integer.\<close>

fun nat_text :: "nat \<Rightarrow> string" where
  "nat_text n =
     (if n < 10 then [char_of (48 + n)] else nat_text (n div 10) @ [char_of (48 + n mod 10)])"

declare nat_text.simps [simp del]

definition int_text :: "int \<Rightarrow> string" where
  "int_text i = (if i < 0 then CHR ''-'' # nat_text (nat (- i)) else nat_text (nat i))"

section \<open>Digits\<close>

lemma digit_value_digit: "(d::nat) < 10 \<Longrightarrow> digit_value (char_of (48 + d)) = Some d"
  by (simp add: digit_value_def Let_def)

lemma digit_not_underscore: "(d::nat) < 10 \<Longrightarrow> char_of (48 + d) \<noteq> CHR ''_''"
proof
  assume "d < 10" and "char_of (48 + d) = CHR ''_''"
  then have "of_char (char_of (48 + d)) = (of_char (CHR ''_'') :: nat)" by simp
  with \<open>d < 10\<close> show False by simp
qed

lemma parse_digits_snoc:
  assumes "c \<noteq> CHR ''_''" and "digit_value c = Some d" and "d < b"
    and "parse_digits b ok acc s = Some n"
  shows "parse_digits b ok acc (s @ [c]) = Some (n * b + d)"
  using assms
  by (induction b ok acc s rule: parse_digits.induct) (auto split: if_splits option.splits)

lemma parse_nat_text: "parse_digits 10 False 0 (nat_text n) = Some n"
proof (induction n rule: nat_text.induct)
  case (1 n)
  show ?case
  proof (cases "n < 10")
    case True
    then show ?thesis
      using digit_value_digit [of n] digit_not_underscore [of n] nat_text.simps [of n] by simp
  next
    case False
    with 1 have ih: "parse_digits 10 False 0 (nat_text (n div 10)) = Some (n div 10)" by simp
    have "parse_digits 10 False 0 (nat_text (n div 10) @ [char_of (48 + n mod 10)]) =
          Some (n div 10 * 10 + n mod 10)"
      by (rule parse_digits_snoc [OF _ _ _ ih])
        (simp_all only: digit_value_digit digit_not_underscore mod_less_divisor, simp_all)
    with False show ?thesis by (simp add: nat_text.simps [of n])
  qed
qed

lemma nat_text_digits: "\<forall>c \<in> set (nat_text n). 48 \<le> (of_char c :: nat) \<and> (of_char c :: nat) \<le> 57"
proof (induction n rule: nat_text.induct)
  case (1 n)
  have one: "48 \<le> (of_char (char_of (48 + d)) :: nat) \<and> (of_char (char_of (48 + d)) :: nat) \<le> 57"
    if "d < 10" for d :: nat using that by simp
  show ?case
  proof (cases "n < 10")
    case True
    then show ?thesis using one [of n] by (simp add: nat_text.simps [of n])
  next
    case False
    with 1 one [of "n mod 10"] show ?thesis by (simp add: nat_text.simps [of n])
  qed
qed

lemma nat_text_not_Nil [simp]: "nat_text n \<noteq> []"
  by (subst nat_text.simps) simp

end
