(* ===== verification/Py_Uuid.thy ===== *)
theory Py_Uuid
  imports Py_Text "HOL-Library.Word"
begin

text \<open>
  \<^verbatim>\<open>uuid.UUID\<close>: a 128-bit value, its text \<open>str(u)\<close> and the constructor that
  parses text. The sources turn identifiers into text for Kafka keys, Redis keys, URLs and
  token subjects, and parse them back.
\<close>

type_synonym uuid = "128 word"

definition hex_digit :: "nat \<Rightarrow> char" where
  "hex_digit d = (if d < 10 then char_of (48 + d) else char_of (87 + d))"

fun hex_text :: "nat \<Rightarrow> nat \<Rightarrow> string" where
  "hex_text 0 n = []"
| "hex_text (Suc k) n = hex_text k (n div 16) @ [hex_digit (n mod 16)]"

text \<open>\<open>str(u)\<close>: 32 hex digits in groups of 8, 4, 4, 4 and 12.\<close>

definition uuid_text :: "uuid \<Rightarrow> string" where
  "uuid_text u =
     (let h = hex_text 32 (unat u) in
      take 8 h @ ''-'' @ take 4 (drop 8 h) @ ''-'' @ take 4 (drop 12 h) @ ''-''
        @ take 4 (drop 16 h) @ ''-'' @ drop 20 h)"

text \<open>\<open>uuid.UUID(s)\<close>; \<open>None\<close> stands for \<open>ValueError\<close>.\<close>

definition uuid_of_text :: "string \<Rightarrow> uuid option" where
  "uuid_of_text s =
     (let h = remove_all ''-'' (strip_chars ''{}'' (remove_all ''uuid:'' (remove_all ''urn:'' s)))
      in if length h \<noteq> 32 then None
         else (case py_int 16 h of
                 None \<Rightarrow> None
               | Some i \<Rightarrow> if 0 \<le> i \<and> i < 2 ^ 128 then Some (word_of_int i) else None))"

section \<open>Round trip\<close>

lemma length_hex_text [simp]: "length (hex_text k n) = k"
  by (induction k arbitrary: n) auto

lemma of_char_hex_digit:
  "d < 16 \<Longrightarrow> (of_char (hex_digit d) :: nat) = (if d < 10 then 48 + d else 87 + d)"
  by (simp add: hex_digit_def)

lemma not_in_chars: "(of_char c :: nat) \<notin> of_char ` set cs \<Longrightarrow> c \<notin> set cs"
  by blast

lemma hex_digit_facts:
  assumes "d < 16"
  shows "digit_value (hex_digit d) = Some d"
    and "hex_digit d \<notin> set ''_-+{}uxX ''"
    and "\<not> c_space (hex_digit d)"
    and "(of_char (hex_digit d) :: nat) < 128"
proof -
  show "hex_digit d \<notin> set ''_-+{}uxX ''"
    by (rule not_in_chars) (use assms in \<open>auto simp: of_char_hex_digit\<close>)
qed (use assms in \<open>auto simp: digit_value_def c_space_def Let_def of_char_hex_digit\<close>)

lemma set_hex_text: "c \<in> set (hex_text k n) \<Longrightarrow> \<exists>d < 16. c = hex_digit d"
proof (induction k arbitrary: n)
  case (Suc k)
  then show ?case by (auto intro: exI [of _ "n mod 16"])
qed simp

lemma hex_text_clean:
  assumes "c \<in> set (hex_text k n)"
  shows "c \<notin> set ''_-+{}uxX ''" and "\<not> c_space c" and "(of_char c :: nat) < 128"
  using set_hex_text [OF assms] hex_digit_facts by auto

lemma parse_hex_text:
  "k > 0 \<Longrightarrow> parse_digits 16 False 0 (hex_text k n) = Some (n mod 16 ^ k)"
proof (induction k arbitrary: n)
  case 0
  then show ?case by simp
next
  case (Suc k)
  have c: "hex_digit (n mod 16) \<noteq> CHR ''_''" and d: "digit_value (hex_digit (n mod 16)) = Some (n mod 16)"
    using hex_digit_facts [of "n mod 16"] by auto
  show ?case
  proof (cases "k = 0")
    case True
    then show ?thesis using c d by simp
  next
    case False
    with Suc.IH have ih: "parse_digits 16 False 0 (hex_text k (n div 16)) = Some (n div 16 mod 16 ^ k)"
      by simp
    have "parse_digits 16 False 0 (hex_text (Suc k) n) = Some (n div 16 mod 16 ^ k * 16 + n mod 16)"
      using parse_digits_snoc [OF c d _ ih] by simp
    also have "n div 16 mod 16 ^ k * 16 + n mod 16 = n mod 16 ^ Suc k"
      by (simp add: mod_mult2_eq)
    finally show ?thesis .
  qed
qed

lemma int_trim_hex [simp]: "int_trim (hex_text k n) = hex_text k n"
proof -
  have no: "dropWhile c_space t = t" if "set t \<subseteq> set (hex_text k n)" for t
    using that hex_text_clean(2) by (cases t) auto
  have "\<forall>c \<in> set (hex_text k n). (of_char c :: nat) < 128" using hex_text_clean(3) by blast
  then show ?thesis using no [of "hex_text k n"] no [of "rev (hex_text k n)"]
    by (simp add: int_trim_def)
qed

lemma drop_base_prefix_hex [simp]: "drop_base_prefix 16 (hex_text k n) = hex_text k n"
proof -
  have "CHR ''x'' \<notin> set (hex_text k n)" "CHR ''X'' \<notin> set (hex_text k n)"
    using hex_text_clean(1) [of _ k n] by auto
  then have "\<not> prefix ''0x'' (hex_text k n)" "\<not> prefix ''0X'' (hex_text k n)"
    by (auto simp: prefix_def)
  then show ?thesis by (simp add: drop_base_prefix_def)
qed

lemma py_int_hex: "k > 0 \<Longrightarrow> py_int 16 (hex_text k n) = Some (int (n mod 16 ^ k))"
proof -
  assume "k > 0"
  have "CHR ''-'' \<notin> set (hex_text k n)" "CHR ''+'' \<notin> set (hex_text k n)"
    using hex_text_clean(1) [of _ k n] by auto
  then have "\<not> prefix ''-'' (hex_text k n)" "\<not> prefix ''+'' (hex_text k n)"
    by (auto simp: prefix_def)
  then show ?thesis using \<open>k > 0\<close> by (simp add: py_int_def Let_def parse_hex_text)
qed

lemma remove_all_single: "remove_all [c] s = filter (\<lambda>x. x \<noteq> c) s"
  by (induction s) auto

lemma uuid_text_chars:
  assumes "c \<in> set (uuid_text u)"
  shows "c \<notin> set ''{}u''"
proof -
  have "c = CHR ''-'' \<or> c \<in> set (hex_text 32 (unat u))"
    using assms by (auto simp: uuid_text_def Let_def dest: in_set_takeD in_set_dropD)
  then show ?thesis using hex_text_clean(1) [of c 32 "unat u"] by auto
qed

lemma filter_uuid_text: "filter (\<lambda>x. x \<noteq> CHR ''-'') (uuid_text u) = hex_text 32 (unat u)"
proof -
  let ?h = "hex_text 32 (unat u)"
  have keep: "filter (\<lambda>x. x \<noteq> CHR ''-'') t = t" if "set t \<subseteq> set ?h" for t
    using that hex_text_clean(1) [of _ 32 "unat u"] by (intro filter_True_id) auto
  have d: "take 4 (drop n ?h) @ drop (n + 4) ?h = drop n ?h" for n
    using append_take_drop_id [of 4 "drop n ?h"] by (simp add: add.commute)
  have "take 8 ?h @ take 4 (drop 8 ?h) @ take 4 (drop 12 ?h) @ take 4 (drop 16 ?h) @ drop 20 ?h = ?h"
    using d [of 8] d [of 12] d [of 16] append_take_drop_id [of 8 ?h] by simp
  then show ?thesis
    by (simp add: uuid_text_def Let_def keep set_take_subset set_drop_subset
        subset_trans [OF set_take_subset set_drop_subset])
qed

theorem uuid_round_trip: "uuid_of_text (uuid_text u) = Some u"
proof -
  have "CHR ''u'' \<notin> set (uuid_text u)" using uuid_text_chars by fastforce
  then have clean: "remove_all ''uuid:'' (remove_all ''urn:'' (uuid_text u)) = uuid_text u"
    by (simp add: remove_all_id)
  have braces: "strip_chars ''{}'' (uuid_text u) = uuid_text u"
    by (rule strip_chars_id) (use uuid_text_chars in fastforce)
  have "unat u < 16 ^ 32" using unsigned_less [of u, where 'a = nat] by simp
  then have "py_int 16 (hex_text 32 (unat u)) = Some (uint u)" by (simp add: py_int_hex)
  moreover have "uint u < 2 ^ 128" using unsigned_less [of u, where 'a = int] by simp
  ultimately show ?thesis
    by (simp add: uuid_of_text_def Let_def clean braces remove_all_single filter_uuid_text)
qed

lemma uuid_text_inject [simp]: "uuid_text u = uuid_text v \<longleftrightarrow> u = v"
  by (metis option.inject uuid_round_trip)

end
