(* ===== verification/Py_Decimal.thy ===== *)
theory Py_Decimal
  imports Py_Text
begin

text \<open>
  \<^verbatim>\<open>decimal.Decimal\<close>: a signed coefficient with a decimal exponent, the infinities
  and the two kinds of NaN; the constructor from text, \<open>str\<close>, the comparison \<open>>\<close>
  (which raises \<open>InvalidOperation\<close> on a NaN) and the truth value that \<open>or\<close> looks at.
  The limits on the exponent (about \<open>10\<^sup>18\<close>) and the diagnostic digits of a NaN are left out.
\<close>

datatype decimal =
    Finite (negative: bool) (coefficient: nat) (exponent: int)
  | Infinite bool
  | QuietNaN bool
  | SignalNaN bool

fun is_finite :: "decimal \<Rightarrow> bool" where
  "is_finite (Finite _ _ _) = True"
| "is_finite _ = False"

definition pow10 :: "int \<Rightarrow> rat" where
  "pow10 e = (if 0 \<le> e then 10 ^ nat e else 1 / 10 ^ nat (- e))"

fun finite_value :: "decimal \<Rightarrow> rat" where
  "finite_value (Finite neg c e) = (if neg then - 1 else 1) * of_nat c * pow10 e"
| "finite_value _ = 0"

text \<open>\<open>a > b\<close>; \<open>None\<close> stands for the exception \<open>InvalidOperation\<close>.\<close>

fun decimal_gt :: "decimal \<Rightarrow> decimal \<Rightarrow> bool option" where
  "decimal_gt (QuietNaN _) _ = None"
| "decimal_gt (SignalNaN _) _ = None"
| "decimal_gt _ (QuietNaN _) = None"
| "decimal_gt _ (SignalNaN _) = None"
| "decimal_gt (Infinite n) (Infinite m) = Some (\<not> n \<and> m)"
| "decimal_gt (Infinite n) (Finite _ _ _) = Some (\<not> n)"
| "decimal_gt (Finite _ _ _) (Infinite m) = Some m"
| "decimal_gt (Finite n c e) (Finite m d f) =
     Some (finite_value (Finite m d f) < finite_value (Finite n c e))"

text \<open>\<open>bool(d)\<close>: only a zero is falsy.\<close>

fun decimal_true :: "decimal \<Rightarrow> bool" where
  "decimal_true (Finite _ c _) = (c \<noteq> 0)"
| "decimal_true _ = True"

lemma pow10_pos [simp]: "0 < pow10 e"
  by (simp add: pow10_def)

lemma decimal_gt_finite [simp]:
  "is_finite a \<Longrightarrow> is_finite b \<Longrightarrow> decimal_gt a b = Some (finite_value b < finite_value a)"
  by (cases a; cases b) auto

lemma decimal_true_finite: "is_finite d \<Longrightarrow> decimal_true d \<longleftrightarrow> finite_value d \<noteq> 0"
  using less_imp_neq [OF pow10_pos] by (cases d) (auto dest: sym)

section \<open>The constructor from text\<close>

definition is_digit :: "char \<Rightarrow> bool" where
  "is_digit c = (let n = of_char c :: nat in 48 \<le> n \<and> n \<le> 57)"

fun digits_value :: "nat \<Rightarrow> string \<Rightarrow> nat" where
  "digits_value acc [] = acc"
| "digits_value acc (c # cs) = digits_value (acc * 10 + (of_char c - 48)) cs"

definition split_sign :: "string \<Rightarrow> bool \<times> string" where
  "split_sign s =
     (case s of c # cs \<Rightarrow> if c = CHR ''-'' then (True, cs)
                        else if c = CHR ''+'' then (False, cs) else (False, s)
      | [] \<Rightarrow> (False, s))"

definition parse_exponent :: "string \<Rightarrow> int option" where
  "parse_exponent s =
     (let (neg, ds) = split_sign s
      in if ds = [] \<or> \<not> list_all is_digit ds then None
         else Some (if neg then - int (digits_value 0 ds) else int (digits_value 0 ds)))"

definition parse_fraction :: "string \<Rightarrow> string \<times> string" where
  "parse_fraction r =
     (case r of
        c # t \<Rightarrow> if c = CHR ''.'' then (takeWhile is_digit t, dropWhile is_digit t) else ([], r)
      | [] \<Rightarrow> ([], r))"

definition parse_number :: "bool \<Rightarrow> string \<Rightarrow> decimal option" where
  "parse_number neg s =
     (let ip = takeWhile is_digit s;
          (fp, rest) = parse_fraction (dropWhile is_digit s);
          c = digits_value 0 (ip @ fp)
      in if ip @ fp = [] then None
         else (case rest of
                 [] \<Rightarrow> Some (Finite neg c (- int (length fp)))
               | m # t \<Rightarrow>
                   if m \<noteq> CHR ''e'' then None
                   else map_option (\<lambda>e. Finite neg c (e - int (length fp))) (parse_exponent t)))"

text \<open>
  \<open>Decimal(s)\<close>: white space around the text and underscores are dropped, letters are
  read in either case; \<open>None\<close> stands for \<open>InvalidOperation\<close>.
\<close>

definition decimal_of_text :: "string \<Rightarrow> decimal option" where
  "decimal_of_text s =
     (let (neg, t) = split_sign (lower (filter (\<lambda>c. c \<noteq> CHR ''_'') (strip s)))
      in if t = ''inf'' \<or> t = ''infinity'' then Some (Infinite neg)
         else if prefix ''nan'' t \<and> list_all is_digit (drop 3 t) then Some (QuietNaN neg)
         else if prefix ''snan'' t \<and> list_all is_digit (drop 4 t) then Some (SignalNaN neg)
         else parse_number neg t)"

section \<open>str\<close>

fun exponent_text :: "int \<Rightarrow> string" where
  "exponent_text e = (if e < 0 then CHR ''-'' # nat_text (nat (- e)) else CHR ''+'' # nat_text (nat e))"

definition number_text :: "nat \<Rightarrow> int \<Rightarrow> string" where
  "number_text c e =
     (let ds = nat_text c;
          left = e + int (length ds);
          place = (if e \<le> 0 \<and> - 6 < left then left else 1);
          whole = (if place \<le> 0 then ''0''
                   else if int (length ds) \<le> place then ds @ replicate (nat place - length ds) CHR ''0''
                   else take (nat place) ds);
          fraction = (if place \<le> 0 then CHR ''.'' # replicate (nat (- place)) CHR ''0'' @ ds
                      else if int (length ds) \<le> place then []
                      else CHR ''.'' # drop (nat place) ds)
      in whole @ fraction @ (if left = place then [] else CHR ''E'' # exponent_text (left - place)))"

fun decimal_text :: "decimal \<Rightarrow> string" where
  "decimal_text (Finite neg c e) = (if neg then ''-'' else []) @ number_text c e"
| "decimal_text (Infinite neg) = (if neg then ''-'' else []) @ ''Infinity''"
| "decimal_text (QuietNaN neg) = (if neg then ''-'' else []) @ ''NaN''"
| "decimal_text (SignalNaN neg) = (if neg then ''-'' else []) @ ''sNaN''"

section \<open>Round trip\<close>

lemma digits_value_append: "digits_value a (s @ t) = digits_value (digits_value a s) t"
  by (induction a s rule: digits_value.induct) auto

lemma digits_value_zeros: "digits_value 0 (replicate n CHR ''0'') = 0"
  by (induction n) auto

lemma nat_text_is_digit: "c \<in> set (nat_text n) \<Longrightarrow> is_digit c"
  using nat_text_digits [of n] by (simp add: is_digit_def Let_def)

lemma digits_value_nat_text: "digits_value 0 (nat_text n) = n"
proof (induction n rule: nat_text.induct)
  case (1 n)
  show ?case
  proof (cases "n < 10")
    case True
    then show ?thesis by (simp add: nat_text.simps [of n])
  next
    case False
    with 1 show ?thesis by (simp add: nat_text.simps [of n] digits_value_append)
  qed
qed

lemma digit_char_facts:
  assumes "is_digit c"
  shows "\<not> is_space c" "c \<noteq> CHR ''_''" "c \<noteq> CHR ''.''" "c \<noteq> CHR ''-''" "c \<noteq> CHR ''+''"
    "c \<noteq> CHR ''e''" "c \<noteq> CHR ''i''" "c \<noteq> CHR ''n''" "c \<noteq> CHR ''s''" "lower_char c = c"
  using assms by (auto simp: is_digit_def is_space_def lower_char_def Let_def)

lemma span_digits:
  assumes "list_all is_digit ds" and "rest = [] \<or> \<not> is_digit (hd rest)"
  shows "takeWhile is_digit (ds @ rest) = ds" and "dropWhile is_digit (ds @ rest) = rest"
  using assms by (induction ds) (cases rest; auto)+

lemma lower_char_E [simp]: "lower_char CHR ''E'' = CHR ''e''"
  by code_simp

lemma lower_char_punct [simp]:
  "lower_char CHR ''.'' = CHR ''.''" "lower_char CHR ''-'' = CHR ''-''" "lower_char CHR ''+'' = CHR ''+''"
  by code_simp+

text \<open>What the number parser makes of a numeral written in parts.\<close>

definition numeral_text :: "string \<Rightarrow> string \<Rightarrow> int option \<Rightarrow> string" where
  "numeral_text ip fp ex =
     ip @ (if fp = [] then [] else CHR ''.'' # fp)
       @ (case ex of None \<Rightarrow> [] | Some e \<Rightarrow> CHR ''e'' # exponent_text e)"

lemma parse_exponent_text: "parse_exponent (exponent_text e) = Some e"
proof -
  have "list_all is_digit (nat_text n)" for n
    using nat_text_is_digit by (simp add: list_all_iff)
  then show ?thesis by (simp add: parse_exponent_def split_sign_def digits_value_nat_text)
qed

declare exponent_text.simps [simp del]

lemma parse_numeral_text:
  assumes ip: "list_all is_digit ip" and fp: "list_all is_digit fp" and ne: "ip \<noteq> []"
  shows "parse_number neg (numeral_text ip fp ex) =
    Some (Finite neg (digits_value 0 (ip @ fp)) ((case ex of None \<Rightarrow> 0 | Some e \<Rightarrow> e) - int (length fp)))"
proof -
  define tl where "tl = (case ex of None \<Rightarrow> [] | Some e \<Rightarrow> CHR ''e'' # exponent_text e)"
  have e_no: "\<not> is_digit (CHR ''e'')" "\<not> is_digit (CHR ''.'')" by (auto dest: digit_char_facts)
  have tl: "tl = [] \<or> \<not> is_digit (hd tl)" "tl = [] \<or> hd tl \<noteq> CHR ''.''"
    using e_no by (auto simp: tl_def split: option.splits)
  have mid: "((if fp = [] then [] else CHR ''.'' # fp) @ tl = []) \<or>
        \<not> is_digit (hd ((if fp = [] then [] else CHR ''.'' # fp) @ tl))"
    using tl e_no by auto
  have frac: "parse_fraction ((if fp = [] then [] else CHR ''.'' # fp) @ tl) = (fp, tl)"
    using span_digits [OF fp tl(1)] tl(2)
    by (cases tl) (auto simp: parse_fraction_def)
  have "parse_number neg (ip @ (if fp = [] then [] else CHR ''.'' # fp) @ tl) =
     (case tl of [] \<Rightarrow> Some (Finite neg (digits_value 0 (ip @ fp)) (- int (length fp)))
       | m # t \<Rightarrow> if m \<noteq> CHR ''e'' then None
          else map_option (\<lambda>e. Finite neg (digits_value 0 (ip @ fp)) (e - int (length fp))) (parse_exponent t))"
    using ne by (simp only: parse_number_def Let_def span_digits [OF ip mid] frac prod.case) simp
  then show ?thesis
    by (simp add: numeral_text_def tl_def parse_exponent_text split: option.splits)
qed

lemma number_text_parts:
  obtains ip fp ex where "list_all is_digit ip" and "list_all is_digit fp" and "ip \<noteq> []"
    and "lower (number_text c e) = numeral_text ip fp ex"
    and "digits_value 0 (ip @ fp) = c"
    and "(case ex of None \<Rightarrow> 0 | Some x \<Rightarrow> x) - int (length fp) = e"
proof -
  let ?ds = "nat_text c"
  define left where "left = e + int (length ?ds)"
  define place where "place = (if e \<le> 0 \<and> - 6 < left then left else 1)"
  define ex where "ex = (if left = place then None else Some (left - place))"
  have low: "lower t = t" if "list_all is_digit t" for t
    using that by (induction t) (auto simp: digit_char_facts)
  have dig: "list_all is_digit ?ds" using nat_text_is_digit by (simp add: list_all_iff)
  have zs: "list_all is_digit (replicate n (CHR ''0''))" for n
    by (simp add: list_all_iff is_digit_def)
  have low_ex: "lower (exponent_text i) = exponent_text i" for i
    using low nat_text_is_digit by (simp add: list_all_iff exponent_text.simps)
  have tail: "lower (if left = place then [] else CHR ''E'' # exponent_text (left - place)) =
      (case ex of None \<Rightarrow> [] | Some x \<Rightarrow> CHR ''e'' # exponent_text x)"
    using low_ex [of "left - place"] by (simp add: ex_def)
  have num: "number_text c e =
      (if place \<le> 0 then ''0''
       else if int (length ?ds) \<le> place then ?ds @ replicate (nat place - length ?ds) CHR ''0''
       else take (nat place) ?ds)
      @ (if place \<le> 0 then CHR ''.'' # replicate (nat (- place)) CHR ''0'' @ ?ds
         else if int (length ?ds) \<le> place then [] else CHR ''.'' # drop (nat place) ?ds)
      @ (if left = place then [] else CHR ''E'' # exponent_text (left - place))"
    by (simp add: number_text_def Let_def left_def place_def)
  have len: "length ?ds \<ge> 1" using nat_text_not_Nil [of c] by (cases ?ds) auto
  have exv: "(case ex of None \<Rightarrow> 0 | Some x \<Rightarrow> x) = left - place" by (simp add: ex_def)
  consider (small) "place \<le> 0" | (whole) "0 < place" "int (length ?ds) \<le> place"
    | (split) "0 < place" "place < int (length ?ds)" by linarith
  then show ?thesis
  proof cases
    case small
    show ?thesis
    proof (rule that [of "''0''" "replicate (nat (- place)) CHR ''0'' @ ?ds" ex])
      show "lower (number_text c e) = numeral_text ''0'' (replicate (nat (- place)) CHR ''0'' @ ?ds) ex"
        using small tail low [OF dig] low [OF zs [of "nat (- place)"]]
        by (simp add: num numeral_text_def lower_char_def)
      show "digits_value 0 (''0'' @ replicate (nat (- place)) CHR ''0'' @ ?ds) = c"
        by (simp add: digits_value_append digits_value_zeros digits_value_nat_text)
      show "(case ex of None \<Rightarrow> 0 | Some x \<Rightarrow> x) - int (length (replicate (nat (- place)) CHR ''0'' @ ?ds)) = e"
        using small by (simp add: exv left_def)
    qed (use dig zs in \<open>auto simp: is_digit_def\<close>)
  next
    case whole
    have same: "nat place - length ?ds = 0"
      using len whole by (auto simp: place_def left_def split: if_splits)
    show ?thesis
    proof (rule that [of ?ds "[]" ex])
      show "lower (number_text c e) = numeral_text ?ds [] ex"
        using whole tail low [OF dig] by (simp add: num numeral_text_def same)
      show "(case ex of None \<Rightarrow> 0 | Some x \<Rightarrow> x) - int (length ([]::string)) = e"
        using whole same by (simp add: exv left_def)
    qed (use dig in \<open>auto simp: digits_value_nat_text\<close>)
  next
    case split
    show ?thesis
    proof (rule that [of "take (nat place) ?ds" "drop (nat place) ?ds" ex])
      have t: "list_all is_digit (take (nat place) ?ds)" and d: "list_all is_digit (drop (nat place) ?ds)"
        using dig by (auto simp: list_all_iff dest: in_set_takeD in_set_dropD)
      then show "list_all is_digit (take (nat place) ?ds)" "list_all is_digit (drop (nat place) ?ds)"
        by simp_all
      show "lower (number_text c e) = numeral_text (take (nat place) ?ds) (drop (nat place) ?ds) ex"
        using split tail low [OF t] low [OF d]
        by (simp add: num numeral_text_def)
      show "digits_value 0 (take (nat place) ?ds @ drop (nat place) ?ds) = c"
        by (simp add: digits_value_nat_text)
      show "(case ex of None \<Rightarrow> 0 | Some x \<Rightarrow> x) - int (length (drop (nat place) ?ds)) = e"
        using split by (simp add: exv left_def)
    qed (use split len in auto)
  qed
qed

lemma exponent_text_chars:
  "c \<in> set (exponent_text e) \<Longrightarrow> is_digit c \<or> c \<in> set ''-+''"
  using nat_text_is_digit by (auto simp: exponent_text.simps split: if_splits)

lemma number_text_chars:
  assumes "x \<in> set (number_text c e)" shows "is_digit x \<or> x \<in> set ''.E-+''"
proof -
  have z: "is_digit CHR ''0''" by (simp add: is_digit_def)
  show ?thesis
    using assms nat_text_is_digit [of _ c] exponent_text_chars z
    by (auto simp: number_text_def Let_def split: if_splits dest: in_set_takeD in_set_dropD)
qed

lemma number_text_clean:
  "strip (number_text c e) = number_text c e"
  "filter (\<lambda>x. x \<noteq> CHR ''_'') (number_text c e) = number_text c e"
proof -
  have ok: "\<not> is_space x \<and> x \<noteq> CHR ''_''" if "x \<in> set (number_text c e)" for x
    using number_text_chars [OF that] digit_char_facts(1,2) by (auto simp: is_space_def)
  then show "filter (\<lambda>x. x \<noteq> CHR ''_'') (number_text c e) = number_text c e"
    by (simp add: filter_True_id)
  show "strip (number_text c e) = number_text c e"
    using ok by (metis strip_def lstrip_id rstrip_id hd_in_set last_in_set)
qed

text \<open>Every finite decimal is read back exactly from its own text.\<close>

theorem decimal_round_trip: "decimal_of_text (decimal_text (Finite neg c e)) = Some (Finite neg c e)"
proof -
  obtain ip fp ex where p: "list_all is_digit ip" "list_all is_digit fp" "ip \<noteq> []"
    and num: "lower (number_text c e) = numeral_text ip fp ex"
    and val: "digits_value 0 (ip @ fp) = c"
    and exp: "(case ex of None \<Rightarrow> 0 | Some x \<Rightarrow> x) - int (length fp) = e"
    by (rule number_text_parts)
  obtain i is' where ip: "ip = i # is'" and i: "is_digit i" using p by (cases ip) auto
  have body: "strip ((if neg then ''-'' else []) @ number_text c e) = (if neg then ''-'' else []) @ number_text c e"
  proof (cases neg)
    case True
    have "number_text c e \<noteq> []" using num ip by (auto simp: numeral_text_def)
    moreover have "\<not> is_space (last (number_text c e))"
      using number_text_clean(1) strip_no_trailing calculation by metis
    ultimately have "lstrip (CHR ''-'' # number_text c e) = CHR ''-'' # number_text c e"
      and "rstrip (CHR ''-'' # number_text c e) = CHR ''-'' # number_text c e"
      by (auto intro!: lstrip_id rstrip_id simp: is_space_def)
    then show ?thesis using True by (simp add: strip_def)
  qed (simp add: number_text_clean)
  have start: "numeral_text ip fp ex = i # tl (numeral_text ip fp ex)" by (simp add: numeral_text_def ip)
  have shown: "lower (filter (\<lambda>x. x \<noteq> CHR ''_'') (strip (decimal_text (Finite neg c e)))) =
      (if neg then ''-'' else []) @ numeral_text ip fp ex"
    using body num number_text_clean(2) [of c e] by (cases neg) simp_all
  have sign: "split_sign ((if neg then ''-'' else []) @ numeral_text ip fp ex) = (neg, numeral_text ip fp ex)"
  proof (cases neg)
    case False
    then show ?thesis using digit_char_facts [OF i] start by (cases "numeral_text ip fp ex") (auto simp: split_sign_def)
  qed (simp add: split_sign_def)
  have "\<forall>t. i # t \<noteq> ''inf'' \<and> i # t \<noteq> ''infinity'' \<and> \<not> prefix ''nan'' (i # t) \<and> \<not> prefix ''snan'' (i # t)"
    using digit_char_facts [OF i] by auto
  then have "numeral_text ip fp ex \<noteq> ''inf'' \<and> numeral_text ip fp ex \<noteq> ''infinity''
      \<and> \<not> prefix ''nan'' (numeral_text ip fp ex) \<and> \<not> prefix ''snan'' (numeral_text ip fp ex)"
    using start by metis
  then have "decimal_of_text (decimal_text (Finite neg c e)) = parse_number neg (numeral_text ip fp ex)"
    by (simp only: decimal_of_text_def shown sign Let_def prod.case) simp
  then show ?thesis using parse_numeral_text [OF p] by (simp add: val exp)
qed

end
