(* ===== verification/Schema_Tables.thy ===== *)
theory Schema_Tables
  imports Py_Uuid Py_Decimal
begin

text \<open>
  \<^verbatim>\<open>models/\<close>: one record per ORM class, one field per column, and the database as the
  record of the tables. A table is the list of its rows in insertion order; a nullable column
  is an \<open>option\<close>; a time is a number of microseconds. The bookkeeping column
  \<^verbatim>\<open>updated_at\<close>, which no code reads, is left out; ORM relationships are the queries that
  follow them.
\<close>

type_synonym time = int

section \<open>Roles and users\<close>

record role =
  r_id :: uuid
  r_name :: string
  r_description :: "string option"
  r_is_active :: bool
  r_created_at :: time

record user_role =
  ur_id :: uuid
  ur_user_id :: uuid
  ur_role_id :: uuid
  ur_assigned_at :: time

record user =
  u_id :: uuid
  u_email :: string
  u_password_hash :: string
  u_first_name :: string
  u_last_name :: string
  u_phone :: "string option"
  u_primary_role_id :: uuid
  u_is_active :: bool
  u_is_email_verified :: bool
  u_failed_login_attempts :: int
  u_locked_until :: "time option"
  u_last_login_at :: "time option"
  u_created_at :: time

record refresh_token =
  rt_id :: uuid
  rt_user_id :: uuid
  rt_token_hash :: string
  rt_expires_at :: time
  rt_revoked_at :: "time option"
  rt_created_at :: time

record password_reset_token =
  pr_id :: uuid
  pr_user_id :: uuid
  pr_token_hash :: string
  pr_expires_at :: time
  pr_used_at :: "time option"
  pr_created_at :: time

record email_verification_token =
  ev_id :: uuid
  ev_user_id :: uuid
  ev_token_hash :: string
  ev_expires_at :: time
  ev_used_at :: "time option"
  ev_created_at :: time

record sub_seller =
  ss_id :: uuid
  ss_seller_id :: uuid
  ss_name :: string
  ss_phone :: "string option"
  ss_external_id :: "string option"
  ss_is_active :: bool
  ss_created_at :: time

section \<open>Auctions and bids\<close>

record auction =
  a_id :: uuid
  a_vehicle_id :: uuid
  a_status :: string
  a_starting_price :: decimal
  a_reserve_price :: "decimal option"
  a_starts_at :: time
  a_ends_at :: time
  a_created_at :: time

record bid =
  b_id :: uuid
  b_auction_id :: uuid
  b_bidder_id :: uuid
  b_amount :: decimal
  b_status :: string
  b_kafka_partition :: "int option"
  b_kafka_offset :: "int option"
  b_created_at :: time

section \<open>Vehicles and the lookup tables of the intake form\<close>

text \<open>
  Makes, branches, colors, key options, fuel types and bidding models have the same columns;
  a model adds its make.
\<close>

record lookup_row =
  lk_id :: uuid
  lk_name_en :: string
  lk_name_ar :: string
  lk_sort_order :: int
  lk_is_active :: bool
  lk_created_at :: time

record vehicle_model = lookup_row +
  vm_make_id :: uuid

type_synonym vehicle_make = lookup_row
type_synonym vehicle_branch = lookup_row
type_synonym vehicle_color = lookup_row
type_synonym vehicle_key_option = lookup_row
type_synonym fuel_type = lookup_row
type_synonym bidding_model = lookup_row

record vehicle_year =
  vy_id :: uuid
  vy_year :: int
  vy_sort_order :: int
  vy_is_active :: bool
  vy_created_at :: time

record vehicle_listing =
  vl_id :: uuid
  vl_seller_id :: "uuid option"
  vl_title_en :: string
  vl_title_ar :: string
  vl_image_url :: "string option"
  vl_detail_url :: string
  vl_lot_number :: "string option"
  vl_mileage :: "string option"
  vl_location_en :: "string option"
  vl_location_ar :: "string option"
  vl_bid_amount :: "string option"
  vl_countdown_label :: "string option"
  vl_is_active :: bool
  vl_chassis_number :: "string option"
  vl_make_id :: "uuid option"
  vl_model_id :: "uuid option"
  vl_branch_id :: "uuid option"
  vl_color_id :: "uuid option"
  vl_keys_option_id :: "uuid option"
  vl_fuel_type_id :: "uuid option"
  vl_bidding_model_id :: "uuid option"
  vl_year :: "int option"
  vl_target_selling_price :: "decimal option"
  vl_minimum_selling_price :: "decimal option"
  vl_previous_number_plate :: "string option"
  vl_sub_seller_id :: "uuid option"
  vl_created_by_id :: "uuid option"
  vl_mulkhiya_document_url :: "string option"
  vl_terms_accepted :: bool
  vl_status :: string
  vl_created_at :: time

record vehicle_payment_record =
  vp_id :: uuid
  vp_lot_no :: string
  vp_chassis_number :: string
  vp_title :: string
  vp_year_of_make :: int
  vp_buyer_name :: string
  vp_buyer_email :: string
  vp_seller_name :: string
  vp_seller_email :: string
  vp_payment_status :: string
  vp_payment_due_date :: "int option"
  vp_location :: string
  vp_max_bid :: decimal
  vp_created_at :: time

section \<open>Home page content\<close>

record menu_item =
  mi_id :: uuid
  mi_parent_id :: "uuid option"
  mi_label_en :: string
  mi_label_ar :: string
  mi_url :: string
  mi_icon_class :: "string option"
  mi_item_type :: string
  mi_visibility :: string
  mi_opens_new_tab :: bool
  mi_sort_order :: int
  mi_is_active :: bool

record auction_category =
  ac_id :: uuid
  ac_name_en :: string
  ac_name_ar :: string
  ac_slug :: string
  ac_icon_url :: "string option"
  ac_link_url :: string
  ac_sort_order :: int
  ac_is_active :: bool

record featured_auction =
  fa_id :: uuid
  fa_auction_id :: "uuid option"
  fa_vehicle_listing_id :: "uuid option"
  fa_badge_en :: "string option"
  fa_badge_ar :: "string option"
  fa_category_key :: string
  fa_category_label_en :: string
  fa_category_label_ar :: string
  fa_visibility :: string
  fa_category_sort_order :: int
  fa_sort_order :: int
  fa_is_active :: bool
  fa_created_at :: time

record how_it_works_step =
  hs_id :: uuid
  hs_step_number :: int
  hs_title_en :: string
  hs_title_ar :: string
  hs_description_en :: string
  hs_description_ar :: string
  hs_icon_url :: "string option"
  hs_sort_order :: int
  hs_is_active :: bool

record value_added_service =
  vs_id :: uuid
  vs_name_en :: string
  vs_name_ar :: string
  vs_description_en :: "string option"
  vs_description_ar :: "string option"
  vs_icon_url :: "string option"
  vs_link_url :: string
  vs_sort_order :: int
  vs_is_active :: bool

record footer_settings_row =
  fs_about_text_en :: string
  fs_about_text_ar :: string
  fs_copyright_en :: string
  fs_copyright_ar :: string
  fs_support_phone :: "string option"
  fs_support_email :: "string option"
  fs_facebook_url :: "string option"
  fs_instagram_url :: "string option"
  fs_youtube_url :: "string option"
  fs_app_store_url :: "string option"
  fs_google_play_url :: "string option"

record footer_link =
  fl_id :: uuid
  fl_section :: string
  fl_label_en :: string
  fl_label_ar :: string
  fl_url :: string
  fl_sort_order :: int
  fl_is_active :: bool

section \<open>Admin dashboard chrome\<close>

record admin_nav_item =
  an_id :: uuid
  an_parent_id :: "uuid option"
  an_label_en :: string
  an_label_ar :: string
  an_icon_class :: "string option"
  an_url :: string
  an_sort_order :: int
  an_is_active :: bool

record vehicle_status_metric =
  vsm_id :: uuid
  vsm_group_key :: string
  vsm_stat_key :: string
  vsm_label_en :: string
  vsm_label_ar :: string
  vsm_icon_class :: "string option"
  vsm_image_url :: "string option"
  vsm_color_class :: "string option"
  vsm_sort_order :: int
  vsm_is_active :: bool

record admin_dashboard_card =
  dc_id :: uuid
  dc_section_key :: string
  dc_label_en :: string
  dc_label_ar :: string
  dc_description_en :: "string option"
  dc_description_ar :: "string option"
  dc_icon_class :: "string option"
  dc_url :: string
  dc_image_url :: "string option"
  dc_sort_order :: int
  dc_is_active :: bool

section \<open>The database\<close>

record database =
  roles :: "role list"
  user_roles :: "user_role list"
  users :: "user list"
  refresh_tokens :: "refresh_token list"
  password_reset_tokens :: "password_reset_token list"
  email_verification_tokens :: "email_verification_token list"
  sub_sellers :: "sub_seller list"
  auctions :: "auction list"
  bids :: "bid list"
  vehicle_listings :: "vehicle_listing list"
  vehicle_makes :: "vehicle_make list"
  vehicle_models :: "vehicle_model list"
  vehicle_years :: "vehicle_year list"
  vehicle_branches :: "vehicle_branch list"
  vehicle_colors :: "vehicle_color list"
  vehicle_key_options :: "vehicle_key_option list"
  fuel_types :: "fuel_type list"
  bidding_models :: "bidding_model list"
  vehicle_payment_records :: "vehicle_payment_record list"
  menu_items :: "menu_item list"
  auction_categories :: "auction_category list"
  featured_auctions :: "featured_auction list"
  how_it_works_steps :: "how_it_works_step list"
  value_added_services :: "value_added_service list"
  footer_settings :: "footer_settings_row list"
  footer_links :: "footer_link list"
  admin_nav_items :: "admin_nav_item list"
  vehicle_status_metrics :: "vehicle_status_metric list"
  admin_dashboard_cards :: "admin_dashboard_card list"

definition empty_database :: database where
  "empty_database = \<lparr> roles = [], user_roles = [], users = [], refresh_tokens = [],
     password_reset_tokens = [], email_verification_tokens = [], sub_sellers = [],
     auctions = [], bids = [], vehicle_listings = [], vehicle_makes = [], vehicle_models = [],
     vehicle_years = [], vehicle_branches = [], vehicle_colors = [], vehicle_key_options = [],
     fuel_types = [], bidding_models = [], vehicle_payment_records = [], menu_items = [],
     auction_categories = [], featured_auctions = [], how_it_works_steps = [],
     value_added_services = [], footer_settings = [], footer_links = [], admin_nav_items = [],
     vehicle_status_metrics = [], admin_dashboard_cards = [] \<rparr>"

section \<open>Insertions and the constraints on them\<close>

text \<open>The rows the services insert.\<close>

datatype row =
    RUser user
  | RUserRole user_role
  | RRefresh refresh_token
  | RReset password_reset_token
  | RVerify email_verification_token
  | RBid bid
  | RListing vehicle_listing

text \<open>\<open>server_default=func.now()\<close> sets the creation time at the insertion.\<close>

fun insert_row :: "time \<Rightarrow> row \<Rightarrow> database \<Rightarrow> database" where
  "insert_row t (RUser u) db = db\<lparr>users := users db @ [u\<lparr>u_created_at := t\<rparr>]\<rparr>"
| "insert_row t (RUserRole ur) db = db\<lparr>user_roles := user_roles db @ [ur\<lparr>ur_assigned_at := t\<rparr>]\<rparr>"
| "insert_row t (RRefresh k) db = db\<lparr>refresh_tokens := refresh_tokens db @ [k\<lparr>rt_created_at := t\<rparr>]\<rparr>"
| "insert_row t (RReset k) db =
     db\<lparr>password_reset_tokens := password_reset_tokens db @ [k\<lparr>pr_created_at := t\<rparr>]\<rparr>"
| "insert_row t (RVerify k) db =
     db\<lparr>email_verification_tokens := email_verification_tokens db @ [k\<lparr>ev_created_at := t\<rparr>]\<rparr>"
| "insert_row t (RBid b) db = db\<lparr>bids := bids db @ [b\<lparr>b_created_at := t\<rparr>]\<rparr>"
| "insert_row t (RListing v) db = db\<lparr>vehicle_listings := vehicle_listings db @ [v\<lparr>vl_created_at := t\<rparr>]\<rparr>"

text \<open>A foreign key: the referenced row exists; a NULL is accepted where the column is nullable.\<close>

definition fk :: "('a \<Rightarrow> uuid) \<Rightarrow> 'a list \<Rightarrow> uuid \<Rightarrow> bool" where
  "fk key rows i \<longleftrightarrow> i \<in> key ` set rows"

definition fk_opt :: "('a \<Rightarrow> uuid) \<Rightarrow> 'a list \<Rightarrow> uuid option \<Rightarrow> bool" where
  "fk_opt key rows i \<longleftrightarrow> (case i of None \<Rightarrow> True | Some j \<Rightarrow> fk key rows j)"

text \<open>The check constraint \<open>ck_bid_status_valid\<close>.\<close>

definition BID_STATUSES :: "string list" where
  "BID_STATUSES = [''pending'', ''accepted'', ''rejected'']"

text \<open>
  The primary keys, unique columns, foreign keys and check constraints that \<^verbatim>\<open>models/\<close>
  declares for the inserted tables; \<open>coll\<close> is the collation key under which the server
  compares text.
\<close>

fun integrity_ok :: "(string \<Rightarrow> string) \<Rightarrow> row \<Rightarrow> database \<Rightarrow> bool" where
  "integrity_ok coll (RUser u) db \<longleftrightarrow>
     u_id u \<notin> u_id ` set (users db) \<and>
     coll (u_email u) \<notin> (coll \<circ> u_email) ` set (users db) \<and>
     fk r_id (roles db) (u_primary_role_id u) \<and>
     0 \<le> u_failed_login_attempts u"
| "integrity_ok coll (RUserRole ur) db \<longleftrightarrow>
     ur_id ur \<notin> ur_id ` set (user_roles db) \<and>
     (ur_user_id ur, ur_role_id ur) \<notin> (\<lambda>x. (ur_user_id x, ur_role_id x)) ` set (user_roles db) \<and>
     fk u_id (users db) (ur_user_id ur) \<and> fk r_id (roles db) (ur_role_id ur)"
| "integrity_ok coll (RRefresh k) db \<longleftrightarrow>
     rt_id k \<notin> rt_id ` set (refresh_tokens db) \<and>
     coll (rt_token_hash k) \<notin> (coll \<circ> rt_token_hash) ` set (refresh_tokens db) \<and>
     fk u_id (users db) (rt_user_id k)"
| "integrity_ok coll (RReset k) db \<longleftrightarrow>
     pr_id k \<notin> pr_id ` set (password_reset_tokens db) \<and>
     coll (pr_token_hash k) \<notin> (coll \<circ> pr_token_hash) ` set (password_reset_tokens db) \<and>
     fk u_id (users db) (pr_user_id k)"
| "integrity_ok coll (RVerify k) db \<longleftrightarrow>
     ev_id k \<notin> ev_id ` set (email_verification_tokens db) \<and>
     coll (ev_token_hash k) \<notin> (coll \<circ> ev_token_hash) ` set (email_verification_tokens db) \<and>
     fk u_id (users db) (ev_user_id k)"
| "integrity_ok coll (RBid b) db \<longleftrightarrow>
     b_id b \<notin> b_id ` set (bids db) \<and>
     fk a_id (auctions db) (b_auction_id b) \<and> fk u_id (users db) (b_bidder_id b) \<and>
     decimal_gt (b_amount b) (Finite False 0 0) = Some True \<and>
     b_status b \<in> set BID_STATUSES \<and>
     (b_kafka_offset b = None \<or>
      (b_kafka_partition b, b_kafka_offset b)
        \<notin> (\<lambda>x. (b_kafka_partition x, b_kafka_offset x)) ` set (bids db))"
| "integrity_ok coll (RListing v) db \<longleftrightarrow>
     vl_id v \<notin> vl_id ` set (vehicle_listings db) \<and>
     (case vl_chassis_number v of None \<Rightarrow> True
      | Some c \<Rightarrow> Some (coll c) \<notin> (map_option coll \<circ> vl_chassis_number) ` set (vehicle_listings db)) \<and>
     fk_opt u_id (users db) (vl_seller_id v) \<and> fk_opt u_id (users db) (vl_created_by_id v) \<and>
     fk_opt ss_id (sub_sellers db) (vl_sub_seller_id v) \<and>
     fk_opt lk_id (vehicle_makes db) (vl_make_id v) \<and> fk_opt lk_id (vehicle_models db) (vl_model_id v) \<and>
     fk_opt lk_id (vehicle_branches db) (vl_branch_id v) \<and> fk_opt lk_id (vehicle_colors db) (vl_color_id v) \<and>
     fk_opt lk_id (vehicle_key_options db) (vl_keys_option_id v) \<and>
     fk_opt lk_id (fuel_types db) (vl_fuel_type_id v) \<and>
     fk_opt lk_id (bidding_models db) (vl_bidding_model_id v)"

lemma fk_iff [simp]: "fk key rows i \<longleftrightarrow> i \<in> key ` set rows"
  by (simp add: fk_def)

lemma fk_opt_simps [simp]: "fk_opt key rows None" "fk_opt key rows (Some i) = fk key rows i"
  by (simp_all add: fk_opt_def)

end
