(* ===== verification/Domain_Errors.thy ===== *)
theory Domain_Errors
  imports Py_Uuid
begin

text \<open>
  The exceptions of the model. The first group is \<^verbatim>\<open>services/exceptions.py\<close>, with the values
  each one carries; then FastAPI's \<open>HTTPException\<close> (status, detail, extra headers) into
  which \<^verbatim>\<open>api/v1\<close> turns them; then the built-in and third-party exceptions that the code
  catches by name or lets through.
\<close>

datatype exn =
    AuctionNotFoundError uuid
  | AuctionNotLiveError uuid string
  | BidNotEligibleError string
  | BidPublishError
  | MalformedBidEvent string
  | EmailAlreadyRegisteredError string
  | InvalidCredentialsError
  | AccountInactiveError
  | AccountLockedError int
  | InvalidTokenError
  | VehicleLookupNotFoundError string uuid
  | DuplicateChassisNumberError string
  | RoleNotFoundError string
  | LastRoleRemovalError uuid
  | HTTPException int string "(string \<times> string) list"
  | KeyError string
  | ValueError
  | TypeError
  | AttributeError
  | AssertionError
  | RuntimeError string
  | InvalidOperation
  | UnicodeDecodeError
  | MultipleResultsFound
  | NoResultFound
  | IntegrityError
  | DBAPIError
  | PendingRollbackError
  | MissingGreenlet
  | KafkaError
  | RedisError
  | WebSocketError
  | VerificationError

text \<open>The message each domain exception passes to \<open>super().__init__\<close>.\<close>

fun exn_text :: "exn \<Rightarrow> string" where
  "exn_text (AuctionNotFoundError a) = ''Auction not found: '' @ uuid_text a"
| "exn_text (AuctionNotLiveError a s) =
     ''Auction '' @ uuid_text a @ '' is not accepting bids (status='' @ s @ '')''"
| "exn_text (BidNotEligibleError reason) = reason"
| "exn_text (MalformedBidEvent m) = m"
| "exn_text (EmailAlreadyRegisteredError e) = ''Email already registered: '' @ e"
| "exn_text (AccountLockedError n) = ''Account locked; retry in '' @ int_text n @ ''s''"
| "exn_text (VehicleLookupNotFoundError f v) = ''Invalid '' @ f @ '': '' @ uuid_text v"
| "exn_text (DuplicateChassisNumberError c) = ''Chassis number already submitted: '' @ c"
| "exn_text (RoleNotFoundError n) = ''Role not found: '' @ n"
| "exn_text (LastRoleRemovalError u) = ''Cannot remove the last role of user '' @ uuid_text u"
| "exn_text _ = []"

text \<open>The HTTP status codes the routers name.\<close>

abbreviation (input) "HTTP_200_OK \<equiv> 200 :: int"
abbreviation (input) "HTTP_201_CREATED \<equiv> 201 :: int"
abbreviation (input) "HTTP_202_ACCEPTED \<equiv> 202 :: int"
abbreviation (input) "HTTP_204_NO_CONTENT \<equiv> 204 :: int"
abbreviation (input) "HTTP_400_BAD_REQUEST \<equiv> 400 :: int"
abbreviation (input) "HTTP_401_UNAUTHORIZED \<equiv> 401 :: int"
abbreviation (input) "HTTP_403_FORBIDDEN \<equiv> 403 :: int"
abbreviation (input) "HTTP_404_NOT_FOUND \<equiv> 404 :: int"
abbreviation (input) "HTTP_409_CONFLICT \<equiv> 409 :: int"
abbreviation (input) "HTTP_422_UNPROCESSABLE \<equiv> 422 :: int"
abbreviation (input) "HTTP_429_TOO_MANY_REQUESTS \<equiv> 429 :: int"
abbreviation (input) "HTTP_500_INTERNAL \<equiv> 500 :: int"
abbreviation (input) "HTTP_503_SERVICE_UNAVAILABLE \<equiv> 503 :: int"

text \<open>
  The error messages name the offending value: two different users, or two different
  auctions, never give the same text.
\<close>

lemma last_role_text_inject:
  "exn_text (LastRoleRemovalError u) = exn_text (LastRoleRemovalError v) \<longleftrightarrow> u = v"
  by simp

end
