(* ===== verification/App_Settings.thy ===== *)
theory App_Settings
  imports Domain_Errors
begin

text \<open>
  \<^verbatim>\<open>core/config.py\<close>: the typed settings, their defaults and the checks made once at
  start-up. Reading the environment and \<^verbatim>\<open>.env\<close> (pydantic-settings) is outside the model:
  \<open>validate_settings\<close> takes the values that were read.
\<close>

record settings =
  environment :: string
  app_name :: string
  log_level :: string
  log_json :: bool
  api_v1_prefix :: string
  cors_allowed_origins :: "string list"
  database_url :: string
  database_pool_size :: int
  database_max_overflow :: int
  database_pool_timeout :: int
  database_pool_recycle :: int
  database_echo :: bool
  redis_url :: string
  kafka_bootstrap_servers :: string
  kafka_consumer_group :: string
  kafka_topic_bids :: string
  kafka_topic_bid_results :: string
  auth_issuer :: string
  auth_audience :: string
  auth_jwks_url :: string
  auth_jwt_algorithms :: "string list"
  auth_jwt_secret :: string
  auth_local_issuer :: string
  auth_access_token_ttl_seconds :: int
  auth_refresh_token_ttl_seconds :: int
  auth_password_reset_ttl_seconds :: int
  auth_email_verification_ttl_seconds :: int
  auth_max_failed_logins :: int
  auth_lockout_seconds :: int
  frontend_base_url :: string
  upload_dir :: string
  upload_base_url :: string
  otel_exporter_otlp_endpoint :: "string option"
  otel_service_name :: string
  prometheus_metrics_path :: string

definition DEV_JWT_SECRET :: string where
  "DEV_JWT_SECRET = ''dev-insecure-change-me''"

text \<open>The defaults; the arguments are the fields without one.\<close>

definition default_settings ::
    "string \<Rightarrow> string \<Rightarrow> string \<Rightarrow> string \<Rightarrow> string \<Rightarrow> string \<Rightarrow> settings" where
  "default_settings db redis kafka issuer audience jwks = \<lparr>
     environment = ''local'', app_name = ''awa-backend'', log_level = ''INFO'', log_json = False,
     api_v1_prefix = ''/api/v1'', cors_allowed_origins = [],
     database_url = db, database_pool_size = 10, database_max_overflow = 20,
     database_pool_timeout = 30, database_pool_recycle = 1800, database_echo = False,
     redis_url = redis,
     kafka_bootstrap_servers = kafka, kafka_consumer_group = ''awa-auction-workers'',
     kafka_topic_bids = ''auction.bids'', kafka_topic_bid_results = ''auction.bid_results'',
     auth_issuer = issuer, auth_audience = audience, auth_jwks_url = jwks,
     auth_jwt_algorithms = [''RS256''],
     auth_jwt_secret = DEV_JWT_SECRET, auth_local_issuer = ''awa-backend'',
     auth_access_token_ttl_seconds = 900, auth_refresh_token_ttl_seconds = 2592000,
     auth_password_reset_ttl_seconds = 3600, auth_email_verification_ttl_seconds = 86400,
     auth_max_failed_logins = 5, auth_lockout_seconds = 900,
     frontend_base_url = ''http://localhost:5173'',
     upload_dir = ''/tmp/uploads'', upload_base_url = ''/static/uploads'',
     otel_exporter_otlp_endpoint = None, otel_service_name = ''awa-backend'',
     prometheus_metrics_path = ''/metrics'' \<rparr>"

definition upper_char :: "char \<Rightarrow> char" where
  "upper_char c = (let n = of_char c :: nat in if 97 \<le> n \<and> n \<le> 122 then char_of (n - 32) else c)"

text \<open>\<open>v.upper()\<close>, on the letters that can occur in an accepted level.\<close>

definition upper :: "string \<Rightarrow> string" where
  "upper s = map upper_char s"

definition LOG_LEVELS :: "string list" where
  "LOG_LEVELS = [''DEBUG'', ''INFO'', ''WARNING'', ''ERROR'', ''CRITICAL'']"

definition validate_log_level :: "string \<Rightarrow> exn + string" where
  "validate_log_level v = (let u = upper v in if u \<in> set LOG_LEVELS then Inr u else Inl ValueError)"

definition validate_prod_secrets :: "settings \<Rightarrow> exn + settings" where
  "validate_prod_secrets s =
     (if environment s = ''production'' \<and> auth_jwt_secret s = DEV_JWT_SECRET
      then Inl ValueError else Inr s)"

definition is_production :: "settings \<Rightarrow> bool" where
  "is_production s \<longleftrightarrow> environment s = ''production''"

text \<open>
  The construction of \<open>Settings\<close>: the \<open>pattern\<close> of \<open>environment\<close>, the field validator
  of \<open>log_level\<close>, then the model validator.
\<close>

definition validate_settings :: "settings \<Rightarrow> exn + settings" where
  "validate_settings s =
     (if environment s \<notin> set [''local'', ''dev'', ''staging'', ''production''] then Inl ValueError
      else bind_result (validate_log_level (log_level s))
             (\<lambda>u. validate_prod_secrets (s\<lparr>log_level := u\<rparr>)))"

lemma upper_char_idem [simp]: "upper_char (upper_char c) = upper_char c"
proof -
  have "(of_char c :: nat) < 256" by (rule of_char_lt_256)
  then show ?thesis by (auto simp: upper_char_def Let_def)
qed

lemma upper_idem [simp]: "upper (upper s) = upper s"
  by (simp add: upper_def)

lemma validate_log_level_Inr:
  "validate_log_level v = Inr u \<longleftrightarrow> u = upper v \<and> upper v \<in> set LOG_LEVELS"
  by (auto simp: validate_log_level_def Let_def)

lemma validate_prod_secrets_Inr:
  "validate_prod_secrets s = Inr t \<longleftrightarrow>
   t = s \<and> \<not> (is_production s \<and> auth_jwt_secret s = DEV_JWT_SECRET)"
  by (auto simp: validate_prod_secrets_def is_production_def)

lemma validate_settings_Inr:
  "validate_settings s = Inr t \<longleftrightarrow>
     t = s\<lparr>log_level := upper (log_level s)\<rparr> \<and> upper (log_level s) \<in> set LOG_LEVELS
     \<and> environment s \<in> set [''local'', ''dev'', ''staging'', ''production'']
     \<and> \<not> (is_production s \<and> auth_jwt_secret s = DEV_JWT_SECRET)"
  by (auto simp: validate_settings_def validate_log_level_Inr validate_prod_secrets_Inr
      is_production_def simp del: set_simps)

end
