(* ===== verification/Py_Json.thy ===== *)
theory Py_Json
  imports Py_Uuid Py_Decimal
begin

text \<open>
  The Python values that \<^verbatim>\<open>json.loads\<close> and \<^verbatim>\<open>jwt.decode\<close> return, and the built-in
  conversions the sources apply to them: \<open>str\<close>, \<open>Decimal\<close>, \<open>uuid.UUID(str(v))\<close> and
  \<open>uuid.UUID(v)\<close>. A float carries its exact value and its \<open>repr\<close>.
\<close>

datatype json =
    JNull
  | JBool bool
  | JInt int
  | JFloat decimal string
  | JStr string
  | JArr "json list"
  | JObj "(string \<times> json) list"

text \<open>
  Why a conversion failed: the Python exception. \<open>Not_Parsed\<close> is the \<open>ValueError\<close> of
  \<open>uuid.UUID\<close> or the \<open>InvalidOperation\<close> of \<open>Decimal\<close>, which the bid parser expects; the
  others it does not.
\<close>

datatype conversion_error = Not_Parsed | Wrong_Type | Bad_Sequence | No_Attribute

text \<open>\<open>repr(v)\<close> and \<open>str(v)\<close>.\<close>

definition repr_char :: "char \<Rightarrow> char \<Rightarrow> string" where
  "repr_char q c =
     (let n = of_char c :: nat in
      if c = q \<or> c = CHR 0x5C then [CHR 0x5C, c]
      else if n = 9 then [CHR 0x5C, CHR ''t'']
      else if n = 10 then [CHR 0x5C, CHR ''n'']
      else if n = 13 then [CHR 0x5C, CHR ''r'']
      else if n < 32 \<or> 127 \<le> n \<and> n \<le> 160 \<or> n = 173 then [CHR 0x5C, CHR ''x''] @ hex_text 2 n
      else [c])"

definition repr_text :: "string \<Rightarrow> string" where
  "repr_text s =
     (let q = if CHR 0x27 \<in> set s \<and> CHR 0x22 \<notin> set s then CHR 0x22 else CHR 0x27
      in [q] @ concat (map (repr_char q) s) @ [q])"

fun py_repr :: "json \<Rightarrow> string" where
  "py_repr JNull = ''None''"
| "py_repr (JBool b) = (if b then ''True'' else ''False'')"
| "py_repr (JInt i) = int_text i"
| "py_repr (JFloat _ r) = r"
| "py_repr (JStr s) = repr_text s"
| "py_repr (JArr xs) = ''['' @ join '', '' (map py_repr xs) @ '']''"
| "py_repr (JObj kvs) = ''{'' @ join '', '' (map (\<lambda>(k, v). repr_text k @ '': '' @ py_repr v) kvs) @ ''}''"

fun py_str :: "json \<Rightarrow> string" where
  "py_str (JStr s) = s"
| "py_str v = py_repr v"

text \<open>\<open>claims.get(k, default)\<close>.\<close>

definition get_key :: "(string \<times> json) list \<Rightarrow> string \<Rightarrow> json \<Rightarrow> json" where
  "get_key kvs k d = (case map_of kvs k of None \<Rightarrow> d | Some v \<Rightarrow> v)"

text \<open>\<open>uuid.UUID(str(v))\<close>.\<close>

definition uuid_of_str :: "json \<Rightarrow> conversion_error + uuid" where
  "uuid_of_str v = (case uuid_of_text (py_str v) of None \<Rightarrow> Inl Not_Parsed | Some u \<Rightarrow> Inr u)"

text \<open>
  \<open>uuid.UUID(v)\<close> without \<open>str\<close>: text only. \<open>None\<close> is a \<open>TypeError\<close> (no argument
  given), anything else has no \<open>replace\<close> attribute.
\<close>

fun uuid_of_json :: "json \<Rightarrow> conversion_error + uuid" where
  "uuid_of_json (JStr s) = (case uuid_of_text s of None \<Rightarrow> Inl Not_Parsed | Some u \<Rightarrow> Inr u)"
| "uuid_of_json JNull = Inl Wrong_Type"
| "uuid_of_json _ = Inl No_Attribute"

fun as_long :: "json \<Rightarrow> int option" where
  "as_long (JInt i) = Some i"
| "as_long (JBool b) = Some (if b then 1 else 0)"
| "as_long _ = None"

definition sign_of :: "json \<Rightarrow> bool option" where
  "sign_of v = (case as_long v of Some i \<Rightarrow> if i = 0 then Some False else if i = 1 then Some True else None
                | None \<Rightarrow> None)"

fun coefficient_of :: "nat \<Rightarrow> json list \<Rightarrow> nat option" where
  "coefficient_of acc [] = Some acc"
| "coefficient_of acc (d # ds) =
     (case as_long d of
        Some i \<Rightarrow> if 0 \<le> i \<and> i \<le> 9 then coefficient_of (acc * 10 + nat i) ds else None
      | None \<Rightarrow> None)"

text \<open>\<open>Decimal([sign, digits, exponent])\<close>.\<close>

definition decimal_of_seq :: "json list \<Rightarrow> decimal option" where
  "decimal_of_seq xs =
     (case xs of
        [s, ds, e] \<Rightarrow>
          (case (sign_of s, ds) of
             (Some neg, JArr digits) \<Rightarrow>
               (case (e, coefficient_of 0 digits) of
                  (JStr f, Some c) \<Rightarrow>
                    if f = ''F'' then Some (Infinite neg)
                    else if f = ''n'' then Some (QuietNaN neg)
                    else if f = ''N'' then Some (SignalNaN neg) else None
                | (ex, Some c) \<Rightarrow> map_option (Finite neg c) (as_long ex)
                | _ \<Rightarrow> None)
           | _ \<Rightarrow> None)
      | _ \<Rightarrow> None)"

text \<open>\<open>Decimal(v)\<close>.\<close>

fun decimal_of_json :: "json \<Rightarrow> conversion_error + decimal" where
  "decimal_of_json (JStr s) = (case decimal_of_text s of None \<Rightarrow> Inl Not_Parsed | Some d \<Rightarrow> Inr d)"
| "decimal_of_json (JInt i) = Inr (Finite (i < 0) (nat \<bar>i\<bar>) 0)"
| "decimal_of_json (JBool b) = Inr (Finite False (if b then 1 else 0) 0)"
| "decimal_of_json (JFloat d _) = Inr d"
| "decimal_of_json (JArr xs) = (case decimal_of_seq xs of None \<Rightarrow> Inl Bad_Sequence | Some d \<Rightarrow> Inr d)"
| "decimal_of_json JNull = Inl Wrong_Type"
| "decimal_of_json (JObj _) = Inl Wrong_Type"

text \<open>What \<open>json.loads\<close> does with the bytes of a message.\<close>

datatype json_outcome = Json_Value json | Json_Decode_Error | Not_Utf8

lemma uuid_of_json_text [simp]:
  "uuid_of_json (JStr (uuid_text u)) = Inr u" "uuid_of_str (JStr (uuid_text u)) = Inr u"
  by (simp_all add: uuid_round_trip uuid_of_str_def)

lemma decimal_of_json_text [simp]:
  "is_finite d \<Longrightarrow> decimal_of_json (JStr (decimal_text d)) = Inr d"
  by (cases d) (simp_all add: decimal_round_trip del: decimal_text.simps)

text \<open>A string that is a UUID for one conversion is the same UUID for the other.\<close>

lemma uuid_conversions_agree: "uuid_of_str (JStr s) = uuid_of_json (JStr s)"
  by (simp add: uuid_of_str_def)

end
