(* ===== verification/Session.thy ===== *)
theory Session
  imports Schema_Tables App_Settings Py_Json
begin

text \<open>
  What a handler runs in. \<open>env\<close> holds what is outside the code: the settings, the behaviour
  of third-party libraries (collation and \<open>LIKE\<close> of the server, Argon2, SHA-256, JWT, JSON,
  Lua's \<open>tonumber\<close>) and the sources of time and randomness, one value per call. \<open>world\<close>
  is the state: the database as committed and as seen in the open transaction, the ORM's
  pending rows, Kafka, Redis and the upload directory. \<^verbatim>\<open>core/database.py\<close>'s session
  factory has autoflush off, so a pending row is invisible to queries until \<open>flush\<close>.
\<close>

section \<open>The environment\<close>

datatype argon2_outcome = Verified | VerifyMismatch | InvalidHash | VerifyFailed

record env =
  settings :: settings
  collate :: "string \<Rightarrow> string"
  ilike :: "string \<Rightarrow> string \<Rightarrow> bool"
  rejects_value :: "row \<Rightarrow> bool"
  stored_numeric :: "decimal \<Rightarrow> decimal"
  failed_session :: "exn option"
  argon2_hash :: "nat \<Rightarrow> string \<Rightarrow> string"
  argon2_verify :: "string \<Rightarrow> string \<Rightarrow> argon2_outcome"
  argon2_needs_rehash :: "string \<Rightarrow> bool option"
  sha256_hex :: "string \<Rightarrow> string"
  jwt_encode :: "(string \<times> json) list \<Rightarrow> string \<Rightarrow> string \<Rightarrow> string"
  jwt_decode :: "string \<Rightarrow> string \<Rightarrow> string list \<Rightarrow> string \<Rightarrow> time \<Rightarrow> (string \<times> json) list option"
  json_dumps :: "json \<Rightarrow> string"
  model_dump_json :: "json \<Rightarrow> string"
  json_loads :: "string \<Rightarrow> json_outcome"
  lua_tonumber :: "string \<Rightarrow> rat option"
  app_clock :: "nat \<Rightarrow> time"
  db_clock :: "nat \<Rightarrow> time"
  uuid_source :: "nat \<Rightarrow> uuid"
  token_source :: "nat \<Rightarrow> nat \<Rightarrow> string"
  kafka_accepts :: "nat \<Rightarrow> bool"
  redis_answers :: "nat \<Rightarrow> bool"
  isoformat :: "time \<Rightarrow> string"

section \<open>The world\<close>

record redis_bid =
  rb_amount :: string
  rb_bidder_id :: string
  rb_ts :: string

record kafka_message =
  km_topic :: string
  km_key :: string
  km_value :: string

record world =
  committed :: database
  work :: database
  pending :: "row list"
  deactive :: bool
  app_ticks :: nat
  db_ticks :: nat
  uuids_drawn :: nat
  tokens_drawn :: nat
  salts_drawn :: nat
  kafka_sends :: nat
  kafka_log :: "kafka_message list"
  redis_calls :: nat
  redis_bids :: "string \<rightharpoonup> redis_bid"
  redis_published :: "(string \<times> string) list"
  upload_files :: "(string \<times> string) list"

text \<open>A world between two transactions: the session shows the committed data.\<close>

definition clean :: "world \<Rightarrow> bool" where
  "clean w \<longleftrightarrow> work w = committed w \<and> pending w = [] \<and> \<not> deactive w"

definition initial_world :: "database \<Rightarrow> world" where
  "initial_world db = \<lparr> committed = db, work = db, pending = [], deactive = False,
     app_ticks = 0, db_ticks = 0, uuids_drawn = 0, tokens_drawn = 0, salts_drawn = 0,
     kafka_sends = 0, kafka_log = [], redis_calls = 0, redis_bids = Map.empty,
     redis_published = [], upload_files = [] \<rparr>"

lemma clean_initial [simp]: "clean (initial_world db)"
  by (simp add: clean_def initial_world_def)

section \<open>Computations\<close>

type_synonym 'a comp = "world \<Rightarrow> (exn + 'a) \<times> world"

definition ret :: "'a \<Rightarrow> 'a comp" where
  "ret x w = (Inr x, w)"

definition throw :: "exn \<Rightarrow> 'a comp" where
  "throw e w = (Inl e, w)"

definition bind :: "'a comp \<Rightarrow> ('a \<Rightarrow> 'b comp) \<Rightarrow> 'b comp" where
  "bind m f w = (case m w of (r, w') \<Rightarrow> (case r of Inl e \<Rightarrow> (Inl e, w') | Inr x \<Rightarrow> f x w'))"

text \<open>\<open>try: m except ...: handler\<close>; the handler sees every exception.\<close>

definition catch :: "'a comp \<Rightarrow> (exn \<Rightarrow> 'a comp) \<Rightarrow> 'a comp" where
  "catch m h w = (case m w of (r, w') \<Rightarrow> (case r of Inl e \<Rightarrow> h e w' | Inr x \<Rightarrow> (Inr x, w')))"

definition lift :: "exn + 'a \<Rightarrow> 'a comp" where
  "lift r w = (r, w)"

fun mapM :: "('a \<Rightarrow> 'b comp) \<Rightarrow> 'a list \<Rightarrow> 'b list comp" where
  "mapM f [] = ret []"
| "mapM f (x # xs) = bind (f x) (\<lambda>y. bind (mapM f xs) (\<lambda>ys. ret (y # ys)))"

lemma ret_run [run_simps]: "ret x w = (Inr x, w)" by (simp add: ret_def)
lemma throw_run [run_simps]: "throw e w = (Inl e, w)" by (simp add: throw_def)
lemma lift_run [run_simps]: "lift r w = (r, w)" by (simp add: lift_def)

lemma bind_run [run_simps]:
  "bind m f w = (case m w of (r, w') \<Rightarrow> (case r of Inl e \<Rightarrow> (Inl e, w') | Inr x \<Rightarrow> f x w'))"
  by (simp add: bind_def)

lemma catch_run [run_simps]:
  "catch m h w = (case m w of (r, w') \<Rightarrow> (case r of Inl e \<Rightarrow> h e w' | Inr x \<Rightarrow> (Inr x, w')))"
  by (simp add: catch_def)

lemma bind_assoc: "bind (bind m f) g = bind m (\<lambda>x. bind (f x) g)"
  by (rule ext) (simp add: bind_def split: prod.splits sum.splits)

lemma bind_ret_right [simp]: "bind m ret = m"
  by (rule ext) (simp add: bind_def ret_def split: prod.splits sum.splits)

section \<open>Time and randomness\<close>

definition now :: "env \<Rightarrow> time comp" where
  "now env w = (Inr (app_clock env (app_ticks w)), w\<lparr>app_ticks := Suc (app_ticks w)\<rparr>)"

definition uuid4 :: "env \<Rightarrow> uuid comp" where
  "uuid4 env w = (Inr (uuid_source env (uuids_drawn w)), w\<lparr>uuids_drawn := Suc (uuids_drawn w)\<rparr>)"

text \<open>\<open>secrets.token_urlsafe(n)\<close>.\<close>

definition token_urlsafe :: "env \<Rightarrow> nat \<Rightarrow> string comp" where
  "token_urlsafe env n w =
     (Inr (token_source env n (tokens_drawn w)), w\<lparr>tokens_drawn := Suc (tokens_drawn w)\<rparr>)"

declare now_def [run_simps] uuid4_def [run_simps] token_urlsafe_def [run_simps]

abbreviation second :: time where "second \<equiv> 1000000"

section \<open>The ORM session\<close>

text \<open>
  A failed \<open>flush\<close> rolls the transaction back and leaves the session unusable until
  \<open>rollback\<close>: \<open>failed_session\<close> is what the next use of it raises.
\<close>

definition usable :: "env \<Rightarrow> world \<Rightarrow> exn + unit" where
  "usable env w =
     (if deactive w then (case failed_session env of Some e \<Rightarrow> Inl e | None \<Rightarrow> Inr ()) else Inr ())"

definition query :: "env \<Rightarrow> (database \<Rightarrow> exn + 'a) \<Rightarrow> 'a comp" where
  "query env q w = (case usable env w of Inl e \<Rightarrow> (Inl e, w) | Inr _ \<Rightarrow> (q (work w), w))"

definition assign :: "(database \<Rightarrow> database) \<Rightarrow> unit comp" where
  "assign f w = (Inr (), w\<lparr>work := f (work w)\<rparr>)"

definition add :: "row \<Rightarrow> unit comp" where
  "add r w = (Inr (), w\<lparr>pending := pending w @ [r]\<rparr>)"

fun stored_row :: "env \<Rightarrow> row \<Rightarrow> row" where
  "stored_row env (RBid b) = RBid (b\<lparr>b_amount := stored_numeric env (b_amount b)\<rparr>)"
| "stored_row env (RListing v) =
     RListing (v\<lparr>vl_target_selling_price := map_option (stored_numeric env) (vl_target_selling_price v),
                 vl_minimum_selling_price := map_option (stored_numeric env) (vl_minimum_selling_price v)\<rparr>)"
| "stored_row env r = r"

fun flush_rows :: "env \<Rightarrow> row list \<Rightarrow> nat \<Rightarrow> database \<Rightarrow> (exn + database) \<times> nat" where
  "flush_rows env [] t db = (Inr db, t)"
| "flush_rows env (r # rs) t db =
     (if rejects_value env r then (Inl DBAPIError, t)
      else (let s = stored_row env r in
            if integrity_ok (collate env) s db
            then flush_rows env rs (Suc t) (insert_row (db_clock env t) s db)
            else (Inl IntegrityError, t)))"

definition flush :: "env \<Rightarrow> unit comp" where
  "flush env w =
     (case usable env w of
        Inl e \<Rightarrow> (Inl e, w)
      | Inr _ \<Rightarrow>
          (case flush_rows env (pending w) (db_ticks w) (work w) of
             (Inr db, t) \<Rightarrow> (Inr (), w\<lparr>work := db, pending := [], db_ticks := t\<rparr>)
           | (Inl e, t) \<Rightarrow>
               (Inl e, w\<lparr>work := committed w, pending := [], deactive := True, db_ticks := t\<rparr>)))"

definition rollback :: "unit comp" where
  "rollback w = (Inr (), w\<lparr>work := committed w, pending := [], deactive := False\<rparr>)"

definition commit :: "env \<Rightarrow> unit comp" where
  "commit env = bind (flush env) (\<lambda>_ w. (Inr (), w\<lparr>committed := work w\<rparr>))"

text \<open>\<open>core.database.session_scope\<close>: commit on a clean exit, roll back and re-raise otherwise.\<close>

definition session_scope :: "env \<Rightarrow> 'a comp \<Rightarrow> 'a comp" where
  "session_scope env body =
     catch (bind body (\<lambda>x. bind (commit env) (\<lambda>_. bind rollback (\<lambda>_. ret x))))
           (\<lambda>e. bind rollback (\<lambda>_. throw e))"

text \<open>
  \<open>core.database.get_db_session\<close>: the request's session; closing it drops whatever was not
  committed, with or without an exception.
\<close>

definition request_session :: "'a comp \<Rightarrow> 'a comp" where
  "request_session body =
     catch (bind body (\<lambda>x. bind rollback (\<lambda>_. ret x))) (\<lambda>e. bind rollback (\<lambda>_. throw e))"

declare assign_def [run_simps] add_def [run_simps] rollback_def [run_simps]

lemma usable_active [simp]: "\<not> deactive w \<Longrightarrow> usable env w = Inr ()"
  by (simp add: usable_def)

lemma query_run [run_simps]:
  "query env q w = (case usable env w of Inl e \<Rightarrow> (Inl e, w) | Inr _ \<Rightarrow> (q (work w), w))"
  by (simp add: query_def)

lemma flush_nothing: "\<not> deactive w \<Longrightarrow> pending w = [] \<Longrightarrow> flush env w = (Inr (), w)"
  by (simp add: flush_def)

lemma commit_nothing_pending:
  "\<not> deactive w \<Longrightarrow> pending w = [] \<Longrightarrow> commit env w = (Inr (), w\<lparr>committed := work w\<rparr>)"
  by (simp add: commit_def bind_def flush_nothing)

lemma flush_one:
  "\<not> deactive w \<Longrightarrow> pending w = [r] \<Longrightarrow> \<not> rejects_value env r \<Longrightarrow>
   integrity_ok (collate env) (stored_row env r) (work w) \<Longrightarrow>
   flush env w = (Inr (), w\<lparr>work := insert_row (db_clock env (db_ticks w)) (stored_row env r) (work w),
                            pending := [], db_ticks := Suc (db_ticks w)\<rparr>)"
  by (simp add: flush_def Let_def)

lemma flush_one_violation:
  "\<not> deactive w \<Longrightarrow> pending w = [r] \<Longrightarrow> \<not> rejects_value env r \<Longrightarrow>
   \<not> integrity_ok (collate env) (stored_row env r) (work w) \<Longrightarrow>
   flush env w = (Inl IntegrityError, w\<lparr>work := committed w, pending := [], deactive := True\<rparr>)"
  by (simp add: flush_def Let_def)

lemma flush_one_cases:
  "\<not> deactive w \<Longrightarrow> pending w = [r] \<Longrightarrow>
   flush env w =
     (if rejects_value env r then (Inl DBAPIError, w\<lparr>work := committed w, pending := [], deactive := True\<rparr>)
      else if integrity_ok (collate env) (stored_row env r) (work w)
      then (Inr (), w\<lparr>work := insert_row (db_clock env (db_ticks w)) (stored_row env r) (work w),
                      pending := [], db_ticks := Suc (db_ticks w)\<rparr>)
      else (Inl IntegrityError, w\<lparr>work := committed w, pending := [], deactive := True\<rparr>))"
  by (simp add: flush_def Let_def)

text \<open>Independent updates of the world, in the order of its fields.\<close>

lemma world_order [run_simps]:
  fixes w :: world
  shows
  "w\<lparr>work := d, committed := c\<rparr> = w\<lparr>committed := c, work := d\<rparr>"
  "w\<lparr>pending := p, committed := c\<rparr> = w\<lparr>committed := c, pending := p\<rparr>"
  "w\<lparr>deactive := f, committed := c\<rparr> = w\<lparr>committed := c, deactive := f\<rparr>"
  "w\<lparr>app_ticks := t, committed := c\<rparr> = w\<lparr>committed := c, app_ticks := t\<rparr>"
  "w\<lparr>db_ticks := t', committed := c\<rparr> = w\<lparr>committed := c, db_ticks := t'\<rparr>"
  "w\<lparr>uuids_drawn := u, committed := c\<rparr> = w\<lparr>committed := c, uuids_drawn := u\<rparr>"
  "w\<lparr>tokens_drawn := k, committed := c\<rparr> = w\<lparr>committed := c, tokens_drawn := k\<rparr>"
  "w\<lparr>salts_drawn := s, committed := c\<rparr> = w\<lparr>committed := c, salts_drawn := s\<rparr>"
  "w\<lparr>kafka_sends := n, committed := c\<rparr> = w\<lparr>committed := c, kafka_sends := n\<rparr>"
  "w\<lparr>kafka_log := l, committed := c\<rparr> = w\<lparr>committed := c, kafka_log := l\<rparr>"
  "w\<lparr>pending := p, work := d\<rparr> = w\<lparr>work := d, pending := p\<rparr>"
  "w\<lparr>deactive := f, work := d\<rparr> = w\<lparr>work := d, deactive := f\<rparr>"
  "w\<lparr>app_ticks := t, work := d\<rparr> = w\<lparr>work := d, app_ticks := t\<rparr>"
  "w\<lparr>db_ticks := t', work := d\<rparr> = w\<lparr>work := d, db_ticks := t'\<rparr>"
  "w\<lparr>uuids_drawn := u, work := d\<rparr> = w\<lparr>work := d, uuids_drawn := u\<rparr>"
  "w\<lparr>tokens_drawn := k, work := d\<rparr> = w\<lparr>work := d, tokens_drawn := k\<rparr>"
  "w\<lparr>salts_drawn := s, work := d\<rparr> = w\<lparr>work := d, salts_drawn := s\<rparr>"
  "w\<lparr>kafka_sends := n, work := d\<rparr> = w\<lparr>work := d, kafka_sends := n\<rparr>"
  "w\<lparr>kafka_log := l, work := d\<rparr> = w\<lparr>work := d, kafka_log := l\<rparr>"
  "w\<lparr>deactive := f, pending := p\<rparr> = w\<lparr>pending := p, deactive := f\<rparr>"
  "w\<lparr>app_ticks := t, pending := p\<rparr> = w\<lparr>pending := p, app_ticks := t\<rparr>"
  "w\<lparr>db_ticks := t', pending := p\<rparr> = w\<lparr>pending := p, db_ticks := t'\<rparr>"
  "w\<lparr>uuids_drawn := u, pending := p\<rparr> = w\<lparr>pending := p, uuids_drawn := u\<rparr>"
  "w\<lparr>tokens_drawn := k, pending := p\<rparr> = w\<lparr>pending := p, tokens_drawn := k\<rparr>"
  "w\<lparr>salts_drawn := s, pending := p\<rparr> = w\<lparr>pending := p, salts_drawn := s\<rparr>"
  "w\<lparr>kafka_sends := n, pending := p\<rparr> = w\<lparr>pending := p, kafka_sends := n\<rparr>"
  "w\<lparr>kafka_log := l, pending := p\<rparr> = w\<lparr>pending := p, kafka_log := l\<rparr>"
  "w\<lparr>app_ticks := t, deactive := f\<rparr> = w\<lparr>deactive := f, app_ticks := t\<rparr>"
  "w\<lparr>db_ticks := t', deactive := f\<rparr> = w\<lparr>deactive := f, db_ticks := t'\<rparr>"
  "w\<lparr>uuids_drawn := u, deactive := f\<rparr> = w\<lparr>deactive := f, uuids_drawn := u\<rparr>"
  "w\<lparr>tokens_drawn := k, deactive := f\<rparr> = w\<lparr>deactive := f, tokens_drawn := k\<rparr>"
  "w\<lparr>salts_drawn := s, deactive := f\<rparr> = w\<lparr>deactive := f, salts_drawn := s\<rparr>"
  "w\<lparr>kafka_sends := n, deactive := f\<rparr> = w\<lparr>deactive := f, kafka_sends := n\<rparr>"
  "w\<lparr>kafka_log := l, deactive := f\<rparr> = w\<lparr>deactive := f, kafka_log := l\<rparr>"
  "w\<lparr>db_ticks := t', app_ticks := t\<rparr> = w\<lparr>app_ticks := t, db_ticks := t'\<rparr>"
  "w\<lparr>uuids_drawn := u, app_ticks := t\<rparr> = w\<lparr>app_ticks := t, uuids_drawn := u\<rparr>"
  "w\<lparr>tokens_drawn := k, app_ticks := t\<rparr> = w\<lparr>app_ticks := t, tokens_drawn := k\<rparr>"
  "w\<lparr>salts_drawn := s, app_ticks := t\<rparr> = w\<lparr>app_ticks := t, salts_drawn := s\<rparr>"
  "w\<lparr>kafka_sends := n, app_ticks := t\<rparr> = w\<lparr>app_ticks := t, kafka_sends := n\<rparr>"
  "w\<lparr>kafka_log := l, app_ticks := t\<rparr> = w\<lparr>app_ticks := t, kafka_log := l\<rparr>"
  "w\<lparr>uuids_drawn := u, db_ticks := t'\<rparr> = w\<lparr>db_ticks := t', uuids_drawn := u\<rparr>"
  "w\<lparr>tokens_drawn := k, db_ticks := t'\<rparr> = w\<lparr>db_ticks := t', tokens_drawn := k\<rparr>"
  "w\<lparr>salts_drawn := s, db_ticks := t'\<rparr> = w\<lparr>db_ticks := t', salts_drawn := s\<rparr>"
  "w\<lparr>kafka_sends := n, db_ticks := t'\<rparr> = w\<lparr>db_ticks := t', kafka_sends := n\<rparr>"
  "w\<lparr>kafka_log := l, db_ticks := t'\<rparr> = w\<lparr>db_ticks := t', kafka_log := l\<rparr>"
  "w\<lparr>tokens_drawn := k, uuids_drawn := u\<rparr> = w\<lparr>uuids_drawn := u, tokens_drawn := k\<rparr>"
  "w\<lparr>salts_drawn := s, uuids_drawn := u\<rparr> = w\<lparr>uuids_drawn := u, salts_drawn := s\<rparr>"
  "w\<lparr>kafka_sends := n, uuids_drawn := u\<rparr> = w\<lparr>uuids_drawn := u, kafka_sends := n\<rparr>"
  "w\<lparr>kafka_log := l, uuids_drawn := u\<rparr> = w\<lparr>uuids_drawn := u, kafka_log := l\<rparr>"
  "w\<lparr>salts_drawn := s, tokens_drawn := k\<rparr> = w\<lparr>tokens_drawn := k, salts_drawn := s\<rparr>"
  "w\<lparr>kafka_sends := n, tokens_drawn := k\<rparr> = w\<lparr>tokens_drawn := k, kafka_sends := n\<rparr>"
  "w\<lparr>kafka_log := l, tokens_drawn := k\<rparr> = w\<lparr>tokens_drawn := k, kafka_log := l\<rparr>"
  "w\<lparr>kafka_sends := n, salts_drawn := s\<rparr> = w\<lparr>salts_drawn := s, kafka_sends := n\<rparr>"
  "w\<lparr>kafka_log := l, salts_drawn := s\<rparr> = w\<lparr>salts_drawn := s, kafka_log := l\<rparr>"
  "w\<lparr>kafka_log := l, kafka_sends := n\<rparr> = w\<lparr>kafka_sends := n, kafka_log := l\<rparr>"
  by simp_all

section \<open>One step of a computation\<close>

named_theorems step_simps \<open>the first step of a sequence, leaving the rest as it is\<close>

lemma bind_steps [step_simps]:
  "bind (ret x) f w = f x w"
  "bind (throw e) f w = (Inl e, w)"
  "bind (now env) ft w = ft (app_clock env (app_ticks w)) (w\<lparr>app_ticks := Suc (app_ticks w)\<rparr>)"
  "bind (uuid4 env) fu w = fu (uuid_source env (uuids_drawn w)) (w\<lparr>uuids_drawn := Suc (uuids_drawn w)\<rparr>)"
  "bind (token_urlsafe env n) fs w =
     fs (token_source env n (tokens_drawn w)) (w\<lparr>tokens_drawn := Suc (tokens_drawn w)\<rparr>)"
  "bind (assign g) h w = h () (w\<lparr>work := g (work w)\<rparr>)"
  "bind (add r) h w = h () (w\<lparr>pending := pending w @ [r]\<rparr>)"
  "bind (lift (Inl e)) f w = (Inl e, w)"
  "bind (lift (Inr x)) f w = f x w"
  "bind (bind m k) f w = bind m (\<lambda>y. bind (k y) f) w"
  by (simp_all add: bind_def ret_def throw_def now_def uuid4_def token_urlsafe_def assign_def add_def lift_def
      split: prod.splits sum.splits)

lemma bind_query [step_simps]:
  "\<not> deactive w \<Longrightarrow> bind (query env q) f w = (case q (work w) of Inl e \<Rightarrow> (Inl e, w) | Inr x \<Rightarrow> f x w)"
  by (simp add: bind_def query_def)

lemma bind_value: "m w = (Inr x, v) \<Longrightarrow> bind m f w = f x v"
  by (simp add: bind_def)

lemma bind_error: "m w = (Inl e, v) \<Longrightarrow> bind m f w = (Inl e, v)"
  by (simp add: bind_def)

declare world_order [step_simps]

section \<open>Queries with one result\<close>

text \<open>\<open>result.scalar_one_or_none()\<close>.\<close>

fun scalar_one_or_none :: "'a list \<Rightarrow> exn + 'a option" where
  "scalar_one_or_none [] = Inr None"
| "scalar_one_or_none [x] = Inr (Some x)"
| "scalar_one_or_none (_ # _ # _) = Inl MultipleResultsFound"

lemma scalar_one_or_none_SomeD:
  "scalar_one_or_none (filter P xs) = Inr (Some x) \<Longrightarrow> x \<in> set xs \<and> P x"
proof -
  assume a: "scalar_one_or_none (filter P xs) = Inr (Some x)"
  then have "filter P xs = [x]" by (cases "filter P xs" rule: scalar_one_or_none.cases) auto
  then have "x \<in> set (filter P xs)" by simp
  then show ?thesis by simp
qed

lemma scalar_one_or_none_None_iff [simp]: "scalar_one_or_none xs = Inr None \<longleftrightarrow> xs = []"
  by (cases xs rule: scalar_one_or_none.cases) auto

lemma scalar_one_or_none_total: "length xs \<le> 1 \<Longrightarrow> scalar_one_or_none xs = Inr (first_row xs)"
  by (cases xs rule: scalar_one_or_none.cases) auto

text \<open>\<open>db.get(Model, id)\<close>: by primary key.\<close>

definition get_by_id :: "('a \<Rightarrow> uuid) \<Rightarrow> 'a list \<Rightarrow> uuid \<Rightarrow> 'a option" where
  "get_by_id key rows i = first_row (filter (\<lambda>x. key x = i) rows)"

lemma get_by_id_SomeD: "get_by_id key rows i = Some x \<Longrightarrow> x \<in> set rows \<and> key x = i"
  by (auto simp: get_by_id_def dest: first_row_filterD)

lemma get_by_id_None_iff: "get_by_id key rows i = None \<longleftrightarrow> i \<notin> key ` set rows"
  by (auto simp: get_by_id_def filter_empty_conv)

lemma get_by_id_unique:
  "distinct (map key rows) \<Longrightarrow> x \<in> set rows \<Longrightarrow> get_by_id key rows (key x) = Some x"
  by (simp add: get_by_id_def filter_key_unique)

text \<open>Text comparison in SQL, under the server's collation.\<close>

definition sql_eq :: "env \<Rightarrow> string \<Rightarrow> string \<Rightarrow> bool" where
  "sql_eq env a b \<longleftrightarrow> collate env a = collate env b"

lemma sql_eq_refl [simp]: "sql_eq env a a"
  by (simp add: sql_eq_def)

lemma sql_eq_sym: "sql_eq env a b \<longleftrightarrow> sql_eq env b a"
  by (auto simp: sql_eq_def)

end
