(* ===== verification/Session_Laws.thy ===== *)
theory Session_Laws
  imports Session
begin

text \<open>
  The contract between the services and the ORM session: an invariant of databases that the
  declared constraints of \<^verbatim>\<open>models/\<close> make every insertion keep is kept by \<open>flush\<close>,
  \<open>commit\<close>, \<open>rollback\<close> and the two session context managers, so a service only has to
  show it for its own assignments. The invariant \<open>schema_ok\<close> (keys, unique columns and
  foreign keys) is an instance.
\<close>

named_theorems keeps_intros \<open>a computation keeps an invariant of databases\<close>

section \<open>Computations that keep an invariant\<close>

definition keeps :: "(database \<Rightarrow> bool) \<Rightarrow> 'a comp \<Rightarrow> bool" where
  "keeps I m \<longleftrightarrow> (\<forall>w. I (work w) \<and> I (committed w) \<longrightarrow>
     I (work (snd (m w))) \<and> I (committed (snd (m w))))"

lemma keepsD:
  "keeps I m \<Longrightarrow> I (work w) \<Longrightarrow> I (committed w) \<Longrightarrow> m w = (r, w') \<Longrightarrow> I (work w') \<and> I (committed w')"
  unfolding keeps_def by (metis snd_conv)

lemma keeps_ret [keeps_intros]: "keeps I (ret x)"
  and keeps_throw [keeps_intros]: "keeps I (throw e)"
  and keeps_lift [keeps_intros]: "keeps I (lift r)"
  and keeps_now [keeps_intros]: "keeps I (now env)"
  and keeps_uuid4 [keeps_intros]: "keeps I (uuid4 env)"
  and keeps_token [keeps_intros]: "keeps I (token_urlsafe env n)"
  and keeps_add [keeps_intros]: "keeps I (add q)"
  and keeps_rollback [keeps_intros]: "keeps I rollback"
  by (simp_all add: keeps_def run_simps)

lemma keeps_query [keeps_intros]: "keeps I (query env q)"
  by (simp add: keeps_def run_simps split: sum.splits)

lemma keeps_assign [keeps_intros]: "(\<And>db. I db \<Longrightarrow> I (f db)) \<Longrightarrow> keeps I (assign f)"
  by (simp add: keeps_def run_simps)

lemma keeps_bind [keeps_intros]:
  assumes "keeps I m" and "\<And>x. keeps I (f x)" shows "keeps I (bind m f)"
  unfolding keeps_def
proof (intro allI impI)
  fix w :: world assume w: "I (work w) \<and> I (committed w)"
  obtain r w' where m: "m w = (r, w')" by (cases "m w")
  with assms(1) w have w': "I (work w') \<and> I (committed w')" by (auto dest: keepsD)
  then show "I (work (snd (bind m f w))) \<and> I (committed (snd (bind m f w)))"
    using m assms(2) by (cases r) (auto simp: bind_def keeps_def)
qed

lemma keeps_catch [keeps_intros]:
  assumes "keeps I m" and "\<And>e. keeps I (h e)" shows "keeps I (catch m h)"
  unfolding keeps_def
proof (intro allI impI)
  fix w :: world assume w: "I (work w) \<and> I (committed w)"
  obtain r w' where m: "m w = (r, w')" by (cases "m w")
  with assms(1) w have w': "I (work w') \<and> I (committed w')" by (auto dest: keepsD)
  then show "I (work (snd (catch m h w))) \<and> I (committed (snd (catch m h w)))"
    using m assms(2) by (cases r) (auto simp: catch_def keeps_def)
qed

lemma keeps_if [keeps_intros]: "(b \<Longrightarrow> keeps I m) \<Longrightarrow> (\<not> b \<Longrightarrow> keeps I n) \<Longrightarrow> keeps I (if b then m else n)"
  by simp

lemma keeps_case_option [keeps_intros]:
  "(v = None \<Longrightarrow> keeps I m) \<Longrightarrow> (\<And>x. v = Some x \<Longrightarrow> keeps I (f x)) \<Longrightarrow>
   keeps I (case v of None \<Rightarrow> m | Some x \<Rightarrow> f x)"
  by (cases v) auto

lemma keeps_case_sum [keeps_intros]:
  "(\<And>e. v = Inl e \<Longrightarrow> keeps I (g e)) \<Longrightarrow> (\<And>x. v = Inr x \<Longrightarrow> keeps I (f x)) \<Longrightarrow>
   keeps I (case v of Inl e \<Rightarrow> g e | Inr x \<Rightarrow> f x)"
  by (cases v) auto

lemma keeps_case_prod [keeps_intros]:
  "(\<And>a b. v = (a, b) \<Longrightarrow> keeps I (f a b)) \<Longrightarrow> keeps I (case v of (a, b) \<Rightarrow> f a b)"
  by (cases v) auto

lemma keeps_Let [keeps_intros]: "(\<And>x. x = v \<Longrightarrow> keeps I (f x)) \<Longrightarrow> keeps I (let x = v in f x)"
  by simp

lemma keeps_mapM [keeps_intros]: "(\<And>x. keeps I (f x)) \<Longrightarrow> keeps I (mapM f xs)"
  by (induction xs) (auto intro!: keeps_intros)

text \<open>The same from one world, for a step whose effect depends on what was read before.\<close>

definition keeps_at :: "(database \<Rightarrow> bool) \<Rightarrow> world \<Rightarrow> 'a comp \<Rightarrow> bool" where
  "keeps_at I w m \<longleftrightarrow> (I (work w) \<and> I (committed w) \<longrightarrow>
     I (work (snd (m w))) \<and> I (committed (snd (m w))))"

lemma keeps_at_all: "keeps I m \<longleftrightarrow> (\<forall>w. keeps_at I w m)"
  by (simp add: keeps_def keeps_at_def)

lemma keeps_at_keeps: "keeps I m \<Longrightarrow> keeps_at I w m"
  by (simp add: keeps_at_all)

lemma keeps_at_bind:
  assumes "keeps_at I w m" and "\<And>x w'. m w = (Inr x, w') \<Longrightarrow> keeps_at I w' (f x)"
  shows "keeps_at I w (bind m f)"
  using assms by (auto simp: keeps_at_def bind_def split: prod.splits sum.splits)

section \<open>Computations that carry a fact about the open transaction\<close>

text \<open>If the computation returns, what held of the open transaction still does.\<close>

named_theorems carries_intros \<open>a computation carries a fact about the open transaction\<close>

definition carries :: "(database \<Rightarrow> bool) \<Rightarrow> 'a comp \<Rightarrow> bool" where
  "carries I m \<longleftrightarrow> (\<forall>w x w'. I (work w) \<longrightarrow> m w = (Inr x, w') \<longrightarrow> I (work w'))"

lemma carriesD: "carries I m \<Longrightarrow> I (work w) \<Longrightarrow> m w = (Inr x, w') \<Longrightarrow> I (work w')"
  unfolding carries_def by blast

lemma carries_ret [carries_intros]: "carries I (ret x)"
  and carries_throw [carries_intros]: "carries I (throw e)"
  and carries_lift [carries_intros]: "carries I (lift r)"
  and carries_now [carries_intros]: "carries I (now env)"
  and carries_uuid4 [carries_intros]: "carries I (uuid4 env)"
  and carries_token [carries_intros]: "carries I (token_urlsafe env n)"
  and carries_add [carries_intros]: "carries I (add q)"
  by (auto simp: carries_def run_simps)

lemma carries_query [carries_intros]: "carries I (query env q)"
  by (auto simp: carries_def run_simps split: sum.splits)

lemma carries_assign [carries_intros]: "(\<And>db. I db \<Longrightarrow> I (f db)) \<Longrightarrow> carries I (assign f)"
  by (auto simp: carries_def run_simps)

lemma carries_bind [carries_intros]:
  assumes "carries I m" and "\<And>x. carries I (f x)" shows "carries I (bind m f)"
  unfolding carries_def
proof (intro allI impI)
  fix w y w' assume w: "I (work w)" and run: "bind m f w = (Inr y, w')"
  obtain r v where m: "m w = (r, v)" by (cases "m w")
  then show "I (work w')"
    using run carriesD [OF assms(1) w] carriesD [OF assms(2)] by (cases r) (auto simp: bind_def)
qed

lemma carries_if [carries_intros]: "carries I m \<Longrightarrow> carries I n \<Longrightarrow> carries I (if b then m else n)"
  by simp

lemma carries_case_option [carries_intros]:
  "carries I m \<Longrightarrow> (\<And>x. carries I (f x)) \<Longrightarrow> carries I (case v of None \<Rightarrow> m | Some x \<Rightarrow> f x)"
  by (cases v) auto

lemma carries_case_prod [carries_intros]:
  "(\<And>a b. carries I (f a b)) \<Longrightarrow> carries I (case v of (a, b) \<Rightarrow> f a b)"
  by (cases v) auto

lemma carries_Let [carries_intros]: "(\<And>x. carries I (f x)) \<Longrightarrow> carries I (let x = v in f x)"
  by simp

section \<open>Computations that maintain a property of the world\<close>

text \<open>For properties that mention the pending rows, or only one side of the transaction.\<close>

named_theorems maintains_intros \<open>a computation maintains a property of the world\<close>

definition maintains :: "(world \<Rightarrow> bool) \<Rightarrow> 'a comp \<Rightarrow> bool" where
  "maintains P m \<longleftrightarrow> (\<forall>w. P w \<longrightarrow> P (snd (m w)))"

lemma maintainsD: "maintains P m \<Longrightarrow> P w \<Longrightarrow> m w = (r, w') \<Longrightarrow> P w'"
  unfolding maintains_def by (metis snd_conv)

lemma maintains_ret [maintains_intros]: "maintains P (ret x)"
  and maintains_throw [maintains_intros]: "maintains P (throw e)"
  and maintains_lift [maintains_intros]: "maintains P (lift r)"
  by (simp_all add: maintains_def run_simps)

lemma maintains_query [maintains_intros]: "maintains P (query env q)"
  by (simp add: maintains_def run_simps split: sum.splits)

lemma maintains_bind [maintains_intros]:
  assumes "maintains P m" and "\<And>x. maintains P (f x)" shows "maintains P (bind m f)"
  unfolding maintains_def
proof (intro allI impI)
  fix w :: world assume w: "P w"
  obtain r v where m: "m w = (r, v)" by (cases "m w")
  then have "P v" using maintainsD [OF assms(1) w] by simp
  then show "P (snd (bind m f w))"
    using m assms(2) by (cases r) (auto simp: bind_def maintains_def)
qed

lemma maintains_if [maintains_intros]: "maintains P m \<Longrightarrow> maintains P n \<Longrightarrow> maintains P (if b then m else n)"
  by simp

lemma maintains_case_option [maintains_intros]:
  "maintains P m \<Longrightarrow> (\<And>x. maintains P (f x)) \<Longrightarrow> maintains P (case v of None \<Rightarrow> m | Some x \<Rightarrow> f x)"
  by (cases v) auto

lemma maintains_case_prod [maintains_intros]:
  "(\<And>a b. maintains P (f a b)) \<Longrightarrow> maintains P (case v of (a, b) \<Rightarrow> f a b)"
  by (cases v) auto

lemma maintains_Let [maintains_intros]: "(\<And>x. maintains P (f x)) \<Longrightarrow> maintains P (let x = v in f x)"
  by simp

text \<open>Properties of the session alone: they do not look at the counters.\<close>

definition of_session :: "(world \<Rightarrow> bool) \<Rightarrow> bool" where
  "of_session P \<longleftrightarrow> (\<forall>w w'. work w = work w' \<longrightarrow> committed w = committed w' \<longrightarrow> pending w = pending w' \<longrightarrow> P w = P w')"

lemma of_sessionD:
  "of_session P \<Longrightarrow> P w \<Longrightarrow> work w' = work w \<Longrightarrow> committed w' = committed w \<Longrightarrow> pending w' = pending w \<Longrightarrow> P w'"
  unfolding of_session_def by metis

lemma maintains_counters [maintains_intros]:
  assumes "of_session P"
  shows "maintains P (now env)" "maintains P (uuid4 env)" "maintains P (token_urlsafe env n)"
  unfolding maintains_def run_simps snd_conv
  by (intro allI impI; erule of_sessionD [OF assms]; simp)+

text \<open>Only \<open>commit\<close> changes the committed data, and only when it succeeds.\<close>

definition committed_is :: "database \<Rightarrow> world \<Rightarrow> bool" where
  "committed_is d w \<longleftrightarrow> committed w = d"

lemma of_session_committed [simp]: "of_session (committed_is d)"
  by (simp add: of_session_def committed_is_def)

lemma maintains_committed [maintains_intros]:
  "maintains (committed_is d) (add q)" "maintains (committed_is d) (assign f)"
  "maintains (committed_is d) (flush env)" "maintains (committed_is d) rollback"
  by (auto simp: maintains_def committed_is_def run_simps flush_def split: sum.splits prod.splits)

lemma commit_failure: "commit env w = (Inl e, w') \<Longrightarrow> committed w' = committed w"
  by (auto simp: commit_def bind_def flush_def split: prod.splits sum.splits)

lemma commit_success: "commit env w = (Inr x, w') \<Longrightarrow> committed w' = work w'"
  by (auto simp: commit_def bind_def split: prod.splits sum.splits)

section \<open>All or nothing\<close>

text \<open>A computation that raises has committed nothing.\<close>

named_theorems atomic_intros \<open>a computation that raises has committed nothing\<close>

definition atomic :: "'a comp \<Rightarrow> bool" where
  "atomic m \<longleftrightarrow> (\<forall>w e w'. m w = (Inl e, w') \<longrightarrow> committed w' = committed w)"

text \<open>A computation that never commits, and one that never raises.\<close>

definition quiet :: "'a comp \<Rightarrow> bool" where
  "quiet m \<longleftrightarrow> (\<forall>w. committed (snd (m w)) = committed w)"

definition returns :: "'a comp \<Rightarrow> bool" where
  "returns m \<longleftrightarrow> (\<forall>w. \<exists>x w'. m w = (Inr x, w'))"

lemma quiet_primitives [atomic_intros]:
  "quiet (ret x)" "quiet (throw e)" "quiet (lift r)" "quiet (now env)" "quiet (uuid4 env)"
  "quiet (token_urlsafe env n)" "quiet (query env q)" "quiet (add r')" "quiet (assign g)"
  "quiet (flush env)" "quiet rollback"
  by (auto simp: quiet_def run_simps flush_def split: sum.splits prod.splits)

lemma quiet_bind [atomic_intros]:
  "quiet m \<Longrightarrow> (\<And>x. quiet (f x)) \<Longrightarrow> quiet (bind m f)"
  by (auto simp: quiet_def bind_def split: prod.splits sum.splits) (metis snd_conv)+

lemma quiet_cases [atomic_intros]:
  "quiet m \<Longrightarrow> quiet n \<Longrightarrow> quiet (if b then m else n)"
  "quiet m \<Longrightarrow> (\<And>x. quiet (f x)) \<Longrightarrow> quiet (case v of None \<Rightarrow> m | Some x \<Rightarrow> f x)"
  "(\<And>a b. quiet (g a b)) \<Longrightarrow> quiet (case p of (a, b) \<Rightarrow> g a b)"
  "(\<And>x. quiet (f x)) \<Longrightarrow> quiet (let x = z in f x)"
  by (auto split: option.splits prod.splits)

lemma atomic_quiet: "quiet m \<Longrightarrow> atomic m"
  by (auto simp: quiet_def atomic_def) (metis snd_conv)

lemma atomic_commit [atomic_intros]: "atomic (commit env)"
  using commit_failure by (auto simp: atomic_def)

lemma atomic_bind [atomic_intros]:
  assumes "quiet m" and "\<And>x. atomic (f x)" shows "atomic (bind m f)"
  unfolding atomic_def
proof (intro allI impI)
  fix w e w' assume run: "bind m f w = (Inl e, w')"
  obtain r v where m: "m w = (r, v)" by (cases "m w")
  then have "committed v = committed w" using assms(1) by (simp add: quiet_def) (metis snd_conv)
  then show "committed w' = committed w"
    using run m assms(2) by (cases r) (auto simp: bind_def atomic_def)
qed

lemma atomic_bind_returns:
  assumes "atomic m" and "\<And>x. returns (f x)" shows "atomic (bind m f)"
  unfolding atomic_def
proof (intro allI impI)
  fix w e w' assume run: "bind m f w = (Inl e, w')"
  obtain r v where m: "m w = (r, v)" by (cases "m w")
  show "committed w' = committed w"
  proof (cases r)
    case (Inl e')
    with run m assms(1) show ?thesis by (auto simp: bind_def atomic_def)
  next
    case (Inr x)
    with run m have "f x v = (Inl e, w')" by (simp add: bind_def)
    moreover obtain y v' where "f x v = (Inr y, v')" using assms(2) by (meson returns_def)
    ultimately show ?thesis by simp
  qed
qed

lemma atomic_throw [atomic_intros]: "atomic (throw e)"
  and atomic_ret [atomic_intros]: "atomic (ret x)"
  by (simp_all add: atomic_def run_simps)

lemma atomic_cases [atomic_intros]:
  "atomic m \<Longrightarrow> atomic n \<Longrightarrow> atomic (if b then m else n)"
  "atomic m \<Longrightarrow> (\<And>x. atomic (f x)) \<Longrightarrow> atomic (case v of None \<Rightarrow> m | Some x \<Rightarrow> f x)"
  "(\<And>a b. atomic (g a b)) \<Longrightarrow> atomic (case p of (a, b) \<Rightarrow> g a b)"
  "(\<And>x. atomic (f x)) \<Longrightarrow> atomic (let x = z in f x)"
  by (auto split: option.splits prod.splits)

section \<open>Invariants that the declared constraints protect\<close>

locale row_invariant =
  fixes coll :: "string \<Rightarrow> string" and I :: "database \<Rightarrow> bool"
  assumes insert_keeps: "I db \<Longrightarrow> integrity_ok coll r db \<Longrightarrow> I (insert_row t r db)"
begin

lemma flush_rows_keeps:
  assumes "collate env = coll" and "I db" and "flush_rows env rs t db = (Inr db', t')"
  shows "I db'"
  using assms(2,3)
proof (induction rs arbitrary: t db)
  case Nil
  then show ?case by simp
next
  case (Cons r rs)
  from Cons.prems(2) have ok: "integrity_ok coll (stored_row env r) db"
    and rest: "flush_rows env rs (Suc t) (insert_row (db_clock env t) (stored_row env r) db) = (Inr db', t')"
    using assms(1) by (auto simp: Let_def split: if_splits)
  from Cons.IH [OF insert_keeps [OF Cons.prems(1) ok] rest] show ?case .
qed

lemma flush_keeps: "collate env = coll \<Longrightarrow> keeps I (flush env)"
  unfolding keeps_def flush_def
  by (auto split: sum.splits prod.splits elim: flush_rows_keeps [rotated 2])

lemma commit_keeps: "collate env = coll \<Longrightarrow> keeps I (commit env)"
  unfolding commit_def by (intro keeps_bind flush_keeps) (auto simp: keeps_def)

lemma flush_carries: "collate env = coll \<Longrightarrow> carries I (flush env)"
  unfolding carries_def flush_def
  by (auto split: sum.splits prod.splits elim: flush_rows_keeps [rotated 2])

lemma commit_stores:
  assumes "collate env = coll" and "I (work w)" and "commit env w = (Inr x, w')"
  shows "I (committed w') \<and> I (work w')"
proof -
  obtain v where "flush env w = (Inr (), v)" and "w' = v\<lparr>committed := work v\<rparr>"
    using assms(3) by (auto simp: commit_def bind_def split: prod.splits sum.splits)
  with carriesD [OF flush_carries [OF assms(1)] assms(2)] show ?thesis by auto
qed

lemma session_scope_keeps:
  "collate env = coll \<Longrightarrow> keeps I body \<Longrightarrow> keeps I (session_scope env body)"
  unfolding session_scope_def by (intro keeps_intros commit_keeps)

lemma request_session_keeps: "keeps I body \<Longrightarrow> keeps I (request_session body)"
  unfolding request_session_def by (intro keeps_intros)

end

section \<open>Keys, unique columns and foreign keys\<close>

definition users_ok :: "(string \<Rightarrow> string) \<Rightarrow> database \<Rightarrow> bool" where
  "users_ok coll db \<longleftrightarrow>
     distinct (map r_id (roles db)) \<and> distinct (map (coll \<circ> r_name) (roles db)) \<and>
     distinct (map u_id (users db)) \<and> distinct (map (coll \<circ> u_email) (users db)) \<and>
     (\<forall>u \<in> set (users db). u_primary_role_id u \<in> r_id ` set (roles db)) \<and>
     distinct (map ur_id (user_roles db)) \<and>
     distinct (map (\<lambda>x. (ur_user_id x, ur_role_id x)) (user_roles db)) \<and>
     (\<forall>x \<in> set (user_roles db). ur_user_id x \<in> u_id ` set (users db) \<and> ur_role_id x \<in> r_id ` set (roles db))"

definition tokens_ok :: "(string \<Rightarrow> string) \<Rightarrow> database \<Rightarrow> bool" where
  "tokens_ok coll db \<longleftrightarrow>
     distinct (map rt_id (refresh_tokens db)) \<and> distinct (map (coll \<circ> rt_token_hash) (refresh_tokens db)) \<and>
     distinct (map pr_id (password_reset_tokens db)) \<and>
     distinct (map (coll \<circ> pr_token_hash) (password_reset_tokens db)) \<and>
     distinct (map ev_id (email_verification_tokens db)) \<and>
     distinct (map (coll \<circ> ev_token_hash) (email_verification_tokens db)) \<and>
     (\<forall>k \<in> set (refresh_tokens db). rt_user_id k \<in> u_id ` set (users db)) \<and>
     (\<forall>k \<in> set (password_reset_tokens db). pr_user_id k \<in> u_id ` set (users db)) \<and>
     (\<forall>k \<in> set (email_verification_tokens db). ev_user_id k \<in> u_id ` set (users db))"

definition bids_ok :: "database \<Rightarrow> bool" where
  "bids_ok db \<longleftrightarrow>
     distinct (map a_id (auctions db)) \<and> distinct (map b_id (bids db)) \<and>
     distinct (map (\<lambda>b. (b_kafka_partition b, b_kafka_offset b)) (filter (\<lambda>b. b_kafka_offset b \<noteq> None) (bids db))) \<and>
     (\<forall>b \<in> set (bids db). b_auction_id b \<in> a_id ` set (auctions db) \<and> b_bidder_id b \<in> u_id ` set (users db)
        \<and> decimal_gt (b_amount b) (Finite False 0 0) = Some True
        \<and> b_status b \<in> set BID_STATUSES)"

definition listings_ok :: "(string \<Rightarrow> string) \<Rightarrow> database \<Rightarrow> bool" where
  "listings_ok coll db \<longleftrightarrow>
     distinct (map vl_id (vehicle_listings db)) \<and>
     distinct (map (map_option coll \<circ> vl_chassis_number)
       (filter (\<lambda>v. vl_chassis_number v \<noteq> None) (vehicle_listings db)))"

definition schema_ok :: "(string \<Rightarrow> string) \<Rightarrow> database \<Rightarrow> bool" where
  "schema_ok coll db \<longleftrightarrow> users_ok coll db \<and> tokens_ok coll db \<and> bids_ok db \<and> listings_ok coll db"

lemmas schema_defs = schema_ok_def users_ok_def tokens_ok_def bids_ok_def listings_ok_def

lemma insert_row_users_ok:
  "users_ok coll db \<Longrightarrow> integrity_ok coll r db \<Longrightarrow> users_ok coll (insert_row t r db)"
  by (cases r) (auto simp: users_ok_def)

lemma insert_row_tokens_ok:
  "tokens_ok coll db \<Longrightarrow> integrity_ok coll r db \<Longrightarrow> tokens_ok coll (insert_row t r db)"
  by (cases r) (auto simp: tokens_ok_def)

lemma insert_row_bids_ok:
  assumes ok: "bids_ok db" and new: "integrity_ok coll r db"
  shows "bids_ok (insert_row t r db)"
proof (cases r)
  case (RBid b)
  let ?pos = "\<lambda>b. (b_kafka_partition b, b_kafka_offset b)"
  have fresh: "b_kafka_offset b \<noteq> None \<Longrightarrow>
      ?pos b \<notin> ?pos ` set (filter (\<lambda>b. b_kafka_offset b \<noteq> None) (bids db))"
    using new RBid by auto
  have rest: "b_id b \<notin> b_id ` set (bids db)" "b_auction_id b \<in> a_id ` set (auctions db)"
    "b_bidder_id b \<in> u_id ` set (users db)" "decimal_gt (b_amount b) (Finite False 0 0) = Some True"
    "b_status b \<in> set BID_STATUSES"
    using new RBid by simp_all
  show ?thesis
    using ok fresh rest
    by (cases "b_kafka_offset b = None") (simp_all add: bids_ok_def RBid)
qed (use ok in \<open>simp_all add: bids_ok_def\<close>)

lemma insert_row_listings_ok:
  assumes ok: "listings_ok coll db" and new: "integrity_ok coll r db"
  shows "listings_ok coll (insert_row t r db)"
proof (cases r)
  case (RListing v)
  let ?key = "map_option coll \<circ> vl_chassis_number"
  have "vl_id v \<notin> vl_id ` set (vehicle_listings db)"
    and "vl_chassis_number v \<noteq> None \<Longrightarrow> ?key v \<notin> ?key ` set (vehicle_listings db)"
    using new RListing by (auto split: option.splits)
  then show ?thesis
    using ok by (cases "vl_chassis_number v = None") (auto simp: listings_ok_def RListing)
qed (use ok in \<open>simp_all add: listings_ok_def\<close>)

interpretation schema: row_invariant coll "schema_ok coll" for coll
  by unfold_locales
    (simp add: schema_ok_def insert_row_users_ok insert_row_tokens_ok insert_row_bids_ok
      insert_row_listings_ok)

lemma keeps_schema_flush [keeps_intros]: "keeps (schema_ok (collate env)) (flush env)"
  and keeps_schema_commit [keeps_intros]: "keeps (schema_ok (collate env)) (commit env)"
  by (simp_all add: schema.flush_keeps schema.commit_keeps)

lemma keeps_schema_session_scope [keeps_intros]:
  "keeps (schema_ok (collate env)) body \<Longrightarrow> keeps (schema_ok (collate env)) (session_scope env body)"
  by (simp add: schema.session_scope_keeps)

lemma keeps_schema_request [keeps_intros]:
  "keeps (schema_ok (collate env)) body \<Longrightarrow> keeps (schema_ok (collate env)) (request_session body)"
  by (rule schema.request_session_keeps)

text \<open>A request leaves the session clean, whatever it did.\<close>

lemma request_session_clean [simp]: "clean (snd (request_session m w))"
  by (simp add: request_session_def run_simps clean_def split: prod.splits sum.splits)

lemma session_scope_clean [simp]: "clean (snd (session_scope env m w))"
  by (simp add: session_scope_def run_simps clean_def split: prod.splits sum.splits)

lemma request_session_result: "fst (request_session m w) = fst (m w)"
  by (simp add: request_session_def run_simps split: prod.splits sum.splits)

lemma request_session_committed: "committed (snd (request_session m w)) = committed (snd (m w))"
  by (simp add: request_session_def run_simps split: prod.splits sum.splits)

section \<open>Lookups by a unique column return at most one row\<close>

lemma unique_lookup:
  assumes "distinct (map (coll \<circ> k) rows)"
  shows "scalar_one_or_none (filter (\<lambda>x. coll (k x) = coll v) rows) =
         Inr (first_row (filter (\<lambda>x. coll (k x) = coll v) rows))"
proof (rule scalar_one_or_none_total)
  show "length (filter (\<lambda>x. coll (k x) = coll v) rows) \<le> 1"
    using filter_key_length [OF assms, of "coll v"] by simp
qed

end
