(* ===== verification/Role_Service.thy ===== *)
theory Role_Service
  imports Session_Laws "HOL-Library.List_Lexorder" "HOL-Library.Char_ord"
begin

text \<open>
  \<^verbatim>\<open>services/role_service.py\<close> and \<^verbatim>\<open>core/roles.py\<close>: which roles a user holds
  (\<open>user_roles\<close>) and which of them is the primary one (\<open>users.primary_role_id\<close>).
\<close>

section \<open>core/roles.py\<close>

definition STAFF_ROLES :: "string list" where
  "STAFF_ROLES = [''Admin'', ''Manager'', ''Operations'', ''Accountant'', ''Inspector'', ''AuctionsHead'']"

definition SECTION_ROLE_REQUIREMENTS :: "string \<rightharpoonup> string list" where
  "SECTION_ROLE_REQUIREMENTS =
     [''management'' \<mapsto> [''Admin'', ''Manager''], ''accountant'' \<mapsto> [''Admin'', ''Accountant'']]"

section \<open>The operations\<close>

definition list_roles :: "env \<Rightarrow> bool \<Rightarrow> role list comp" where
  "list_roles env active_only =
     query env (\<lambda>db. Inr (order_by (collate env \<circ> r_name)
       (if active_only then filter r_is_active (roles db) else roles db)))"

definition get_role_by_name :: "env \<Rightarrow> string \<Rightarrow> role comp" where
  "get_role_by_name env name =
     bind (query env (\<lambda>db. scalar_one_or_none (filter (\<lambda>r. sql_eq env (r_name r) name) (roles db))))
       (\<lambda>role. case role of None \<Rightarrow> throw (RoleNotFoundError name) | Some r \<Rightarrow> ret r)"

text \<open>The join of \<open>roles\<close> with the user's rows of \<open>user_roles\<close>.\<close>

definition roles_held :: "uuid \<Rightarrow> database \<Rightarrow> role list" where
  "roles_held uid db =
     concat (map (\<lambda>ur. filter (\<lambda>r. ur_role_id ur = r_id r) (roles db))
       (filter (\<lambda>ur. ur_user_id ur = uid) (user_roles db)))"

definition get_user_roles :: "env \<Rightarrow> user \<Rightarrow> role list comp" where
  "get_user_roles env u = query env (\<lambda>db. Inr (order_by (collate env \<circ> r_name) (roles_held (u_id u) db)))"

text \<open>\<open>user.primary_role_id = role.id\<close>.\<close>

definition set_primary_role :: "uuid \<Rightarrow> uuid \<Rightarrow> database \<Rightarrow> database" where
  "set_primary_role uid rid db =
     db\<lparr>users := update_where (\<lambda>x. u_id x = uid) (\<lambda>x. x\<lparr>u_primary_role_id := rid\<rparr>) (users db)\<rparr>"

definition new_user_role :: "uuid \<Rightarrow> user \<Rightarrow> role \<Rightarrow> user_role" where
  "new_user_role i u role =
     \<lparr>ur_id = i, ur_user_id = u_id u, ur_role_id = r_id role, ur_assigned_at = 0\<rparr>"

definition assign_role :: "env \<Rightarrow> user \<Rightarrow> string \<Rightarrow> bool \<Rightarrow> user_role comp" where
  "assign_role env u role_name is_primary =
     bind (get_role_by_name env role_name) (\<lambda>role.
     bind (query env (\<lambda>db. scalar_one_or_none
             (filter (\<lambda>ur. ur_user_id ur = u_id u \<and> ur_role_id ur = r_id role) (user_roles db)))) (\<lambda>found.
     bind (case found of
             Some ur \<Rightarrow> ret ur
           | None \<Rightarrow> bind (uuid4 env) (\<lambda>i.
               bind (add (RUserRole (new_user_role i u role))) (\<lambda>_.
               ret (new_user_role i u role)))) (\<lambda>user_role.
     bind (if is_primary then assign (set_primary_role (u_id u) (r_id role)) else ret ()) (\<lambda>_.
     bind (flush env) (\<lambda>_. ret user_role)))))"

text \<open>\<open>min(xs, key=k)\<close>: the first of the smallest; \<open>None\<close> is the \<open>ValueError\<close> on an empty list.\<close>

fun min_by :: "('a \<Rightarrow> 'k::linorder) \<Rightarrow> 'a list \<Rightarrow> 'a option" where
  "min_by k [] = None"
| "min_by k (x # xs) = (case min_by k xs of None \<Rightarrow> Some x | Some y \<Rightarrow> if k y < k x then Some y else Some x)"

definition delete_user_role :: "uuid \<Rightarrow> database \<Rightarrow> database" where
  "delete_user_role i db = db\<lparr>user_roles := filter (\<lambda>ur. ur_id ur \<noteq> i) (user_roles db)\<rparr>"

definition promote_longest_held :: "env \<Rightarrow> user \<Rightarrow> user_role list \<Rightarrow> unit comp" where
  "promote_longest_held env u remaining =
     (case min_by ur_assigned_at remaining of
        None \<Rightarrow> throw ValueError
      | Some promoted \<Rightarrow>
          bind (query env (\<lambda>db. Inr (get_by_id r_id (roles db) (ur_role_id promoted)))) (\<lambda>promoted_role.
          case promoted_role of
            None \<Rightarrow> throw AssertionError
          | Some pr \<Rightarrow> bind (assign (set_primary_role (u_id u) (r_id pr))) (\<lambda>_. flush env)))"

definition revoke_role :: "env \<Rightarrow> user \<Rightarrow> string \<Rightarrow> unit comp" where
  "revoke_role env u role_name =
     bind (get_role_by_name env role_name) (\<lambda>role.
     bind (query env (\<lambda>db. Inr (filter (\<lambda>ur. ur_user_id ur = u_id u) (user_roles db)))) (\<lambda>current.
     case first_row (filter (\<lambda>ur. ur_role_id ur = r_id role) current) of
       None \<Rightarrow> ret ()
     | Some target \<Rightarrow>
         if length current = 1 then throw (LastRoleRemovalError (u_id u))
         else
           bind (assign (delete_user_role (ur_id target))) (\<lambda>_.
           bind (flush env) (\<lambda>_.
           if u_primary_role_id u = r_id role
           then promote_longest_held env u (filter (\<lambda>ur. ur_id ur \<noteq> ur_id target) current)
           else ret ()))))"

section \<open>Auxiliary facts\<close>

lemma min_by_None_iff [simp]: "min_by k xs = None \<longleftrightarrow> xs = []"
  by (cases xs) (auto split: option.splits if_splits)

lemma min_by_least: "min_by k xs = Some m \<Longrightarrow> m \<in> set xs \<and> (\<forall>x \<in> set xs. k m \<le> k x)"
  by (induction xs arbitrary: m) (force split: option.splits if_splits)+

lemma set_roles_held:
  "r \<in> set (roles_held uid db) \<longleftrightarrow>
   r \<in> set (roles db) \<and> (\<exists>ur \<in> set (user_roles db). ur_user_id ur = uid \<and> ur_role_id ur = r_id r)"
  by (auto simp: roles_held_def)

lemma set_primary_role_tables [table_simps]:
  "roles (set_primary_role uid rid db) = roles db"
  "user_roles (set_primary_role uid rid db) = user_roles db"
  "map u_id (users (set_primary_role uid rid db)) = map u_id (users db)"
  "map u_email (users (set_primary_role uid rid db)) = map u_email (users db)"
  "refresh_tokens (set_primary_role uid rid db) = refresh_tokens db"
  "password_reset_tokens (set_primary_role uid rid db) = password_reset_tokens db"
  "email_verification_tokens (set_primary_role uid rid db) = email_verification_tokens db"
  "bids (set_primary_role uid rid db) = bids db"
  "auctions (set_primary_role uid rid db) = auctions db"
  "vehicle_listings (set_primary_role uid rid db) = vehicle_listings db"
  by (simp_all add: set_primary_role_def)

lemma set_users_primary:
  "x \<in> set (users (set_primary_role uid rid db)) \<longleftrightarrow>
   (\<exists>y \<in> set (users db). x = (if u_id y = uid then y\<lparr>u_primary_role_id := rid\<rparr> else y))"
  by (simp add: set_primary_role_def update_where_def image_iff del: if_image_distrib)

lemma user_ids_set_primary [table_simps]:
  "u_id ` set (users (set_primary_role uid rid db)) = u_id ` set (users db)"
  by (metis list.set_map table_simps(3))

section \<open>The role invariant\<close>

text \<open>
  What \<^verbatim>\<open>models/role.py\<close> promises: the primary role of every user is also one of the
  user's \<open>user_roles\<close> rows, so every user holds at least one role.
\<close>

definition roles_inv :: "database \<Rightarrow> bool" where
  "roles_inv db \<longleftrightarrow> (\<forall>u \<in> set (users db). \<exists>ur \<in> set (user_roles db).
     ur_user_id ur = u_id u \<and> ur_role_id ur = u_primary_role_id u)"

lemma roles_inv_holds_role:
  assumes "roles_inv db" and "schema_ok coll db" and "u \<in> set (users db)"
  shows "\<exists>r \<in> set (roles_held (u_id u) db). r_id r = u_primary_role_id u"
proof -
  obtain ur where ur: "ur \<in> set (user_roles db)" "ur_user_id ur = u_id u"
      "ur_role_id ur = u_primary_role_id u"
    using assms(1,3) by (auto simp: roles_inv_def)
  with assms(2) obtain r where "r \<in> set (roles db)" "r_id r = ur_role_id ur"
    by (force simp: schema_ok_def users_ok_def)
  with ur show ?thesis by (intro bexI [of _ r]) (auto simp: set_roles_held)
qed

lemma roles_inv_delete:
  assumes "roles_inv db" and "\<And>u. u \<in> set (users db) \<Longrightarrow>
      \<not> (ur_user_id t = u_id u \<and> ur_role_id t = u_primary_role_id u)"
    and "distinct (map ur_id (user_roles db))" and "t \<in> set (user_roles db)"
  shows "roles_inv (delete_user_role (ur_id t) db)"
proof -
  have "x = t" if "x \<in> set (user_roles db)" "ur_id x = ur_id t" for x
    using distinct_map_inj_on_eq [OF assms(3) that(1) assms(4) that(2)] .
  with assms(1,2) show ?thesis
    unfolding roles_inv_def delete_user_role_def by simp metis
qed

lemma roles_inv_set_primary:
  assumes "\<forall>x \<in> set (users db). u_id x \<noteq> uid \<longrightarrow>
      (\<exists>ur \<in> set (user_roles db). ur_user_id ur = u_id x \<and> ur_role_id ur = u_primary_role_id x)"
    and "ur \<in> set (user_roles db)" "ur_user_id ur = uid" "ur_role_id ur = rid"
  shows "roles_inv (set_primary_role uid rid db)"
  unfolding roles_inv_def table_simps
proof
  fix x assume "x \<in> set (users (set_primary_role uid rid db))"
  then obtain y where y: "y \<in> set (users db)"
    "x = (if u_id y = uid then y\<lparr>u_primary_role_id := rid\<rparr> else y)"
    by (auto simp: set_users_primary)
  with assms show "\<exists>ur \<in> set (user_roles db). ur_user_id ur = u_id x \<and> ur_role_id ur = u_primary_role_id x"
    by (cases "u_id y = uid") auto
qed

section \<open>How the operations run\<close>

definition find_role :: "env \<Rightarrow> string \<Rightarrow> database \<Rightarrow> role option" where
  "find_role env name db = first_row (filter (\<lambda>r. sql_eq env (r_name r) name) (roles db))"

lemma find_role_SomeD: "find_role env n db = Some r \<Longrightarrow> r \<in> set (roles db) \<and> sql_eq env (r_name r) n"
  unfolding find_role_def by (rule first_row_filterD)

lemma get_role_by_name_run:
  assumes "schema_ok (collate env) (work w)" and "\<not> deactive w"
  shows "get_role_by_name env n w =
    ((case find_role env n (work w) of None \<Rightarrow> Inl (RoleNotFoundError n) | Some r \<Rightarrow> Inr r), w)"
proof -
  have "distinct (map (collate env \<circ> r_name) (roles (work w)))"
    using assms(1) by (simp add: schema_ok_def users_ok_def)
  from unique_lookup [OF this, of n] show ?thesis
    using assms(2)
    by (simp add: get_role_by_name_def run_simps find_role_def sql_eq_def split: option.splits)
qed

lemma unique_user_role:
  assumes "schema_ok coll db"
  shows "scalar_one_or_none (filter (\<lambda>x. ur_user_id x = uid \<and> ur_role_id x = rid) (user_roles db)) =
         Inr (first_row (filter (\<lambda>x. ur_user_id x = uid \<and> ur_role_id x = rid) (user_roles db)))"
proof (rule scalar_one_or_none_total)
  have "distinct (map (\<lambda>x. (ur_user_id x, ur_role_id x)) (user_roles db))"
    using assms by (simp add: schema_ok_def users_ok_def)
  from filter_key_length [OF this, of "(uid, rid)"]
  show "length (filter (\<lambda>x. ur_user_id x = uid \<and> ur_role_id x = rid) (user_roles db)) \<le> 1" by simp
qed

text \<open>The database after a revocation, and the whole behaviour of \<open>revoke_role\<close>.\<close>

definition user_rows :: "uuid \<Rightarrow> database \<Rightarrow> user_role list" where
  "user_rows uid db = filter (\<lambda>ur. ur_user_id ur = uid) (user_roles db)"

definition revoked :: "user \<Rightarrow> role \<Rightarrow> user_role \<Rightarrow> database \<Rightarrow> database" where
  "revoked u role target db =
     (let db' = delete_user_role (ur_id target) db in
      if u_primary_role_id u = r_id role
      then (case min_by ur_assigned_at (filter (\<lambda>ur. ur_id ur \<noteq> ur_id target) (user_rows (u_id u) db)) of
              None \<Rightarrow> db' | Some p \<Rightarrow> set_primary_role (u_id u) (ur_role_id p) db')
      else db')"

lemma revoke_remaining:
  assumes "distinct (map ur_id rows)" and "target \<in> set rows" and "length rows \<noteq> 1"
  shows "filter (\<lambda>ur. ur_id ur \<noteq> ur_id target) rows \<noteq> []"
proof
  assume "filter (\<lambda>ur. ur_id ur \<noteq> ur_id target) rows = []"
  then have "filter (\<lambda>ur. ur_id ur = ur_id target) rows = rows"
    by (auto simp: filter_empty_conv intro: filter_True_id)
  with filter_key_unique [OF assms(1,2)] assms(3) show False by simp
qed

lemma promote_run:
  assumes "\<not> deactive w" and "pending w = []" and "min_by ur_assigned_at rows = Some p"
    and "ur_role_id p \<in> r_id ` set (roles (work w))"
  shows "promote_longest_held env u rows w =
    (Inr (), w\<lparr>work := set_primary_role (u_id u) (ur_role_id p) (work w)\<rparr>)"
proof -
  obtain pr where pr: "get_by_id r_id (roles (work w)) (ur_role_id p) = Some pr"
    using assms(4) get_by_id_None_iff [of r_id "roles (work w)" "ur_role_id p"]
    by (cases "get_by_id r_id (roles (work w)) (ur_role_id p)") auto
  then have "r_id pr = ur_role_id p" using get_by_id_SomeD by fastforce
  with pr assms show ?thesis
    by (simp add: promote_longest_held_def run_simps flush_nothing)
qed

lemma revoke_role_run:
  assumes ok: "schema_ok (collate env) (work w)" and idle: "\<not> deactive w" "pending w = []"
  shows "revoke_role env u n w =
    (case find_role env n (work w) of
       None \<Rightarrow> (Inl (RoleNotFoundError n), w)
     | Some role \<Rightarrow>
         (case first_row (filter (\<lambda>ur. ur_role_id ur = r_id role) (user_rows (u_id u) (work w))) of
            None \<Rightarrow> (Inr (), w)
          | Some target \<Rightarrow>
              if length (user_rows (u_id u) (work w)) = 1 then (Inl (LastRoleRemovalError (u_id u)), w)
              else (Inr (), w\<lparr>work := revoked u role target (work w)\<rparr>)))"
proof (cases "find_role env n (work w)")
  case None
  then show ?thesis by (simp add: revoke_role_def run_simps get_role_by_name_run [OF ok idle(1)])
next
  case (Some role)
  let ?rows = "user_rows (u_id u) (work w)"
  let ?w = "\<lambda>t. w\<lparr>work := delete_user_role (ur_id t) (work w)\<rparr>"
  have ids: "distinct (map ur_id ?rows)"
    using ok by (simp add: schema_ok_def users_ok_def user_rows_def distinct_map_filter)
  have fks: "ur_role_id x \<in> r_id ` set (roles (work w))" if "x \<in> set ?rows" for x
    using ok that by (auto simp: schema_ok_def users_ok_def user_rows_def)
  have promote: "promote_longest_held env u (filter (\<lambda>ur. ur_id ur \<noteq> ur_id t) ?rows) (?w t) =
      (Inr (), w\<lparr>work := revoked u role t (work w)\<rparr>)"
    if t: "t \<in> set ?rows" and len: "length ?rows \<noteq> 1" and prim: "u_primary_role_id u = r_id role" for t
  proof -
    obtain p where p: "min_by ur_assigned_at (filter (\<lambda>ur. ur_id ur \<noteq> ur_id t) ?rows) = Some p"
      using revoke_remaining [OF ids t len] min_by_None_iff by (metis not_None_eq)
    then have "p \<in> set ?rows" using min_by_least by fastforce
    with fks have "ur_role_id p \<in> r_id ` set (roles (work (?w t)))" by (simp add: delete_user_role_def)
    from promote_run [of "?w t", OF _ _ p this] show ?thesis
      using idle p prim by (simp add: revoked_def Let_def)
  qed
  show ?thesis
  proof (cases "first_row (filter (\<lambda>ur. ur_role_id ur = r_id role) ?rows)")
    case None
    with Some idle show ?thesis
      by (simp add: revoke_role_def run_simps get_role_by_name_run [OF ok idle(1)] user_rows_def)
  next
    case (Some t)
    then have t: "t \<in> set ?rows" by (auto dest: first_row_filterD)
    show ?thesis
      using \<open>find_role env n (work w) = Some role\<close> Some idle promote [OF t]
      by (simp add: revoke_role_def run_simps get_role_by_name_run [OF ok idle(1)] flush_nothing
          user_rows_def revoked_def Let_def)
  qed
qed

section \<open>Revocation\<close>

lemma delete_user_role_tables [table_simps]:
  "users (delete_user_role i db) = users db"
  "roles (delete_user_role i db) = roles db"
  "set (user_roles (delete_user_role i db)) = {ur \<in> set (user_roles db). ur_id ur \<noteq> i}"
  by (auto simp: delete_user_role_def)

lemma roles_inv_revoked:
  assumes ok: "schema_ok coll db" and inv: "roles_inv db" and u: "u \<in> set (users db)"
    and t: "t \<in> set (user_rows (u_id u) db)" and role: "ur_role_id t = r_id role"
    and len: "length (user_rows (u_id u) db) \<noteq> 1"
  shows "roles_inv (revoked u role t db)"
proof -
  have ids: "distinct (map ur_id (user_roles db))" and uids: "distinct (map u_id (users db))"
    using ok by (simp_all add: schema_ok_def users_ok_def)
  have tt: "t \<in> set (user_roles db)" "ur_user_id t = u_id u" using t by (auto simp: user_rows_def)
  have same: "x = u" if "x \<in> set (users db)" "u_id x = u_id u" for x
    using distinct_map_inj_on_eq [OF uids that(1) u that(2)] .
  show ?thesis
  proof (cases "u_primary_role_id u = r_id role")
    case False
    then have "roles_inv (delete_user_role (ur_id t) db)"
      using roles_inv_delete [OF inv _ ids tt(1)] tt(2) role same by metis
    with False show ?thesis by (simp add: revoked_def Let_def)
  next
    case True
    have "distinct (map ur_id (user_rows (u_id u) db))"
      using ids by (simp add: user_rows_def distinct_map_filter)
    from revoke_remaining [OF this t len] obtain p where
      p: "min_by ur_assigned_at (filter (\<lambda>ur. ur_id ur \<noteq> ur_id t) (user_rows (u_id u) db)) = Some p"
      by (metis min_by_None_iff not_None_eq)
    then have pin: "p \<in> set (user_roles (delete_user_role (ur_id t) db))" "ur_user_id p = u_id u"
      using min_by_least by (fastforce simp: user_rows_def table_simps)+
    have others: "\<forall>x \<in> set (users (delete_user_role (ur_id t) db)). u_id x \<noteq> u_id u \<longrightarrow>
        (\<exists>ur \<in> set (user_roles (delete_user_role (ur_id t) db)).
           ur_user_id ur = u_id x \<and> ur_role_id ur = u_primary_role_id x)"
    proof (intro ballI impI)
      fix x assume x: "x \<in> set (users (delete_user_role (ur_id t) db))" "u_id x \<noteq> u_id u"
      then obtain ur where ur: "ur \<in> set (user_roles db)" "ur_user_id ur = u_id x"
          "ur_role_id ur = u_primary_role_id x"
        using inv by (auto simp: roles_inv_def table_simps)
      with x tt(2) have "ur \<noteq> t" by auto
      then have "ur_id ur \<noteq> ur_id t" using distinct_map_inj_on_eq [OF ids ur(1) tt(1)] by blast
      with ur show "\<exists>ur \<in> set (user_roles (delete_user_role (ur_id t) db)).
          ur_user_id ur = u_id x \<and> ur_role_id ur = u_primary_role_id x"
        by (auto simp: table_simps)
    qed
    from roles_inv_set_primary [OF others pin(1,2) refl] True p show ?thesis
      by (simp add: revoked_def Let_def)
  qed
qed

lemma roles_held_revoked:
  assumes ok: "schema_ok coll db" and t: "t \<in> set (user_rows (u_id u) db)"
    and role: "role \<in> set (roles db)" "ur_role_id t = r_id role"
  shows "set (roles_held uid (revoked u role t db)) =
         (if uid = u_id u then set (roles_held uid db) - {role} else set (roles_held uid db))"
proof -
  have ids: "distinct (map ur_id (user_roles db))" and rids: "distinct (map r_id (roles db))"
    and pairs: "distinct (map (\<lambda>x. (ur_user_id x, ur_role_id x)) (user_roles db))"
    using ok by (simp_all add: schema_ok_def users_ok_def)
  have tt: "t \<in> set (user_roles db)" "ur_user_id t = u_id u" using t by (auto simp: user_rows_def)
  have tab: "roles (revoked u role t db) = roles db"
    "set (user_roles (revoked u role t db)) = {ur \<in> set (user_roles db). ur_id ur \<noteq> ur_id t}"
    by (simp_all add: revoked_def Let_def table_simps split: option.splits)
  have key: "ur_id ur = ur_id t \<longleftrightarrow> ur_user_id ur = u_id u \<and> ur_role_id ur = r_id role"
    if "ur \<in> set (user_roles db)" for ur
    using distinct_map_inj_on_eq [OF ids that tt(1)] distinct_map_inj_on_eq [OF pairs that tt(1)]
      tt(2) role(2) by auto
  have same: "r = role" if "r \<in> set (roles db)" "r_id r = r_id role" for r
    using distinct_map_inj_on_eq [OF rids that(1) role(1) that(2)] .
  show ?thesis
  proof (rule set_eqI)
    fix r :: role
    have "(\<exists>ur \<in> set (user_roles db). ur_id ur \<noteq> ur_id t \<and> ur_user_id ur = uid \<and> ur_role_id ur = r_id r) \<longleftrightarrow>
        (\<exists>ur \<in> set (user_roles db). ur_user_id ur = uid \<and> ur_role_id ur = r_id r) \<and>
        \<not> (uid = u_id u \<and> r_id r = r_id role)"
      using key by metis
    then show "r \<in> set (roles_held uid (revoked u role t db)) \<longleftrightarrow>
        r \<in> (if uid = u_id u then set (roles_held uid db) - {role} else set (roles_held uid db))"
      using same role(1) by (auto simp: set_roles_held tab)
  qed
qed

text \<open>
  A revocation, whatever it answers, keeps every user with a primary role among the user's
  own roles; a granted one removes exactly the named role from exactly that user.
\<close>

lemma revoke_role_inv:
  assumes ok: "schema_ok (collate env) (work w)" and idle: "\<not> deactive w" "pending w = []"
    and inv: "roles_inv (work w)" and u: "u \<in> set (users (work w))"
  shows "roles_inv (work (snd (revoke_role env u n w)))"
proof (cases "find_role env n (work w)")
  case None
  with inv show ?thesis by (simp add: revoke_role_run [OF ok idle])
next
  case (Some role)
  show ?thesis
  proof (cases "first_row (filter (\<lambda>ur. ur_role_id ur = r_id role) (user_rows (u_id u) (work w)))")
    case None
    with Some inv show ?thesis by (simp add: revoke_role_run [OF ok idle])
  next
    case t: (Some t)
    then have "t \<in> set (user_rows (u_id u) (work w))" "ur_role_id t = r_id role"
      by (auto dest: first_row_filterD)
    from roles_inv_revoked [OF ok inv u this] Some t inv show ?thesis
      by (simp add: revoke_role_run [OF ok idle])
  qed
qed

section \<open>Assignment\<close>

definition with_primary :: "bool \<Rightarrow> user \<Rightarrow> role \<Rightarrow> database \<Rightarrow> database" where
  "with_primary is_primary u role db = (if is_primary then set_primary_role (u_id u) (r_id role) db else db)"

definition held_row :: "user \<Rightarrow> role \<Rightarrow> database \<Rightarrow> user_role option" where
  "held_row u role db =
     first_row (filter (\<lambda>ur. ur_user_id ur = u_id u \<and> ur_role_id ur = r_id role) (user_roles db))"

text \<open>The two outcomes of an assignment whose role exists: held already, or newly granted.\<close>

lemma assign_role_held:
  assumes ok: "schema_ok (collate env) (work w)" and idle: "\<not> deactive w" "pending w = []"
    and role: "find_role env n (work w) = Some role" and held: "held_row u role (work w) = Some ur"
  shows "assign_role env u n p w = (Inr ur, w\<lparr>work := with_primary p u role (work w)\<rparr>)"
  using role held idle
  by (simp add: assign_role_def run_simps get_role_by_name_run [OF ok idle(1)]
      unique_user_role [OF ok] held_row_def with_primary_def flush_nothing)

lemma assign_role_new:
  assumes ok: "schema_ok (collate env) (work w)" and idle: "\<not> deactive w" "pending w = []"
    and role: "find_role env n (work w) = Some role" and new: "held_row u role (work w) = None"
    and u: "u_id u \<in> u_id ` set (users (work w))"
    and fresh: "uuid_source env (uuids_drawn w) \<notin> ur_id ` set (user_roles (work w))"
    and accepted: "\<not> rejects_value env (RUserRole (new_user_role (uuid_source env (uuids_drawn w)) u role))"
  shows "assign_role env u n p w =
    (Inr (new_user_role (uuid_source env (uuids_drawn w)) u role),
     w\<lparr>work := insert_row (db_clock env (db_ticks w)) (RUserRole (new_user_role (uuid_source env (uuids_drawn w)) u role))
                 (with_primary p u role (work w)),
       uuids_drawn := Suc (uuids_drawn w), db_ticks := Suc (db_ticks w)\<rparr>)"
proof -
  let ?ur = "new_user_role (uuid_source env (uuids_drawn w)) u role"
  have "r_id role \<in> r_id ` set (roles (work w))" using find_role_SomeD [OF role] by blast
  moreover have "(u_id u, r_id role) \<notin> (\<lambda>x. (ur_user_id x, ur_role_id x)) ` set (user_roles (work w))"
    using new by (auto simp: held_row_def filter_empty_conv)
  moreover have "u_id ` set (users (with_primary p u role (work w))) = u_id ` set (users (work w))"
    by (simp add: with_primary_def user_ids_set_primary)
  ultimately have ok': "integrity_ok (collate env) (RUserRole ?ur) (with_primary p u role (work w))"
    using u fresh by (simp add: new_user_role_def with_primary_def table_simps)
  let ?w = "w\<lparr>work := with_primary p u role (work w), pending := [RUserRole ?ur],
               uuids_drawn := Suc (uuids_drawn w)\<rparr>"
  have "flush env ?w = (Inr (), ?w\<lparr>work := insert_row (db_clock env (db_ticks w)) (RUserRole ?ur)
          (with_primary p u role (work w)), pending := [], db_ticks := Suc (db_ticks w)\<rparr>)"
    using flush_one [of ?w "RUserRole ?ur" env] idle accepted ok' by simp
  moreover have "assign_role env u n p w = bind (flush env) (\<lambda>_. ret ?ur) ?w"
    using role new idle
    by (cases p) (simp_all add: assign_role_def run_simps get_role_by_name_run [OF ok idle(1)]
        unique_user_role [OF ok] held_row_def with_primary_def)
  ultimately show ?thesis using idle by (simp add: run_simps)
qed

lemma assign_role_unknown:
  "schema_ok (collate env) (work w) \<Longrightarrow> \<not> deactive w \<Longrightarrow> find_role env n (work w) = None \<Longrightarrow>
   assign_role env u n p w = (Inl (RoleNotFoundError n), w)"
  by (simp add: assign_role_def run_simps get_role_by_name_run)

lemma users_ok_set_primary:
  assumes "users_ok coll db" and "rid \<in> r_id ` set (roles db)"
  shows "users_ok coll (set_primary_role uid rid db)"
proof -
  note same = user_ids_set_primary [of uid rid db]
  have emails: "map (coll \<circ> u_email) (users (set_primary_role uid rid db)) = map (coll \<circ> u_email) (users db)"
    by (metis list.map_comp table_simps(4))
  show ?thesis
    using assms by (auto simp: users_ok_def table_simps(1,2,3) same emails set_users_primary)
qed

lemma schema_ok_set_primary:
  assumes "schema_ok coll db" and "rid \<in> r_id ` set (roles db)"
  shows "schema_ok coll (set_primary_role uid rid db)"
proof -
  note same = user_ids_set_primary [of uid rid db]
  show ?thesis
    using assms users_ok_set_primary [of coll db rid uid]
    by (simp add: schema_ok_def tokens_ok_def bids_ok_def listings_ok_def table_simps same)
qed

text \<open>A successful assignment: the role exists, and at most one row was added.\<close>

lemma assign_role_success:
  assumes ok: "schema_ok (collate env) (work w)" and idle: "\<not> deactive w" "pending w = []"
    and run: "assign_role env u n p w = (Inr ur, w')"
  obtains role where "find_role env n (work w) = Some role"
    and "ur_user_id ur = u_id u" and "ur_role_id ur = r_id role"
    and "ur \<in> set (user_roles (work w)) \<and> work w' = with_primary p u role (work w) \<or>
         work w' = insert_row (db_clock env (db_ticks w)) (RUserRole ur) (with_primary p u role (work w))"
proof (cases "find_role env n (work w)")
  case None
  with run show thesis by (simp add: assign_role_unknown [OF ok idle(1)])
next
  case (Some role)
  show thesis
  proof (cases "held_row u role (work w)")
    case held: (Some row)
    then have "row \<in> set (user_roles (work w)) \<and> ur_user_id row = u_id u \<and> ur_role_id row = r_id role"
      unfolding held_row_def by (rule first_row_filterD)
    with that Some run show thesis by (auto simp: assign_role_held [OF ok idle Some held])
  next
    case None
    let ?ur = "new_user_role (uuid_source env (uuids_drawn w)) u role"
    let ?w = "w\<lparr>work := with_primary p u role (work w), pending := [RUserRole ?ur],
                 uuids_drawn := Suc (uuids_drawn w)\<rparr>"
    have "assign_role env u n p w = bind (flush env) (\<lambda>_. ret ?ur) ?w"
      using Some None idle
      by (cases p) (simp_all add: assign_role_def run_simps get_role_by_name_run [OF ok idle(1)]
          unique_user_role [OF ok] held_row_def with_primary_def)
    also have "\<dots> = (case flush env ?w of (Inl e, w') \<Rightarrow> (Inl e, w') | (Inr _, w') \<Rightarrow> (Inr ?ur, w'))"
      by (simp add: run_simps split: prod.splits sum.splits)
    finally have "ur = ?ur \<and> work w' = insert_row (db_clock env (db_ticks w)) (RUserRole ur) (with_primary p u role (work w))"
      using run idle by (auto simp: flush_one_cases split: if_splits)
    with that [OF Some] show thesis by (simp add: new_user_role_def)
  qed
qed

lemma roles_inv_granted:
  assumes uids: "distinct (map u_id (users db))" and inv: "roles_inv db" and u: "u \<in> set (users db)"
    and ur: "ur \<in> set (user_roles db')" "ur_user_id ur = u_id u" "ur_role_id ur = r_id role"
    and tables: "users db' = users db" "set (user_roles db) \<subseteq> set (user_roles db')"
  shows "roles_inv (with_primary p u role db')"
proof -
  have base: "roles_inv db'" using inv tables by (auto simp: roles_inv_def)
  show ?thesis
  proof (cases p)
    case True
    have "roles_inv (set_primary_role (u_id u) (r_id role) db')"
      using base ur by (intro roles_inv_set_primary) (auto simp: roles_inv_def)
    with True show ?thesis by (simp add: with_primary_def)
  qed (use base in \<open>simp add: with_primary_def\<close>)
qed

lemma insert_user_role_with_primary:
  "insert_row t (RUserRole ur) (with_primary p u role db) = with_primary p u role (insert_row t (RUserRole ur) db)"
  by (simp add: with_primary_def set_primary_role_def)

lemma assign_role_inv:
  assumes ok: "schema_ok (collate env) (work w)" and idle: "\<not> deactive w" "pending w = []"
    and inv: "roles_inv (work w)" and u: "u \<in> set (users (work w))"
    and run: "assign_role env u n p w = (Inr ur, w')"
  shows "roles_inv (work w')"
proof -
  obtain role where role: "ur_user_id ur = u_id u" "ur_role_id ur = r_id role"
    and res: "ur \<in> set (user_roles (work w)) \<and> work w' = with_primary p u role (work w) \<or>
         work w' = insert_row (db_clock env (db_ticks w)) (RUserRole ur) (with_primary p u role (work w))"
    by (rule assign_role_success [OF ok idle run])
  have uids: "distinct (map u_id (users (work w)))" using ok by (simp add: schema_ok_def users_ok_def)
  from res show ?thesis
  proof
    assume "ur \<in> set (user_roles (work w)) \<and> work w' = with_primary p u role (work w)"
    then show ?thesis using roles_inv_granted [OF uids inv u _ role, of "work w"] by simp
  next
    assume "work w' = insert_row (db_clock env (db_ticks w)) (RUserRole ur) (with_primary p u role (work w))"
    then have w': "work w' = with_primary p u role (insert_row (db_clock env (db_ticks w)) (RUserRole ur) (work w))"
      by (simp only: insert_user_role_with_primary)
    show ?thesis
      unfolding w' by (rule roles_inv_granted [OF uids inv u,
          of "ur\<lparr>ur_assigned_at := db_clock env (db_ticks w)\<rparr>"]) (use role in auto)
  qed
qed

lemma find_role_in: "find_role env n db = Some r \<Longrightarrow> r_id r \<in> r_id ` set (roles db)"
  using find_role_SomeD by fastforce

text \<open>Every operation of the service keeps the declared constraints.\<close>

lemma keeps_schema_list_roles [keeps_intros]: "keeps I (list_roles env a)"
  and keeps_schema_get_role [keeps_intros]: "keeps I (get_role_by_name env n)"
  and keeps_schema_user_roles [keeps_intros]: "keeps I (get_user_roles env u)"
  unfolding list_roles_def get_role_by_name_def get_user_roles_def by (intro keeps_intros)+

end
