(* ===== verification/Token_Security.thy ===== *)
theory Token_Security
  imports Session_Laws
begin

text \<open>
  \<^verbatim>\<open>core/access_tokens.py\<close> (the tokens this service issues), \<^verbatim>\<open>core/passwords.py\<close> and
  \<^verbatim>\<open>core/security.py\<close> (the tokens of the external identity provider and its key cache).
  JWT, SHA-256 and Argon2 are parameters; what is relied on is stated where it is used.
\<close>

section \<open>core/access_tokens.py\<close>

definition ALGORITHM :: string where "ALGORITHM = ''HS256''"
definition TOKEN_TYPE :: string where "TOKEN_TYPE = ''access''"

record access_token_claims =
  cl_subject :: string
  cl_roles :: "string list"

text \<open>\<open>int(time.time())\<close>, for times after the epoch.\<close>

definition epoch_seconds :: "time \<Rightarrow> int" where
  "epoch_seconds t = t div second"

definition access_claims :: "env \<Rightarrow> uuid \<Rightarrow> string list \<Rightarrow> int \<Rightarrow> string \<Rightarrow> (string \<times> json) list" where
  "access_claims env uid role_names t jti =
     [(''sub'', JStr (uuid_text uid)),
      (''roles'', JArr (map JStr role_names)),
      (''type'', JStr TOKEN_TYPE),
      (''iss'', JStr (auth_local_issuer (settings env))),
      (''iat'', JInt t),
      (''exp'', JInt (t + auth_access_token_ttl_seconds (settings env))),
      (''jti'', JStr jti)]"

definition create_access_token :: "env \<Rightarrow> uuid \<Rightarrow> string list \<Rightarrow> (string \<times> int) comp" where
  "create_access_token env uid role_names =
     bind (now env) (\<lambda>t.
     bind (token_urlsafe env 16) (\<lambda>jti.
     ret (jwt_encode env (access_claims env uid role_names (epoch_seconds t) jti)
            (auth_jwt_secret (settings env)) ALGORITHM,
          auth_access_token_ttl_seconds (settings env))))"

text \<open>The \<open>roles\<close> claim: anything but a list counts as no role.\<close>

definition claimed_roles :: "(string \<times> json) list \<Rightarrow> string list" where
  "claimed_roles claims =
     (case get_key claims ''roles'' (JArr []) of JArr rs \<Rightarrow> map py_str rs | _ \<Rightarrow> [])"

definition read_access_claims :: "(string \<times> json) list \<Rightarrow> access_token_claims option" where
  "read_access_claims claims =
     (if get_key claims ''type'' JNull \<noteq> JStr TOKEN_TYPE then None
      else (let subject = py_str (get_key claims ''sub'' (JStr [])) in
            if subject = [] then None
            else Some \<lparr>cl_subject = subject, cl_roles = claimed_roles claims\<rparr>))"

text \<open>\<open>jwt.decode\<close> is \<open>None\<close> where it raises a \<open>JOSEError\<close>.\<close>

definition decode_access_token :: "env \<Rightarrow> string \<Rightarrow> access_token_claims option comp" where
  "decode_access_token env token =
     bind (now env) (\<lambda>t.
     ret (case jwt_decode env token (auth_jwt_secret (settings env)) [ALGORITHM]
                 (auth_local_issuer (settings env)) t of
            None \<Rightarrow> None
          | Some claims \<Rightarrow> read_access_claims claims))"

definition generate_opaque_token :: "env \<Rightarrow> string comp" where
  "generate_opaque_token env = token_urlsafe env 32"

definition hash_token :: "env \<Rightarrow> string \<Rightarrow> string" where
  "hash_token env raw_token = sha256_hex env raw_token"

section \<open>core/passwords.py\<close>

definition hash_password :: "env \<Rightarrow> string \<Rightarrow> string comp" where
  "hash_password env plain w =
     (Inr (argon2_hash env (salts_drawn w) plain), w\<lparr>salts_drawn := Suc (salts_drawn w)\<rparr>)"

definition verify_password :: "env \<Rightarrow> string \<Rightarrow> string \<Rightarrow> exn + bool" where
  "verify_password env plain password_hash =
     (case argon2_verify env password_hash plain of
        Verified \<Rightarrow> Inr True
      | VerifyMismatch \<Rightarrow> Inr False
      | InvalidHash \<Rightarrow> Inr False
      | VerifyFailed \<Rightarrow> Inl VerificationError)"

definition needs_rehash :: "env \<Rightarrow> string \<Rightarrow> bool" where
  "needs_rehash env password_hash =
     (case argon2_needs_rehash env password_hash of None \<Rightarrow> False | Some b \<Rightarrow> b)"

declare hash_password_def [run_simps]

lemma keeps_hash_password [keeps_intros]: "keeps I (hash_password env p)"
  by (simp add: keeps_def run_simps)

lemma keeps_generate_opaque_token [keeps_intros]: "keeps I (generate_opaque_token env)"
  unfolding generate_opaque_token_def by (intro keeps_intros)

lemma keeps_create_access_token [keeps_intros]: "keeps I (create_access_token env uid role_names)"
  unfolding create_access_token_def by (intro keeps_intros)

lemma keeps_decode_access_token [keeps_intros]: "keeps I (decode_access_token env tok)"
  unfolding decode_access_token_def by (intro keeps_intros)

text \<open>
  What is relied on of the JWT library for one set of claims: under the key they were signed
  with they decode to themselves while the issuer matches and they have not expired, and
  not at all otherwise.
\<close>

definition jwt_library :: "env \<Rightarrow> (string \<times> json) list \<Rightarrow> bool" where
  "jwt_library env claims \<longleftrightarrow> (\<forall>secret iss t.
     jwt_decode env (jwt_encode env claims secret ALGORITHM) secret [ALGORITHM] iss t =
       (if map_of claims ''iss'' = Some (JStr iss) \<and>
           (case map_of claims ''exp'' of Some (JInt e) \<Rightarrow> epoch_seconds t \<le> e | _ \<Rightarrow> False)
        then Some claims else None))"

lemma uuid_text_not_Nil [simp]: "uuid_text u \<noteq> []"
  by (simp add: uuid_text_def Let_def)

lemma read_issued_claims [simp]:
  "read_access_claims (access_claims env uid role_names t jti) =
   Some \<lparr>cl_subject = uuid_text uid, cl_roles = role_names\<rparr>"
  by (simp add: read_access_claims_def access_claims_def get_key_def claimed_roles_def comp_def)

lemma decode_issued_token:
  assumes "jwt_library env (access_claims env uid role_names issued jti)"
  shows "fst (decode_access_token env
            (jwt_encode env (access_claims env uid role_names issued jti) (auth_jwt_secret (settings env)) ALGORITHM) w) =
         Inr (if epoch_seconds (app_clock env (app_ticks w)) \<le> issued + auth_access_token_ttl_seconds (settings env)
              then Some \<lparr>cl_subject = uuid_text uid, cl_roles = role_names\<rparr> else None)"
proof -
  let ?c = "access_claims env uid role_names issued jti"
  have "map_of ?c ''iss'' = Some (JStr (auth_local_issuer (settings env)))"
    "map_of ?c ''exp'' = Some (JInt (issued + auth_access_token_ttl_seconds (settings env)))"
    by (simp_all add: access_claims_def)
  then show ?thesis
    using assms by (simp add: decode_access_token_def run_simps jwt_library_def)
qed

section \<open>core/security.py\<close>

text \<open>
  The identity provider: the reply to each request for its key set, and the verification of
  a token against a key set (\<open>None\<close> is a \<open>JOSEError\<close>).
\<close>

datatype jwks_reply = Jwks json | HTTPError | Bad_Body

record idp =
  jwks_get :: "nat \<Rightarrow> jwks_reply"
  jwks_decode :: "string \<Rightarrow> json \<Rightarrow> string list \<Rightarrow> string \<Rightarrow> string \<Rightarrow> time \<Rightarrow> (string \<times> json) list option"
  idp_clock :: "nat \<Rightarrow> time"

text \<open>The module's \<open>_jwks_cache\<close>; an absent key set is \<open>JNull\<close>.\<close>

record jwks_state =
  jc_keys :: json
  jc_fetched_at :: time
  jc_fetches :: nat
  jc_ticks :: nat

definition empty_cache :: jwks_state where
  "empty_cache = \<lparr>jc_keys = JNull, jc_fetched_at = 0, jc_fetches = 0, jc_ticks = 0\<rparr>"

definition JWKS_TTL_SECONDS :: int where "JWKS_TTL_SECONDS = 3600"

text \<open>An \<open>exn\<close> or the \<open>httpx.HTTPError\<close> that \<open>_decode_token\<close> turns into a 503.\<close>

datatype fetch_error = Http_Error | Other_Error exn

definition get_jwks :: "idp \<Rightarrow> jwks_state \<Rightarrow> (fetch_error + json) \<times> jwks_state" where
  "get_jwks p s =
     (let t = idp_clock p (jc_ticks s); s = s\<lparr>jc_ticks := Suc (jc_ticks s)\<rparr> in
      if jc_keys s \<noteq> JNull \<and> t - jc_fetched_at s < JWKS_TTL_SECONDS * second then (Inr (jc_keys s), s)
      else (let r = jwks_get p (jc_fetches s); s = s\<lparr>jc_fetches := Suc (jc_fetches s)\<rparr> in
            case r of
              HTTPError \<Rightarrow> (Inl Http_Error, s)
            | Bad_Body \<Rightarrow> (Inl (Other_Error ValueError), s)
            | Jwks k \<Rightarrow> (Inr k, s\<lparr>jc_keys := k, jc_fetched_at := t\<rparr>)))"

definition bearer_header :: "(string \<times> string) list" where
  "bearer_header = [(''WWW-Authenticate'', ''Bearer'')]"

definition decode_token ::
    "idp \<Rightarrow> settings \<Rightarrow> string \<Rightarrow> jwks_state \<Rightarrow> (exn + (string \<times> json) list) \<times> jwks_state" where
  "decode_token p cfg token s =
     (case get_jwks p s of
        (Inl Http_Error, s) \<Rightarrow>
          (Inl (HTTPException HTTP_503_SERVICE_UNAVAILABLE
             ''Authentication service temporarily unavailable'' []), s)
      | (Inl (Other_Error e), s) \<Rightarrow> (Inl e, s)
      | (Inr jwks, s) \<Rightarrow>
          (let t = idp_clock p (jc_ticks s); s = s\<lparr>jc_ticks := Suc (jc_ticks s)\<rparr> in
           case jwks_decode p token jwks (auth_jwt_algorithms cfg) (auth_audience cfg) (auth_issuer cfg) t of
             None \<Rightarrow> (Inl (HTTPException HTTP_401_UNAUTHORIZED ''Invalid or expired token'' bearer_header), s)
           | Some claims \<Rightarrow> (Inr claims, s)))"

record current_user =
  cu_subject :: string
  cu_roles :: "string list"
  cu_raw_claims :: "(string \<times> json) list"

definition has_role :: "current_user \<Rightarrow> string \<Rightarrow> bool" where
  "has_role u role \<longleftrightarrow> role \<in> set (cu_roles u)"

definition get_current_user ::
    "idp \<Rightarrow> settings \<Rightarrow> string option \<Rightarrow> jwks_state \<Rightarrow> (exn + current_user) \<times> jwks_state" where
  "get_current_user p cfg credentials s =
     (case credentials of
        None \<Rightarrow> (Inl (HTTPException HTTP_401_UNAUTHORIZED ''Missing bearer token'' bearer_header), s)
      | Some token \<Rightarrow>
          if token = []
          then (Inl (HTTPException HTTP_401_UNAUTHORIZED ''Missing bearer token'' bearer_header), s)
          else (case decode_token p cfg token s of
                  (Inl e, s) \<Rightarrow> (Inl e, s)
                | (Inr claims, s) \<Rightarrow>
                    (let subject = py_str (get_key claims ''sub'' (JStr [])) in
                     if subject = []
                     then (Inl (HTTPException HTTP_401_UNAUTHORIZED ''Token missing subject'' []), s)
                     else (Inr \<lparr>cu_subject = subject, cu_roles = claimed_roles claims,
                                cu_raw_claims = claims\<rparr>, s))))"

definition require_role ::
    "idp \<Rightarrow> settings \<Rightarrow> string \<Rightarrow> string option \<Rightarrow> jwks_state \<Rightarrow> (exn + current_user) \<times> jwks_state" where
  "require_role p cfg role credentials s =
     (case get_current_user p cfg credentials s of
        (Inl e, s) \<Rightarrow> (Inl e, s)
      | (Inr u, s) \<Rightarrow>
          if has_role u role then (Inr u, s)
          else (Inl (HTTPException HTTP_403_FORBIDDEN (''Requires role: '' @ role) []), s))"

text \<open>
  The key cache. \<open>cache_ok\<close>: whatever keys it holds were a reply of the provider, received
  at the recorded time, which is not in the future.
\<close>

definition cache_ok :: "idp \<Rightarrow> jwks_state \<Rightarrow> bool" where
  "cache_ok p s \<longleftrightarrow> jc_keys s \<noteq> JNull \<longrightarrow>
     (\<exists>i < jc_fetches s. jwks_get p i = Jwks (jc_keys s)) \<and>
     (\<exists>n < jc_ticks s. jc_fetched_at s = idp_clock p n)"

lemma cache_ok_empty [simp]: "cache_ok p empty_cache"
  by (simp add: cache_ok_def empty_cache_def)

lemma get_jwks_cache_ok:
  assumes "cache_ok p s" shows "cache_ok p (snd (get_jwks p s))"
proof (cases "jwks_get p (jc_fetches s)")
  case (Jwks k)
  then show ?thesis
    using assms by (auto simp: get_jwks_def Let_def cache_ok_def less_Suc_eq)
qed (use assms in \<open>auto simp: get_jwks_def Let_def cache_ok_def less_Suc_eq\<close>)

lemma decode_token_cache_ok:
  assumes "cache_ok p s" shows "cache_ok p (snd (decode_token p cfg tok s))"
proof -
  obtain r s' where g: "get_jwks p s = (r, s')" by (cases "get_jwks p s")
  with get_jwks_cache_ok [OF assms] have "cache_ok p s'" by simp
  then have "cache_ok p (s'\<lparr>jc_ticks := Suc (jc_ticks s')\<rparr>)"
    by (auto simp: cache_ok_def less_Suc_eq)
  with \<open>cache_ok p s'\<close> show ?thesis
    by (simp add: decode_token_def g Let_def split: sum.splits option.splits fetch_error.splits)
qed

text \<open>A set of keys is fetched again only once it is an hour old.\<close>

lemma get_jwks_fresh:
  "jc_keys s \<noteq> JNull \<Longrightarrow> idp_clock p (jc_ticks s) - jc_fetched_at s < JWKS_TTL_SECONDS * second \<Longrightarrow>
   get_jwks p s = (Inr (jc_keys s), s\<lparr>jc_ticks := Suc (jc_ticks s)\<rparr>)"
  by (simp add: get_jwks_def Let_def)

lemma get_jwks_stale_failure:
  "jwks_get p (jc_fetches s) = HTTPError \<Longrightarrow>
   \<not> (jc_keys s \<noteq> JNull \<and> idp_clock p (jc_ticks s) - jc_fetched_at s < JWKS_TTL_SECONDS * second) \<Longrightarrow>
   fst (get_jwks p s) = Inl Http_Error \<and> jc_keys (snd (get_jwks p s)) = jc_keys s"
  by (auto simp: get_jwks_def Let_def)

end
