(* ===== verification/Auth_Service.thy ===== *)
theory Auth_Service
  imports Role_Service Token_Security
begin

text \<open>
  \<^verbatim>\<open>services/auth_service.py\<close> and \<^verbatim>\<open>schemas/auth.py\<close>: sign-up, sign-in with lockout,
  refresh-token rotation, sign-out, password reset and email verification. An ORM object is
  the record of its row; an attribute assignment updates the row in the open transaction.
  The properties are in \<^verbatim>\<open>Auth_Laws\<close>.
\<close>

section \<open>schemas/auth.py\<close>

definition PASSWORD_MIN :: nat where "PASSWORD_MIN = 8"
definition PASSWORD_MAX :: nat where "PASSWORD_MAX = 72"

definition is_letter :: "char \<Rightarrow> bool" where
  "is_letter c = (let n = of_char c :: nat in 65 \<le> n \<and> n \<le> 90 \<or> 97 \<le> n \<and> n \<le> 122)"

definition validate_password :: "string \<Rightarrow> exn + string" where
  "validate_password v =
     (if \<not> (PASSWORD_MIN \<le> length v \<and> length v \<le> PASSWORD_MAX) then Inl ValueError
      else if \<not> list_ex is_letter v \<or> \<not> list_ex is_digit v then Inl ValueError
      else Inr v)"

text \<open>\<open>Field(min_length=..., max_length=...)\<close>.\<close>

definition length_field :: "nat \<Rightarrow> nat \<Rightarrow> string \<Rightarrow> exn + string" where
  "length_field lo hi v = (if lo \<le> length v \<and> length v \<le> hi then Inr v else Inl ValueError)"

record sign_up_request =
  su_email :: string
  su_password :: string
  su_first_name :: string
  su_last_name :: string
  su_phone :: "string option"

text \<open>
  The validation of the request body; \<open>email_ok\<close> is the \<open>EmailStr\<close> check of the
  third-party email-validator.
\<close>

definition validate_sign_up :: "(string \<Rightarrow> bool) \<Rightarrow> sign_up_request \<Rightarrow> exn + sign_up_request" where
  "validate_sign_up email_ok d =
     (if \<not> email_ok (su_email d) then Inl ValueError
      else bind_result (length_field PASSWORD_MIN PASSWORD_MAX (su_password d)) (\<lambda>p.
           bind_result (validate_password p) (\<lambda>_.
           bind_result (length_field 1 100 (su_first_name d)) (\<lambda>_.
           bind_result (length_field 1 100 (su_last_name d)) (\<lambda>_.
           case su_phone d of None \<Rightarrow> Inr d
           | Some ph \<Rightarrow> bind_result (length_field 0 30 ph) (\<lambda>_. Inr d))))))"

definition validate_sign_in :: "(string \<Rightarrow> bool) \<Rightarrow> string \<Rightarrow> string \<Rightarrow> exn + string \<times> string" where
  "validate_sign_in email_ok email password =
     (if \<not> email_ok email then Inl ValueError
      else map_result (Pair email) (length_field 1 PASSWORD_MAX password))"

definition validate_reset :: "string \<Rightarrow> string \<Rightarrow> exn + string \<times> string" where
  "validate_reset token new_password =
     (if token = [] then Inl ValueError
      else bind_result (length_field PASSWORD_MIN PASSWORD_MAX new_password) (\<lambda>p.
           map_result (Pair token) (validate_password p)))"

record token_pair =
  access_token :: string
  refresh_token_text :: string
  token_type :: string
  expires_in :: int

record user_read =
  me_id :: uuid
  me_email :: string
  me_first_name :: string
  me_last_name :: string
  me_phone :: "string option"
  me_role :: string
  me_roles :: "string list"
  me_is_email_verified :: bool
  me_created_at :: time

section \<open>Rows\<close>

definition set_user :: "uuid \<Rightarrow> (user \<Rightarrow> user) \<Rightarrow> database \<Rightarrow> database" where
  "set_user uid f db = db\<lparr>users := update_where (\<lambda>x. u_id x = uid) f (users db)\<rparr>"

definition set_refresh :: "(refresh_token \<Rightarrow> bool) \<Rightarrow> time \<Rightarrow> database \<Rightarrow> database" where
  "set_refresh P t db =
     db\<lparr>refresh_tokens := update_where P (\<lambda>k. k\<lparr>rt_revoked_at := Some t\<rparr>) (refresh_tokens db)\<rparr>"

definition set_reset_used :: "uuid \<Rightarrow> time \<Rightarrow> database \<Rightarrow> database" where
  "set_reset_used i t db = db\<lparr>password_reset_tokens :=
     update_where (\<lambda>k. pr_id k = i) (\<lambda>k. k\<lparr>pr_used_at := Some t\<rparr>) (password_reset_tokens db)\<rparr>"

definition set_verification_used :: "uuid \<Rightarrow> time \<Rightarrow> database \<Rightarrow> database" where
  "set_verification_used i t db = db\<lparr>email_verification_tokens :=
     update_where (\<lambda>k. ev_id k = i) (\<lambda>k. k\<lparr>ev_used_at := Some t\<rparr>) (email_verification_tokens db)\<rparr>"

text \<open>The attributes of an ORM object after a flush are those of its row.\<close>

definition loaded_user :: "user \<Rightarrow> user comp" where
  "loaded_user u w = (Inr (case get_by_id u_id (users (work w)) (u_id u) of Some v \<Rightarrow> v | None \<Rightarrow> u), w)"

section \<open>Lookups\<close>

definition normalize_email :: "string \<Rightarrow> string" where
  "normalize_email email = lower (strip email)"

definition get_user_by_id :: "env \<Rightarrow> uuid \<Rightarrow> user option comp" where
  "get_user_by_id env i = query env (\<lambda>db. Inr (get_by_id u_id (users db) i))"

definition get_user_by_email :: "env \<Rightarrow> string \<Rightarrow> user option comp" where
  "get_user_by_email env email =
     query env (\<lambda>db. scalar_one_or_none (filter (\<lambda>u. sql_eq env (u_email u) (normalize_email email)) (users db)))"

text \<open>\<open>user.primary_role.name\<close>; the relationship is loaded with the user.\<close>

definition primary_role_name :: "env \<Rightarrow> user \<Rightarrow> string comp" where
  "primary_role_name env u =
     bind (query env (\<lambda>db. Inr (get_by_id r_id (roles db) (u_primary_role_id u)))) (\<lambda>r.
     case r of None \<Rightarrow> throw AttributeError | Some role \<Rightarrow> ret (r_name role))"

text \<open>\<open>[role.name for role in roles] or [user.primary_role.name]\<close>.\<close>

definition role_names :: "env \<Rightarrow> user \<Rightarrow> string list comp" where
  "role_names env u =
     bind (get_user_roles env u) (\<lambda>held.
     if held = [] then bind (primary_role_name env u) (\<lambda>n. ret [n]) else ret (map r_name held))"

definition to_user_read :: "env \<Rightarrow> user \<Rightarrow> user_read comp" where
  "to_user_read env u =
     bind (get_user_roles env u) (\<lambda>held.
     bind (primary_role_name env u) (\<lambda>primary.
     ret \<lparr>me_id = u_id u, me_email = u_email u, me_first_name = u_first_name u,
          me_last_name = u_last_name u, me_phone = u_phone u, me_role = primary,
          me_roles = (if held = [] then [primary] else map r_name held),
          me_is_email_verified = u_is_email_verified u, me_created_at = u_created_at u\<rparr>))"

section \<open>Internal helpers\<close>

definition issue_token_pair :: "env \<Rightarrow> user \<Rightarrow> token_pair comp" where
  "issue_token_pair env u =
     bind (role_names env u) (\<lambda>names.
     bind (create_access_token env (u_id u) names) (\<lambda>(token, ttl).
     bind (generate_opaque_token env) (\<lambda>raw.
     bind (now env) (\<lambda>t.
     bind (uuid4 env) (\<lambda>i.
     bind (add (RRefresh \<lparr>rt_id = i, rt_user_id = u_id u, rt_token_hash = hash_token env raw,
        rt_expires_at = t + auth_refresh_token_ttl_seconds (settings env) * second,
        rt_revoked_at = None, rt_created_at = 0\<rparr>)) (\<lambda>_.
     ret \<lparr>access_token = token, refresh_token_text = raw, token_type = ''bearer'', expires_in = ttl\<rparr>))))))"

definition issue_email_verification :: "env \<Rightarrow> user \<Rightarrow> string comp" where
  "issue_email_verification env u =
     bind (generate_opaque_token env) (\<lambda>raw.
     bind (now env) (\<lambda>t.
     bind (uuid4 env) (\<lambda>i.
     bind (add (RVerify \<lparr>ev_id = i, ev_user_id = u_id u, ev_token_hash = hash_token env raw,
        ev_expires_at = t + auth_email_verification_ttl_seconds (settings env) * second,
        ev_used_at = None, ev_created_at = 0\<rparr>)) (\<lambda>_.
     ret raw))))"

text \<open>
  \<open>x is None or x.spent_at is not None or x.expires_at <= _now()\<close>: the check that the
  refresh, reset and verification tokens share; the clock is read only if the rest passes.
\<close>

definition live_token :: "env \<Rightarrow> ('k \<Rightarrow> time option) \<Rightarrow> ('k \<Rightarrow> time) \<Rightarrow> 'k option \<Rightarrow> 'k option comp" where
  "live_token env spent_at expires_at row =
     (case row of
        None \<Rightarrow> ret None
      | Some k \<Rightarrow>
          if spent_at k \<noteq> None then ret None
          else bind (now env) (\<lambda>t. ret (if expires_at k \<le> t then None else Some k)))"

definition get_active_refresh_token :: "env \<Rightarrow> string \<Rightarrow> refresh_token option comp" where
  "get_active_refresh_token env raw =
     bind (query env (\<lambda>db. scalar_one_or_none
             (filter (\<lambda>k. sql_eq env (rt_token_hash k) (hash_token env raw)) (refresh_tokens db))))
       (live_token env rt_revoked_at rt_expires_at)"

definition revoke_all_refresh_tokens :: "env \<Rightarrow> uuid \<Rightarrow> unit comp" where
  "revoke_all_refresh_tokens env uid =
     bind (now env) (\<lambda>t.
     bind (query env (\<lambda>_. Inr ())) (\<lambda>_.
     assign (set_refresh (\<lambda>k. rt_user_id k = uid \<and> rt_revoked_at k = None) t)))"

definition register_failed_login :: "env \<Rightarrow> user \<Rightarrow> int \<Rightarrow> int \<Rightarrow> unit comp" where
  "register_failed_login env u max_attempts lockout_seconds =
     (let n = u_failed_login_attempts u + 1 in
      bind (assign (set_user (u_id u) (\<lambda>x. x\<lparr>u_failed_login_attempts := n\<rparr>))) (\<lambda>_.
      if max_attempts \<le> n
      then bind (now env) (\<lambda>t.
           assign (set_user (u_id u) (\<lambda>x. x\<lparr>u_locked_until := Some (t + lockout_seconds * second),
                                             u_failed_login_attempts := 0\<rparr>)))
      else ret ()))"

section \<open>The operations\<close>

definition new_user :: "uuid \<Rightarrow> string \<Rightarrow> string \<Rightarrow> sign_up_request \<Rightarrow> role \<Rightarrow> user" where
  "new_user i email password_hash d buyer =
     \<lparr>u_id = i, u_email = email, u_password_hash = password_hash,
      u_first_name = strip (su_first_name d), u_last_name = strip (su_last_name d),
      u_phone = (case su_phone d of None \<Rightarrow> None | Some p \<Rightarrow> if p = [] then None else Some (strip p)),
      u_primary_role_id = r_id buyer, u_is_active = True, u_is_email_verified = False,
      u_failed_login_attempts = 0, u_locked_until = None, u_last_login_at = None, u_created_at = 0\<rparr>"

definition sign_up :: "env \<Rightarrow> sign_up_request \<Rightarrow> (user \<times> string) comp" where
  "sign_up env d =
     (let email = normalize_email (su_email d) in
      bind (get_user_by_email env email) (\<lambda>existing.
      if existing \<noteq> None then throw (EmailAlreadyRegisteredError email)
      else
        bind (get_role_by_name env ''Buyer'') (\<lambda>buyer.
        bind (hash_password env (su_password d)) (\<lambda>ph.
        bind (uuid4 env) (\<lambda>i.
        bind (add (RUser (new_user i email ph d buyer))) (\<lambda>_.
        bind (flush env) (\<lambda>_.
        bind (loaded_user (new_user i email ph d buyer)) (\<lambda>u.
        bind (assign_role env u ''Buyer'' True) (\<lambda>_.
        bind (issue_email_verification env u) (\<lambda>raw.
        bind (commit env) (\<lambda>_.
        bind (loaded_user u) (\<lambda>u. ret (u, raw)))))))))))))"

text \<open>The refusals of a sign-in that come before the password is looked at.\<close>

definition sign_in_gate :: "env \<Rightarrow> user option \<Rightarrow> user comp" where
  "sign_in_gate env found =
     (case found of
        None \<Rightarrow> throw InvalidCredentialsError
      | Some u \<Rightarrow>
          bind (case u_locked_until u of
                  None \<Rightarrow> ret ()
                | Some until \<Rightarrow>
                    bind (now env) (\<lambda>t.
                    if t < until
                    then bind (now env) (\<lambda>t'. throw (AccountLockedError (max ((until - t') div second) 1)))
                    else ret ())) (\<lambda>_.
          if \<not> u_is_active u then throw AccountInactiveError else ret u))"

definition sign_in :: "env \<Rightarrow> string \<Rightarrow> string \<Rightarrow> (user \<times> token_pair) comp" where
  "sign_in env email password =
     bind (get_user_by_email env email) (\<lambda>found.
     bind (sign_in_gate env found) (\<lambda>u.
     bind (lift (verify_password env password (u_password_hash u))) (\<lambda>ok.
     if \<not> ok
     then bind (register_failed_login env u (auth_max_failed_logins (settings env))
                  (auth_lockout_seconds (settings env))) (\<lambda>_.
          bind (commit env) (\<lambda>_. throw InvalidCredentialsError))
     else
       bind (if needs_rehash env (u_password_hash u)
             then bind (hash_password env password) (\<lambda>h.
                  assign (set_user (u_id u) (\<lambda>x. x\<lparr>u_password_hash := h\<rparr>)))
             else ret ()) (\<lambda>_.
       bind (now env) (\<lambda>t.
       bind (assign (set_user (u_id u) (\<lambda>x. x\<lparr>u_failed_login_attempts := 0, u_locked_until := None,
                                               u_last_login_at := Some t\<rparr>))) (\<lambda>_.
       bind (issue_token_pair env u) (\<lambda>tokens.
       bind (commit env) (\<lambda>_.
       bind (loaded_user u) (\<lambda>u. ret (u, tokens))))))))))"

definition refresh :: "env \<Rightarrow> string \<Rightarrow> token_pair comp" where
  "refresh env raw =
     bind (get_active_refresh_token env raw) (\<lambda>row.
     case row of
       None \<Rightarrow> throw InvalidTokenError
     | Some k \<Rightarrow>
         bind (get_user_by_id env (rt_user_id k)) (\<lambda>found.
         case found of
           None \<Rightarrow> throw InvalidTokenError
         | Some u \<Rightarrow>
             if \<not> u_is_active u then throw InvalidTokenError
             else
               bind (now env) (\<lambda>t.
               bind (assign (set_refresh (\<lambda>x. rt_id x = rt_id k) t)) (\<lambda>_.
               bind (issue_token_pair env u) (\<lambda>tokens.
               bind (commit env) (\<lambda>_. ret tokens))))))"

definition sign_out :: "env \<Rightarrow> string \<Rightarrow> unit comp" where
  "sign_out env raw =
     bind (get_active_refresh_token env raw) (\<lambda>row.
     case row of
       None \<Rightarrow> ret ()
     | Some k \<Rightarrow>
         bind (now env) (\<lambda>t.
         bind (assign (set_refresh (\<lambda>x. rt_id x = rt_id k) t)) (\<lambda>_. commit env)))"

definition request_password_reset :: "env \<Rightarrow> string \<Rightarrow> string option comp" where
  "request_password_reset env email =
     bind (get_user_by_email env email) (\<lambda>found.
     case found of
       None \<Rightarrow> ret None
     | Some u \<Rightarrow>
         if \<not> u_is_active u then ret None
         else
           bind (generate_opaque_token env) (\<lambda>raw.
           bind (now env) (\<lambda>t.
           bind (uuid4 env) (\<lambda>i.
           bind (add (RReset \<lparr>pr_id = i, pr_user_id = u_id u, pr_token_hash = hash_token env raw,
              pr_expires_at = t + auth_password_reset_ttl_seconds (settings env) * second,
              pr_used_at = None, pr_created_at = 0\<rparr>)) (\<lambda>_.
           bind (commit env) (\<lambda>_. ret (Some raw)))))))"

definition reset_password :: "env \<Rightarrow> string \<Rightarrow> string \<Rightarrow> unit comp" where
  "reset_password env raw new_password =
     bind (query env (\<lambda>db. scalar_one_or_none
             (filter (\<lambda>k. sql_eq env (pr_token_hash k) (hash_token env raw)) (password_reset_tokens db)))) (\<lambda>row.
     bind (live_token env pr_used_at pr_expires_at row) (\<lambda>live.
     case live of
       None \<Rightarrow> throw InvalidTokenError
     | Some k \<Rightarrow>
         bind (get_user_by_id env (pr_user_id k)) (\<lambda>found.
         case found of
           None \<Rightarrow> throw InvalidTokenError
         | Some u \<Rightarrow>
             bind (hash_password env new_password) (\<lambda>h.
             bind (assign (set_user (u_id u) (\<lambda>x. x\<lparr>u_password_hash := h\<rparr>))) (\<lambda>_.
             bind (now env) (\<lambda>t.
             bind (assign (set_reset_used (pr_id k) t)) (\<lambda>_.
             bind (revoke_all_refresh_tokens env (u_id u)) (\<lambda>_. commit env))))))))"

definition verify_email :: "env \<Rightarrow> string \<Rightarrow> unit comp" where
  "verify_email env raw =
     bind (query env (\<lambda>db. scalar_one_or_none
             (filter (\<lambda>k. sql_eq env (ev_token_hash k) (hash_token env raw)) (email_verification_tokens db)))) (\<lambda>row.
     bind (live_token env ev_used_at ev_expires_at row) (\<lambda>live.
     case live of
       None \<Rightarrow> throw InvalidTokenError
     | Some k \<Rightarrow>
         bind (get_user_by_id env (ev_user_id k)) (\<lambda>found.
         case found of
           None \<Rightarrow> throw InvalidTokenError
         | Some u \<Rightarrow>
             bind (assign (set_user (u_id u) (\<lambda>x. x\<lparr>u_is_email_verified := True\<rparr>))) (\<lambda>_.
             bind (now env) (\<lambda>t.
             bind (assign (set_verification_used (ev_id k) t)) (\<lambda>_. commit env))))))"

end
