(* ===== verification/Auth_Laws.thy ===== *)
theory Auth_Laws
  imports Auth_Service
begin

text \<open>
  What \<^verbatim>\<open>Auth_Service\<close> guarantees: its operations keep the declared constraints; the
  contract \<open>single_use_tokens\<close> of the three token tables, proved once and interpreted on
  refresh, password-reset and email-verification tokens; histories of requests.
\<close>

section \<open>The tables after an assignment\<close>

lemma set_user_tables [table_simps]:
  "roles (set_user uid f db) = roles db"
  "user_roles (set_user uid f db) = user_roles db"
  "refresh_tokens (set_user uid f db) = refresh_tokens db"
  "password_reset_tokens (set_user uid f db) = password_reset_tokens db"
  "email_verification_tokens (set_user uid f db) = email_verification_tokens db"
  "bids (set_user uid f db) = bids db"
  "auctions (set_user uid f db) = auctions db"
  "vehicle_listings (set_user uid f db) = vehicle_listings db"
  by (simp_all add: set_user_def)

lemma set_refresh_tables [table_simps]:
  "roles (set_refresh P t db) = roles db"
  "user_roles (set_refresh P t db) = user_roles db"
  "users (set_refresh P t db) = users db"
  "password_reset_tokens (set_refresh P t db) = password_reset_tokens db"
  "email_verification_tokens (set_refresh P t db) = email_verification_tokens db"
  "bids (set_refresh P t db) = bids db"
  "auctions (set_refresh P t db) = auctions db"
  "vehicle_listings (set_refresh P t db) = vehicle_listings db"
  by (simp_all add: set_refresh_def)

lemma set_reset_used_tables [table_simps]:
  "roles (set_reset_used i t db) = roles db"
  "user_roles (set_reset_used i t db) = user_roles db"
  "users (set_reset_used i t db) = users db"
  "refresh_tokens (set_reset_used i t db) = refresh_tokens db"
  "email_verification_tokens (set_reset_used i t db) = email_verification_tokens db"
  "bids (set_reset_used i t db) = bids db"
  "auctions (set_reset_used i t db) = auctions db"
  "vehicle_listings (set_reset_used i t db) = vehicle_listings db"
  by (simp_all add: set_reset_used_def)

lemma set_verification_used_tables [table_simps]:
  "roles (set_verification_used i t db) = roles db"
  "user_roles (set_verification_used i t db) = user_roles db"
  "users (set_verification_used i t db) = users db"
  "refresh_tokens (set_verification_used i t db) = refresh_tokens db"
  "password_reset_tokens (set_verification_used i t db) = password_reset_tokens db"
  "bids (set_verification_used i t db) = bids db"
  "auctions (set_verification_used i t db) = auctions db"
  "vehicle_listings (set_verification_used i t db) = vehicle_listings db"
  by (simp_all add: set_verification_used_def)

text \<open>An assignment to other columns leaves the keys and links of the users alone.\<close>

definition keeps_keys :: "(user \<Rightarrow> user) \<Rightarrow> bool" where
  "keeps_keys f \<longleftrightarrow> (\<forall>u. u_id (f u) = u_id u \<and> u_email (f u) = u_email u \<and>
     u_primary_role_id (f u) = u_primary_role_id u)"

lemma keeps_keys_columns [simp]:
  "keeps_keys (\<lambda>x. x\<lparr>u_password_hash := h\<rparr>)"
  "keeps_keys (\<lambda>x. x\<lparr>u_is_email_verified := b\<rparr>)"
  "keeps_keys (\<lambda>x. x\<lparr>u_failed_login_attempts := n\<rparr>)"
  "keeps_keys (\<lambda>x. x\<lparr>u_failed_login_attempts := n, u_locked_until := l\<rparr>)"
  "keeps_keys (\<lambda>x. x\<lparr>u_locked_until := l, u_failed_login_attempts := n\<rparr>)"
  "keeps_keys (\<lambda>x. x\<lparr>u_failed_login_attempts := n, u_locked_until := l, u_last_login_at := t\<rparr>)"
  by (simp_all add: keeps_keys_def)

lemma set_user_columns:
  assumes "keeps_keys f"
  shows "map u_id (users (set_user uid f db)) = map u_id (users db)"
    and "map (coll \<circ> u_email) (users (set_user uid f db)) = map (coll \<circ> u_email) (users db)"
    and "map u_primary_role_id (users (set_user uid f db)) = map u_primary_role_id (users db)"
  using assms by (simp_all add: set_user_def keeps_keys_def)

lemma set_user_images:
  assumes "keeps_keys f"
  shows "u_id ` set (users (set_user uid f db)) = u_id ` set (users db)"
    and "u_primary_role_id ` set (users (set_user uid f db)) = u_primary_role_id ` set (users db)"
  by (metis list.set_map set_user_columns(1) assms, metis list.set_map set_user_columns(3) assms)

lemma schema_ok_set_user:
  assumes "keeps_keys f" and "schema_ok coll db" shows "schema_ok coll (set_user uid f db)"
proof -
  have prim: "(\<forall>u \<in> set us. u_primary_role_id u \<in> R) \<longleftrightarrow> u_primary_role_id ` set us \<subseteq> R" for us R
    by auto
  show ?thesis
    using assms(2)
    by (simp add: schema_defs table_simps prim set_user_images [OF assms(1)] set_user_columns [OF assms(1)])
qed

lemma update_keeps_column:
  assumes "\<And>x. g (f x) = g x"
  shows "(\<forall>y \<in> set (update_where P f xs). g y \<in> A) \<longleftrightarrow> (\<forall>y \<in> set xs. g y \<in> A)"
proof -
  have "g ` set (update_where P f xs) = g ` set xs"
    by (metis assms map_update_where list.set_map)
  moreover have "(\<forall>y \<in> Y. g y \<in> A) \<longleftrightarrow> g ` Y \<subseteq> A" for Y by auto
  ultimately show ?thesis by simp
qed

lemma schema_ok_set_refresh: "schema_ok coll db \<Longrightarrow> schema_ok coll (set_refresh P t db)"
  by (simp add: schema_ok_def users_ok_def bids_ok_def listings_ok_def table_simps)
    (simp add: tokens_ok_def table_simps, simp add: set_refresh_def update_keeps_column)

lemma schema_ok_set_reset_used: "schema_ok coll db \<Longrightarrow> schema_ok coll (set_reset_used i t db)"
  by (simp add: schema_ok_def users_ok_def bids_ok_def listings_ok_def table_simps)
    (simp add: tokens_ok_def table_simps, simp add: set_reset_used_def update_keeps_column)

lemma schema_ok_set_verification_used:
  "schema_ok coll db \<Longrightarrow> schema_ok coll (set_verification_used i t db)"
  by (simp add: schema_ok_def users_ok_def bids_ok_def listings_ok_def table_simps)
    (simp add: tokens_ok_def table_simps, simp add: set_verification_used_def update_keeps_column)

section \<open>The operations keep the declared constraints\<close>

lemma keeps_loaded_user [keeps_intros]: "keeps I (loaded_user u)"
  by (simp add: keeps_def loaded_user_def)

lemma keeps_reads [keeps_intros]:
  "keeps I (get_user_by_id env i)" "keeps I (get_user_by_email env e)"
  "keeps I (primary_role_name env u)"
  unfolding get_user_by_id_def get_user_by_email_def primary_role_name_def by (intro keeps_intros)+

lemma keeps_role_names [keeps_intros]: "keeps I (role_names env u)"
  unfolding role_names_def by (intro keeps_intros)

lemma keeps_to_user_read [keeps_intros]: "keeps I (to_user_read env u)"
  unfolding to_user_read_def by (intro keeps_intros)

lemma keeps_live_token [keeps_intros]: "keeps I (live_token env a b r)"
  unfolding live_token_def by (intro keeps_intros)

lemma keeps_issue [keeps_intros]:
  "keeps I (issue_token_pair env u)" "keeps I (issue_email_verification env u)"
  "keeps I (get_active_refresh_token env raw)"
  unfolding issue_token_pair_def issue_email_verification_def get_active_refresh_token_def
  by (intro keeps_intros)+

lemma keeps_sign_in_gate [keeps_intros]: "keeps I (sign_in_gate env found)"
  unfolding sign_in_gate_def by (intro keeps_intros)

lemma get_role_by_name_result:
  "get_role_by_name env n w = (Inr role, w') \<Longrightarrow> w' = w \<and> role \<in> set (roles (work w))"
  by (auto simp: get_role_by_name_def run_simps dest!: scalar_one_or_none_SomeD
      split: sum.splits option.splits)

lemma query_result: "query env q w = (r, w') \<Longrightarrow> w' = w"
  by (auto simp: run_simps split: sum.splits)

lemma keeps_schema_assign_role [keeps_intros]:
  "keeps (schema_ok (collate env)) (assign_role env u n p)"
  unfolding keeps_at_all assign_role_def
proof (intro allI keeps_at_bind)
  fix w :: world
  show "keeps_at (schema_ok (collate env)) w (get_role_by_name env n)"
    by (intro keeps_at_keeps keeps_intros)
  fix role w1 assume "get_role_by_name env n w = (Inr role, w1)"
  then have 1: "w1 = w" "r_id role \<in> r_id ` set (roles (work w))"
    by (auto dest: get_role_by_name_result)
  show "keeps_at (schema_ok (collate env)) w1 (query env (\<lambda>db. scalar_one_or_none
      (filter (\<lambda>ur. ur_user_id ur = u_id u \<and> ur_role_id ur = r_id role) (user_roles db))))"
    by (intro keeps_at_keeps keeps_intros)
  fix found w2 assume "query env (\<lambda>db. scalar_one_or_none
      (filter (\<lambda>ur. ur_user_id ur = u_id u \<and> ur_role_id ur = r_id role) (user_roles db))) w1 = (Inr found, w2)"
  then have 2: "w2 = w" using 1 by (auto dest: query_result)
  show "keeps_at (schema_ok (collate env)) w2 (case found of
      None \<Rightarrow> bind (uuid4 env) (\<lambda>i. bind (add (RUserRole (new_user_role i u role))) (\<lambda>_. ret (new_user_role i u role)))
    | Some ur \<Rightarrow> ret ur)"
    by (intro keeps_at_keeps keeps_intros)
  fix ur w3 assume "(case found of
      None \<Rightarrow> bind (uuid4 env) (\<lambda>i. bind (add (RUserRole (new_user_role i u role))) (\<lambda>_. ret (new_user_role i u role)))
    | Some ur \<Rightarrow> ret ur) w2 = (Inr ur, w3)"
  then have 3: "work w3 = work w" using 2 by (auto simp: run_simps split: option.splits)
  show "keeps_at (schema_ok (collate env)) w3
      (if p then assign (set_primary_role (u_id u) (r_id role)) else ret ())"
    using 1(2) by (auto simp: keeps_at_def run_simps 3 intro: schema_ok_set_primary)
  fix v w4
  show "keeps_at (schema_ok (collate env)) w4 (flush env)"
    by (intro keeps_at_keeps keeps_intros)
  fix y w5
  show "keeps_at (schema_ok (collate env)) w5 (ret ur)"
    by (intro keeps_at_keeps keeps_intros)
qed

lemma keeps_schema_updates [keeps_intros]:
  "keeps_keys f \<Longrightarrow> keeps (schema_ok coll) (assign (set_user uid f))"
  "keeps (schema_ok coll) (assign (set_refresh P t))"
  "keeps (schema_ok coll) (assign (set_reset_used i t))"
  "keeps (schema_ok coll) (assign (set_verification_used i t))"
  by (auto intro!: keeps_assign schema_ok_set_user schema_ok_set_refresh schema_ok_set_reset_used
      schema_ok_set_verification_used)

lemmas auth_handlers = sign_up_def sign_in_def refresh_def sign_out_def request_password_reset_def
  reset_password_def verify_email_def

lemma keeps_register_failed_login [keeps_intros]:
  "keeps (schema_ok coll) (register_failed_login env u n s)"
  unfolding register_failed_login_def by (intro keeps_intros) simp_all

lemma keeps_revoke_all [keeps_intros]: "keeps (schema_ok coll) (revoke_all_refresh_tokens env uid)"
  unfolding revoke_all_refresh_tokens_def by (intro keeps_intros)

lemma keeps_schema_auth [keeps_intros]:
  "keeps (schema_ok (collate env)) (sign_up env d)"
  "keeps (schema_ok (collate env)) (sign_in env email password)"
  "keeps (schema_ok (collate env)) (refresh env raw)"
  "keeps (schema_ok (collate env)) (sign_out env raw)"
  "keeps (schema_ok (collate env)) (request_password_reset env email)"
  "keeps (schema_ok (collate env)) (reset_password env raw new_password)"
  "keeps (schema_ok (collate env)) (verify_email env raw)"
  unfolding auth_handlers by (intro keeps_intros keeps_keys_columns)+

section \<open>Single-use tokens\<close>

text \<open>Some row for this token value is marked as spent.\<close>

definition spent_in ::
    "(string \<Rightarrow> string) \<Rightarrow> (database \<Rightarrow> 'k list) \<Rightarrow> ('k \<Rightarrow> string) \<Rightarrow> ('k \<Rightarrow> time option) \<Rightarrow> string \<Rightarrow> database \<Rightarrow> bool" where
  "spent_in coll table hash_of spent_at h db \<longleftrightarrow>
     (\<exists>k \<in> set (table db). coll (hash_of k) = coll h \<and> spent_at k \<noteq> None)"

text \<open>A token table: the hash column is unique and insertions append.\<close>

locale token_table =
  fixes table :: "database \<Rightarrow> 'k list" and hash_of :: "'k \<Rightarrow> string" and spent_at :: "'k \<Rightarrow> time option"
  assumes unique: "schema_ok coll db \<Longrightarrow> distinct (map (coll \<circ> hash_of) (table db))"
    and append_only: "set (table db) \<subseteq> set (table (insert_row t r db))"
begin

abbreviation spent :: "(string \<Rightarrow> string) \<Rightarrow> string \<Rightarrow> database \<Rightarrow> bool" where
  "spent coll h \<equiv> spent_in coll table hash_of spent_at h"

lemma spent_insert: "spent coll h db \<Longrightarrow> spent coll h (insert_row t r db)"
  using append_only unfolding spent_in_def by blast

lemma spent_all:
  assumes "schema_ok coll db" and "spent coll h db" and "k \<in> set (table db)" and "coll (hash_of k) = coll h"
  shows "spent_at k \<noteq> None"
proof -
  obtain k' where k': "k' \<in> set (table db)" "coll (hash_of k') = coll h" "spent_at k' \<noteq> None"
    using assms(2) by (auto simp: spent_in_def)
  have "k = k'"
    by (rule distinct_map_inj_on_eq [OF unique [OF assms(1)] assms(3) k'(1)]) (use assms(4) k'(2) in simp)
  with k' show ?thesis by simp
qed

end

sublocale token_table \<subseteq> spent_rows: row_invariant coll "spent coll h" for coll h
  by unfold_locales (rule spent_insert)

text \<open>
  The contract of an operation that redeems a token: it refuses a value whose rows are all
  spent, and a success leaves the value spent in the committed data.
\<close>

locale single_use_tokens = token_table table hash_of spent_at
  for table :: "database \<Rightarrow> 'k list" and hash_of :: "'k \<Rightarrow> string" and spent_at :: "'k \<Rightarrow> time option" +
  fixes redeem :: "env \<Rightarrow> string \<Rightarrow> 'p \<Rightarrow> 'r comp"
  assumes refuses: "schema_ok (collate env) (work w) \<Longrightarrow> clean w \<Longrightarrow>
      (\<forall>k \<in> set (table (work w)). sql_eq env (hash_of k) (hash_token env raw) \<longrightarrow> spent_at k \<noteq> None) \<Longrightarrow>
      fst (redeem env raw p w) = Inl InvalidTokenError"
    and redeems: "schema_ok (collate env) (work w) \<Longrightarrow> clean w \<Longrightarrow> redeem env raw p w = (Inr x, w') \<Longrightarrow>
      spent_in (collate env) table hash_of spent_at (hash_token env raw) (committed w')"
begin

lemma spent_refused:
  assumes "schema_ok (collate env) (committed w)" and "clean w"
    and "spent (collate env) (hash_token env raw) (committed w)"
  shows "fst (redeem env raw p w) = Inl InvalidTokenError"
proof -
  have same: "work w = committed w" using assms(2) by (simp add: clean_def)
  show ?thesis
    by (rule refuses [OF _ assms(2)], use assms(1) same in simp)
      (use spent_all [OF assms(1,3)] same in \<open>auto simp: sql_eq_def\<close>)
qed

text \<open>Redeemed once, a token is refused after any later work that keeps it spent.\<close>

lemma never_twice:
  assumes "schema_ok (collate env) (committed w)" and "clean w"
    and "redeem env raw p w = (Inr x, w1)"
    and later: "spent (collate env) (hash_token env raw) (committed w1) \<Longrightarrow>
      spent (collate env) (hash_token env raw) (committed w2)"
    and "schema_ok (collate env) (committed w2)" and "clean w2"
  shows "fst (redeem env raw q w2) = Inl InvalidTokenError"
proof -
  have "schema_ok (collate env) (work w)" using assms(1,2) by (simp add: clean_def)
  from redeems [OF this assms(2,3)] later assms(5,6) show ?thesis
    by (intro spent_refused) simp_all
qed

end

section \<open>The three token tables\<close>

text \<open>A lookup in a token table, in a clean world: the one row with that hash, if it is live.\<close>

lemma token_lookup:
  assumes "distinct (map (collate env \<circ> hash_of) rows)"
  shows "scalar_one_or_none (filter (\<lambda>k. sql_eq env (hash_of k) h) rows) =
         Inr (first_row (filter (\<lambda>k. sql_eq env (hash_of k) h) rows))"
  using unique_lookup [OF assms, of h] by (simp add: sql_eq_def)

lemma live_token_spent:
  "(\<forall>k. row = Some k \<longrightarrow> spent_at k \<noteq> None) \<Longrightarrow> live_token env spent_at e row w = (Inr None, w)"
  by (cases row) (auto simp: live_token_def run_simps)

lemma live_token_SomeD:
  "live_token env spent_at e row w = (Inr (Some k), w') \<Longrightarrow>
   row = Some k \<and> spent_at k = None \<and> app_clock env (app_ticks w) < e k \<and> w' = w\<lparr>app_ticks := Suc (app_ticks w)\<rparr>"
  by (cases row) (auto simp: live_token_def run_simps split: if_splits)

lemma schema_token_columns:
  assumes "schema_ok coll db"
  shows "distinct (map (coll \<circ> rt_token_hash) (refresh_tokens db))"
    and "distinct (map (coll \<circ> pr_token_hash) (password_reset_tokens db))"
    and "distinct (map (coll \<circ> ev_token_hash) (email_verification_tokens db))"
  using assms by (simp_all add: schema_ok_def tokens_ok_def)

lemma insert_row_tokens:
  "set (refresh_tokens db) \<subseteq> set (refresh_tokens (insert_row t r db))"
  "set (password_reset_tokens db) \<subseteq> set (password_reset_tokens (insert_row t r db))"
  "set (email_verification_tokens db) \<subseteq> set (email_verification_tokens (insert_row t r db))"
  by (cases r; auto)+

interpretation refresh_table: token_table refresh_tokens rt_token_hash rt_revoked_at
  by unfold_locales (simp_all add: schema_token_columns insert_row_tokens)

interpretation reset_table: token_table password_reset_tokens pr_token_hash pr_used_at
  by unfold_locales (simp_all add: schema_token_columns insert_row_tokens)

interpretation verification_table: token_table email_verification_tokens ev_token_hash ev_used_at
  by unfold_locales (simp_all add: schema_token_columns insert_row_tokens)

lemma clean_simps: "clean w \<Longrightarrow> \<not> deactive w" "clean w \<Longrightarrow> pending w = []" "clean w \<Longrightarrow> work w = committed w"
  by (simp_all add: clean_def)

lemma get_active_refresh_token_run:
  assumes "schema_ok (collate env) (work w)" and "clean w"
  shows "get_active_refresh_token env raw w =
    live_token env rt_revoked_at rt_expires_at
      (first_row (filter (\<lambda>k. sql_eq env (rt_token_hash k) (hash_token env raw)) (refresh_tokens (work w)))) w"
  using assms(2)
  by (simp add: get_active_refresh_token_def run_simps clean_simps(1)
      token_lookup [OF schema_token_columns(1) [OF assms(1)]])

text \<open>What a computation reports on success, through a bind.\<close>

lemma bind_Inr:
  assumes "bind m f w = (Inr y, w')"
  obtains x v where "m w = (Inr x, v)" and "f x v = (Inr y, w')"
  using assms by (auto simp: bind_def split: prod.splits sum.splits)

lemma spent_set_refresh:
  assumes "k \<in> set (refresh_tokens db)" and "coll (rt_token_hash k) = coll h"
  shows "spent_in coll refresh_tokens rt_token_hash rt_revoked_at h (set_refresh (\<lambda>x. rt_id x = rt_id k) t db)"
  unfolding spent_in_def set_refresh_def
  by (rule bexI [of _ "k\<lparr>rt_revoked_at := Some t\<rparr>"]) (use assms in \<open>auto simp: set_update_where\<close>)

lemma spent_set_reset:
  assumes "k \<in> set (password_reset_tokens db)" and "coll (pr_token_hash k) = coll h"
  shows "spent_in coll password_reset_tokens pr_token_hash pr_used_at h (set_reset_used (pr_id k) t db)"
  unfolding spent_in_def set_reset_used_def
  by (rule bexI [of _ "k\<lparr>pr_used_at := Some t\<rparr>"]) (use assms in \<open>auto simp: set_update_where\<close>)

lemma spent_set_verification:
  assumes "k \<in> set (email_verification_tokens db)" and "coll (ev_token_hash k) = coll h"
  shows "spent_in coll email_verification_tokens ev_token_hash ev_used_at h (set_verification_used (ev_id k) t db)"
  unfolding spent_in_def set_verification_used_def
  by (rule bexI [of _ "k\<lparr>ev_used_at := Some t\<rparr>"]) (use assms in \<open>auto simp: set_update_where\<close>)

text \<open>No assignment of the service makes a spent token live again.\<close>

lemma in_update_where: "k \<in> set xs \<Longrightarrow> (if P k then f k else k) \<in> set (update_where P f xs)"
  unfolding update_where_def by (simp only: set_map) (rule imageI)

lemma spent_in_update:
  assumes spent: "\<exists>k \<in> set xs. coll (hash_of k) = c \<and> spent_at k \<noteq> None"
    and f: "\<And>k. hash_of (f k) = hash_of k" "\<And>k. spent_at (f k) \<noteq> None"
  shows "\<exists>k \<in> set (update_where P f xs). coll (hash_of k) = c \<and> spent_at k \<noteq> None"
proof -
  obtain k where k: "k \<in> set xs" "coll (hash_of k) = c" "spent_at k \<noteq> None" using spent by blast
  show ?thesis
    by (rule bexI [OF _ in_update_where [OF k(1), of P f]]) (use k f in simp)
qed

lemma spent_kept [simp]:
  "spent_in coll refresh_tokens rt_token_hash rt_revoked_at h db \<Longrightarrow>
   spent_in coll refresh_tokens rt_token_hash rt_revoked_at h (set_refresh P t db)"
  "spent_in coll password_reset_tokens pr_token_hash pr_used_at h db \<Longrightarrow>
   spent_in coll password_reset_tokens pr_token_hash pr_used_at h (set_reset_used i t db)"
  "spent_in coll email_verification_tokens ev_token_hash ev_used_at h db \<Longrightarrow>
   spent_in coll email_verification_tokens ev_token_hash ev_used_at h (set_verification_used i t db)"
  using spent_in_update [of "refresh_tokens db" coll rt_token_hash "coll h" rt_revoked_at
      "\<lambda>k. k\<lparr>rt_revoked_at := Some t\<rparr>" P]
    spent_in_update [of "password_reset_tokens db" coll pr_token_hash "coll h" pr_used_at
      "\<lambda>k. k\<lparr>pr_used_at := Some t\<rparr>" "\<lambda>k. pr_id k = i"]
    spent_in_update [of "email_verification_tokens db" coll ev_token_hash "coll h" ev_used_at
      "\<lambda>k. k\<lparr>ev_used_at := Some t\<rparr>" "\<lambda>k. ev_id k = i"]
  by (simp_all add: spent_in_def set_refresh_def set_reset_used_def set_verification_used_def)

lemma spent_other [simp]:
  "spent_in coll refresh_tokens rh rs h (set_user uid f db) = spent_in coll refresh_tokens rh rs h db"
  "spent_in coll refresh_tokens rh rs h (set_primary_role uid rid db) = spent_in coll refresh_tokens rh rs h db"
  "spent_in coll refresh_tokens rh rs h (set_reset_used i t db) = spent_in coll refresh_tokens rh rs h db"
  "spent_in coll refresh_tokens rh rs h (set_verification_used i t db) = spent_in coll refresh_tokens rh rs h db"
  "spent_in coll password_reset_tokens ph ps h (set_user uid f db) = spent_in coll password_reset_tokens ph ps h db"
  "spent_in coll password_reset_tokens ph ps h (set_primary_role uid rid db) = spent_in coll password_reset_tokens ph ps h db"
  "spent_in coll password_reset_tokens ph ps h (set_refresh P t db) = spent_in coll password_reset_tokens ph ps h db"
  "spent_in coll password_reset_tokens ph ps h (set_verification_used i t db) = spent_in coll password_reset_tokens ph ps h db"
  "spent_in coll email_verification_tokens eh es h (set_user uid f db) = spent_in coll email_verification_tokens eh es h db"
  "spent_in coll email_verification_tokens eh es h (set_primary_role uid rid db) = spent_in coll email_verification_tokens eh es h db"
  "spent_in coll email_verification_tokens eh es h (set_refresh P t db) = spent_in coll email_verification_tokens eh es h db"
  "spent_in coll email_verification_tokens eh es h (set_reset_used i t db) = spent_in coll email_verification_tokens eh es h db"
  by (simp_all add: spent_in_def table_simps)

lemma carries_issue [carries_intros]:
  "carries I (get_user_roles env u)" "carries I (role_names env u)" "carries I (create_access_token env i ns)"
  "carries I (generate_opaque_token env)" "carries I (issue_token_pair env u)"
  unfolding get_user_roles_def role_names_def primary_role_name_def create_access_token_def
    generate_opaque_token_def issue_token_pair_def
  by (intro carries_intros)+

lemma refresh_refuses:
  assumes "schema_ok (collate env) (work w)" and "clean w"
    and "\<forall>k \<in> set (refresh_tokens (work w)). sql_eq env (rt_token_hash k) (hash_token env raw) \<longrightarrow>
           rt_revoked_at k \<noteq> None"
  shows "refresh env raw w = (Inl InvalidTokenError, w)" and "sign_out env raw w = (Inr (), w)"
proof -
  have "get_active_refresh_token env raw w = (Inr None, w)"
    using assms(3) by (auto simp: get_active_refresh_token_run [OF assms(1,2)] intro!: live_token_spent
        dest!: first_row_filterD)
  then show "refresh env raw w = (Inl InvalidTokenError, w)" "sign_out env raw w = (Inr (), w)"
    by (simp_all add: refresh_def sign_out_def run_simps)
qed

lemma get_active_refresh_token_SomeD:
  assumes "schema_ok (collate env) (work w)" and "clean w"
    and "get_active_refresh_token env raw w = (Inr (Some k), v)"
  shows "k \<in> set (refresh_tokens (work w)) \<and> sql_eq env (rt_token_hash k) (hash_token env raw) \<and>
    rt_revoked_at k = None \<and> app_clock env (app_ticks w) < rt_expires_at k \<and>
    v = w\<lparr>app_ticks := Suc (app_ticks w)\<rparr>"
  using assms(3) by (auto simp: get_active_refresh_token_run [OF assms(1,2)] dest!: live_token_SomeD
      first_row_filterD)

text \<open>A successful rotation, step by step.\<close>

lemma refresh_success:
  assumes ok: "schema_ok (collate env) (work w)" and cl: "clean w" and run: "refresh env raw w = (Inr x, w')"
  obtains k u v where "k \<in> set (refresh_tokens (work w))" and "sql_eq env (rt_token_hash k) (hash_token env raw)"
    and "rt_revoked_at k = None" and "app_clock env (app_ticks w) < rt_expires_at k"
    and "get_by_id u_id (users (work w)) (rt_user_id k) = Some u" and "u_is_active u"
    and "issue_token_pair env u (w\<lparr>work := set_refresh (\<lambda>y. rt_id y = rt_id k)
           (app_clock env (Suc (app_ticks w))) (work w), app_ticks := Suc (Suc (app_ticks w))\<rparr>) = (Inr x, v)"
    and "commit env v = (Inr (), w')"
proof -
  obtain row v where row: "get_active_refresh_token env raw w = (Inr row, v)"
    using run by (cases "get_active_refresh_token env raw w"; cases "fst (get_active_refresh_token env raw w)")
      (auto simp: refresh_def bind_def)
  then obtain k where k: "row = Some k"
    using run by (cases row) (auto simp: refresh_def run_simps)
  note K = get_active_refresh_token_SomeD [OF ok cl row [unfolded k]]
  have "\<exists>u. get_by_id u_id (users (work w)) (rt_user_id k) = Some u \<and> u_is_active u \<and>
      (\<exists>v. issue_token_pair env u (w\<lparr>work := set_refresh (\<lambda>y. rt_id y = rt_id k)
           (app_clock env (Suc (app_ticks w))) (work w), app_ticks := Suc (Suc (app_ticks w))\<rparr>) = (Inr x, v) \<and>
        commit env v = (Inr (), w'))"
    using run row K clean_simps(1) [OF cl] unfolding k
    by (auto simp: refresh_def get_user_by_id_def run_simps split: option.splits if_splits sum.splits prod.splits)
  with K show thesis using that by blast
qed

lemma refresh_spends:
  assumes ok: "schema_ok (collate env) (work w)" and cl: "clean w" and run: "refresh env raw w = (Inr x, w')"
  shows "spent_in (collate env) refresh_tokens rt_token_hash rt_revoked_at (hash_token env raw) (committed w')"
proof -
  let ?S = "spent_in (collate env) refresh_tokens rt_token_hash rt_revoked_at (hash_token env raw)"
  obtain k u v where k: "k \<in> set (refresh_tokens (work w))" "sql_eq env (rt_token_hash k) (hash_token env raw)"
    and issue: "issue_token_pair env u (w\<lparr>work := set_refresh (\<lambda>y. rt_id y = rt_id k)
           (app_clock env (Suc (app_ticks w))) (work w), app_ticks := Suc (Suc (app_ticks w))\<rparr>) = (Inr x, v)"
    and commit: "commit env v = (Inr (), w')"
    by (rule refresh_success [OF ok cl run])
  have "carries ?S (issue_token_pair env u)" by (intro carries_intros)
  moreover have "?S (work (w\<lparr>work := set_refresh (\<lambda>y. rt_id y = rt_id k)
           (app_clock env (Suc (app_ticks w))) (work w), app_ticks := Suc (Suc (app_ticks w))\<rparr>))"
    using k by (simp add: spent_set_refresh sql_eq_def)
  ultimately have "?S (work v)" using issue by (rule carriesD)
  with refresh_table.spent_rows.commit_stores [OF refl _ commit] show ?thesis by simp
qed

interpretation refresh_once: single_use_tokens refresh_tokens rt_token_hash rt_revoked_at
  "\<lambda>env raw (_ :: unit). refresh env raw"
  by unfold_locales (simp add: refresh_refuses, blast intro: refresh_spends)

text \<open>Password reset and email verification.\<close>

lemma reset_password_refuses:
  assumes "schema_ok (collate env) (work w)" and "clean w"
    and "\<forall>k \<in> set (password_reset_tokens (work w)). sql_eq env (pr_token_hash k) (hash_token env raw) \<longrightarrow>
           pr_used_at k \<noteq> None"
  shows "reset_password env raw p w = (Inl InvalidTokenError, w)"
proof -
  let ?row = "first_row (filter (\<lambda>k. sql_eq env (pr_token_hash k) (hash_token env raw)) (password_reset_tokens (work w)))"
  have "live_token env pr_used_at pr_expires_at ?row w = (Inr None, w)"
    using assms(3) by (intro live_token_spent) (auto dest!: first_row_filterD)
  then show ?thesis
    using assms(2) by (simp add: reset_password_def run_simps clean_simps(1)
        token_lookup [OF schema_token_columns(2) [OF assms(1)]])
qed

lemma verify_email_refuses:
  assumes "schema_ok (collate env) (work w)" and "clean w"
    and "\<forall>k \<in> set (email_verification_tokens (work w)). sql_eq env (ev_token_hash k) (hash_token env raw) \<longrightarrow>
           ev_used_at k \<noteq> None"
  shows "verify_email env raw w = (Inl InvalidTokenError, w)"
proof -
  let ?row = "first_row (filter (\<lambda>k. sql_eq env (ev_token_hash k) (hash_token env raw)) (email_verification_tokens (work w)))"
  have "live_token env ev_used_at ev_expires_at ?row w = (Inr None, w)"
    using assms(3) by (intro live_token_spent) (auto dest!: first_row_filterD)
  then show ?thesis
    using assms(2) by (simp add: verify_email_def run_simps clean_simps(1)
        token_lookup [OF schema_token_columns(3) [OF assms(1)]])
qed

text \<open>The only row with a given hash is the one a lookup returns.\<close>

lemma lookup_row:
  assumes "distinct (map (collate env \<circ> hash_of) rows)" and "k \<in> set rows" and "sql_eq env (hash_of k) h"
  shows "first_row (filter (\<lambda>k. sql_eq env (hash_of k) h) rows) = Some k"
  using filter_key_unique [OF assms(1,2)] assms(3) by (simp add: sql_eq_def)

definition password_was_reset :: "env \<Rightarrow> world \<Rightarrow> password_reset_token \<Rightarrow> string \<Rightarrow> database" where
  "password_was_reset env w k new_password =
     set_refresh (\<lambda>r. rt_user_id r = pr_user_id k \<and> rt_revoked_at r = None)
         (app_clock env (Suc (Suc (app_ticks w))))
       (set_reset_used (pr_id k) (app_clock env (Suc (app_ticks w)))
         (set_user (pr_user_id k) (\<lambda>x. x\<lparr>u_password_hash := argon2_hash env (salts_drawn w) new_password\<rparr>)
           (committed w)))"

lemma live_token_live:
  "spent_at k = None \<Longrightarrow> app_clock env (app_ticks w) < e k \<Longrightarrow>
   live_token env spent_at e (Some k) w = (Inr (Some k), w\<lparr>app_ticks := Suc (app_ticks w)\<rparr>)"
  by (simp add: live_token_def run_simps)

lemma reset_password_run:
  assumes ok: "schema_ok (collate env) (committed w)" and cl: "clean w"
    and k: "k \<in> set (password_reset_tokens (committed w))" "sql_eq env (pr_token_hash k) (hash_token env raw)"
    and live: "pr_used_at k = None" "app_clock env (app_ticks w) < pr_expires_at k"
  shows "reset_password env raw new_password w =
    (Inr (), w\<lparr>committed := password_was_reset env w k new_password,
               work := password_was_reset env w k new_password,
               app_ticks := app_ticks w + 3, salts_drawn := Suc (salts_drawn w)\<rparr>)"
proof -
  have row: "first_row (filter (\<lambda>k. sql_eq env (pr_token_hash k) (hash_token env raw))
      (password_reset_tokens (committed w))) = Some k"
    by (rule lookup_row [OF schema_token_columns(2) [OF ok] k])
  have "pr_user_id k \<in> u_id ` set (users (committed w))"
    using ok k(1) by (auto simp: schema_ok_def tokens_ok_def)
  then obtain u where u: "get_by_id u_id (users (committed w)) (pr_user_id k) = Some u" "u_id u = pr_user_id k"
    using get_by_id_None_iff get_by_id_SomeD by (metis not_None_eq)
  have "work w = committed w" using cl by (simp add: clean_def)
  then show ?thesis
    using clean_simps(1,2) [OF cl] row u live
    by (simp add: reset_password_def run_simps token_lookup [OF schema_token_columns(2) [OF ok]]
        live_token_def get_user_by_id_def revoke_all_refresh_tokens_def commit_nothing_pending
        password_was_reset_def)
qed

lemma reset_password_success:
  assumes ok: "schema_ok (collate env) (committed w)" and cl: "clean w"
    and run: "reset_password env raw new_password w = (Inr x, w')"
  obtains k where "k \<in> set (password_reset_tokens (committed w))"
    and "sql_eq env (pr_token_hash k) (hash_token env raw)"
    and "pr_used_at k = None" and "app_clock env (app_ticks w) < pr_expires_at k"
proof -
  let ?row = "first_row (filter (\<lambda>k. sql_eq env (pr_token_hash k) (hash_token env raw))
      (password_reset_tokens (committed w)))"
  have "work w = committed w" using cl by (simp add: clean_def)
  then obtain k v where k: "live_token env pr_used_at pr_expires_at ?row w = (Inr (Some k), v)"
    using run clean_simps(1) [OF cl]
    by (auto simp: reset_password_def run_simps token_lookup [OF schema_token_columns(2) [OF ok]]
        split: prod.splits sum.splits option.splits)
  from live_token_SomeD [OF k] have "?row = Some k" "pr_used_at k = None" "app_clock env (app_ticks w) < pr_expires_at k"
    by simp_all
  with that first_row_filterD [of _ "password_reset_tokens (committed w)" k] show thesis by blast
qed

lemma reset_password_spends:
  assumes "schema_ok (collate env) (work w)" and cl: "clean w" and run: "reset_password env raw p w = (Inr x, w')"
  shows "spent_in (collate env) password_reset_tokens pr_token_hash pr_used_at (hash_token env raw) (committed w')"
proof -
  have ok: "schema_ok (collate env) (committed w)" using assms(1) cl by (simp add: clean_def)
  obtain k where k: "k \<in> set (password_reset_tokens (committed w))"
    "sql_eq env (pr_token_hash k) (hash_token env raw)"
    "pr_used_at k = None" "app_clock env (app_ticks w) < pr_expires_at k"
    by (rule reset_password_success [OF ok cl run])
  have "committed w' = password_was_reset env w k p"
    using run by (auto simp: reset_password_run [OF ok cl k])
  then show ?thesis
    using k(1,2) by (simp add: password_was_reset_def spent_set_reset table_simps sql_eq_def)
qed

text \<open>Email verification, the same way.\<close>

definition email_was_verified :: "env \<Rightarrow> world \<Rightarrow> email_verification_token \<Rightarrow> database" where
  "email_was_verified env w k =
     set_verification_used (ev_id k) (app_clock env (Suc (app_ticks w)))
       (set_user (ev_user_id k) (\<lambda>x. x\<lparr>u_is_email_verified := True\<rparr>) (committed w))"

lemma verify_email_run:
  assumes ok: "schema_ok (collate env) (committed w)" and cl: "clean w"
    and k: "k \<in> set (email_verification_tokens (committed w))" "sql_eq env (ev_token_hash k) (hash_token env raw)"
    and live: "ev_used_at k = None" "app_clock env (app_ticks w) < ev_expires_at k"
  shows "verify_email env raw w =
    (Inr (), w\<lparr>committed := email_was_verified env w k, work := email_was_verified env w k,
               app_ticks := app_ticks w + 2\<rparr>)"
proof -
  have row: "first_row (filter (\<lambda>k. sql_eq env (ev_token_hash k) (hash_token env raw))
      (email_verification_tokens (committed w))) = Some k"
    by (rule lookup_row [OF schema_token_columns(3) [OF ok] k])
  have "ev_user_id k \<in> u_id ` set (users (committed w))"
    using ok k(1) by (auto simp: schema_ok_def tokens_ok_def)
  then obtain u where u: "get_by_id u_id (users (committed w)) (ev_user_id k) = Some u" "u_id u = ev_user_id k"
    using get_by_id_None_iff get_by_id_SomeD by (metis not_None_eq)
  have "work w = committed w" using cl by (simp add: clean_def)
  then show ?thesis
    using clean_simps(1,2) [OF cl] row u live
    by (simp add: verify_email_def run_simps token_lookup [OF schema_token_columns(3) [OF ok]]
        live_token_def get_user_by_id_def commit_nothing_pending email_was_verified_def)
qed

lemma verify_email_success:
  assumes ok: "schema_ok (collate env) (committed w)" and cl: "clean w"
    and run: "verify_email env raw w = (Inr x, w')"
  obtains k where "k \<in> set (email_verification_tokens (committed w))"
    and "sql_eq env (ev_token_hash k) (hash_token env raw)"
    and "ev_used_at k = None" and "app_clock env (app_ticks w) < ev_expires_at k"
proof -
  let ?row = "first_row (filter (\<lambda>k. sql_eq env (ev_token_hash k) (hash_token env raw))
      (email_verification_tokens (committed w)))"
  have "work w = committed w" using cl by (simp add: clean_def)
  then obtain k v where k: "live_token env ev_used_at ev_expires_at ?row w = (Inr (Some k), v)"
    using run clean_simps(1) [OF cl]
    by (auto simp: verify_email_def run_simps token_lookup [OF schema_token_columns(3) [OF ok]]
        split: prod.splits sum.splits option.splits)
  from live_token_SomeD [OF k] have "?row = Some k" "ev_used_at k = None" "app_clock env (app_ticks w) < ev_expires_at k"
    by simp_all
  with that first_row_filterD [of _ "email_verification_tokens (committed w)" k] show thesis by blast
qed

lemma verify_email_spends:
  assumes "schema_ok (collate env) (work w)" and cl: "clean w" and run: "verify_email env raw w = (Inr x, w')"
  shows "spent_in (collate env) email_verification_tokens ev_token_hash ev_used_at (hash_token env raw) (committed w')"
proof -
  have ok: "schema_ok (collate env) (committed w)" using assms(1) cl by (simp add: clean_def)
  obtain k where k: "k \<in> set (email_verification_tokens (committed w))"
    "sql_eq env (ev_token_hash k) (hash_token env raw)"
    "ev_used_at k = None" "app_clock env (app_ticks w) < ev_expires_at k"
    by (rule verify_email_success [OF ok cl run])
  have "committed w' = email_was_verified env w k"
    using run by (auto simp: verify_email_run [OF ok cl k])
  then show ?thesis
    using k(1,2) by (simp add: email_was_verified_def spent_set_verification table_simps sql_eq_def)
qed

interpretation reset_once: single_use_tokens password_reset_tokens pr_token_hash pr_used_at reset_password
  by unfold_locales (simp add: reset_password_refuses, rule reset_password_spends)

interpretation verification_once: single_use_tokens email_verification_tokens ev_token_hash ev_used_at
  "\<lambda>env raw (_ :: unit). verify_email env raw"
  by unfold_locales (simp add: verify_email_refuses, blast intro: verify_email_spends)

section \<open>Signing up\<close>

lemma normalize_email_idem [simp]: "normalize_email (normalize_email e) = normalize_email e"
  by (simp add: normalize_email_def lower_strip)

lemma get_user_by_email_run:
  assumes "schema_ok (collate env) (work w)" and "\<not> deactive w"
  shows "get_user_by_email env e w =
    (Inr (first_row (filter (\<lambda>u. sql_eq env (u_email u) (normalize_email e)) (users (work w)))), w)"
proof -
  have "distinct (map (collate env \<circ> u_email) (users (work w)))"
    using assms(1) by (simp add: schema_ok_def users_ok_def)
  from unique_lookup [OF this, of "normalize_email e"] assms(2) show ?thesis
    by (simp add: get_user_by_email_def run_simps sql_eq_def)
qed

lemma flush_success:
  assumes "pending w = [r]" and "\<not> deactive w" and "flush env w = (Inr (), w')"
  shows "integrity_ok (collate env) (stored_row env r) (work w)"
    and "w' = w\<lparr>work := insert_row (db_clock env (db_ticks w)) (stored_row env r) (work w),
                 pending := [], db_ticks := Suc (db_ticks w)\<rparr>"
  using assms by (auto simp: flush_one_cases split: if_splits)

lemma bind_hash_password [step_simps]:
  "bind (hash_password env p) f w = f (argon2_hash env (salts_drawn w) p) (w\<lparr>salts_drawn := Suc (salts_drawn w)\<rparr>)"
  by (simp add: bind_def hash_password_def)

lemma bind_get_role [step_simps]:
  "schema_ok (collate env) (work w) \<Longrightarrow> \<not> deactive w \<Longrightarrow>
   bind (get_role_by_name env n) f w =
     (case find_role env n (work w) of None \<Rightarrow> (Inl (RoleNotFoundError n), w) | Some r \<Rightarrow> f r w)"
  by (simp add: bind_def get_role_by_name_run split: option.splits)

lemma get_by_id_appended: "key x \<notin> key ` set rows \<Longrightarrow> get_by_id key (rows @ [x]) (key x) = Some x"
proof -
  assume "key x \<notin> key ` set rows"
  then have "filter (\<lambda>y. key y = key x) rows = []" unfolding filter_empty_conv by (metis imageI)
  then show ?thesis by (simp add: get_by_id_def)
qed

text \<open>A successful sign-up, step by step.\<close>

lemma sign_up_success:
  assumes ok: "schema_ok (collate env) (committed w)" and cl: "clean w"
    and run: "sign_up env d w = (Inr (u, raw), w')"
  obtains buyer nu w2 ur w3 w4 where
    "find_role env ''Buyer'' (committed w) = Some buyer"
    and "nu = new_user (uuid_source env (uuids_drawn w)) (normalize_email (su_email d))
           (argon2_hash env (salts_drawn w) (su_password d)) d buyer"
    and "filter (\<lambda>u. sql_eq env (u_email u) (normalize_email (su_email d))) (users (committed w)) = []"
    and "integrity_ok (collate env) (RUser nu) (committed w)"
    and "work w2 = insert_row (db_clock env (db_ticks w)) (RUser nu) (committed w)"
    and "pending w2 = []" and "\<not> deactive w2" and "committed w2 = committed w"
    and "assign_role env (nu\<lparr>u_created_at := db_clock env (db_ticks w)\<rparr>) ''Buyer'' True w2 = (Inr ur, w3)"
    and "issue_email_verification env (nu\<lparr>u_created_at := db_clock env (db_ticks w)\<rparr>) w3 = (Inr raw, w4)"
    and "commit env w4 = (Inr (), w')"
proof -
  have same: "work w = committed w" using cl by (simp add: clean_def)
  let ?e = "normalize_email (su_email d)"
  let ?T = "\<lambda>nu. bind (loaded_user nu) (\<lambda>u. bind (assign_role env u ''Buyer'' True) (\<lambda>_.
        bind (issue_email_verification env u) (\<lambda>raw. bind (commit env) (\<lambda>_.
        bind (loaded_user u) (\<lambda>u. ret (u, raw))))))"
  let ?nu = "new_user (uuid_source env (uuids_drawn w)) ?e (argon2_hash env (salts_drawn w) (su_password d)) d"
  let ?w = "\<lambda>buyer. w\<lparr>pending := [RUser (?nu buyer)], uuids_drawn := Suc (uuids_drawn w), salts_drawn := Suc (salts_drawn w)\<rparr>"
  have start: "sign_up env d w =
      (if filter (\<lambda>u. sql_eq env (u_email u) ?e) (users (committed w)) \<noteq> [] then (Inl (EmailAlreadyRegisteredError ?e), w)
       else (case find_role env ''Buyer'' (committed w) of
               None \<Rightarrow> (Inl (RoleNotFoundError ''Buyer''), w)
             | Some buyer \<Rightarrow> bind (flush env) (\<lambda>_. ?T (?nu buyer)) (?w buyer)))"
    using ok same clean_simps(1,2) [OF cl]
    by (cases "filter (\<lambda>u. sql_eq env (u_email u) ?e) (users (committed w))")
      (simp_all add: sign_up_def Let_def step_simps throw_def bind_hash_password
        bind_value [where m = "get_user_by_email env e" for e, OF get_user_by_email_run]
        bind_get_role split: option.splits)
  with run obtain buyer where none: "filter (\<lambda>u. sql_eq env (u_email u) ?e) (users (committed w)) = []"
    and buyer: "find_role env ''Buyer'' (committed w) = Some buyer"
    and rest: "bind (flush env) (\<lambda>_. ?T (?nu buyer)) (?w buyer) = (Inr (u, raw), w')"
    by (auto split: if_splits option.splits)
  obtain w2 where f: "flush env (?w buyer) = (Inr (), w2)" and r2: "?T (?nu buyer) w2 = (Inr (u, raw), w')"
    using rest by (rule bind_Inr) auto
  have new: "integrity_ok (collate env) (RUser (?nu buyer)) (committed w)"
    and w2: "w2 = (?w buyer)\<lparr>work := insert_row (db_clock env (db_ticks w)) (RUser (?nu buyer)) (committed w),
        pending := [], db_ticks := Suc (db_ticks w)\<rparr>"
    using flush_success [OF _ _ f, of "RUser (?nu buyer)"] clean_simps(1) [OF cl] same
    by (simp_all del: integrity_ok.simps insert_row.simps add: world_order)
  let ?u = "(?nu buyer)\<lparr>u_created_at := db_clock env (db_ticks w)\<rparr>"
  have "get_by_id u_id (users (committed w) @ [?u]) (u_id (?nu buyer)) = Some ?u"
    using new get_by_id_appended [of u_id ?u "users (committed w)"] by simp
  then have loaded: "loaded_user (?nu buyer) w2 = (Inr ?u, w2)"
    by (simp add: loaded_user_def w2)
  obtain ur w3 where 3: "assign_role env ?u ''Buyer'' True w2 = (Inr ur, w3)"
    and r3: "bind (issue_email_verification env ?u) (\<lambda>raw. bind (commit env) (\<lambda>_.
        bind (loaded_user ?u) (\<lambda>u. ret (u, raw)))) w3 = (Inr (u, raw), w')"
    using r2 unfolding bind_def [of "loaded_user (?nu buyer)"] loaded prod.case sum.case by (rule bind_Inr)
  obtain raw' w4 where 4: "issue_email_verification env ?u w3 = (Inr raw', w4)"
    and r4: "bind (commit env) (\<lambda>_. bind (loaded_user ?u) (\<lambda>u. ret (u, raw'))) w4 = (Inr (u, raw), w')"
    using r3 by (rule bind_Inr)
  obtain v w5 where 5: "commit env w4 = (Inr v, w5)"
    and r5: "bind (loaded_user ?u) (\<lambda>u. ret (u, raw')) w5 = (Inr (u, raw), w')"
    using r4 by (rule bind_Inr)
  have "w5 = w'" "raw' = raw" using r5 by (auto simp: loaded_user_def bind_def ret_def)
  with 5 have "commit env w4 = (Inr (), w')" by simp
  moreover have "work w2 = insert_row (db_clock env (db_ticks w)) (RUser (?nu buyer)) (committed w)"
    "pending w2 = []" "\<not> deactive w2" "committed w2 = committed w"
    using clean_simps(1) [OF cl] by (simp_all add: w2)
  ultimately show thesis using that [OF buyer refl none new] 3 4 \<open>raw' = raw\<close> by blast
qed

lemma flush_clears: "flush env w = (Inr x, w') \<Longrightarrow> \<not> deactive w \<Longrightarrow> pending w' = [] \<and> \<not> deactive w'"
  by (auto simp: flush_def split: sum.splits prod.splits)

lemma assign_role_clears:
  assumes "schema_ok (collate env) (work w)" and "\<not> deactive w"
    and "assign_role env u n p w = (Inr ur, w')"
  shows "pending w' = [] \<and> \<not> deactive w'"
proof -
  obtain role where "find_role env n (work w) = Some role"
    using assms by (auto simp: assign_role_def step_simps split: option.splits)
  then obtain v where "flush env v = (Inr (), w')" and "\<not> deactive v"
    using assms(2,3) assms(1)
    by (auto simp: assign_role_def step_simps unique_user_role [OF assms(1)] elim!: bind_Inr
        split: option.splits if_splits)
       (auto simp: run_simps split: option.splits if_splits sum.splits prod.splits)
  then show ?thesis by (rule flush_clears)
qed

lemma issue_email_verification_run:
  "issue_email_verification env u w = (Inr raw, w') \<Longrightarrow>
   work w' = work w \<and> (deactive w' = deactive w) \<and> (\<exists>v. pending w' = pending w @ [RVerify v] \<and> ev_user_id v = u_id u
     \<and> ev_token_hash v = hash_token env raw \<and> ev_used_at v = None)"
  by (auto simp: issue_email_verification_def generate_opaque_token_def step_simps ret_def)

lemma roles_inv_verify [simp]: "roles_inv (insert_row t (RVerify v) db) = roles_inv db"
  by (simp add: roles_inv_def)

lemma roles_held_verify [simp]: "roles_held uid (insert_row t (RVerify v) db) = roles_held uid db"
  by (simp add: roles_held_def)

lemma find_role_insert_user [simp]: "find_role env n (insert_row t (RUser u) db) = find_role env n db"
  by (simp add: find_role_def)

text \<open>What the new account looks like in the committed data.\<close>

lemma sign_up_committed:
  assumes ok: "schema_ok (collate env) (committed w)" and cl: "clean w"
    and run: "sign_up env d w = (Inr (u, raw), w')"
  obtains buyer nu ur v t t' where
    "find_role env ''Buyer'' (committed w) = Some buyer"
    and "nu = new_user (uuid_source env (uuids_drawn w)) (normalize_email (su_email d))
           (argon2_hash env (salts_drawn w) (su_password d)) d buyer"
    and "integrity_ok (collate env) (RUser nu) (committed w)"
    and "ev_user_id v = u_id nu" and "ev_token_hash v = hash_token env raw"
    and "ur_user_id ur = u_id nu" and "ur_role_id ur = r_id buyer"
    and "committed w' = insert_row t (RVerify v) (insert_row t' (RUserRole ur)
           (insert_row (db_clock env (db_ticks w)) (RUser nu) (committed w)))"
proof -
  obtain buyer nu w2 ur w3 w4 where b: "find_role env ''Buyer'' (committed w) = Some buyer"
    and nu: "nu = new_user (uuid_source env (uuids_drawn w)) (normalize_email (su_email d))
           (argon2_hash env (salts_drawn w) (su_password d)) d buyer"
    and new: "integrity_ok (collate env) (RUser nu) (committed w)"
    and w2: "work w2 = insert_row (db_clock env (db_ticks w)) (RUser nu) (committed w)"
       "pending w2 = []" "\<not> deactive w2" "committed w2 = committed w"
    and 3: "assign_role env (nu\<lparr>u_created_at := db_clock env (db_ticks w)\<rparr>) ''Buyer'' True w2 = (Inr ur, w3)"
    and 4: "issue_email_verification env (nu\<lparr>u_created_at := db_clock env (db_ticks w)\<rparr>) w3 = (Inr raw, w4)"
    and 5: "commit env w4 = (Inr (), w')"
    by (rule sign_up_success [OF ok cl run])
  let ?u = "nu\<lparr>u_created_at := db_clock env (db_ticks w)\<rparr>"
  have ok2: "schema_ok (collate env) (work w2)"
    using schema.insert_keeps [OF ok new] by (simp only: w2(1))
  obtain role where r: "find_role env ''Buyer'' (work w2) = Some role"
    and ur: "ur_user_id ur = u_id ?u" "ur_role_id ur = r_id role"
    and w3: "ur \<in> set (user_roles (work w2)) \<and> work w3 = with_primary True ?u role (work w2) \<or>
         work w3 = insert_row (db_clock env (db_ticks w2)) (RUserRole ur) (with_primary True ?u role (work w2))"
    by (rule assign_role_success [OF ok2 w2(3,2) 3])
  have role: "role = buyer" using r b by (simp add: w2(1) del: insert_row.simps)
  have fresh: "u_id nu \<notin> u_id ` set (users (committed w))" using new by simp
  have "ur \<notin> set (user_roles (work w2))"
  proof
    assume "ur \<in> set (user_roles (work w2))"
    then have "ur_user_id ur \<in> u_id ` set (users (committed w))"
      using ok by (auto simp: w2(1) schema_ok_def users_ok_def)
    with ur(1) fresh show False by simp
  qed
  moreover have "with_primary True ?u role (work w2) = work w2"
  proof -
    have "update_where (\<lambda>x. u_id x = u_id nu) (\<lambda>x. x\<lparr>u_primary_role_id := r_id buyer\<rparr>) (users (committed w)) = users (committed w)"
      by (rule update_where_none) (use fresh in \<open>auto simp: image_iff\<close>)
    then show ?thesis
      by (simp add: with_primary_def set_primary_role_def role w2(1) update_where_def nu new_user_def)
  qed
  ultimately have W3: "work w3 = insert_row (db_clock env (db_ticks w2)) (RUserRole ur) (work w2)"
    using w3 by simp
  have 33: "pending w3 = []" "\<not> deactive w3" using assign_role_clears [OF ok2 w2(3) 3] by simp_all
  obtain v where v: "work w4 = work w3" "\<not> deactive w4" "pending w4 = [RVerify v]" "ev_user_id v = u_id nu"
      "ev_token_hash v = hash_token env raw"
    using issue_email_verification_run [OF 4] 33 by auto
  have "committed w' = insert_row (db_clock env (db_ticks w4)) (RVerify v) (work w3)"
    using 5 v by (auto simp: commit_def bind_def flush_one_cases split: if_splits)
  with that [OF b nu new v(4,5)] ur role W3 w2(1) show thesis by simp
qed

text \<open>
  A new account holds the \<open>Buyer\<close> role and nothing else, as its primary role too, and
  sign-up keeps every other account's primary role among its own.
\<close>

lemma sign_up_roles:
  assumes ok: "schema_ok (collate env) (committed w)" and cl: "clean w"
    and run: "sign_up env d w = (Inr (u, raw), w')"
  shows "roles_inv (committed w) \<Longrightarrow> roles_inv (committed w')"
    and "\<exists>nu buyer. find_role env ''Buyer'' (committed w) = Some buyer \<and> nu \<in> set (users (committed w')) \<and>
      u_email nu = normalize_email (su_email d) \<and> u_primary_role_id nu = r_id buyer \<and>
      set (roles_held (u_id nu) (committed w')) = {buyer}"
proof -
  obtain buyer nu ur v t t' where b: "find_role env ''Buyer'' (committed w) = Some buyer"
    and nu: "nu = new_user (uuid_source env (uuids_drawn w)) (normalize_email (su_email d))
           (argon2_hash env (salts_drawn w) (su_password d)) d buyer"
    and new: "integrity_ok (collate env) (RUser nu) (committed w)"
    and ur: "ur_user_id ur = u_id nu" "ur_role_id ur = r_id buyer"
    and w': "committed w' = insert_row t (RVerify v) (insert_row t' (RUserRole ur)
           (insert_row (db_clock env (db_ticks w)) (RUser nu) (committed w)))"
    by (rule sign_up_committed [OF ok cl run])
  have prim: "u_primary_role_id nu = r_id buyer" "u_email nu = normalize_email (su_email d)"
    by (simp_all add: nu new_user_def)
  have tabs: "users (committed w') = users (committed w) @ [nu\<lparr>u_created_at := db_clock env (db_ticks w)\<rparr>]"
    "user_roles (committed w') = user_roles (committed w) @ [ur\<lparr>ur_assigned_at := t'\<rparr>]"
    "roles (committed w') = roles (committed w)"
    by (simp_all add: w')
  show "roles_inv (committed w')" if "roles_inv (committed w)"
    using that ur prim by (auto simp: roles_inv_def tabs)
  have fresh: "u_id nu \<notin> u_id ` set (users (committed w))" using new by simp
  have held: "r \<in> set (roles_held (u_id nu) (committed w')) \<longleftrightarrow> r = buyer" for r
  proof -
    have old: "ur_user_id x \<noteq> u_id nu" if "x \<in> set (user_roles (committed w))" for x
      using that ok fresh unfolding schema_ok_def users_ok_def by metis
    have "buyer \<in> set (roles (committed w))" using find_role_SomeD [OF b] by simp
    moreover have "distinct (map r_id (roles (committed w)))" using ok by (simp add: schema_ok_def users_ok_def)
    ultimately have "r \<in> set (roles (committed w)) \<and> r_id r = r_id buyer \<longleftrightarrow> r = buyer"
      by (auto dest: distinct_map_inj_on_eq)
    with old ur show ?thesis by (auto simp: set_roles_held tabs)
  qed
  show "\<exists>nu buyer. find_role env ''Buyer'' (committed w) = Some buyer \<and> nu \<in> set (users (committed w')) \<and>
      u_email nu = normalize_email (su_email d) \<and> u_primary_role_id nu = r_id buyer \<and>
      set (roles_held (u_id nu) (committed w')) = {buyer}"
    by (intro exI [of _ "nu\<lparr>u_created_at := db_clock env (db_ticks w)\<rparr>"] exI [of _ buyer])
      (use b prim held in \<open>auto simp: tabs\<close>)
qed

section \<open>All or nothing\<close>

lemma quiet_helpers [atomic_intros]:
  "quiet (get_user_by_id env i)" "quiet (get_user_by_email env e)" "quiet (get_role_by_name env n)"
  "quiet (hash_password env p)" "quiet (loaded_user u)" "quiet (assign_role env u n b)"
  "quiet (issue_email_verification env u)" "quiet (get_active_refresh_token env raw)"
  "quiet (live_token env sp ex row)" "quiet (issue_token_pair env u)" "quiet (sign_in_gate env found)"
  "quiet (revoke_all_refresh_tokens env uid)" "quiet (generate_opaque_token env)"
  unfolding get_user_by_id_def get_user_by_email_def get_role_by_name_def assign_role_def
    issue_email_verification_def get_active_refresh_token_def live_token_def issue_token_pair_def
    sign_in_gate_def revoke_all_refresh_tokens_def generate_opaque_token_def role_names_def
    get_user_roles_def primary_role_name_def create_access_token_def
  by (intro atomic_intros | simp add: quiet_def hash_password_def loaded_user_def)+

lemma returns_ret: "returns (ret x)" and returns_loaded: "returns (bind (loaded_user u) (\<lambda>u. ret (g u)))"
  by (simp_all add: returns_def run_simps loaded_user_def)

lemma atomic_commit_then: "(\<And>x. returns (f x)) \<Longrightarrow> atomic (bind (commit env) f)"
  by (rule atomic_bind_returns [OF atomic_commit])

text \<open>
  A handler that raises has changed nothing in the database. \<open>sign_in\<close> is the exception: a
  wrong password raises after the failed attempt was counted and committed.
\<close>

lemma auth_atomic:
  "atomic (sign_up env d)" "atomic (refresh env raw)" "atomic (sign_out env raw)"
  "atomic (request_password_reset env email)" "atomic (reset_password env raw new_password)"
  "atomic (verify_email env raw)"
  unfolding sign_up_def refresh_def sign_out_def request_password_reset_def reset_password_def
    verify_email_def
  by (rule atomic_commit_then returns_ret returns_loaded | rule atomic_intros)+

section \<open>Primary roles\<close>

text \<open>No account waits to be inserted, and every account's primary role is among its own.\<close>

fun is_new_user :: "row \<Rightarrow> bool" where
  "is_new_user (RUser _) = True" | "is_new_user _ = False"

definition roles_world :: "world \<Rightarrow> bool" where
  "roles_world w \<longleftrightarrow> roles_inv (work w) \<and> roles_inv (committed w) \<and> \<not> list_ex is_new_user (pending w)"

lemma roles_inv_tables:
  assumes "map (\<lambda>u. (u_id u, u_primary_role_id u)) (users db') = map (\<lambda>u. (u_id u, u_primary_role_id u)) (users db)"
    and "set (user_roles db) \<subseteq> set (user_roles db')" and "roles_inv db"
  shows "roles_inv db'"
proof -
  let ?k = "\<lambda>u. (u_id u, u_primary_role_id u)"
  have eq: "?k ` set (users db') = ?k ` set (users db)"
    using arg_cong [OF assms(1), of set] by simp
  have "\<exists>y \<in> set (users db). u_id y = u_id x \<and> u_primary_role_id y = u_primary_role_id x"
    if "x \<in> set (users db')" for x
  proof -
    have "?k x \<in> ?k ` set (users db)" using imageI [OF that, of ?k] by (simp only: eq)
    then show ?thesis by auto
  qed
  then show ?thesis using assms(2,3) unfolding roles_inv_def by (metis subsetD)
qed

lemma roles_inv_kept:
  "keeps_keys f \<Longrightarrow> roles_inv db \<Longrightarrow> roles_inv (set_user uid f db)"
  "roles_inv db \<Longrightarrow> roles_inv (set_refresh P t db)"
  "roles_inv db \<Longrightarrow> roles_inv (set_reset_used i t db)"
  "roles_inv db \<Longrightarrow> roles_inv (set_verification_used i t db)"
  by (rule roles_inv_tables [of "set_user uid f db" db], simp_all add: set_user_def keeps_keys_def)
    (simp_all add: roles_inv_def set_refresh_def set_reset_used_def set_verification_used_def)

lemma roles_inv_insert:
  "roles_inv db \<Longrightarrow> \<not> is_new_user r \<Longrightarrow> roles_inv (insert_row t r db)"
  by (cases r) (auto intro: roles_inv_tables)

lemma stored_row_kind [simp]: "is_new_user (stored_row env r) = is_new_user r"
  by (cases r) simp_all

lemma flush_rows_roles:
  "roles_inv db \<Longrightarrow> \<not> list_ex is_new_user rs \<Longrightarrow> flush_rows env rs t db = (Inr db', t') \<Longrightarrow> roles_inv db'"
proof (induction rs arbitrary: t db)
  case (Cons r rs)
  from Cons.prems have "roles_inv (insert_row (db_clock env t) (stored_row env r) db)"
    by (intro roles_inv_insert) auto
  with Cons.prems show ?case
    by (intro Cons.IH [of "insert_row (db_clock env t) (stored_row env r) db" "Suc t"])
      (auto simp: Let_def split: if_splits)
qed simp

lemma of_session_roles [simp]: "of_session roles_world"
  by (auto simp: of_session_def roles_world_def)

lemma maintains_roles_primitives [maintains_intros]:
  "\<not> is_new_user r \<Longrightarrow> maintains roles_world (add r)"
  "keeps_keys f \<Longrightarrow> maintains roles_world (assign (set_user uid f))"
  "maintains roles_world (assign (set_refresh P t))"
  "maintains roles_world (assign (set_reset_used i t))"
  "maintains roles_world (assign (set_verification_used i t))"
  "maintains roles_world (hash_password env p)"
  "maintains roles_world (loaded_user u)"
  by (simp_all add: maintains_def roles_world_def run_simps roles_inv_kept loaded_user_def)

lemma maintains_roles_flush [maintains_intros]: "maintains roles_world (flush env)"
  unfolding maintains_def flush_def roles_world_def
  by (auto split: sum.splits prod.splits elim: flush_rows_roles)

lemma maintains_roles_commit [maintains_intros]: "maintains roles_world (commit env)"
  unfolding commit_def by (intro maintains_intros) (simp add: maintains_def roles_world_def)

lemma maintains_roles_helpers [maintains_intros]:
  "maintains roles_world (get_user_by_id env i)" "maintains roles_world (get_user_by_email env e)"
  "maintains roles_world (get_active_refresh_token env raw)"
  "maintains roles_world (live_token env sp ex row)" "maintains roles_world (issue_token_pair env u)"
  "maintains roles_world (sign_in_gate env found)" "maintains roles_world (revoke_all_refresh_tokens env uid)"
  "maintains roles_world (generate_opaque_token env)" "maintains roles_world (register_failed_login env u n s)"
  unfolding get_user_by_id_def get_user_by_email_def get_active_refresh_token_def live_token_def
    issue_token_pair_def sign_in_gate_def revoke_all_refresh_tokens_def generate_opaque_token_def
    role_names_def get_user_roles_def primary_role_name_def create_access_token_def register_failed_login_def
  by (intro maintains_intros of_session_roles keeps_keys_columns | simp)+

lemma maintains_roles_auth:
  "maintains roles_world (sign_in env email password)" "maintains roles_world (refresh env raw)"
  "maintains roles_world (sign_out env raw)" "maintains roles_world (request_password_reset env email)"
  "maintains roles_world (reset_password env raw new_password)" "maintains roles_world (verify_email env raw)"
  unfolding sign_in_def refresh_def sign_out_def request_password_reset_def reset_password_def
    verify_email_def generate_opaque_token_def
  by (intro maintains_intros of_session_roles keeps_keys_columns | simp)+

end
