(* ===== verification/Auth_Lockout.thy ===== *)
theory Auth_Lockout
  imports Auth_Laws
begin

text \<open>
  The sign-in state machine of \<^verbatim>\<open>services/auth_service.py\<close>: what each outcome leaves in the
  database, and the lockout after repeated failures.
\<close>

definition account :: "env \<Rightarrow> string \<Rightarrow> database \<Rightarrow> user option" where
  "account env email db =
     first_row (filter (\<lambda>u. sql_eq env (u_email u) (normalize_email email)) (users db))"

lemma account_in: "account env e db = Some u \<Longrightarrow> u \<in> set (users db) \<and> sql_eq env (u_email u) (normalize_email e)"
  unfolding account_def by (rule first_row_filterD)

lemma bind_get_user_by_email [step_simps]:
  "schema_ok (collate env) (work w) \<Longrightarrow> \<not> deactive w \<Longrightarrow>
   bind (get_user_by_email env e) f w = f (account env e (work w)) w"
  by (simp add: bind_def get_user_by_email_run account_def)

lemma account_set_user:
  assumes ok: "schema_ok coll db" and coll: "coll = collate env" and u: "account env e db = Some u" and f: "keeps_keys f"
  shows "account env e (set_user (u_id u) f db) = Some (f u)"
proof -
  have "distinct (map (collate env \<circ> u_email) (users db))"
    using ok coll by (simp add: schema_ok_def users_ok_def)
  from filter_key_unique [OF this, of u] account_in [OF u]
  have "filter (\<lambda>x. sql_eq env (u_email x) (normalize_email e)) (users db) = [u]"
    by (simp add: sql_eq_def)
  moreover have "filter (\<lambda>x. sql_eq env (u_email x) (normalize_email e)) (update_where (\<lambda>x. u_id x = u_id u) f (users db)) =
      update_where (\<lambda>x. u_id x = u_id u) f (filter (\<lambda>x. sql_eq env (u_email x) (normalize_email e)) (users db))"
    using f by (intro filter_update_where_same) (simp add: keeps_keys_def)
  ultimately show ?thesis by (simp add: account_def set_user_def)
qed

section \<open>The gate\<close>

definition locked_at :: "time \<Rightarrow> user \<Rightarrow> bool" where
  "locked_at t u \<longleftrightarrow> (case u_locked_until u of None \<Rightarrow> False | Some until \<Rightarrow> t < until)"

text \<open>An account that is locked answers so whatever the password.\<close>

lemma sign_in_locked:
  assumes "schema_ok (collate env) (committed w)" and cl: "clean w"
    and u: "account env email (committed w) = Some u" and "u_locked_until u = Some until"
    and "app_clock env (app_ticks w) < until"
  shows "sign_in env email password w =
    (Inl (AccountLockedError (max ((until - app_clock env (Suc (app_ticks w))) div second) 1)),
     w\<lparr>app_ticks := Suc (Suc (app_ticks w))\<rparr>)"
proof -
  have "work w = committed w" using cl by (simp add: clean_def)
  then show ?thesis
    using assms clean_simps(1) [OF cl]
    by (simp add: sign_in_def step_simps sign_in_gate_def)
qed

definition gate_ticks :: "user \<Rightarrow> nat" where
  "gate_ticks u = (if u_locked_until u = None then 0 else 1)"

lemma bind_sign_in_gate:
  assumes "\<not> locked_at (app_clock env (app_ticks w)) u" and "u_is_active u"
  shows "bind (sign_in_gate env (Some u)) f w = f u (w\<lparr>app_ticks := app_ticks w + gate_ticks u\<rparr>)"
  using assms by (cases "u_locked_until u") (simp_all add: sign_in_gate_def step_simps gate_ticks_def locked_at_def)

section \<open>A wrong password\<close>

definition failed_user :: "env \<Rightarrow> nat \<Rightarrow> user \<Rightarrow> user" where
  "failed_user env tick u =
     (if auth_max_failed_logins (settings env) \<le> u_failed_login_attempts u + 1
      then u\<lparr>u_failed_login_attempts := 0,
             u_locked_until := Some (app_clock env tick + auth_lockout_seconds (settings env) * second)\<rparr>
      else u\<lparr>u_failed_login_attempts := u_failed_login_attempts u + 1\<rparr>)"

lemma set_user_twice: "keeps_keys f \<Longrightarrow> set_user uid g (set_user uid f db) = set_user uid (g \<circ> f) db"
  by (simp add: set_user_def update_where_def keeps_keys_def)

text \<open>
  Counting a failure: the attempt is committed although the handler raises; at the limit the
  counter starts again and the account is locked.
\<close>

lemma sign_in_failure:
  assumes ok: "schema_ok (collate env) (committed w)" and cl: "clean w"
    and u: "account env email (committed w) = Some u" and active: "u_is_active u"
    and open': "\<not> locked_at (app_clock env (app_ticks w)) u"
    and wrong: "verify_password env password (u_password_hash u) = Inr False"
  shows "\<exists>w'. sign_in env email password w = (Inl InvalidCredentialsError, w') \<and>
    clean w' \<and> schema_ok (collate env) (committed w') \<and>
    account env email (committed w') = Some (failed_user env (app_ticks w + gate_ticks u) u)"
proof -
  let ?max = "auth_max_failed_logins (settings env)"
  let ?n = "u_failed_login_attempts u + 1"
  let ?t = "app_ticks w + gate_ticks u"
  let ?f = "\<lambda>x. if ?max \<le> ?n
      then x\<lparr>u_failed_login_attempts := 0,
             u_locked_until := Some (app_clock env ?t + auth_lockout_seconds (settings env) * second)\<rparr>
      else x\<lparr>u_failed_login_attempts := ?n\<rparr>"
  let ?db = "set_user (u_id u) ?f (committed w)"
  have same: "work w = committed w" using cl by (simp add: clean_def)
  have keys: "keeps_keys ?f" by (simp add: keeps_keys_def)
  have two: "set_user (u_id u) (\<lambda>x. x\<lparr>u_locked_until := l, u_failed_login_attempts := 0\<rparr>)
        (set_user (u_id u) (\<lambda>x. x\<lparr>u_failed_login_attempts := k\<rparr>) (committed w)) =
      set_user (u_id u) (\<lambda>x. x\<lparr>u_failed_login_attempts := 0, u_locked_until := l\<rparr>) (committed w)" for l k
  proof -
    have swap: "x\<lparr>u_locked_until := l, u_failed_login_attempts := 0\<rparr> = x\<lparr>u_failed_login_attempts := 0, u_locked_until := l\<rparr>"
      for x :: user by simp
    then show ?thesis by (subst set_user_twice) (simp_all add: comp_def swap)
  qed
  have "\<exists>t. sign_in env email password w =
      (Inl InvalidCredentialsError, w\<lparr>committed := ?db, work := ?db, app_ticks := t\<rparr>)"
    using ok same clean_simps(1,2) [OF cl] u wrong two
    by (simp add: sign_in_def step_simps bind_sign_in_gate [OF open' active] register_failed_login_def Let_def
        bind_value [OF commit_nothing_pending] throw_def) blast?
  then obtain t where run: "sign_in env email password w =
      (Inl InvalidCredentialsError, w\<lparr>committed := ?db, work := ?db, app_ticks := t\<rparr>)" ..
  have "account env email ?db = Some (?f u)" by (rule account_set_user [OF ok refl u keys])
  moreover have "?f u = failed_user env ?t u" by (simp add: failed_user_def)
  moreover have "schema_ok (collate env) ?db" by (rule schema_ok_set_user [OF keys ok])
  ultimately show ?thesis using run clean_simps(1,2) [OF cl] by (auto simp: clean_def)
qed

section \<open>Repeated failures\<close>

lemma request_session_of_clean: "m w = (r, w') \<Longrightarrow> clean w' \<Longrightarrow> request_session m w = (r, w')"
  by (cases r) (simp_all add: request_session_def run_simps clean_def)

fun after_attempts :: "env \<Rightarrow> string \<Rightarrow> string list \<Rightarrow> world \<Rightarrow> world" where
  "after_attempts env email [] w = w"
| "after_attempts env email (p # ps) w =
     after_attempts env email ps (snd (request_session (sign_in env email p) w))"

lemma after_attempts_append:
  "after_attempts env email (ps @ qs) w = after_attempts env email qs (after_attempts env email ps w)"
  by (induction ps arbitrary: w) simp_all

text \<open>Below the limit the failures are counted and nothing else changes.\<close>

lemma attempts_counted:
  assumes "schema_ok (collate env) (committed w)" and "clean w"
    and "account env email (committed w) = Some u" and "u_is_active u" and "u_locked_until u = None"
    and "\<forall>p \<in> set ps. verify_password env p (u_password_hash u) = Inr False"
    and "u_failed_login_attempts u + int (length ps) < auth_max_failed_logins (settings env)"
  shows "let w' = after_attempts env email ps w in
    clean w' \<and> schema_ok (collate env) (committed w') \<and>
    account env email (committed w') = Some (u\<lparr>u_failed_login_attempts := u_failed_login_attempts u + int (length ps)\<rparr>)"
  using assms
proof (induction ps arbitrary: w u)
  case Nil
  then show ?case by simp
next
  case (Cons p ps)
  have open': "\<not> locked_at (app_clock env (app_ticks w)) u" using Cons.prems(5) by (simp add: locked_at_def)
  have "verify_password env p (u_password_hash u) = Inr False" using Cons.prems(6) by simp
  from sign_in_failure [OF Cons.prems(1-4) open' this] obtain v where v:
    "sign_in env email p w = (Inl InvalidCredentialsError, v)" "clean v" "schema_ok (collate env) (committed v)"
    "account env email (committed v) = Some (failed_user env (app_ticks w + gate_ticks u) u)" by blast
  let ?u = "u\<lparr>u_failed_login_attempts := u_failed_login_attempts u + 1\<rparr>"
  have f: "failed_user env (app_ticks w + gate_ticks u) u = ?u"
    using Cons.prems(7) by (simp add: failed_user_def)
  have "let w' = after_attempts env email ps v in clean w' \<and> schema_ok (collate env) (committed w') \<and>
      account env email (committed w') = Some (?u\<lparr>u_failed_login_attempts := u_failed_login_attempts ?u + int (length ps)\<rparr>)"
    by (rule Cons.IH [OF v(3,2) v(4) [unfolded f]]) (use Cons.prems in auto)
  moreover have "request_session (sign_in env email p) w = (Inl InvalidCredentialsError, v)"
    using v(1,2) by (intro request_session_of_clean)
  ultimately show ?case by (simp add: Let_def algebra_simps)
qed

text \<open>The failure that reaches the limit locks the account.\<close>

lemma attempts_lock:
  assumes ok: "schema_ok (collate env) (committed w)" and cl: "clean w"
    and u: "account env email (committed w) = Some u" and active: "u_is_active u"
    and unlocked: "u_locked_until u = None"
    and wrong: "\<forall>p \<in> set ps. verify_password env p (u_password_hash u) = Inr False"
    and limit: "u_failed_login_attempts u + int (length ps) = auth_max_failed_logins (settings env)" and "ps \<noteq> []"
  shows "\<exists>n. let w' = after_attempts env email ps w in
    clean w' \<and> schema_ok (collate env) (committed w') \<and>
    account env email (committed w') = Some (u\<lparr>u_failed_login_attempts := 0,
      u_locked_until := Some (app_clock env n + auth_lockout_seconds (settings env) * second)\<rparr>)"
proof -
  obtain qs q where ps: "ps = qs @ [q]" using \<open>ps \<noteq> []\<close> by (metis rev_exhaust)
  let ?v = "after_attempts env email qs w"
  let ?u = "u\<lparr>u_failed_login_attempts := u_failed_login_attempts u + int (length qs)\<rparr>"
  have v: "clean ?v" "schema_ok (collate env) (committed ?v)" "account env email (committed ?v) = Some ?u"
    using attempts_counted [OF ok cl u active unlocked, of qs] wrong limit by (simp_all add: ps Let_def)
  have "\<exists>w'. sign_in env email q ?v = (Inl InvalidCredentialsError, w') \<and>
    clean w' \<and> schema_ok (collate env) (committed w') \<and>
    account env email (committed w') = Some (failed_user env (app_ticks ?v + gate_ticks ?u) ?u)"
    by (rule sign_in_failure [OF v(2,1,3)]) (use active unlocked wrong in \<open>simp_all add: locked_at_def ps\<close>)
  then obtain w' where w': "sign_in env email q ?v = (Inl InvalidCredentialsError, w')" "clean w'"
    "schema_ok (collate env) (committed w')"
    "account env email (committed w') = Some (failed_user env (app_ticks ?v + gate_ticks ?u) ?u)" by blast
  have "request_session (sign_in env email q) ?v = (Inl InvalidCredentialsError, w')"
    using w'(1,2) by (intro request_session_of_clean)
  then show ?thesis
    using limit w'(2-4) by (intro exI [of _ "app_ticks ?v + gate_ticks ?u"])
      (simp add: ps after_attempts_append Let_def failed_user_def)
qed

section \<open>A successful sign-in\<close>

text \<open>
  Tokens are issued only for an active account that is not locked and whose stored hash the
  password matches; the counter and the lock are then cleared.
\<close>

lemma bind_verified [step_simps]:
  "bind (lift (verify_password env p h)) f w =
     (case verify_password env p h of Inl e \<Rightarrow> (Inl e, w) | Inr b \<Rightarrow> f b w)"
  by (simp add: bind_def lift_def split: sum.splits)

lemma issue_token_pair_run:
  assumes "issue_token_pair env u w = (Inr tokens, w')"
  shows "work w' = work w \<and> committed w' = committed w \<and> deactive w' = deactive w \<and>
    (\<exists>k. pending w' = pending w @ [RRefresh k] \<and> rt_user_id k = u_id u \<and> rt_revoked_at k = None \<and>
         rt_token_hash k = hash_token env (refresh_token_text tokens))"
  using assms
  by (auto simp: issue_token_pair_def role_names_def get_user_roles_def primary_role_name_def query_run bind_def
      create_access_token_def generate_opaque_token_def now_def uuid4_def token_urlsafe_def add_def ret_def throw_def
      split: sum.splits option.splits if_splits)

lemma sign_in_success:
  assumes ok: "schema_ok (collate env) (committed w)" and cl: "clean w"
    and run: "sign_in env email password w = (Inr (v, tokens), w')"
  shows "\<exists>u. account env email (committed w) = Some u \<and> u_is_active u \<and>
    \<not> locked_at (app_clock env (app_ticks w)) u \<and> verify_password env password (u_password_hash u) = Inr True \<and>
    (\<exists>x. account env email (committed w') = Some x \<and> u_id x = u_id u \<and>
         u_failed_login_attempts x = 0 \<and> u_locked_until x = None) \<and>
    (\<exists>k \<in> set (refresh_tokens (committed w')). rt_user_id k = u_id u \<and> rt_revoked_at k = None \<and>
         rt_token_hash k = hash_token env (refresh_token_text tokens))"
proof -
  have same: "work w = committed w" using cl by (simp add: clean_def)
  obtain u where u: "account env email (committed w) = Some u"
    using run ok same clean_simps(1) [OF cl]
    by (cases "account env email (committed w)") (auto simp: sign_in_def step_simps sign_in_gate_def)
  have open': "\<not> locked_at (app_clock env (app_ticks w)) u"
    using run sign_in_locked [OF ok cl u] by (auto simp: locked_at_def split: option.splits)
  have active: "u_is_active u"
  proof (rule ccontr)
    assume "\<not> u_is_active u"
    then show False
      using run ok same clean_simps(1) [OF cl] u open'
      by (cases "u_locked_until u") (auto simp: sign_in_def step_simps sign_in_gate_def locked_at_def)
  qed
  have good: "verify_password env password (u_password_hash u) = Inr True"
  proof (cases "verify_password env password (u_password_hash u)")
    case (Inl e)
    then show ?thesis
      using run ok same clean_simps(1) [OF cl] u
      by (simp add: sign_in_def step_simps bind_sign_in_gate [OF open' active])
  next
    case (Inr b)
    then show ?thesis
      using run sign_in_failure [OF ok cl u active open', of password] by (cases b) auto
  qed
  let ?g = "\<lambda>h t x. x\<lparr>u_password_hash := h x, u_failed_login_attempts := 0, u_locked_until := None,
      u_last_login_at := Some t\<rparr>"
  let ?T = "bind (issue_token_pair env u) (\<lambda>tokens. bind (commit env) (\<lambda>_.
      bind (loaded_user u) (\<lambda>u. ret (u, tokens))))"
  have "\<exists>h t v1. work v1 = set_user (u_id u) (?g h t) (committed w) \<and> pending v1 = [] \<and> \<not> deactive v1 \<and>
      sign_in env email password w = ?T v1"
  proof (cases "needs_rehash env (u_password_hash u)")
    case True
    then show ?thesis
      using ok same clean_simps(1,2) [OF cl] u good
      by (intro exI [of _ "\<lambda>_. argon2_hash env (salts_drawn w) password"]
            exI [of _ "app_clock env (app_ticks w + gate_ticks u)"]
            exI [of _ "w\<lparr>work := set_user (u_id u) (?g (\<lambda>_. argon2_hash env (salts_drawn w) password)
               (app_clock env (app_ticks w + gate_ticks u))) (committed w),
               app_ticks := Suc (app_ticks w + gate_ticks u), salts_drawn := Suc (salts_drawn w)\<rparr>"])
        (simp add: sign_in_def step_simps bind_sign_in_gate [OF open' active] set_user_twice comp_def)
  next
    case False
    then show ?thesis
      using ok same clean_simps(1,2) [OF cl] u good
      by (intro exI [of _ "u_password_hash"] exI [of _ "app_clock env (app_ticks w + gate_ticks u)"]
            exI [of _ "w\<lparr>work := set_user (u_id u) (?g u_password_hash
               (app_clock env (app_ticks w + gate_ticks u))) (committed w),
               app_ticks := Suc (app_ticks w + gate_ticks u)\<rparr>"])
        (simp add: sign_in_def step_simps bind_sign_in_gate [OF open' active])
  qed
  then obtain h t v1 where v1: "work v1 = set_user (u_id u) (?g h t) (committed w)" "pending v1 = []"
    "\<not> deactive v1" and rest: "?T v1 = (Inr (v, tokens), w')" using run by auto
  obtain p v2 where issue: "issue_token_pair env u v1 = (Inr p, v2)"
    and r2: "bind (commit env) (\<lambda>_. bind (loaded_user u) (\<lambda>u. ret (u, p))) v2 = (Inr (v, tokens), w')"
    using rest by (rule bind_Inr)
  obtain z v3 where c: "commit env v2 = (Inr z, v3)" and r3: "bind (loaded_user u) (\<lambda>u. ret (u, p)) v3 = (Inr (v, tokens), w')"
    using r2 by (rule bind_Inr)
  have fin: "p = tokens" "v3 = w'" using r3 by (auto simp: loaded_user_def bind_def ret_def)
  obtain k where k: "work v2 = work v1" "\<not> deactive v2" "pending v2 = [RRefresh k]" "rt_user_id k = u_id u"
     "rt_revoked_at k = None" "rt_token_hash k = hash_token env (refresh_token_text tokens)"
    using issue_token_pair_run [OF issue] v1 fin by auto
  have w': "committed w' = insert_row (db_clock env (db_ticks v2)) (RRefresh k) (work v1)"
    using c k fin by (auto simp: commit_def bind_def flush_one_cases split: if_splits)
  have keys: "keeps_keys (?g h t)" by (simp add: keeps_keys_def)
  have "account env email (committed w') = Some (?g h t u)"
    using account_set_user [OF ok refl u keys] by (simp add: account_def w' v1)
  moreover have "k\<lparr>rt_created_at := db_clock env (db_ticks v2)\<rparr> \<in> set (refresh_tokens (committed w'))"
    by (simp add: w')
  ultimately show ?thesis
    using u active open' good k(4-6) by simp (rule rev_bexI, assumption, simp)
qed

end
