(* ===== verification/Auth_Api.thy ===== *)
theory Auth_Api
  imports Auth_Lockout
begin

text \<open>
  \<^verbatim>\<open>api/deps.py\<close> and \<^verbatim>\<open>api/v1/auth.py\<close>: authentication of a request, the role guard, and the
  endpoints of \<^verbatim>\<open>/auth\<close> with their mapping of domain exceptions to HTTP. A history is any
  sequence of requests, each served in a session of its own.
\<close>

section \<open>api/deps.py\<close>

definition unauthorized :: exn where
  "unauthorized = HTTPException HTTP_401_UNAUTHORIZED ''Invalid or expired token'' bearer_header"

definition get_current_local_user :: "env \<Rightarrow> string option \<Rightarrow> user comp" where
  "get_current_local_user env credentials =
     (case credentials of
        None \<Rightarrow> throw unauthorized
      | Some token \<Rightarrow>
          if token = [] then throw unauthorized
          else
            bind (decode_access_token env token) (\<lambda>decoded.
            case decoded of
              None \<Rightarrow> throw unauthorized
            | Some claims \<Rightarrow>
                (case uuid_of_text (cl_subject claims) of
                   None \<Rightarrow> throw unauthorized
                 | Some uid \<Rightarrow>
                     bind (get_user_by_id env uid) (\<lambda>found.
                     case found of
                       None \<Rightarrow> throw unauthorized
                     | Some u \<Rightarrow> if \<not> u_is_active u then throw unauthorized else ret u))))"

definition require_local_role :: "env \<Rightarrow> string list \<Rightarrow> string option \<Rightarrow> user comp" where
  "require_local_role env names credentials =
     bind (get_current_local_user env credentials) (\<lambda>u.
     bind (get_user_roles env u) (\<lambda>held.
     if list_ex (\<lambda>n. n \<in> set names) (map r_name held) then ret u
     else throw (HTTPException HTTP_403_FORBIDDEN (''Requires role: '' @ join '' or '' names) [])))"

section \<open>api/v1/auth.py\<close>

definition RESET_SENT_MESSAGE :: string where
  "RESET_SENT_MESSAGE = ''If an account exists for that email, a reset link has been sent.''"

text \<open>\<open>except ... as exc: raise HTTPException(...) from exc\<close>.\<close>

fun sign_up_error :: "exn \<Rightarrow> exn" where
  "sign_up_error (EmailAlreadyRegisteredError _) =
     HTTPException HTTP_409_CONFLICT ''Email is already registered'' []"
| "sign_up_error e = e"

fun sign_in_error :: "exn \<Rightarrow> exn" where
  "sign_in_error (AccountLockedError n) =
     HTTPException HTTP_429_TOO_MANY_REQUESTS ''Account temporarily locked due to failed sign-in attempts''
       [(''Retry-After'', int_text n)]"
| "sign_in_error AccountInactiveError = HTTPException HTTP_403_FORBIDDEN ''Account is inactive'' []"
| "sign_in_error InvalidCredentialsError =
     HTTPException HTTP_401_UNAUTHORIZED ''Invalid email or password'' []"
| "sign_in_error e = e"

fun token_error :: "exn \<Rightarrow> exn \<Rightarrow> exn" where
  "token_error reply InvalidTokenError = reply"
| "token_error _ e = e"

datatype auth_reply =
    User_Reply user_read
  | Token_Reply token_pair
  | Message_Reply string
  | No_Content

definition sign_up_endpoint :: "env \<Rightarrow> sign_up_request \<Rightarrow> auth_reply comp" where
  "sign_up_endpoint env payload =
     bind (catch (sign_up env payload) (\<lambda>e. throw (sign_up_error e))) (\<lambda>(u, _).
     bind (to_user_read env u) (\<lambda>r. ret (User_Reply r)))"

definition sign_in_endpoint :: "env \<Rightarrow> string \<Rightarrow> string \<Rightarrow> auth_reply comp" where
  "sign_in_endpoint env email password =
     catch (bind (sign_in env email password) (\<lambda>(_, tokens). ret (Token_Reply tokens)))
       (\<lambda>e. throw (sign_in_error e))"

definition refresh_endpoint :: "env \<Rightarrow> string \<Rightarrow> auth_reply comp" where
  "refresh_endpoint env raw =
     catch (bind (refresh env raw) (\<lambda>tokens. ret (Token_Reply tokens)))
       (\<lambda>e. throw (token_error
          (HTTPException HTTP_401_UNAUTHORIZED ''Invalid or expired refresh token'' []) e))"

definition sign_out_endpoint :: "env \<Rightarrow> string \<Rightarrow> auth_reply comp" where
  "sign_out_endpoint env raw = bind (sign_out env raw) (\<lambda>_. ret No_Content)"

definition forgot_password_endpoint :: "env \<Rightarrow> string \<Rightarrow> auth_reply comp" where
  "forgot_password_endpoint env email =
     bind (request_password_reset env email) (\<lambda>_. ret (Message_Reply RESET_SENT_MESSAGE))"

definition reset_password_endpoint :: "env \<Rightarrow> string \<Rightarrow> string \<Rightarrow> auth_reply comp" where
  "reset_password_endpoint env token new_password =
     bind (catch (reset_password env token new_password)
             (\<lambda>e. throw (token_error
                (HTTPException HTTP_400_BAD_REQUEST ''Invalid or expired reset token'' []) e)))
       (\<lambda>_. ret (Message_Reply ''Your password has been reset. You can now sign in.''))"

definition verify_email_endpoint :: "env \<Rightarrow> string \<Rightarrow> auth_reply comp" where
  "verify_email_endpoint env token =
     bind (catch (verify_email env token)
             (\<lambda>e. throw (token_error
                (HTTPException HTTP_400_BAD_REQUEST ''Invalid or expired verification token'' []) e)))
       (\<lambda>_. ret (Message_Reply ''Your email has been verified.''))"

definition get_me_endpoint :: "env \<Rightarrow> string option \<Rightarrow> auth_reply comp" where
  "get_me_endpoint env credentials =
     bind (get_current_local_user env credentials) (\<lambda>u.
     bind (to_user_read env u) (\<lambda>r. ret (User_Reply r)))"

section \<open>Requests\<close>

datatype auth_request =
    Sign_Up sign_up_request
  | Sign_In string string
  | Refresh string
  | Sign_Out string
  | Forgot_Password string
  | Reset_Password string string
  | Verify_Email string
  | Get_Me "string option"

definition handle_auth :: "env \<Rightarrow> auth_request \<Rightarrow> auth_reply comp" where
  "handle_auth env req =
     (case req of
        Sign_Up d \<Rightarrow> sign_up_endpoint env d
      | Sign_In e p \<Rightarrow> sign_in_endpoint env e p
      | Refresh t \<Rightarrow> refresh_endpoint env t
      | Sign_Out t \<Rightarrow> sign_out_endpoint env t
      | Forgot_Password e \<Rightarrow> forgot_password_endpoint env e
      | Reset_Password t p \<Rightarrow> reset_password_endpoint env t p
      | Verify_Email t \<Rightarrow> verify_email_endpoint env t
      | Get_Me c \<Rightarrow> get_me_endpoint env c)"

text \<open>The body is validated by the schema first; a rejected one never reaches the handler.\<close>

definition valid_request :: "(string \<Rightarrow> bool) \<Rightarrow> auth_request \<Rightarrow> bool" where
  "valid_request email_ok req =
     (case req of
        Sign_Up d \<Rightarrow> (case validate_sign_up email_ok d of Inl _ \<Rightarrow> False | Inr _ \<Rightarrow> True)
      | Sign_In e p \<Rightarrow> (case validate_sign_in email_ok e p of Inl _ \<Rightarrow> False | Inr _ \<Rightarrow> True)
      | Refresh t \<Rightarrow> t \<noteq> []
      | Sign_Out t \<Rightarrow> t \<noteq> []
      | Forgot_Password e \<Rightarrow> email_ok e
      | Reset_Password t p \<Rightarrow> (case validate_reset t p of Inl _ \<Rightarrow> False | Inr _ \<Rightarrow> True)
      | Verify_Email t \<Rightarrow> t \<noteq> []
      | Get_Me _ \<Rightarrow> True)"

definition serve_auth :: "env \<Rightarrow> (string \<Rightarrow> bool) \<Rightarrow> auth_request \<Rightarrow> auth_reply comp" where
  "serve_auth env email_ok req =
     (if valid_request email_ok req then request_session (handle_auth env req)
      else throw (HTTPException HTTP_422_UNPROCESSABLE ''Invalid request'' []))"

text \<open>The states that requests reach from a given one.\<close>

inductive auth_history :: "env \<Rightarrow> (string \<Rightarrow> bool) \<Rightarrow> world \<Rightarrow> world \<Rightarrow> bool" for env email_ok w0 where
  start: "auth_history env email_ok w0 w0"
| serve: "auth_history env email_ok w0 w \<Longrightarrow> auth_history env email_ok w0 (snd (serve_auth env email_ok req w))"

inductive_cases auth_historyE: "auth_history env email_ok w0 w"

section \<open>What every history keeps\<close>

lemma keeps_decode [keeps_intros]: "keeps I (get_current_local_user env c)"
  unfolding get_current_local_user_def by (intro keeps_intros)

lemma keeps_require_local_role [keeps_intros]: "keeps I (require_local_role env ns c)"
  unfolding require_local_role_def by (intro keeps_intros)

lemmas auth_endpoints = sign_up_endpoint_def sign_in_endpoint_def refresh_endpoint_def
  sign_out_endpoint_def forgot_password_endpoint_def reset_password_endpoint_def
  verify_email_endpoint_def get_me_endpoint_def

lemma serve_auth_keeps:
  assumes "\<And>req. keeps I (handle_auth env req)"
  shows "keeps I (serve_auth env email_ok req)"
  unfolding serve_auth_def request_session_def by (intro keeps_intros assms)

lemma keeps_schema_handle: "keeps (schema_ok (collate env)) (handle_auth env req)"
  unfolding handle_auth_def auth_endpoints by (cases req; simp; intro keeps_intros)

lemma keeps_schema_serve: "keeps (schema_ok (collate env)) (serve_auth env email_ok req)"
  by (rule serve_auth_keeps) (rule keeps_schema_handle)

lemma serve_auth_clean: "clean w \<Longrightarrow> clean (snd (serve_auth env email_ok req w))"
  by (simp add: serve_auth_def throw_def)

lemma auth_history_schema:
  assumes "auth_history env email_ok w0 w" and "clean w0" and "schema_ok (collate env) (committed w0)"
  shows "clean w \<and> schema_ok (collate env) (committed w)"
  using assms(1)
proof induction
  case start
  then show ?case using assms(2,3) by simp
next
  case (serve w req)
  have "clean (snd (serve_auth env email_ok req w))" using serve.IH by (simp add: serve_auth_clean)
  moreover have "schema_ok (collate env) (work w)" using serve.IH by (simp add: clean_def)
  ultimately show ?case
    using serve.IH keeps_schema_serve [of env email_ok req] by (auto simp: keeps_def)
qed

lemma auth_history_keeps:
  assumes "\<And>req. keeps I (serve_auth env email_ok req)"
    and "auth_history env email_ok w0 w" and "clean w0" and "I (committed w0)"
  shows "I (committed w)"
  using assms(2)
proof induction
  case start
  then show ?case using assms(4) by simp
next
  case (serve w req)
  have "clean w" using serve.hyps assms(3) by induction (simp_all add: serve_auth_clean)
  then have "I (work w)" using serve.IH by (simp add: clean_def)
  with serve.IH assms(1) show ?case by (simp add: keeps_def)
qed

text \<open>
  A fact about the database that insertions and the assignments of the service cannot undo
  is true after every history once it is true.
\<close>

locale auth_invariant = row_invariant coll I
  for coll :: "string \<Rightarrow> string" and I :: "database \<Rightarrow> bool" +
  assumes user_keeps: "I db \<Longrightarrow> I (set_user uid f db)"
    and primary_keeps: "I db \<Longrightarrow> I (set_primary_role uid rid db)"
    and refresh_keeps: "I db \<Longrightarrow> I (set_refresh P t db)"
    and reset_keeps: "I db \<Longrightarrow> I (set_reset_used i t db)"
    and verification_keeps: "I db \<Longrightarrow> I (set_verification_used i t db)"
begin

lemma assigns_keep:
  "keeps I (assign (set_user uid f))" "keeps I (assign (set_primary_role uid rid))"
  "keeps I (assign (set_refresh P t))" "keeps I (assign (set_reset_used i t))"
  "keeps I (assign (set_verification_used i t))"
  by (simp_all add: keeps_assign user_keeps primary_keeps refresh_keeps reset_keeps verification_keeps)

lemma helpers_keep:
  assumes "collate env = coll"
  shows "keeps I (assign_role env u n p)" "keeps I (register_failed_login env u m s)"
    "keeps I (revoke_all_refresh_tokens env uid)"
  unfolding assign_role_def register_failed_login_def revoke_all_refresh_tokens_def
  by (intro keeps_intros assigns_keep flush_keeps [OF assms])+

lemma handle_keeps:
  assumes "collate env = coll" shows "keeps I (handle_auth env req)"
  unfolding handle_auth_def auth_endpoints auth_handlers
  by (cases req; simp only: auth_request.case;
      intro keeps_intros assigns_keep helpers_keep [OF assms] flush_keeps [OF assms] commit_keeps [OF assms])

lemma serve_keeps: "collate env = coll \<Longrightarrow> keeps I (serve_auth env email_ok req)"
  by (rule serve_auth_keeps) (rule handle_keeps)

lemma history_keeps:
  "collate env = coll \<Longrightarrow> auth_history env email_ok w0 w \<Longrightarrow> clean w0 \<Longrightarrow> I (committed w0) \<Longrightarrow> I (committed w)"
  by (rule auth_history_keeps [OF serve_keeps])

end

interpretation spent_refresh: auth_invariant coll "spent_in coll refresh_tokens rt_token_hash rt_revoked_at h" for coll h
  by unfold_locales simp_all

interpretation spent_reset: auth_invariant coll "spent_in coll password_reset_tokens pr_token_hash pr_used_at h" for coll h
  by unfold_locales simp_all

interpretation spent_verification:
  auth_invariant coll "spent_in coll email_verification_tokens ev_token_hash ev_used_at h" for coll h
  by unfold_locales simp_all

section \<open>Token endpoints\<close>

text \<open>What an endpoint answers is what the operation under it answers.\<close>

lemma serve_valid:
  assumes "serve_auth env email_ok req w = (Inr r, w')"
  shows "valid_request email_ok req" and "fst (handle_auth env req w) = Inr r"
    and "committed w' = committed (snd (handle_auth env req w))" and "clean w'"
proof -
  show v: "valid_request email_ok req"
    using assms by (auto simp: serve_auth_def throw_def split: if_splits)
  then have run: "request_session (handle_auth env req) w = (Inr r, w')"
    using assms by (simp add: serve_auth_def)
  show "fst (handle_auth env req w) = Inr r"
    using request_session_result [of "handle_auth env req" w] by (simp add: run)
  show "committed w' = committed (snd (handle_auth env req w))"
    using request_session_committed [of "handle_auth env req" w] by (simp add: run)
  show "clean w'" using request_session_clean [of "handle_auth env req" w] by (simp add: run)
qed

lemma serve_result:
  "valid_request email_ok req \<Longrightarrow> fst (serve_auth env email_ok req w) = fst (handle_auth env req w)"
  by (simp add: serve_auth_def request_session_result)

lemma serve_refresh_success:
  assumes "serve_auth env email_ok (Refresh raw) w = (Inr r, w')"
  obtains x v where "refresh env raw w = (Inr x, v)" and "committed w' = committed v"
proof -
  from serve_valid [OF assms] show thesis using that
    by (auto simp: handle_auth_def refresh_endpoint_def run_simps split: prod.splits sum.splits)
qed

lemma serve_reset_success:
  assumes "serve_auth env email_ok (Reset_Password raw p) w = (Inr r, w')"
  obtains v where "reset_password env raw p w = (Inr (), v)" and "committed w' = committed v"
proof -
  from serve_valid [OF assms] show thesis using that
    by (auto simp: handle_auth_def reset_password_endpoint_def run_simps split: prod.splits sum.splits)
qed

lemma serve_verify_success:
  assumes "serve_auth env email_ok (Verify_Email raw) w = (Inr r, w')"
  obtains v where "verify_email env raw w = (Inr (), v)" and "committed w' = committed v"
proof -
  from serve_valid [OF assms] show thesis using that
    by (auto simp: handle_auth_def verify_email_endpoint_def run_simps split: prod.splits sum.splits)
qed

lemma serve_refused:
  "fst (refresh env raw w) = Inl InvalidTokenError \<Longrightarrow> raw \<noteq> [] \<Longrightarrow>
   fst (serve_auth env email_ok (Refresh raw) w) =
     Inl (HTTPException HTTP_401_UNAUTHORIZED ''Invalid or expired refresh token'' [])"
  "fst (reset_password env raw p w) = Inl InvalidTokenError \<Longrightarrow> valid_request email_ok (Reset_Password raw p) \<Longrightarrow>
   fst (serve_auth env email_ok (Reset_Password raw p) w) =
     Inl (HTTPException HTTP_400_BAD_REQUEST ''Invalid or expired reset token'' [])"
  "fst (verify_email env raw w) = Inl InvalidTokenError \<Longrightarrow> raw \<noteq> [] \<Longrightarrow>
   fst (serve_auth env email_ok (Verify_Email raw) w) =
     Inl (HTTPException HTTP_400_BAD_REQUEST ''Invalid or expired verification token'' [])"
  by (auto simp: serve_result valid_request_def [of _ "Refresh raw"] valid_request_def [of _ "Verify_Email raw"]
      handle_auth_def refresh_endpoint_def reset_password_endpoint_def verify_email_endpoint_def run_simps
      split: prod.splits sum.splits)

text \<open>A spent token is refused in every later state.\<close>

lemma history_serve:
  assumes "clean w" and "schema_ok (collate env) (committed w)"
  shows "clean (snd (serve_auth env email_ok req w)) \<and>
    schema_ok (collate env) (committed (snd (serve_auth env email_ok req w)))"
  by (rule auth_history_schema [OF auth_history.serve [OF auth_history.start] assms])

lemma spent_after_history:
  assumes "clean w1" and "schema_ok (collate env) (committed w1)" and "auth_history env email_ok w1 w2"
  shows "spent_in (collate env) refresh_tokens rt_token_hash rt_revoked_at h (committed w1) \<Longrightarrow> hash_token env raw = h \<Longrightarrow>
      fst (refresh env raw w2) = Inl InvalidTokenError"
    and "spent_in (collate env) password_reset_tokens pr_token_hash pr_used_at h (committed w1) \<Longrightarrow> hash_token env raw = h \<Longrightarrow>
      fst (reset_password env raw p w2) = Inl InvalidTokenError"
    and "spent_in (collate env) email_verification_tokens ev_token_hash ev_used_at h (committed w1) \<Longrightarrow> hash_token env raw = h \<Longrightarrow>
      fst (verify_email env raw w2) = Inl InvalidTokenError"
proof -
  have w2: "clean w2" "schema_ok (collate env) (committed w2)"
    using auth_history_schema [OF assms(3,1,2)] by simp_all
  show "fst (refresh env raw w2) = Inl InvalidTokenError"
    if "spent_in (collate env) refresh_tokens rt_token_hash rt_revoked_at h (committed w1)" "hash_token env raw = h"
    using refresh_once.spent_refused [OF w2(2,1)] spent_refresh.history_keeps [OF refl assms(3,1) that(1)] that(2)
    by simp
  show "fst (reset_password env raw p w2) = Inl InvalidTokenError"
    if "spent_in (collate env) password_reset_tokens pr_token_hash pr_used_at h (committed w1)" "hash_token env raw = h"
    using reset_once.spent_refused [OF w2(2,1)] spent_reset.history_keeps [OF refl assms(3,1) that(1)] that(2)
    by simp
  show "fst (verify_email env raw w2) = Inl InvalidTokenError"
    if "spent_in (collate env) email_verification_tokens ev_token_hash ev_used_at h (committed w1)" "hash_token env raw = h"
    using verification_once.spent_refused [OF w2(2,1)] spent_verification.history_keeps [OF refl assms(3,1) that(1)] that(2)
    by simp
qed

section \<open>Role invariant over histories\<close>

lemma maintains_catch [maintains_intros]:
  assumes "maintains P m" and "\<And>e. maintains P (h e)" shows "maintains P (catch m h)"
  unfolding maintains_def
proof (intro allI impI)
  fix w :: world assume w: "P w"
  obtain r v where m: "m w = (r, v)" by (cases "m w")
  then have "P v" using maintainsD [OF assms(1) w] by simp
  then show "P (snd (catch m h w))"
    using m assms(2) by (cases r) (auto simp: catch_def maintains_def)
qed

lemma maintains_roles_reads [maintains_intros]:
  "maintains roles_world (to_user_read env u)" "maintains roles_world (get_current_local_user env c)"
  unfolding to_user_read_def get_current_local_user_def get_user_roles_def primary_role_name_def
    decode_access_token_def get_user_by_id_def
  by (intro maintains_intros of_session_roles | cases c; simp)+

lemma maintains_roles_handle:
  assumes "\<nexists>d. req = Sign_Up d" shows "maintains roles_world (handle_auth env req)"
  using assms unfolding handle_auth_def auth_endpoints
  by (cases req; simp only: auth_request.case;
      (intro maintains_intros maintains_roles_auth of_session_roles)?) simp_all

lemma quiet_to_user_read: "quiet (to_user_read env u)"
  unfolding to_user_read_def get_user_roles_def primary_role_name_def by (intro atomic_intros)

lemma sign_up_endpoint_committed:
  "committed (snd (sign_up_endpoint env d w)) = committed (snd (sign_up env d w))"
proof -
  have q: "committed v' = committed v" if "to_user_read env u v = (r, v')" for u v r v'
    using quiet_to_user_read [of env u] that unfolding quiet_def by (metis snd_conv)
  show ?thesis
    by (auto simp: sign_up_endpoint_def bind_def catch_def throw_def ret_def dest!: q split: prod.splits sum.splits)
qed

lemma serve_roles_inv:
  assumes cl: "clean w" and ok: "schema_ok (collate env) (committed w)" and inv: "roles_inv (committed w)"
  shows "roles_inv (committed (snd (serve_auth env email_ok req w)))"
proof (cases "valid_request email_ok req")
  case False
  then show ?thesis using inv by (simp add: serve_auth_def throw_def)
next
  case True
  have "roles_inv (committed (snd (handle_auth env req w)))"
  proof (cases "\<exists>d. req = Sign_Up d")
    case True
    then obtain d where d: "req = Sign_Up d" by blast
    have "roles_inv (committed (snd (sign_up env d w)))"
    proof (cases "sign_up env d w")
      case (Pair r v)
      show ?thesis
      proof (cases r)
        case (Inl e)
        with Pair auth_atomic(1) [of env d] inv show ?thesis by (simp add: atomic_def)
      next
        case (Inr x)
        with Pair sign_up_roles(1) [OF ok cl, of d "fst x" "snd x" v] inv show ?thesis by simp
      qed
    qed
    then show ?thesis by (simp add: d handle_auth_def sign_up_endpoint_committed)
  next
    case False
    then have "maintains roles_world (handle_auth env req)" by (rule maintains_roles_handle)
    moreover have "roles_world w" using inv cl by (simp add: roles_world_def clean_def)
    ultimately show ?thesis by (simp add: maintains_def roles_world_def)
  qed
  with True show ?thesis by (simp add: serve_auth_def request_session_committed)
qed

lemma auth_history_roles:
  assumes "auth_history env email_ok w0 w" and "clean w0" and "schema_ok (collate env) (committed w0)"
    and "roles_inv (committed w0)"
  shows "roles_inv (committed w)"
  using assms(1)
proof induction
  case start
  then show ?case using assms(4) .
next
  case (serve w req)
  with auth_history_schema [OF serve.hyps assms(2,3)] show ?case by (simp add: serve_roles_inv)
qed

section \<open>Authentication\<close>

text \<open>The account that a token issued by this service stands for.\<close>

lemma local_user_of_token:
  assumes ok: "\<not> deactive w"
    and decoded: "decode_access_token env token w = (Inr (Some \<lparr>cl_subject = uuid_text uid, cl_roles = ns\<rparr>), v)"
    and "token \<noteq> []"
  shows "fst (get_current_local_user env (Some token) w) =
    (case get_by_id u_id (users (work w)) uid of
       None \<Rightarrow> Inl unauthorized
     | Some u \<Rightarrow> if u_is_active u then Inr u else Inl unauthorized)"
proof -
  have v: "v = w\<lparr>app_ticks := Suc (app_ticks w)\<rparr>"
    using decoded by (auto simp: decode_access_token_def step_simps ret_def split: option.splits)
  have next': "bind (decode_access_token env token) f w = f (Some \<lparr>cl_subject = uuid_text uid, cl_roles = ns\<rparr>) v" for f :: "_ \<Rightarrow> user comp"
    using decoded by (rule bind_value)
  show ?thesis
    using assms(1,3) by (simp add: get_current_local_user_def next' uuid_round_trip
        get_user_by_id_def step_simps v throw_def ret_def split: option.splits)
qed

lemma local_user_rejected:
  "decode_access_token env token w = (Inr None, v) \<Longrightarrow> get_current_local_user env (Some token) w = (Inl unauthorized, v) \<or> token = []"
  by (simp add: get_current_local_user_def bind_value throw_def)

section \<open>Failed requests\<close>

text \<open>Every handler but sign-in and sign-up: an error means that nothing was committed.\<close>

lemma quiet_get_current [atomic_intros]: "quiet (get_current_local_user env c)"
  unfolding get_current_local_user_def decode_access_token_def get_user_by_id_def
  by (intro atomic_intros)

lemma atomic_catch_throw:
  assumes "atomic m" shows "atomic (catch m (\<lambda>e. throw (g e)))"
  using assms by (auto simp: atomic_def catch_def throw_def split: prod.splits sum.splits)

lemma returns_reply: "returns (ret x)" "returns (case p of (a, b) \<Rightarrow> ret (k a b))"
  by (simp_all add: returns_def ret_def split: prod.splits)

lemma atomic_handle:
  assumes "\<nexists>e p. req = Sign_In e p" and "\<nexists>d. req = Sign_Up d"
  shows "atomic (handle_auth env req)"
proof (cases req)
  case (Get_Me c)
  have "quiet (get_me_endpoint env c)"
    unfolding get_me_endpoint_def by (intro atomic_intros quiet_to_user_read)
  then show ?thesis by (simp add: handle_auth_def Get_Me atomic_quiet)
qed (use assms in \<open>simp_all add: handle_auth_def auth_endpoints atomic_bind_returns auth_atomic
    atomic_catch_throw returns_reply\<close>)

lemma serve_failure:
  assumes "serve_auth env email_ok req w = (Inl e, w')"
    and "\<nexists>e p. req = Sign_In e p" and "\<nexists>d. req = Sign_Up d"
  shows "committed w' = committed w"
proof (cases "valid_request email_ok req")
  case False
  then show ?thesis using assms(1) by (simp add: serve_auth_def throw_def)
next
  case True
  obtain r v where h: "handle_auth env req w = (r, v)" by (cases "handle_auth env req w")
  have "fst (serve_auth env email_ok req w) = r" "committed (snd (serve_auth env email_ok req w)) = committed v"
    using True h by (simp_all add: serve_auth_def request_session_result request_session_committed)
  with assms(1) h atomic_handle [OF assms(2,3), of env] show ?thesis by (auto simp: atomic_def)
qed

end
