(* ===== verification/Sample_World.thy ===== *)
theory Sample_World
  imports Session_Laws
begin

text \<open>
  A concrete environment and database on which the properties are instantiated: a
  case-insensitive collation, second-long clock ticks, transparent stand-ins for the
  cryptographic libraries, and a few rows of every kind.
\<close>

definition sample_settings :: settings where
  "sample_settings = default_settings ''db'' ''redis'' ''kafka'' ''issuer'' ''audience'' ''jwks''"

definition sample_env :: env where
  "sample_env = \<lparr> settings = sample_settings, collate = lower, ilike = (\<lambda>_ _. False),
     rejects_value = (\<lambda>_. False), stored_numeric = (\<lambda>d. d), failed_session = Some PendingRollbackError,
     argon2_hash = (\<lambda>_ p. p), argon2_verify = (\<lambda>h p. if h = p then Verified else VerifyMismatch),
     argon2_needs_rehash = (\<lambda>_. Some False), sha256_hex = (\<lambda>s. s),
     jwt_encode = (\<lambda>_ secret _. secret), jwt_decode = (\<lambda>_ _ _ _ _. None),
     json_dumps = (\<lambda>_. ''json''), model_dump_json = (\<lambda>_. ''model''), json_loads = (\<lambda>_. Json_Decode_Error), lua_tonumber = (\<lambda>_. None),
     app_clock = (\<lambda>n. int n * second), db_clock = (\<lambda>n. int n * second),
     uuid_source = (\<lambda>n. word_of_nat (1000 + n)), token_source = (\<lambda>_ n. ''tok'' @ nat_text n),
     kafka_accepts = (\<lambda>_. True), redis_answers = (\<lambda>_. True), isoformat = (\<lambda>t. ''iso'') \<rparr>"

definition sample_role :: "uuid \<Rightarrow> string \<Rightarrow> role" where
  "sample_role i n = \<lparr>r_id = i, r_name = n, r_description = None, r_is_active = True, r_created_at = 0\<rparr>"

definition sample_user :: "uuid \<Rightarrow> string \<Rightarrow> string \<Rightarrow> uuid \<Rightarrow> user" where
  "sample_user i email password_hash role =
     \<lparr>u_id = i, u_email = email, u_password_hash = password_hash, u_first_name = ''A'', u_last_name = ''B'',
      u_phone = None, u_primary_role_id = role, u_is_active = True, u_is_email_verified = False,
      u_failed_login_attempts = 0, u_locked_until = None, u_last_login_at = None, u_created_at = 0\<rparr>"

definition sample_auction :: "uuid \<Rightarrow> string \<Rightarrow> auction" where
  "sample_auction i status =
     \<lparr>a_id = i, a_vehicle_id = 500, a_status = status, a_starting_price = Finite False 100 0,
      a_reserve_price = None, a_starts_at = 0, a_ends_at = 1000 * second, a_created_at = 0\<rparr>"

text \<open>Ann is a buyer and a seller with one token of each kind; Bob is an administrator.\<close>

definition sample_db :: database where
  "sample_db = empty_database\<lparr>
     roles := [sample_role 1 ''Buyer'', sample_role 2 ''Seller'', sample_role 3 ''Admin''],
     users := [sample_user 11 ''ann@x.ae'' ''pw1'' 1, sample_user 12 ''bob@x.ae'' ''pw2'' 3],
     user_roles := [\<lparr>ur_id = 21, ur_user_id = 11, ur_role_id = 1, ur_assigned_at = 5\<rparr>,
                    \<lparr>ur_id = 22, ur_user_id = 11, ur_role_id = 2, ur_assigned_at = 6\<rparr>,
                    \<lparr>ur_id = 23, ur_user_id = 12, ur_role_id = 3, ur_assigned_at = 7\<rparr>],
     refresh_tokens := [\<lparr>rt_id = 31, rt_user_id = 11, rt_token_hash = ''rrr'', rt_expires_at = 1000 * second,
                         rt_revoked_at = None, rt_created_at = 0\<rparr>],
     password_reset_tokens := [\<lparr>pr_id = 32, pr_user_id = 11, pr_token_hash = ''ppp'', pr_expires_at = 1000 * second,
                         pr_used_at = None, pr_created_at = 0\<rparr>],
     email_verification_tokens := [\<lparr>ev_id = 33, ev_user_id = 11, ev_token_hash = ''eee'',
                         ev_expires_at = 1000 * second, ev_used_at = None, ev_created_at = 0\<rparr>],
     auctions := [sample_auction 41 ''live'', sample_auction 42 ''ended'']\<rparr>"

definition sample_world :: world where
  "sample_world = initial_world sample_db"

lemma sample_clean [simp]: "clean sample_world"
  by (simp add: sample_world_def)

lemma sample_committed [simp]: "committed sample_world = sample_db"
  by (simp add: sample_world_def initial_world_def)

lemma sample_schema_ok [simp]: "schema_ok (collate sample_env) sample_db"
  by code_simp

end
