(* ===== verification/Auth_Properties.thy ===== *)
theory Auth_Properties
  imports Auth_Api Sample_World
begin

text \<open>
  The properties of authentication and roles, each with an instance on the sample world.
\<close>

section \<open>Tokens\<close>



lemma result_pair: "(case fst p of Inl _ \<Rightarrow> False | Inr _ \<Rightarrow> True) \<Longrightarrow> \<exists>r. p = (Inr r, snd p)"
  by (cases p; cases "fst p") auto






section \<open>Accounts\<close>

text \<open>C30. After any sequence of authentication requests the declared keys, unique columns
  and foreign keys hold, the session is clean, and every account's primary role is one of the
  roles it holds.\<close>

theorem auth_history_invariant:
  assumes "auth_history env email_ok w0 w" and "clean w0"
    and "schema_ok (collate env) (committed w0)" and "roles_inv (committed w0)"
  shows "clean w \<and> schema_ok (collate env) (committed w) \<and> roles_inv (committed w)"
  using auth_history_schema [OF assms(1-3)] auth_history_roles [OF assms] by simp

definition sample_sign_up :: sign_up_request where
  "sample_sign_up = \<lparr>su_email = '' Cat@X.ae'', su_password = ''secret12'', su_first_name = ''Cat '',
     su_last_name = ''C'', su_phone = None\<rparr>"

theorem auth_history_invariant_witness:
  "roles_inv (committed (snd (serve_auth sample_env (\<lambda>_. True) (Sign_Up sample_sign_up) sample_world)))"
proof -
  have "roles_inv (committed sample_world)" by code_simp
  from auth_history_invariant [OF auth_history.serve [OF auth_history.start] sample_clean _ this]
  show ?thesis by simp
qed

text \<open>A successful sign-up creates one account under the normalised address, whose primary
  role and only role is \<open>Buyer\<close>.\<close>

theorem sign_up_creates_buyer:
  assumes "schema_ok (collate env) (committed w)" and "clean w"
    and "sign_up env d w = (Inr (u, raw), w')"
  shows "\<exists>nu buyer. find_role env ''Buyer'' (committed w) = Some buyer \<and> nu \<in> set (users (committed w')) \<and>
    nu \<notin> set (users (committed w)) \<and> length (users (committed w')) = Suc (length (users (committed w))) \<and>
    u_email nu = lower (strip (su_email d)) \<and> u_primary_role_id nu = r_id buyer \<and>
    set (roles_held (u_id nu) (committed w')) = {buyer} \<and> u_is_active nu \<and> \<not> u_is_email_verified nu"
proof -
  obtain buyer nu ur v t t' where b: "find_role env ''Buyer'' (committed w) = Some buyer"
    and nu: "nu = new_user (uuid_source env (uuids_drawn w)) (normalize_email (su_email d))
           (argon2_hash env (salts_drawn w) (su_password d)) d buyer"
    and new: "integrity_ok (collate env) (RUser nu) (committed w)"
    and ur: "ur_user_id ur = u_id nu" "ur_role_id ur = r_id buyer"
    and w': "committed w' = insert_row t (RVerify v) (insert_row t' (RUserRole ur)
           (insert_row (db_clock env (db_ticks w)) (RUser nu) (committed w)))"
    by (rule sign_up_committed [OF assms])
  let ?nu = "nu\<lparr>u_created_at := db_clock env (db_ticks w)\<rparr>"
  have "set (roles_held (u_id ?nu) (committed w')) = {buyer}"
  proof -
    obtain x y where "find_role env ''Buyer'' (committed w) = Some y" "x \<in> set (users (committed w'))"
      "u_email x = normalize_email (su_email d)" "set (roles_held (u_id x) (committed w')) = {y}"
      using sign_up_roles(2) [OF assms] by blast
    moreover have "x = ?nu"
    proof (rule ccontr)
      assume "x \<noteq> ?nu"
      then have "x \<in> set (users (committed w))" using \<open>x \<in> set (users (committed w'))\<close> by (simp add: w')
      then have "collate env (u_email x) \<in> (\<lambda>y. collate env (u_email y)) ` set (users (committed w))"
        by (rule imageI)
      then show False
        using new \<open>u_email x = _\<close> by (simp add: nu new_user_def)
    qed
    ultimately show ?thesis using b by simp
  qed
  moreover have "?nu \<notin> set (users (committed w))"
  proof
    assume "?nu \<in> set (users (committed w))"
    then have "u_id ?nu \<in> u_id ` set (users (committed w))" by (rule imageI)
    with new show False by simp
  qed
  moreover have "u_email nu = normalize_email (su_email d)" "u_primary_role_id nu = r_id buyer" "u_is_active nu"
    "\<not> u_is_email_verified nu"
    by (simp_all add: nu new_user_def)
  ultimately show ?thesis
    using b by (intro exI [of _ ?nu] exI [of _ buyer]) (simp add: w' normalize_email_def)
qed

theorem sign_up_creates_buyer_witness:
  "\<exists>nu \<in> set (users (committed (snd (sign_up sample_env sample_sign_up sample_world)))). u_email nu = ''cat@x.ae''"
proof -
  have "case fst (sign_up sample_env sample_sign_up sample_world) of Inl _ \<Rightarrow> False | Inr _ \<Rightarrow> True" by code_simp
  then obtain r where "sign_up sample_env sample_sign_up sample_world =
      (Inr r, snd (sign_up sample_env sample_sign_up sample_world))" by (blast dest: result_pair)
  then obtain u raw where "sign_up sample_env sample_sign_up sample_world =
      (Inr (u, raw), snd (sign_up sample_env sample_sign_up sample_world))" by (cases r) simp
  from sign_up_creates_buyer [OF _ sample_clean this] obtain nu where
    "nu \<in> set (users (committed (snd (sign_up sample_env sample_sign_up sample_world))))"
    "u_email nu = lower (strip (su_email sample_sign_up))" by auto
  moreover have "lower (strip (su_email sample_sign_up)) = ''cat@x.ae''" by code_simp
  ultimately show ?thesis by auto
qed

text \<open>One account per address: a sign-up whose address differs from an existing one only
  in case, surrounding blanks or what the collation ignores is answered 409 and changes
  nothing.\<close>

theorem sign_up_duplicate_refused:
  assumes ok: "schema_ok (collate env) (committed w)" and cl: "clean w"
    and u: "u \<in> set (users (committed w))" "collate env (u_email u) = collate env (lower (strip (su_email d)))"
    and valid: "valid_request email_ok (Sign_Up d)"
  shows "serve_auth env email_ok (Sign_Up d) w =
    (Inl (HTTPException HTTP_409_CONFLICT ''Email is already registered'' []), w)"
proof -
  have "account env (normalize_email (su_email d)) (committed w) \<noteq> None"
    using u by (auto simp: account_def normalize_email_def lower_strip sql_eq_def filter_empty_conv)
  moreover have "work w = committed w" using cl by (simp add: clean_def)
  ultimately have "sign_up env d w = (Inl (EmailAlreadyRegisteredError (normalize_email (su_email d))), w)"
    using ok clean_simps(1) [OF cl] by (auto simp: sign_up_def Let_def step_simps throw_def)
  then have "handle_auth env (Sign_Up d) w =
      (Inl (HTTPException HTTP_409_CONFLICT ''Email is already registered'' []), w)"
    by (simp add: handle_auth_def sign_up_endpoint_def run_simps)
  then show ?thesis using valid cl by (simp add: serve_auth_def request_session_of_clean)
qed

theorem sign_up_duplicate_refused_witness:
  "fst (serve_auth sample_env (\<lambda>_. True) (Sign_Up (sample_sign_up\<lparr>su_email := '' ANN@x.AE ''\<rparr>)) sample_world) =
   Inl (HTTPException 409 ''Email is already registered'' [])"
proof -
  have "sample_user 11 ''ann@x.ae'' ''pw1'' 1 \<in> set (users (committed sample_world))"
    by (simp add: sample_db_def)
  moreover have "collate sample_env (u_email (sample_user 11 ''ann@x.ae'' ''pw1'' 1)) =
      collate sample_env (lower (strip (su_email (sample_sign_up\<lparr>su_email := '' ANN@x.AE ''\<rparr>))))" by code_simp
  moreover have "valid_request (\<lambda>_. True) (Sign_Up (sample_sign_up\<lparr>su_email := '' ANN@x.AE ''\<rparr>))" by code_simp
  ultimately show ?thesis
    using sign_up_duplicate_refused [OF _ sample_clean, of sample_env] by simp
qed

text \<open>C31. A request that fails commits nothing: whatever error a token, password or profile
  request is answered with, the database is as before; the same for a sign-up. (A sign-in
  with a wrong password is the intended exception: it counts the attempt.)\<close>

theorem failed_request_commits_nothing:
  "(serve_auth env email_ok req w = (Inl e, w') \<and> (\<nexists>a p. req = Sign_In a p) \<and> (\<nexists>d. req = Sign_Up d) \<longrightarrow>
      committed w' = committed w) \<and>
   (sign_up env d v = (Inl e', v') \<longrightarrow> committed v' = committed v)"
  using serve_failure [of env email_ok req w e w'] auth_atomic(1) [of env d] unfolding atomic_def by blast

theorem failed_request_commits_nothing_witness:
  "committed (snd (serve_auth sample_env (\<lambda>_. True) (Refresh ''bad'') sample_world)) = sample_db"
proof -
  let ?serve = "serve_auth sample_env (\<lambda>_. True) (Refresh ''bad'') sample_world"
  have "case fst ?serve of Inl _ \<Rightarrow> True | Inr _ \<Rightarrow> False" by code_simp
  then obtain e where "?serve = (Inl e, snd ?serve)" by (cases ?serve; cases "fst ?serve") auto
  then show ?thesis
    using failed_request_commits_nothing [of sample_env "\<lambda>_. True" "Refresh ''bad''" sample_world e "snd ?serve"] by simp
qed

section \<open>Signing in\<close>



text \<open>C16. Tokens are issued only to the holder of the password: a successful sign-in means an
  active account that is not locked and whose stored hash the password verifies against; the
  failure counter and the lock are cleared and the refresh token returned is on record for
  that account.\<close>

theorem sign_in_requires_password:
  assumes "schema_ok (collate env) (committed w)" and "clean w"
    and "sign_in env email password w = (Inr (v, tokens), w')"
  shows "\<exists>u. account env email (committed w) = Some u \<and> u_is_active u \<and>
    \<not> locked_at (app_clock env (app_ticks w)) u \<and> verify_password env password (u_password_hash u) = Inr True \<and>
    (\<exists>x. account env email (committed w') = Some x \<and> u_id x = u_id u \<and>
         u_failed_login_attempts x = 0 \<and> u_locked_until x = None) \<and>
    (\<exists>k \<in> set (refresh_tokens (committed w')). rt_user_id k = u_id u \<and> rt_revoked_at k = None \<and>
         rt_token_hash k = hash_token env (refresh_token_text tokens))"
  by (rule sign_in_success [OF assms])

theorem sign_in_requires_password_witness:
  "\<exists>u. account sample_env ''Ann@x.ae'' sample_db = Some u \<and>
       verify_password sample_env ''pw1'' (u_password_hash u) = Inr True"
proof -
  let ?run = "sign_in sample_env ''Ann@x.ae'' ''pw1'' sample_world"
  have "case fst ?run of Inl _ \<Rightarrow> False | Inr _ \<Rightarrow> True" by code_simp
  then obtain r where "?run = (Inr r, snd ?run)" by (blast dest: result_pair)
  then have "?run = (Inr (fst r, snd r), snd ?run)" by simp
  from sign_in_requires_password [OF _ sample_clean this] show ?thesis by auto
qed

text \<open>No enumeration: the answer to a forgotten-password request is the same whether or not
  the address has an account, as long as the database accepts the new token row.\<close>

theorem forgot_password_uniform:
  assumes ok: "schema_ok (collate env) (committed w)" and cl: "clean w" and valid: "email_ok email"
    and accepts: "\<forall>k. \<not> rejects_value env (RReset k)"
    and fresh: "uuid_source env (uuids_drawn w) \<notin> pr_id ` set (password_reset_tokens (committed w))"
      "collate env (hash_token env (token_source env 32 (tokens_drawn w))) \<notin>
         (collate env \<circ> pr_token_hash) ` set (password_reset_tokens (committed w))"
  shows "fst (serve_auth env email_ok (Forgot_Password email) w) = Inr (Message_Reply RESET_SENT_MESSAGE)"
proof -
  have same: "work w = committed w" using cl by (simp add: clean_def)
  have "\<exists>v x. request_password_reset env email w = (Inr x, v)"
  proof (cases "account env email (committed w)")
    case None
    then show ?thesis using ok same clean_simps(1) [OF cl]
      by (simp add: request_password_reset_def step_simps ret_def)
  next
    case (Some u)
    let ?raw = "token_source env 32 (tokens_drawn w)"
    let ?k = "\<lparr>pr_id = uuid_source env (uuids_drawn w), pr_user_id = u_id u, pr_token_hash = hash_token env ?raw,
        pr_expires_at = app_clock env (app_ticks w) + auth_password_reset_ttl_seconds (settings env) * second,
        pr_used_at = None, pr_created_at = 0\<rparr>"
    let ?w = "w\<lparr>pending := [RReset ?k], app_ticks := Suc (app_ticks w), uuids_drawn := Suc (uuids_drawn w),
        tokens_drawn := Suc (tokens_drawn w)\<rparr>"
    have "integrity_ok (collate env) (RReset ?k) (committed w)"
      using fresh account_in [OF Some] by (simp add: image_iff) blast?
    then have "flush env ?w = (Inr (), ?w\<lparr>work := insert_row (db_clock env (db_ticks w)) (RReset ?k) (committed w),
        pending := [], db_ticks := Suc (db_ticks w)\<rparr>)"
      using flush_one [of ?w "RReset ?k" env] accepts clean_simps(1) [OF cl] same by simp
    then have "\<exists>v. commit env ?w = (Inr (), v)" by (simp add: commit_def bind_def)
    then obtain v where c: "commit env ?w = (Inr (), v)" ..
    show ?thesis
    proof (cases "u_is_active u")
      case True
      have "request_password_reset env email w = bind (commit env) (\<lambda>_. ret (Some ?raw)) ?w"
        using ok same clean_simps(1,2) [OF cl] Some True
        by (simp add: request_password_reset_def generate_opaque_token_def step_simps)
      then show ?thesis using c by (simp add: bind_def ret_def)
    next
      case False
      then show ?thesis using ok same clean_simps(1) [OF cl] Some
        by (simp add: request_password_reset_def step_simps ret_def)
    qed
  qed
  then show ?thesis
    using valid by (auto simp: serve_result valid_request_def handle_auth_def forgot_password_endpoint_def bind_def ret_def)
qed

theorem forgot_password_uniform_witness:
  "fst (serve_auth sample_env (\<lambda>_. True) (Forgot_Password ''ann@x.ae'') sample_world) =
   fst (serve_auth sample_env (\<lambda>_. True) (Forgot_Password ''nobody@x.ae'') sample_world)"
proof -
  have "uuid_source sample_env (uuids_drawn sample_world) \<notin> pr_id ` set (password_reset_tokens (committed sample_world))"
    by code_simp
  moreover have "collate sample_env (hash_token sample_env (token_source sample_env 32 (tokens_drawn sample_world))) \<notin>
         (collate sample_env \<circ> pr_token_hash) ` set (password_reset_tokens (committed sample_world))"
    by code_simp
  moreover have "\<forall>k. \<not> rejects_value sample_env (RReset k)" by (simp add: sample_env_def)
  ultimately show ?thesis
    using forgot_password_uniform [OF _ sample_clean, of sample_env "\<lambda>_. True"] by simp
qed

section \<open>Authenticating a request\<close>

text \<open>C17. An access token authenticates the account it was issued for, and only until it
  expires: a request bearing it is answered with that account while the token's time to live
  has not passed and the account exists and is active, and 401 otherwise.\<close>

theorem access_token_authenticates:
  assumes issued: "create_access_token env uid names w0 = (Inr (token, ttl), w1)"
    and library: "jwt_library env (access_claims env uid names (epoch_seconds (app_clock env (app_ticks w0)))
                    (token_source env 16 (tokens_drawn w0)))"
    and nonempty: "token \<noteq> []" and cl: "clean w"
  shows "fst (get_current_local_user env (Some token) w) =
    (case get_by_id u_id (users (committed w)) uid of
       None \<Rightarrow> Inl unauthorized
     | Some u \<Rightarrow>
         if u_is_active u \<and>
            epoch_seconds (app_clock env (app_ticks w)) \<le> epoch_seconds (app_clock env (app_ticks w0)) + ttl
         then Inr u else Inl unauthorized)"
proof -
  let ?t0 = "epoch_seconds (app_clock env (app_ticks w0))"
  let ?c = "access_claims env uid names ?t0 (token_source env 16 (tokens_drawn w0))"
  have token: "token = jwt_encode env ?c (auth_jwt_secret (settings env)) ALGORITHM"
    "ttl = auth_access_token_ttl_seconds (settings env)"
    using issued by (auto simp: create_access_token_def step_simps ret_def)
  obtain r v where d: "decode_access_token env token w = (r, v)" by (cases "decode_access_token env token w")
  have r: "r = Inr (if epoch_seconds (app_clock env (app_ticks w)) \<le> ?t0 + ttl
      then Some \<lparr>cl_subject = uuid_text uid, cl_roles = names\<rparr> else None)"
    using decode_issued_token [OF library, of w] d by (simp add: token)
  have same: "work w = committed w" using cl by (simp add: clean_def)
  show ?thesis
  proof (cases "epoch_seconds (app_clock env (app_ticks w)) \<le> ?t0 + ttl")
    case True
    then have "decode_access_token env token w = (Inr (Some \<lparr>cl_subject = uuid_text uid, cl_roles = names\<rparr>), v)"
      using d r by simp
    from local_user_of_token [OF clean_simps(1) [OF cl] this nonempty] True show ?thesis
      by (simp add: same split: option.splits)
  next
    case False
    then have "decode_access_token env token w = (Inr None, v)" using d r by simp
    from local_user_rejected [OF this] nonempty False show ?thesis by (auto split: option.splits)
  qed
qed

definition jwt_env :: env where
  "jwt_env = sample_env\<lparr>jwt_decode := (\<lambda>token secret algs iss t.
     let claims = access_claims sample_env 11 [''Buyer''] 0 ''tok0'' in
     if map_of claims ''iss'' = Some (JStr iss) \<and>
        (case map_of claims ''exp'' of Some (JInt e) \<Rightarrow> epoch_seconds t \<le> e | _ \<Rightarrow> False)
     then Some claims else None)\<rparr>"

theorem access_token_authenticates_witness:
  "fst (get_current_local_user jwt_env (Some DEV_JWT_SECRET) sample_world) =
   Inr (sample_user 11 ''ann@x.ae'' ''pw1'' 1)"
proof -
  have claims: "access_claims jwt_env 11 [''Buyer''] (epoch_seconds (app_clock jwt_env (app_ticks sample_world)))
      (token_source jwt_env 16 (tokens_drawn sample_world)) = access_claims sample_env 11 [''Buyer''] 0 ''tok0''"
    by code_simp
  have "jwt_library jwt_env (access_claims sample_env 11 [''Buyer''] 0 ''tok0'')"
    by (simp add: jwt_library_def jwt_env_def Let_def)
  then have library: "jwt_library jwt_env (access_claims jwt_env 11 [''Buyer'']
      (epoch_seconds (app_clock jwt_env (app_ticks sample_world))) (token_source jwt_env 16 (tokens_drawn sample_world)))"
    by (simp only: claims)
  obtain w1 where issued: "create_access_token jwt_env 11 [''Buyer''] sample_world = (Inr (DEV_JWT_SECRET, 900), w1)"
    by (simp add: create_access_token_def step_simps ret_def jwt_env_def sample_env_def sample_settings_def
        default_settings_def)
  have "DEV_JWT_SECRET \<noteq> []" by (simp add: DEV_JWT_SECRET_def)
  note access_token_authenticates [OF issued library this sample_clean]
  moreover have "get_by_id u_id (users (committed sample_world)) 11 = Some (sample_user 11 ''ann@x.ae'' ''pw1'' 1)"
    by code_simp
  moreover have "epoch_seconds (app_clock jwt_env (app_ticks sample_world)) = 0" by code_simp
  moreover have "u_is_active (sample_user 11 ''ann@x.ae'' ''pw1'' 1)" by (simp add: sample_user_def)
  ultimately show ?thesis by (simp only: option.case simp_thms if_True) simp
qed

text \<open>The role guard lets a request through exactly when the authenticated account holds,
  among all its roles and not only as its primary one, a role of the required list; it
  answers 403 otherwise.\<close>

theorem require_local_role_iff:
  assumes auth: "get_current_local_user env c w = (Inr u, v)" and "\<not> deactive v"
  shows "fst (require_local_role env names c w) =
    (if \<exists>r \<in> set (roles (work v)). r_name r \<in> set names \<and>
          (\<exists>ur \<in> set (user_roles (work v)). ur_user_id ur = u_id u \<and> ur_role_id ur = r_id r)
     then Inr u
     else Inl (HTTPException HTTP_403_FORBIDDEN (''Requires role: '' @ join '' or '' names) []))"
proof -
  have "list_ex (\<lambda>n. n \<in> set names) (map r_name (order_by (collate env \<circ> r_name) (roles_held (u_id u) (work v)))) \<longleftrightarrow>
      (\<exists>r \<in> set (roles_held (u_id u) (work v)). r_name r \<in> set names)"
    by (simp add: list_ex_iff)
  also have "\<dots> \<longleftrightarrow> (\<exists>r \<in> set (roles (work v)). r_name r \<in> set names \<and>
          (\<exists>ur \<in> set (user_roles (work v)). ur_user_id ur = u_id u \<and> ur_role_id ur = r_id r))"
    unfolding Bex_def set_roles_held by blast
  finally have held: "list_ex (\<lambda>n. n \<in> set names) (map r_name (order_by (collate env \<circ> r_name) (roles_held (u_id u) (work v)))) \<longleftrightarrow>
      (\<exists>r \<in> set (roles (work v)). r_name r \<in> set names \<and>
          (\<exists>ur \<in> set (user_roles (work v)). ur_user_id ur = u_id u \<and> ur_role_id ur = r_id r))" .
  have next': "bind (get_current_local_user env c) f w = f u v" for f :: "_ \<Rightarrow> user comp"
    using auth by (rule bind_value)
  show ?thesis
    using assms(2) held by (simp add: require_local_role_def next' get_user_roles_def step_simps
        throw_def ret_def)
qed

theorem require_local_role_iff_witness:
  "fst (require_local_role jwt_env [''Admin'', ''Manager''] (Some DEV_JWT_SECRET) sample_world) =
   Inl (HTTPException 403 ''Requires role: Admin or Manager'' [])"
proof -
  let ?run = "get_current_local_user jwt_env (Some DEV_JWT_SECRET) sample_world"
  have "fst ?run = Inr (sample_user 11 ''ann@x.ae'' ''pw1'' 1)" by code_simp
  then have run: "?run = (Inr (sample_user 11 ''ann@x.ae'' ''pw1'' 1), snd ?run)" by (cases ?run) simp
  moreover have "\<not> deactive (snd ?run)" by code_simp
  moreover have "\<not> (\<exists>r \<in> set (roles (work (snd ?run))). r_name r \<in> set [''Admin'', ''Manager''] \<and>
      (\<exists>ur \<in> set (user_roles (work (snd ?run))). ur_user_id ur = u_id (sample_user 11 ''ann@x.ae'' ''pw1'' 1) \<and> ur_role_id ur = r_id r))"
    by code_simp
  ultimately show ?thesis
    using require_local_role_iff [OF run, of "[''Admin'', ''Manager'']"] by simp
qed

section \<open>Assigning and revoking roles\<close>

text \<open>Assigning a role gives the user that role and no other, takes none away, makes it the
  primary role if asked, keeps the invariant that primary roles are held, and a second
  assignment adds no row.\<close>

theorem assign_role_grants:
  assumes ok: "schema_ok (collate env) (work w)" and idle: "\<not> deactive w" "pending w = []"
    and inv: "roles_inv (work w)" and u: "u \<in> set (users (work w))"
    and run: "assign_role env u n p w = (Inr ur, w')"
  shows "\<exists>role. find_role env n (work w) = Some role \<and>
    set (roles_held (u_id u) (work w')) = insert role (set (roles_held (u_id u) (work w))) \<and>
    (\<forall>uid. uid \<noteq> u_id u \<longrightarrow> set (roles_held uid (work w')) = set (roles_held uid (work w))) \<and>
    roles_inv (work w') \<and>
    (p \<longrightarrow> (\<forall>x \<in> set (users (work w')). u_id x = u_id u \<longrightarrow> u_primary_role_id x = r_id role)) \<and>
    (role \<in> set (roles_held (u_id u) (work w)) \<longrightarrow> user_roles (work w') = user_roles (work w))"
proof -
  obtain role where role: "find_role env n (work w) = Some role" and ur: "ur_user_id ur = u_id u" "ur_role_id ur = r_id role"
    and w': "ur \<in> set (user_roles (work w)) \<and> work w' = with_primary p u role (work w) \<or>
         work w' = insert_row (db_clock env (db_ticks w)) (RUserRole ur) (with_primary p u role (work w))"
    by (rule assign_role_success [OF ok idle run])
  have in_roles: "role \<in> set (roles (work w))" using find_role_SomeD [OF role] by simp
  have ids: "distinct (map r_id (roles (work w)))" using ok by (simp add: schema_ok_def users_ok_def)
  have same: "user_roles (with_primary p u role db) = user_roles db" "roles (with_primary p u role db) = roles db" for db
    by (simp_all add: with_primary_def table_simps)
  have tabs: "roles (work w') = roles (work w)" using w' by (auto simp: same)
  let ?new = "ur\<lparr>ur_assigned_at := db_clock env (db_ticks w)\<rparr>"
  have "set (user_roles (work w')) = set (user_roles (work w)) \<and> ur \<in> set (user_roles (work w)) \<or>
      set (user_roles (work w')) = insert ?new (set (user_roles (work w)))"
    using w' by (auto simp: same)
  then have links: "(\<exists>x \<in> set (user_roles (work w')). ur_user_id x = uid \<and> ur_role_id x = i) \<longleftrightarrow>
      (\<exists>x \<in> set (user_roles (work w)). ur_user_id x = uid \<and> ur_role_id x = i) \<or> (uid = u_id u \<and> i = r_id role)" for uid i
    using ur by auto
  have held: "r \<in> set (roles_held uid (work w')) \<longleftrightarrow>
      r \<in> set (roles_held uid (work w)) \<or> (uid = u_id u \<and> r = role)" for r uid
  proof -
    have "r_id r = r_id role \<longleftrightarrow> r = role" if "r \<in> set (roles (work w))"
      using distinct_map_inj_on_eq [OF ids that in_roles] by auto
    with in_roles show ?thesis unfolding set_roles_held tabs links by auto
  qed
  have prim: "u_primary_role_id x = r_id role" if "p" "x \<in> set (users (work w'))" "u_id x = u_id u" for x
    using w' that by (auto simp: with_primary_def set_users_primary)
  have again: "user_roles (work w') = user_roles (work w)" if "role \<in> set (roles_held (u_id u) (work w))"
  proof -
    have "held_row u role (work w) \<noteq> None"
      using that by (auto simp: set_roles_held held_row_def filter_empty_conv)
    then obtain row where row: "held_row u role (work w) = Some row" by auto
    show ?thesis
      using run by (auto simp: assign_role_held [OF ok idle role row] with_primary_def table_simps)
  qed
  show ?thesis
    using role held prim again assign_role_inv [OF ok idle inv u run] by (intro exI [of _ role]) auto
qed

definition sample_ann :: user where
  "sample_ann = sample_user 11 ''ann@x.ae'' ''pw1'' 1"

theorem assign_role_grants_witness:
  "\<exists>role. find_role sample_env ''ADMIN'' sample_db = Some role \<and>
     role \<in> set (roles_held 11 (work (snd (assign_role sample_env sample_ann ''ADMIN'' True sample_world))))"
proof -
  let ?run = "assign_role sample_env sample_ann ''ADMIN'' True sample_world"
  have "case fst ?run of Inl _ \<Rightarrow> False | Inr _ \<Rightarrow> True" by code_simp
  then obtain ur where run: "?run = (Inr ur, snd ?run)" by (blast dest: result_pair)
  have "work sample_world = sample_db" "\<not> deactive sample_world" "pending sample_world = []"
    by (simp_all add: sample_world_def initial_world_def)
  moreover have "roles_inv sample_db" by code_simp
  moreover have "sample_ann \<in> set (users sample_db)" by (simp add: sample_ann_def sample_db_def)
  moreover have "u_id sample_ann = 11" by (simp add: sample_ann_def sample_user_def)
  ultimately show ?thesis using assign_role_grants [OF _ _ _ _ _ run] by fastforce
qed

text \<open>C6. Revoking a role: the last role of a user cannot be revoked; otherwise the user loses
  that role and nothing else, every other user keeps all roles, and if the primary role went,
  the longest-held remaining role takes its place, so that every primary role is still held.\<close>

theorem revoke_role_safe:
  assumes ok: "schema_ok (collate env) (work w)" and idle: "\<not> deactive w" "pending w = []"
    and inv: "roles_inv (work w)" and u: "u \<in> set (users (work w))"
    and role: "find_role env n (work w) = Some role" "role \<in> set (roles_held (u_id u) (work w))"
  shows "(length (user_rows (u_id u) (work w)) = 1 \<longrightarrow>
            revoke_role env u n w = (Inl (LastRoleRemovalError (u_id u)), w)) \<and>
    (length (user_rows (u_id u) (work w)) \<noteq> 1 \<longrightarrow>
       (let w' = snd (revoke_role env u n w) in
        fst (revoke_role env u n w) = Inr () \<and>
        set (roles_held (u_id u) (work w')) = set (roles_held (u_id u) (work w)) - {role} \<and>
        (\<forall>uid. uid \<noteq> u_id u \<longrightarrow> set (roles_held uid (work w')) = set (roles_held uid (work w))) \<and>
        roles_inv (work w') \<and>
        (u_primary_role_id u = r_id role \<longrightarrow>
           (\<exists>p \<in> set (user_rows (u_id u) (work w)). ur_role_id p \<noteq> r_id role \<and>
              (\<forall>q \<in> set (user_rows (u_id u) (work w)). ur_role_id q \<noteq> r_id role \<longrightarrow> ur_assigned_at p \<le> ur_assigned_at q) \<and>
              (\<forall>x \<in> set (users (work w')). u_id x = u_id u \<longrightarrow> u_primary_role_id x = ur_role_id p)))))"
proof -
  let ?rows = "user_rows (u_id u) (work w)"
  obtain x where x: "x \<in> set ?rows" "ur_role_id x = r_id role"
    using role(2) by (auto simp: set_roles_held user_rows_def)
  then have "filter (\<lambda>ur. ur_role_id ur = r_id role) ?rows \<noteq> []" by (auto simp: filter_empty_conv)
  then obtain t where f: "first_row (filter (\<lambda>ur. ur_role_id ur = r_id role) ?rows) = Some t"
    by (cases "filter (\<lambda>ur. ur_role_id ur = r_id role) ?rows") auto
  then have t: "t \<in> set ?rows" "ur_role_id t = r_id role" by (auto dest: first_row_filterD)
  have in_roles: "role \<in> set (roles (work w))" using find_role_SomeD [OF role(1)] by simp
  have pairs: "distinct (map (\<lambda>x. (ur_user_id x, ur_role_id x)) (user_roles (work w)))"
    and ids: "distinct (map ur_id (user_roles (work w)))"
    using ok by (simp_all add: schema_ok_def users_ok_def)
  have only: "ur_id y = ur_id t \<longleftrightarrow> ur_role_id y = r_id role" if "y \<in> set ?rows" for y
    using that t distinct_map_inj_on_eq [OF pairs, of y t] distinct_map_inj_on_eq [OF ids, of y t]
    by (auto simp: user_rows_def)
  show ?thesis
  proof (intro conjI impI)
    assume "length ?rows = 1"
    then show "revoke_role env u n w = (Inl (LastRoleRemovalError (u_id u)), w)"
      by (simp add: revoke_role_run [OF ok idle] role f)
  next
    assume len: "length ?rows \<noteq> 1"
    then have run: "revoke_role env u n w = (Inr (), w\<lparr>work := revoked u role t (work w)\<rparr>)"
      by (simp add: revoke_role_run [OF ok idle] role f)
    have "\<exists>p \<in> set ?rows. ur_role_id p \<noteq> r_id role \<and>
        (\<forall>q \<in> set ?rows. ur_role_id q \<noteq> r_id role \<longrightarrow> ur_assigned_at p \<le> ur_assigned_at q) \<and>
        (\<forall>x \<in> set (users (revoked u role t (work w))). u_id x = u_id u \<longrightarrow> u_primary_role_id x = ur_role_id p)"
      if prim: "u_primary_role_id u = r_id role"
    proof -
      have "distinct (map ur_id ?rows)" using ids by (simp add: user_rows_def distinct_map_filter)
      from revoke_remaining [OF this t(1) len] obtain p where
        p: "min_by ur_assigned_at (filter (\<lambda>ur. ur_id ur \<noteq> ur_id t) ?rows) = Some p"
        by (metis min_by_None_iff not_None_eq)
      from min_by_least [OF p] have "p \<in> set ?rows" "ur_role_id p \<noteq> r_id role"
        "\<forall>q \<in> set ?rows. ur_role_id q \<noteq> r_id role \<longrightarrow> ur_assigned_at p \<le> ur_assigned_at q"
        using only by auto
      moreover have "\<forall>x \<in> set (users (revoked u role t (work w))). u_id x = u_id u \<longrightarrow> u_primary_role_id x = ur_role_id p"
        using prim p by (auto simp: revoked_def Let_def set_users_primary)
      ultimately show ?thesis by blast
    qed
    moreover have "roles_inv (revoked u role t (work w))"
      by (rule roles_inv_revoked [OF ok inv u t len])
    ultimately show "let w' = snd (revoke_role env u n w) in
        fst (revoke_role env u n w) = Inr () \<and>
        set (roles_held (u_id u) (work w')) = set (roles_held (u_id u) (work w)) - {role} \<and>
        (\<forall>uid. uid \<noteq> u_id u \<longrightarrow> set (roles_held uid (work w')) = set (roles_held uid (work w))) \<and>
        roles_inv (work w') \<and>
        (u_primary_role_id u = r_id role \<longrightarrow>
           (\<exists>p \<in> set ?rows. ur_role_id p \<noteq> r_id role \<and>
              (\<forall>q \<in> set ?rows. ur_role_id q \<noteq> r_id role \<longrightarrow> ur_assigned_at p \<le> ur_assigned_at q) \<and>
              (\<forall>x \<in> set (users (work w')). u_id x = u_id u \<longrightarrow> u_primary_role_id x = ur_role_id p)))"
      using roles_held_revoked [OF ok t(1) in_roles t(2)] by (simp add: run Let_def)
  qed
qed

theorem revoke_role_safe_witness:
  "fst (revoke_role sample_env sample_ann ''Buyer'' sample_world) = Inr ()"
proof -
  have base: "work sample_world = sample_db" "\<not> deactive sample_world" "pending sample_world = []"
    by (simp_all add: sample_world_def initial_world_def)
  have "roles_inv sample_db" by code_simp
  moreover have "sample_ann \<in> set (users sample_db)" by (simp add: sample_ann_def sample_db_def)
  moreover have "find_role sample_env ''Buyer'' sample_db = Some (sample_role 1 ''Buyer'')" by code_simp
  moreover have "sample_role 1 ''Buyer'' \<in> set (roles_held (u_id sample_ann) sample_db)" by code_simp
  moreover have "length (user_rows (u_id sample_ann) sample_db) \<noteq> 1" by code_simp
  ultimately show ?thesis
    using revoke_role_safe [of sample_env sample_world sample_ann "''Buyer''" "sample_role 1 ''Buyer''"] base
    by (simp add: Let_def)
qed

end
