(* ===== verification/Users_Api.thy ===== *)
theory Users_Api
  imports Auth_Api
begin

text \<open>
  \<^verbatim>\<open>api/v1/users.py\<close> and \<^verbatim>\<open>schemas/role.py\<close>: administrators grant and revoke roles.
\<close>

record role_read =
  rr_id :: uuid
  rr_name :: string
  rr_description :: "string option"

definition role_read_of :: "role \<Rightarrow> role_read" where
  "role_read_of r = \<lparr>rr_id = r_id r, rr_name = r_name r, rr_description = r_description r\<rparr>"

record user_role_assign_request =
  ura_role_name :: string
  ura_is_primary :: bool

definition valid_role_assign :: "user_role_assign_request \<Rightarrow> bool" where
  "valid_role_assign p \<longleftrightarrow> 1 \<le> length (ura_role_name p) \<and> length (ura_role_name p) \<le> 50"

definition roles_reply :: "env \<Rightarrow> user \<Rightarrow> role_read list comp" where
  "roles_reply env u = bind (get_user_roles env u) (\<lambda>held. ret (map role_read_of held))"

definition get_my_roles_endpoint :: "env \<Rightarrow> string option \<Rightarrow> role_read list comp" where
  "get_my_roles_endpoint env credentials =
     request_session (bind (get_current_local_user env credentials) (\<lambda>u. roles_reply env u))"

definition get_user_or_404 :: "env \<Rightarrow> uuid \<Rightarrow> user comp" where
  "get_user_or_404 env i =
     bind (get_user_by_id env i) (\<lambda>found.
     case found of None \<Rightarrow> throw (HTTPException HTTP_404_NOT_FOUND ''User not found'' []) | Some u \<Rightarrow> ret u)"

definition require_admin :: "env \<Rightarrow> string option \<Rightarrow> user comp" where
  "require_admin env credentials = require_local_role env [''Admin''] credentials"

definition get_user_roles_endpoint :: "env \<Rightarrow> string option \<Rightarrow> uuid \<Rightarrow> role_read list comp" where
  "get_user_roles_endpoint env credentials i =
     request_session
       (bind (require_admin env credentials) (\<lambda>_.
        bind (get_user_or_404 env i) (\<lambda>u. roles_reply env u)))"

text \<open>The errors that the two handlers turn into responses.\<close>

fun role_error :: "exn \<Rightarrow> exn" where
  "role_error (RoleNotFoundError n) = HTTPException HTTP_404_NOT_FOUND (exn_text (RoleNotFoundError n)) []"
| "role_error (LastRoleRemovalError u) = HTTPException HTTP_409_CONFLICT (exn_text (LastRoleRemovalError u)) []"
| "role_error e = e"

fun assign_role_error :: "exn \<Rightarrow> exn" where
  "assign_role_error (RoleNotFoundError n) = HTTPException HTTP_404_NOT_FOUND (exn_text (RoleNotFoundError n)) []"
| "assign_role_error e = e"

definition assign_user_role_endpoint :: "env \<Rightarrow> string option \<Rightarrow> uuid \<Rightarrow> user_role_assign_request \<Rightarrow> role_read list comp" where
  "assign_user_role_endpoint env credentials i payload =
     request_session
       (bind (require_admin env credentials) (\<lambda>_.
        if \<not> valid_role_assign payload then throw (HTTPException HTTP_422_UNPROCESSABLE ''Invalid request'' [])
        else
          bind (get_user_or_404 env i) (\<lambda>u.
          bind (catch (assign_role env u (ura_role_name payload) (ura_is_primary payload)) (\<lambda>e. throw (assign_role_error e))) (\<lambda>_.
          bind (commit env) (\<lambda>_.
          roles_reply env u)))))"

definition revoke_user_role_endpoint :: "env \<Rightarrow> string option \<Rightarrow> uuid \<Rightarrow> string \<Rightarrow> role_read list comp" where
  "revoke_user_role_endpoint env credentials i name =
     request_session
       (bind (require_admin env credentials) (\<lambda>_.
        bind (get_user_or_404 env i) (\<lambda>u.
        bind (catch (revoke_role env u name) (\<lambda>e. throw (role_error e))) (\<lambda>_.
        bind (commit env) (\<lambda>_.
        roles_reply env u)))))"

section \<open>Requests\<close>

datatype users_request =
    My_Roles "string option"
  | User_Roles "string option" uuid
  | Assign_User_Role "string option" uuid user_role_assign_request
  | Revoke_User_Role "string option" uuid string

definition serve_users :: "env \<Rightarrow> users_request \<Rightarrow> role_read list comp" where
  "serve_users env req =
     (case req of
        My_Roles c \<Rightarrow> get_my_roles_endpoint env c
      | User_Roles c i \<Rightarrow> get_user_roles_endpoint env c i
      | Assign_User_Role c i payload \<Rightarrow> assign_user_role_endpoint env c i payload
      | Revoke_User_Role c i name \<Rightarrow> revoke_user_role_endpoint env c i name)"

text \<open>The bearer token of a request.\<close>

fun credentials_of :: "users_request \<Rightarrow> string option" where
  "credentials_of (My_Roles c) = c"
| "credentials_of (User_Roles c i) = c"
| "credentials_of (Assign_User_Role c i payload) = c"
| "credentials_of (Revoke_User_Role c i name) = c"

end
