(* ===== verification/Read_Laws.thy ===== *)
theory Read_Laws
  imports Session_Laws
begin

text \<open>
  Computations that only read, and the commit of a single pending row: what the intake form
  and the other services that insert one row at a time share.
\<close>

section \<open>Reading computations\<close>

named_theorems reads_intros \<open>a computation only reads\<close>

definition reads :: "'a comp \<Rightarrow> bool" where
  "reads m \<longleftrightarrow> (\<forall>w. snd (m w) = w)"

lemma readsD: "reads m \<Longrightarrow> m w = (r, v) \<Longrightarrow> v = w"
  unfolding reads_def by (metis snd_conv)

lemma reads_primitives [reads_intros]:
  "reads (query env q)" "reads (ret x)" "reads (throw e)" "reads (lift r)"
  by (simp_all add: reads_def query_def ret_def throw_def lift_def split: sum.splits)

lemma reads_bind [reads_intros]:
  assumes "reads m" and "\<And>x. reads (f x)" shows "reads (bind m f)"
  unfolding reads_def
proof
  fix w :: world
  obtain r v where m: "m w = (r, v)" by (cases "m w")
  with readsD [OF assms(1)] assms(2) show "snd (bind m f w) = w"
    by (cases r) (auto simp: bind_def reads_def)
qed

lemma reads_cases [reads_intros]:
  "reads m \<Longrightarrow> reads n \<Longrightarrow> reads (if b then m else n)"
  "reads m \<Longrightarrow> (\<And>x. reads (f x)) \<Longrightarrow> reads (case v of None \<Rightarrow> m | Some x \<Rightarrow> f x)"
  "(\<And>a b. reads (g a b)) \<Longrightarrow> reads (case p of (a, b) \<Rightarrow> g a b)"
  "(\<And>x. reads (f x)) \<Longrightarrow> reads (let x = z in f x)"
  by (auto split: option.splits prod.splits)

lemma bind_reads_Inr:
  assumes "reads m" and "bind m f w = (Inr y, w')"
  obtains x where "m w = (Inr x, w)" and "f x w = (Inr y, w')"
proof -
  obtain r v where m: "m w = (r, v)" by (cases "m w")
  with readsD [OF assms(1)] have v: "v = w" by simp
  from m v assms(2) that show thesis by (cases r) (auto simp: bind_def)
qed

lemma bind_reads_Inl:
  assumes "reads m" and "bind m f w = (Inl e, w')"
  obtains "w' = w" | x where "m w = (Inr x, w)" and "f x w = (Inl e, w')"
proof -
  obtain r v where m: "m w = (r, v)" by (cases "m w")
  with readsD [OF assms(1)] have v: "v = w" by simp
  from m v assms(2) that show thesis by (cases r) (auto simp: bind_def)
qed

lemma bind_Inr_reads:
  "reads m \<Longrightarrow> bind m f w = (Inr y, w') \<longleftrightarrow> (\<exists>x. m w = (Inr x, w) \<and> f x w = (Inr y, w'))"
  using bind_reads_Inr [of m f w y w'] by (auto simp: bind_def)

lemma query_Inr_iff: "query env q w = (Inr x, w') \<longleftrightarrow> w' = w \<and> usable env w = Inr () \<and> q (work w) = Inr x"
  by (auto simp: query_def split: sum.splits)

lemma ret_Inr_iff: "ret x w = (Inr y, w') \<longleftrightarrow> y = x \<and> w' = w"
  and throw_Inr_iff: "throw e w = (Inr y, w') \<longleftrightarrow> False"
  by (auto simp: ret_def throw_def)

lemmas reads_results = bind_Inr_reads query_Inr_iff ret_Inr_iff throw_Inr_iff reads_primitives reads_bind reads_cases

section \<open>The commit of one row\<close>

lemma commit_one:
  assumes "clean w"
  shows "commit env (w\<lparr>pending := [r]\<rparr>) =
    (if rejects_value env r then (Inl DBAPIError, w\<lparr>deactive := True\<rparr>)
     else if integrity_ok (collate env) (stored_row env r) (committed w)
     then (Inr (), w\<lparr>committed := insert_row (db_clock env (db_ticks w)) (stored_row env r) (committed w),
                     work := insert_row (db_clock env (db_ticks w)) (stored_row env r) (committed w),
                     db_ticks := Suc (db_ticks w)\<rparr>)
     else (Inl IntegrityError, w\<lparr>deactive := True\<rparr>))"
proof -
  have w: "work w = committed w" "pending w = []" "\<not> deactive w" using assms by (simp_all add: clean_def)
  have undone: "w\<lparr>work := committed w, pending := [], deactive := True\<rparr> = w\<lparr>deactive := True\<rparr>"
    "w\<lparr>pending := []\<rparr> = w"
    using w by simp_all
  show ?thesis
    using flush_one_cases [of "w\<lparr>pending := [r]\<rparr>" r env] w undone
    by (simp add: commit_def bind_def world_order del: stored_row.simps integrity_ok.simps insert_row.simps)
qed

lemma rollback_one: "clean w \<Longrightarrow> rollback (w\<lparr>deactive := True\<rparr>) = (Inr (), w)"
  by (simp add: rollback_def clean_def)

end
