(* ===== verification/Content_Service.thy ===== *)
theory Content_Service
  imports Auth_Api
begin

text \<open>
  \<^verbatim>\<open>services/content_service.py\<close>, \<^verbatim>\<open>schemas/content.py\<close> and \<^verbatim>\<open>api/v1/content.py\<close>: the
  public home page. Every function reads; rows come out localized to one language.
\<close>

section \<open>Localization\<close>

datatype lang = En | Ar

text \<open>\<open>x or default\<close> for a text or \<open>None\<close>; \<open>x or None\<close>.\<close>

definition text_or :: "string option \<Rightarrow> string \<Rightarrow> string" where
  "text_or x d = (case x of None \<Rightarrow> d | Some s \<Rightarrow> if s = [] then d else s)"

definition or_none :: "string \<Rightarrow> string option" where
  "or_none s = (if s = [] then None else Some s)"

text \<open>\<open>_pick\<close> of the content and admin services.\<close>

definition pick :: "string option \<Rightarrow> string option \<Rightarrow> lang \<Rightarrow> string" where
  "pick en ar l = (if l = Ar \<and> text_or ar [] \<noteq> [] then text_or ar [] else text_or en [])"

section \<open>schemas/content.py\<close>

datatype menu_item_read =
  Menu_Item_Read uuid string string "string option" string string bool "menu_item_read list"

record auction_category_read =
  acr_id :: uuid
  acr_name :: string
  acr_slug :: string
  acr_icon_url :: "string option"
  acr_link_url :: string

record featured_auction_tab_read =
  ftr_id :: uuid
  ftr_category_key :: string
  ftr_category_label :: string
  ftr_visibility :: string
  ftr_sort_order :: int

record featured_auction_item_read =
  fir_id :: uuid
  fir_auction_id :: "uuid option"
  fir_vehicle_listing_id :: "uuid option"
  fir_title :: string
  fir_image_url :: "string option"
  fir_badge :: "string option"
  fir_category_key :: string
  fir_category_label :: string
  fir_visibility :: string
  fir_detail_url :: string
  fir_lot_number :: "string option"
  fir_mileage :: "string option"
  fir_location :: "string option"
  fir_bid_amount :: "string option"
  fir_countdown_label :: "string option"
  fir_category_sort_order :: int
  fir_status :: "string option"
  fir_starting_price :: "decimal option"

record how_it_works_step_read =
  hsr_id :: uuid
  hsr_step_number :: int
  hsr_title :: string
  hsr_description :: string
  hsr_icon_url :: "string option"

record value_added_service_read =
  vsr_id :: uuid
  vsr_name :: string
  vsr_description :: "string option"
  vsr_icon_url :: "string option"
  vsr_link_url :: string

record footer_link_read =
  flr_id :: uuid
  flr_section :: string
  flr_label :: string
  flr_url :: string

record footer_read =
  fr_about_text :: string
  fr_copyright :: string
  fr_support_phone :: "string option"
  fr_support_email :: "string option"
  fr_facebook_url :: "string option"
  fr_instagram_url :: "string option"
  fr_youtube_url :: "string option"
  fr_app_store_url :: "string option"
  fr_google_play_url :: "string option"
  fr_links :: "footer_link_read list"

record home_content_read =
  hcr_auction_categories :: "auction_category_read list"
  hcr_featured_auctions :: "featured_auction_tab_read list"
  hcr_how_it_works :: "how_it_works_step_read list"
  hcr_value_added_services :: "value_added_service_read list"

section \<open>services/content_service.py\<close>

text \<open>All results, or the first exception.\<close>

fun map_results :: "('a \<Rightarrow> exn + 'b) \<Rightarrow> 'a list \<Rightarrow> exn + 'b list" where
  "map_results f [] = Inr []"
| "map_results f (x # xs) = bind_result (f x) (\<lambda>y. bind_result (map_results f xs) (\<lambda>ys. Inr (y # ys)))"

definition menu_children :: "menu_item list \<Rightarrow> menu_item \<Rightarrow> menu_item list" where
  "menu_children items item = order_by mi_sort_order (filter (\<lambda>c. mi_parent_id c = Some (mi_id item)) items)"

text \<open>
  \<open>loaded\<close> counts the levels of \<open>children\<close> that \<open>selectinload\<close> has fetched below the item;
  the access to \<open>children\<close> that were not is a lazy load, which the async session refuses.
\<close>

fun menu_item_to_schema :: "menu_item list \<Rightarrow> lang \<Rightarrow> nat \<Rightarrow> menu_item \<Rightarrow> exn + menu_item_read" where
  "menu_item_to_schema items l 0 item = Inl MissingGreenlet"
| "menu_item_to_schema items l (Suc loaded) item =
     map_result (\<lambda>children.
       Menu_Item_Read (mi_id item) (pick (Some (mi_label_en item)) (Some (mi_label_ar item)) l) (mi_url item)
         (mi_icon_class item) (text_or (Some (mi_item_type item)) ''link'')
         (text_or (Some (mi_visibility item)) ''all'') (mi_opens_new_tab item) children)
       (map_results (menu_item_to_schema items l loaded) (filter mi_is_active (menu_children items item)))"

definition MENU_LEVELS :: nat where
  "MENU_LEVELS = 2"

definition get_menu :: "env \<Rightarrow> lang \<Rightarrow> menu_item_read list comp" where
  "get_menu env l =
     query env (\<lambda>db. map_results (menu_item_to_schema (menu_items db) l MENU_LEVELS)
       (order_by mi_sort_order (filter (\<lambda>i. mi_parent_id i = None \<and> mi_is_active i) (menu_items db))))"

definition get_auction_categories :: "env \<Rightarrow> lang \<Rightarrow> auction_category_read list comp" where
  "get_auction_categories env l =
     query env (\<lambda>db. Inr (map (\<lambda>row. \<lparr>acr_id = ac_id row,
         acr_name = pick (Some (ac_name_en row)) (Some (ac_name_ar row)) l, acr_slug = ac_slug row,
         acr_icon_url = ac_icon_url row, acr_link_url = ac_link_url row\<rparr>)
       (order_by ac_sort_order (filter ac_is_active (auction_categories db)))))"

definition featured_tab :: "lang \<Rightarrow> featured_auction \<Rightarrow> featured_auction_tab_read" where
  "featured_tab l row = \<lparr>ftr_id = fa_id row, ftr_category_key = text_or (Some (fa_category_key row)) ''newly_listed'',
     ftr_category_label = pick (Some (fa_category_label_en row)) (Some (fa_category_label_ar row)) l,
     ftr_visibility = text_or (Some (fa_visibility row)) ''all'', ftr_sort_order = fa_category_sort_order row\<rparr>"

text \<open>The loop over the rows: \<open>seen\<close> are the keys of \<open>tabs_by_key\<close>.\<close>

fun collect_tabs :: "string list \<Rightarrow> featured_auction_tab_read list \<Rightarrow> featured_auction_tab_read list" where
  "collect_tabs seen [] = []"
| "collect_tabs seen (t # ts) =
     (if ftr_category_key t \<in> set seen then collect_tabs seen ts
      else t # collect_tabs (ftr_category_key t # seen) ts)"

definition get_featured_auction_tabs :: "env \<Rightarrow> lang \<Rightarrow> featured_auction_tab_read list comp" where
  "get_featured_auction_tabs env l =
     query env (\<lambda>db. Inr (collect_tabs [] (map (featured_tab l)
       (order_by fa_category_sort_order (order_by fa_sort_order (filter fa_is_active (featured_auctions db)))))))"

text \<open>The relationships of a featured auction, loaded with it.\<close>

definition row_vehicle :: "database \<Rightarrow> featured_auction \<Rightarrow> vehicle_listing option" where
  "row_vehicle db row = (case fa_vehicle_listing_id row of None \<Rightarrow> None | Some i \<Rightarrow> get_by_id vl_id (vehicle_listings db) i)"

definition row_auction :: "database \<Rightarrow> featured_auction \<Rightarrow> auction option" where
  "row_auction db row = (case fa_auction_id row of None \<Rightarrow> None | Some i \<Rightarrow> get_by_id a_id (auctions db) i)"

definition featured_auction_item_to_schema :: "database \<Rightarrow> lang \<Rightarrow> featured_auction \<Rightarrow> featured_auction_item_read option" where
  "featured_auction_item_to_schema db l row =
     (case row_vehicle db row of
        None \<Rightarrow> None
      | Some v \<Rightarrow>
          (let auction = (case row_auction db row of
                            None \<Rightarrow> None
                          | Some a \<Rightarrow> if Some (a_vehicle_id a) \<noteq> fa_vehicle_listing_id row then None else Some a) in
           Some \<lparr>fir_id = fa_id row, fir_auction_id = fa_auction_id row, fir_vehicle_listing_id = fa_vehicle_listing_id row,
             fir_title = pick (Some (vl_title_en v)) (Some (vl_title_ar v)) l, fir_image_url = vl_image_url v,
             fir_badge = or_none (pick (fa_badge_en row) (fa_badge_ar row) l),
             fir_category_key = text_or (Some (fa_category_key row)) ''newly_listed'',
             fir_category_label = pick (Some (fa_category_label_en row)) (Some (fa_category_label_ar row)) l,
             fir_visibility = text_or (Some (fa_visibility row)) ''all'', fir_detail_url = vl_detail_url v,
             fir_lot_number = vl_lot_number v, fir_mileage = vl_mileage v,
             fir_location = or_none (pick (vl_location_en v) (vl_location_ar v) l), fir_bid_amount = vl_bid_amount v,
             fir_countdown_label = vl_countdown_label v, fir_category_sort_order = fa_category_sort_order row,
             fir_status = map_option a_status auction, fir_starting_price = map_option a_starting_price auction\<rparr>))"

definition get_featured_auction_items :: "env \<Rightarrow> lang \<Rightarrow> string \<Rightarrow> featured_auction_item_read list comp" where
  "get_featured_auction_items env l key =
     query env (\<lambda>db. Inr (List.map_filter
       (\<lambda>row. case row_vehicle db row of
                None \<Rightarrow> None
              | Some v \<Rightarrow> if \<not> vl_is_active v then None else featured_auction_item_to_schema db l row)
       (order_by fa_sort_order (order_by fa_created_at
         (filter (\<lambda>row. fa_is_active row \<and> sql_eq env (fa_category_key row) key \<and> fa_vehicle_listing_id row \<noteq> None)
           (featured_auctions db))))))"

definition get_how_it_works :: "env \<Rightarrow> lang \<Rightarrow> how_it_works_step_read list comp" where
  "get_how_it_works env l =
     query env (\<lambda>db. Inr (map (\<lambda>row. \<lparr>hsr_id = hs_id row, hsr_step_number = hs_step_number row,
         hsr_title = pick (Some (hs_title_en row)) (Some (hs_title_ar row)) l,
         hsr_description = pick (Some (hs_description_en row)) (Some (hs_description_ar row)) l,
         hsr_icon_url = hs_icon_url row\<rparr>)
       (order_by hs_sort_order (filter hs_is_active (how_it_works_steps db)))))"

definition get_value_added_services :: "env \<Rightarrow> lang \<Rightarrow> value_added_service_read list comp" where
  "get_value_added_services env l =
     query env (\<lambda>db. Inr (map (\<lambda>row. \<lparr>vsr_id = vs_id row,
         vsr_name = pick (Some (vs_name_en row)) (Some (vs_name_ar row)) l,
         vsr_description = or_none (pick (vs_description_en row) (vs_description_ar row) l),
         vsr_icon_url = vs_icon_url row, vsr_link_url = vs_link_url row\<rparr>)
       (order_by vs_sort_order (filter vs_is_active (value_added_services db)))))"

definition footer_of :: "lang \<Rightarrow> footer_settings_row \<Rightarrow> footer_link_read list \<Rightarrow> footer_read" where
  "footer_of l s links = \<lparr>fr_about_text = pick (Some (fs_about_text_en s)) (Some (fs_about_text_ar s)) l,
     fr_copyright = pick (Some (fs_copyright_en s)) (Some (fs_copyright_ar s)) l,
     fr_support_phone = fs_support_phone s, fr_support_email = fs_support_email s,
     fr_facebook_url = fs_facebook_url s, fr_instagram_url = fs_instagram_url s, fr_youtube_url = fs_youtube_url s,
     fr_app_store_url = fs_app_store_url s, fr_google_play_url = fs_google_play_url s, fr_links = links\<rparr>"

definition get_footer :: "env \<Rightarrow> lang \<Rightarrow> footer_read option comp" where
  "get_footer env l =
     bind (query env (\<lambda>db. Inr (first_row (footer_settings db)))) (\<lambda>found.
     case found of
       None \<Rightarrow> ret None
     | Some s \<Rightarrow>
         bind (query env (\<lambda>db. Inr (order_by fl_sort_order (filter fl_is_active (footer_links db))))) (\<lambda>rows.
         ret (Some (footer_of l s (map (\<lambda>row. \<lparr>flr_id = fl_id row, flr_section = fl_section row,
           flr_label = pick (Some (fl_label_en row)) (Some (fl_label_ar row)) l, flr_url = fl_url row\<rparr>) rows)))))"

section \<open>api/v1/content.py\<close>

definition get_menu_endpoint :: "env \<Rightarrow> lang \<Rightarrow> menu_item_read list comp" where
  "get_menu_endpoint env l = request_session (get_menu env l)"

definition get_footer_endpoint :: "env \<Rightarrow> lang \<Rightarrow> footer_read comp" where
  "get_footer_endpoint env l =
     request_session (bind (get_footer env l) (\<lambda>footer.
       case footer of
         None \<Rightarrow> throw (HTTPException HTTP_404_NOT_FOUND ''Footer content not configured'' [])
       | Some f \<Rightarrow> ret f))"

definition get_home_endpoint :: "env \<Rightarrow> lang \<Rightarrow> home_content_read comp" where
  "get_home_endpoint env l =
     request_session
       (bind (get_auction_categories env l) (\<lambda>cs.
        bind (get_featured_auction_tabs env l) (\<lambda>ts.
        bind (get_how_it_works env l) (\<lambda>hs.
        bind (get_value_added_services env l) (\<lambda>vs.
        ret \<lparr>hcr_auction_categories = cs, hcr_featured_auctions = ts, hcr_how_it_works = hs,
             hcr_value_added_services = vs\<rparr>)))))"

definition get_featured_items_endpoint :: "env \<Rightarrow> string \<Rightarrow> lang \<Rightarrow> featured_auction_item_read list comp" where
  "get_featured_items_endpoint env key l = request_session (get_featured_auction_items env l key)"

section \<open>The contract of a localizer\<close>

text \<open>
  What the readers rely on: Arabic shows the Arabic text where there is one, everything else
  falls back to English. Both \<open>_pick\<close> functions of the services meet it.
\<close>

locale localizer =
  fixes localize :: "string option \<Rightarrow> string option \<Rightarrow> lang \<Rightarrow> string"
  assumes choose_En: "localize en ar En = text_or en []"
    and choose_Ar: "ar = Some s \<Longrightarrow> s \<noteq> [] \<Longrightarrow> localize en ar Ar = s"
    and choose_fallback: "text_or ar [] = [] \<Longrightarrow> localize en ar l = text_or en []"
begin

lemma choose_cases: "localize en ar l = text_or en [] \<or> (l = Ar \<and> ar = Some (localize en ar l))"
proof (cases "text_or ar [] = [] \<or> l = En")
  case True
  then show ?thesis using choose_En [of en ar] choose_fallback [of ar en l] by auto
next
  case False
  then obtain s where "ar = Some s" "s \<noteq> []" "l = Ar" by (cases ar; cases l) (auto simp: text_or_def)
  then show ?thesis using choose_Ar by simp
qed

lemma choose_nonempty: "text_or en [] \<noteq> [] \<Longrightarrow> localize en ar l \<noteq> []"
  using choose_cases [of en ar l] choose_fallback [of ar en l] by (auto simp: text_or_def split: option.splits)

end

interpretation content_pick: localizer pick
  by unfold_locales (auto simp: pick_def text_or_def)

section \<open>Laws of the readers\<close>

lemma map_results_Inr: "map_results f xs = Inr ys \<longleftrightarrow> list_all2 (\<lambda>x y. f x = Inr y) xs ys"
  by (induction xs arbitrary: ys) (auto simp: list_all2_Cons1)

lemma map_results_total: "(\<exists>ys. map_results f xs = Inr ys) \<longleftrightarrow> (\<forall>x \<in> set xs. \<exists>y. f x = Inr y)"
  by (induction xs) auto

lemma set_menu_children: "c \<in> set (menu_children items item) \<longleftrightarrow> c \<in> set items \<and> mi_parent_id c = Some (mi_id item)"
  by (auto simp: menu_children_def)

lemma menu_level_one:
  "(\<exists>m. menu_item_to_schema items l (Suc 0) item = Inr m) \<longleftrightarrow>
   (\<forall>c \<in> set items. mi_parent_id c = Some (mi_id item) \<longrightarrow> \<not> mi_is_active c)"
proof -
  have "(\<exists>m. menu_item_to_schema items l (Suc 0) item = Inr m) \<longleftrightarrow>
      (\<exists>ms. map_results (menu_item_to_schema items l 0) (filter mi_is_active (menu_children items item)) = Inr ms)"
    by (cases "map_results (menu_item_to_schema items l 0) (filter mi_is_active (menu_children items item))") simp_all
  also have "\<dots> \<longleftrightarrow> (\<forall>c \<in> set items. mi_parent_id c = Some (mi_id item) \<longrightarrow> \<not> mi_is_active c)"
    by (auto simp: map_results_total set_menu_children)
  finally show ?thesis .
qed

lemma menu_level_two:
  "(\<exists>m. menu_item_to_schema items l (Suc (Suc 0)) item = Inr m) \<longleftrightarrow>
   (\<forall>c \<in> set items. mi_parent_id c = Some (mi_id item) \<and> mi_is_active c \<longrightarrow>
      (\<forall>g \<in> set items. mi_parent_id g = Some (mi_id c) \<longrightarrow> \<not> mi_is_active g))"
proof -
  have "(\<exists>m. menu_item_to_schema items l (Suc (Suc 0)) item = Inr m) \<longleftrightarrow>
      (\<exists>ms. map_results (menu_item_to_schema items l (Suc 0)) (filter mi_is_active (menu_children items item)) = Inr ms)"
    by (cases "map_results (menu_item_to_schema items l (Suc 0)) (filter mi_is_active (menu_children items item))")
      simp_all
  also have "\<dots> \<longleftrightarrow> (\<forall>c \<in> set items. mi_parent_id c = Some (mi_id item) \<and> mi_is_active c \<longrightarrow>
      (\<forall>g \<in> set items. mi_parent_id g = Some (mi_id c) \<longrightarrow> \<not> mi_is_active g))"
    using menu_level_one by (auto simp: map_results_total set_menu_children simp del: menu_item_to_schema.simps)
  finally show ?thesis .
qed

lemma collect_tabs_keys:
  "ftr_category_key ` set (collect_tabs seen ts) = ftr_category_key ` set ts - set seen"
  "distinct (map ftr_category_key (collect_tabs seen ts))"
proof (induction ts arbitrary: seen)
  case Nil
  { case 1 show ?case by simp }
  { case 2 show ?case by simp }
next
  case (Cons t ts)
  { case 1 show ?case using Cons.IH(1) by auto }
  { case 2 show ?case using Cons.IH [of "ftr_category_key t # seen"] Cons.IH(2) [of seen] by auto }
qed

lemma in_map_filter: "x \<in> set (List.map_filter f xs) \<longleftrightarrow> (\<exists>r \<in> set xs. f r = Some x)"
  by (induction xs) (auto simp: List.map_filter_simps split: option.splits)

lemma get_featured_items_run:
  assumes "\<not> deactive w" and "get_featured_auction_items env l key w = (Inr items, w')" and "x \<in> set items"
  shows "\<exists>row v. row \<in> set (featured_auctions (work w)) \<and> fa_is_active row \<and> sql_eq env (fa_category_key row) key \<and>
    row_vehicle (work w) row = Some v \<and> vl_is_active v \<and> featured_auction_item_to_schema (work w) l row = Some x"
proof -
  let ?f = "\<lambda>row. case row_vehicle (work w) row of None \<Rightarrow> None
    | Some v \<Rightarrow> if \<not> vl_is_active v then None else featured_auction_item_to_schema (work w) l row"
  from assms obtain row where row: "row \<in> set (featured_auctions (work w))" "fa_is_active row"
    "sql_eq env (fa_category_key row) key" and f: "?f row = Some x"
    by (auto simp: get_featured_auction_items_def query_def in_map_filter)
  from f obtain v where "row_vehicle (work w) row = Some v" by (auto split: option.splits)
  with f have "row_vehicle (work w) row = Some v \<and> vl_is_active v \<and> featured_auction_item_to_schema (work w) l row = Some x"
    by (simp split: if_splits)
  with row show ?thesis by blast
qed

end
