(* ===== verification/Vehicle_Payment.thy ===== *)
theory Vehicle_Payment
  imports Role_Service
begin

text \<open>
  \<^verbatim>\<open>services/vehicle_payment_service.py\<close> and \<^verbatim>\<open>schemas/vehicle_payment.py\<close>: the
  payment-status report and the in-store report, filtered, sorted and cut into pages. Rows
  that tie in the sort column come in insertion order.
\<close>

section \<open>schemas/vehicle_payment.py\<close>

record vehicle_payment_record_read =
  vpr_id :: uuid
  vpr_lot_no :: string
  vpr_chassis_number :: string
  vpr_title :: string
  vpr_year_of_make :: int
  vpr_buyer_name :: string
  vpr_buyer_email :: string
  vpr_seller_name :: string
  vpr_seller_email :: string
  vpr_payment_status :: string
  vpr_payment_due_date :: "int option"
  vpr_location :: string
  vpr_max_bid :: decimal

record vehicle_in_store_record_read =
  vis_id :: string
  vis_chassis_number :: string
  vis_title :: string
  vis_location :: string

text \<open>The page of either report.\<close>

record 'a record_page =
  pg_records :: "'a list"
  pg_total :: int
  pg_page :: int
  pg_page_size :: int
  pg_total_pages :: int

record vehicle_payment_status_counts =
  sc_paid_awaiting_documents :: int
  sc_paid_documents_ready_pending_deliver :: int
  sc_pending_buyer_payment :: int
  sc_pending_seller_payment :: int

section \<open>services/vehicle_payment_service.py\<close>

text \<open>\<open>SELECT payment_status, count(*) ... GROUP BY payment_status\<close>, one group per text the server distinguishes.\<close>

fun group_counts :: "env \<Rightarrow> string list \<Rightarrow> (string \<times> int) list" where
  "group_counts env [] = []"
| "group_counts env (s # ss) =
     (s, 1 + int (length (filter (\<lambda>x. sql_eq env x s) ss))) # group_counts env (filter (\<lambda>x. \<not> sql_eq env x s) ss)"

definition get_vehicle_payment_status_counts :: "env \<Rightarrow> vehicle_payment_status_counts comp" where
  "get_vehicle_payment_status_counts env =
     bind (query env (\<lambda>db. Inr (group_counts env (map vp_payment_status (vehicle_payment_records db))))) (\<lambda>groups.
     let count = (\<lambda>key. case map_of groups key of None \<Rightarrow> 0 | Some n \<Rightarrow> n) in
     ret \<lparr>sc_paid_awaiting_documents = count ''paid_awaiting_documents'',
          sc_paid_documents_ready_pending_deliver = count ''paid_documents_ready_pending_deliver'',
          sc_pending_buyer_payment = count ''pending_buyer_payment'',
          sc_pending_seller_payment = count ''pending_seller_payment''\<rparr>)"

text \<open>A search box: no condition when it is empty.\<close>

definition box_matches :: "env \<Rightarrow> string \<Rightarrow> string \<Rightarrow> bool" where
  "box_matches env q v \<longleftrightarrow> q = [] \<or> ilike env v (''%'' @ q @ ''%'')"

text \<open>The arithmetic of a page: \<open>//\<close> is the floored division.\<close>

definition clamp_page :: "int \<Rightarrow> int" where
  "clamp_page page = max page 1"

definition clamp_page_size :: "int \<Rightarrow> int" where
  "clamp_page_size psize = max (min psize 200) 1"

definition total_pages :: "int \<Rightarrow> int \<Rightarrow> int" where
  "total_pages count page_size = max ((count + page_size - 1) div page_size) 1"

definition page_rows :: "int \<Rightarrow> int \<Rightarrow> 'a list \<Rightarrow> 'a list" where
  "page_rows page psize rows = take (nat psize) (drop (nat ((page - 1) * psize)) rows)"

definition payment_read :: "vehicle_payment_record \<Rightarrow> vehicle_payment_record_read" where
  "payment_read r = \<lparr>vpr_id = vp_id r, vpr_lot_no = vp_lot_no r, vpr_chassis_number = vp_chassis_number r,
     vpr_title = vp_title r, vpr_year_of_make = vp_year_of_make r, vpr_buyer_name = vp_buyer_name r,
     vpr_buyer_email = vp_buyer_email r, vpr_seller_name = vp_seller_name r, vpr_seller_email = vp_seller_email r,
     vpr_payment_status = vp_payment_status r, vpr_payment_due_date = vp_payment_due_date r,
     vpr_location = vp_location r, vpr_max_bid = vp_max_bid r\<rparr>"

definition payment_matches ::
    "env \<Rightarrow> string \<Rightarrow> string \<Rightarrow> string \<Rightarrow> string \<Rightarrow> string \<Rightarrow> vehicle_payment_record \<Rightarrow> bool" where
  "payment_matches env status lot_no chassis buyer seller r \<longleftrightarrow>
     (status \<noteq> [] \<and> status \<noteq> ''ALL'' \<longrightarrow> sql_eq env (vp_payment_status r) status) \<and>
     box_matches env lot_no (vp_lot_no r) \<and> box_matches env chassis (vp_chassis_number r) \<and>
     box_matches env buyer (vp_buyer_name r) \<and> box_matches env seller (vp_seller_name r)"

definition get_vehicle_payment_records ::
    "env \<Rightarrow> string \<Rightarrow> string \<Rightarrow> string \<Rightarrow> string \<Rightarrow> string \<Rightarrow> int \<Rightarrow> int \<Rightarrow> vehicle_payment_record_read record_page comp" where
  "get_vehicle_payment_records env status lot_no chassis buyer seller page0 psize0 =
     (let matching = (\<lambda>db. filter (payment_matches env status lot_no chassis buyer seller) (vehicle_payment_records db)) in
      bind (query env (\<lambda>db. Inr (int (length (matching db))))) (\<lambda>count.
      let page = clamp_page page0; psize = clamp_page_size psize0 in
      bind (query env (\<lambda>db. Inr (page_rows page psize (order_by (collate env \<circ> vp_lot_no) (matching db))))) (\<lambda>rows.
      ret \<lparr>pg_records = map payment_read rows, pg_total = count, pg_page = page, pg_page_size = psize,
           pg_total_pages = total_pages count psize\<rparr>)))"

definition in_store_matches ::
    "env \<Rightarrow> string \<Rightarrow> string \<Rightarrow> string \<Rightarrow> string \<Rightarrow> vehicle_payment_record \<Rightarrow> bool" where
  "in_store_matches env id_search chassis seller location r \<longleftrightarrow>
     box_matches env id_search (vp_lot_no r) \<and> box_matches env chassis (vp_chassis_number r) \<and>
     box_matches env seller (vp_seller_name r) \<and> box_matches env location (vp_location r)"

text \<open>\<open>_IN_STORE_SORT_COLUMNS.get(sort_by, lot_no)\<close>.\<close>

definition in_store_sort_column :: "string \<Rightarrow> vehicle_payment_record \<Rightarrow> string" where
  "in_store_sort_column sort_by =
     (if sort_by = ''chassis_number'' then vp_chassis_number
      else if sort_by = ''title'' then vp_title
      else if sort_by = ''location'' then vp_location
      else vp_lot_no)"

text \<open>\<open>ORDER BY c DESC\<close>, ties in the order of the rows.\<close>

definition order_desc :: "('a \<Rightarrow> 'k::linorder) \<Rightarrow> 'a list \<Rightarrow> 'a list" where
  "order_desc k xs = rev (order_by k (rev xs))"

definition get_vehicle_in_store_records ::
    "env \<Rightarrow> string \<Rightarrow> string \<Rightarrow> string \<Rightarrow> string \<Rightarrow> string \<Rightarrow> string \<Rightarrow> int \<Rightarrow> int \<Rightarrow>
     vehicle_in_store_record_read record_page comp" where
  "get_vehicle_in_store_records env id_search chassis seller location sort_by sort_dir page0 psize0 =
     (let matching = (\<lambda>db. filter (in_store_matches env id_search chassis seller location) (vehicle_payment_records db)) in
      bind (query env (\<lambda>db. Inr (int (length (matching db))))) (\<lambda>count.
      let page = clamp_page page0; psize = clamp_page_size psize0;
          key = collate env \<circ> in_store_sort_column sort_by;
          order = (if sort_dir = ''desc'' then order_desc key else order_by key) in
      bind (query env (\<lambda>db. Inr (page_rows page psize (order (matching db))))) (\<lambda>rows.
      ret \<lparr>pg_records = map (\<lambda>r. \<lparr>vis_id = vp_lot_no r, vis_chassis_number = vp_chassis_number r,
             vis_title = vp_title r, vis_location = vp_location r\<rparr>) rows,
           pg_total = count, pg_page = page, pg_page_size = psize, pg_total_pages = total_pages count psize\<rparr>)))"

section \<open>Pages\<close>

lemma clamp_bounds: "1 \<le> clamp_page p" "1 \<le> clamp_page_size s" "clamp_page_size s \<le> 200"
  by (simp_all add: clamp_page_def clamp_page_size_def)

lemma page_rows_length: "0 < psize \<Longrightarrow> int (length (page_rows page psize rows)) \<le> psize"
  by (simp add: page_rows_def)

lemma concat_pages:
  "concat (map (\<lambda>k. take n (drop (k * n) rows)) [0..<m]) = take (m * n) rows"
proof (induction m)
  case 0
  then show ?case by simp
next
  case (Suc m)
  have "take (Suc m * n) rows = take (m * n) rows @ take n (drop (m * n) rows)"
    using take_add [of "m * n" n rows] by (simp add: add.commute)
  with Suc show ?case by (simp del: mult_Suc)
qed

lemma total_pages_cover:
  assumes "0 < psize" and "0 \<le> count" shows "count \<le> total_pages count psize * psize"
proof -
  have "count \<le> ((count + psize - 1) div psize) * psize"
  proof -
    have "count + psize - 1 = ((count + psize - 1) div psize) * psize + (count + psize - 1) mod psize" by simp
    moreover have "(count + psize - 1) mod psize < psize" using assms(1) by simp
    ultimately show ?thesis by linarith
  qed
  also have "\<dots> \<le> total_pages count psize * psize"
    using assms by (intro mult_right_mono) (simp_all add: total_pages_def)
  finally show ?thesis .
qed

text \<open>The pages \<open>1\<close> to \<open>total_pages\<close> are the rows, in order, each once.\<close>

lemma pages_partition:
  assumes "1 \<le> psize"
  shows "concat (map (\<lambda>p. page_rows p psize rows) [1..total_pages (int (length rows)) psize]) = rows"
proof -
  let ?m = "nat (total_pages (int (length rows)) psize)"
  have pos: "1 \<le> total_pages (int (length rows)) psize" by (simp add: total_pages_def)
  have "[1..total_pages (int (length rows)) psize] = map (\<lambda>k. int k + 1) [0..<?m]"
    using pos by (intro nth_equalityI) (simp_all add: nth_append)
  then have "concat (map (\<lambda>p. page_rows p psize rows) [1..total_pages (int (length rows)) psize]) =
      concat (map (\<lambda>k. take (nat psize) (drop (k * nat psize) rows)) [0..<?m])"
    using assms by (simp add: page_rows_def comp_def nat_mult_distrib)
  also have "\<dots> = take (?m * nat psize) rows" by (rule concat_pages)
  also have "\<dots> = rows"
  proof -
    have "int (length rows) \<le> int ?m * int (nat psize)"
      using total_pages_cover [of psize "int (length rows)"] assms pos by simp
    then have "length rows \<le> ?m * nat psize" by (metis of_nat_le_iff of_nat_mult)
    then show ?thesis by simp
  qed
  finally show ?thesis .
qed

section \<open>Counts\<close>

lemma group_counts_keys: "fst ` set (group_counts env ss) \<subseteq> set ss"
proof (induction env ss rule: group_counts.induct)
  case (1 env)
  then show ?case by simp
next
  case (2 env s ss)
  then show ?case by auto
qed

lemma group_counts_total: "sum_list (map snd (group_counts env ss)) = int (length ss)"
proof (induction env ss rule: group_counts.induct)
  case (1 env)
  then show ?case by simp
next
  case (2 env s ss)
  have "length ss = length (filter (\<lambda>x. sql_eq env x s) ss) + length (filter (\<lambda>x. \<not> sql_eq env x s) ss)"
    by (rule sum_length_filter_compl [symmetric])
  with 2 show ?case by simp
qed

end
