(* ===== verification/Admin_Service.thy ===== *)
theory Admin_Service
  imports Content_Service Vehicle_Payment
begin

text \<open>
  \<^verbatim>\<open>services/admin_service.py\<close>, \<^verbatim>\<open>schemas/admin.py\<close> and \<^verbatim>\<open>api/v1/admin.py\<close>: the
  dashboard of the staff. Every endpoint is behind the guard on staff roles; two sections ask
  for a role of their own.
\<close>

section \<open>schemas/admin.py\<close>

record admin_nav_item_read =
  nir_id :: uuid
  nir_parent_id :: "uuid option"
  nir_label :: string
  nir_icon_class :: "string option"
  nir_url :: string
  nir_sort_order :: int

record admin_dashboard_card_read =
  dcr_id :: uuid
  dcr_section_key :: string
  dcr_label :: string
  dcr_description :: "string option"
  dcr_icon_class :: "string option"
  dcr_url :: string
  dcr_image_url :: "string option"
  dcr_sort_order :: int

record admin_user_counts_read =
  uc_total :: int
  uc_sellers :: int
  uc_buyers :: int
  uc_staff :: int

record vehicle_status_metric_read =
  vmr_id :: uuid
  vmr_group_key :: string
  vmr_stat_key :: string
  vmr_label :: string
  vmr_icon_class :: "string option"
  vmr_image_url :: "string option"
  vmr_color_class :: "string option"
  vmr_sort_order :: int

section \<open>services/admin_service.py\<close>

definition nav_read :: "lang \<Rightarrow> admin_nav_item \<Rightarrow> admin_nav_item_read" where
  "nav_read l row = \<lparr>nir_id = an_id row, nir_parent_id = an_parent_id row,
     nir_label = pick (Some (an_label_en row)) (Some (an_label_ar row)) l, nir_icon_class = an_icon_class row,
     nir_url = an_url row, nir_sort_order = an_sort_order row\<rparr>"

definition get_admin_nav :: "env \<Rightarrow> lang \<Rightarrow> admin_nav_item_read list comp" where
  "get_admin_nav env l =
     query env (\<lambda>db. Inr (map (nav_read l) (order_by an_sort_order (filter an_is_active (admin_nav_items db)))))"

text \<open>\<open>SELECT count(DISTINCT user_id) ... WHERE name IN (...)\<close>.\<close>

definition holders_of :: "env \<Rightarrow> string list \<Rightarrow> database \<Rightarrow> uuid list" where
  "holders_of env names db =
     remdups (map ur_user_id (filter (\<lambda>ur. list_ex (\<lambda>r. ur_role_id ur = r_id r \<and>
       list_ex (\<lambda>n. sql_eq env (r_name r) n) names) (roles db)) (user_roles db)))"

definition count_users_with_roles :: "env \<Rightarrow> string list \<Rightarrow> int comp" where
  "count_users_with_roles env names = query env (\<lambda>db. Inr (int (length (holders_of env names db))))"

definition get_admin_user_counts :: "env \<Rightarrow> admin_user_counts_read comp" where
  "get_admin_user_counts env =
     bind (query env (\<lambda>db. Inr (int (length (users db))))) (\<lambda>n.
     bind (count_users_with_roles env [''Seller'']) (\<lambda>sellers.
     bind (count_users_with_roles env [''Buyer'']) (\<lambda>buyers.
     bind (count_users_with_roles env STAFF_ROLES) (\<lambda>staff.
     ret \<lparr>uc_total = n, uc_sellers = sellers, uc_buyers = buyers, uc_staff = staff\<rparr>))))"

definition metric_read :: "lang \<Rightarrow> vehicle_status_metric \<Rightarrow> vehicle_status_metric_read" where
  "metric_read l row = \<lparr>vmr_id = vsm_id row, vmr_group_key = vsm_group_key row, vmr_stat_key = vsm_stat_key row,
     vmr_label = pick (Some (vsm_label_en row)) (Some (vsm_label_ar row)) l, vmr_icon_class = vsm_icon_class row,
     vmr_image_url = vsm_image_url row, vmr_color_class = vsm_color_class row, vmr_sort_order = vsm_sort_order row\<rparr>"

definition get_vehicle_status_metrics :: "env \<Rightarrow> lang \<Rightarrow> string \<Rightarrow> vehicle_status_metric_read list comp" where
  "get_vehicle_status_metrics env l group_key =
     query env (\<lambda>db. Inr (map (metric_read l) (order_by vsm_sort_order
       (filter (\<lambda>m. vsm_is_active m \<and> sql_eq env (vsm_group_key m) group_key) (vehicle_status_metrics db)))))"

definition card_read :: "lang \<Rightarrow> admin_dashboard_card \<Rightarrow> admin_dashboard_card_read" where
  "card_read l row = \<lparr>dcr_id = dc_id row, dcr_section_key = dc_section_key row,
     dcr_label = pick (Some (dc_label_en row)) (Some (dc_label_ar row)) l,
     dcr_description = or_none (pick (dc_description_en row) (dc_description_ar row) l),
     dcr_icon_class = dc_icon_class row, dcr_url = dc_url row, dcr_image_url = dc_image_url row,
     dcr_sort_order = dc_sort_order row\<rparr>"

definition get_admin_dashboard_cards :: "env \<Rightarrow> lang \<Rightarrow> string \<Rightarrow> admin_dashboard_card_read list comp" where
  "get_admin_dashboard_cards env l section_key =
     query env (\<lambda>db. Inr (map (card_read l) (order_by dc_sort_order
       (filter (\<lambda>c. dc_is_active c \<and> sql_eq env (dc_section_key c) section_key) (admin_dashboard_cards db)))))"

section \<open>api/v1/admin.py\<close>

definition require_staff :: "env \<Rightarrow> string option \<Rightarrow> user comp" where
  "require_staff env credentials = require_local_role env STAFF_ROLES credentials"

definition section_key_from_url :: "string \<Rightarrow> string option" where
  "section_key_from_url url =
     (if take 7 url \<noteq> ''/admin/'' then None else or_none (takeWhile (\<lambda>c. c \<noteq> CHR ''/'') (drop 7 url)))"

definition ensure_section_access :: "env \<Rightarrow> user \<Rightarrow> string \<Rightarrow> unit comp" where
  "ensure_section_access env u section =
     (case SECTION_ROLE_REQUIREMENTS section of
        None \<Rightarrow> ret ()
      | Some required \<Rightarrow>
          bind (get_user_roles env u) (\<lambda>held.
          if list_ex (\<lambda>n. n \<in> set required) (map r_name held) then ret ()
          else throw (HTTPException HTTP_403_FORBIDDEN (''Requires role: '' @ join '' or '' required) [])))"

definition nav_visible :: "string list \<Rightarrow> admin_nav_item_read \<Rightarrow> bool" where
  "nav_visible held item \<longleftrightarrow>
     (case section_key_from_url (nir_url item) of
        None \<Rightarrow> True
      | Some sec \<Rightarrow> (case SECTION_ROLE_REQUIREMENTS sec of
                       None \<Rightarrow> True
                     | Some required \<Rightarrow> list_ex (\<lambda>n. n \<in> set required) held))"

definition get_admin_nav_endpoint :: "env \<Rightarrow> string option \<Rightarrow> lang \<Rightarrow> admin_nav_item_read list comp" where
  "get_admin_nav_endpoint env credentials l =
     request_session
       (bind (require_staff env credentials) (\<lambda>u.
        bind (get_admin_nav env l) (\<lambda>items.
        bind (get_user_roles env u) (\<lambda>held.
        ret (filter (nav_visible (map r_name held)) items)))))"

definition get_dashboard_cards_endpoint :: "env \<Rightarrow> string option \<Rightarrow> lang \<Rightarrow> string \<Rightarrow> admin_dashboard_card_read list comp" where
  "get_dashboard_cards_endpoint env credentials l sec =
     request_session
       (bind (require_staff env credentials) (\<lambda>u.
        bind (ensure_section_access env u sec) (\<lambda>_.
        get_admin_dashboard_cards env l sec)))"

definition get_user_counts_endpoint :: "env \<Rightarrow> string option \<Rightarrow> admin_user_counts_read comp" where
  "get_user_counts_endpoint env credentials =
     request_session (bind (require_staff env credentials) (\<lambda>_. get_admin_user_counts env))"

definition get_status_metrics_endpoint :: "env \<Rightarrow> string option \<Rightarrow> lang \<Rightarrow> string \<Rightarrow> vehicle_status_metric_read list comp" where
  "get_status_metrics_endpoint env credentials l group_key =
     request_session
       (bind (require_staff env credentials) (\<lambda>u.
        bind (ensure_section_access env u group_key) (\<lambda>_.
        get_vehicle_status_metrics env l group_key)))"

definition get_payment_status_count_endpoint :: "env \<Rightarrow> string option \<Rightarrow> vehicle_payment_status_counts comp" where
  "get_payment_status_count_endpoint env credentials =
     request_session (bind (require_staff env credentials) (\<lambda>_. get_vehicle_payment_status_counts env))"

text \<open>\<open>Query(ge=1)\<close> and \<open>Query(ge=1, le=200)\<close>.\<close>

definition valid_page :: "int \<Rightarrow> int \<Rightarrow> bool" where
  "valid_page page page_size \<longleftrightarrow> 1 \<le> page \<and> 1 \<le> page_size \<and> page_size \<le> 200"

definition get_payment_status_endpoint ::
    "env \<Rightarrow> string option \<Rightarrow> string \<Rightarrow> string \<Rightarrow> string \<Rightarrow> string \<Rightarrow> string \<Rightarrow> int \<Rightarrow> int \<Rightarrow>
     vehicle_payment_record_read record_page comp" where
  "get_payment_status_endpoint env credentials status lot_no chassis buyer seller page page_size =
     request_session
       (bind (require_staff env credentials) (\<lambda>_.
        if \<not> valid_page page page_size then throw (HTTPException HTTP_422_UNPROCESSABLE ''Invalid request'' [])
        else get_vehicle_payment_records env status lot_no chassis buyer seller page page_size))"

definition get_vehicle_in_store_endpoint ::
    "env \<Rightarrow> string option \<Rightarrow> string \<Rightarrow> string \<Rightarrow> string \<Rightarrow> string \<Rightarrow> string \<Rightarrow> string \<Rightarrow> int \<Rightarrow> int \<Rightarrow>
     vehicle_in_store_record_read record_page comp" where
  "get_vehicle_in_store_endpoint env credentials id_search chassis seller location sort_by sort_dir page page_size =
     request_session
       (bind (require_staff env credentials) (\<lambda>_.
        if \<not> valid_page page page_size then throw (HTTPException HTTP_422_UNPROCESSABLE ''Invalid request'' [])
        else get_vehicle_in_store_records env id_search chassis seller location sort_by sort_dir page page_size))"

section \<open>Laws\<close>

text \<open>The staff guard: what a call behind it returns.\<close>

definition staff_member :: "database \<Rightarrow> user \<Rightarrow> bool" where
  "staff_member db u \<longleftrightarrow> (\<exists>r \<in> set (roles_held (u_id u) db). r_name r \<in> set STAFF_ROLES)"

lemma require_local_role_run:
  assumes "get_current_local_user env c w = (Inr u, v)" and "\<not> deactive v"
  shows "require_local_role env names c w =
    (if \<exists>r \<in> set (roles_held (u_id u) (work v)). r_name r \<in> set names then Inr u
     else Inl (HTTPException HTTP_403_FORBIDDEN (''Requires role: '' @ join '' or '' names) []), v)"
proof -
  have "require_local_role env names c w =
      bind (get_user_roles env u) (\<lambda>held. if list_ex (\<lambda>n. n \<in> set names) (map r_name held) then ret u
        else throw (HTTPException HTTP_403_FORBIDDEN (''Requires role: '' @ join '' or '' names) [])) v"
    unfolding require_local_role_def by (rule bind_value [where m = "get_current_local_user env c", OF assms(1)])
  also have "\<dots> = (if \<exists>r \<in> set (roles_held (u_id u) (work v)). r_name r \<in> set names then Inr u
     else Inl (HTTPException HTTP_403_FORBIDDEN (''Requires role: '' @ join '' or '' names) []), v)"
    using assms(2) by (auto simp: get_user_roles_def step_simps ret_def throw_def list_ex_iff)
  finally show ?thesis .
qed

lemma ensure_section_run:
  assumes "\<not> deactive v"
  shows "ensure_section_access env u sec v =
    (case SECTION_ROLE_REQUIREMENTS sec of
       None \<Rightarrow> Inr ()
     | Some required \<Rightarrow> if \<exists>r \<in> set (roles_held (u_id u) (work v)). r_name r \<in> set required then Inr ()
         else Inl (HTTPException HTTP_403_FORBIDDEN (''Requires role: '' @ join '' or '' required) []), v)"
  using assms by (auto simp: ensure_section_access_def get_user_roles_def step_simps ret_def throw_def list_ex_iff
      split: option.splits)

lemma holders_of_users:
  assumes "users_ok coll db" shows "length (holders_of env names db) \<le> length (users db)"
proof -
  have "set (holders_of env names db) \<subseteq> u_id ` set (users db)"
    using assms by (auto simp: holders_of_def users_ok_def)
  then have "card (set (holders_of env names db)) \<le> card (u_id ` set (users db))"
    by (intro card_mono) simp_all
  also have "\<dots> \<le> length (users db)"
    using card_image_le [of "set (users db)" u_id] card_length [of "users db"] by simp
  finally have "card (set (holders_of env names db)) \<le> length (users db)" .
  moreover have "distinct (holders_of env names db)" by (simp add: holders_of_def)
  ultimately show ?thesis by (simp only: distinct_card)
qed

lemma section_key_text:
  assumes "sec \<noteq> []" and "CHR ''/'' \<notin> set sec"
  shows "section_key_from_url (''/admin/'' @ sec @ rest) = Some (sec @ takeWhile (\<lambda>c. c \<noteq> CHR ''/'') rest)"
proof -
  have "takeWhile (\<lambda>c. c \<noteq> CHR ''/'') (sec @ rest) = sec @ takeWhile (\<lambda>c. c \<noteq> CHR ''/'') rest"
    by (rule takeWhile_append2) (use assms(2) in auto)
  with assms(1) show ?thesis by (simp add: section_key_from_url_def or_none_def)
qed

end
