(* ===== verification/Users_Properties.thy ===== *)
theory Users_Properties
  imports Users_Api Read_Laws Admin_Service Auth_Properties
begin

text \<open>
  The endpoints of \<^verbatim>\<open>/users\<close>: what they change and for whom, and the invariants of the accounts
  over every mixture of authentication and role management.
\<close>

section \<open>The guard leaves the session alone\<close>

definition idle_on :: "database \<Rightarrow> world \<Rightarrow> bool" where
  "idle_on db w \<longleftrightarrow> clean w \<and> committed w = db"

lemmas maintains_plain = maintains_ret maintains_throw maintains_lift maintains_query maintains_bind
  maintains_if maintains_case_option maintains_case_prod maintains_Let

lemma maintains_idle:
  "maintains (idle_on db) (now env)" "maintains (idle_on db) (get_current_local_user env c)"
  "maintains (idle_on db) (get_user_roles env u)" "maintains (idle_on db) (require_local_role env names c)"
proof -
  show now: "maintains (idle_on db) (now env)" by (simp add: maintains_def idle_on_def run_simps clean_def)
  show user: "maintains (idle_on db) (get_current_local_user env c)"
    unfolding get_current_local_user_def decode_access_token_def get_user_by_id_def
    by (intro maintains_plain now | simp)+
  show held: "maintains (idle_on db) (get_user_roles env u)" for u
    unfolding get_user_roles_def by (intro maintains_plain)
  show "maintains (idle_on db) (require_local_role env names c)"
    unfolding require_local_role_def by (intro maintains_plain user held)
qed

lemma reads_users [reads_intros]: "reads (get_user_or_404 env i)" "reads (roles_reply env u)"
  unfolding get_user_or_404_def get_user_by_id_def roles_reply_def get_user_roles_def by (intro reads_intros)+

lemma get_user_or_404_Inr: "get_user_or_404 env i w = (Inr u, w') \<Longrightarrow> u \<in> set (users (work w))"
  by (auto simp: get_user_or_404_def get_user_by_id_def reads_results dest: get_by_id_SomeD split: option.splits)

section \<open>A change of roles\<close>

text \<open>What the endpoints rely on in the role service: the change does not commit, and if it
  returns, it has kept the constraints and the invariant, with nothing left to flush.\<close>

locale role_change =
  fixes change :: "env \<Rightarrow> user \<Rightarrow> 'a comp"
  assumes never_commits: "quiet (change env u)"
    and keeps_roles: "schema_ok (collate env) (work w) \<Longrightarrow> clean w \<Longrightarrow> roles_inv (work w) \<Longrightarrow>
      u \<in> set (users (work w)) \<Longrightarrow> change env u w = (Inr x, w') \<Longrightarrow>
      schema_ok (collate env) (work w') \<and> roles_inv (work w') \<and> pending w' = []"
begin

lemma changed:
  assumes cl: "clean w" and ok: "schema_ok (collate env) (committed w)" and inv: "roles_inv (committed w)"
    and run: "bind (get_user_or_404 env i) (\<lambda>u. bind (catch (change env u) (\<lambda>e. throw (g e))) (\<lambda>_.
       bind (commit env) (\<lambda>_. roles_reply env u))) w = (r, w')"
  shows "schema_ok (collate env) (committed w') \<and> roles_inv (committed w')"
proof -
  have w: "work w = committed w" using cl by (simp add: clean_def)
  obtain found v where found: "get_user_or_404 env i w = (found, v)" by (cases "get_user_or_404 env i w")
  have v: "v = w" by (rule readsD [OF reads_users(1) found])
  show ?thesis
  proof (cases found)
    case (Inl e)
    with run found v ok inv show ?thesis by (simp add: bind_def)
  next
    case (Inr u)
    with found v have u: "u \<in> set (users (work w))" by (auto dest: get_user_or_404_Inr)
    obtain x v1 where change: "change env u w = (x, v1)" by (cases "change env u w")
    have same: "committed v1 = committed w"
      using never_commits [of env u] change unfolding quiet_def by (metis snd_conv)
    obtain y v2 where commit: "commit env v1 = (y, v2)" by (cases "commit env v1")
    show ?thesis
    proof (cases x)
      case (Inl e)
      with run found v Inr change same ok inv show ?thesis by (simp add: bind_def catch_def throw_def)
    next
      case (Inr x')
      have good: "schema_ok (collate env) (work v1) \<and> roles_inv (work v1) \<and> pending v1 = []"
        by (rule keeps_roles [OF _ cl _ u, of env x' v1]) (use ok inv w change Inr in simp_all)
      then have "schema_ok (collate env) (committed v2) \<and> roles_inv (committed v2)"
        using commit same ok inv
        by (auto simp: commit_def bind_def flush_def usable_def split: prod.splits sum.splits if_splits)
      moreover have "committed w' = committed v2"
      proof (cases y)
        case (Inl e)
        with run found v \<open>found = Inr u\<close> change Inr commit show ?thesis by (simp add: bind_def catch_def)
      next
        case (Inr z)
        with run found v \<open>found = Inr u\<close> change \<open>x = Inr x'\<close> commit have "roles_reply env u v2 = (r, w')"
          by (simp add: bind_def catch_def)
        from readsD [OF reads_users(2) this] show ?thesis by simp
      qed
      ultimately show ?thesis by simp
    qed
  qed
qed

end

lemma schema_ok_delete_user_role: "schema_ok coll db \<Longrightarrow> schema_ok coll (delete_user_role i db)"
  by (auto simp: schema_defs delete_user_role_def distinct_map_filter)

lemma revoked_schema:
  assumes ok: "schema_ok coll db" and t: "t \<in> set (user_rows (u_id u) db)" and len: "length (user_rows (u_id u) db) \<noteq> 1"
  shows "schema_ok coll (revoked u role t db)"
proof -
  let ?rest = "filter (\<lambda>ur. ur_id ur \<noteq> ur_id t) (user_rows (u_id u) db)"
  have ids: "distinct (map ur_id (user_rows (u_id u) db))"
    using ok by (simp add: schema_ok_def users_ok_def user_rows_def distinct_map_filter)
  obtain p where p: "min_by ur_assigned_at ?rest = Some p"
    using revoke_remaining [OF ids t len] by (metis min_by_None_iff not_None_eq)
  from min_by_least [OF this] have "p \<in> set ?rest" by blast
  then have "ur_role_id p \<in> r_id ` set (roles (delete_user_role (ur_id t) db))"
    using ok by (auto simp: user_rows_def schema_ok_def users_ok_def delete_user_role_def)
  with p ok show ?thesis
    by (auto simp: revoked_def Let_def intro: schema_ok_delete_user_role schema_ok_set_primary)
qed

interpretation assigning: role_change "\<lambda>env u. assign_role env u n p" for n p
proof
  show "quiet (assign_role env u n p)" for env u
    by (intro atomic_intros)
  show "schema_ok (collate env) (work w') \<and> roles_inv (work w') \<and> pending w' = []"
    if ok: "schema_ok (collate env) (work w)" and cl: "clean w" and inv: "roles_inv (work w)"
      and u: "u \<in> set (users (work w))" and run: "assign_role env u n p w = (Inr x, w')" for env w u x w'
  proof -
    have idle: "\<not> deactive w" "pending w = []" "committed w = work w" using cl by (simp_all add: clean_def)
    have "schema_ok (collate env) (work w')"
      using keepsD [OF keeps_schema_assign_role ok _ run] ok idle by simp
    with assign_role_inv [OF ok idle(1,2) inv u run] assign_role_clears [OF ok idle(1) run] show ?thesis by simp
  qed
qed

interpretation revoking: role_change "\<lambda>env u. revoke_role env u n" for n
proof
  show "quiet (revoke_role env u n)" for env u
    unfolding revoke_role_def promote_longest_held_def get_role_by_name_def by (intro atomic_intros)
  show "schema_ok (collate env) (work w') \<and> roles_inv (work w') \<and> pending w' = []"
    if ok: "schema_ok (collate env) (work w)" and cl: "clean w" and inv: "roles_inv (work w)"
      and u: "u \<in> set (users (work w))" and run: "revoke_role env u n w = (Inr x, w')" for env w u x w'
  proof -
    have idle: "\<not> deactive w" "pending w = []" using cl by (simp_all add: clean_def)
    have "roles_inv (work w')" using revoke_role_inv [OF ok idle inv u, of n] run by simp
    moreover have "schema_ok (collate env) (work w') \<and> pending w' = []"
      using run ok idle
      by (auto simp: revoke_role_run [OF ok idle] split: option.splits if_splits
          intro!: revoked_schema dest!: first_row_filterD)
    ultimately show ?thesis by simp
  qed
qed

section \<open>Requests of the role management\<close>

definition caller_holds :: "env \<Rightarrow> string option \<Rightarrow> string \<Rightarrow> world \<Rightarrow> bool" where
  "caller_holds env c name w \<longleftrightarrow> (\<exists>u v. get_current_local_user env c w = (Inr u, v) \<and>
     (\<exists>r \<in> set (roles_held (u_id u) (committed w)). r_name r = name))"

lemma require_admin_Inr:
  assumes cl: "clean w" and run: "require_admin env c w = (Inr u, v)"
  shows "caller_holds env c ''Admin'' w"
proof -
  obtain x v' where user: "get_current_local_user env c w = (x, v')" by (cases "get_current_local_user env c w")
  have "idle_on (committed w) v'"
    using maintainsD [OF maintains_idle(2) _ user, of "committed w"] cl by (simp add: idle_on_def)
  then have v': "\<not> deactive v'" "work v' = committed w" by (simp_all add: idle_on_def clean_def)
  show ?thesis
  proof (cases x)
    case (Inl e)
    with run user show ?thesis by (simp add: require_admin_def require_local_role_def bind_def)
  next
    case (Inr y)
    with run require_local_role_run [of env c w y v' "[''Admin'']"] user v' show ?thesis
      by (auto simp: caller_holds_def require_admin_def split: if_splits)
  qed
qed

lemma guarded_request:
  assumes cl: "clean w" and ok: "schema_ok (collate env) (committed w)" and inv: "roles_inv (committed w)"
    and body: "\<And>u v r v'. clean v \<Longrightarrow> committed v = committed w \<Longrightarrow> body u v = (r, v') \<Longrightarrow>
      schema_ok (collate env) (committed v') \<and> roles_inv (committed v')"
    and run: "request_session (bind (require_admin env c) body) w = (r, w')"
  shows "schema_ok (collate env) (committed w') \<and> roles_inv (committed w') \<and>
    (committed w' \<noteq> committed w \<longrightarrow> caller_holds env c ''Admin'' w)"
proof -
  obtain x v where guard: "require_admin env c w = (x, v)" by (cases "require_admin env c w")
  have "idle_on (committed w) v"
    using maintainsD [OF maintains_idle(4) _ guard [unfolded require_admin_def], of "committed w"] cl by (simp add: idle_on_def)
  then have v: "clean v" "committed v = committed w" by (simp_all add: idle_on_def)
  have w': "committed w' = committed (snd (bind (require_admin env c) body w))"
    using run by (metis request_session_committed snd_conv)
  show ?thesis
  proof (cases x)
    case (Inl e)
    with guard v ok inv w' show ?thesis by (simp add: bind_def)
  next
    case (Inr u)
    obtain y v' where rest: "body u v = (y, v')" by (cases "body u v")
    with guard Inr w' have "committed w' = committed v'" by (simp add: bind_def)
    with body [OF v rest] require_admin_Inr [OF cl guard [unfolded Inr]] show ?thesis by simp
  qed
qed

lemma unchanged_request:
  assumes "quiet m" and "request_session m w = (r, w')"
  shows "committed w' = committed w"
  using assms request_session_committed [of m w] by (simp add: quiet_def)

lemma quiet_reading:
  "quiet (roles_reply env u)" "quiet (get_user_or_404 env i)" "quiet (require_admin env c)"
  unfolding roles_reply_def get_user_or_404_def require_admin_def require_local_role_def get_user_roles_def
    get_user_by_id_def
  by (intro atomic_intros)+

text \<open>C5. A request to \<^verbatim>\<open>/users\<close> changes the database only if its bearer token stands for an
  account that holds the \<open>Admin\<close> role, whatever its body, and any request keeps the keys and
  foreign keys and the invariant that everybody holds their primary role.\<close>

theorem role_change_needs_admin:
  assumes cl: "clean w" and ok: "schema_ok (collate env) (committed w)" and inv: "roles_inv (committed w)"
    and run: "serve_users env req w = (r, w')"
  shows "clean w' \<and> schema_ok (collate env) (committed w') \<and> roles_inv (committed w') \<and>
    (committed w' \<noteq> committed w \<longrightarrow> caller_holds env (credentials_of req) ''Admin'' w)"
proof -
  have "clean (snd (serve_users env req w))"
    by (cases req) (simp_all add: serve_users_def get_my_roles_endpoint_def get_user_roles_endpoint_def
        assign_user_role_endpoint_def revoke_user_role_endpoint_def)
  moreover have "schema_ok (collate env) (committed w') \<and> roles_inv (committed w') \<and>
    (committed w' \<noteq> committed w \<longrightarrow> caller_holds env (credentials_of req) ''Admin'' w)"
  proof (cases req)
    case (My_Roles c)
    have "quiet (bind (get_current_local_user env c) (roles_reply env))"
      by (intro quiet_bind quiet_get_current quiet_reading)
    from unchanged_request [OF this] run ok inv show ?thesis
      by (simp add: serve_users_def My_Roles get_my_roles_endpoint_def)
  next
    case (User_Roles c i)
    have "quiet (bind (require_admin env c) (\<lambda>_. bind (get_user_or_404 env i) (roles_reply env)))"
      by (intro quiet_bind quiet_reading)
    from unchanged_request [OF this] run ok inv show ?thesis
      by (simp add: serve_users_def User_Roles get_user_roles_endpoint_def)
  next
    case (Assign_User_Role c i p)
    show ?thesis
      unfolding Assign_User_Role credentials_of.simps
    proof (rule guarded_request [OF cl ok inv _ run [unfolded serve_users_def Assign_User_Role
          users_request.case assign_user_role_endpoint_def]])
      fix u v y v'
      assume v: "clean v" "committed v = committed w" and "(if \<not> valid_role_assign p
          then throw (HTTPException HTTP_422_UNPROCESSABLE ''Invalid request'' [])
          else bind (get_user_or_404 env i) (\<lambda>u. bind (catch (assign_role env u (ura_role_name p) (ura_is_primary p))
             (\<lambda>e. throw (assign_role_error e))) (\<lambda>_. bind (commit env) (\<lambda>_. roles_reply env u)))) v = (y, v')"
      then show "schema_ok (collate env) (committed v') \<and> roles_inv (committed v')"
        using assigning.changed [of v env i] v ok inv by (auto simp: throw_def split: if_splits)
    qed
  next
    case (Revoke_User_Role c i n)
    show ?thesis
      unfolding Revoke_User_Role credentials_of.simps
    proof (rule guarded_request [OF cl ok inv _ run [unfolded serve_users_def Revoke_User_Role
          users_request.case revoke_user_role_endpoint_def]])
      show "schema_ok (collate env) (committed v') \<and> roles_inv (committed v')"
        if v: "clean v" "committed v = committed w" and "bind (get_user_or_404 env i) (\<lambda>u. bind (catch (revoke_role env u n)
             (\<lambda>e. throw (role_error e))) (\<lambda>_. bind (commit env) (\<lambda>_. roles_reply env u))) v = (y, v')" for u v y v'
        using revoking.changed [OF _ _ _ that(3)] v ok inv by simp
    qed
  qed
  ultimately show ?thesis using run by simp
qed

text \<open>Ann, a buyer and a seller, tries to make herself an administrator.\<close>

theorem role_change_needs_admin_witness:
  "committed (snd (serve_users jwt_env (Assign_User_Role (Some DEV_JWT_SECRET) 11 \<lparr>ura_role_name = ''Admin'', ura_is_primary = True\<rparr>)
     sample_world)) = committed sample_world"
proof -
  let ?req = "Assign_User_Role (Some DEV_JWT_SECRET) 11 \<lparr>ura_role_name = ''Admin'', ura_is_primary = True\<rparr>"
  have "fst (get_current_local_user jwt_env (Some DEV_JWT_SECRET) sample_world) = Inr (sample_user 11 ''ann@x.ae'' ''pw1'' 1)"
    by code_simp
  moreover have "\<not> (\<exists>r \<in> set (roles_held (u_id (sample_user 11 ''ann@x.ae'' ''pw1'' 1)) (committed sample_world)). r_name r = ''Admin'')"
    by code_simp
  ultimately have "\<not> caller_holds jwt_env (Some DEV_JWT_SECRET) ''Admin'' sample_world" by (auto simp: caller_holds_def)
  moreover have "schema_ok (collate jwt_env) (committed sample_world)"
    using sample_schema_ok by (simp add: jwt_env_def)
  moreover have "roles_inv (committed sample_world)" by code_simp
  ultimately show ?thesis
    using role_change_needs_admin [OF sample_clean, of jwt_env ?req "fst (serve_users jwt_env ?req sample_world)"
        "snd (serve_users jwt_env ?req sample_world)"] by simp
qed

end
