(* ===== verification/Bid_Service.thy ===== *)
theory Bid_Service
  imports Auth_Api
begin

text \<open>
  The bidding path: \<^verbatim>\<open>core/redis.py\<close>, \<^verbatim>\<open>core/kafka.py\<close>, \<^verbatim>\<open>schemas/bid.py\<close>,
  \<^verbatim>\<open>services/auction_service.py\<close> and \<^verbatim>\<open>services/bid_service.py\<close>. A broker or cache call
  that fails is one that \<open>kafka_accepts\<close> or \<open>redis_answers\<close> denies. The laws are in
  \<^verbatim>\<open>Bid_Laws\<close>.
\<close>

section \<open>core/redis.py\<close>

definition highest_bid_key :: "string \<Rightarrow> string" where
  "highest_bid_key auction_id = ''auction:'' @ auction_id @ '':highest_bid''"

definition updates_channel :: "string \<Rightarrow> string" where
  "updates_channel auction_id = ''auction:'' @ auction_id @ '':updates''"

text \<open>
  \<open>BID_ARBITRATION_SCRIPT\<close>: the hash to store, or \<open>None\<close> for no change. Comparing
  \<open>nil\<close> with a number is a script error.
\<close>

definition bid_arbitration :: "env \<Rightarrow> redis_bid option \<Rightarrow> redis_bid \<Rightarrow> exn + redis_bid option" where
  "bid_arbitration env stored new =
     (let current = lua_tonumber env (case stored of None \<Rightarrow> ''0'' | Some b \<Rightarrow> rb_amount b) in
      case (lua_tonumber env (rb_amount new), current) of
        (Some a, Some c) \<Rightarrow> Inr (if c < a then Some new else None)
      | _ \<Rightarrow> Inl RedisError)"

definition try_accept_bid :: "env \<Rightarrow> string \<Rightarrow> string \<Rightarrow> string \<Rightarrow> string \<Rightarrow> bool comp" where
  "try_accept_bid env auction_id amount bidder_id ts w =
     (let w1 = w\<lparr>redis_calls := Suc (redis_calls w)\<rparr>; key = highest_bid_key auction_id in
      if \<not> redis_answers env (redis_calls w) then (Inl RedisError, w1)
      else (case bid_arbitration env (redis_bids w key) \<lparr>rb_amount = amount, rb_bidder_id = bidder_id, rb_ts = ts\<rparr> of
              Inl e \<Rightarrow> (Inl e, w1)
            | Inr None \<Rightarrow> (Inr False, w1)
            | Inr (Some b) \<Rightarrow> (Inr True, w1\<lparr>redis_bids := (redis_bids w)(key \<mapsto> b)\<rparr>)))"

definition publish_bid_update :: "env \<Rightarrow> string \<Rightarrow> string \<Rightarrow> unit comp" where
  "publish_bid_update env auction_id payload w =
     (let w1 = w\<lparr>redis_calls := Suc (redis_calls w)\<rparr> in
      if \<not> redis_answers env (redis_calls w) then (Inl RedisError, w1)
      else (Inr (), w1\<lparr>redis_published := redis_published w @ [(updates_channel auction_id, payload)]\<rparr>))"

section \<open>core/kafka.py\<close>

definition publish_event :: "env \<Rightarrow> string \<Rightarrow> string \<Rightarrow> string \<Rightarrow> unit comp" where
  "publish_event env topic key v w =
     (let w1 = w\<lparr>kafka_sends := Suc (kafka_sends w)\<rparr> in
      if \<not> kafka_accepts env (kafka_sends w) then (Inl KafkaError, w1)
      else (Inr (), w1\<lparr>kafka_log := kafka_log w @ [\<lparr>km_topic = topic, km_key = key, km_value = v\<rparr>]\<rparr>))"

section \<open>schemas/bid.py\<close>

text \<open>\<open>gt=0\<close>, then the precision validator; a NaN or an infinity is refused by pydantic.\<close>

fun validate_bid_create :: "decimal \<Rightarrow> exn + decimal" where
  "validate_bid_create (Finite neg c e) =
     (if decimal_gt (Finite neg c e) (Finite False 0 0) \<noteq> Some True then Inl ValueError
      else if e < -2 then Inl ValueError
      else Inr (Finite neg c e))"
| "validate_bid_create _ = Inl ValueError"

record bid_accepted =
  ba_bid_id :: uuid
  ba_auction_id :: uuid
  ba_status :: string
  ba_submitted_at :: time

record bid_result =
  br_bid_id :: uuid
  br_auction_id :: uuid
  br_bidder_id :: uuid
  br_amount :: decimal
  br_status :: string
  br_reason :: "string option"
  br_decided_at :: time

definition bid_result_json :: "env \<Rightarrow> bid_result \<Rightarrow> string" where
  "bid_result_json env r = model_dump_json env (JObj
     [(''bid_id'', JStr (uuid_text (br_bid_id r))),
      (''auction_id'', JStr (uuid_text (br_auction_id r))),
      (''bidder_id'', JStr (uuid_text (br_bidder_id r))),
      (''amount'', JStr (decimal_text (br_amount r))),
      (''status'', JStr (br_status r)),
      (''reason'', case br_reason r of None \<Rightarrow> JNull | Some t \<Rightarrow> JStr t),
      (''decided_at'', JStr (isoformat env (br_decided_at r)))])"

record vehicle_summary =
  vsu_id :: uuid
  vsu_title_en :: string
  vsu_title_ar :: string
  vsu_image_url :: "string option"
  vsu_lot_number :: "string option"
  vsu_mileage :: "string option"
  vsu_location_en :: "string option"
  vsu_location_ar :: "string option"

record auction_read =
  ar_id :: uuid
  ar_vehicle_id :: uuid
  ar_vehicle :: vehicle_summary
  ar_status :: string
  ar_starting_price :: decimal
  ar_reserve_price :: "decimal option"
  ar_starts_at :: time
  ar_ends_at :: time

section \<open>services/auction_service.py\<close>

definition get_auction :: "env \<Rightarrow> uuid \<Rightarrow> auction comp" where
  "get_auction env i =
     bind (query env (\<lambda>db. scalar_one_or_none (filter (\<lambda>a. a_id a = i) (auctions db)))) (\<lambda>found.
     case found of None \<Rightarrow> throw (AuctionNotFoundError i) | Some a \<Rightarrow> ret a)"

definition get_live_auction :: "env \<Rightarrow> uuid \<Rightarrow> auction comp" where
  "get_live_auction env i =
     bind (get_auction env i) (\<lambda>a.
     if a_status a \<noteq> ''live'' then throw (AuctionNotLiveError i (a_status a)) else ret a)"

section \<open>services/bid_service.py\<close>

definition REQUIRED_BID_ROLES :: "string list" where
  "REQUIRED_BID_ROLES = [''Buyer'', ''AuctionsHead'']"

definition REQUIRED_ENVELOPE_FIELDS :: "string list" where
  "REQUIRED_ENVELOPE_FIELDS = [''bid_id'', ''auction_id'', ''bidder_id'', ''amount'', ''submitted_at'']"

definition ENVELOPE_UUID_FIELDS :: "string list" where
  "ENVELOPE_UUID_FIELDS = [''bid_id'', ''auction_id'', ''bidder_id'']"

text \<open>The check of one UUID field, and of all of them in order.\<close>

fun check_uuid_fields :: "(string \<times> json) list \<Rightarrow> string list \<Rightarrow> exn + unit" where
  "check_uuid_fields data [] = Inr ()"
| "check_uuid_fields data (f # fs) =
     (case uuid_of_str (get_key data f JNull) of
        Inl _ \<Rightarrow> Inl (MalformedBidEvent (''invalid UUID in field '' @ repr_text f @ '': '' @ py_repr (get_key data f JNull)))
      | Inr _ \<Rightarrow> check_uuid_fields data fs)"

text \<open>
  A well-formed event is returned as the parsed object. What is not bad JSON, a missing
  field, a bad number or a bad UUID escapes as the Python exception it is: bytes that are
  not UTF-8, a document that is not an object, an amount of the wrong type.
\<close>

definition parse_bid_envelope :: "env \<Rightarrow> string \<Rightarrow> exn + (string \<times> json) list" where
  "parse_bid_envelope env raw =
     (case json_loads env raw of
        Json_Decode_Error \<Rightarrow> Inl (MalformedBidEvent ''invalid JSON'')
      | Not_Utf8 \<Rightarrow> Inl UnicodeDecodeError
      | Json_Value (JObj data) \<Rightarrow>
          (let missing = filter (\<lambda>f. map_of data f = None) REQUIRED_ENVELOPE_FIELDS in
           if missing \<noteq> [] then Inl (MalformedBidEvent (''missing fields: '' @ join '', '' missing))
           else (case decimal_of_json (get_key data ''amount'' JNull) of
                   Inl Not_Parsed \<Rightarrow>
                     Inl (MalformedBidEvent (''invalid amount: '' @ py_repr (get_key data ''amount'' JNull)))
                 | Inl Wrong_Type \<Rightarrow> Inl TypeError
                 | Inl Bad_Sequence \<Rightarrow> Inl ValueError
                 | Inl No_Attribute \<Rightarrow> Inl AttributeError
                 | Inr _ \<Rightarrow> map_result (\<lambda>_. data) (check_uuid_fields data ENVELOPE_UUID_FIELDS)))
      | Json_Value _ \<Rightarrow> Inl AttributeError)"

definition validate_bid_eligibility :: "string list \<Rightarrow> decimal \<Rightarrow> exn + unit" where
  "validate_bid_eligibility held amount =
     (if \<not> list_ex (\<lambda>n. n \<in> set REQUIRED_BID_ROLES) held
      then Inl (BidNotEligibleError (''Only '' @ join '' or '' REQUIRED_BID_ROLES @ '' roles may place bids (BRD R088)''))
      else Inr ())"

definition bid_envelope :: "uuid \<Rightarrow> uuid \<Rightarrow> uuid \<Rightarrow> decimal \<Rightarrow> string \<Rightarrow> (string \<times> json) list" where
  "bid_envelope bid_id auction_id bidder_id amount submitted_at =
     [(''bid_id'', JStr (uuid_text bid_id)),
      (''auction_id'', JStr (uuid_text auction_id)),
      (''bidder_id'', JStr (uuid_text bidder_id)),
      (''amount'', JStr (decimal_text amount)),
      (''submitted_at'', JStr submitted_at)]"

definition submit_bid :: "env \<Rightarrow> uuid \<Rightarrow> user \<Rightarrow> decimal \<Rightarrow> bid_accepted comp" where
  "submit_bid env auction_id u amount =
     bind (get_live_auction env auction_id) (\<lambda>_.
     bind (get_user_roles env u) (\<lambda>held.
     bind (lift (validate_bid_eligibility (map r_name held) amount)) (\<lambda>_.
     bind (uuid4 env) (\<lambda>bid_id.
     bind (now env) (\<lambda>submitted_at.
     bind (catch (publish_event env (kafka_topic_bids (settings env)) (uuid_text auction_id)
                    (json_dumps env (JObj (bid_envelope bid_id auction_id (u_id u) amount (isoformat env submitted_at)))))
             (\<lambda>_. throw BidPublishError)) (\<lambda>_.
     ret \<lparr>ba_bid_id = bid_id, ba_auction_id = auction_id, ba_status = ''received'', ba_submitted_at = submitted_at\<rparr>))))))"

text \<open>\<open>uuid.UUID(envelope[f])\<close> and \<open>Decimal(envelope[f])\<close>.\<close>

definition envelope_uuid :: "(string \<times> json) list \<Rightarrow> string \<Rightarrow> exn + uuid" where
  "envelope_uuid data f =
     (case map_of data f of
        None \<Rightarrow> Inl (KeyError f)
      | Some v \<Rightarrow> (case uuid_of_json v of
                    Inr u \<Rightarrow> Inr u
                  | Inl Wrong_Type \<Rightarrow> Inl TypeError
                  | Inl No_Attribute \<Rightarrow> Inl AttributeError
                  | Inl _ \<Rightarrow> Inl ValueError))"

definition envelope_amount :: "(string \<times> json) list \<Rightarrow> exn + decimal" where
  "envelope_amount data =
     (case map_of data ''amount'' of
        None \<Rightarrow> Inl (KeyError ''amount'')
      | Some v \<Rightarrow> (case decimal_of_json v of
                    Inr d \<Rightarrow> Inr d
                  | Inl Not_Parsed \<Rightarrow> Inl InvalidOperation
                  | Inl Bad_Sequence \<Rightarrow> Inl ValueError
                  | Inl _ \<Rightarrow> Inl TypeError))"

text \<open>
  \<open>SELECT amount ... WHERE auction_id = ? AND status = 'accepted' ORDER BY amount DESC\<close>,
  first row.
\<close>

definition highest_accepted :: "env \<Rightarrow> uuid \<Rightarrow> database \<Rightarrow> decimal option" where
  "highest_accepted env i db =
     first_row (map b_amount (order_by (\<lambda>b. - finite_value (b_amount b))
       (filter (\<lambda>b. b_auction_id b = i \<and> sql_eq env (b_status b) ''accepted'') (bids db))))"

text \<open>\<open>highest or auction.starting_price\<close>.\<close>

definition current_high :: "env \<Rightarrow> auction \<Rightarrow> database \<Rightarrow> decimal" where
  "current_high env a db =
     (case highest_accepted env (a_id a) db of
        Some d \<Rightarrow> if decimal_true d then d else a_starting_price a
      | None \<Rightarrow> a_starting_price a)"

text \<open>The decision on one bid against the open transaction: status and reason.\<close>

definition judge_bid :: "env \<Rightarrow> uuid \<Rightarrow> decimal \<Rightarrow> (string \<times> string option) comp" where
  "judge_bid env auction_id amount =
     bind (query env (\<lambda>db. scalar_one_or_none (filter (\<lambda>a. a_id a = auction_id) (auctions db)))) (\<lambda>found.
     case found of
       None \<Rightarrow> ret (''rejected'', Some ''auction_not_live'')
     | Some a \<Rightarrow>
         if a_status a \<noteq> ''live'' then ret (''rejected'', Some ''auction_not_live'')
         else
           bind (query env (\<lambda>db. Inr (current_high env a db))) (\<lambda>high.
           case decimal_gt amount high of
             None \<Rightarrow> throw InvalidOperation
           | Some True \<Rightarrow> ret (''accepted'', None)
           | Some False \<Rightarrow> ret (''rejected'', Some ''not_highest'')))"

definition new_bid :: "uuid \<Rightarrow> uuid \<Rightarrow> uuid \<Rightarrow> decimal \<Rightarrow> string \<Rightarrow> int \<Rightarrow> int \<Rightarrow> bid" where
  "new_bid bid_id auction_id bidder_id amount status part offset =
     \<lparr>b_id = bid_id, b_auction_id = auction_id, b_bidder_id = bidder_id, b_amount = amount, b_status = status,
      b_kafka_partition = Some part, b_kafka_offset = Some offset, b_created_at = 0\<rparr>"

text \<open>
  The database half of \<open>decide_bid\<close>, inside \<open>session_scope\<close>: \<open>None\<close> when the insertion
  broke a constraint.
\<close>

definition record_bid ::
    "env \<Rightarrow> uuid \<Rightarrow> uuid \<Rightarrow> uuid \<Rightarrow> decimal \<Rightarrow> int \<Rightarrow> int \<Rightarrow> (string \<times> string option) option comp" where
  "record_bid env bid_id auction_id bidder_id amount part offset =
     bind (judge_bid env auction_id amount) (\<lambda>(status, reason).
     bind (add (RBid (new_bid bid_id auction_id bidder_id amount status part offset))) (\<lambda>_.
     catch (bind (flush env) (\<lambda>_. ret (Some (status, reason))))
       (\<lambda>e. if e = IntegrityError then ret None else throw e)))"

text \<open>The half after the commit: the cache, the live update and the result event.\<close>

definition announce_bid :: "env \<Rightarrow> bid_result \<Rightarrow> bid_result option comp" where
  "announce_bid env r =
     bind (if br_status r = ''accepted''
           then bind (try_accept_bid env (uuid_text (br_auction_id r)) (decimal_text (br_amount r))
                        (uuid_text (br_bidder_id r)) (isoformat env (br_decided_at r))) (\<lambda>_. ret ())
           else ret ()) (\<lambda>_.
     bind (publish_bid_update env (uuid_text (br_auction_id r)) (bid_result_json env r)) (\<lambda>_.
     bind (publish_event env (kafka_topic_bid_results (settings env)) (uuid_text (br_auction_id r))
             (bid_result_json env r)) (\<lambda>_.
     ret (Some r))))"

definition decide_bid :: "env \<Rightarrow> (string \<times> json) list \<Rightarrow> int \<Rightarrow> int \<Rightarrow> bid_result option comp" where
  "decide_bid env envelope part offset =
     bind (lift (envelope_uuid envelope ''auction_id'')) (\<lambda>auction_id.
     bind (lift (envelope_uuid envelope ''bid_id'')) (\<lambda>bid_id.
     bind (lift (envelope_uuid envelope ''bidder_id'')) (\<lambda>bidder_id.
     bind (lift (envelope_amount envelope)) (\<lambda>amount.
     bind (now env) (\<lambda>decided_at.
     bind (session_scope env (record_bid env bid_id auction_id bidder_id amount part offset)) (\<lambda>outcome.
     case outcome of
       None \<Rightarrow> ret None
     | Some (status, reason) \<Rightarrow>
         announce_bid env \<lparr>br_bid_id = bid_id, br_auction_id = auction_id, br_bidder_id = bidder_id,
           br_amount = amount, br_status = status, br_reason = reason, br_decided_at = decided_at\<rparr>))))))"

section \<open>api/v1/auctions.py\<close>

definition vehicle_summary_of :: "vehicle_listing \<Rightarrow> vehicle_summary" where
  "vehicle_summary_of v = \<lparr>vsu_id = vl_id v, vsu_title_en = vl_title_en v, vsu_title_ar = vl_title_ar v,
     vsu_image_url = vl_image_url v, vsu_lot_number = vl_lot_number v, vsu_mileage = vl_mileage v,
     vsu_location_en = vl_location_en v, vsu_location_ar = vl_location_ar v\<rparr>"

text \<open>A failed response validation (no vehicle) is an unhandled error of the framework.\<close>

definition get_auction_endpoint :: "env \<Rightarrow> uuid \<Rightarrow> auction_read comp" where
  "get_auction_endpoint env i =
     bind (catch (get_auction env i)
             (\<lambda>e. case e of AuctionNotFoundError _ \<Rightarrow> throw (HTTPException HTTP_404_NOT_FOUND ''Auction not found'' [])
                  | _ \<Rightarrow> throw e)) (\<lambda>a.
     bind (query env (\<lambda>db. Inr (get_by_id vl_id (vehicle_listings db) (a_vehicle_id a)))) (\<lambda>vehicle.
     case vehicle of
       None \<Rightarrow> throw ValueError
     | Some v \<Rightarrow> ret \<lparr>ar_id = a_id a, ar_vehicle_id = a_vehicle_id a, ar_vehicle = vehicle_summary_of v,
         ar_status = a_status a, ar_starting_price = a_starting_price a, ar_reserve_price = a_reserve_price a,
         ar_starts_at = a_starts_at a, ar_ends_at = a_ends_at a\<rparr>))"

fun submit_bid_error :: "exn \<Rightarrow> exn" where
  "submit_bid_error (AuctionNotFoundError _) = HTTPException HTTP_404_NOT_FOUND ''Auction not found'' []"
| "submit_bid_error (AuctionNotLiveError _ s) =
     HTTPException HTTP_409_CONFLICT (''Auction is not accepting bids (status='' @ s @ '')'') []"
| "submit_bid_error (BidNotEligibleError reason) = HTTPException HTTP_403_FORBIDDEN reason []"
| "submit_bid_error BidPublishError =
     HTTPException HTTP_503_SERVICE_UNAVAILABLE ''Unable to submit bid right now, please retry'' []"
| "submit_bid_error e = e"

text \<open>The bearer token is checked before the body.\<close>

definition submit_bid_endpoint :: "env \<Rightarrow> string option \<Rightarrow> uuid \<Rightarrow> decimal \<Rightarrow> bid_accepted comp" where
  "submit_bid_endpoint env credentials auction_id amount =
     request_session
       (bind (get_current_local_user env credentials) (\<lambda>u.
        case validate_bid_create amount of
          Inl _ \<Rightarrow> throw (HTTPException HTTP_422_UNPROCESSABLE ''Invalid request'' [])
        | Inr a \<Rightarrow> catch (submit_bid env auction_id u a) (\<lambda>e. throw (submit_bid_error e))))"

end
