(* ===== verification/Bid_Laws.thy ===== *)
theory Bid_Laws
  imports Bid_Service
begin

text \<open>
  How the bidding operations run; the abstract ascending auction and the lemmas that
  \<open>decide_bid\<close> implements it; what a replay of a message does.
\<close>

section \<open>Queries\<close>

lemma bids_ok_auctions: "schema_ok coll db \<Longrightarrow> distinct (map a_id (auctions db))"
  by (simp add: schema_ok_def bids_ok_def)

lemma auction_lookup:
  assumes "distinct (map a_id (auctions db))"
  shows "scalar_one_or_none (filter (\<lambda>a. a_id a = i) (auctions db)) = Inr (get_by_id a_id (auctions db) i)"
  unfolding get_by_id_def by (rule scalar_one_or_none_total [OF filter_key_length [OF assms]])

lemma first_row_sorted:
  assumes "first_row (sort_key k xs) = Some x" shows "x \<in> set xs \<and> (\<forall>y \<in> set xs. k x \<le> k y)"
proof -
  obtain ys where ys: "sort_key k xs = x # ys" using assms by (cases "sort_key k xs") auto
  have "sorted (map k (sort_key k xs))" by simp
  with ys have "\<forall>y \<in> set (sort_key k xs). k x \<le> k y" by auto
  moreover have "x \<in> set (sort_key k xs)" by (simp add: ys)
  ultimately show ?thesis by simp
qed

definition accepted_bids :: "env \<Rightarrow> uuid \<Rightarrow> database \<Rightarrow> bid list" where
  "accepted_bids env i db = filter (\<lambda>b. b_auction_id b = i \<and> sql_eq env (b_status b) ''accepted'') (bids db)"

lemma highest_accepted_None: "highest_accepted env i db = None \<longleftrightarrow> accepted_bids env i db = []"
proof -
  have "sort_key f xs = [] \<longleftrightarrow> xs = []" for f :: "bid \<Rightarrow> rat" and xs
    by (metis length_0_conv length_sort)
  then show ?thesis by (simp add: highest_accepted_def accepted_bids_def)
qed

lemma highest_accepted_Some:
  assumes "highest_accepted env i db = Some d"
  shows "\<exists>b \<in> set (accepted_bids env i db). d = b_amount b \<and>
    (\<forall>c \<in> set (accepted_bids env i db). finite_value (b_amount c) \<le> finite_value d)"
proof -
  let ?s = "sort_key (\<lambda>b. - finite_value (b_amount b)) (accepted_bids env i db)"
  have "first_row (map b_amount ?s) = Some d"
    using assms by (simp add: highest_accepted_def accepted_bids_def)
  then obtain b where b: "first_row ?s = Some b" "d = b_amount b" by (cases ?s) auto
  with first_row_sorted [OF b(1)] show ?thesis by auto
qed

section \<open>The abstract ascending auction\<close>

text \<open>
  The specification of one auction: whether it takes bids, and the amount a bid has to beat.
  A bid is accepted exactly if it beats it, and then becomes the amount to beat.
\<close>

record auction_spec =
  sp_live :: bool
  sp_high :: rat

definition spec_bid :: "rat \<Rightarrow> auction_spec \<Rightarrow> bool \<times> auction_spec" where
  "spec_bid amount s =
     (if sp_live s \<and> sp_high s < amount then (True, s\<lparr>sp_high := amount\<rparr>) else (False, s))"

definition high_value :: "env \<Rightarrow> auction \<Rightarrow> database \<Rightarrow> rat" where
  "high_value env a db =
     Max (insert (finite_value (a_starting_price a)) (finite_value ` b_amount ` set (accepted_bids env (a_id a) db)))"

definition abs_auction :: "env \<Rightarrow> database \<Rightarrow> uuid \<Rightarrow> auction_spec option" where
  "abs_auction env db i =
     map_option (\<lambda>a. \<lparr>sp_live = (a_status a = ''live''), sp_high = high_value env a db\<rparr>) (get_by_id a_id (auctions db) i)"

text \<open>
  The invariant of the bids table: prices are finite and positive, accepted amounts exceed the
  starting price, and in the order of insertion they rise strictly.
\<close>

definition bidding_ok :: "env \<Rightarrow> database \<Rightarrow> bool" where
  "bidding_ok env db \<longleftrightarrow> (\<forall>a \<in> set (auctions db). is_finite (a_starting_price a) \<and>
     (\<forall>b \<in> set (accepted_bids env (a_id a) db).
        is_finite (b_amount b) \<and> 0 < finite_value (b_amount b) \<and>
        finite_value (a_starting_price a) < finite_value (b_amount b)) \<and>
     sorted_wrt (<) (map (finite_value \<circ> b_amount) (accepted_bids env (a_id a) db)))"

lemma current_high_value:
  assumes inv: "bidding_ok env db" and a: "a \<in> set (auctions db)"
  shows "is_finite (current_high env a db) \<and> finite_value (current_high env a db) = high_value env a db"
proof (cases "highest_accepted env (a_id a) db")
  case None
  then show ?thesis
    using inv a highest_accepted_None [of env "a_id a" db] by (simp add: current_high_def high_value_def bidding_ok_def)
next
  case (Some d)
  let ?V = "finite_value ` b_amount ` set (accepted_bids env (a_id a) db)"
  from highest_accepted_Some [OF Some] obtain b where b: "b \<in> set (accepted_bids env (a_id a) db)" "d = b_amount b"
    and max: "\<forall>c \<in> set (accepted_bids env (a_id a) db). finite_value (b_amount c) \<le> finite_value d" by blast
  with inv a have d: "is_finite d" "0 < finite_value d" "finite_value (a_starting_price a) < finite_value d"
    by (auto simp: bidding_ok_def)
  have "Max (insert (finite_value (a_starting_price a)) ?V) = finite_value d"
    by (rule Max_eqI) (use b max d in auto)
  then show ?thesis
    using Some d by (simp add: current_high_def high_value_def decimal_true_finite)
qed

section \<open>The verdict\<close>

definition verdict :: "env \<Rightarrow> database \<Rightarrow> uuid \<Rightarrow> decimal \<Rightarrow> exn + (string \<times> string option)" where
  "verdict env db i amount =
     (case get_by_id a_id (auctions db) i of
        None \<Rightarrow> Inr (''rejected'', Some ''auction_not_live'')
      | Some a \<Rightarrow>
          if a_status a \<noteq> ''live'' then Inr (''rejected'', Some ''auction_not_live'')
          else (case decimal_gt amount (current_high env a db) of
                  None \<Rightarrow> Inl InvalidOperation
                | Some True \<Rightarrow> Inr (''accepted'', None)
                | Some False \<Rightarrow> Inr (''rejected'', Some ''not_highest'')))"

lemma judge_bid_run:
  "schema_ok coll (work w) \<Longrightarrow> \<not> deactive w \<Longrightarrow> judge_bid env i amount w = (verdict env (work w) i amount, w)"
  by (simp add: judge_bid_def step_simps auction_lookup [OF bids_ok_auctions] verdict_def ret_def throw_def
      split: option.splits bool.splits)

text \<open>The verdict is the one of the specification.\<close>

lemma verdict_refines:
  assumes inv: "bidding_ok env db" and fin: "is_finite amount"
  shows "verdict env db i amount =
    (case abs_auction env db i of
       None \<Rightarrow> Inr (''rejected'', Some ''auction_not_live'')
     | Some s \<Rightarrow> if fst (spec_bid (finite_value amount) s) then Inr (''accepted'', None)
                 else Inr (''rejected'', Some (if sp_live s then ''not_highest'' else ''auction_not_live'')))"
proof (cases "get_by_id a_id (auctions db) i")
  case None
  then show ?thesis by (simp add: verdict_def abs_auction_def)
next
  case (Some a)
  then have "a \<in> set (auctions db)" using get_by_id_SomeD by fastforce
  from current_high_value [OF inv this] fin Some show ?thesis
    by (auto simp: verdict_def abs_auction_def spec_bid_def split: bool.splits)
qed

lemma verdict_statuses: "verdict env db i amount = Inr (s, r) \<Longrightarrow> s = ''accepted'' \<or> s = ''rejected''"
  by (auto simp: verdict_def split: option.splits if_splits bool.splits)

section \<open>The database half of a decision\<close>

definition bid_row :: "env \<Rightarrow> uuid \<Rightarrow> uuid \<Rightarrow> uuid \<Rightarrow> decimal \<Rightarrow> string \<Rightarrow> int \<Rightarrow> int \<Rightarrow> row" where
  "bid_row env bid_id i bidder amount status p off =
     stored_row env (RBid (new_bid bid_id i bidder amount status p off))"

text \<open>Stored: the row is inserted and committed with the verdict.\<close>

lemma record_bid_stored:
  assumes ok: "schema_ok (collate env) (committed w)" and cl: "clean w"
    and v: "verdict env (committed w) i amount = Inr (status, reason)"
    and "\<not> rejects_value env (RBid (new_bid bid_id i bidder amount status p off))"
    and "integrity_ok (collate env) (bid_row env bid_id i bidder amount status p off) (committed w)"
  shows "session_scope env (record_bid env bid_id i bidder amount p off) w =
    (Inr (Some (status, reason)),
     w\<lparr>committed := insert_row (db_clock env (db_ticks w)) (bid_row env bid_id i bidder amount status p off) (committed w),
       work := insert_row (db_clock env (db_ticks w)) (bid_row env bid_id i bidder amount status p off) (committed w),
       db_ticks := Suc (db_ticks w)\<rparr>)"
proof -
  have same: "work w = committed w" using cl by (simp add: clean_def)
  let ?r = "RBid (new_bid bid_id i bidder amount status p off)"
  have "flush env (w\<lparr>pending := [?r]\<rparr>) =
      (Inr (), w\<lparr>work := insert_row (db_clock env (db_ticks w)) (stored_row env ?r) (committed w),
                 db_ticks := Suc (db_ticks w)\<rparr>)"
    using flush_one [of "w\<lparr>pending := [?r]\<rparr>" ?r env] assms(4,5) clean_simps(1,2) [OF cl] same
    by (simp add: bid_row_def del: stored_row.simps integrity_ok.simps insert_row.simps)
  moreover have "judge_bid env i amount w = (Inr (status, reason), w)"
    using judge_bid_run [of "collate env" w env i amount] ok same v clean_simps(1) [OF cl] by simp
  ultimately show ?thesis
    using clean_simps(1,2) [OF cl] same
    by (simp add: session_scope_def record_bid_def bind_def catch_def add_def ret_def rollback_def
        commit_nothing_pending bid_row_def world_order
        del: stored_row.simps insert_row.simps)
qed

text \<open>Refused by a constraint: nothing is committed, and leaving the session raises.\<close>

lemma record_bid_violation:
  assumes ok: "schema_ok (collate env) (committed w)" and cl: "clean w"
    and v: "verdict env (committed w) i amount = Inr (status, reason)"
    and "\<not> rejects_value env (RBid (new_bid bid_id i bidder amount status p off))"
    and "\<not> integrity_ok (collate env) (bid_row env bid_id i bidder amount status p off) (committed w)"
  shows "session_scope env (record_bid env bid_id i bidder amount p off) w =
    (case failed_session env of None \<Rightarrow> Inr None | Some e \<Rightarrow> Inl e, w)"
proof -
  have same: "work w = committed w" using cl by (simp add: clean_def)
  let ?r = "RBid (new_bid bid_id i bidder amount status p off)"
  have f: "flush env (w\<lparr>pending := [?r]\<rparr>) =
      (Inl IntegrityError, w\<lparr>work := committed w, pending := [], deactive := True\<rparr>)"
    using flush_one_violation [of "w\<lparr>pending := [?r]\<rparr>" ?r env] assms(4,5) clean_simps(1) [OF cl] same
    by (simp add: bid_row_def del: stored_row.simps integrity_ok.simps)
  have j: "judge_bid env i amount w = (Inr (status, reason), w)"
    using judge_bid_run [of "collate env" w env i amount] ok same v clean_simps(1) [OF cl] by simp
  have undone: "w\<lparr>work := committed w, pending := [], deactive := False\<rparr> = w"
    using cl by (simp add: clean_def)
  have body: "record_bid env bid_id i bidder amount p off w =
      (Inr None, w\<lparr>work := committed w, pending := [], deactive := True\<rparr>)"
    using clean_simps(2) [OF cl]
    by (simp add: record_bid_def bind_def catch_def add_def ret_def j f)
  show ?thesis
    by (cases "failed_session env")
      (simp_all add: session_scope_def bind_def catch_def body commit_def flush_def usable_def rollback_def
        throw_def ret_def undone)
qed

lemma record_bid_rejected:
  assumes ok: "schema_ok (collate env) (committed w)" and cl: "clean w"
    and v: "verdict env (committed w) i amount = Inr (status, reason)"
    and bad: "rejects_value env (RBid (new_bid bid_id i bidder amount status p off))"
  shows "session_scope env (record_bid env bid_id i bidder amount p off) w = (Inl DBAPIError, w)"
proof -
  have same: "work w = committed w" using cl by (simp add: clean_def)
  let ?r = "RBid (new_bid bid_id i bidder amount status p off)"
  have f: "flush env (w\<lparr>pending := [?r]\<rparr>) =
      (Inl DBAPIError, w\<lparr>work := committed w, pending := [], deactive := True\<rparr>)"
    using flush_one_cases [of "w\<lparr>pending := [?r]\<rparr>" ?r env] bad clean_simps(1) [OF cl] same
    by (simp del: stored_row.simps integrity_ok.simps)
  have j: "judge_bid env i amount w = (Inr (status, reason), w)"
    using judge_bid_run [of "collate env" w env i amount] ok same v clean_simps(1) [OF cl] by simp
  have undone: "w\<lparr>work := committed w, pending := [], deactive := False\<rparr> = w"
    using cl by (simp add: clean_def)
  show ?thesis
    using clean_simps(2) [OF cl]
    by (simp add: record_bid_def session_scope_def bind_def catch_def add_def throw_def ret_def rollback_def j f undone)
qed

lemma record_bid_undecided:
  assumes ok: "schema_ok (collate env) (committed w)" and cl: "clean w"
    and v: "verdict env (committed w) i amount = Inl e"
  shows "session_scope env (record_bid env bid_id i bidder amount p off) w = (Inl e, w)"
proof -
  have same: "work w = committed w" using cl by (simp add: clean_def)
  have j: "judge_bid env i amount w = (Inl e, w)"
    using judge_bid_run [of "collate env" w env i amount] ok same v clean_simps(1) [OF cl] by simp
  have undone: "w\<lparr>work := committed w, pending := [], deactive := False\<rparr> = w"
    using cl by (simp add: clean_def)
  show ?thesis
    by (simp add: record_bid_def session_scope_def bind_def catch_def throw_def rollback_def j undone)
qed

text \<open>Every outcome: a row with the verdict is committed, or the database is as before.\<close>

lemma record_bid_outcome:
  assumes "schema_ok (collate env) (committed w)" and "clean w"
    and "session_scope env (record_bid env bid_id i bidder amount p off) w = (res, w')"
  shows "(\<exists>status reason. res = Inr (Some (status, reason)) \<and> verdict env (committed w) i amount = Inr (status, reason) \<and>
            integrity_ok (collate env) (bid_row env bid_id i bidder amount status p off) (committed w) \<and>
            w' = w\<lparr>committed := insert_row (db_clock env (db_ticks w)) (bid_row env bid_id i bidder amount status p off) (committed w),
                   work := insert_row (db_clock env (db_ticks w)) (bid_row env bid_id i bidder amount status p off) (committed w),
                   db_ticks := Suc (db_ticks w)\<rparr>) \<or>
         (w' = w \<and> (\<forall>x. res \<noteq> Inr (Some x)))"
proof (cases "verdict env (committed w) i amount")
  case (Inl e)
  from record_bid_undecided [OF assms(1,2) this] assms(3) show ?thesis by auto
next
  case (Inr sr)
  then obtain status reason where v: "verdict env (committed w) i amount = Inr (status, reason)" by (cases sr) auto
  show ?thesis
  proof (cases "rejects_value env (RBid (new_bid bid_id i bidder amount status p off))")
    case True
    from record_bid_rejected [OF assms(1,2) v True] assms(3) show ?thesis by auto
  next
    case accepted: False
    show ?thesis
    proof (cases "integrity_ok (collate env) (bid_row env bid_id i bidder amount status p off) (committed w)")
      case True
      from record_bid_stored [OF assms(1,2) v accepted True] assms(3) v True show ?thesis by auto
    next
      case False
      from record_bid_violation [OF assms(1,2) v accepted False] assms(3) show ?thesis by (auto split: option.splits)
    qed
  qed
qed

section \<open>A whole decision\<close>

lemma quiet_announce [atomic_intros]: "quiet (announce_bid env r)"
  unfolding announce_bid_def
  by (intro atomic_intros | simp add: quiet_def try_accept_bid_def publish_bid_update_def publish_event_def Let_def
      split: sum.splits option.splits)+

text \<open>\<open>announce_bid\<close> does not touch the session.\<close>

definition same_session :: "world \<Rightarrow> world \<Rightarrow> bool" where
  "same_session v w \<longleftrightarrow> committed v = committed w \<and> work v = work w \<and> pending v = pending w \<and> deactive v = deactive w"

lemma same_session_refl [simp]: "same_session w w"
  by (simp add: same_session_def)

lemma same_session_trans: "same_session u v \<Longrightarrow> same_session v w \<Longrightarrow> same_session u w"
  by (simp add: same_session_def)

lemma same_session_clean: "same_session v w \<Longrightarrow> clean w \<Longrightarrow> clean v"
  by (simp add: same_session_def clean_def)

definition leaves_session :: "'a comp \<Rightarrow> bool" where
  "leaves_session m \<longleftrightarrow> (\<forall>w. same_session (snd (m w)) w)"

lemma leaves_session_bind:
  assumes "leaves_session m" and "\<And>x. leaves_session (f x)" shows "leaves_session (bind m f)"
  unfolding leaves_session_def
proof
  fix w :: world
  obtain r v where m: "m w = (r, v)" by (cases "m w")
  then have v: "same_session v w" using assms(1) by (metis leaves_session_def snd_conv)
  show "same_session (snd (bind m f w)) w"
  proof (cases r)
    case (Inl e)
    with m v show ?thesis by (simp add: bind_def)
  next
    case (Inr x)
    have "same_session (snd (f x v)) v" using assms(2) by (simp add: leaves_session_def)
    with m Inr v show ?thesis by (simp add: bind_def same_session_trans)
  qed
qed

lemma leaves_session_primitives:
  "leaves_session (ret x)" "leaves_session (lift r)" "leaves_session (now env)"
  "leaves_session (try_accept_bid env i a b t)" "leaves_session (publish_bid_update env i s)"
  "leaves_session (publish_event env tp k v)"
  by (simp_all add: leaves_session_def same_session_def ret_def lift_def now_def try_accept_bid_def
      publish_bid_update_def publish_event_def Let_def split: sum.splits option.splits)

lemma leaves_session_announce: "leaves_session (announce_bid env r)"
  unfolding announce_bid_def
  by (intro leaves_session_bind leaves_session_primitives)
    (simp add: leaves_session_bind leaves_session_primitives)

text \<open>The reading of an envelope.\<close>

definition read_envelope :: "(string \<times> json) list \<Rightarrow> exn + uuid \<times> uuid \<times> uuid \<times> decimal" where
  "read_envelope data =
     bind_result (envelope_uuid data ''auction_id'') (\<lambda>i.
     bind_result (envelope_uuid data ''bid_id'') (\<lambda>bid_id.
     bind_result (envelope_uuid data ''bidder_id'') (\<lambda>bidder.
     bind_result (envelope_amount data) (\<lambda>amount. Inr (i, bid_id, bidder, amount)))))"

lemma decide_bid_run:
  "decide_bid env data p off w =
   (case read_envelope data of
      Inl e \<Rightarrow> (Inl e, w)
    | Inr (i, bid_id, bidder, amount) \<Rightarrow>
        bind (session_scope env (record_bid env bid_id i bidder amount p off)) (\<lambda>outcome.
          case outcome of None \<Rightarrow> ret None
          | Some (status, reason) \<Rightarrow>
              announce_bid env \<lparr>br_bid_id = bid_id, br_auction_id = i, br_bidder_id = bidder, br_amount = amount,
                br_status = status, br_reason = reason, br_decided_at = app_clock env (app_ticks w)\<rparr>)
          (w\<lparr>app_ticks := Suc (app_ticks w)\<rparr>))"
  by (simp add: decide_bid_def read_envelope_def step_simps bind_def [of "lift _"] lift_def split: sum.splits)

text \<open>What a decision does to the database, whatever it returns.\<close>

definition decided :: "env \<Rightarrow> (string \<times> json) list \<Rightarrow> int \<Rightarrow> int \<Rightarrow> world \<Rightarrow> string \<Rightarrow> string option \<Rightarrow> database \<Rightarrow> bool" where
  "decided env data p off w status reason db \<longleftrightarrow>
     (\<exists>i bid_id bidder amount. read_envelope data = Inr (i, bid_id, bidder, amount) \<and>
        verdict env (committed w) i amount = Inr (status, reason) \<and>
        integrity_ok (collate env) (bid_row env bid_id i bidder amount status p off) (committed w) \<and>
        db = insert_row (db_clock env (db_ticks w)) (bid_row env bid_id i bidder amount status p off) (committed w))"

lemma decide_bid_outcome:
  assumes ok: "schema_ok (collate env) (committed w)" and cl: "clean w"
    and run: "decide_bid env data p off w = (res, w')"
  shows "clean w' \<and>
    ((\<exists>status reason. decided env data p off w status reason (committed w') \<and>
        (\<forall>r. res = Inr (Some r) \<longrightarrow> br_status r = status \<and> br_reason r = reason) \<and> res \<noteq> Inr None) \<or>
     (committed w' = committed w \<and> (\<forall>r. res \<noteq> Inr (Some r))))"
proof (cases "read_envelope data")
  case (Inl e)
  then have "res = Inl e" "w' = w" using run by (simp_all add: decide_bid_run)
  then show ?thesis using cl by simp
next
  case (Inr x)
  obtain i bid_id bidder amount where x: "x = (i, bid_id, bidder, amount)" by (cases x)
  let ?w = "w\<lparr>app_ticks := Suc (app_ticks w)\<rparr>"
  have w: "clean ?w" "schema_ok (collate env) (committed ?w)" using cl ok by (simp_all add: clean_def)
  obtain res1 w1 where s: "session_scope env (record_bid env bid_id i bidder amount p off) ?w = (res1, w1)"
    by (cases "session_scope env (record_bid env bid_id i bidder amount p off) ?w")
  from record_bid_outcome [OF w(2,1) s] consider
    (stored) status reason where "res1 = Inr (Some (status, reason))" "verdict env (committed w) i amount = Inr (status, reason)"
      "integrity_ok (collate env) (bid_row env bid_id i bidder amount status p off) (committed w)"
      "w1 = ?w\<lparr>committed := insert_row (db_clock env (db_ticks w)) (bid_row env bid_id i bidder amount status p off) (committed w),
                   work := insert_row (db_clock env (db_ticks w)) (bid_row env bid_id i bidder amount status p off) (committed w),
                   db_ticks := Suc (db_ticks w)\<rparr>"
    | (unchanged) "w1 = ?w" "\<forall>x. res1 \<noteq> Inr (Some x)" by auto
  then show ?thesis
  proof cases
    case unchanged
    with run Inr x s w(1) show ?thesis
      by (cases res1) (auto simp: decide_bid_run bind_def ret_def split: option.splits)
  next
    case stored
    let ?r = "\<lparr>br_bid_id = bid_id, br_auction_id = i, br_bidder_id = bidder, br_amount = amount,
                br_status = status, br_reason = reason, br_decided_at = app_clock env (app_ticks w)\<rparr>"
    have run': "announce_bid env ?r w1 = (res, w')"
      using run Inr x s stored(1) by (simp add: decide_bid_run bind_def)
    have same: "same_session w' w1"
      using leaves_session_announce [of env ?r] run' unfolding leaves_session_def by (metis snd_conv)
    have "clean w1" using cl stored(4) by (simp add: clean_def)
    with same have clean: "clean w'" by (rule same_session_clean)
    have res: "res \<noteq> Inr None" "\<forall>r. res = Inr (Some r) \<longrightarrow> r = ?r"
      using run' by (auto simp: announce_bid_def bind_def ret_def split: prod.splits sum.splits if_splits)
    have "committed w' = insert_row (db_clock env (db_ticks w)) (bid_row env bid_id i bidder amount status p off) (committed w)"
      using same stored(4) by (simp add: same_session_def del: insert_row.simps)
    with Inr x stored(2,3) have "decided env data p off w status reason (committed w')"
      unfolding decided_def by blast
    moreover have "\<forall>r. res = Inr (Some r) \<longrightarrow> br_status r = status \<and> br_reason r = reason"
    proof (intro allI impI)
      fix r assume "res = Inr (Some r)"
      with res(2) have "r = ?r" by blast
      then show "br_status r = status \<and> br_reason r = reason" by simp
    qed
    ultimately show ?thesis using clean res(1) by blast
  qed
qed

section \<open>A decision implements the specification\<close>

text \<open>
  An amount with at most two decimals, as \<open>BidCreate\<close> admits them; a \<open>Numeric(12, 2)\<close> column
  that stores such an amount keeps its value.
\<close>

fun money :: "decimal \<Rightarrow> bool" where
  "money (Finite _ _ e) \<longleftrightarrow> -2 \<le> e"
| "money _ \<longleftrightarrow> False"

definition keeps_money :: "env \<Rightarrow> bool" where
  "keeps_money env \<longleftrightarrow> (\<forall>d. money d \<longrightarrow>
     is_finite (stored_numeric env d) \<and> finite_value (stored_numeric env d) = finite_value d)"

lemma money_finite: "money d \<Longrightarrow> is_finite d"
  by (cases d) auto

lemma keeps_moneyD:
  "keeps_money env \<Longrightarrow> money d \<Longrightarrow> is_finite (stored_numeric env d) \<and> finite_value (stored_numeric env d) = finite_value d"
  unfolding keeps_money_def by blast

abbreviation statuses_differ :: "env \<Rightarrow> bool" where
  "statuses_differ env \<equiv> \<not> sql_eq env ''rejected'' ''accepted''"

lemma accepted_bids_insert:
  "accepted_bids env j (insert_row t (bid_row env bid_id i bidder amount status p off) db) =
   accepted_bids env j db @
     (if i = j \<and> sql_eq env status ''accepted''
      then [(new_bid bid_id i bidder (stored_numeric env amount) status p off)\<lparr>b_created_at := t\<rparr>] else [])"
  by (simp add: accepted_bids_def bid_row_def new_bid_def)

lemma auctions_insert_bid [simp]:
  "auctions (insert_row t (bid_row env bid_id i bidder amount status p off) db) = auctions db"
  by (simp add: bid_row_def)

lemma high_value_insert:
  assumes "a_id a \<noteq> i \<or> \<not> sql_eq env status ''accepted''"
  shows "high_value env a (insert_row t (bid_row env bid_id i bidder amount status p off) db) = high_value env a db"
  using assms by (auto simp: high_value_def accepted_bids_insert)

lemma high_value_raise:
  assumes "a_id a = i" and "sql_eq env status ''accepted''"
    and "high_value env a db < finite_value (stored_numeric env amount)"
  shows "high_value env a (insert_row t (bid_row env bid_id i bidder amount status p off) db) =
         finite_value (stored_numeric env amount)"
proof -
  let ?F = "insert (finite_value (a_starting_price a)) (finite_value ` b_amount ` set (accepted_bids env (a_id a) db))"
  have "\<forall>y \<in> ?F. y < finite_value (stored_numeric env amount)"
    using assms(3) unfolding high_value_def by (subst (asm) Max_less_iff) auto
  then show ?thesis
    using assms(1,2) unfolding high_value_def
    by (intro Max_eqI) (auto simp: accepted_bids_insert new_bid_def less_imp_le)
qed

lemma high_value_bounds:
  "finite_value (a_starting_price a) \<le> high_value env a db"
  "b \<in> set (accepted_bids env (a_id a) db) \<Longrightarrow> finite_value (b_amount b) \<le> high_value env a db"
  unfolding high_value_def by (auto intro: Max_ge)

lemma verdict_accepted:
  assumes inv: "bidding_ok env db" and fin: "is_finite amount"
    and v: "verdict env db i amount = Inr (''accepted'', reason)"
  shows "\<exists>a. get_by_id a_id (auctions db) i = Some a \<and> a_status a = ''live'' \<and> high_value env a db < finite_value amount"
proof -
  from v obtain a where a: "get_by_id a_id (auctions db) i = Some a" "a_status a = ''live''"
    "decimal_gt amount (current_high env a db) = Some True"
    by (auto simp: verdict_def split: option.splits if_splits bool.splits)
  then have "a \<in> set (auctions db)" using get_by_id_SomeD by fastforce
  from current_high_value [OF inv this] fin a show ?thesis by auto
qed

lemma bidding_ok_insert:
  assumes inv: "bidding_ok env db" and keys: "distinct (map a_id (auctions db))"
    and m: "money amount" "keeps_money env" "statuses_differ env"
    and v: "verdict env db i amount = Inr (status, reason)"
    and ok: "integrity_ok (collate env) (bid_row env bid_id i bidder amount status p off) db"
  shows "bidding_ok env (insert_row t (bid_row env bid_id i bidder amount status p off) db)"
proof (cases "status = ''accepted''")
  case False
  then have "\<not> sql_eq env status ''accepted''" using verdict_statuses [OF v] m(3) by auto
  then show ?thesis using inv by (simp add: bidding_ok_def accepted_bids_insert del: insert_row.simps)
next
  case True
  from verdict_accepted [OF inv money_finite [OF m(1)]] v True obtain a where
    a: "get_by_id a_id (auctions db) i = Some a" and high: "high_value env a db < finite_value amount" by blast
  have val: "is_finite (stored_numeric env amount)" "finite_value (stored_numeric env amount) = finite_value amount"
    using keeps_moneyD [OF m(2,1)] by simp_all
  have pos: "0 < finite_value amount"
    using ok val by (simp add: bid_row_def new_bid_def)
  show ?thesis
    unfolding bidding_ok_def auctions_insert_bid
  proof (intro ballI)
    fix c assume c: "c \<in> set (auctions db)"
    let ?new = "(new_bid bid_id i bidder (stored_numeric env amount) status p off)\<lparr>b_created_at := t\<rparr>"
    have old: "is_finite (a_starting_price c)"
      "\<forall>b \<in> set (accepted_bids env (a_id c) db). is_finite (b_amount b) \<and> 0 < finite_value (b_amount b) \<and>
         finite_value (a_starting_price c) < finite_value (b_amount b)"
      "sorted_wrt (<) (map (finite_value \<circ> b_amount) (accepted_bids env (a_id c) db))"
      using inv c by (simp_all add: bidding_ok_def)
    have new: "is_finite (b_amount ?new)" "finite_value (b_amount ?new) = finite_value amount"
      using val by (simp_all add: new_bid_def)
    have above: "finite_value (a_starting_price c) < finite_value amount"
      "\<forall>b \<in> set (accepted_bids env (a_id c) db). finite_value (b_amount b) < finite_value amount" if "a_id c = i"
    proof -
      have "c = a" using that c a get_by_id_unique [OF keys c] by simp
      then show "finite_value (a_starting_price c) < finite_value amount"
        "\<forall>b \<in> set (accepted_bids env (a_id c) db). finite_value (b_amount b) < finite_value amount"
        using high high_value_bounds(1) [of a env db] high_value_bounds(2) [of _ env a db] by fastforce+
    qed
    show "is_finite (a_starting_price c) \<and>
      (\<forall>b \<in> set (accepted_bids env (a_id c) (insert_row t (bid_row env bid_id i bidder amount status p off) db)).
         is_finite (b_amount b) \<and> 0 < finite_value (b_amount b) \<and>
         finite_value (a_starting_price c) < finite_value (b_amount b)) \<and>
      sorted_wrt (<) (map (finite_value \<circ> b_amount)
        (accepted_bids env (a_id c) (insert_row t (bid_row env bid_id i bidder amount status p off) db)))"
      using old new pos above unfolding accepted_bids_insert
      by (cases "i = a_id c") (auto simp: True sorted_wrt_append)
  qed
qed

lemma abs_auction_insert:
  assumes inv: "bidding_ok env db" and m: "money amount" "keeps_money env" "statuses_differ env"
    and v: "verdict env db i amount = Inr (status, reason)"
  shows "abs_auction env (insert_row t (bid_row env bid_id i bidder amount status p off) db) j =
    (if j = i then map_option (\<lambda>s. snd (spec_bid (finite_value amount) s)) (abs_auction env db i)
     else abs_auction env db j)"
proof (cases "get_by_id a_id (auctions db) j")
  case None
  then show ?thesis by (auto simp: abs_auction_def)
next
  case (Some a)
  then have a: "a_id a = j" "a \<in> set (auctions db)" using get_by_id_SomeD [OF Some] by simp_all
  have val: "finite_value (stored_numeric env amount) = finite_value amount"
    using keeps_moneyD [OF m(2,1)] by simp
  consider (other) "j \<noteq> i" | (rejected) "j = i" "\<not> sql_eq env status ''accepted''" "status = ''rejected''"
    | (accepted) "j = i" "status = ''accepted''"
    using verdict_statuses [OF v] m(3) by auto
  then show ?thesis
  proof cases
    case other
    with Some a show ?thesis by (simp add: abs_auction_def high_value_insert del: insert_row.simps)
  next
    case rejected
    then have "\<not> fst (spec_bid (finite_value amount) \<lparr>sp_live = (a_status a = ''live''), sp_high = high_value env a db\<rparr>)"
      using verdict_refines [OF inv money_finite [OF m(1)], of i] v Some a
      by (auto simp: abs_auction_def split: if_splits)
    with Some a rejected show ?thesis
      by (simp add: abs_auction_def high_value_insert spec_bid_def del: insert_row.simps split: if_splits)
  next
    case accepted
    then have "a_status a = ''live''" "high_value env a db < finite_value amount"
      using verdict_accepted [OF inv money_finite [OF m(1)], of i reason] v Some a by auto
    with accepted Some a val show ?thesis
      by (simp add: abs_auction_def high_value_raise spec_bid_def del: insert_row.simps)
  qed
qed

section \<open>Decisions in sequence\<close>

text \<open>The amount of an envelope, where it can be read.\<close>

definition money_envelope :: "(string \<times> json) list \<Rightarrow> bool" where
  "money_envelope data \<longleftrightarrow> (case read_envelope data of Inl _ \<Rightarrow> True | Inr (_, _, _, amount) \<Rightarrow> money amount)"

text \<open>What the bidding path relies on: the tables' constraints and the rising prices.\<close>

definition market_ok :: "env \<Rightarrow> database \<Rightarrow> bool" where
  "market_ok env db \<longleftrightarrow> schema_ok (collate env) db \<and> bidding_ok env db"

lemma decided_market_ok:
  assumes "market_ok env (committed w)" and "money_envelope data" "keeps_money env" "statuses_differ env"
    and "decided env data p off w status reason db"
  shows "market_ok env db"
  using assms bidding_ok_insert bids_ok_auctions schema.insert_keeps
  unfolding decided_def market_ok_def money_envelope_def by fastforce

lemma decide_bid_market:
  assumes "market_ok env (committed w)" and "clean w"
    and "money_envelope data" "keeps_money env" "statuses_differ env"
    and run: "decide_bid env data p off w = (res, w')"
  shows "market_ok env (committed w') \<and> clean w'"
proof -
  have ok: "schema_ok (collate env) (committed w)" using assms(1) by (simp add: market_ok_def)
  from decide_bid_outcome [OF ok assms(2) run] show ?thesis
    using assms(1) decided_market_ok [OF assms(1,3,4,5)] by auto
qed

lemma decide_bid_spec:
  assumes inv: "market_ok env (committed w)" and cl: "clean w"
    and read: "read_envelope data = Inr (i, bid_id, bidder, amount)"
    and m: "money amount" "keeps_money env" "statuses_differ env"
    and run: "decide_bid env data p off w = (Inr (Some r), w')"
  shows "\<exists>s. abs_auction env (committed w) i = Some s \<and>
    (br_status r = ''accepted'' \<longleftrightarrow> fst (spec_bid (finite_value amount) s)) \<and>
    (\<forall>j. abs_auction env (committed w') j =
         (if j = i then Some (snd (spec_bid (finite_value amount) s)) else abs_auction env (committed w) j))"
proof -
  have ok: "schema_ok (collate env) (committed w)" and bid: "bidding_ok env (committed w)"
    using inv by (simp_all add: market_ok_def)
  from decide_bid_outcome [OF ok cl run] obtain status reason where
    d: "decided env data p off w status reason (committed w')" and r: "br_status r = status" by auto
  then have v: "verdict env (committed w) i amount = Inr (status, reason)"
    and fkey: "integrity_ok (collate env) (bid_row env bid_id i bidder amount status p off) (committed w)"
    and db: "committed w' = insert_row (db_clock env (db_ticks w)) (bid_row env bid_id i bidder amount status p off) (committed w)"
    using read by (auto simp: decided_def)
  from fkey have "i \<in> a_id ` set (auctions (committed w))" by (simp add: bid_row_def new_bid_def)
  then obtain s where s: "abs_auction env (committed w) i = Some s"
    using get_by_id_None_iff [of a_id "auctions (committed w)" i] by (auto simp: abs_auction_def)
  have "br_status r = ''accepted'' \<longleftrightarrow> fst (spec_bid (finite_value amount) s)"
    using verdict_refines [OF bid money_finite [OF m(1)], of i] v s r by (auto split: if_splits)
  then show ?thesis
    using s abs_auction_insert [OF bid m v] by (simp add: db del: insert_row.simps)
qed

text \<open>A message whose position is stored already changes nothing.\<close>

lemma decide_bid_replay:
  assumes ok: "schema_ok (collate env) (committed w)" and cl: "clean w"
    and read: "read_envelope data = Inr (i, bid_id, bidder, amount)"
    and fin: "verdict env (committed w) i amount = Inr (status, reason)"
    and val: "\<not> rejects_value env (RBid (new_bid bid_id i bidder amount status p off))"
    and seen: "b \<in> set (bids (committed w))" "b_kafka_partition b = Some p" "b_kafka_offset b = Some off"
  shows "decide_bid env data p off w =
    (case failed_session env of None \<Rightarrow> Inr None | Some e \<Rightarrow> Inl e, w\<lparr>app_ticks := Suc (app_ticks w)\<rparr>)"
proof -
  let ?w = "w\<lparr>app_ticks := Suc (app_ticks w)\<rparr>"
  have "(Some p, Some off) \<in> (\<lambda>x. (b_kafka_partition x, b_kafka_offset x)) ` set (bids (committed w))"
    using seen by force
  then have "\<not> integrity_ok (collate env) (bid_row env bid_id i bidder amount status p off) (committed ?w)"
    by (simp add: bid_row_def new_bid_def)
  from record_bid_violation [OF _ _ _ _ this] ok cl fin val
  have "session_scope env (record_bid env bid_id i bidder amount p off) ?w =
      (case failed_session env of None \<Rightarrow> Inr None | Some e \<Rightarrow> Inl e, ?w)"
    by (simp add: clean_def)
  then show ?thesis using read by (simp add: decide_bid_run bind_def ret_def split: option.splits)
qed

text \<open>Nothing is cached, broadcast or published before the row is committed.\<close>

definition announced :: "world \<Rightarrow> world \<Rightarrow> bool" where
  "announced w w' \<longleftrightarrow> redis_bids w' \<noteq> redis_bids w \<or> redis_published w' \<noteq> redis_published w \<or> kafka_log w' \<noteq> kafka_log w"

lemma decide_bid_announces:
  assumes ok: "schema_ok (collate env) (committed w)" and cl: "clean w"
    and run: "decide_bid env data p off w = (res, w')" and new: "announced w w'"
  shows "\<exists>b \<in> set (bids (committed w')). b_kafka_partition b = Some p \<and> b_kafka_offset b = Some off"
proof (cases "\<exists>status reason. decided env data p off w status reason (committed w')")
  case True
  then show ?thesis by (auto simp: decided_def bid_row_def new_bid_def)
next
  case False
  show ?thesis
  proof (cases "read_envelope data")
    case (Inl e)
    with run new show ?thesis by (simp add: decide_bid_run announced_def)
  next
    case (Inr x)
    obtain i bid_id bidder amount where x: "x = (i, bid_id, bidder, amount)" by (cases x)
    let ?w = "w\<lparr>app_ticks := Suc (app_ticks w)\<rparr>"
    have w: "clean ?w" "schema_ok (collate env) (committed ?w)" using cl ok by (simp_all add: clean_def)
    obtain res1 w1 where s: "session_scope env (record_bid env bid_id i bidder amount p off) ?w = (res1, w1)"
      by (cases "session_scope env (record_bid env bid_id i bidder amount p off) ?w")
    have "\<nexists>x. res1 = Inr (Some x)"
    proof
      assume "\<exists>x. res1 = Inr (Some x)"
      with record_bid_outcome [OF w(2,1) s] obtain status reason where
        "verdict env (committed w) i amount = Inr (status, reason)" "res1 = Inr (Some (status, reason))"
        "integrity_ok (collate env) (bid_row env bid_id i bidder amount status p off) (committed w)"
        "committed w1 = insert_row (db_clock env (db_ticks w)) (bid_row env bid_id i bidder amount status p off) (committed w)"
        by auto
      moreover from this(2) run Inr x s have "\<exists>r. announce_bid env r w1 = (res, w')"
        by (auto simp: decide_bid_run bind_def)
      then have "committed w' = committed w1"
        using leaves_session_announce unfolding leaves_session_def same_session_def by (metis snd_conv)
      ultimately show False using False Inr x unfolding decided_def by metis
    qed
    with record_bid_outcome [OF w(2,1) s] run Inr x s have "w' = ?w"
      by (cases res1) (auto simp: decide_bid_run bind_def ret_def split: option.splits)
    with new show ?thesis by (simp add: announced_def)
  qed
qed

end
