(* ===== verification/Bid_Submission.thy ===== *)
theory Bid_Submission
  imports Bid_Laws
begin

text \<open>
  The request side of bidding: what \<open>submit_bid\<close> publishes and when, what the worker reads
  back from the event, and the highest-bid cache that \<open>try_accept_bid\<close> maintains.
\<close>

section \<open>Submission\<close>

definition bid_eligible :: "uuid \<Rightarrow> database \<Rightarrow> bool" where
  "bid_eligible uid db \<longleftrightarrow> (\<exists>r \<in> set (roles_held uid db). r_name r \<in> set REQUIRED_BID_ROLES)"

definition submitted_message :: "env \<Rightarrow> uuid \<Rightarrow> uuid \<Rightarrow> decimal \<Rightarrow> world \<Rightarrow> kafka_message" where
  "submitted_message env i bidder amount w =
     \<lparr>km_topic = kafka_topic_bids (settings env), km_key = uuid_text i,
      km_value = json_dumps env (JObj (bid_envelope (uuid_source env (uuids_drawn w)) i bidder amount
        (isoformat env (app_clock env (app_ticks w)))))\<rparr>"

lemma get_live_auction_run:
  assumes "schema_ok coll (work w)" and "\<not> deactive w"
  shows "get_live_auction env i w =
    (case get_by_id a_id (auctions (work w)) i of
       None \<Rightarrow> Inl (AuctionNotFoundError i)
     | Some a \<Rightarrow> if a_status a \<noteq> ''live'' then Inl (AuctionNotLiveError i (a_status a)) else Inr a, w)"
  using assms
  by (simp add: get_live_auction_def get_auction_def step_simps auction_lookup [OF bids_ok_auctions] ret_def throw_def
      split: option.splits)

lemma eligibility_iff:
  "validate_bid_eligibility (map r_name (order_by k (roles_held uid db))) amount =
   (if bid_eligible uid db then Inr ()
    else Inl (BidNotEligibleError ''Only Buyer or AuctionsHead roles may place bids (BRD R088)''))"
  by (auto simp: validate_bid_eligibility_def bid_eligible_def list_ex_iff REQUIRED_BID_ROLES_def)

lemma submit_bid_run:
  assumes ok: "schema_ok coll (work w)" and cl: "\<not> deactive w"
  shows "submit_bid env i u amount w =
    (case get_by_id a_id (auctions (work w)) i of
       None \<Rightarrow> (Inl (AuctionNotFoundError i), w)
     | Some a \<Rightarrow>
         if a_status a \<noteq> ''live'' then (Inl (AuctionNotLiveError i (a_status a)), w)
         else if \<not> bid_eligible (u_id u) (work w)
         then (Inl (BidNotEligibleError ''Only Buyer or AuctionsHead roles may place bids (BRD R088)''), w)
         else if kafka_accepts env (kafka_sends w)
         then (Inr \<lparr>ba_bid_id = uuid_source env (uuids_drawn w), ba_auction_id = i, ba_status = ''received'',
                    ba_submitted_at = app_clock env (app_ticks w)\<rparr>,
               w\<lparr>app_ticks := Suc (app_ticks w), uuids_drawn := Suc (uuids_drawn w), kafka_sends := Suc (kafka_sends w),
                 kafka_log := kafka_log w @ [submitted_message env i (u_id u) amount w]\<rparr>)
         else (Inl BidPublishError,
               w\<lparr>app_ticks := Suc (app_ticks w), uuids_drawn := Suc (uuids_drawn w), kafka_sends := Suc (kafka_sends w)\<rparr>))"
proof (cases "get_by_id a_id (auctions (work w)) i")
  case None
  then have "get_live_auction env i w = (Inl (AuctionNotFoundError i), w)"
    by (simp add: get_live_auction_run [OF ok cl])
  then have "submit_bid env i u amount w = (Inl (AuctionNotFoundError i), w)"
    unfolding submit_bid_def by (rule bind_error)
  with None show ?thesis by simp
next
  case (Some a)
  show ?thesis
  proof (cases "a_status a = ''live''")
    case False
    with Some have "get_live_auction env i w = (Inl (AuctionNotLiveError i (a_status a)), w)"
      by (simp add: get_live_auction_run [OF ok cl])
    then have "submit_bid env i u amount w = (Inl (AuctionNotLiveError i (a_status a)), w)"
      unfolding submit_bid_def by (rule bind_error)
    with Some False show ?thesis by simp
  next
    case True
    with Some have "get_live_auction env i w = (Inr a, w)"
      by (simp add: get_live_auction_run [OF ok cl])
    with Some True cl show ?thesis
      by (simp add: submit_bid_def bind_value [of "get_live_auction env i"] get_user_roles_def step_simps eligibility_iff
          catch_def bind_def [of "catch _ _"] publish_event_def ret_def throw_def submitted_message_def Let_def)
  qed
qed

section \<open>The event as the worker reads it\<close>

lemma read_bid_envelope:
  "is_finite amount \<Longrightarrow> read_envelope (bid_envelope bid_id i bidder amount ts) = Inr (i, bid_id, bidder, amount)"
  by (simp add: read_envelope_def bid_envelope_def envelope_uuid_def envelope_amount_def
      del: uuid_of_json.simps decimal_of_json.simps)

lemma parse_bid_envelope_text:
  assumes "json_loads env raw = Json_Value (JObj (bid_envelope bid_id i bidder amount ts))" and "is_finite amount"
  shows "parse_bid_envelope env raw = Inr (bid_envelope bid_id i bidder amount ts)"
  using assms by (simp add: parse_bid_envelope_def REQUIRED_ENVELOPE_FIELDS_def ENVELOPE_UUID_FIELDS_def
      bid_envelope_def get_key_def del: uuid_of_json.simps decimal_of_json.simps)

lemma check_uuid_fieldsD:
  "check_uuid_fields data fs = Inr () \<Longrightarrow> f \<in> set fs \<Longrightarrow> \<exists>u. uuid_of_str (get_key data f JNull) = Inr u"
  by (induction fs) (auto split: sum.splits)

text \<open>
  An envelope that parses has its fields and a numeric amount; if the identifiers are JSON
  strings, as \<open>submit_bid\<close> writes them, the decision can read all of it.
\<close>

lemma parse_then_read:
  assumes p: "parse_bid_envelope env raw = Inr data"
    and str: "\<forall>f \<in> set ENVELOPE_UUID_FIELDS. \<exists>s. map_of data f = Some (JStr s)"
  shows "\<exists>x. read_envelope data = Inr x"
proof -
  from p obtain d where "map_of data ''amount'' \<noteq> None" "decimal_of_json (get_key data ''amount'' JNull) = Inr d"
    and u: "check_uuid_fields data ENVELOPE_UUID_FIELDS = Inr ()"
    by (auto simp: parse_bid_envelope_def REQUIRED_ENVELOPE_FIELDS_def Let_def filter_empty_conv
        split: json_outcome.splits json.splits if_splits sum.splits conversion_error.splits)
  then have "\<exists>d. envelope_amount data = Inr d"
    by (auto simp: envelope_amount_def get_key_def split: option.splits)
  moreover have "\<exists>v. envelope_uuid data f = Inr v" if "f \<in> set ENVELOPE_UUID_FIELDS" for f
  proof -
    from str that obtain s where s: "map_of data f = Some (JStr s)" by blast
    with check_uuid_fieldsD [OF u that] show ?thesis
      by (auto simp: envelope_uuid_def get_key_def uuid_conversions_agree simp del: uuid_of_json.simps)
  qed
  ultimately show ?thesis
    by (fastforce simp: read_envelope_def ENVELOPE_UUID_FIELDS_def)
qed

section \<open>The cache of highest bids\<close>

text \<open>The amount the cache holds for an auction, \<open>0\<close> without an entry.\<close>

definition cached_amount :: "env \<Rightarrow> world \<Rightarrow> string \<Rightarrow> rat option" where
  "cached_amount env w auction_id =
     lua_tonumber env (case redis_bids w (highest_bid_key auction_id) of None \<Rightarrow> ''0'' | Some b \<Rightarrow> rb_amount b)"

lemma highest_bid_key_inject [simp]: "highest_bid_key a = highest_bid_key b \<longleftrightarrow> a = b"
  by (simp add: highest_bid_key_def)

lemma try_accept_bid_effect:
  assumes "try_accept_bid env i amount bidder ts w = (Inr stored, w')"
  shows "\<exists>a c. lua_tonumber env amount = Some a \<and> cached_amount env w i = Some c \<and> (stored \<longleftrightarrow> c < a) \<and>
    cached_amount env w' i = Some (if c < a then a else c) \<and>
    (\<forall>j. j \<noteq> i \<longrightarrow> redis_bids w' (highest_bid_key j) = redis_bids w (highest_bid_key j))"
proof -
  let ?new = "\<lparr>rb_amount = amount, rb_bidder_id = bidder, rb_ts = ts\<rparr>"
  from assms have live: "redis_answers env (redis_calls w)" by (auto simp: try_accept_bid_def Let_def split: if_splits)
  with assms obtain a c where val: "lua_tonumber env amount = Some a" "cached_amount env w i = Some c"
    by (auto simp: try_accept_bid_def bid_arbitration_def cached_amount_def Let_def split: option.splits)
  then have "bid_arbitration env (redis_bids w (highest_bid_key i)) ?new = Inr (if c < a then Some ?new else None)"
    by (simp add: bid_arbitration_def cached_amount_def Let_def)
  with assms live have w': "stored \<longleftrightarrow> c < a"
    "redis_bids w' = (if c < a then (redis_bids w)(highest_bid_key i \<mapsto> ?new) else redis_bids w)"
    by (auto simp: try_accept_bid_def Let_def split: if_splits)
  then have "cached_amount env w' i = Some (if c < a then a else c)"
    using val by (simp add: cached_amount_def)
  with val w' show ?thesis by auto
qed

lemma try_accept_bid_error:
  "try_accept_bid env i amount bidder ts w = (Inl e, w') \<Longrightarrow> redis_bids w' = redis_bids w"
  by (auto simp: try_accept_bid_def Let_def split: if_splits sum.splits option.splits)

text \<open>Bids offered to the cache one after the other, failures included.\<close>

fun offer_bids :: "env \<Rightarrow> string \<Rightarrow> (string \<times> string \<times> string) list \<Rightarrow> world \<Rightarrow> world" where
  "offer_bids env i [] w = w"
| "offer_bids env i ((amount, bidder, ts) # xs) w =
     offer_bids env i xs (snd (try_accept_bid env i amount bidder ts w))"

lemma offer_bids_monotone:
  "cached_amount env w i = Some c \<Longrightarrow> \<exists>d. cached_amount env (offer_bids env i xs w) i = Some d \<and> c \<le> d"
proof (induction xs arbitrary: w c)
  case Nil
  then show ?case by simp
next
  case (Cons x xs)
  obtain amount bidder ts where x: "x = (amount, bidder, ts)" by (cases x)
  obtain r v where run: "try_accept_bid env i amount bidder ts w = (r, v)" by (cases "try_accept_bid env i amount bidder ts w")
  have "\<exists>c'. cached_amount env v i = Some c' \<and> c \<le> c'"
  proof (cases r)
    case (Inl e)
    with try_accept_bid_error [of env i amount bidder ts w e v] run have "redis_bids v = redis_bids w" by simp
    with Cons.prems show ?thesis by (simp add: cached_amount_def)
  next
    case (Inr b)
    with try_accept_bid_effect run Cons.prems show ?thesis by fastforce
  qed
  with Cons.IH x run show ?case by fastforce
qed

end
