(* ===== verification/Bid_Properties.thy ===== *)
theory Bid_Properties
  imports Bid_Submission Sample_World
begin

text \<open>
  The properties of bidding, each with an instance on the sample world.
\<close>

section \<open>A world for the instances\<close>

text \<open>One bid of 150.00 on the live auction of the sample database, and stand-ins for JSON and Lua.\<close>

definition sample_envelope :: "(string \<times> json) list" where
  "sample_envelope = bid_envelope 1000 41 11 (Finite False 15000 (-2)) ''iso''"

definition bid_env :: env where
  "bid_env = sample_env\<lparr>
     json_loads := (\<lambda>s. if s = ''json'' then Json_Value (JObj sample_envelope) else Json_Decode_Error),
     lua_tonumber := (\<lambda>s. map_option finite_value (decimal_of_text s))\<rparr>"

lemma bid_env_simps [simp]:
  "collate bid_env = lower" "rejects_value bid_env r = False" "stored_numeric bid_env d = d"
  "failed_session bid_env = Some PendingRollbackError" "redis_answers bid_env n" "kafka_accepts bid_env n"
  "lua_tonumber bid_env s = map_option finite_value (decimal_of_text s)"
  by (simp_all add: bid_env_def sample_env_def)

lemma sample_rows [simp]:
  "bids sample_db = []" "auctions sample_db = [sample_auction 41 ''live'', sample_auction 42 ''ended'']"
  "map u_id (users sample_db) = [11, 12]"
  by (simp_all add: sample_db_def sample_user_def empty_database_def)

lemma sample_cents [simp]: "pow10 (-2) = 1 / 100" "pow10 0 = 1"
  by (simp_all add: pow10_def)

lemma sample_market [simp]: "market_ok bid_env sample_db"
  using sample_schema_ok
  by (simp add: market_ok_def bidding_ok_def accepted_bids_def sample_auction_def sample_env_def)

lemma sample_committed_market [simp]: "market_ok bid_env (committed sample_world)"
  by simp

lemma sample_differ [simp]: "statuses_differ bid_env"
  by (simp add: sql_eq_def lower_def) code_simp

lemma sample_keeps_money [simp]: "keeps_money bid_env"
  by (simp add: keeps_money_def money_finite)

lemma sample_read: "read_envelope sample_envelope = Inr (41, 1000, 11, Finite False 15000 (-2))"
  unfolding sample_envelope_def by (rule read_bid_envelope) simp

lemma sample_verdict: "verdict bid_env sample_db 41 (Finite False 15000 (-2)) = Inr (''accepted'', None)"
  by (simp add: verdict_def get_by_id_def sample_auction_def current_high_def highest_accepted_def)

lemma sample_integrity:
  "integrity_ok (collate bid_env) (bid_row bid_env 1000 41 11 (Finite False 15000 (-2)) ''accepted'' 0 7) sample_db"
  by (simp add: bid_row_def new_bid_def BID_STATUSES_def sample_auction_def sample_db_def sample_user_def empty_database_def)

definition sample_result :: bid_result where
  "sample_result = \<lparr>br_bid_id = 1000, br_auction_id = 41, br_bidder_id = 11, br_amount = Finite False 15000 (-2),
     br_status = ''accepted'', br_reason = None, br_decided_at = 0\<rparr>"

definition sample_decided :: world where
  "sample_decided = snd (decide_bid bid_env sample_envelope 0 7 sample_world)"

lemma sample_zero: "decimal_of_text ''0'' = Some (Finite False 0 0)"
  by code_simp

lemma sample_decide_run:
  "fst (decide_bid bid_env sample_envelope 0 7 sample_world) = Inr (Some sample_result) \<and> length (kafka_log sample_decided) = 1"
proof -
  let ?w = "sample_world\<lparr>app_ticks := Suc (app_ticks sample_world)\<rparr>"
  have "schema_ok (collate bid_env) (committed ?w)" using sample_market by (simp add: market_ok_def)
  moreover have "clean ?w" using sample_clean by (simp add: clean_def)
  ultimately obtain v where s: "session_scope bid_env (record_bid bid_env 1000 41 11 (Finite False 15000 (-2)) 0 7) ?w =
      (Inr (Some (''accepted'', None)), v)"
    and v: "redis_bids v = redis_bids sample_world" "kafka_log v = kafka_log sample_world"
    using record_bid_stored [of bid_env ?w 41 "Finite False 15000 (-2)" "''accepted''" None 1000 11 0 7]
      sample_verdict sample_integrity by simp
  have "fst (announce_bid bid_env sample_result v) = Inr (Some sample_result) \<and>
      length (kafka_log (snd (announce_bid bid_env sample_result v))) = 1"
    using v by (simp add: announce_bid_def bind_def try_accept_bid_def bid_arbitration_def publish_bid_update_def
        publish_event_def ret_def Let_def sample_result_def sample_world_def initial_world_def sample_zero
        decimal_round_trip del: decimal_text.simps)
  moreover have "decide_bid bid_env sample_envelope 0 7 sample_world = announce_bid bid_env sample_result v"
    using s by (simp add: decide_bid_run sample_read bind_def sample_result_def) (simp add: bid_env_def sample_env_def
        sample_world_def initial_world_def)
  ultimately show ?thesis by (simp add: sample_decided_def)
qed

lemma sample_decides: "decide_bid bid_env sample_envelope 0 7 sample_world = (Inr (Some sample_result), sample_decided)"
  using sample_decide_run by (simp add: sample_decided_def prod_eq_iff)


section \<open>Submission\<close>

text \<open>C12. Submitting a bid succeeds exactly when the auction exists and is live, the user holds a
  bidding role among all assigned roles and the broker takes the event; it then publishes one
  message, on the bids topic and keyed by the auction, and otherwise publishes nothing. It
  never writes the database.\<close>

theorem submit_bid_publishes:
  assumes ok: "schema_ok (collate env) (committed w)" and cl: "clean w"
    and run: "submit_bid env i u amount w = (res, w')"
  shows "((\<exists>acc. res = Inr acc) \<longleftrightarrow>
      (\<exists>a. get_by_id a_id (auctions (committed w)) i = Some a \<and> a_status a = ''live'') \<and>
      (\<exists>r \<in> set (roles_held (u_id u) (committed w)). r_name r \<in> set REQUIRED_BID_ROLES) \<and>
      kafka_accepts env (kafka_sends w)) \<and>
    kafka_log w' = kafka_log w @ (case res of Inl _ \<Rightarrow> [] | Inr _ \<Rightarrow> [submitted_message env i (u_id u) amount w]) \<and>
    committed w' = committed w \<and> work w' = work w \<and> pending w' = pending w"
proof -
  have same: "work w = committed w" and act: "\<not> deactive w" using cl by (simp_all add: clean_def)
  have ok': "schema_ok (collate env) (work w)" using ok same by simp
  show ?thesis
    using run submit_bid_run [OF ok' act, of env i u amount] same
    by (cases "get_by_id a_id (auctions (committed w)) i") (auto simp: bid_eligible_def split: if_splits)
qed

definition sample_submission :: "(exn + bid_accepted) \<times> world" where
  "sample_submission = submit_bid bid_env 41 (sample_user 11 ''ann@x.ae'' ''pw1'' 1) (Finite False 15000 (-2)) sample_world"

lemma sample_eligible: "bid_eligible 11 sample_db"
  by code_simp

lemma sample_submits:
  "submit_bid bid_env 41 (sample_user 11 ''ann@x.ae'' ''pw1'' 1) (Finite False 15000 (-2)) sample_world =
   (Inr \<lparr>ba_bid_id = 1000, ba_auction_id = 41, ba_status = ''received'', ba_submitted_at = 0\<rparr>, snd sample_submission)"
proof -
  have "fst sample_submission = Inr \<lparr>ba_bid_id = 1000, ba_auction_id = 41, ba_status = ''received'', ba_submitted_at = 0\<rparr>"
    using submit_bid_run [of lower sample_world bid_env 41 "sample_user 11 ''ann@x.ae'' ''pw1'' 1"] sample_market sample_eligible
    by (simp add: sample_submission_def market_ok_def sample_world_def initial_world_def get_by_id_def sample_auction_def
        sample_user_def) (simp add: bid_env_def sample_env_def)
  then show ?thesis by (metis prod.collapse sample_submission_def)
qed

theorem submit_bid_publishes_witness:
  "kafka_log (snd sample_submission) = [\<lparr>km_topic = ''auction.bids'', km_key = uuid_text 41, km_value = ''json''\<rparr>]"
proof -
  have "schema_ok (collate bid_env) (committed sample_world)" using sample_market by (simp add: market_ok_def)
  from submit_bid_publishes [OF this sample_clean sample_submits]
  show ?thesis
    by (simp add: submitted_message_def bid_env_def sample_env_def sample_settings_def default_settings_def
        sample_world_def initial_world_def)
qed

text \<open>C15. The event that a submission publishes is read back by the worker as the same auction,
  bid, bidder and exact amount, provided that JSON decoding inverts JSON encoding.\<close>

theorem submitted_bid_round_trip:
  assumes ok: "schema_ok (collate env) (committed w)" and cl: "clean w"
    and run: "submit_bid env i u amount w = (Inr acc, w')"
    and valid: "validate_bid_create amount = Inr a"
    and json: "json_loads env (json_dumps env (JObj (bid_envelope (ba_bid_id acc) i (u_id u) amount
                 (isoformat env (ba_submitted_at acc))))) =
               Json_Value (JObj (bid_envelope (ba_bid_id acc) i (u_id u) amount (isoformat env (ba_submitted_at acc))))"
  shows "\<exists>m data. kafka_log w' = kafka_log w @ [m] \<and> km_key m = uuid_text i \<and>
    parse_bid_envelope env (km_value m) = Inr data \<and>
    read_envelope data = Inr (i, ba_bid_id acc, u_id u, amount)"
proof -
  have same: "schema_ok (collate env) (work w)" and act: "\<not> deactive w" using ok cl by (simp_all add: clean_def)
  have fin: "is_finite amount" using valid by (cases amount) auto
  let ?m = "submitted_message env i (u_id u) amount w"
  from run submit_bid_run [OF same act, of env i u amount]
  have acc: "ba_bid_id acc = uuid_source env (uuids_drawn w)" "ba_submitted_at acc = app_clock env (app_ticks w)"
    and log: "kafka_log w' = kafka_log w @ [?m]"
    by (auto split: option.splits if_splits)
  have "parse_bid_envelope env (km_value ?m) =
      Inr (bid_envelope (ba_bid_id acc) i (u_id u) amount (isoformat env (ba_submitted_at acc)))"
    by (rule parse_bid_envelope_text) (use json acc fin in \<open>simp_all add: submitted_message_def\<close>)
  moreover have "km_key ?m = uuid_text i" by (simp add: submitted_message_def)
  ultimately show ?thesis using log read_bid_envelope [OF fin] by blast
qed

theorem submitted_bid_round_trip_witness:
  "\<exists>m data. kafka_log (snd sample_submission) = [m] \<and> parse_bid_envelope bid_env (km_value m) = Inr data \<and>
     read_envelope data = Inr (41, 1000, 11, Finite False 15000 (-2))"
proof -
  have ok: "schema_ok (collate bid_env) (committed sample_world)" using sample_market by (simp add: market_ok_def)
  have iso: "isoformat bid_env 0 = ''iso''" and dumps: "json_dumps bid_env v = ''json''" for v
    by (simp_all add: bid_env_def sample_env_def)
  have loads: "json_loads bid_env ''json'' = Json_Value (JObj sample_envelope)" by (simp add: bid_env_def)
  have valid: "validate_bid_create (Finite False 15000 (-2)) = Inr (Finite False 15000 (-2))" by simp
  have "kafka_log sample_world = []" by (simp add: sample_world_def initial_world_def)
  then show ?thesis
    using submitted_bid_round_trip [OF ok sample_clean sample_submits valid] loads
    by (simp add: iso dumps sample_user_def sample_envelope_def) blast
qed

section \<open>Decisions\<close>



text \<open>Every decision keeps the invariant of the market, whatever it returns or raises: the
  keys and constraints of the tables, at most one bid per message position, and accepted
  amounts of an auction that exceed its starting price and rise strictly.\<close>

theorem decide_bid_invariant:
  assumes "market_ok env (committed w)" and "clean w"
    and "money_envelope data" "keeps_money env" "statuses_differ env"
  shows "market_ok env (committed (snd (decide_bid env data p off w))) \<and> clean (snd (decide_bid env data p off w))"
  using decide_bid_market [OF assms] by (metis prod.collapse)

theorem decide_bid_invariant_witness:
  "market_ok bid_env (committed sample_decided) \<and> length (accepted_bids bid_env 41 (committed sample_decided)) = 1"
proof -
  have "money_envelope sample_envelope" by (simp add: money_envelope_def sample_read)
  from decide_bid_invariant [OF sample_committed_market sample_clean this, of 0 7]
  have inv: "market_ok bid_env (committed sample_decided)" by (simp add: sample_decided_def)
  have ok: "schema_ok (collate bid_env) (committed sample_world)" using sample_market by (simp add: market_ok_def)
  have none: "accepted_bids bid_env 41 sample_db = []" by (simp add: accepted_bids_def)
  from decide_bid_outcome [OF ok sample_clean sample_decides]
  obtain status reason where d: "decided bid_env sample_envelope 0 7 sample_world status reason (committed sample_decided)"
    and "status = ''accepted''" by (auto simp: sample_result_def)
  then have "length (accepted_bids bid_env 41 (committed sample_decided)) = 1"
    using accepted_bids_insert [of bid_env 41] none
    by (simp add: decided_def sample_read del: insert_row.simps integrity_ok.simps)
  with inv show ?thesis by simp
qed

text \<open>Replaying a message whose position is stored has no effect: the database, the cache,
  the broadcasts and the result events are as before. What the call gives its caller is
  whatever closing the failed session gives: \<open>None\<close>, or the exception of its commit.\<close>

theorem decide_bid_replay_no_effect:
  assumes ok: "schema_ok (collate env) (committed w)" and cl: "clean w"
    and read: "read_envelope data = Inr (i, bid_id, bidder, amount)"
    and verdict: "verdict env (committed w) i amount = Inr (status, reason)"
    and val: "\<not> rejects_value env (RBid (new_bid bid_id i bidder amount status p off))"
    and seen: "b \<in> set (bids (committed w))" "b_kafka_partition b = Some p" "b_kafka_offset b = Some off"
  shows "decide_bid env data p off w =
    (case failed_session env of None \<Rightarrow> Inr None | Some e \<Rightarrow> Inl e, w\<lparr>app_ticks := Suc (app_ticks w)\<rparr>)"
  by (rule decide_bid_replay [OF assms])

lemma sample_decided_row:
  "\<exists>b \<in> set (bids (committed sample_decided)). b_kafka_partition b = Some 0 \<and> b_kafka_offset b = Some 7"
proof -
  have ok: "schema_ok (collate bid_env) (committed sample_world)" using sample_market by (simp add: market_ok_def)
  from decide_bid_outcome [OF ok sample_clean sample_decides]
  obtain status reason where "decided bid_env sample_envelope 0 7 sample_world status reason (committed sample_decided)" by auto
  then show ?thesis by (auto simp: decided_def bid_row_def new_bid_def)
qed

lemma sample_decided_market: "market_ok bid_env (committed sample_decided)" "clean sample_decided"
  using decide_bid_market [OF sample_committed_market sample_clean _ _ _ sample_decides]
  by (simp_all add: money_envelope_def sample_read)

theorem decide_bid_replay_no_effect_witness:
  "decide_bid bid_env sample_envelope 0 7 sample_decided =
   (Inl PendingRollbackError, sample_decided\<lparr>app_ticks := Suc (app_ticks sample_decided)\<rparr>)"
proof -
  have ok: "schema_ok (collate bid_env) (committed sample_decided)"
    using sample_decided_market(1) by (simp add: market_ok_def)
  obtain b where b: "b \<in> set (bids (committed sample_decided))" "b_kafka_partition b = Some 0" "b_kafka_offset b = Some 7"
    using sample_decided_row by blast
  have "\<exists>x. verdict bid_env (committed sample_decided) 41 (Finite False 15000 (-2)) = Inr x"
    using verdict_refines [of bid_env "committed sample_decided" "Finite False 15000 (-2)" 41] sample_decided_market(1)
    by (auto simp: market_ok_def split: option.splits)
  then obtain status reason where
    "verdict bid_env (committed sample_decided) 41 (Finite False 15000 (-2)) = Inr (status, reason)" by auto
  from decide_bid_replay_no_effect [OF ok sample_decided_market(2) sample_read this _ b] show ?thesis by simp
qed

text \<open>C32. Announcements follow the commit: if a decision changed the cache, broadcast an update
  or published a result, then the bid of that message is in the committed database.\<close>

theorem announced_after_commit:
  assumes "schema_ok (collate env) (committed w)" and "clean w"
    and "decide_bid env data p off w = (res, w')"
    and "redis_bids w' \<noteq> redis_bids w \<or> redis_published w' \<noteq> redis_published w \<or> kafka_log w' \<noteq> kafka_log w"
  shows "\<exists>b \<in> set (bids (committed w')). b_kafka_partition b = Some p \<and> b_kafka_offset b = Some off"
  using decide_bid_announces [OF assms(1-3)] assms(4) by (simp add: announced_def)

theorem announced_after_commit_witness:
  "\<exists>b \<in> set (bids (committed sample_decided)). b_kafka_partition b = Some 0 \<and> b_kafka_offset b = Some 7"
proof -
  have "kafka_log sample_world = []" by (simp add: sample_world_def initial_world_def)
  then have new: "kafka_log sample_decided \<noteq> kafka_log sample_world" using sample_decide_run by auto
  have ok: "schema_ok (collate bid_env) (committed sample_world)" using sample_market by (simp add: market_ok_def)
  from announced_after_commit [OF ok sample_clean sample_decides] new show ?thesis by blast
qed

text \<open>The parser protects the decision: an envelope that parses, with identifiers that are
  JSON strings as the submission writes them, is one the decision can read in full; none of
  its conversions raises.\<close>

theorem parsed_envelope_readable:
  assumes "parse_bid_envelope env raw = Inr data"
    and "\<forall>f \<in> set ENVELOPE_UUID_FIELDS. \<exists>s. map_of data f = Some (JStr s)"
  shows "\<exists>i bid_id bidder amount.
    envelope_uuid data ''auction_id'' = Inr i \<and> envelope_uuid data ''bid_id'' = Inr bid_id \<and>
    envelope_uuid data ''bidder_id'' = Inr bidder \<and> envelope_amount data = Inr amount"
  using parse_then_read [OF assms] by (auto simp: read_envelope_def)

theorem parsed_envelope_readable_witness:
  "\<exists>bid_id amount. envelope_uuid sample_envelope ''bid_id'' = Inr bid_id \<and> envelope_amount sample_envelope = Inr amount"
proof -
  have "parse_bid_envelope bid_env ''json'' = Inr sample_envelope"
    unfolding sample_envelope_def by (rule parse_bid_envelope_text) (simp_all add: bid_env_def sample_envelope_def)
  then show ?thesis
    using parsed_envelope_readable [of bid_env "''json''" sample_envelope]
    by (auto simp: ENVELOPE_UUID_FIELDS_def sample_envelope_def bid_envelope_def)
qed

text \<open>C35. A bid on an auction that does not exist is dropped: although the decision computed is a
  rejection with a reason, its row breaks the foreign key, so that nothing is stored, cached,
  broadcast or published.\<close>

theorem orphan_bid_dropped:
  assumes ok: "schema_ok (collate env) (committed w)" and cl: "clean w"
    and read: "read_envelope data = Inr (i, bid_id, bidder, amount)"
    and none: "get_by_id a_id (auctions (committed w)) i = None"
    and val: "\<not> rejects_value env (RBid (new_bid bid_id i bidder amount ''rejected'' p off))"
  shows "verdict env (committed w) i amount = Inr (''rejected'', Some ''auction_not_live'') \<and>
    decide_bid env data p off w =
      (case failed_session env of None \<Rightarrow> Inr None | Some e \<Rightarrow> Inl e, w\<lparr>app_ticks := Suc (app_ticks w)\<rparr>)"
proof -
  let ?w = "w\<lparr>app_ticks := Suc (app_ticks w)\<rparr>"
  have v: "verdict env (committed w) i amount = Inr (''rejected'', Some ''auction_not_live'')"
    using none by (simp add: verdict_def)
  have "\<not> integrity_ok (collate env) (bid_row env bid_id i bidder amount ''rejected'' p off) (committed ?w)"
    using none get_by_id_None_iff [of a_id "auctions (committed w)" i] by (simp add: bid_row_def new_bid_def)
  from record_bid_violation [OF _ _ _ val this] ok cl v
  have "session_scope env (record_bid env bid_id i bidder amount p off) ?w =
      (case failed_session env of None \<Rightarrow> Inr None | Some e \<Rightarrow> Inl e, ?w)" by (simp add: clean_def)
  then show ?thesis using read v by (simp add: decide_bid_run bind_def ret_def split: option.splits)
qed

theorem orphan_bid_dropped_witness:
  "decide_bid bid_env (bid_envelope 1000 99 11 (Finite False 15000 (-2)) ''iso'') 0 7 sample_world =
   (Inl PendingRollbackError, sample_world\<lparr>app_ticks := 1\<rparr>)"
proof -
  have ok: "schema_ok (collate bid_env) (committed sample_world)" using sample_market by (simp add: market_ok_def)
  have read: "read_envelope (bid_envelope 1000 99 11 (Finite False 15000 (-2)) ''iso'') = Inr (99, 1000, 11, Finite False 15000 (-2))"
    by (rule read_bid_envelope) simp
  have none: "get_by_id a_id (auctions (committed sample_world)) 99 = None"
    by (simp add: get_by_id_def sample_auction_def)
  from orphan_bid_dropped [OF ok sample_clean read none] show ?thesis
    by (simp add: sample_world_def initial_world_def)
qed

section \<open>The cache\<close>

text \<open>C36. The cached highest bid of an auction never decreases, whatever bids are offered to it, in
  whatever order and with whatever failures of the cache; after an offer that is answered it
  is the larger of the two amounts.\<close>

theorem cached_bid_monotone:
  assumes "cached_amount env w i = Some c"
  shows "(\<exists>d. cached_amount env (offer_bids env i xs w) i = Some d \<and> c \<le> d) \<and>
    (\<forall>amount bidder ts stored w'. try_accept_bid env i amount bidder ts w = (Inr stored, w') \<longrightarrow>
       (\<exists>a. lua_tonumber env amount = Some a \<and> cached_amount env w' i = Some (if c < a then a else c) \<and> (stored \<longleftrightarrow> c < a)))"
  using offer_bids_monotone [OF assms] try_accept_bid_effect assms by fastforce

theorem cached_bid_monotone_witness:
  "\<exists>d. cached_amount bid_env (offer_bids bid_env ''x'' [(''5'', ''b'', ''t''), (''3'', ''b'', ''t'')] sample_world) ''x'' = Some d \<and> 0 \<le> d"
proof -
  have "cached_amount bid_env sample_world ''x'' = Some 0"
    by (simp add: cached_amount_def sample_world_def initial_world_def sample_zero)
  from cached_bid_monotone [OF this, of "[(''5'', ''b'', ''t''), (''3'', ''b'', ''t'')]"] show ?thesis by blast
qed

end
