(* ===== verification/Auction_Worker.thy ===== *)
theory Auction_Worker
  imports Bid_Submission
begin

text \<open>
  \<^verbatim>\<open>workers/auction_worker.py\<close>: the loop that takes the messages of the bids topic one at a
  time. What the consumer yields is a list of records; whether the shutdown event is set
  when the \<open>n\<close>th one arrives and whether the \<open>n\<close>th offset commit succeeds are parameters. The
  loop's observable steps are listed as events, from which the committed offsets follow.
\<close>

section \<open>The loop\<close>

record consumer_record =
  cr_partition :: int
  cr_offset :: int
  cr_value :: string

definition handle_message :: "env \<Rightarrow> consumer_record \<Rightarrow> bid_result option comp" where
  "handle_message env m =
     bind (lift (parse_bid_envelope env (cr_value m))) (\<lambda>envelope.
       decide_bid env envelope (cr_partition m) (cr_offset m))"

datatype worker_event =
    Processed consumer_record
  | Malformed_Skipped consumer_record
  | Failed_Will_Retry consumer_record
  | Commit

datatype worker_exit = Exhausted | Shut_Down | Commit_Failed

text \<open>Which event a message ends in: a poison message falls through to the commit.\<close>

fun event_of :: "consumer_record \<Rightarrow> exn + bid_result option \<Rightarrow> worker_event" where
  "event_of m (Inr _) = Processed m"
| "event_of m (Inl (MalformedBidEvent _)) = Malformed_Skipped m"
| "event_of m (Inl _) = Failed_Will_Retry m"

fun worker_loop ::
    "env \<Rightarrow> (nat \<Rightarrow> bool) \<Rightarrow> (nat \<Rightarrow> bool) \<Rightarrow> nat \<Rightarrow> consumer_record list \<Rightarrow> world \<Rightarrow>
     worker_event list \<times> worker_exit \<times> world" where
  "worker_loop env stopped commits n [] w = ([], Exhausted, w)"
| "worker_loop env stopped commits n (m # ms) w =
     (if stopped n then ([], Shut_Down, w)
      else (let (res, w1) = handle_message env m w; ev = event_of m res in
            if ev = Failed_Will_Retry m
            then (let (evs, ex, w2) = worker_loop env stopped commits (Suc n) ms w1 in (ev # evs, ex, w2))
            else if commits n
            then (let (evs, ex, w2) = worker_loop env stopped commits (Suc n) ms w1 in (ev # Commit # evs, ex, w2))
            else ([ev], Commit_Failed, w1)))"

text \<open>The world a run ends in, and its events.\<close>

abbreviation worker_world where
  "worker_world env stopped commits n ms w \<equiv> snd (snd (worker_loop env stopped commits n ms w))"

abbreviation worker_events where
  "worker_events env stopped commits n ms w \<equiv> fst (worker_loop env stopped commits n ms w)"

section \<open>Committed offsets\<close>

text \<open>
  A commit without arguments commits, for every partition, the position of the consumer: one
  past the last record it yielded. After a restart delivery resumes at the committed offset.
\<close>

fun event_position :: "worker_event \<Rightarrow> (int \<times> int) option" where
  "event_position (Processed m) = Some (cr_partition m, cr_offset m)"
| "event_position (Malformed_Skipped m) = Some (cr_partition m, cr_offset m)"
| "event_position (Failed_Will_Retry m) = Some (cr_partition m, cr_offset m)"
| "event_position Commit = None"

fun offsets :: "worker_event list \<Rightarrow> (int \<rightharpoonup> int) \<Rightarrow> (int \<rightharpoonup> int) \<Rightarrow> (int \<rightharpoonup> int)" where
  "offsets [] position com = com"
| "offsets (e # es) position com =
     (case event_position e of
        Some (p, off) \<Rightarrow> offsets es (position(p \<mapsto> off + 1)) com
      | None \<Rightarrow> offsets es position position)"

definition redelivered :: "worker_event list \<Rightarrow> int \<Rightarrow> int \<Rightarrow> bool" where
  "redelivered es p off \<longleftrightarrow> (case offsets es Map.empty Map.empty p of None \<Rightarrow> True | Some c \<Rightarrow> c \<le> off)"

text \<open>Within a partition a consumer yields records in the order of their offsets.\<close>

definition in_order :: "consumer_record list \<Rightarrow> bool" where
  "in_order ms \<longleftrightarrow> sorted_wrt (\<lambda>m m'. cr_partition m = cr_partition m' \<longrightarrow> cr_offset m < cr_offset m') ms"

section \<open>One message\<close>

definition position_stored :: "consumer_record \<Rightarrow> database \<Rightarrow> bool" where
  "position_stored m db \<longleftrightarrow>
     (\<exists>b \<in> set (bids db). b_kafka_partition b = Some (cr_partition m) \<and> b_kafka_offset b = Some (cr_offset m))"

definition money_message :: "env \<Rightarrow> consumer_record \<Rightarrow> bool" where
  "money_message env m \<longleftrightarrow> (\<forall>data. parse_bid_envelope env (cr_value m) = Inr data \<longrightarrow> money_envelope data)"

lemma handle_message_run:
  "handle_message env m w =
   (case parse_bid_envelope env (cr_value m) of
      Inl e \<Rightarrow> (Inl e, w)
    | Inr data \<Rightarrow> decide_bid env data (cr_partition m) (cr_offset m) w)"
  by (simp add: handle_message_def bind_def lift_def split: sum.splits)

lemma handle_stored_position:
  assumes ok: "schema_ok (collate env) (committed w)" and cl: "clean w" and seen: "position_stored m (committed w)"
    and run: "handle_message env m w = (res, w')"
  shows "committed w' = committed w \<and> clean w'"
proof (cases "parse_bid_envelope env (cr_value m)")
  case (Inl e)
  with run cl show ?thesis by (simp add: handle_message_run)
next
  case (Inr data)
  with run have d: "decide_bid env data (cr_partition m) (cr_offset m) w = (res, w')"
    by (simp add: handle_message_run)
  have "(Some (cr_partition m), Some (cr_offset m)) \<in> (\<lambda>x. (b_kafka_partition x, b_kafka_offset x)) ` set (bids (committed w))"
    using seen unfolding position_stored_def by force
  then have "\<not> decided env data (cr_partition m) (cr_offset m) w status reason db" for status reason db
    by (auto simp: decided_def bid_row_def new_bid_def)
  with decide_bid_outcome [OF ok cl d] show ?thesis by blast
qed

section \<open>The bids table as a run of the specification\<close>

text \<open>The outcomes of a sequence of amounts, and the auction afterwards.\<close>

fun spec_run :: "auction_spec \<Rightarrow> rat list \<Rightarrow> bool list \<times> auction_spec" where
  "spec_run s [] = ([], s)"
| "spec_run s (x # xs) =
     (case spec_bid x s of (ok, s1) \<Rightarrow> (case spec_run s1 xs of (oks, s2) \<Rightarrow> (ok # oks, s2)))"

lemma spec_run_append:
  "spec_run s (xs @ ys) =
   (fst (spec_run s xs) @ fst (spec_run (snd (spec_run s xs)) ys), snd (spec_run (snd (spec_run s xs)) ys))"
  by (induction xs arbitrary: s) (auto split: prod.splits)

definition bids_of :: "uuid \<Rightarrow> bid list \<Rightarrow> bid list" where
  "bids_of i bs = filter (\<lambda>b. b_auction_id b = i) bs"

lemma bids_of_simps [simp]:
  "bids_of i [] = []" "bids_of i (b # bs) = (if b_auction_id b = i then b # bids_of i bs else bids_of i bs)"
  "bids_of i (bs @ cs) = bids_of i bs @ bids_of i cs"
  by (simp_all add: bids_of_def)

text \<open>\<open>new\<close> are the rows appended between two worlds, and they replay the specification.\<close>

definition market_step :: "env \<Rightarrow> world \<Rightarrow> world \<Rightarrow> bid list \<Rightarrow> bool" where
  "market_step env w w' new \<longleftrightarrow>
     market_ok env (committed w') \<and> clean w' \<and> bids (committed w') = bids (committed w) @ new \<and>
     (\<forall>i. (abs_auction env (committed w) i = None \<longrightarrow> abs_auction env (committed w') i = None \<and> bids_of i new = []) \<and>
          (\<forall>s. abs_auction env (committed w) i = Some s \<longrightarrow>
             fst (spec_run s (map (finite_value \<circ> b_amount) (bids_of i new))) = map (\<lambda>b. b_status b = ''accepted'') (bids_of i new) \<and>
             abs_auction env (committed w') i = Some (snd (spec_run s (map (finite_value \<circ> b_amount) (bids_of i new))))))"

lemma market_step_refl: "market_ok env (committed w) \<Longrightarrow> clean w' \<Longrightarrow> committed w' = committed w \<Longrightarrow> market_step env w w' []"
  by (simp add: market_step_def)

lemma market_step_trans:
  assumes a: "market_step env u v xs" and b: "market_step env v w ys" shows "market_step env u w (xs @ ys)"
proof -
  have "(abs_auction env (committed u) i = None \<longrightarrow> abs_auction env (committed w) i = None \<and> bids_of i (xs @ ys) = []) \<and>
      (\<forall>s. abs_auction env (committed u) i = Some s \<longrightarrow>
         fst (spec_run s (map (finite_value \<circ> b_amount) (bids_of i (xs @ ys)))) = map (\<lambda>b. b_status b = ''accepted'') (bids_of i (xs @ ys)) \<and>
         abs_auction env (committed w) i = Some (snd (spec_run s (map (finite_value \<circ> b_amount) (bids_of i (xs @ ys))))))" for i
  proof (cases "abs_auction env (committed u) i")
    case None
    with a have "abs_auction env (committed v) i = None" "bids_of i xs = []" by (simp_all add: market_step_def)
    with b None show ?thesis by (simp add: market_step_def)
  next
    case (Some s)
    let ?r = "spec_run s (map (finite_value \<circ> b_amount) (bids_of i xs))"
    from a Some have "fst ?r = map (\<lambda>b. b_status b = ''accepted'') (bids_of i xs)"
      and v: "abs_auction env (committed v) i = Some (snd ?r)" by (simp_all add: market_step_def)
    moreover from b v have
      "fst (spec_run (snd ?r) (map (finite_value \<circ> b_amount) (bids_of i ys))) = map (\<lambda>b. b_status b = ''accepted'') (bids_of i ys)"
      "abs_auction env (committed w) i = Some (snd (spec_run (snd ?r) (map (finite_value \<circ> b_amount) (bids_of i ys))))"
      by (simp_all add: market_step_def)
    ultimately show ?thesis using Some by (simp add: spec_run_append)
  qed
  with a b show ?thesis by (simp add: market_step_def)
qed

lemma decided_step:
  assumes inv: "market_ok env (committed w)" and cl: "clean w'"
    and m: "money_envelope data" "keeps_money env" "statuses_differ env"
    and d: "decided env data p off w status reason (committed w')"
  shows "\<exists>b. market_step env w w' [b] \<and> b_kafka_partition b = Some p \<and> b_kafka_offset b = Some off"
proof -
  obtain i bid_id bidder amount where read: "read_envelope data = Inr (i, bid_id, bidder, amount)"
    and v: "verdict env (committed w) i amount = Inr (status, reason)"
    and ok: "integrity_ok (collate env) (bid_row env bid_id i bidder amount status p off) (committed w)"
    and db: "committed w' = insert_row (db_clock env (db_ticks w)) (bid_row env bid_id i bidder amount status p off) (committed w)"
    using d by (auto simp: decided_def)
  let ?b = "(new_bid bid_id i bidder (stored_numeric env amount) status p off)\<lparr>b_created_at := db_clock env (db_ticks w)\<rparr>"
  have amount: "money amount" using m(1) read by (simp add: money_envelope_def)
  have val: "finite_value (stored_numeric env amount) = finite_value amount"
    using keeps_moneyD [OF m(2) amount] by simp
  have bid: "bidding_ok env (committed w)" using inv by (simp add: market_ok_def)
  have rows: "bids (committed w') = bids (committed w) @ [?b]"
    by (simp add: db bid_row_def new_bid_def)
  have abs: "abs_auction env (committed w') j = (if j = i then map_option (\<lambda>s. snd (spec_bid (finite_value amount) s)) (abs_auction env (committed w) i)
      else abs_auction env (committed w) j)" for j
    using abs_auction_insert [OF bid amount m(2,3) v] by (simp add: db del: insert_row.simps)
  have "i \<in> a_id ` set (auctions (committed w))" using ok by (simp add: bid_row_def new_bid_def)
  then obtain s where s: "abs_auction env (committed w) i = Some s"
    using get_by_id_None_iff [of a_id "auctions (committed w)" i] by (auto simp: abs_auction_def)
  have status: "fst (spec_bid (finite_value amount) s) \<longleftrightarrow> status = ''accepted''"
    using verdict_refines [OF bid money_finite [OF amount], of i] v s by (auto split: if_splits)
  have "market_step env w w' [?b]"
    unfolding market_step_def
    using decided_market_ok [OF inv m d] cl rows s status
    by (auto simp: abs new_bid_def val split: prod.splits)
  then show ?thesis by (intro exI [of _ ?b]) (simp add: new_bid_def)
qed

lemma handle_message_step:
  assumes inv: "market_ok env (committed w)" and cl: "clean w"
    and m: "money_message env m" "keeps_money env" "statuses_differ env"
    and run: "handle_message env m w = (res, w')"
  shows "\<exists>new. market_step env w w' new \<and>
    (\<forall>b \<in> set new. b_kafka_partition b = Some (cr_partition m) \<and> b_kafka_offset b = Some (cr_offset m)) \<and>
    (\<forall>r. res = Inr (Some r) \<longrightarrow> new \<noteq> [])"
proof (cases "parse_bid_envelope env (cr_value m)")
  case (Inl e)
  with run have "w' = w" "res = Inl e" by (simp_all add: handle_message_run)
  with market_step_refl [OF inv cl] show ?thesis by (intro exI [of _ "[]"]) simp
next
  case (Inr data)
  with run have d: "decide_bid env data (cr_partition m) (cr_offset m) w = (res, w')"
    by (simp add: handle_message_run)
  have money: "money_envelope data" using m(1) Inr by (simp add: money_message_def)
  have ok: "schema_ok (collate env) (committed w)" using inv by (simp add: market_ok_def)
  from decide_bid_outcome [OF ok cl d] have cl': "clean w'" by blast
  from decide_bid_outcome [OF ok cl d] consider
    (stored) status reason where "decided env data (cr_partition m) (cr_offset m) w status reason (committed w')"
    | (same) "committed w' = committed w" "\<forall>r. res \<noteq> Inr (Some r)" by blast
  then show ?thesis
  proof cases
    case stored
    from decided_step [OF inv cl' money m(2,3) stored] show ?thesis by force
  next
    case same
    with market_step_refl [OF inv cl' same(1)] show ?thesis by (intro exI [of _ "[]"]) simp
  qed
qed

section \<open>The whole run\<close>

text \<open>What every message keeps, the run keeps.\<close>

lemma worker_loop_induct:
  assumes start: "R w" and step: "\<And>m v res v'. m \<in> set ms \<Longrightarrow> R v \<Longrightarrow> handle_message env m v = (res, v') \<Longrightarrow> R v'"
  shows "R (worker_world env stopped commits n ms w)"
  using assms
proof (induction ms arbitrary: n w)
  case Nil
  then show ?case by simp
next
  case (Cons m ms)
  obtain res w1 where run: "handle_message env m w = (res, w1)" by (cases "handle_message env m w")
  from Cons.prems(2) [OF _ Cons.prems(1) run] have "R w1" by simp
  have "R (worker_world env stopped commits (Suc n) ms w1)"
    by (rule Cons.IH [OF \<open>R w1\<close>]) (rule Cons.prems(2), auto)
  with \<open>R w1\<close> Cons.prems(1) run show ?case by (auto simp: Let_def split: prod.splits)
qed

definition positions_of :: "consumer_record list \<Rightarrow> (int option \<times> int option) set" where
  "positions_of ms = (\<lambda>m. (Some (cr_partition m), Some (cr_offset m))) ` set ms"

lemma worker_run_step:
  assumes inv: "market_ok env (committed w)" and cl: "clean w"
    and m: "\<forall>m \<in> set ms. money_message env m" "keeps_money env" "statuses_differ env"
  shows "\<exists>new. market_step env w (worker_world env stopped commits n ms w) new \<and>
    (\<lambda>b. (b_kafka_partition b, b_kafka_offset b)) ` set new \<subseteq> positions_of ms"
proof (rule worker_loop_induct)
  show "\<exists>new. market_step env w w new \<and> (\<lambda>b. (b_kafka_partition b, b_kafka_offset b)) ` set new \<subseteq> positions_of ms"
    using market_step_refl [OF inv cl refl] by (intro exI [of _ "[]"]) simp
next
  fix k v res v'
  assume k: "k \<in> set ms" and run: "handle_message env k v = (res, v')"
    and ih: "\<exists>new. market_step env w v new \<and> (\<lambda>b. (b_kafka_partition b, b_kafka_offset b)) ` set new \<subseteq> positions_of ms"
  from ih obtain xs where xs: "market_step env w v xs"
    "(\<lambda>b. (b_kafka_partition b, b_kafka_offset b)) ` set xs \<subseteq> positions_of ms" by blast
  then have "market_ok env (committed v)" "clean v" by (simp_all add: market_step_def)
  from handle_message_step [OF this _ m(2,3) run] m(1) k
  obtain ys where ys: "market_step env v v' ys"
    "\<forall>b \<in> set ys. b_kafka_partition b = Some (cr_partition k) \<and> b_kafka_offset b = Some (cr_offset k)" by blast
  from ys(2) k have "(\<lambda>b. (b_kafka_partition b, b_kafka_offset b)) ` set ys \<subseteq> positions_of ms"
    by (force simp: positions_of_def)
  with xs(2) have "(\<lambda>b. (b_kafka_partition b, b_kafka_offset b)) ` set (xs @ ys) \<subseteq> positions_of ms" by auto
  with market_step_trans [OF xs(1) ys(1)]
  show "\<exists>new. market_step env w v' new \<and> (\<lambda>b. (b_kafka_partition b, b_kafka_offset b)) ` set new \<subseteq> positions_of ms"
    by blast
qed

lemma worker_replay_step:
  assumes "schema_ok (collate env) (committed w)" and "clean w" and "\<forall>m \<in> set ms. position_stored m (committed w)"
  shows "committed (worker_world env stopped commits n ms w) = committed w"
proof -
  let ?R = "\<lambda>v. committed v = committed w \<and> clean v"
  have "?R (worker_world env stopped commits n ms w)"
  proof (rule worker_loop_induct)
    show "?R w" using assms(2) by simp
  next
    fix m v res v' assume m: "m \<in> set ms" and v: "?R v" and run: "handle_message env m v = (res, v')"
    then have "committed v' = committed v \<and> clean v'"
      using handle_stored_position [OF _ _ _ run] assms by simp
    with v show "?R v'" by simp
  qed
  then show ?thesis by simp
qed

text \<open>The events of a run are those of a prefix of its messages.\<close>

lemma event_of_position [simp]: "event_position (event_of m res) = Some (cr_partition m, cr_offset m)"
  by (cases "(m, res)" rule: event_of.cases) auto

lemma event_of_not_commit [simp]: "event_of m res \<noteq> Commit"
  by (cases "(m, res)" rule: event_of.cases) auto

lemma worker_event_positions:
  "e \<in> set (worker_events env stopped commits n ms w) \<Longrightarrow> event_position e = Some (p, off) \<Longrightarrow>
   \<exists>m \<in> set ms. cr_partition m = p \<and> cr_offset m = off"
proof (induction ms arbitrary: n w)
  case Nil
  then show ?case by simp
next
  case (Cons m ms)
  then show ?case by (auto simp: Let_def split: prod.splits if_splits) (metis fst_conv)+
qed

lemma offsets_no_commit: "Commit \<notin> set es \<Longrightarrow> offsets es position com = com"
proof (induction es arbitrary: position)
  case Nil
  then show ?case by simp
next
  case (Cons e es)
  then show ?case by (cases e) auto
qed

lemma offsets_cover:
  assumes "position p = Some d" and "c \<le> d"
    and "\<forall>e \<in> set es. \<forall>off. event_position e = Some (p, off) \<longrightarrow> c \<le> off"
    and "Commit \<in> set es"
  shows "\<exists>d. offsets es position com p = Some d \<and> c \<le> d"
  using assms
proof (induction es arbitrary: position com d)
  case Nil
  then show ?case by simp
next
  case (Cons e es)
  show ?case
  proof (cases "event_position e")
    case None
    show ?thesis
    proof (cases "Commit \<in> set es")
      case True
      have "\<exists>d. offsets es position position p = Some d \<and> c \<le> d"
        by (rule Cons.IH [where d = d]) (use Cons.prems True in auto)
      with None show ?thesis by simp
    next
      case False
      with Cons.prems(1,2) None show ?thesis by (simp add: offsets_no_commit)
    qed
  next
    case (Some x)
    obtain q off where e: "event_position e = Some (q, off)" using Some by (cases x) simp
    then have "Commit \<in> set es" using Cons.prems(4) by auto
    moreover obtain d' where "(position(q \<mapsto> off + 1)) p = Some d'" "c \<le> d'"
      using Cons.prems(1,2,3) e by (cases "q = p") fastforce+
    ultimately have "\<exists>d. offsets es (position(q \<mapsto> off + 1)) com p = Some d \<and> c \<le> d"
      by (intro Cons.IH [of "position(q \<mapsto> off + 1)" d']) (use Cons.prems(3) in auto)
    then show ?thesis by (simp add: e del: fun_upd_apply)
  qed
qed

text \<open>
  After a later commit a message is never delivered again, whether it was processed or failed.
\<close>

lemma worker_events_in_order:
  "in_order ms \<Longrightarrow> worker_events env stopped commits n ms w = xs @ e # ys \<Longrightarrow> event_position e = Some (p, off) \<Longrightarrow>
   e' \<in> set ys \<Longrightarrow> event_position e' = Some (p, off') \<Longrightarrow> off < off'"
proof (induction ms arbitrary: n w xs)
  case Nil
  then show ?case by simp
next
  case (Cons m ms)
  obtain res w1 where run: "handle_message env m w = (res, w1)" by (cases "handle_message env m w")
  let ?rest = "worker_events env stopped commits (Suc n) ms w1"
  have later: "cr_offset m < off''" if "e'' \<in> set ?rest" "event_position e'' = Some (cr_partition m, off'')" for e'' off''
    using worker_event_positions [OF that] Cons.prems(1) by (auto simp: in_order_def)
  have order: "in_order ms" using Cons.prems(1) by (simp add: in_order_def)
  have shape: "worker_events env stopped commits n (m # ms) w = [] \<or>
      (\<exists>tl. worker_events env stopped commits n (m # ms) w = event_of m res # tl \<and>
         (tl = ?rest \<or> tl = Commit # ?rest \<or> tl = []))"
    using run by (simp add: Let_def split: prod.splits)
  then obtain tl where tl: "xs @ e # ys = event_of m res # tl" "tl = ?rest \<or> tl = Commit # ?rest \<or> tl = []"
    using Cons.prems(2) by (metis append_is_Nil_conv list.distinct(1))
  show ?case
  proof (cases xs)
    case Nil
    with tl Cons.prems(3-5) later show ?thesis by auto
  next
    case (Cons x xs')
    with tl have "xs' @ e # ys = tl" by simp
    with tl(2) Cons.prems(3) consider "xs' @ e # ys = ?rest" | xs'' where "xs'' @ e # ys = ?rest"
      by (cases xs') auto
    then show ?thesis using Cons.IH [OF order _ Cons.prems(3,4,5)] by metis
  qed
qed

lemma committed_past:
  assumes order: "in_order ms" and evs: "worker_events env stopped commits n ms w = xs @ e # ys"
    and e: "event_position e = Some (p, off)" and "Commit \<in> set ys"
  shows "\<not> redelivered (xs @ e # ys) p off"
proof -
  have split: "offsets (xs @ e # ys) position com0 = offsets (e # ys) (fst q) (snd q)"
    if "q = foldl (\<lambda>(pos, com) e. case event_position e of Some (p, off) \<Rightarrow> (pos(p \<mapsto> off + 1), com) | None \<Rightarrow> (pos, pos)) (position, com0) xs"
    for q position com0
    using that by (induction xs arbitrary: position com0 q) (auto split: option.splits)
  obtain pos com where "offsets (xs @ e # ys) Map.empty Map.empty = offsets (e # ys) pos com"
    using split [OF refl] by fastforce
  moreover have "\<exists>d. offsets ys (pos(p \<mapsto> off + 1)) com p = Some d \<and> off + 1 \<le> d"
    using worker_events_in_order [OF order evs e] assms(4)
    by (intro offsets_cover [of _ p "off + 1"]) fastforce+
  ultimately show ?thesis using e by (auto simp: redelivered_def)
qed

end
