(* ===== verification/Worker_Properties.thy ===== *)
theory Worker_Properties
  imports Auction_Worker Bid_Properties
begin

text \<open>
  The properties of the auction worker, each with an instance.
\<close>

definition worker_env :: env where
  "worker_env = bid_env\<lparr>json_loads := (\<lambda>s. if s = ''json'' then Json_Value (JObj sample_envelope)
     else if s = ''latin'' then Not_Utf8 else Json_Decode_Error)\<rparr>"

definition sample_record :: "int \<Rightarrow> string \<Rightarrow> consumer_record" where
  "sample_record off v = \<lparr>cr_partition = 0, cr_offset = off, cr_value = v\<rparr>"

lemma worker_env_simps [simp]:
  "collate worker_env = lower" "stored_numeric worker_env d = d"
  "json_loads worker_env ''json'' = Json_Value (JObj sample_envelope)"
  "json_loads worker_env ''latin'' = Not_Utf8" "json_loads worker_env ''junk'' = Json_Decode_Error"
  by (simp_all add: worker_env_def)

lemma worker_market [simp]: "market_ok worker_env sample_db"
  using sample_market by (simp add: market_ok_def bidding_ok_def accepted_bids_def sql_eq_def)

lemma worker_hypotheses [simp]: "keeps_money worker_env" "statuses_differ worker_env"
  using sample_differ by (simp_all add: keeps_money_def money_finite sql_eq_def)

lemma parse_sample_record: "parse_bid_envelope worker_env ''json'' = Inr sample_envelope"
  unfolding sample_envelope_def by (rule parse_bid_envelope_text) (simp_all add: sample_envelope_def)

lemma money_sample_record [simp]: "money_message worker_env (sample_record off ''json'')"
  by (simp add: money_message_def sample_record_def parse_sample_record money_envelope_def sample_read)

lemma handle_broken [simp]:
  "handle_message worker_env (sample_record off ''latin'') w = (Inl UnicodeDecodeError, w)"
  "handle_message worker_env (sample_record off ''junk'') w = (Inl (MalformedBidEvent ''invalid JSON''), w)"
  by (simp_all add: handle_message_run sample_record_def parse_bid_envelope_def)



text \<open>C11. Storage is exactly-once under at-least-once delivery: consuming again messages whose
  positions are stored, in any order and any number of times, changes nothing in the database.\<close>

theorem worker_replay_idempotent:
  assumes "schema_ok (collate env) (committed w)" and "clean w"
    and "\<forall>m \<in> set ms. position_stored m (committed w)"
  shows "committed (worker_world env stopped commits n ms w) = committed w"
  by (rule worker_replay_step [OF assms])

theorem worker_replay_idempotent_witness:
  "committed (worker_world bid_env (\<lambda>_. False) (\<lambda>_. True) 0 [sample_record 7 ''json'', sample_record 7 ''json''] sample_decided) =
   committed sample_decided"
proof -
  have "schema_ok (collate bid_env) (committed sample_decided)"
    using sample_decided_market(1) by (simp add: market_ok_def)
  moreover have "position_stored (sample_record 7 ''json'') (committed sample_decided)"
    using sample_decided_row by (simp add: position_stored_def sample_record_def)
  ultimately show ?thesis
    by (intro worker_replay_idempotent [OF _ sample_decided_market(2)]) simp_all
qed



text \<open>C34. No message blocks the partition: as long as the worker is not stopped and commits
  succeed, it goes through all messages in order, one outcome for each, whether they are
  processed, malformed or fail.\<close>

theorem worker_attempts_all:
  assumes "\<forall>k. \<not> stopped k" and "\<forall>k. commits k"
  shows "map event_position (filter (\<lambda>e. e \<noteq> Commit) (worker_events env stopped commits n ms w)) =
      map (\<lambda>m. Some (cr_partition m, cr_offset m)) ms \<and>
    fst (snd (worker_loop env stopped commits n ms w)) = Exhausted"
  using assms by (induction ms arbitrary: n w) (simp_all add: Let_def split: prod.splits, (metis fst_conv snd_conv)+)

theorem worker_attempts_all_witness:
  "fst (snd (worker_loop worker_env (\<lambda>_. False) (\<lambda>_. True) 0
     [sample_record 1 ''latin'', sample_record 2 ''junk'', sample_record 3 ''latin''] sample_world)) = Exhausted"
  using worker_attempts_all [of "\<lambda>_. False" "\<lambda>_. True"] by simp

end
