(* ===== verification/Ws_Gateway.thy ===== *)
theory Ws_Gateway
  imports Session
begin

text \<open>
  \<^verbatim>\<open>ws/gateway.py\<close>: the rooms of connected sockets and the relay task of each room. Between
  two suspension points the event loop runs a coroutine without interruption; every such run
  is one step, so a broadcast interleaves with clients that come and go. Sockets and tasks
  are numbers.
\<close>

section \<open>State\<close>

text \<open>Where a relay task is: in \<open>pubsub.listen()\<close>, inside \<open>_broadcast\<close>, or finished.\<close>

datatype relay_phase =
    Listening
  | Sending string "nat list" "nat list"
  | Dropping "nat list"
  | Finished

record relay =
  rl_auction :: string
  rl_phase :: relay_phase
  rl_cancelled :: bool

record room_manager =
  rm_connections :: "string \<rightharpoonup> nat set"
  rm_relay_tasks :: "string \<rightharpoonup> nat"
  rm_tasks :: "nat \<rightharpoonup> relay"
  rm_next_task :: nat
  rm_received :: "nat \<Rightarrow> string list"

definition no_rooms :: room_manager where
  "no_rooms = \<lparr>rm_connections = Map.empty, rm_relay_tasks = Map.empty, rm_tasks = Map.empty,
     rm_next_task = 0, rm_received = (\<lambda>_. [])\<rparr>"

text \<open>\<open>self._connections[auction_id]\<close> of the \<open>defaultdict\<close>.\<close>

definition room :: "room_manager \<Rightarrow> string \<Rightarrow> nat set" where
  "room s a = (case rm_connections s a of None \<Rightarrow> {} | Some S \<Rightarrow> S)"

section \<open>Operations\<close>

definition connect :: "string \<Rightarrow> nat \<Rightarrow> room_manager \<Rightarrow> room_manager" where
  "connect a ws s =
     (let s1 = s\<lparr>rm_connections := (rm_connections s)(a \<mapsto> insert ws (room s a))\<rparr> in
      if rm_relay_tasks s a = None
      then s1\<lparr>rm_relay_tasks := (rm_relay_tasks s)(a \<mapsto> rm_next_task s),
              rm_tasks := (rm_tasks s)(rm_next_task s \<mapsto> \<lparr>rl_auction = a, rl_phase = Listening, rl_cancelled = False\<rparr>),
              rm_next_task := Suc (rm_next_task s)\<rparr>
      else s1)"

text \<open>\<open>task.cancel()\<close>: a request, without effect on a finished task.\<close>

definition cancel_task :: "nat \<Rightarrow> room_manager \<Rightarrow> room_manager" where
  "cancel_task t s =
     (case rm_tasks s t of
        None \<Rightarrow> s
      | Some r \<Rightarrow> if rl_phase r = Finished then s else s\<lparr>rm_tasks := (rm_tasks s)(t \<mapsto> r\<lparr>rl_cancelled := True\<rparr>)\<rparr>)"

definition disconnect :: "string \<Rightarrow> nat \<Rightarrow> room_manager \<Rightarrow> room_manager" where
  "disconnect a ws s =
     (let rest = room s a - {ws} in
      if rest = {}
      then (let s1 = s\<lparr>rm_connections := (rm_connections s)(a := None), rm_relay_tasks := (rm_relay_tasks s)(a := None)\<rparr> in
            case rm_relay_tasks s a of None \<Rightarrow> s1 | Some t \<Rightarrow> cancel_task t s1)
      else s\<lparr>rm_connections := (rm_connections s)(a \<mapsto> rest)\<rparr>)"

definition set_phase :: "nat \<Rightarrow> relay_phase \<Rightarrow> room_manager \<Rightarrow> room_manager" where
  "set_phase t ph s =
     (case rm_tasks s t of None \<Rightarrow> s | Some r \<Rightarrow> s\<lparr>rm_tasks := (rm_tasks s)(t \<mapsto> r\<lparr>rl_phase := ph\<rparr>)\<rparr>)"

definition deliver :: "nat \<Rightarrow> string \<Rightarrow> room_manager \<Rightarrow> room_manager" where
  "deliver ws data s = s\<lparr>rm_received := (rm_received s)(ws := rm_received s ws @ [data])\<rparr>"

text \<open>
  \<open>_broadcast\<close>, when nothing else runs meanwhile: \<open>ok\<close> says which sockets take the text; the
  others are disconnected afterwards.
\<close>

fun send_all :: "(nat \<Rightarrow> bool) \<Rightarrow> string \<Rightarrow> nat list \<Rightarrow> room_manager \<Rightarrow> room_manager" where
  "send_all ok data [] s = s"
| "send_all ok data (ws # todo) s = send_all ok data todo (if ok ws then deliver ws data s else s)"

fun drop_all :: "string \<Rightarrow> nat list \<Rightarrow> room_manager \<Rightarrow> room_manager" where
  "drop_all a [] s = s"
| "drop_all a (ws # dead) s = drop_all a dead (disconnect a ws s)"

definition broadcast :: "(nat \<Rightarrow> bool) \<Rightarrow> string \<Rightarrow> string \<Rightarrow> nat list \<Rightarrow> room_manager \<Rightarrow> room_manager" where
  "broadcast ok a data snapshot s =
     drop_all a (filter (\<lambda>ws. \<not> ok ws) snapshot) (send_all ok data snapshot s)"

section \<open>Steps\<close>

definition phase_of :: "room_manager \<Rightarrow> nat \<Rightarrow> relay_phase option" where
  "phase_of s t = map_option rl_phase (rm_tasks s t)"

definition runs :: "room_manager \<Rightarrow> nat \<Rightarrow> bool" where
  "runs s t \<longleftrightarrow> (case rm_tasks s t of None \<Rightarrow> False | Some r \<Rightarrow> \<not> rl_cancelled r)"

text \<open>
  Clients connect and disconnect, a socket possibly more than once; a relay takes a message,
  sends it to a copy of the room, drops the sockets that failed, ends when it was cancelled
  (a cancelled relay may still finish dropping), or dies of an exception of Redis.
\<close>

inductive room_step :: "room_manager \<Rightarrow> room_manager \<Rightarrow> bool" where
  Connect: "room_step s (connect a ws s)"
| Disconnect: "room_step s (disconnect a ws s)"
| Message: "rm_tasks s t = Some r \<Longrightarrow> rl_phase r = Listening \<Longrightarrow> \<not> rl_cancelled r \<Longrightarrow>
    set snapshot = room s (rl_auction r) \<Longrightarrow> distinct snapshot \<Longrightarrow> room_step s (set_phase t (Sending data snapshot []) s)"
| Sent: "phase_of s t = Some (Sending data (ws # todo) dead) \<Longrightarrow> runs s t \<Longrightarrow>
    room_step s (set_phase t (Sending data todo dead) (deliver ws data s))"
| Send_Failed: "phase_of s t = Some (Sending data (ws # todo) dead) \<Longrightarrow> runs s t \<Longrightarrow>
    room_step s (set_phase t (Sending data todo (dead @ [ws])) s)"
| Sends_Done: "phase_of s t = Some (Sending data [] dead) \<Longrightarrow> room_step s (set_phase t (Dropping dead) s)"
| Drop: "rm_tasks s t = Some r \<Longrightarrow> rl_phase r = Dropping (ws # dead) \<Longrightarrow>
    room_step s (disconnect (rl_auction r) ws (set_phase t (Dropping dead) s))"
| Drops_Done: "phase_of s t = Some (Dropping []) \<Longrightarrow> room_step s (set_phase t Listening s)"
| Stopped: "rm_tasks s t = Some r \<Longrightarrow> rl_cancelled r \<Longrightarrow> room_step s (set_phase t Finished s)"
| Relay_Failed: "phase_of s t \<noteq> None \<Longrightarrow> room_step s (set_phase t Finished s)"

inductive_cases room_stepE: "room_step s s'"

definition reachable :: "room_manager \<Rightarrow> bool" where
  "reachable s \<longleftrightarrow> room_step\<^sup>*\<^sup>* no_rooms s"

section \<open>The endpoint\<close>

text \<open>What \<open>receive_text\<close> gives, until the client leaves or the socket breaks.\<close>

datatype client_event = Text string | Client_Leaves | Socket_Error

datatype socket_action = Joins | Warns_Malformed | Closes_1011 | Leaves

fun receive_loop :: "env \<Rightarrow> client_event list \<Rightarrow> socket_action list" where
  "receive_loop env [] = []"
| "receive_loop env (Text raw # es) =
     (case json_loads env raw of
        Json_Decode_Error \<Rightarrow> Warns_Malformed # receive_loop env es
      | _ \<Rightarrow> receive_loop env es)"
| "receive_loop env (Client_Leaves # es) = [Leaves]"
| "receive_loop env (Socket_Error # es) = [Closes_1011, Leaves]"

definition auction_room :: "env \<Rightarrow> client_event list \<Rightarrow> socket_action list" where
  "auction_room env es = Joins # receive_loop env es"


section \<open>One relay per room\<close>

definition rooms_ok :: "room_manager \<Rightarrow> bool" where
  "rooms_ok s \<longleftrightarrow>
     (\<forall>a. rm_connections s a = None \<longleftrightarrow> rm_relay_tasks s a = None) \<and>
     (\<forall>a S. rm_connections s a = Some S \<longrightarrow> S \<noteq> {} \<and> finite S) \<and>
     (\<forall>a t. rm_relay_tasks s a = Some t \<longrightarrow> (\<exists>r. rm_tasks s t = Some r \<and> rl_auction r = a \<and> \<not> rl_cancelled r)) \<and>
     (\<forall>t r. rm_tasks s t = Some r \<and> \<not> rl_cancelled r \<and> rl_phase r \<noteq> Finished \<longrightarrow> rm_relay_tasks s (rl_auction r) = Some t) \<and>
     (\<forall>t. rm_next_task s \<le> t \<longrightarrow> rm_tasks s t = None)"

lemma rooms_okD:
  assumes "rooms_ok s"
  shows "rm_connections s a = None \<longleftrightarrow> rm_relay_tasks s a = None"
    and "rm_connections s a = Some S \<Longrightarrow> S \<noteq> {} \<and> finite S"
    and "rm_relay_tasks s a = Some t \<Longrightarrow> \<exists>r. rm_tasks s t = Some r \<and> rl_auction r = a \<and> \<not> rl_cancelled r"
    and "rm_tasks s t = Some r \<Longrightarrow> \<not> rl_cancelled r \<Longrightarrow> rl_phase r \<noteq> Finished \<Longrightarrow> rm_relay_tasks s (rl_auction r) = Some t"
    and "rm_next_task s \<le> t \<Longrightarrow> rm_tasks s t = None"
  using assms unfolding rooms_ok_def by blast+

lemma rooms_okI:
  assumes "\<And>a. rm_connections s a = None \<longleftrightarrow> rm_relay_tasks s a = None"
    and "\<And>a S. rm_connections s a = Some S \<Longrightarrow> S \<noteq> {} \<and> finite S"
    and "\<And>a t. rm_relay_tasks s a = Some t \<Longrightarrow> \<exists>r. rm_tasks s t = Some r \<and> rl_auction r = a \<and> \<not> rl_cancelled r"
    and "\<And>t r. rm_tasks s t = Some r \<Longrightarrow> \<not> rl_cancelled r \<Longrightarrow> rl_phase r \<noteq> Finished \<Longrightarrow> rm_relay_tasks s (rl_auction r) = Some t"
    and "\<And>t. rm_next_task s \<le> t \<Longrightarrow> rm_tasks s t = None"
  shows "rooms_ok s"
  using assms unfolding rooms_ok_def by blast

lemma rooms_ok_start: "rooms_ok no_rooms"
  by (simp add: rooms_ok_def no_rooms_def)

lemma connect_ok:
  assumes ok: "rooms_ok s" shows "rooms_ok (connect a ws s)"
proof (cases "rm_relay_tasks s a")
  case None
  with ok have none: "rm_connections s a = None" "rm_tasks s (rm_next_task s) = None" by (simp_all add: rooms_ok_def)
  have fresh: "rm_relay_tasks s b \<noteq> Some (rm_next_task s)" for b using rooms_okD(3) [OF ok, of b] none(2) by fastforce
  have idle: "\<not> (rm_tasks s t = Some r \<and> \<not> rl_cancelled r \<and> rl_phase r \<noteq> Finished \<and> rl_auction r = a)" for t r
    using rooms_okD(4) [OF ok, of t r] None by auto
  have "room s a = {}" by (simp add: room_def none(1))
  with ok None none fresh idle show ?thesis unfolding rooms_ok_def connect_def by (auto simp: Let_def)
next
  case (Some t)
  with ok obtain S where S: "rm_connections s a = Some S" "S \<noteq> {}" "finite S"
    unfolding rooms_ok_def by (metis not_None_eq)
  then show ?thesis using ok Some unfolding rooms_ok_def connect_def room_def by (auto simp: Let_def)
qed

lemma disconnect_ok:
  assumes ok: "rooms_ok s" shows "rooms_ok (disconnect a ws s)"
proof (cases "room s a - {ws} = {}")
  case False
  then obtain S where S: "rm_connections s a = Some S" "S - {ws} \<noteq> {}" "finite S"
    using ok by (auto simp: room_def rooms_ok_def split: option.splits)
  moreover have "rm_connections s a = None \<longleftrightarrow> rm_relay_tasks s a = None" using ok unfolding rooms_ok_def by blast
  with S(1) have "rm_relay_tasks s a \<noteq> None" by simp
  moreover have "disconnect a ws s = s\<lparr>rm_connections := (rm_connections s)(a \<mapsto> S - {ws})\<rparr>"
    using S False by (simp add: disconnect_def room_def)
  ultimately show ?thesis using ok unfolding rooms_ok_def by auto
next
  case True
  show ?thesis
  proof (cases "rm_relay_tasks s a")
    case None
    with ok have "rm_connections s a = None" by (simp add: rooms_ok_def)
    with None have "s\<lparr>rm_connections := (rm_connections s)(a := None), rm_relay_tasks := (rm_relay_tasks s)(a := None)\<rparr> = s"
      by (simp add: fun_upd_idem)
    with None True ok show ?thesis by (simp add: disconnect_def)
  next
    case (Some t)
    from rooms_okD(3) [OF ok this] obtain r where r: "rm_tasks s t = Some r" "rl_auction r = a" "\<not> rl_cancelled r"
      by blast
    have other: "rm_relay_tasks s b \<noteq> Some t" if "b \<noteq> a" for b
      using rooms_okD(3) [OF ok, of b t] r that by auto
    have only: "t' = t" if "rm_tasks s t' = Some r'" "\<not> rl_cancelled r'" "rl_phase r' \<noteq> Finished" "rl_auction r' = a" for t' r'
      using rooms_okD(4) [OF ok that(1-3)] Some that(4) by simp
    let ?tasks = "if rl_phase r = Finished then rm_tasks s else (rm_tasks s)(t \<mapsto> r\<lparr>rl_cancelled := True\<rparr>)"
    have s': "disconnect a ws s = s\<lparr>rm_connections := (rm_connections s)(a := None),
        rm_relay_tasks := (rm_relay_tasks s)(a := None), rm_tasks := ?tasks\<rparr>"
      using True Some r(1) by (simp add: disconnect_def cancel_task_def)
    show ?thesis
      unfolding s'
    proof (rule rooms_okI, goal_cases)
      case (1 b)
      then show ?case using rooms_okD(1) [OF ok, of b] by simp
    next
      case (2 b S)
      then show ?case using rooms_okD(2) [OF ok, of b S] by (auto split: if_splits)
    next
      case (3 b t')
      then show ?case using rooms_okD(3) [OF ok, of b t'] other [of b] by (auto split: if_splits)
    next
      case (4 t' r')
      then have r': "rm_tasks s t' = Some r'" "t' = t \<Longrightarrow> rl_phase r = Finished" by (auto split: if_splits)
      with 4 only [of t' r'] r(1) have "rl_auction r' \<noteq> a" by auto
      with rooms_okD(4) [OF ok r'(1)] 4 show ?case by simp
    next
      case (5 t')
      then show ?case using rooms_okD(5) [OF ok, of t'] r(1) by auto
    qed
  qed
qed

lemma set_phase_ok:
  assumes ok: "rooms_ok s" and "ph = Finished \<or> phase_of s t \<noteq> Some Finished"
  shows "rooms_ok (set_phase t ph s)"
proof (cases "rm_tasks s t")
  case None
  with ok show ?thesis by (simp add: set_phase_def)
next
  case (Some r)
  with assms show ?thesis
    unfolding rooms_ok_def set_phase_def phase_of_def by (auto; metis option.inject)
qed

lemma phase_deliver [simp]: "phase_of (deliver ws data s) t = phase_of s t"
  by (simp add: phase_of_def deliver_def)

lemma deliver_ok: "rooms_ok s \<Longrightarrow> rooms_ok (deliver ws data s)"
  by (simp add: rooms_ok_def deliver_def)

lemma room_step_ok:
  assumes "room_step s s'" and "rooms_ok s" shows "rooms_ok s'"
  using assms
proof (induction rule: room_step.induct)
  case (Drop s t r ws dead)
  then have "rooms_ok (set_phase t (Dropping dead) s)" by (intro set_phase_ok) (auto simp: phase_of_def)
  then show ?case by (rule disconnect_ok)
next
  case (Message s t r snapshot data)
  then show ?case by (intro set_phase_ok) (auto simp: phase_of_def)
qed (auto intro!: connect_ok disconnect_ok set_phase_ok deliver_ok)

lemma reachable_ok: "reachable s \<Longrightarrow> rooms_ok s"
  unfolding reachable_def
  by (induction rule: rtranclp_induct) (auto intro: rooms_ok_start room_step_ok)

section \<open>What a broadcast delivers\<close>

lemma room_connect [simp]: "room (connect a ws s) b = (if b = a then insert ws (room s a) else room s b)"
  by (auto simp: room_def connect_def Let_def)

lemma room_cancel [simp]: "room (cancel_task t s) b = room s b"
  by (simp add: room_def cancel_task_def split: option.splits)

lemma room_disconnect [simp]: "room (disconnect a ws s) b = (if b = a then room s a - {ws} else room s b)"
  by (auto simp: room_def disconnect_def cancel_task_def Let_def split: option.splits)

lemma received_disconnect [simp]: "rm_received (disconnect a ws s) = rm_received s"
  by (simp add: disconnect_def cancel_task_def Let_def split: option.splits)

lemma drop_all_effect [simp]:
  "room (drop_all a dead s) b = (if b = a then room s a - set dead else room s b)"
  "rm_received (drop_all a dead s) = rm_received s"
  by (induction dead arbitrary: s) auto

lemma send_all_effect:
  "distinct todo \<Longrightarrow> rm_received (send_all ok data todo s) ws =
     (if ws \<in> set todo \<and> ok ws then rm_received s ws @ [data] else rm_received s ws)"
  "room (send_all ok data todo s) b = room s b"
  by (induction todo arbitrary: s) (auto simp: deliver_def room_def)

lemma broadcast_effect:
  assumes "set snapshot = room s a" and "distinct snapshot"
  shows "rm_received (broadcast ok a data snapshot s) ws =
      (if ws \<in> room s a \<and> ok ws then rm_received s ws @ [data] else rm_received s ws)"
    and "room (broadcast ok a data snapshot s) b = (if b = a then {ws \<in> room s a. ok ws} else room s b)"
  using assms by (auto simp: broadcast_def send_all_effect)

text \<open>The steps of a relay that is not disturbed add up to \<open>broadcast\<close>.\<close>

lemma set_phase_twice [simp]: "set_phase t ph (set_phase t ph' s) = set_phase t ph s"
  by (simp add: set_phase_def split: option.splits)

lemma set_phase_deliver: "deliver ws data (set_phase t ph s) = set_phase t ph (deliver ws data s)"
  by (simp add: set_phase_def deliver_def split: option.splits)

lemma set_phase_same: "phase_of s t = Some ph \<Longrightarrow> set_phase t ph s = s"
  by (auto simp: set_phase_def phase_of_def fun_upd_idem)

lemma phase_set_phase [simp]: "phase_of s t \<noteq> None \<Longrightarrow> phase_of (set_phase t ph s) t = Some ph"
  by (auto simp: set_phase_def phase_of_def)

lemma set_phase_cancel:
  assumes "ph \<noteq> Finished" and "phase_of s t \<noteq> Some Finished"
  shows "cancel_task t' (set_phase t ph s) = set_phase t ph (cancel_task t' s)"
proof -
  have order: "r\<lparr>rl_cancelled := True, rl_phase := ph\<rparr> = r\<lparr>rl_phase := ph, rl_cancelled := True\<rparr>" for r :: relay
    by simp
  show ?thesis
    using assms by (cases "rm_tasks s t"; cases "rm_tasks s t'"; cases "t' = t")
      (auto simp: set_phase_def cancel_task_def phase_of_def fun_upd_twist order)
qed

lemma set_phase_disconnect:
  assumes "ph \<noteq> Finished" and "phase_of s t \<noteq> Some Finished"
  shows "disconnect a ws (set_phase t ph s) = set_phase t ph (disconnect a ws s)"
proof -
  have room: "room (set_phase t ph s) a = room s a" by (simp add: room_def set_phase_def split: option.splits)
  let ?e = "\<lambda>s. s\<lparr>rm_connections := (rm_connections s)(a := None), rm_relay_tasks := (rm_relay_tasks s)(a := None)\<rparr>"
  have e: "?e (set_phase t ph s) = set_phase t ph (?e s)" "phase_of (?e s) t \<noteq> Some Finished"
    using assms by (simp_all add: set_phase_def phase_of_def split: option.splits)
  have tasks: "rm_relay_tasks (set_phase t ph s) = rm_relay_tasks s" "rm_connections (set_phase t ph s) = rm_connections s"
    by (simp_all add: set_phase_def split: option.splits)
  have keep: "set_phase t ph (s\<lparr>rm_connections := c\<rparr>) = set_phase t ph s\<lparr>rm_connections := c\<rparr>" for c
    by (simp add: set_phase_def split: option.splits)
  show ?thesis
    using set_phase_cancel [OF assms(1) e(2)] e(1)
    by (simp add: disconnect_def Let_def room tasks keep split: option.splits)
qed

lemma broadcast_sends:
  assumes "phase_of s t = Some Listening" "runs s t"
  shows "room_step\<^sup>*\<^sup>* (set_phase t (Sending data todo dead) s)
     (set_phase t (Sending data [] (dead @ filter (\<lambda>ws. \<not> ok ws) todo)) (send_all ok data todo s))"
  using assms
proof (induction todo arbitrary: s dead)
  case Nil
  then show ?case by simp
next
  case (Cons ws todo)
  let ?s = "set_phase t (Sending data (ws # todo) dead) s"
  have ph: "phase_of ?s t = Some (Sending data (ws # todo) dead)" using Cons.prems(1) by simp
  have run: "runs ?s t" using Cons.prems by (auto simp: runs_def set_phase_def phase_of_def)
  show ?case
  proof (cases "ok ws")
    case True
    have "room_step ?s (set_phase t (Sending data todo dead) (deliver ws data s))"
      using room_step.Sent [OF ph run] by (simp add: set_phase_deliver)
    moreover have "runs (deliver ws data s) t" using Cons.prems(2) by (simp add: runs_def deliver_def)
    ultimately show ?thesis
      using Cons.IH [of "deliver ws data s" dead] Cons.prems(1) True by (simp add: converse_rtranclp_into_rtranclp)
  next
    case False
    have "room_step ?s (set_phase t (Sending data todo (dead @ [ws])) s)"
      using room_step.Send_Failed [OF ph run] by simp
    then show ?thesis
      using Cons.IH [of s "dead @ [ws]"] Cons.prems False by (simp add: converse_rtranclp_into_rtranclp)
  qed
qed

lemma phase_disconnect: "phase_of (disconnect a ws s) t = phase_of s t"
  by (auto simp: phase_of_def disconnect_def cancel_task_def Let_def split: option.splits)

lemma auction_disconnect: "map_option rl_auction (rm_tasks (disconnect a ws s) t) = map_option rl_auction (rm_tasks s t)"
  by (auto simp: disconnect_def cancel_task_def Let_def split: option.splits)

lemma broadcast_drops:
  assumes "phase_of s t = Some Listening" and "map_option rl_auction (rm_tasks s t) = Some a"
  shows "room_step\<^sup>*\<^sup>* (set_phase t (Dropping dead) s) (drop_all a dead s)"
  using assms
proof (induction dead arbitrary: s)
  case Nil
  have "phase_of (set_phase t (Dropping []) s) t = Some (Dropping [])" using Nil(1) by simp
  from room_step.Drops_Done [OF this] Nil(1) show ?case by (simp add: set_phase_same)
next
  case (Cons ws dead)
  let ?s = "set_phase t (Dropping (ws # dead)) s"
  obtain r where r: "rm_tasks ?s t = Some r" "rl_phase r = Dropping (ws # dead)" "rl_auction r = a"
    using Cons.prems by (auto simp: set_phase_def phase_of_def)
  have "disconnect a ws (set_phase t (Dropping dead) s) = set_phase t (Dropping dead) (disconnect a ws s)"
    by (rule set_phase_disconnect) (use Cons.prems(1) in simp_all)
  then have "room_step ?s (set_phase t (Dropping dead) (disconnect a ws s))"
    using room_step.Drop [OF r(1,2)] r(3) by simp
  then show ?case
    using Cons.IH [of "disconnect a ws s"] Cons.prems by (simp add: phase_disconnect auction_disconnect converse_rtranclp_into_rtranclp)
qed

lemma task_send_all: "rm_tasks (send_all ok data todo s) = rm_tasks s"
  by (induction todo arbitrary: s) (auto simp: deliver_def)

lemma broadcast_steps:
  assumes t: "rm_tasks s t = Some r" "rl_phase r = Listening" "\<not> rl_cancelled r"
    and snap: "set snapshot = room s (rl_auction r)" "distinct snapshot"
  shows "room_step\<^sup>*\<^sup>* s (broadcast ok (rl_auction r) data snapshot s)"
proof -
  let ?sent = "send_all ok data snapshot s"
  let ?dead = "filter (\<lambda>ws. \<not> ok ws) snapshot"
  have ph: "phase_of s t = Some Listening" "runs s t" using t by (simp_all add: phase_of_def runs_def)
  have sent: "phase_of ?sent t = Some Listening" "map_option rl_auction (rm_tasks ?sent t) = Some (rl_auction r)"
    using t by (simp_all add: phase_of_def task_send_all)
  have "room_step s (set_phase t (Sending data snapshot []) s)"
    by (rule room_step.Message [OF t snap])
  also have "room_step\<^sup>*\<^sup>* (set_phase t (Sending data snapshot []) s) (set_phase t (Sending data [] ?dead) ?sent)"
    using broadcast_sends [OF ph, of data snapshot "[]"] by simp
  also have "room_step (set_phase t (Sending data [] ?dead) ?sent) (set_phase t (Dropping ?dead) ?sent)"
    using room_step.Sends_Done [of "set_phase t (Sending data [] ?dead) ?sent" t data ?dead] sent(1) by simp
  also have "room_step\<^sup>*\<^sup>* (set_phase t (Dropping ?dead) ?sent) (broadcast ok (rl_auction r) data snapshot s)"
    using broadcast_drops [OF sent] by (simp add: broadcast_def)
  finally show ?thesis .
qed

section \<open>A relay that died\<close>

lemma relay_tasks_frame [simp]:
  "rm_relay_tasks (set_phase t ph s) = rm_relay_tasks s" "rm_relay_tasks (deliver ws data s) = rm_relay_tasks s"
  by (simp_all add: set_phase_def deliver_def split: option.splits)

lemma phase_set_phase_cases:
  "phase_of (set_phase t' ph s) t = (if t = t' \<and> phase_of s t \<noteq> None then Some ph else phase_of s t)"
  by (auto simp: set_phase_def phase_of_def split: option.splits)

lemma relay_disconnect:
  "room (disconnect b ws s) a \<noteq> {} \<Longrightarrow> rm_relay_tasks (disconnect b ws s) a = rm_relay_tasks s a"
  unfolding room_disconnect
  by (auto simp: disconnect_def cancel_task_def Let_def split: option.splits if_splits)

text \<open>While the room is not empty, the dead relay stays registered and nothing replaces it.\<close>

lemma finished_stays:
  assumes "room_step s s'" and "rooms_ok s"
    and "rm_relay_tasks s a = Some t" and "phase_of s t = Some Finished" and "room s' a \<noteq> {}"
  shows "rm_relay_tasks s' a = Some t \<and> phase_of s' t = Some Finished"
  using assms
proof (induction rule: room_step.induct)
  case (Connect s b ws)
  have "rm_next_task s \<noteq> t" using Connect.prems(1,3) by (auto simp: rooms_ok_def phase_of_def)
  with Connect.prems show ?case by (auto simp: connect_def phase_of_def Let_def)
next
  case (Disconnect s b ws)
  then show ?case using relay_disconnect [of b ws s a] by (simp add: phase_disconnect)
next
  case (Drop s t' r ws dead)
  have "room (disconnect (rl_auction r) ws (set_phase t' (Dropping dead) s)) a \<noteq> {}" using Drop.prems(4) .
  from relay_disconnect [OF this] have "rm_relay_tasks (disconnect (rl_auction r) ws (set_phase t' (Dropping dead) s)) a = Some t"
    using Drop.prems(2) by simp
  moreover have "t' \<noteq> t" using Drop.hyps Drop.prems(3) by (auto simp: phase_of_def)
  ultimately show ?case using Drop.prems(3) by (simp add: phase_disconnect phase_set_phase_cases)
next
  case (Message s t' r snapshot data)
  then have "t' \<noteq> t" by (auto simp: phase_of_def)
  with Message show ?case by (simp add: phase_set_phase_cases)
qed (auto simp: phase_set_phase_cases)

text \<open>The states of a room that keeps at least one client.\<close>

definition occupied_step :: "string \<Rightarrow> room_manager \<Rightarrow> room_manager \<Rightarrow> bool" where
  "occupied_step a s s' \<longleftrightarrow> room_step s s' \<and> room s' a \<noteq> {}"

lemma finished_stays_forever:
  assumes "(occupied_step a)\<^sup>*\<^sup>* s s'" and "rooms_ok s"
    and "rm_relay_tasks s a = Some t" and "phase_of s t = Some Finished"
  shows "rooms_ok s' \<and> rm_relay_tasks s' a = Some t \<and> phase_of s' t = Some Finished"
  using assms
proof (induction rule: rtranclp_induct)
  case base
  then show ?case by simp
next
  case (step u v)
  then have "rooms_ok u" "rm_relay_tasks u a = Some t" "phase_of u t = Some Finished" by simp_all
  with step.hyps(2) show ?case
    using finished_stays room_step_ok unfolding occupied_step_def by blast
qed

section \<open>The endpoint's bookkeeping\<close>

text \<open>A connection that ends joined once and left once, at the end.\<close>

lemma receive_loop_shape:
  "list_ex (\<lambda>e. e = Client_Leaves \<or> e = Socket_Error) es \<Longrightarrow>
   \<exists>xs. receive_loop env es = xs @ [Leaves] \<and> set xs \<subseteq> {Warns_Malformed, Closes_1011}"
proof (induction env es rule: receive_loop.induct)
  case (2 env raw es)
  then obtain xs where "receive_loop env es = xs @ [Leaves]" "set xs \<subseteq> {Warns_Malformed, Closes_1011}"
    by (cases "json_loads env raw") auto
  then show ?case
    by (cases "json_loads env raw") (auto intro: exI [of _ xs] exI [of _ "Warns_Malformed # xs"])
qed auto

end
