(* ===== verification/Gateway_Properties.thy ===== *)
theory Gateway_Properties
  imports Ws_Gateway Sample_World
begin

text \<open>
  The properties of the WebSocket gateway, each with an instance.
\<close>

definition relay_active :: "room_manager \<Rightarrow> nat \<Rightarrow> string \<Rightarrow> bool" where
  "relay_active s t a \<longleftrightarrow>
     (case rm_tasks s t of None \<Rightarrow> False | Some r \<Rightarrow> rl_auction r = a \<and> \<not> rl_cancelled r \<and> rl_phase r \<noteq> Finished)"

lemma relay_active_registered: "rooms_ok s \<Longrightarrow> relay_active s t a \<Longrightarrow> rm_relay_tasks s a = Some t"
  using rooms_okD(4) [of s t] by (auto simp: relay_active_def split: option.splits)

lemma room_empty_iff: "rooms_ok s \<Longrightarrow> room s a = {} \<longleftrightarrow> rm_relay_tasks s a = None"
  using rooms_okD(1) [of s a] rooms_okD(2) [of s a] by (cases "rm_connections s a") (auto simp: room_def)

text \<open>Socket 5 joins the room of an auction.\<close>

definition one_client :: room_manager where
  "one_client = connect ''a'' 5 no_rooms"

lemma one_client_reachable: "reachable one_client"
  unfolding reachable_def one_client_def by (rule r_into_rtranclp) (rule room_step.Connect)

lemma one_client_facts:
  "rm_tasks one_client 0 = Some \<lparr>rl_auction = ''a'', rl_phase = Listening, rl_cancelled = False\<rparr>"
  "rm_relay_tasks one_client ''a'' = Some 0" "room one_client ''a'' = {5}"
  by (simp_all add: one_client_def connect_def no_rooms_def room_def)

text \<open>C8. However clients connect and disconnect, relays deliver, fail and are cancelled: an auction
  has a registered relay exactly while it has a client, no auction ever has two active
  relays, and no relay stays active once its room is empty.\<close>

theorem one_relay_per_room:
  assumes "reachable s"
  shows "(room s a = {} \<longleftrightarrow> rm_relay_tasks s a = None) \<and>
    (\<forall>t t'. relay_active s t a \<and> relay_active s t' a \<longrightarrow> t = t') \<and>
    (\<forall>t. relay_active s t a \<longrightarrow> room s a \<noteq> {})"
proof -
  have ok: "rooms_ok s" using assms by (rule reachable_ok)
  have "t = t'" if "relay_active s t a" "relay_active s t' a" for t t'
    using relay_active_registered [OF ok that(1)] relay_active_registered [OF ok that(2)] by simp
  moreover have "room s a \<noteq> {}" if "relay_active s t a" for t
    using relay_active_registered [OF ok that] room_empty_iff [OF ok, of a] by simp
  ultimately show ?thesis using room_empty_iff [OF ok, of a] by blast
qed

theorem one_relay_per_room_witness:
  "relay_active one_client 0 ''a'' \<and> \<not> relay_active one_client 1 ''a''"
proof -
  have "relay_active one_client 0 ''a''" by (simp add: relay_active_def one_client_facts)
  then show ?thesis using one_relay_per_room [OF one_client_reachable, of "''a''"] by (metis zero_neq_one)
qed

text \<open>C37. A message that a listening relay takes reaches every client of the room exactly once and
  nobody else: the steps of the relay lead to a state in which each socket that accepts text
  has received it, and the sockets that failed, and only those, have left the room.\<close>

theorem broadcast_reaches_room:
  assumes "rm_tasks s t = Some r" and "rl_phase r = Listening" and "\<not> rl_cancelled r"
    and "set snapshot = room s (rl_auction r)" and "distinct snapshot"
  shows "\<exists>s'. room_step\<^sup>*\<^sup>* s s' \<and>
    (\<forall>ws. rm_received s' ws = rm_received s ws @ (if ws \<in> room s (rl_auction r) \<and> ok ws then [data] else [])) \<and>
    (\<forall>a. room s' a = (if a = rl_auction r then {ws \<in> room s a. ok ws} else room s a))"
  using broadcast_steps [OF assms, of ok data] broadcast_effect [OF assms(4,5)]
  by (intro exI [of _ "broadcast ok (rl_auction r) data snapshot s"]) auto

theorem broadcast_reaches_room_witness:
  "\<exists>s'. room_step\<^sup>*\<^sup>* one_client s' \<and> rm_received s' 5 = [''bid''] \<and> room s' ''a'' = {5}"
proof -
  have "set [5] = room one_client (rl_auction \<lparr>rl_auction = ''a'', rl_phase = Listening, rl_cancelled = False\<rparr>)"
    by (simp add: one_client_facts)
  from broadcast_reaches_room [OF one_client_facts(1) _ _ this, of "\<lambda>_. True" "''bid''"]
  obtain s' where s': "room_step\<^sup>*\<^sup>* one_client s'"
    "rm_received s' 5 = rm_received one_client 5 @ [''bid'']" "room s' ''a'' = {5}"
    by (auto simp: one_client_facts)
  moreover have "rm_received one_client 5 = []" by (simp add: one_client_def connect_def no_rooms_def)
  ultimately show ?thesis by auto
qed



text \<open>A connection joins its room first and leaves it last, exactly once, however it ends, and
  whatever text it sent in between is only checked for being JSON.\<close>

lemma auction_room_balanced:
  assumes "list_ex (\<lambda>e. e = Client_Leaves \<or> e = Socket_Error) es"
  shows "\<exists>xs. auction_room env es = Joins # xs @ [Leaves] \<and> set xs \<subseteq> {Warns_Malformed, Closes_1011}"
  using receive_loop_shape [OF assms] by (auto simp: auction_room_def)

end
