(* ===== verification/Connections.thy ===== *)
theory Connections
  imports Auction_Worker
begin

text \<open>
  The process-wide connections: the module variables of \<^verbatim>\<open>core/database.py\<close>,
  \<^verbatim>\<open>core/redis.py\<close> and \<^verbatim>\<open>core/kafka.py\<close>, their initialisation, access and disposal, the
  application's life span (\<^verbatim>\<open>main.py\<close>), the worker's (\<^verbatim>\<open>workers/auction_worker.py\<close>) and the
  health probes (\<^verbatim>\<open>api/v1/health.py\<close>). An opened object is a number; \<open>cn_closed\<close> lists the
  ones that were closed.
\<close>

record connections =
  cn_engine :: "nat option"
  cn_session_factory :: "nat option"
  cn_pool :: "nat option"
  cn_client :: "nat option"
  cn_producer :: "nat option"
  cn_opened :: nat
  cn_closed :: "nat list"

definition no_connections :: connections where
  "no_connections = \<lparr>cn_engine = None, cn_session_factory = None, cn_pool = None, cn_client = None,
     cn_producer = None, cn_opened = 0, cn_closed = []\<rparr>"

section \<open>core/database.py\<close>

definition init_engine :: "connections \<Rightarrow> connections" where
  "init_engine c = c\<lparr>cn_engine := Some (cn_opened c), cn_session_factory := Some (cn_opened c), cn_opened := Suc (cn_opened c)\<rparr>"

definition dispose_engine :: "connections \<Rightarrow> connections" where
  "dispose_engine c =
     (case cn_engine c of None \<Rightarrow> c | Some e \<Rightarrow> c\<lparr>cn_closed := cn_closed c @ [e], cn_engine := None\<rparr>)"

definition get_session_factory :: "connections \<Rightarrow> exn + nat" where
  "get_session_factory c =
     (case cn_session_factory c of
        None \<Rightarrow> Inl (RuntimeError ''Database engine not initialized. Call init_engine() at startup.'')
      | Some f \<Rightarrow> Inr f)"

text \<open>\<open>answers\<close>: whether \<open>SELECT 1\<close> succeeds.\<close>

definition check_db_health :: "bool \<Rightarrow> connections \<Rightarrow> bool" where
  "check_db_health answers c = (case get_session_factory c of Inl _ \<Rightarrow> False | Inr _ \<Rightarrow> answers)"

section \<open>core/redis.py\<close>

definition init_redis :: "connections \<Rightarrow> connections" where
  "init_redis c = c\<lparr>cn_pool := Some (cn_opened c), cn_client := Some (Suc (cn_opened c)), cn_opened := Suc (Suc (cn_opened c))\<rparr>"

definition dispose_redis :: "connections \<Rightarrow> connections" where
  "dispose_redis c =
     (let c1 = (case cn_client c of None \<Rightarrow> c | Some h \<Rightarrow> c\<lparr>cn_closed := cn_closed c @ [h], cn_client := None\<rparr>) in
      case cn_pool c1 of None \<Rightarrow> c1 | Some h \<Rightarrow> c1\<lparr>cn_closed := cn_closed c1 @ [h], cn_pool := None\<rparr>)"

definition get_redis :: "connections \<Rightarrow> exn + nat" where
  "get_redis c =
     (case cn_client c of
        None \<Rightarrow> Inl (RuntimeError ''Redis client not initialized. Call init_redis() at startup.'')
      | Some h \<Rightarrow> Inr h)"

text \<open>\<open>pong\<close>: what \<open>PING\<close> gives, \<open>None\<close> for an exception.\<close>

definition check_redis_health :: "bool option \<Rightarrow> connections \<Rightarrow> bool" where
  "check_redis_health pong c =
     (case get_redis c of Inl _ \<Rightarrow> False | Inr _ \<Rightarrow> (case pong of None \<Rightarrow> False | Some b \<Rightarrow> b))"

section \<open>core/kafka.py\<close>

text \<open>\<open>starts n\<close>: whether the \<open>n\<close>th attempt to start the producer succeeds; five are made.\<close>

fun start_producer_with_retry :: "(nat \<Rightarrow> bool) \<Rightarrow> nat \<Rightarrow> nat \<Rightarrow> nat \<times> bool" where
  "start_producer_with_retry starts n 0 = (n, False)"
| "start_producer_with_retry starts n (Suc k) =
     (if starts n then (Suc n, True) else start_producer_with_retry starts (Suc n) k)"

definition START_ATTEMPTS :: nat where
  "START_ATTEMPTS = 5"

definition init_kafka_producer :: "(nat \<Rightarrow> bool) \<Rightarrow> connections \<Rightarrow> (exn + unit) \<times> connections" where
  "init_kafka_producer starts c =
     (let c1 = c\<lparr>cn_producer := Some (cn_opened c), cn_opened := Suc (cn_opened c)\<rparr> in
      if snd (start_producer_with_retry starts 0 START_ATTEMPTS) then (Inr (), c1) else (Inl KafkaError, c1))"

definition dispose_kafka_producer :: "connections \<Rightarrow> connections" where
  "dispose_kafka_producer c =
     (case cn_producer c of None \<Rightarrow> c | Some h \<Rightarrow> c\<lparr>cn_closed := cn_closed c @ [h], cn_producer := None\<rparr>)"

definition get_kafka_producer :: "connections \<Rightarrow> exn + nat" where
  "get_kafka_producer c =
     (case cn_producer c of
        None \<Rightarrow> Inl (RuntimeError ''Kafka producer not initialized. Call init_kafka_producer() at startup.'')
      | Some h \<Rightarrow> Inr h)"

section \<open>main.py\<close>

text \<open>The life span up to \<open>yield\<close>, and after it.\<close>

definition lifespan_startup :: "(nat \<Rightarrow> bool) \<Rightarrow> connections \<Rightarrow> (exn + unit) \<times> connections" where
  "lifespan_startup starts c = init_kafka_producer starts (init_redis (init_engine c))"

definition lifespan_shutdown :: "connections \<Rightarrow> connections" where
  "lifespan_shutdown c = dispose_engine (dispose_redis (dispose_kafka_producer c))"

text \<open>
  The response to an exception that leaves an endpoint: an \<open>HTTPException\<close> is answered as it
  says, everything else by \<open>unhandled_exception_handler\<close>.
\<close>

fun response_of :: "exn \<Rightarrow> int \<times> string" where
  "response_of (HTTPException status detail _) = (status, detail)"
| "response_of _ = (HTTP_500_INTERNAL, ''Internal server error'')"

section \<open>api/v1/health.py\<close>

definition liveness :: "int \<times> string" where
  "liveness = (HTTP_200_OK, ''ok'')"

record readiness_reply =
  rd_code :: int
  rd_status :: string
  rd_database :: bool
  rd_redis :: bool

definition readiness :: "bool \<Rightarrow> bool option \<Rightarrow> connections \<Rightarrow> readiness_reply" where
  "readiness answers pong c =
     (let db_ok = check_db_health answers c; redis_ok = check_redis_health pong c; ready = db_ok \<and> redis_ok in
      \<lparr>rd_code = (if ready then HTTP_200_OK else HTTP_503_SERVICE_UNAVAILABLE),
       rd_status = (if ready then ''ok'' else ''degraded''), rd_database = db_ok, rd_redis = redis_ok\<rparr>)"

section \<open>workers/auction_worker.py\<close>

text \<open>
  \<open>run_worker\<close>: an exception before the \<open>try\<close> ends the process with what was opened so far;
  afterwards the connections are disposed of however the loop ends. \<open>consuming\<close> says whether
  the consumer starts.
\<close>

definition run_worker ::
    "env \<Rightarrow> (nat \<Rightarrow> bool) \<Rightarrow> bool \<Rightarrow> (nat \<Rightarrow> bool) \<Rightarrow> (nat \<Rightarrow> bool) \<Rightarrow> consumer_record list \<Rightarrow> connections \<Rightarrow> world \<Rightarrow>
     (exn + worker_exit) \<times> connections \<times> world" where
  "run_worker env starts consuming stopped commits ms c w =
     (case init_kafka_producer starts (init_redis (init_engine c)) of
        (Inl e, c1) \<Rightarrow> (Inl e, c1, w)
      | (Inr _, c1) \<Rightarrow>
          (let (res, w1) = (if consuming then (case worker_loop env stopped commits 0 ms w of
                              (_, ex, w1) \<Rightarrow> (if ex = Commit_Failed then Inl KafkaError else Inr ex, w1))
                            else (Inl KafkaError, w)) in
           (res, dispose_engine (dispose_redis (dispose_kafka_producer c1)), w1)))"

section \<open>The contract of a connection\<close>

text \<open>
  Two contracts: a connection that is available from its initialisation on, and one that in
  addition is refused again after its disposal.
\<close>

text \<open>Any sequence of initialisations (\<open>True\<close>) and disposals (\<open>False\<close>).\<close>

fun life :: "(connections \<Rightarrow> connections) \<Rightarrow> (connections \<Rightarrow> connections) \<Rightarrow> bool list \<Rightarrow> connections \<Rightarrow> connections" where
  "life init dispose [] c = c"
| "life init dispose (b # bs) c = life init dispose bs (if b then init c else dispose c)"

lemma life_append: "life init dispose (bs @ bs') c = life init dispose bs' (life init dispose bs c)"
  by (induction bs arbitrary: c) auto

locale connection =
  fixes init :: "connections \<Rightarrow> connections" and get :: "connections \<Rightarrow> exn + nat" and why :: string
    and dispose :: "connections \<Rightarrow> connections"
  assumes get_initial: "get no_connections = Inl (RuntimeError why)"
    and get_init: "\<exists>h. get (init c) = Inr h"
begin

lemma available_after_init: "bs \<noteq> [] \<Longrightarrow> last bs \<Longrightarrow> \<exists>h. get (life init dispose bs c) = Inr h"
  by (induction bs arbitrary: c rule: rev_induct) (auto simp: life_append get_init)

end

locale disposable_connection = connection +
  assumes get_dispose: "get (dispose c) = Inl (RuntimeError why)"
begin

lemma available_iff_last_init:
  "(\<exists>h. get (life init dispose bs no_connections) = Inr h) \<longleftrightarrow> bs \<noteq> [] \<and> last bs"
  by (induction bs rule: rev_induct) (use get_initial get_init get_dispose in \<open>auto simp: life_append\<close>)

end

text \<open>One that disposal does not take away: available from the first initialisation on.\<close>

locale sticky_connection = connection +
  assumes get_keeps: "get (dispose c) = get c"
begin

lemma available_iff_some_init:
  "(\<exists>h. get (life init dispose bs no_connections) = Inr h) \<longleftrightarrow> True \<in> set bs"
  by (induction bs rule: rev_induct) (use get_initial get_init get_keeps in \<open>auto simp: life_append\<close>)

end

lemmas connection_defs = no_connections_def init_engine_def dispose_engine_def get_session_factory_def
  init_redis_def dispose_redis_def get_redis_def init_kafka_producer_def dispose_kafka_producer_def get_kafka_producer_def

interpretation database: sticky_connection init_engine get_session_factory
    "''Database engine not initialized. Call init_engine() at startup.''" dispose_engine
  by unfold_locales (simp_all add: connection_defs split: option.splits)

interpretation redis: disposable_connection init_redis get_redis "''Redis client not initialized. Call init_redis() at startup.''" dispose_redis
  by unfold_locales (simp_all add: connection_defs Let_def split: option.splits)

interpretation kafka: disposable_connection "\<lambda>c. snd (init_kafka_producer starts c)" get_kafka_producer
    "''Kafka producer not initialized. Call init_kafka_producer() at startup.''" dispose_kafka_producer for starts
  by unfold_locales (simp_all add: connection_defs Let_def split: option.splits)

section \<open>Start and stop\<close>

lemma start_producer_iff:
  "snd (start_producer_with_retry starts n k) \<longleftrightarrow> (\<exists>i < k. starts (n + i))"
proof (induction k arbitrary: n)
  case 0
  then show ?case by simp
next
  case (Suc k)
  have "(\<exists>i < Suc k. starts (n + i)) \<longleftrightarrow> starts n \<or> (\<exists>i < k. starts (Suc n + i))"
    using less_Suc_eq_0_disj by auto
  with Suc show ?case by simp
qed

lemma start_producer_attempts: "fst (start_producer_with_retry starts n k) \<le> n + k"
proof (induction k arbitrary: n)
  case 0
  then show ?case by simp
next
  case (Suc k)
  from Suc.IH [of "Suc n"] show ?case by simp
qed

text \<open>Everything that was opened is closed.\<close>

definition all_closed :: "connections \<Rightarrow> bool" where
  "all_closed c \<longleftrightarrow> (\<forall>h < cn_opened c. h \<in> set (cn_closed c)) \<and> distinct (cn_closed c)"

lemma startup_shutdown_closed: "all_closed (lifespan_shutdown (snd (lifespan_startup starts no_connections)))"
  by (auto simp: all_closed_def lifespan_shutdown_def lifespan_startup_def connection_defs Let_def less_Suc_eq)

end
