(* ===== verification/Connection_Properties.thy ===== *)
theory Connection_Properties
  imports Connections Sample_World
begin

text \<open>
  The properties of the process-wide connections.
\<close>

text \<open>Availability over any sequence of initialisations and disposals: Redis and the Kafka
  producer are available exactly if the last operation initialised them, whereas the session
  factory, which disposal leaves in place, is available after any initialisation at all, even
  when its engine has been disposed of since.\<close>

theorem connection_availability:
  "((\<exists>h. get_redis (life init_redis dispose_redis bs no_connections) = Inr h) \<longleftrightarrow> bs \<noteq> [] \<and> last bs) \<and>
   ((\<exists>h. get_kafka_producer (life (\<lambda>c. snd (init_kafka_producer starts c)) dispose_kafka_producer bs no_connections) = Inr h)
      \<longleftrightarrow> bs \<noteq> [] \<and> last bs) \<and>
   ((\<exists>h. get_session_factory (life init_engine dispose_engine bs no_connections) = Inr h) \<longleftrightarrow> True \<in> set bs)"
  by (intro conjI redis.available_iff_last_init kafka.available_iff_last_init database.available_iff_some_init)

lemma start_iff: "snd (start_producer_with_retry starts 0 START_ATTEMPTS) \<longleftrightarrow> (\<exists>i < 5. starts i)"
  by (simp add: start_producer_iff START_ATTEMPTS_def)

lemma disposed_all:
  "init_kafka_producer starts (init_redis (init_engine no_connections)) = (Inr (), c) \<Longrightarrow>
   all_closed (dispose_engine (dispose_redis (dispose_kafka_producer c)))"
  using startup_shutdown_closed [of starts] by (simp add: lifespan_shutdown_def lifespan_startup_def)

text \<open>The worker starts its loop exactly if one of five attempts to start the producer
  succeeds; then everything it opened is closed when it ends, whether the messages run out,
  it is told to stop, the consumer cannot start or a commit fails. Otherwise it consumes
  nothing, and leaves the engine and the Redis connections open.\<close>

theorem worker_cleans_up:
  "((\<exists>i < 5. starts i) \<longrightarrow>
      all_closed (fst (snd (run_worker env starts consuming stopped commits ms no_connections w)))) \<and>
   (\<not> (\<exists>i < 5. starts i) \<longrightarrow>
      (\<exists>c. run_worker env starts consuming stopped commits ms no_connections w = (Inl KafkaError, c, w) \<and>
           \<not> all_closed c \<and> cn_closed c = []))"
proof (cases "\<exists>i < 5. starts i")
  case True
  then have "\<exists>c. init_kafka_producer starts (init_redis (init_engine no_connections)) = (Inr (), c)"
    by (auto simp: init_kafka_producer_def start_iff Let_def)
  then obtain c where c: "init_kafka_producer starts (init_redis (init_engine no_connections)) = (Inr (), c)" ..
  from disposed_all [OF c] True show ?thesis by (auto simp: run_worker_def c Let_def split: prod.splits)
next
  case False
  then show ?thesis
    by (auto simp: run_worker_def init_kafka_producer_def start_iff connection_defs Let_def all_closed_def)
qed

theorem worker_cleans_up_witness:
  "all_closed (fst (snd (run_worker sample_env (\<lambda>i. i = 3) False (\<lambda>_. False) (\<lambda>_. True) [] no_connections sample_world)))"
proof -
  have "\<exists>i < 5. (\<lambda>i. i = 3) (i :: nat)" by simp
  with worker_cleans_up [of "\<lambda>i. i = 3" sample_env False "\<lambda>_. False" "\<lambda>_. True" "[]" sample_world] show ?thesis by blast
qed

end
