(* ===== verification/Dashboard_Properties.thy ===== *)
theory Dashboard_Properties
  imports Admin_Service Read_Laws Auth_Properties
begin

text \<open>
  The properties of the home page, the dashboard and its reports, each with an instance.
\<close>

section \<open>The menu\<close>

definition active_third_level :: "menu_item list \<Rightarrow> bool" where
  "active_third_level items \<longleftrightarrow>
     (\<exists>t \<in> set items. \<exists>c \<in> set items. \<exists>g \<in> set items.
        mi_parent_id t = None \<and> mi_is_active t \<and> mi_parent_id c = Some (mi_id t) \<and> mi_is_active c \<and>
        mi_parent_id g = Some (mi_id c) \<and> mi_is_active g)"

lemma map_results_Inl: "map_results f xs = Inl e \<Longrightarrow> \<exists>x \<in> set xs. f x = Inl e"
proof (induction xs)
  case Nil
  then show ?case by simp
next
  case (Cons x xs)
  then show ?case by (cases "f x"; cases "map_results f xs") auto
qed

lemma menu_error: "menu_item_to_schema items l n item = Inl e \<Longrightarrow> e = MissingGreenlet"
  by (induction n arbitrary: item) (auto dest: map_results_Inl)

lemma get_menu_run:
  "\<not> deactive w \<Longrightarrow> get_menu env l w =
   (map_results (menu_item_to_schema (menu_items (work w)) l MENU_LEVELS)
      (order_by mi_sort_order (filter (\<lambda>i. mi_parent_id i = None \<and> mi_is_active i) (menu_items (work w)))), w)"
  by (simp add: get_menu_def query_def)

text \<open>C40. The menu can be served exactly if no active item hangs below two levels of active items;
  a single one at the third level makes the whole menu fail, with a lazy load that the async
  session refuses.\<close>

theorem menu_two_levels:
  assumes "clean w"
  shows "if active_third_level (menu_items (committed w)) then fst (get_menu_endpoint env l w) = Inl MissingGreenlet
         else \<exists>menu. fst (get_menu_endpoint env l w) = Inr menu"
proof -
  have w: "\<not> deactive w" "work w = committed w" using assms by (simp_all add: clean_def)
  let ?items = "menu_items (committed w)"
  let ?tops = "order_by mi_sort_order (filter (\<lambda>i. mi_parent_id i = None \<and> mi_is_active i) ?items)"
  let ?res = "map_results (menu_item_to_schema ?items l MENU_LEVELS) ?tops"
  have run: "fst (get_menu_endpoint env l w) = ?res"
    using w by (simp add: get_menu_endpoint_def request_session_result get_menu_run)
  have "(\<exists>menu. ?res = Inr menu) \<longleftrightarrow> (\<forall>t \<in> set ?tops. \<exists>m. menu_item_to_schema ?items l (Suc (Suc 0)) t = Inr m)"
    by (simp only: map_results_total MENU_LEVELS_def numeral_2_eq_2)
  also have "\<dots> \<longleftrightarrow> \<not> active_third_level ?items"
    unfolding menu_level_two active_third_level_def set_sort set_filter by blast
  finally have "(\<exists>menu. ?res = Inr menu) \<longleftrightarrow> \<not> active_third_level ?items" .
  moreover have "?res = Inl e \<Longrightarrow> e = MissingGreenlet" for e
    by (auto dest!: map_results_Inl menu_error)
  ultimately show ?thesis unfolding run by (cases ?res) auto
qed

definition sample_menu_item :: "uuid \<Rightarrow> uuid option \<Rightarrow> menu_item" where
  "sample_menu_item i p = \<lparr>mi_id = i, mi_parent_id = p, mi_label_en = ''Cars'', mi_label_ar = [], mi_url = ''/'',
     mi_icon_class = None, mi_item_type = [], mi_visibility = [], mi_opens_new_tab = False, mi_sort_order = 1, mi_is_active = True\<rparr>"

theorem menu_two_levels_witness:
  "fst (get_menu_endpoint sample_env En (initial_world (sample_db\<lparr>menu_items :=
     [sample_menu_item 1 None, sample_menu_item 2 (Some 1), sample_menu_item 3 (Some 2)]\<rparr>))) = Inl MissingGreenlet"
proof -
  let ?w = "initial_world (sample_db\<lparr>menu_items :=
     [sample_menu_item 1 None, sample_menu_item 2 (Some 1), sample_menu_item 3 (Some 2)]\<rparr>)"
  have "active_third_level (menu_items (committed ?w))"
    by (auto simp: active_third_level_def initial_world_def sample_menu_item_def)
  then show ?thesis using menu_two_levels [OF clean_initial, of _ sample_env En] by simp
qed

section \<open>Featured auctions\<close>

text \<open>Every featured item comes from an active row of the asked category whose vehicle is
  active; it shows that vehicle, and shows the status and the starting price of an auction
  only when the row links one and that auction is of the same vehicle.\<close>

theorem featured_items_consistent:
  assumes "clean w" and "get_featured_auction_items env l key w = (Inr items, w')" and "x \<in> set items"
  shows "\<exists>row \<in> set (featured_auctions (committed w)). \<exists>v \<in> set (vehicle_listings (committed w)).
    fa_is_active row \<and> sql_eq env (fa_category_key row) key \<and> vl_is_active v \<and>
    fa_vehicle_listing_id row = Some (vl_id v) \<and> fir_id x = fa_id row \<and> fir_detail_url x = vl_detail_url v \<and>
    (\<forall>s. fir_status x = Some s \<longrightarrow>
       (\<exists>a \<in> set (auctions (committed w)). fa_auction_id row = Some (a_id a) \<and> a_vehicle_id a = vl_id v \<and>
          a_status a = s \<and> fir_starting_price x = Some (a_starting_price a)))"
proof -
  have w: "\<not> deactive w" "work w = committed w" using assms(1) by (simp_all add: clean_def)
  from get_featured_items_run [OF w(1) assms(2,3)] w(2) obtain row v where
    row: "row \<in> set (featured_auctions (committed w))" "fa_is_active row" "sql_eq env (fa_category_key row) key"
    and v: "row_vehicle (committed w) row = Some v" "vl_is_active v"
    and x: "featured_auction_item_to_schema (committed w) l row = Some x" by auto
  from v(1) have vid: "v \<in> set (vehicle_listings (committed w))" "fa_vehicle_listing_id row = Some (vl_id v)"
    by (auto simp: row_vehicle_def split: option.splits dest: get_by_id_SomeD)
  from x v(1) have fields: "fir_id x = fa_id row" "fir_detail_url x = vl_detail_url v"
    by (auto simp: featured_auction_item_to_schema_def Let_def)
  have "\<exists>a \<in> set (auctions (committed w)). fa_auction_id row = Some (a_id a) \<and> a_vehicle_id a = vl_id v \<and>
      a_status a = s \<and> fir_starting_price x = Some (a_starting_price a)" if s: "fir_status x = Some s" for s
  proof -
    from s x v(1) obtain a where a: "row_auction (committed w) row = Some a" "Some (a_vehicle_id a) = fa_vehicle_listing_id row"
      "a_status a = s" "fir_starting_price x = Some (a_starting_price a)"
      by (auto simp: featured_auction_item_to_schema_def Let_def split: option.splits if_splits)
    then have "a \<in> set (auctions (committed w))" "fa_auction_id row = Some (a_id a)"
      by (auto simp: row_auction_def split: option.splits dest: get_by_id_SomeD)
    with a vid show ?thesis by auto
  qed
  with row v vid fields show ?thesis by blast
qed

definition sample_featured :: featured_auction where
  "sample_featured = \<lparr>fa_id = 71, fa_auction_id = Some 41, fa_vehicle_listing_id = Some 500, fa_badge_en = None, fa_badge_ar = None,
     fa_category_key = ''hot'', fa_category_label_en = ''Hot'', fa_category_label_ar = [], fa_visibility = [],
     fa_category_sort_order = 1, fa_sort_order = 1, fa_is_active = True, fa_created_at = 0\<rparr>"

definition sample_vehicle :: vehicle_listing where
  "sample_vehicle = \<lparr>vl_id = 500, vl_seller_id = None, vl_title_en = ''Car'', vl_title_ar = [], vl_image_url = None,
     vl_detail_url = ''/v/500'', vl_lot_number = None, vl_mileage = None, vl_location_en = None, vl_location_ar = None,
     vl_bid_amount = None, vl_countdown_label = None, vl_is_active = True, vl_chassis_number = None, vl_make_id = None,
     vl_model_id = None, vl_branch_id = None, vl_color_id = None, vl_keys_option_id = None, vl_fuel_type_id = None,
     vl_bidding_model_id = None, vl_year = None, vl_target_selling_price = None, vl_minimum_selling_price = None,
     vl_previous_number_plate = None, vl_sub_seller_id = None, vl_created_by_id = None, vl_mulkhiya_document_url = None,
     vl_terms_accepted = True, vl_status = ''published'', vl_created_at = 0\<rparr>"

definition featured_world :: world where
  "featured_world = initial_world (sample_db\<lparr>featured_auctions := [sample_featured], vehicle_listings := [sample_vehicle]\<rparr>)"

theorem featured_items_consistent_witness:
  "\<exists>x w'. get_featured_auction_items sample_env En ''HOT'' featured_world = (Inr [x], w') \<and> fir_status x = Some ''live'' \<and>
     (\<exists>a \<in> set (auctions (committed featured_world)). a_vehicle_id a = 500 \<and> a_status a = ''live'')"
proof -
  let ?run = "get_featured_auction_items sample_env En ''HOT'' featured_world"
  have "\<exists>x. fst ?run = Inr [x] \<and> fir_status x = Some ''live'' \<and> fir_id x = 71"
    by (simp add: get_featured_auction_items_def query_def featured_world_def initial_world_def usable_def
        row_vehicle_def row_auction_def featured_auction_item_to_schema_def get_by_id_def sample_featured_def
        sample_vehicle_def sample_db_def sample_auction_def Let_def List.map_filter_def sql_eq_def sample_env_def) code_simp
  then obtain x where run: "?run = (Inr [x], snd ?run)" and x: "fir_status x = Some ''live''" by (metis prod.collapse)
  have "clean featured_world" by (simp add: featured_world_def)
  from featured_items_consistent [OF this run, of x] x obtain row v a where
    "v \<in> set (vehicle_listings (committed featured_world))" "a \<in> set (auctions (committed featured_world))"
    "a_vehicle_id a = vl_id v" "a_status a = ''live''" by auto
  moreover have "set (vehicle_listings (committed featured_world)) = {sample_vehicle}"
    by (simp add: featured_world_def initial_world_def)
  ultimately have "a_vehicle_id a = 500" by (simp add: sample_vehicle_def)
  with run x \<open>a \<in> _\<close> \<open>a_status a = _\<close> show ?thesis by blast
qed

section \<open>Sections of the dashboard\<close>

definition section_cards :: "env \<Rightarrow> lang \<Rightarrow> string \<Rightarrow> database \<Rightarrow> admin_dashboard_card_read list" where
  "section_cards env l sec db = map (card_read l) (order_by dc_sort_order
     (filter (\<lambda>c. dc_is_active c \<and> sql_eq env (dc_section_key c) sec) (admin_dashboard_cards db)))"

definition holds_one_of :: "string list \<Rightarrow> user \<Rightarrow> database \<Rightarrow> bool" where
  "holds_one_of names u db \<longleftrightarrow> (\<exists>r \<in> set (roles_held (u_id u) db). r_name r \<in> set names)"

lemma dashboard_cards_run:
  assumes auth: "get_current_local_user env c w = (Inr u, v)" and act: "\<not> deactive v"
  shows "fst (get_dashboard_cards_endpoint env c l sec w) =
    (if \<not> holds_one_of STAFF_ROLES u (work v)
     then Inl (HTTPException HTTP_403_FORBIDDEN (''Requires role: '' @ join '' or '' STAFF_ROLES) [])
     else case SECTION_ROLE_REQUIREMENTS sec of
            None \<Rightarrow> Inr (section_cards env l sec (work v))
          | Some required \<Rightarrow>
              if holds_one_of required u (work v) then Inr (section_cards env l sec (work v))
              else Inl (HTTPException HTTP_403_FORBIDDEN (''Requires role: '' @ join '' or '' required) []))"
proof -
  have cards: "get_admin_dashboard_cards env l sec v = (Inr (section_cards env l sec (work v)), v)"
    using act by (simp add: get_admin_dashboard_cards_def query_def section_cards_def)
  have staff: "require_staff env c w = (if holds_one_of STAFF_ROLES u (work v) then Inr u
      else Inl (HTTPException HTTP_403_FORBIDDEN (''Requires role: '' @ join '' or '' STAFF_ROLES) []), v)"
    using require_local_role_run [OF auth act] by (simp add: require_staff_def holds_one_of_def)
  show ?thesis
    using ensure_section_run [OF act, of env u sec] cards staff
    by (simp add: get_dashboard_cards_endpoint_def request_session_result bind_def holds_one_of_def split: option.splits)
qed


text \<open>Ann works in Operations.\<close>

definition operations_world :: world where
  "operations_world = initial_world (sample_db\<lparr>roles := [sample_role 1 ''Operations'', sample_role 2 ''Seller'', sample_role 3 ''Admin''],
     admin_dashboard_cards := [\<lparr>dc_id = 81, dc_section_key = ''management'', dc_label_en = ''Fees'', dc_label_ar = [],
       dc_description_en = None, dc_description_ar = None, dc_icon_class = None, dc_url = ''/'', dc_image_url = None,
       dc_sort_order = 1, dc_is_active = True\<rparr>]\<rparr>)"

definition operations_login :: "(exn + user) \<times> world" where
  "operations_login = get_current_local_user jwt_env (Some DEV_JWT_SECRET) operations_world"

lemma operations_user:
  "get_current_local_user jwt_env (Some DEV_JWT_SECRET) operations_world =
     (Inr (sample_user 11 ''ann@x.ae'' ''pw1'' 1), snd operations_login)"
  "\<not> deactive (snd operations_login)" "work (snd operations_login) = committed operations_world"
proof -
  have "fst operations_login = Inr (sample_user 11 ''ann@x.ae'' ''pw1'' 1) \<and> \<not> deactive (snd operations_login)" by code_simp
  then show "get_current_local_user jwt_env (Some DEV_JWT_SECRET) operations_world =
     (Inr (sample_user 11 ''ann@x.ae'' ''pw1'' 1), snd operations_login)" "\<not> deactive (snd operations_login)"
    by (metis operations_login_def prod.collapse)+
  show "work (snd operations_login) = committed operations_world" by code_simp
qed

lemma operations_staff:
  "holds_one_of STAFF_ROLES (sample_user 11 ''ann@x.ae'' ''pw1'' 1) (committed operations_world)"
  "\<not> holds_one_of [''Admin'', ''Manager''] (sample_user 11 ''ann@x.ae'' ''pw1'' 1) (committed operations_world)"
  by code_simp+


text \<open>The guard of a section can be passed by without its role: the requirement is looked up by
  the exact text of the section, the cards under the collation of the server, so that any
  member of the staff who asks for another spelling that the server takes for the same gets
  the cards of the management section.\<close>

theorem section_guard_bypassed:
  assumes "get_current_local_user env c w = (Inr u, v)" and "\<not> deactive v"
    and "holds_one_of STAFF_ROLES u (work v)"
    and "SECTION_ROLE_REQUIREMENTS sec = None" and "sql_eq env sec ''management''"
  shows "fst (get_dashboard_cards_endpoint env c l sec w) = Inr (section_cards env l ''management'' (work v))"
proof -
  have "section_cards env l sec (work v) = section_cards env l ''management'' (work v)"
    using assms(5) by (simp add: section_cards_def sql_eq_def)
  with assms(3,4) show ?thesis by (simp add: dashboard_cards_run [OF assms(1,2)])
qed

theorem section_guard_bypassed_witness:
  "\<not> holds_one_of [''Admin'', ''Manager''] (sample_user 11 ''ann@x.ae'' ''pw1'' 1) (committed operations_world) \<and>
   (\<exists>card. fst (get_dashboard_cards_endpoint jwt_env (Some DEV_JWT_SECRET) En ''Management'' operations_world) = Inr [card])"
proof -
  have none: "SECTION_ROLE_REQUIREMENTS ''Management'' = None" by (simp add: SECTION_ROLE_REQUIREMENTS_def)
  have "sql_eq jwt_env ''Management'' ''management''" by code_simp
  from section_guard_bypassed [OF operations_user(1,2) _ none this, of En] operations_staff(1)
  have "fst (get_dashboard_cards_endpoint jwt_env (Some DEV_JWT_SECRET) En ''Management'' operations_world) =
      Inr (section_cards jwt_env En ''management'' (committed operations_world))" by (simp add: operations_user(3))
  moreover have "\<exists>card. section_cards jwt_env En ''management'' (committed operations_world) = [card]"
    by (simp add: section_cards_def operations_world_def initial_world_def)
  ultimately show ?thesis using operations_staff(2) by simp
qed

lemma nav_run:
  assumes auth: "get_current_local_user env c w = (Inr u, v)" and act: "\<not> deactive v"
    and staff: "holds_one_of STAFF_ROLES u (work v)"
  shows "fst (get_admin_nav_endpoint env c l w) = Inr (filter
     (nav_visible (map r_name (order_by (collate env \<circ> r_name) (roles_held (u_id u) (work v)))))
     (map (nav_read l) (order_by an_sort_order (filter an_is_active (admin_nav_items (work v))))))"
proof -
  have "require_staff env c w = (Inr u, v)"
    using require_local_role_run [OF auth act] staff by (simp add: require_staff_def holds_one_of_def)
  with act show ?thesis
    by (simp add: get_admin_nav_endpoint_def request_session_result bind_def get_admin_nav_def get_user_roles_def
        query_def ret_def)
qed

lemma nav_visible_iff:
  assumes "section_key_from_url (nir_url x) = Some sec"
  shows "nav_visible (map r_name (order_by k (roles_held uid db))) x \<longleftrightarrow>
    (case SECTION_ROLE_REQUIREMENTS sec of None \<Rightarrow> True
     | Some required \<Rightarrow> \<exists>r \<in> set (roles_held uid db). r_name r \<in> set required)"
  using assms by (auto simp: nav_visible_def list_ex_iff split: option.splits)

text \<open>The sidebar and the sections agree: a member of the staff sees an active entry that leads
  to a section exactly if the cards of that section are served to that member.\<close>

theorem nav_shows_served_sections:
  assumes "get_current_local_user env c w = (Inr u, v)" and "\<not> deactive v"
    and "holds_one_of STAFF_ROLES u (work v)"
    and "row \<in> set (admin_nav_items (work v))" and "an_is_active row" and "section_key_from_url (an_url row) = Some sec"
  shows "(\<exists>items. fst (get_admin_nav_endpoint env c l w) = Inr items \<and> nav_read l row \<in> set items) \<longleftrightarrow>
    (\<exists>cards. fst (get_dashboard_cards_endpoint env c l sec w) = Inr cards)"
proof -
  have "section_key_from_url (nir_url (nav_read l row)) = Some sec" using assms(6) by (simp add: nav_read_def)
  note visible = nav_visible_iff [OF this]
  have "nav_read l row \<in> nav_read l ` {i \<in> set (admin_nav_items (work v)). an_is_active i}" using assms(4,5) by blast
  then show ?thesis
    using assms(3) unfolding nav_run [OF assms(1-3)] dashboard_cards_run [OF assms(1,2)]
    by (auto simp: visible holds_one_of_def split: option.splits)
qed

definition management_item :: admin_nav_item where
  "management_item = \<lparr>an_id = 91, an_parent_id = None, an_label_en = ''Management'', an_label_ar = [], an_icon_class = None,
     an_url = ''/admin/management'', an_sort_order = 4, an_is_active = True\<rparr>"

definition management_world :: world where
  "management_world = initial_world ((committed operations_world)\<lparr>admin_nav_items := [management_item]\<rparr>)"

theorem nav_shows_served_sections_witness:
  "fst (get_admin_nav_endpoint jwt_env (Some DEV_JWT_SECRET) En management_world) = Inr [] \<and>
   \<not> (\<exists>cards. fst (get_dashboard_cards_endpoint jwt_env (Some DEV_JWT_SECRET) En ''management'' management_world) = Inr cards)"
proof -
  let ?ann = "sample_user 11 ''ann@x.ae'' ''pw1'' 1"
  let ?run = "get_current_local_user jwt_env (Some DEV_JWT_SECRET) management_world"
  have "fst ?run = Inr ?ann \<and> \<not> deactive (snd ?run)" by code_simp
  then have run: "?run = (Inr ?ann, snd ?run)" and act: "\<not> deactive (snd ?run)" by (metis prod.collapse)+
  have same: "work (snd ?run) = committed management_world" by code_simp
  have staff: "holds_one_of STAFF_ROLES ?ann (work (snd ?run))" unfolding same by code_simp
  have nav: "admin_nav_items (work (snd ?run)) = [management_item]"
    unfolding same by (simp add: management_world_def initial_world_def)
  have sec: "section_key_from_url (an_url management_item) = Some ''management''" by code_simp
  have "fst (get_admin_nav_endpoint jwt_env (Some DEV_JWT_SECRET) En management_world) = Inr []"
    by code_simp
  with nav_shows_served_sections [OF run act staff _ _ sec, of En] show ?thesis
    by (simp add: nav management_item_def)
qed

section \<open>Paged reports\<close>








end
