(* ===== verification/Vehicle_Intake.thy ===== *)
theory Vehicle_Intake
  imports Auth_Api
begin

text \<open>
  \<^verbatim>\<open>services/vehicle_intake_service.py\<close>, \<^verbatim>\<open>schemas/vehicle_intake.py\<close> and
  \<^verbatim>\<open>api/v1/vehicle_intake.py\<close>: the form with which staff enter a car on behalf of a
  seller, one at a time or from a sheet, its dropdowns and searches, and the upload of the
  registration document.
\<close>

section \<open>schemas/vehicle_intake.py\<close>

record lookup_option_read =
  lo_id :: uuid
  lo_label :: string
  lo_sort_order :: int

record user_lookup_read =
  ul_id :: uuid
  ul_name :: string
  ul_email :: string

record sub_seller_read =
  sr_id :: uuid
  sr_name :: string
  sr_phone :: "string option"

record vehicle_submission_create =
  sub_chassis_number :: string
  sub_make_id :: uuid
  sub_model_id :: uuid
  sub_branch_id :: uuid
  sub_color_id :: uuid
  sub_keys_option_id :: uuid
  sub_fuel_type_id :: uuid
  sub_bidding_model_id :: "uuid option"
  sub_year :: int
  sub_target_selling_price :: decimal
  sub_minimum_selling_price :: decimal
  sub_previous_number_plate :: string
  sub_client_id :: uuid
  sub_sub_seller_id :: "uuid option"
  sub_mulkhiya_document_url :: "string option"
  sub_terms_accepted :: bool

text \<open>The declared constraints; a decimal field takes finite numbers only.\<close>

definition valid_submission :: "vehicle_submission_create \<Rightarrow> bool" where
  "valid_submission p \<longleftrightarrow>
     1 \<le> length (sub_chassis_number p) \<and> length (sub_chassis_number p) \<le> 100 \<and>
     1 \<le> length (sub_previous_number_plate p) \<and> length (sub_previous_number_plate p) \<le> 50 \<and>
     is_finite (sub_target_selling_price p) \<and> is_finite (sub_minimum_selling_price p)"

record vehicle_submission_read =
  vsb_id :: uuid
  vsb_chassis_number :: string
  vsb_status :: string
  vsb_created_at :: time

record vehicle_bulk_row_input =
  bk_row_number :: int
  bk_chassis_number :: string
  bk_make :: string
  bk_model :: string
  bk_branch :: string
  bk_year :: string
  bk_keys_option :: string
  bk_fuel_type :: string
  bk_color :: string
  bk_target_selling_price :: string
  bk_minimum_selling_price :: string
  bk_client :: string
  bk_sub_client :: string
  bk_previous_number_plate :: string
  bk_bidding_model :: string

record vehicle_bulk_row_result =
  bres_row_number :: int
  bres_status :: string
  bres_chassis_number :: "string option"
  bres_vehicle_id :: "uuid option"
  bres_errors :: "(string \<times> string) list option"

record vehicle_bulk_submit_result =
  bs_total :: int
  bs_created_count :: int
  bs_error_count :: int
  bs_results :: "vehicle_bulk_row_result list"

section \<open>Dropdowns and searches\<close>

text \<open>\<open>_pick\<close> of this service: \<open>arabic\<close> is \<open>lang == "ar"\<close>.\<close>

definition pick_label :: "string \<Rightarrow> string \<Rightarrow> bool \<Rightarrow> string" where
  "pick_label en ar arabic = (if arabic \<and> ar \<noteq> [] then ar else en)"

definition lookup_option :: "bool \<Rightarrow> 'a lookup_row_scheme \<Rightarrow> lookup_option_read" where
  "lookup_option arabic row = \<lparr>lo_id = lk_id row, lo_label = pick_label (lk_name_en row) (lk_name_ar row) arabic,
     lo_sort_order = lk_sort_order row\<rparr>"

definition active_lookup_options :: "env \<Rightarrow> (database \<Rightarrow> 'a lookup_row_scheme list) \<Rightarrow> bool \<Rightarrow> lookup_option_read list comp" where
  "active_lookup_options env table arabic =
     query env (\<lambda>db. Inr (map (lookup_option arabic) (order_by lk_sort_order (filter lk_is_active (table db)))))"

definition get_makes where "get_makes env arabic = active_lookup_options env vehicle_makes arabic"
definition get_branches where "get_branches env arabic = active_lookup_options env vehicle_branches arabic"
definition get_colors where "get_colors env arabic = active_lookup_options env vehicle_colors arabic"
definition get_key_options where "get_key_options env arabic = active_lookup_options env vehicle_key_options arabic"
definition get_fuel_types where "get_fuel_types env arabic = active_lookup_options env fuel_types arabic"
definition get_bidding_models where "get_bidding_models env arabic = active_lookup_options env bidding_models arabic"

definition get_models :: "env \<Rightarrow> bool \<Rightarrow> uuid \<Rightarrow> lookup_option_read list comp" where
  "get_models env arabic make_id =
     query env (\<lambda>db. Inr (map (lookup_option arabic) (order_by lk_sort_order
       (filter (\<lambda>m. lk_is_active m \<and> vm_make_id m = make_id) (vehicle_models db)))))"

definition get_years :: "env \<Rightarrow> int list comp" where
  "get_years env = query env (\<lambda>db. Inr (map vy_year (order_by vy_sort_order (filter vy_is_active (vehicle_years db)))))"

text \<open>The active users who hold the Seller role, each once.\<close>

definition is_seller :: "env \<Rightarrow> database \<Rightarrow> user \<Rightarrow> bool" where
  "is_seller env db u \<longleftrightarrow> u_is_active u \<and>
     list_ex (\<lambda>ur. ur_user_id ur = u_id u \<and>
       list_ex (\<lambda>r. ur_role_id ur = r_id r \<and> sql_eq env (r_name r) ''Seller'') (roles db)) (user_roles db)"

definition contains_pattern :: "string \<Rightarrow> string" where
  "contains_pattern q = ''%'' @ q @ ''%''"

definition search_clients :: "env \<Rightarrow> string \<Rightarrow> user_lookup_read list comp" where
  "search_clients env q =
     query env (\<lambda>db. Inr (map (\<lambda>u. \<lparr>ul_id = u_id u, ul_name = strip (u_first_name u @ '' '' @ u_last_name u), ul_email = u_email u\<rparr>)
       (take 20 (order_by (collate env \<circ> u_first_name)
         (filter (\<lambda>u. is_seller env db u \<and>
            (q = [] \<or> ilike env (u_first_name u) (contains_pattern q) \<or> ilike env (u_last_name u) (contains_pattern q) \<or>
             ilike env (u_email u) (contains_pattern q))) (users db))))))"

definition search_sub_sellers :: "env \<Rightarrow> uuid \<Rightarrow> string \<Rightarrow> sub_seller_read list comp" where
  "search_sub_sellers env client_id q =
     query env (\<lambda>db. Inr (map (\<lambda>s. \<lparr>sr_id = ss_id s, sr_name = ss_name s, sr_phone = ss_phone s\<rparr>)
       (take 20 (order_by (collate env \<circ> ss_name)
         (filter (\<lambda>s. ss_is_active s \<and> ss_seller_id s = client_id \<and> (q = [] \<or> ilike env (ss_name s) (contains_pattern q)))
           (sub_sellers db))))))"

section \<open>One submission\<close>

definition get_active :: "env \<Rightarrow> (database \<Rightarrow> 'a lookup_row_scheme list) \<Rightarrow> uuid \<Rightarrow> 'a lookup_row_scheme option comp" where
  "get_active env table i = query env (\<lambda>db. scalar_one_or_none (filter (\<lambda>r. lk_id r = i \<and> lk_is_active r) (table db)))"

definition user_exists :: "env \<Rightarrow> uuid \<Rightarrow> bool comp" where
  "user_exists env i =
     bind (query env (\<lambda>db. scalar_one_or_none (filter (\<lambda>u. u_id u = i \<and> u_is_active u) (users db)))) (\<lambda>u. ret (u \<noteq> None))"

definition is_sub_seller_of_client :: "env \<Rightarrow> uuid \<Rightarrow> uuid \<Rightarrow> bool comp" where
  "is_sub_seller_of_client env i client_id =
     bind (query env (\<lambda>db. scalar_one_or_none
       (filter (\<lambda>s. ss_id s = i \<and> ss_is_active s \<and> ss_seller_id s = client_id) (sub_sellers db)))) (\<lambda>s. ret (s \<noteq> None))"

text \<open>The row of an active lookup value, or \<open>VehicleLookupNotFoundError\<close>.\<close>

definition require_active ::
    "env \<Rightarrow> (database \<Rightarrow> 'a lookup_row_scheme list) \<Rightarrow> string \<Rightarrow> uuid \<Rightarrow> 'a lookup_row_scheme comp" where
  "require_active env table field i =
     bind (get_active env table i) (\<lambda>found.
     case found of None \<Rightarrow> throw (VehicleLookupNotFoundError field i) | Some r \<Rightarrow> ret r)"

definition require_that :: "bool comp \<Rightarrow> string \<Rightarrow> uuid \<Rightarrow> unit comp" where
  "require_that check field i = bind check (\<lambda>ok. if ok then ret () else throw (VehicleLookupNotFoundError field i))"

text \<open>The listing that a submission inserts.\<close>

definition submitted_listing ::
    "uuid \<Rightarrow> string \<Rightarrow> vehicle_make \<Rightarrow> vehicle_model \<Rightarrow> vehicle_branch \<Rightarrow> uuid \<Rightarrow> uuid \<Rightarrow> uuid \<Rightarrow> uuid option \<Rightarrow> int \<Rightarrow>
     decimal option \<Rightarrow> decimal option \<Rightarrow> string \<Rightarrow> uuid \<Rightarrow> uuid option \<Rightarrow> uuid \<Rightarrow> string option \<Rightarrow> bool \<Rightarrow> vehicle_listing" where
  "submitted_listing i chassis mk model branch color keys fuel bidding year target minimum plate client sub_seller creator doc terms =
     \<lparr>vl_id = i, vl_seller_id = Some client,
      vl_title_en = lk_name_en mk @ '' '' @ lk_name_en model @ '' '' @ int_text year,
      vl_title_ar = lk_name_ar mk @ '' '' @ lk_name_ar model @ '' '' @ int_text year,
      vl_image_url = None, vl_detail_url = ''/admin/sellers/vehicle/'' @ uuid_text i, vl_lot_number = None, vl_mileage = None,
      vl_location_en = Some (lk_name_en branch), vl_location_ar = Some (lk_name_ar branch), vl_bid_amount = None,
      vl_countdown_label = None, vl_is_active = False, vl_chassis_number = Some (strip chassis),
      vl_make_id = Some (lk_id mk), vl_model_id = Some (lk_id model), vl_branch_id = Some (lk_id branch),
      vl_color_id = Some color, vl_keys_option_id = Some keys, vl_fuel_type_id = Some fuel, vl_bidding_model_id = bidding,
      vl_year = Some year, vl_target_selling_price = target, vl_minimum_selling_price = minimum,
      vl_previous_number_plate = Some (strip plate), vl_sub_seller_id = sub_seller, vl_created_by_id = Some creator,
      vl_mulkhiya_document_url = doc, vl_terms_accepted = terms, vl_status = ''submitted'', vl_created_at = 0\<rparr>"

definition check_submission :: "env \<Rightarrow> vehicle_submission_create \<Rightarrow> (vehicle_make \<times> vehicle_model \<times> vehicle_branch) comp" where
  "check_submission env p =
     bind (require_active env vehicle_makes ''make_id'' (sub_make_id p)) (\<lambda>mk.
     bind (require_active env vehicle_models ''model_id'' (sub_model_id p)) (\<lambda>model.
     bind (require_active env vehicle_branches ''branch_id'' (sub_branch_id p)) (\<lambda>branch.
     bind (require_active env vehicle_colors ''color_id'' (sub_color_id p)) (\<lambda>_.
     bind (require_active env vehicle_key_options ''keys_option_id'' (sub_keys_option_id p)) (\<lambda>_.
     bind (require_active env fuel_types ''fuel_type_id'' (sub_fuel_type_id p)) (\<lambda>_.
     bind (case sub_bidding_model_id p of
             None \<Rightarrow> ret ()
           | Some b \<Rightarrow> bind (require_active env bidding_models ''bidding_model_id'' b) (\<lambda>_. ret ())) (\<lambda>_.
     bind (require_that (user_exists env (sub_client_id p)) ''client_id'' (sub_client_id p)) (\<lambda>_.
     bind (case sub_sub_seller_id p of
             None \<Rightarrow> ret ()
           | Some s \<Rightarrow> require_that (is_sub_seller_of_client env s (sub_client_id p)) ''sub_seller_id'' s) (\<lambda>_.
     ret (mk, model, branch))))))))))"

definition create_vehicle_submission :: "env \<Rightarrow> vehicle_submission_create \<Rightarrow> uuid \<Rightarrow> vehicle_listing comp" where
  "create_vehicle_submission env p created_by =
     bind (check_submission env p) (\<lambda>(mk, model, branch).
     bind (uuid4 env) (\<lambda>listing_id.
     bind (add (RListing (submitted_listing listing_id (sub_chassis_number p) mk model branch (sub_color_id p)
             (sub_keys_option_id p) (sub_fuel_type_id p) (sub_bidding_model_id p) (sub_year p)
             (Some (sub_target_selling_price p)) (Some (sub_minimum_selling_price p)) (sub_previous_number_plate p)
             (sub_client_id p) (sub_sub_seller_id p) created_by (sub_mulkhiya_document_url p) (sub_terms_accepted p)))) (\<lambda>_.
     bind (catch (commit env)
             (\<lambda>e. if e = IntegrityError
                  then bind rollback (\<lambda>_. throw (DuplicateChassisNumberError (sub_chassis_number p))) else throw e)) (\<lambda>_.
     query env (\<lambda>db. case get_by_id vl_id (vehicle_listings db) listing_id of
                       None \<Rightarrow> Inl AssertionError | Some v \<Rightarrow> Inr v)))))"

section \<open>A sheet of submissions\<close>

text \<open>Case-insensitive equality of a column with a cell, on the server.\<close>

definition label_matches :: "env \<Rightarrow> string \<Rightarrow> string \<Rightarrow> bool" where
  "label_matches env column cell \<longleftrightarrow> sql_eq env (lower column) (lower cell)"

definition find_lookup_by_label ::
    "env \<Rightarrow> (database \<Rightarrow> 'a lookup_row_scheme list) \<Rightarrow> ('a lookup_row_scheme \<Rightarrow> bool) \<Rightarrow> string \<Rightarrow> 'a lookup_row_scheme option comp" where
  "find_lookup_by_label env table extra label =
     query env (\<lambda>db. Inr (first_row (filter (\<lambda>r. lk_is_active r \<and>
       (label_matches env (lk_name_en r) label \<or> label_matches env (lk_name_ar r) label) \<and> extra r) (table db))))"

definition find_client_by_name :: "env \<Rightarrow> string \<Rightarrow> user option comp" where
  "find_client_by_name env name =
     query env (\<lambda>db. Inr (first_row (filter (\<lambda>u. is_seller env db u \<and>
       (label_matches env (u_first_name u @ '' '' @ u_last_name u) name \<or> label_matches env (u_email u) name)) (users db))))"

definition find_sub_seller_by_name :: "env \<Rightarrow> uuid \<Rightarrow> string \<Rightarrow> sub_seller option comp" where
  "find_sub_seller_by_name env client_id name =
     query env (\<lambda>db. Inr (first_row (filter (\<lambda>s. ss_is_active s \<and> ss_seller_id s = client_id \<and>
       label_matches env (ss_name s) name) (sub_sellers db))))"

definition parse_decimal :: "string \<Rightarrow> decimal option" where
  "parse_decimal raw = decimal_of_text (strip raw)"

definition parse_year :: "string \<Rightarrow> int option" where
  "parse_year raw = py_int 10 (strip raw)"

text \<open>\<open>find ... if cell.strip() else None\<close>.\<close>

definition find_if :: "string \<Rightarrow> 'a option comp \<Rightarrow> 'a option comp" where
  "find_if cell query_it = (if strip cell \<noteq> [] then query_it else ret None)"

text \<open>What the lookups of a row resolved to.\<close>

record bulk_resolved =
  rs_make :: "vehicle_make option"
  rs_model :: "vehicle_model option"
  rs_branch :: "vehicle_branch option"
  rs_color :: "vehicle_color option"
  rs_keys_option :: "vehicle_key_option option"
  rs_fuel_type :: "fuel_type option"
  rs_bidding_model :: "bidding_model option"
  rs_client :: "user option"
  rs_sub_seller :: "sub_seller option"

definition resolve_bulk_row :: "env \<Rightarrow> vehicle_bulk_row_input \<Rightarrow> bulk_resolved comp" where
  "resolve_bulk_row env row =
     bind (find_if (bk_make row) (find_lookup_by_label env vehicle_makes (\<lambda>_. True) (bk_make row))) (\<lambda>mk.
     bind (case mk of
             None \<Rightarrow> ret None
           | Some m \<Rightarrow> find_if (bk_model row)
               (find_lookup_by_label env vehicle_models (\<lambda>r. vm_make_id r = lk_id m) (bk_model row))) (\<lambda>model.
     bind (find_if (bk_branch row) (find_lookup_by_label env vehicle_branches (\<lambda>_. True) (bk_branch row))) (\<lambda>branch.
     bind (find_if (bk_color row) (find_lookup_by_label env vehicle_colors (\<lambda>_. True) (bk_color row))) (\<lambda>color.
     bind (find_if (bk_keys_option row) (find_lookup_by_label env vehicle_key_options (\<lambda>_. True) (bk_keys_option row))) (\<lambda>keys.
     bind (find_if (bk_fuel_type row) (find_lookup_by_label env fuel_types (\<lambda>_. True) (bk_fuel_type row))) (\<lambda>fuel.
     bind (find_if (bk_bidding_model row) (find_lookup_by_label env bidding_models (\<lambda>_. True) (bk_bidding_model row))) (\<lambda>bidding.
     bind (find_if (bk_client row) (find_client_by_name env (bk_client row))) (\<lambda>client.
     bind (case client of
             None \<Rightarrow> ret None
           | Some c \<Rightarrow> find_if (bk_sub_client row) (find_sub_seller_by_name env (u_id c) (bk_sub_client row))) (\<lambda>sub_seller.
     ret \<lparr>rs_make = mk, rs_model = model, rs_branch = branch, rs_color = color, rs_keys_option = keys, rs_fuel_type = fuel,
          rs_bidding_model = bidding, rs_client = client, rs_sub_seller = sub_seller\<rparr>)))))))))"

text \<open>The \<open>errors\<close> dictionary, in the order of its insertions.\<close>

definition error_if :: "bool \<Rightarrow> string \<Rightarrow> string \<Rightarrow> (string \<times> string) list" where
  "error_if b field message = (if b then [(field, message)] else [])"

definition model_error :: "vehicle_bulk_row_input \<Rightarrow> bulk_resolved \<Rightarrow> (string \<times> string) list" where
  "model_error row rs =
     (if strip (bk_model row) = [] then [(''model'', ''Required'')]
      else case rs_make rs of
             None \<Rightarrow> [(''model'', ''Unknown model: '' @ bk_model row)]
           | Some _ \<Rightarrow> error_if (rs_model rs = None) ''model''
                         (''Unknown model for '' @ bk_make row @ '': '' @ bk_model row))"

definition bulk_row_errors :: "vehicle_bulk_row_input \<Rightarrow> bulk_resolved \<Rightarrow> (string \<times> string) list" where
  "bulk_row_errors row rs =
     error_if (strip (bk_chassis_number row) = []) ''chassis_number'' ''Required'' @
     error_if (strip (bk_previous_number_plate row) = []) ''previous_number_plate'' ''Required'' @
     error_if (rs_make rs = None) ''make'' (''Unknown make: '' @ bk_make row) @
     model_error row rs @
     error_if (rs_branch rs = None) ''branch'' (''Unknown branch: '' @ bk_branch row) @
     error_if (rs_color rs = None) ''color'' (''Unknown color: '' @ bk_color row) @
     error_if (rs_keys_option rs = None) ''keys_option'' (''Unknown keys option: '' @ bk_keys_option row) @
     error_if (rs_fuel_type rs = None) ''fuel_type'' (''Unknown fuel type: '' @ bk_fuel_type row) @
     error_if (strip (bk_bidding_model row) \<noteq> [] \<and> rs_bidding_model rs = None) ''bidding_model''
       (''Unknown bidding model: '' @ bk_bidding_model row) @
     error_if (parse_year (bk_year row) = None) ''year'' (''Invalid year: '' @ bk_year row) @
     error_if (parse_decimal (bk_target_selling_price row) = None) ''target_selling_price''
       (''Invalid amount: '' @ bk_target_selling_price row) @
     error_if (parse_decimal (bk_minimum_selling_price row) = None) ''minimum_selling_price''
       (''Invalid amount: '' @ bk_minimum_selling_price row) @
     error_if (rs_client rs = None) ''client'' (''Unknown client: '' @ bk_client row) @
     error_if (strip (bk_sub_client row) \<noteq> [] \<and> rs_client rs \<noteq> None \<and> rs_sub_seller rs = None) ''sub_client''
       (''Unknown sub client for '' @ bk_client row @ '': '' @ bk_sub_client row)"

definition error_result :: "vehicle_bulk_row_input \<Rightarrow> (string \<times> string) list \<Rightarrow> vehicle_bulk_row_result" where
  "error_result row errors = \<lparr>bres_row_number = bk_row_number row, bres_status = ''error'',
     bres_chassis_number = (if bk_chassis_number row = [] then None else Some (bk_chassis_number row)),
     bres_vehicle_id = None, bres_errors = Some errors\<rparr>"

definition bulk_listing :: "vehicle_bulk_row_input \<Rightarrow> bulk_resolved \<Rightarrow> uuid \<Rightarrow> uuid \<Rightarrow> vehicle_listing option" where
  "bulk_listing row rs i created_by =
     (case (rs_make rs, rs_model rs, rs_branch rs, rs_color rs, rs_keys_option rs, rs_fuel_type rs, rs_client rs, parse_year (bk_year row)) of
        (Some mk, Some model, Some branch, Some color, Some keys, Some fuel, Some client, Some year) \<Rightarrow>
          Some (submitted_listing i (bk_chassis_number row) mk model branch (lk_id color) (lk_id keys) (lk_id fuel)
            (map_option lk_id (rs_bidding_model rs)) year (parse_decimal (bk_target_selling_price row))
            (parse_decimal (bk_minimum_selling_price row)) (bk_previous_number_plate row) (u_id client)
            (map_option ss_id (rs_sub_seller rs)) created_by None True)
      | _ \<Rightarrow> None)"

definition create_bulk_row :: "env \<Rightarrow> vehicle_bulk_row_input \<Rightarrow> uuid \<Rightarrow> vehicle_bulk_row_result comp" where
  "create_bulk_row env row created_by =
     bind (resolve_bulk_row env row) (\<lambda>rs.
     if bulk_row_errors row rs \<noteq> [] then ret (error_result row (bulk_row_errors row rs))
     else if bulk_listing row rs 0 created_by = None then throw AssertionError
     else
           bind (uuid4 env) (\<lambda>listing_id.
           bind (add (RListing (the (bulk_listing row rs listing_id created_by)))) (\<lambda>_.
           catch
             (bind (commit env) (\<lambda>_.
              ret \<lparr>bres_row_number = bk_row_number row, bres_status = ''created'',
                   bres_chassis_number = Some (strip (bk_chassis_number row)), bres_vehicle_id = Some listing_id,
                   bres_errors = None\<rparr>))
             (\<lambda>e. if e = IntegrityError
                  then bind rollback (\<lambda>_. ret (error_result row
                    [(''chassis_number'', ''Chassis number already submitted: '' @ bk_chassis_number row)]))
                  else throw e))))"

definition bulk_create_vehicle_submissions ::
    "env \<Rightarrow> vehicle_bulk_row_input list \<Rightarrow> uuid \<Rightarrow> vehicle_bulk_row_result list comp" where
  "bulk_create_vehicle_submissions env rows created_by = mapM (\<lambda>row. create_bulk_row env row created_by) rows"

section \<open>The registration document\<close>

definition ALLOWED_DOCUMENT_EXTENSIONS :: "string list" where
  "ALLOWED_DOCUMENT_EXTENSIONS = [''.pdf'', ''.jpg'', ''.jpeg'', ''.png'']"

text \<open>\<open>Path(name).name\<close> and \<open>.suffix\<close>.\<close>

fun split_parts :: "string \<Rightarrow> string \<Rightarrow> string list" where
  "split_parts acc [] = [rev acc]"
| "split_parts acc (c # cs) = (if c = CHR ''/'' then rev acc # split_parts [] cs else split_parts (c # acc) cs)"

definition path_name :: "string \<Rightarrow> string" where
  "path_name p =
     (let parts = filter (\<lambda>s. s \<noteq> [] \<and> s \<noteq> ''.'') (split_parts [] p) in if parts = [] then [] else last parts)"

definition path_suffix :: "string \<Rightarrow> string" where
  "path_suffix p =
     (let name = path_name p; ext = takeWhile (\<lambda>c. c \<noteq> CHR ''.'') (rev name);
          stem = length name - Suc (length ext) in
      if CHR ''.'' \<in> set name \<and> 0 < stem \<and> ext \<noteq> [] then drop stem name else [])"

definition document_suffix :: "string option \<Rightarrow> string" where
  "document_suffix filename =
     (let suffix = lower (path_suffix (case filename of None \<Rightarrow> [] | Some f \<Rightarrow> f)) in
      if suffix \<in> set ALLOWED_DOCUMENT_EXTENSIONS then suffix else ''.pdf'')"

definition write_file :: "string \<Rightarrow> string \<Rightarrow> unit comp" where
  "write_file path contents w = (Inr (), w\<lparr>upload_files := upload_files w @ [(path, contents)]\<rparr>)"

definition save_mulkhiya_document :: "env \<Rightarrow> string option \<Rightarrow> string \<Rightarrow> string comp" where
  "save_mulkhiya_document env filename contents =
     bind (uuid4 env) (\<lambda>i.
     let stored = uuid_text i @ document_suffix filename in
     bind (write_file (upload_dir (settings env) @ ''/mulkhiya/'' @ stored) contents) (\<lambda>_.
     ret (upload_base_url (settings env) @ ''/mulkhiya/'' @ stored)))"

section \<open>api/v1/vehicle_intake.py\<close>

definition require_intake_staff :: "env \<Rightarrow> string option \<Rightarrow> user comp" where
  "require_intake_staff env credentials = require_local_role env STAFF_ROLES credentials"

datatype dropdown = Makes | Models uuid | Branches | Colors | Key_Options | Fuel_Types | Bidding_Models

definition get_dropdown_endpoint :: "env \<Rightarrow> dropdown \<Rightarrow> bool \<Rightarrow> lookup_option_read list comp" where
  "get_dropdown_endpoint env d arabic =
     request_session
       (case d of
          Makes \<Rightarrow> get_makes env arabic
        | Models make_id \<Rightarrow> get_models env arabic make_id
        | Branches \<Rightarrow> get_branches env arabic
        | Colors \<Rightarrow> get_colors env arabic
        | Key_Options \<Rightarrow> get_key_options env arabic
        | Fuel_Types \<Rightarrow> get_fuel_types env arabic
        | Bidding_Models \<Rightarrow> get_bidding_models env arabic)"

definition get_years_endpoint :: "env \<Rightarrow> int list comp" where
  "get_years_endpoint env = request_session (get_years env)"

definition search_clients_endpoint :: "env \<Rightarrow> string option \<Rightarrow> string \<Rightarrow> user_lookup_read list comp" where
  "search_clients_endpoint env credentials q =
     request_session (bind (require_intake_staff env credentials) (\<lambda>_. search_clients env q))"

definition search_sub_sellers_endpoint :: "env \<Rightarrow> string option \<Rightarrow> uuid \<Rightarrow> string \<Rightarrow> sub_seller_read list comp" where
  "search_sub_sellers_endpoint env credentials client_id q =
     request_session (bind (require_intake_staff env credentials) (\<lambda>_. search_sub_sellers env client_id q))"

definition upload_document_endpoint :: "env \<Rightarrow> string option \<Rightarrow> string option \<Rightarrow> string \<Rightarrow> string comp" where
  "upload_document_endpoint env credentials filename contents =
     request_session
       (bind (require_intake_staff env credentials) (\<lambda>_. save_mulkhiya_document env filename contents))"

fun submission_error :: "exn \<Rightarrow> exn" where
  "submission_error (VehicleLookupNotFoundError field i) =
     HTTPException HTTP_404_NOT_FOUND (''Invalid '' @ field @ '': '' @ uuid_text i) []"
| "submission_error (DuplicateChassisNumberError chassis) =
     HTTPException HTTP_409_CONFLICT (''Chassis number already submitted: '' @ chassis) []"
| "submission_error e = e"

definition submission_read :: "vehicle_listing \<Rightarrow> exn + vehicle_submission_read" where
  "submission_read v =
     (case vl_chassis_number v of
        None \<Rightarrow> Inl ValueError
      | Some c \<Rightarrow> Inr \<lparr>vsb_id = vl_id v, vsb_chassis_number = c, vsb_status = vl_status v, vsb_created_at = vl_created_at v\<rparr>)"

definition create_vehicle_endpoint :: "env \<Rightarrow> string option \<Rightarrow> vehicle_submission_create \<Rightarrow> vehicle_submission_read comp" where
  "create_vehicle_endpoint env credentials payload =
     request_session
       (bind (require_intake_staff env credentials) (\<lambda>u.
        if \<not> valid_submission payload then throw (HTTPException HTTP_422_UNPROCESSABLE ''Invalid request'' [])
        else bind (catch (create_vehicle_submission env payload (u_id u)) (\<lambda>e. throw (submission_error e)))
               (\<lambda>v. lift (submission_read v))))"

definition bulk_submit_result :: "vehicle_bulk_row_result list \<Rightarrow> vehicle_bulk_submit_result" where
  "bulk_submit_result results =
     (let created_count = int (length (filter (\<lambda>r. bres_status r = ''created'') results)) in
      \<lparr>bs_total = int (length results), bs_created_count = created_count,
       bs_error_count = int (length results) - created_count, bs_results = results\<rparr>)"

definition create_vehicles_bulk_endpoint ::
    "env \<Rightarrow> string option \<Rightarrow> vehicle_bulk_row_input list \<Rightarrow> vehicle_bulk_submit_result comp" where
  "create_vehicles_bulk_endpoint env credentials rows =
     request_session
       (bind (require_intake_staff env credentials) (\<lambda>u.
        if rows = [] \<or> 500 < length rows then throw (HTTPException HTTP_422_UNPROCESSABLE ''Invalid request'' [])
        else bind (bulk_create_vehicle_submissions env rows (u_id u)) (\<lambda>results.
             ret (bulk_submit_result results))))"

end
