(* ===== verification/Intake_Laws.thy ===== *)
theory Intake_Laws
  imports Vehicle_Intake Read_Laws Content_Service
begin

text \<open>
  What a submission reads and stores: the checks of one submission, the outcome of a row of a
  sheet, and of a whole sheet by induction over its rows.
\<close>

interpretation intake_pick: localizer "\<lambda>en ar l. pick_label (text_or en []) (text_or ar []) (l = Ar)"
  by unfold_locales (auto simp: pick_label_def text_or_def split: option.splits)

section \<open>The checks\<close>

lemma reads_intake [reads_intros]:
  "reads (get_active env table i)" "reads (require_active env table f i)" "reads (user_exists env i)"
  "reads (is_sub_seller_of_client env i c)"
  unfolding get_active_def require_active_def user_exists_def is_sub_seller_of_client_def
  by (intro reads_intros)+

lemma reads_require_that [reads_intros]: "reads m \<Longrightarrow> reads (require_that m f i)"
  unfolding require_that_def by (intro reads_intros)

lemma reads_check_submission [reads_intros]: "reads (check_submission env p)"
  unfolding check_submission_def by (intro reads_intros)

lemma require_active_Inr:
  assumes "require_active env table f i w = (Inr r, w')"
  shows "r \<in> set (table (work w)) \<and> lk_id r = i \<and> lk_is_active r"
proof -
  have "scalar_one_or_none (filter (\<lambda>r. lk_id r = i \<and> lk_is_active r) (table (work w))) = Inr (Some r)"
    using assms unfolding require_active_def get_active_def
    by (auto simp: reads_results split: option.splits)
  from scalar_one_or_none_SomeD [OF this] show ?thesis .
qed

lemma require_that_Inr:
  "reads m \<Longrightarrow> require_that m f i w = (Inr x, w') \<Longrightarrow> m w = (Inr True, w)"
  unfolding require_that_def by (auto simp: bind_Inr_reads ret_Inr_iff throw_Inr_iff split: if_splits)

lemma user_exists_Inr:
  assumes "user_exists env i w = (Inr True, w')"
  shows "\<exists>u \<in> set (users (work w)). u_id u = i \<and> u_is_active u"
proof -
  obtain x where "scalar_one_or_none (filter (\<lambda>u. u_id u = i \<and> u_is_active u) (users (work w))) = Inr (Some x)"
    using assms unfolding user_exists_def by (auto simp: reads_results)
  from scalar_one_or_none_SomeD [OF this] show ?thesis by blast
qed

lemma sub_seller_Inr:
  assumes "is_sub_seller_of_client env i c w = (Inr True, w')"
  shows "\<exists>s \<in> set (sub_sellers (work w)). ss_id s = i \<and> ss_is_active s \<and> ss_seller_id s = c"
proof -
  obtain x where
    "scalar_one_or_none (filter (\<lambda>s. ss_id s = i \<and> ss_is_active s \<and> ss_seller_id s = c) (sub_sellers (work w))) = Inr (Some x)"
    using assms unfolding is_sub_seller_of_client_def by (auto simp: reads_results)
  from scalar_one_or_none_SomeD [OF this] show ?thesis by blast
qed

text \<open>An identifier of an active value of a dropdown.\<close>

definition active_value :: "'a lookup_row_scheme list \<Rightarrow> uuid \<Rightarrow> bool" where
  "active_value rows i \<longleftrightarrow> (\<exists>r \<in> set rows. lk_id r = i \<and> lk_is_active r)"

definition submission_checked :: "database \<Rightarrow> vehicle_submission_create \<Rightarrow> bool" where
  "submission_checked db p \<longleftrightarrow>
     active_value (vehicle_makes db) (sub_make_id p) \<and> active_value (vehicle_models db) (sub_model_id p) \<and>
     active_value (vehicle_branches db) (sub_branch_id p) \<and> active_value (vehicle_colors db) (sub_color_id p) \<and>
     active_value (vehicle_key_options db) (sub_keys_option_id p) \<and> active_value (fuel_types db) (sub_fuel_type_id p) \<and>
     (\<forall>b. sub_bidding_model_id p = Some b \<longrightarrow> active_value (bidding_models db) b) \<and>
     (\<exists>u \<in> set (users db). u_id u = sub_client_id p \<and> u_is_active u) \<and>
     (\<forall>i. sub_sub_seller_id p = Some i \<longrightarrow>
        (\<exists>s \<in> set (sub_sellers db). ss_id s = i \<and> ss_is_active s \<and> ss_seller_id s = sub_client_id p))"

lemma check_submission_Inr:
  assumes "check_submission env p w = (Inr (mk, model, branch), w')"
  shows "submission_checked (work w) p \<and> lk_id mk = sub_make_id p \<and> lk_id model = sub_model_id p \<and>
    lk_id branch = sub_branch_id p"
proof -
  from assms obtain c k f where
    req: "require_active env vehicle_makes ''make_id'' (sub_make_id p) w = (Inr mk, w)"
      "require_active env vehicle_models ''model_id'' (sub_model_id p) w = (Inr model, w)"
      "require_active env vehicle_branches ''branch_id'' (sub_branch_id p) w = (Inr branch, w)"
      "require_active env vehicle_colors ''color_id'' (sub_color_id p) w = (Inr c, w)"
      "require_active env vehicle_key_options ''keys_option_id'' (sub_keys_option_id p) w = (Inr k, w)"
      "require_active env fuel_types ''fuel_type_id'' (sub_fuel_type_id p) w = (Inr f, w)"
    and bidding: "(case sub_bidding_model_id p of None \<Rightarrow> ret ()
        | Some b \<Rightarrow> bind (require_active env bidding_models ''bidding_model_id'' b) (\<lambda>_. ret ())) w = (Inr (), w)"
    and client: "require_that (user_exists env (sub_client_id p)) ''client_id'' (sub_client_id p) w = (Inr (), w)"
    and sub_seller: "(case sub_sub_seller_id p of None \<Rightarrow> ret ()
        | Some s \<Rightarrow> require_that (is_sub_seller_of_client env s (sub_client_id p)) ''sub_seller_id'' s) w = (Inr (), w)"
    unfolding check_submission_def
    by (auto simp: bind_Inr_reads ret_Inr_iff reads_intake reads_require_that reads_primitives reads_bind reads_cases)
  have "active_value (bidding_models (work w)) b" if "sub_bidding_model_id p = Some b" for b
  proof -
    have "bind (require_active env bidding_models ''bidding_model_id'' b) (\<lambda>_. ret ()) w = (Inr (), w)"
      using bidding that by simp
    then obtain r where "require_active env bidding_models ''bidding_model_id'' b w = (Inr r, w)"
      by (auto simp: bind_Inr_reads reads_intake)
    from require_active_Inr [OF this] show ?thesis by (auto simp: active_value_def)
  qed
  moreover have "\<exists>s \<in> set (sub_sellers (work w)). ss_id s = i \<and> ss_is_active s \<and> ss_seller_id s = sub_client_id p"
    if "sub_sub_seller_id p = Some i" for i
    using sub_seller that by (auto dest!: require_that_Inr [rotated] sub_seller_Inr simp: reads_intake)
  moreover have "\<exists>u \<in> set (users (work w)). u_id u = sub_client_id p \<and> u_is_active u"
    by (rule user_exists_Inr [OF require_that_Inr [OF reads_intake(3) client]])
  ultimately show ?thesis
    using req [THEN require_active_Inr] unfolding submission_checked_def active_value_def by blast
qed

section \<open>A single submission\<close>

text \<open>The rows of one submission, and the commit that ends it.\<close>

definition listing_of :: "vehicle_submission_create \<Rightarrow> uuid \<Rightarrow> vehicle_make \<Rightarrow> vehicle_model \<Rightarrow> vehicle_branch \<Rightarrow> uuid \<Rightarrow> vehicle_listing" where
  "listing_of p created_by mk model branch i =
     submitted_listing i (sub_chassis_number p) mk model branch (sub_color_id p)
       (sub_keys_option_id p) (sub_fuel_type_id p) (sub_bidding_model_id p) (sub_year p)
       (Some (sub_target_selling_price p)) (Some (sub_minimum_selling_price p)) (sub_previous_number_plate p)
       (sub_client_id p) (sub_sub_seller_id p) created_by (sub_mulkhiya_document_url p) (sub_terms_accepted p)"

lemma clean_uuid [simp]: "clean w \<Longrightarrow> clean (w\<lparr>uuids_drawn := n\<rparr>)"
  by (simp add: clean_def)

text \<open>The state after the row of one listing is committed.\<close>

definition with_listing :: "env \<Rightarrow> vehicle_listing \<Rightarrow> world \<Rightarrow> world" where
  "with_listing env v w =
     w\<lparr>committed := insert_row (db_clock env (db_ticks w)) (stored_row env (RListing v)) (committed w),
       work := insert_row (db_clock env (db_ticks w)) (stored_row env (RListing v)) (committed w),
       db_ticks := Suc (db_ticks w)\<rparr>"

lemma with_listing_clean [simp]: "clean w \<Longrightarrow> clean (with_listing env v w)"
  by (simp add: with_listing_def clean_def)

definition stored_listing :: "env \<Rightarrow> world \<Rightarrow> vehicle_listing \<Rightarrow> vehicle_listing" where
  "stored_listing env w v =
     v\<lparr>vl_target_selling_price := map_option (stored_numeric env) (vl_target_selling_price v),
       vl_minimum_selling_price := map_option (stored_numeric env) (vl_minimum_selling_price v),
       vl_created_at := db_clock env (db_ticks w)\<rparr>"

lemma with_listing_rows:
  "vehicle_listings (committed (with_listing env v w)) = vehicle_listings (committed w) @ [stored_listing env w v]"
  by (simp add: with_listing_def stored_listing_def)

lemma stored_listing_id [simp]: "vl_id (stored_listing env w v) = vl_id v"
  by (simp add: stored_listing_def)

lemma add_commit_run:
  assumes "clean w"
  shows "bind (add r) (\<lambda>_. m) w = m (w\<lparr>pending := [r]\<rparr>)"
  using assms by (simp add: step_simps clean_def)

lemma create_submission_run:
  assumes cl: "clean w" and check: "check_submission env p w = (Inr (mk, model, branch), w)"
  shows "create_vehicle_submission env p created_by w =
    (let i = uuid_source env (uuids_drawn w); v = listing_of p created_by mk model branch i;
         w1 = w\<lparr>uuids_drawn := Suc (uuids_drawn w)\<rparr> in
     if rejects_value env (RListing v) then (Inl DBAPIError, w1\<lparr>deactive := True\<rparr>)
     else if integrity_ok (collate env) (stored_row env (RListing v)) (committed w)
     then (case get_by_id vl_id (vehicle_listings (committed w) @ [stored_listing env w v]) i of
             None \<Rightarrow> Inl AssertionError | Some x \<Rightarrow> Inr x, with_listing env v w1)
     else (Inl (DuplicateChassisNumberError (sub_chassis_number p)), w1))"
proof -
  let ?i = "uuid_source env (uuids_drawn w)"
  let ?w = "w\<lparr>uuids_drawn := Suc (uuids_drawn w)\<rparr>"
  let ?v = "listing_of p created_by mk model branch ?i"
  let ?reread = "\<lambda>_. query env (\<lambda>db. case get_by_id vl_id (vehicle_listings db) ?i of None \<Rightarrow> Inl AssertionError | Some v \<Rightarrow> Inr v)"
  have clw: "clean ?w" using cl by simp
  have "create_vehicle_submission env p created_by w =
      bind (catch (commit env)
             (\<lambda>e. if e = IntegrityError
                  then bind rollback (\<lambda>_. throw (DuplicateChassisNumberError (sub_chassis_number p))) else throw e))
        ?reread (?w\<lparr>pending := [RListing ?v]\<rparr>)"
    unfolding create_vehicle_submission_def
    by (subst bind_value [where m = "check_submission env p", OF check])
      (simp add: step_simps listing_of_def clean_simps(2) [OF cl])
  also have "\<dots> = (if rejects_value env (RListing ?v) then (Inl DBAPIError, ?w\<lparr>deactive := True\<rparr>)
     else if integrity_ok (collate env) (stored_row env (RListing ?v)) (committed ?w)
     then ?reread () (with_listing env ?v ?w)
     else (Inl (DuplicateChassisNumberError (sub_chassis_number p)), ?w))"
    using commit_one [OF clw, of env "RListing ?v"] rollback_one [OF clw]
    by (simp add: bind_def catch_def throw_def with_listing_def del: stored_row.simps integrity_ok.simps insert_row.simps)
  finally show ?thesis
    using with_listing_clean [OF clw, of env ?v] with_listing_rows [of env ?v ?w]
    by (simp add: Let_def query_def clean_def stored_listing_def del: stored_row.simps integrity_ok.simps)
qed

section \<open>A row of a sheet\<close>

lemma reads_resolve [reads_intros]: "reads (resolve_bulk_row env row)"
  unfolding resolve_bulk_row_def find_if_def find_lookup_by_label_def find_client_by_name_def find_sub_seller_by_name_def
  by (intro reads_intros)

lemma bulk_listing_id: "bulk_listing row rs i c = Some v \<Longrightarrow> vl_id v = i"
  by (auto simp: bulk_listing_def submitted_listing_def split: option.splits)

lemma bulk_listing_any: "bulk_listing row rs i c = None \<longleftrightarrow> bulk_listing row rs j c = None"
  by (auto simp: bulk_listing_def split: option.splits)

text \<open>A row without errors that resolves to a listing.\<close>

definition created_result :: "vehicle_bulk_row_input \<Rightarrow> uuid \<Rightarrow> vehicle_bulk_row_result" where
  "created_result row i = \<lparr>bres_row_number = bk_row_number row, bres_status = ''created'',
     bres_chassis_number = Some (strip (bk_chassis_number row)), bres_vehicle_id = Some i, bres_errors = None\<rparr>"

lemma create_bulk_row_store:
  assumes cl: "clean w" and res: "resolve_bulk_row env row w = (Inr x, w)"
    and row: "bulk_row_errors row x = []" "bulk_listing row x (uuid_source env (uuids_drawn w)) c = Some y"
  shows "create_bulk_row env row c w =
    (let w1 = w\<lparr>uuids_drawn := Suc (uuids_drawn w)\<rparr> in
     if rejects_value env (RListing y) then (Inl DBAPIError, w1\<lparr>deactive := True\<rparr>)
     else if integrity_ok (collate env) (stored_row env (RListing y)) (committed w)
     then (Inr (created_result row (uuid_source env (uuids_drawn w))), with_listing env y w1)
     else (Inr (error_result row [(''chassis_number'', ''Chassis number already submitted: '' @ bk_chassis_number row)]), w1))"
proof -
  let ?w = "w\<lparr>uuids_drawn := Suc (uuids_drawn w)\<rparr>"
  have clw: "clean ?w" using cl by simp
  have "bulk_listing row x 0 c \<noteq> None"
    using row(2) bulk_listing_any [of row x 0 c "uuid_source env (uuids_drawn w)"] by simp
  then show ?thesis
    using row commit_one [OF clw, of env "RListing y"] rollback_one [OF clw] clean_simps(2) [OF cl]
    by (simp add: create_bulk_row_def bind_value [where m = "resolve_bulk_row env row", OF res] step_simps catch_def
        bind_def [of "commit env"] bind_def [of rollback] ret_def throw_def with_listing_def created_result_def Let_def
        del: stored_row.simps integrity_ok.simps insert_row.simps)
qed

text \<open>Created: one listing with the reported identifier; an error, or an exception: nothing.\<close>

lemma create_bulk_row_outcome:
  assumes cl: "clean w" and run: "create_bulk_row env row c w = (res, w')"
  shows "(\<exists>r v. res = Inr r \<and> bres_row_number r = bk_row_number row \<and> bres_status r = ''created'' \<and>
            bres_vehicle_id r = Some (vl_id v) \<and> bres_errors r = None \<and>
            vehicle_listings (committed w') = vehicle_listings (committed w) @ [v] \<and> clean w') \<or>
         (\<exists>r es. res = Inr r \<and> bres_row_number r = bk_row_number row \<and> bres_status r = ''error'' \<and>
            bres_errors r = Some es \<and> es \<noteq> [] \<and> bres_vehicle_id r = None \<and> committed w' = committed w \<and> clean w') \<or>
         (\<exists>e. res = Inl e \<and> committed w' = committed w)"
proof -
  obtain r v where rs: "resolve_bulk_row env row w = (r, v)" by (cases "resolve_bulk_row env row w")
  with readsD [OF reads_resolve] have v: "v = w" by simp
  show ?thesis
  proof (cases r)
    case (Inl e)
    with run rs v have "res = Inl e" "w' = w" by (simp_all add: create_bulk_row_def bind_def)
    then show ?thesis by simp
  next
    case (Inr x)
    with rs v have res: "resolve_bulk_row env row w = (Inr x, w)" by simp
    let ?i = "uuid_source env (uuids_drawn w)"
    let ?w = "w\<lparr>uuids_drawn := Suc (uuids_drawn w)\<rparr>"
    consider (errors) "bulk_row_errors row x \<noteq> []" | (assertion) "bulk_row_errors row x = []" "bulk_listing row x 0 c = None"
      | (store) y where "bulk_row_errors row x = []" "bulk_listing row x ?i c = Some y"
      using bulk_listing_any [of row x 0 c ?i] by (cases "bulk_listing row x ?i c") auto
    then show ?thesis
    proof cases
      case errors
      with run cl show ?thesis
        by (auto simp: create_bulk_row_def bind_value [where m = "resolve_bulk_row env row", OF res] ret_def error_result_def)
    next
      case assertion
      with run show ?thesis
        by (auto simp: create_bulk_row_def bind_value [where m = "resolve_bulk_row env row", OF res] throw_def)
    next
      case store
      have clw: "clean ?w" using cl by simp
      show ?thesis
        using run clw bulk_listing_id [OF store(2)] with_listing_rows [of env y ?w] with_listing_clean [OF clw, of env y]
        unfolding create_bulk_row_store [OF cl res store]
        by (auto simp: error_result_def created_result_def Let_def split: if_splits simp del: stored_row.simps integrity_ok.simps)
    qed
  qed
qed

section \<open>A whole sheet\<close>

definition created_ids :: "vehicle_bulk_row_result list \<Rightarrow> uuid list" where
  "created_ids rs = map (the \<circ> bres_vehicle_id) (filter (\<lambda>r. bres_status r = ''created'') rs)"

lemma mapM_Cons_run:
  "mapM f (x # xs) w = (case f x w of
     (Inl e, v) \<Rightarrow> (Inl e, v)
   | (Inr y, v) \<Rightarrow> (case mapM f xs v of (Inl e, v') \<Rightarrow> (Inl e, v') | (Inr ys, v') \<Rightarrow> (Inr (y # ys), v')))"
  by (simp add: bind_def ret_def split: prod.splits sum.splits)

lemma bulk_outcome:
  assumes "clean w" and "bulk_create_vehicle_submissions env rows c w = (Inr rs, w')"
  shows "map bres_row_number rs = map bk_row_number rows \<and> clean w' \<and>
    (\<exists>new. vehicle_listings (committed w') = vehicle_listings (committed w) @ new \<and> map vl_id new = created_ids rs) \<and>
    (\<forall>r \<in> set rs. (bres_status r = ''created'' \<and> bres_errors r = None \<and> bres_vehicle_id r \<noteq> None) \<or>
       (bres_status r = ''error'' \<and> bres_errors r \<noteq> None \<and> bres_errors r \<noteq> Some [] \<and> bres_vehicle_id r = None))"
  using assms unfolding bulk_create_vehicle_submissions_def
proof (induction rows arbitrary: w rs)
  case Nil
  then show ?case by (simp add: ret_def created_ids_def)
next
  case (Cons row rows)
  obtain res v where run: "create_bulk_row env row c w = (res, v)" by (cases "create_bulk_row env row c w")
  from Cons.prems(2) run obtain r where r: "res = Inr r"
    by (cases res) (simp_all add: mapM_Cons_run del: mapM.simps)
  from Cons.prems(2) run r obtain rs' where rest: "mapM (\<lambda>row. create_bulk_row env row c) rows v = (Inr rs', w')" and rs: "rs = r # rs'"
    by (auto simp: mapM_Cons_run simp del: mapM.simps split: prod.splits sum.splits)
  from create_bulk_row_outcome [OF Cons.prems(1) run] r have v: "clean v" by auto
  from Cons.IH [OF v rest] obtain new where ih: "map bres_row_number rs' = map bk_row_number rows" "clean w'"
    "vehicle_listings (committed w') = vehicle_listings (committed v) @ new" "map vl_id new = created_ids rs'"
    "\<forall>r \<in> set rs'. (bres_status r = ''created'' \<and> bres_errors r = None \<and> bres_vehicle_id r \<noteq> None) \<or>
       (bres_status r = ''error'' \<and> bres_errors r \<noteq> None \<and> bres_errors r \<noteq> Some [] \<and> bres_vehicle_id r = None)" by blast
  from create_bulk_row_outcome [OF Cons.prems(1) run] r consider
    (created) x where "bres_row_number r = bk_row_number row" "bres_status r = ''created''" "bres_vehicle_id r = Some (vl_id x)" "bres_errors r = None"
      "vehicle_listings (committed v) = vehicle_listings (committed w) @ [x]"
    | (failed) es where "bres_row_number r = bk_row_number row" "bres_status r = ''error''" "bres_errors r = Some es" "es \<noteq> []" "bres_vehicle_id r = None" "committed v = committed w"
    by auto
  then show ?case
  proof cases
    case created
    with ih rs show ?thesis by (auto simp: created_ids_def intro: exI [of _ "x # new"])
  next
    case failed
    with ih rs show ?thesis by (auto simp: created_ids_def)
  qed
qed

end
