(* ===== verification/Intake_Properties.thy ===== *)
theory Intake_Properties
  imports Intake_Laws Auth_Properties
begin

text \<open>
  The properties of vehicle intake: what a submission and a sheet store, with instances.
\<close>

section \<open>One submission\<close>


lemma stored_listing_fields [simp]:
  "vl_status (stored_listing env w v) = vl_status v" "vl_is_active (stored_listing env w v) = vl_is_active v"
  "vl_chassis_number (stored_listing env w v) = vl_chassis_number v"
  "vl_seller_id (stored_listing env w v) = vl_seller_id v" "vl_created_by_id (stored_listing env w v) = vl_created_by_id v"
  "vl_make_id (stored_listing env w v) = vl_make_id v" "vl_model_id (stored_listing env w v) = vl_model_id v"
  by (simp_all add: stored_listing_def)



definition sample_lookup :: "uuid \<Rightarrow> string \<Rightarrow> lookup_row" where
  "sample_lookup i name = \<lparr>lk_id = i, lk_name_en = name, lk_name_ar = [], lk_sort_order = 1, lk_is_active = True, lk_created_at = 0\<rparr>"

definition sample_model :: "uuid \<Rightarrow> string \<Rightarrow> uuid \<Rightarrow> vehicle_model" where
  "sample_model i name mk = \<lparr>lk_id = i, lk_name_en = name, lk_name_ar = [], lk_sort_order = 1, lk_is_active = True,
     lk_created_at = 0, vm_make_id = mk\<rparr>"

definition intake_world :: world where
  "intake_world = initial_world (sample_db\<lparr>vehicle_makes := [sample_lookup 101 ''Audi'', sample_lookup 102 ''Lexus''],
     vehicle_models := [sample_model 103 ''LX'' 102], vehicle_branches := [sample_lookup 104 ''Dubai''],
     vehicle_colors := [sample_lookup 105 ''Red''], vehicle_key_options := [sample_lookup 106 ''2''],
     fuel_types := [sample_lookup 107 ''Diesel'']\<rparr>)"


lemma intake_clean [simp]: "clean intake_world"
  by (simp add: intake_world_def)

lemma intake_tables [simp]:
  "vehicle_listings (committed intake_world) = []"
  "vehicle_makes (committed intake_world) = [sample_lookup 101 ''Audi'', sample_lookup 102 ''Lexus'']"
  "vehicle_models (committed intake_world) = [sample_model 103 ''LX'' 102]"
  "vehicle_branches (committed intake_world) = [sample_lookup 104 ''Dubai'']"
  "vehicle_colors (committed intake_world) = [sample_lookup 105 ''Red'']"
  "vehicle_key_options (committed intake_world) = [sample_lookup 106 ''2'']"
  "fuel_types (committed intake_world) = [sample_lookup 107 ''Diesel'']"
  "users (committed intake_world) = [sample_user 11 ''ann@x.ae'' ''pw1'' 1, sample_user 12 ''bob@x.ae'' ''pw2'' 3]"
  by (simp_all add: intake_world_def initial_world_def sample_db_def empty_database_def)

lemma sample_ids [simp]:
  "lk_id (sample_lookup i n) = i" "lk_id (sample_model i n m) = i" "u_id (sample_user i e h r) = i"
  by (simp_all add: sample_lookup_def sample_model_def sample_user_def)



section \<open>A sheet\<close>

lemma created_count:
  "bs_created_count (bulk_submit_result rs) = int (length (created_ids rs))"
  by (simp add: bulk_submit_result_def created_ids_def Let_def)

lemma error_count:
  "bs_error_count (bulk_submit_result rs) = int (length (filter (\<lambda>r. bres_status r \<noteq> ''created'') rs))"
  using sum_length_filter_compl [of "\<lambda>r. bres_status r = ''created''" rs]
  by (simp add: bulk_submit_result_def Let_def)

text \<open>C10. A sheet is accounted for row by row: the reply has one result per row, in the order of the
  rows; exactly the listings of the rows reported as created, under the reported
  identifiers, are stored; every other row is reported with at least one error; and the
  totals of the reply are the numbers of listings stored and of rows refused.\<close>

theorem bulk_rows_accounted:
  assumes "clean w" and "bulk_create_vehicle_submissions env rows c w = (Inr rs, w')"
  shows "map bres_row_number rs = map bk_row_number rows \<and>
    (\<exists>new. vehicle_listings (committed w') = vehicle_listings (committed w) @ new \<and> map vl_id new = created_ids rs \<and>
       bs_created_count (bulk_submit_result rs) = int (length new) \<and>
       bs_error_count (bulk_submit_result rs) = int (length rows) - int (length new)) \<and>
    (\<forall>r \<in> set rs. bres_status r \<noteq> ''created'' \<longrightarrow> (\<exists>e es. bres_errors r = Some (e # es)) \<and> bres_vehicle_id r = None)"
proof -
  from bulk_outcome [OF assms] obtain new where
    out: "map bres_row_number rs = map bk_row_number rows" "vehicle_listings (committed w') = vehicle_listings (committed w) @ new"
      "map vl_id new = created_ids rs"
    and each: "\<forall>r \<in> set rs. (bres_status r = ''created'' \<and> bres_errors r = None \<and> bres_vehicle_id r \<noteq> None) \<or>
       (bres_status r = ''error'' \<and> bres_errors r \<noteq> None \<and> bres_errors r \<noteq> Some [] \<and> bres_vehicle_id r = None)" by blast
  have "length rs = length rows" using arg_cong [OF out(1), of length] by simp
  moreover have "length new = length (created_ids rs)" using arg_cong [OF out(3), of length] by simp
  moreover have "bs_error_count (bulk_submit_result rs) = int (length rs) - bs_created_count (bulk_submit_result rs)"
    by (simp add: bulk_submit_result_def Let_def)
  moreover have "(\<exists>e es. bres_errors r = Some (e # es)) \<and> bres_vehicle_id r = None"
    if "r \<in> set rs" "bres_status r \<noteq> ''created''" for r
  proof -
    from each that obtain es where "bres_errors r = Some es" "es \<noteq> []" "bres_vehicle_id r = None" by auto
    then show ?thesis by (cases es) auto
  qed
  ultimately show ?thesis using out created_count [of rs] by auto
qed

lemma rejects_sample [simp]: "rejects_value sample_env r = False"
  by (simp add: sample_env_def)

definition bulk_row :: "int \<Rightarrow> string \<Rightarrow> vehicle_bulk_row_input" where
  "bulk_row n mk = \<lparr>bk_row_number = n, bk_chassis_number = '' CH2'', bk_make = mk, bk_model = ''lx'', bk_branch = ''Dubai'',
     bk_year = ''2020'', bk_keys_option = ''2'', bk_fuel_type = ''Diesel'', bk_color = ''red'', bk_target_selling_price = ''100'',
     bk_minimum_selling_price = ''50'', bk_client = ''ann@x.ae'', bk_sub_client = [], bk_previous_number_plate = ''A1'',
     bk_bidding_model = []\<rparr>"

text \<open>The model of the first row is not of the named make; the second is stored.\<close>

definition lexus_resolved :: bulk_resolved where
  "lexus_resolved = \<lparr>rs_make = Some (sample_lookup 102 ''Lexus''), rs_model = Some (sample_model 103 ''LX'' 102),
     rs_branch = Some (sample_lookup 104 ''Dubai''), rs_color = Some (sample_lookup 105 ''Red''),
     rs_keys_option = Some (sample_lookup 106 ''2''), rs_fuel_type = Some (sample_lookup 107 ''Diesel''),
     rs_bidding_model = None, rs_client = Some (sample_user 11 ''ann@x.ae'' ''pw1'' 1), rs_sub_seller = None\<rparr>"

lemma sample_rows_resolved:
  "resolve_bulk_row sample_env (bulk_row 2 ''LEXUS'') intake_world = (Inr lexus_resolved, intake_world)"
  "resolve_bulk_row sample_env (bulk_row 1 ''audi'') intake_world =
     (Inr (lexus_resolved\<lparr>rs_make := Some (sample_lookup 101 ''Audi''), rs_model := None\<rparr>), intake_world)"
proof -
  have "fst (resolve_bulk_row sample_env (bulk_row 2 ''LEXUS'') intake_world) = Inr lexus_resolved"
    "fst (resolve_bulk_row sample_env (bulk_row 1 ''audi'') intake_world) =
       Inr (lexus_resolved\<lparr>rs_make := Some (sample_lookup 101 ''Audi''), rs_model := None\<rparr>)"
    by code_simp+
  moreover have "snd (resolve_bulk_row sample_env row intake_world) = intake_world" for row
    using reads_resolve by (simp add: reads_def)
  ultimately show
    "resolve_bulk_row sample_env (bulk_row 2 ''LEXUS'') intake_world = (Inr lexus_resolved, intake_world)"
    "resolve_bulk_row sample_env (bulk_row 1 ''audi'') intake_world =
       (Inr (lexus_resolved\<lparr>rs_make := Some (sample_lookup 101 ''Audi''), rs_model := None\<rparr>), intake_world)"
    by (simp_all add: prod_eq_iff)
qed

lemma sample_rows_errors:
  "bulk_row_errors (bulk_row 2 ''LEXUS'') lexus_resolved = []"
  "bulk_row_errors (bulk_row 1 ''audi'') (lexus_resolved\<lparr>rs_make := Some (sample_lookup 101 ''Audi''), rs_model := None\<rparr>) =
     [(''model'', ''Unknown model for audi: lx'')]"
  by code_simp+

theorem bulk_rows_accounted_witness:
  "\<exists>rs w'. bulk_create_vehicle_submissions sample_env [bulk_row 1 ''audi'', bulk_row 2 ''LEXUS''] 12 intake_world = (Inr rs, w') \<and>
     map bres_status rs = [''error'', ''created''] \<and> length (vehicle_listings (committed w')) = 1"
proof -
  let ?rows = "[bulk_row 1 ''audi'', bulk_row 2 ''LEXUS'']"
  let ?i = "uuid_source sample_env (uuids_drawn intake_world)"
  have first: "create_bulk_row sample_env (bulk_row 1 ''audi'') 12 intake_world =
      (Inr (error_result (bulk_row 1 ''audi'') [(''model'', ''Unknown model for audi: lx'')]), intake_world)"
    by (simp add: create_bulk_row_def bind_value [where m = "resolve_bulk_row sample_env (bulk_row 1 ''audi'')",
          OF sample_rows_resolved(2)] sample_rows_errors ret_def)
  obtain y where y: "bulk_listing (bulk_row 2 ''LEXUS'') lexus_resolved ?i 12 = Some y"
    and fk: "integrity_ok (collate sample_env) (stored_row sample_env (RListing y)) (committed intake_world)"
  proof -
    have "parse_year ''2020'' = Some 2020" by code_simp
    then show thesis using that by (simp add: bulk_listing_def lexus_resolved_def bulk_row_def submitted_listing_def)
  qed
  obtain v2 where row2: "create_bulk_row sample_env (bulk_row 2 ''LEXUS'') 12 intake_world =
      (Inr (created_result (bulk_row 2 ''LEXUS'') ?i), v2)"
    using create_bulk_row_store [OF intake_clean sample_rows_resolved(1) sample_rows_errors(1) y] fk
    by (simp add: Let_def rejects_sample del: stored_row.simps integrity_ok.simps)
  define rs where "rs = [error_result (bulk_row 1 ''audi'') [(''model'', ''Unknown model for audi: lx'')], created_result (bulk_row 2 ''LEXUS'') ?i]"
  have run: "bulk_create_vehicle_submissions sample_env ?rows 12 intake_world = (Inr rs, v2)"
    by (simp add: bulk_create_vehicle_submissions_def mapM_Cons_run first row2 rs_def ret_def del: mapM.simps(2))
  have statuses: "map bres_status rs = [''error'', ''created'']" by (simp add: rs_def error_result_def created_result_def)
  have "created_ids rs = [?i]" by (simp add: rs_def created_ids_def error_result_def created_result_def)
  with bulk_rows_accounted [OF intake_clean run] have "map vl_id (vehicle_listings (committed v2)) = [?i]" by auto
  then have "length (vehicle_listings (committed v2)) = 1" by (metis length_map length_Cons list.size(3) One_nat_def)
  with run statuses show ?thesis by (intro exI [of _ rs] exI [of _ v2]) simp
qed

end
