(* ===== verification/Role_Migration.thy ===== *)
theory Role_Migration
  imports Role_Service Auth_Service
begin

text \<open>
  \<^verbatim>\<open>alembic/versions/0029_roles.py\<close>, \<^verbatim>\<open>0030_users_primary_role_fk.py\<close> and
  \<^verbatim>\<open>0031_seed_role_demo_users.py\<close>: how the free-text role of an account became the tables
  \<open>roles\<close> and \<open>user_roles\<close> and the column \<open>users.primary_role_id\<close>, and the demo accounts.
  Each migration is one transaction: an exception leaves the database as it was.
\<close>

section \<open>Before: a role is a text\<close>

text \<open>A row of \<open>users\<close> of revision 0003; the foreign key is the column that 0030 adds.\<close>

record legacy_user = user +
  lg_role :: "string option"

text \<open>A row of \<open>user_roles\<close> between 0029 and 0030.\<close>

record flagged_user_role = user_role +
  ur_is_primary :: bool

definition SEED_ROLES :: "(string \<times> string) list" where
  "SEED_ROLES =
     [(''Buyer'', ''Bids on and purchases vehicles in auctions.''),
      (''Seller'', ''Lists vehicles for sale/auction.''),
      (''Admin'', ''Full administrative access to the admin dashboard.''),
      (''Accountant'', ''Finance/billing staff - admin Accountant section (invoices, payments).''),
      (''Inspector'', ''Performs and reports on vehicle inspections.''),
      (''Manager'', ''Admin Management section (penalties, subscriptions, etc.).''),
      (''Operations'', ''Admin Operations section (inspection service scheduling, operation logs).''),
      (''AuctionsHead'', ''Elevated bidding rights alongside Buyer - see services/bid_service.REQUIRED_BID_ROLES.'')]"

section \<open>0029: roles and assignments\<close>

text \<open>\<open>op.bulk_insert\<close> into \<open>roles\<close>: the primary key and the unique index on the name.\<close>

definition insert_roles :: "env \<Rightarrow> role list \<Rightarrow> role list \<Rightarrow> exn + role list" where
  "insert_roles env rows new =
     (let rows' = rows @ new in
      if distinct (map r_id rows') \<and> distinct (map (collate env \<circ> r_name) rows') then Inr rows' else Inl IntegrityError)"

definition role_row :: "time \<Rightarrow> uuid \<Rightarrow> string \<Rightarrow> string \<Rightarrow> role" where
  "role_row t i name description =
     \<lparr>r_id = i, r_name = name, r_description = Some description, r_is_active = True, r_created_at = t\<rparr>"

text \<open>The identifiers that \<open>uuid4\<close> gives to a list of rows, from the \<open>n\<close>-th on.\<close>

definition with_uuids :: "env \<Rightarrow> nat \<Rightarrow> 'a list \<Rightarrow> (uuid \<times> 'a) list" where
  "with_uuids env n xs = zip (map (\<lambda>k. uuid_source env (n + k)) [0..<length xs]) xs"

definition seed_roles :: "env \<Rightarrow> time \<Rightarrow> nat \<Rightarrow> exn + role list" where
  "seed_roles env t n = insert_roles env [] (map (\<lambda>(i, name, description). role_row t i name description) (with_uuids env n SEED_ROLES))"

definition AUTO_CREATED :: string where
  "AUTO_CREATED = ''Auto-created from a pre-existing users.role value not in the seed list.''"

text \<open>\<open>legacy_names - seeded_names\<close>, sorted; \<open>select_distinct\<close> is the server's.\<close>

definition unseeded_names :: "(string list \<Rightarrow> string list) \<Rightarrow> legacy_user list \<Rightarrow> string list" where
  "unseeded_names select_distinct us =
     sort (remdups (filter (\<lambda>n. n \<notin> set (map fst SEED_ROLES)) (select_distinct (List.map_filter lg_role us))))"

definition role_ids :: "role list \<Rightarrow> string \<rightharpoonup> uuid" where
  "role_ids rows = map_of (rev (map (\<lambda>r. (r_name r, r_id r)) rows))"

definition legacy_role_id :: "(string \<rightharpoonup> uuid) \<Rightarrow> uuid \<Rightarrow> string option \<Rightarrow> uuid" where
  "legacy_role_id ids buyer_id name =
     (case name of
        None \<Rightarrow> buyer_id
      | Some n \<Rightarrow> if n = [] then buyer_id else (case ids n of None \<Rightarrow> buyer_id | Some i \<Rightarrow> i))"

definition primary_row :: "time \<Rightarrow> (string \<rightharpoonup> uuid) \<Rightarrow> uuid \<Rightarrow> uuid \<times> legacy_user \<Rightarrow> flagged_user_role" where
  "primary_row t ids buyer_id = (\<lambda>(i, u). \<lparr>ur_id = i, ur_user_id = u_id u,
     ur_role_id = legacy_role_id ids buyer_id (lg_role u), ur_assigned_at = t, ur_is_primary = True\<rparr>)"

text \<open>The constraints of \<open>user_roles\<close>: keys, pairs, one primary per user, foreign keys.\<close>

definition insert_user_roles :: "role list \<Rightarrow> legacy_user list \<Rightarrow> flagged_user_role list \<Rightarrow> exn + flagged_user_role list" where
  "insert_user_roles rows us new =
     (if distinct (map ur_id new) \<and> distinct (map (\<lambda>x. (ur_user_id x, ur_role_id x)) new) \<and>
         distinct (map ur_user_id (filter ur_is_primary new)) \<and>
         list_all (\<lambda>x. ur_user_id x \<in> u_id ` set us \<and> ur_role_id x \<in> r_id ` set rows) new
      then Inr new else Inl IntegrityError)"

definition backfill_user_roles ::
    "env \<Rightarrow> (string list \<Rightarrow> string list) \<Rightarrow> time \<Rightarrow> legacy_user list \<Rightarrow> role list \<Rightarrow> nat \<Rightarrow> exn + role list \<times> flagged_user_role list" where
  "backfill_user_roles env select_distinct t us seeded n =
     (let unseeded = unseeded_names select_distinct us in
      bind_result (if unseeded = [] then Inr seeded
                   else insert_roles env seeded (map (\<lambda>(i, name). role_row t i name AUTO_CREATED) (with_uuids env n unseeded))) (\<lambda>rows.
      case role_ids rows ''Buyer'' of
        None \<Rightarrow> Inl (KeyError ''Buyer'')
      | Some buyer_id \<Rightarrow>
          if us = [] then Inr (rows, [])
          else
            bind_result (insert_user_roles rows us
              (map (primary_row t (role_ids rows) buyer_id)
                 (with_uuids env (n + length unseeded) us)))
              (\<lambda>user_roles. Inr (rows, user_roles))))"

definition upgrade_0029 ::
    "env \<Rightarrow> (string list \<Rightarrow> string list) \<Rightarrow> time \<Rightarrow> nat \<Rightarrow> legacy_user list \<Rightarrow> exn + role list \<times> flagged_user_role list" where
  "upgrade_0029 env select_distinct t n us =
     bind_result (seed_roles env t n) (\<lambda>seeded.
     backfill_user_roles env select_distinct t us seeded (n + length SEED_ROLES))"

section \<open>0030: the primary role as a foreign key\<close>

text \<open>\<open>UPDATE ... FROM users JOIN user_roles ... is_primary = 1\<close>; then NOT NULL and the foreign key.\<close>

definition primary_of :: "flagged_user_role list \<Rightarrow> uuid \<Rightarrow> uuid option" where
  "primary_of urs uid = map_option ur_role_id (first_row (filter (\<lambda>x. ur_user_id x = uid \<and> ur_is_primary x) urs))"

definition upgrade_0030 ::
    "role list \<times> flagged_user_role list \<Rightarrow> legacy_user list \<Rightarrow> database \<Rightarrow> exn + database" where
  "upgrade_0030 = (\<lambda>(rows, urs) us db.
     if list_all (\<lambda>u. case primary_of urs (u_id u) of None \<Rightarrow> False | Some i \<Rightarrow> i \<in> r_id ` set rows) us
     then Inr (db\<lparr>roles := rows, user_roles := map user_role.truncate urs,
                  users := map (\<lambda>u. (user.truncate u)\<lparr>u_primary_role_id := the (primary_of urs (u_id u))\<rparr>) us\<rparr>)
     else Inl IntegrityError)"

text \<open>
  The downgrade: \<open>is_primary\<close> and the text are computed back; the text column is a VARCHAR(30),
  into which \<open>to_varchar\<close> converts.
\<close>

definition is_primary_row :: "database \<Rightarrow> user_role \<Rightarrow> bool" where
  "is_primary_row db x \<longleftrightarrow> list_ex (\<lambda>u. u_id u = ur_user_id x \<and> u_primary_role_id u = ur_role_id x) (users db)"

definition flagged :: "database \<Rightarrow> user_role \<Rightarrow> flagged_user_role" where
  "flagged db x = user_role.extend x (flagged_user_role.fields (is_primary_row db x))"

definition with_role_text :: "(string \<Rightarrow> string) \<Rightarrow> database \<Rightarrow> user \<Rightarrow> legacy_user" where
  "with_role_text to_varchar db u = user.extend u (legacy_user.fields
     (map_option (to_varchar \<circ> r_name) (get_by_id r_id (roles db) (u_primary_role_id u))))"

definition downgrade_0030 ::
    "(string \<Rightarrow> string) \<Rightarrow> database \<Rightarrow> exn + (role list \<times> flagged_user_role list) \<times> legacy_user list" where
  "downgrade_0030 to_varchar db =
     (let urs = map (flagged db) (user_roles db); us = map (with_role_text to_varchar db) (users db) in
      if \<not> distinct (map ur_user_id (filter ur_is_primary urs)) then Inl IntegrityError
      else if list_ex (\<lambda>u. case lg_role u of None \<Rightarrow> False | Some r \<Rightarrow> 30 < length r) us then Inl DBAPIError
      else if list_ex (\<lambda>u. lg_role u = None) us then Inl IntegrityError
      else Inr ((roles db, urs), us))"

text \<open>Both revisions: the other tables are those of \<open>db\<close>.\<close>

definition migrate_roles ::
    "env \<Rightarrow> (string list \<Rightarrow> string list) \<Rightarrow> time \<Rightarrow> nat \<Rightarrow> legacy_user list \<Rightarrow> database \<Rightarrow> exn + database" where
  "migrate_roles env select_distinct t n us db =
     bind_result (upgrade_0029 env select_distinct t n us) (\<lambda>new. upgrade_0030 new us db)"

section \<open>0031: demo accounts\<close>

definition DEMO_PASSWORD :: string where "DEMO_PASSWORD = ''Secret@123''"

definition DEMO_USERS :: "(string \<times> string \<times> string \<times> string option) list" where
  "DEMO_USERS =
     [(''buyer1@gmail.com'', ''Buyer'', ''Buyer One'', Some ''Seller''),
      (''buyer2@gmail.com'', ''Buyer'', ''Buyer Two'', None),
      (''seller1@gmail.com'', ''Seller'', ''Seller One'', Some ''Buyer''),
      (''seller2@gmail.com'', ''Seller'', ''Seller Two'', None),
      (''admin1@gmail.com'', ''Admin'', ''Admin One'', Some ''Buyer''),
      (''admin2@gmail.com'', ''Admin'', ''Admin Two'', None),
      (''accountant1@gmail.com'', ''Accountant'', ''Accountant One'', None),
      (''accountant2@gmail.com'', ''Accountant'', ''Accountant Two'', None),
      (''inspector1@gmail.com'', ''Inspector'', ''Inspector One'', Some ''Seller''),
      (''inspector2@gmail.com'', ''Inspector'', ''Inspector Two'', None),
      (''manager1@gmail.com'', ''Manager'', ''Manager One'', Some ''Buyer''),
      (''manager2@gmail.com'', ''Manager'', ''Manager Two'', None),
      (''operations1@gmail.com'', ''Operations'', ''Operations One'', None),
      (''operations2@gmail.com'', ''Operations'', ''Operations Two'', None),
      (''auctionshead1@gmail.com'', ''AuctionsHead'', ''AuctionsHead One'', None),
      (''auctionshead2@gmail.com'', ''AuctionsHead'', ''AuctionsHead Two'', None)]"

text \<open>\<open>name.strip().split(" ", 1)\<close>.\<close>

definition split_name :: "string \<Rightarrow> string \<times> string" where
  "split_name name =
     (let s = strip name; first_name = takeWhile (\<lambda>c. c \<noteq> CHR '' '') s in
      (first_name, drop (Suc (length first_name)) s))"

definition demo_user :: "uuid \<Rightarrow> string \<Rightarrow> string \<Rightarrow> string \<Rightarrow> uuid \<Rightarrow> user" where
  "demo_user i email password_hash full_name rid =
     \<lparr>u_id = i, u_email = email, u_password_hash = password_hash, u_first_name = fst (split_name full_name),
      u_last_name = snd (split_name full_name), u_phone = None, u_primary_role_id = rid, u_is_active = True,
      u_is_email_verified = True, u_failed_login_attempts = 0, u_locked_until = None, u_last_login_at = None,
      u_created_at = 0\<rparr>"

text \<open>\<open>INSERT ... WHERE NOT EXISTS\<close>, with the constraints of the table.\<close>

definition insert_unless :: "env \<Rightarrow> time \<Rightarrow> (database \<Rightarrow> bool) \<Rightarrow> row \<Rightarrow> database \<Rightarrow> exn + database" where
  "insert_unless env t exists r db =
     (if exists db then Inr db
      else if integrity_ok (collate env) r db then Inr (insert_row t r db) else Inl IntegrityError)"

definition grant_role :: "env \<Rightarrow> time \<Rightarrow> uuid \<Rightarrow> uuid \<Rightarrow> uuid \<Rightarrow> database \<Rightarrow> exn + database" where
  "grant_role env t i uid rid db =
     insert_unless env t (\<lambda>db. list_ex (\<lambda>x. ur_user_id x = uid \<and> ur_role_id x = rid) (user_roles db))
       (RUserRole \<lparr>ur_id = i, ur_user_id = uid, ur_role_id = rid, ur_assigned_at = 0\<rparr>) db"

text \<open>\<open>.scalar_one()\<close>: exactly one row.\<close>

definition stored_user_id :: "env \<Rightarrow> string \<Rightarrow> database \<Rightarrow> exn + uuid" where
  "stored_user_id env email db =
     (case filter (\<lambda>u. sql_eq env (u_email u) email) (users db) of
        [] \<Rightarrow> Inl NoResultFound | [u] \<Rightarrow> Inr (u_id u) | _ \<Rightarrow> Inl MultipleResultsFound)"

definition role_key :: "(string \<rightharpoonup> uuid) \<Rightarrow> string \<Rightarrow> exn + uuid" where
  "role_key ids name = (case ids name of None \<Rightarrow> Inl (KeyError name) | Some i \<Rightarrow> Inr i)"

definition seed_demo_user ::
    "env \<Rightarrow> time \<Rightarrow> string \<Rightarrow> (string \<rightharpoonup> uuid) \<Rightarrow> string \<times> string \<times> string \<times> string option \<Rightarrow>
     database \<times> nat \<Rightarrow> exn + database \<times> nat" where
  "seed_demo_user env t password_hash ids = (\<lambda>(email, role_name, full_name, secondary) (db, n).
     bind_result (role_key ids role_name) (\<lambda>primary.
     bind_result (insert_unless env t (\<lambda>db. list_ex (\<lambda>u. sql_eq env (u_email u) email) (users db))
       (RUser (demo_user (uuid_source env n) email password_hash full_name primary)) db) (\<lambda>db1.
     bind_result (stored_user_id env email db1) (\<lambda>uid.
     bind_result (grant_role env t (uuid_source env (n + 1)) uid primary db1) (\<lambda>db2.
     case secondary of
       None \<Rightarrow> Inr (db2, n + 2)
     | Some name \<Rightarrow>
         bind_result (role_key ids name) (\<lambda>rid.
         map_result (\<lambda>db3. (db3, n + 3)) (grant_role env t (uuid_source env (n + 2)) uid rid db2)))))))"

fun seed_demo_users ::
    "env \<Rightarrow> time \<Rightarrow> string \<Rightarrow> (string \<rightharpoonup> uuid) \<Rightarrow> (string \<times> string \<times> string \<times> string option) list \<Rightarrow>
     database \<times> nat \<Rightarrow> exn + database \<times> nat" where
  "seed_demo_users env t password_hash ids [] s = Inr s"
| "seed_demo_users env t password_hash ids (d # ds) s =
     bind_result (seed_demo_user env t password_hash ids d s) (seed_demo_users env t password_hash ids ds)"

definition upgrade_0031 :: "env \<Rightarrow> time \<Rightarrow> nat \<Rightarrow> nat \<Rightarrow> database \<Rightarrow> exn + database" where
  "upgrade_0031 env t salt n db =
     map_result fst (seed_demo_users env t (argon2_hash env salt DEMO_PASSWORD) (role_ids (roles db)) DEMO_USERS (db, n))"

end
