(* ===== verification/Migration_Properties.thy ===== *)
theory Migration_Properties
  imports Role_Migration Auth_Properties
begin

text \<open>
  The role migrations establish what the services rely on: keys, foreign keys and the
  invariant that everybody holds their primary role; what they keep of the former roles, and
  what the demo accounts add.
\<close>

section \<open>Identifiers and names\<close>

lemma with_uuids_simps [simp]:
  "length (with_uuids env n xs) = length xs" "map snd (with_uuids env n xs) = xs"
  "map fst (with_uuids env n xs) = map (\<lambda>k. uuid_source env (n + k)) [0..<length xs]"
  by (simp_all add: with_uuids_def)

lemma map_with_uuids: "map (\<lambda>(i, x). f x) (with_uuids env n xs) = map f xs"
proof -
  have "map (\<lambda>(i, x). f x) (with_uuids env n xs) = map f (map snd (with_uuids env n xs))"
    by (simp only: map_map) (simp add: case_prod_beta comp_def)
  then show ?thesis by simp
qed

lemma map_snd_uuids: "map (\<lambda>x. f (snd x)) (with_uuids env n xs) = map f xs"
  using map_map [of f snd "with_uuids env n xs"] by (simp add: comp_def)

lemma set_with_uuids: "(i, x) \<in> set (with_uuids env n xs) \<Longrightarrow> x \<in> set xs"
  by (auto simp: with_uuids_def dest: set_zip_rightD)

lemma distinct_with_uuids:
  assumes "inj_on (uuid_source env) {n..<n + length xs}"
  shows "distinct (map fst (with_uuids env n xs))"
proof -
  have "inj_on (\<lambda>k. uuid_source env (n + k)) {0..<length xs}"
  proof (rule inj_onI)
    fix a b assume "a \<in> {0..<length xs}" "b \<in> {0..<length xs}" "uuid_source env (n + a) = uuid_source env (n + b)"
    then show "a = b" using inj_onD [OF assms, of "n + a" "n + b"] by simp
  qed
  then show ?thesis by (simp add: distinct_map)
qed

lemma role_ids_Some:
  assumes "distinct (map r_name rows)"
  shows "role_ids rows n = Some i \<longleftrightarrow> (\<exists>r \<in> set rows. r_name r = n \<and> r_id r = i)"
proof -
  have "distinct (map fst (rev (map (\<lambda>r. (r_name r, r_id r)) rows)))"
    using assms by (simp add: rev_map [symmetric] comp_def)
  from map_of_eq_Some_iff [OF this] show ?thesis by (auto simp: role_ids_def)
qed

lemma role_ids_None: "role_ids rows n = None \<longleftrightarrow> n \<notin> r_name ` set rows"
  by (auto simp: role_ids_def map_of_eq_None_iff image_iff)

lemma distinct_names: "distinct (map (c \<circ> r_name) rows) \<Longrightarrow> distinct (map r_name rows)"
  by (simp add: distinct_map inj_on_def)

section \<open>What 0029 and 0030 leave\<close>

lemma seeded_names: "seed_roles env t n = Inr rows \<Longrightarrow> map r_name rows = map fst SEED_ROLES"
  by (auto simp: seed_roles_def insert_roles_def Let_def role_row_def comp_def case_prod_beta
      map_with_uuids [unfolded case_prod_beta] split: if_splits)

lemma insert_roles_Inr:
  assumes "insert_roles env rows new = Inr rows'"
  shows "rows' = rows @ new \<and> distinct (map r_id rows') \<and> distinct (map (collate env \<circ> r_name) rows')"
  using assms unfolding insert_roles_def Let_def by (metis Inl_Inr_False Inr_inject)

lemma upgrade_0029_Inr:
  assumes "upgrade_0029 env sd t n us = Inr (rows, urs)"
  obtains buyer_id k where "distinct (map r_id rows)" and "distinct (map (collate env \<circ> r_name) rows)"
    and "r_name ` set rows = set (map fst SEED_ROLES) \<union> set (unseeded_names sd us)"
    and "role_ids rows ''Buyer'' = Some buyer_id"
    and "urs = map (primary_row t (role_ids rows) buyer_id) (with_uuids env k us)"
    and "insert_user_roles rows us urs = Inr urs"
proof -
  obtain seeded where seeded: "seed_roles env t n = Inr seeded"
    and rest: "backfill_user_roles env sd t us seeded (n + length SEED_ROLES) = Inr (rows, urs)"
    using assms by (auto simp: upgrade_0029_def)
  have names: "map r_name seeded = map fst SEED_ROLES" by (rule seeded_names [OF seeded])
  have seeded_ok: "distinct (map r_id seeded)" "distinct (map (collate env \<circ> r_name) seeded)"
    using insert_roles_Inr [of env "[]"] seeded by (auto simp: seed_roles_def)
  let ?un = "unseeded_names sd us"
  let ?new = "map (\<lambda>(i, name). role_row t i name AUTO_CREATED) (with_uuids env (n + length SEED_ROLES) ?un)"
  obtain rows' where ins: "(if ?un = [] then Inr seeded else insert_roles env seeded ?new) = Inr rows'"
    and rest': "(case role_ids rows' ''Buyer'' of None \<Rightarrow> Inl (KeyError ''Buyer'')
      | Some buyer_id \<Rightarrow> if us = [] then Inr (rows', [])
          else bind_result (insert_user_roles rows' us
              (map (primary_row t (role_ids rows') buyer_id)
                 (with_uuids env (n + length SEED_ROLES + length ?un) us)))
              (\<lambda>user_roles. Inr (rows', user_roles))) = Inr (rows, urs)"
    using rest unfolding backfill_user_roles_def Let_def bind_result_Inr_iff by blast
  have new_names: "map r_name ?new = ?un"
    by (simp add: comp_def case_prod_beta role_row_def map_with_uuids [unfolded case_prod_beta])
  have rows': "distinct (map r_id rows') \<and> distinct (map (collate env \<circ> r_name) rows') \<and>
      r_name ` set rows' = set (map fst SEED_ROLES) \<union> set ?un"
  proof (cases "?un = []")
    case True
    with ins have "rows' = seeded" by simp
    moreover have "r_name ` set seeded = set (map fst SEED_ROLES)" by (simp only: names [symmetric] set_map)
    ultimately show ?thesis using True seeded_ok by simp
  next
    case False
    with ins have r: "rows' = seeded @ ?new \<and> distinct (map r_id rows') \<and> distinct (map (collate env \<circ> r_name) rows')"
      by (intro insert_roles_Inr) simp
    have "r_name ` set rows' = set (map r_name seeded) \<union> set (map r_name ?new)"
      using r by (simp only: set_append image_Un set_map)
    then have "r_name ` set rows' = set (map fst SEED_ROLES) \<union> set ?un" unfolding names new_names .
    with r show ?thesis by blast
  qed
  obtain buyer_id where buyer: "role_ids rows' ''Buyer'' = Some buyer_id" and last: "rows = rows'"
    "urs = map (primary_row t (role_ids rows') buyer_id) (with_uuids env (n + length SEED_ROLES + length ?un) us)"
    "insert_user_roles rows' us urs = Inr urs"
    using rest' by (auto simp: insert_user_roles_def with_uuids_def split: option.splits if_splits)
  then have "insert_user_roles rows us urs = Inr urs" by simp
  with rows' buyer last(1,2) show thesis
    by (intro that [of buyer_id "n + length SEED_ROLES + length ?un"]) simp_all
qed

lemma unique_row:
  assumes "distinct (map k xs)" and "x \<in> set xs" and "k x = v"
  shows "filter (\<lambda>y. k y = v) xs = [x]"
  using filter_key_unique [OF assms(1,2)] assms(3) by simp

lemma truncated_fields [simp]:
  "ur_id (user_role.truncate x) = ur_id x" "ur_user_id (user_role.truncate x) = ur_user_id x"
  "ur_role_id (user_role.truncate x) = ur_role_id x" "u_id (user.truncate u) = u_id u" "u_email (user.truncate u) = u_email u"
  by (simp_all add: user_role.defs user.defs)

lemma primary_row_fields [simp]:
  "ur_id (primary_row t ids b p) = fst p" "ur_user_id (primary_row t ids b p) = u_id (snd p)"
  "ur_role_id (primary_row t ids b p) = legacy_role_id ids b (lg_role (snd p))" "ur_is_primary (primary_row t ids b p)"
  by (simp_all add: primary_row_def case_prod_beta)

lemma rows_of_user:
  assumes "distinct (map u_id us)" and "u \<in> set us" and urs: "urs = map (primary_row t ids b) (with_uuids env k us)"
  shows "\<exists>x. filter (\<lambda>x. ur_user_id x = u_id u) urs = [x] \<and> ur_role_id x = legacy_role_id ids b (lg_role u) \<and> ur_is_primary x"
proof -
  have "u \<in> set (map snd (with_uuids env k us))" using assms(2) by simp
  then have "u \<in> snd ` set (with_uuids env k us)" by (simp only: set_map)
  then obtain i where i: "(i, u) \<in> set (with_uuids env k us)" by force
  have "map ur_user_id urs = map u_id (map snd (with_uuids env k us))" by (simp only: urs map_map) simp
  then have "distinct (map ur_user_id urs)" using assms(1) by simp
  moreover have "primary_row t ids b (i, u) \<in> set urs" using i by (simp add: urs)
  ultimately have "filter (\<lambda>x. ur_user_id x = u_id u) urs = [primary_row t ids b (i, u)]" by (intro unique_row) simp_all
  then show ?thesis by simp
qed

text \<open>After both: the tables, and the one role of every account.\<close>

lemma migrate_roles_Inr:
  assumes ids: "distinct (map u_id us)" and run: "migrate_roles env sd t n us db = Inr db'"
  obtains rows urs buyer_id where "upgrade_0029 env sd t n us = Inr (rows, urs)"
    and "roles db' = rows" and "user_roles db' = map user_role.truncate urs"
    and "users db' = map (\<lambda>u. (user.truncate u)\<lparr>u_primary_role_id := legacy_role_id (role_ids rows) buyer_id (lg_role u)\<rparr>) us"
    and "role_ids rows ''Buyer'' = Some buyer_id"
    and "\<forall>u \<in> set us. \<exists>x. filter (\<lambda>x. ur_user_id x = u_id u) urs = [x] \<and>
      ur_role_id x = legacy_role_id (role_ids rows) buyer_id (lg_role u)"
    and "\<forall>u \<in> set us. legacy_role_id (role_ids rows) buyer_id (lg_role u) \<in> r_id ` set rows"
proof -
  obtain rows urs where up: "upgrade_0029 env sd t n us = Inr (rows, urs)" and down: "upgrade_0030 (rows, urs) us db = Inr db'"
    using run by (auto simp: migrate_roles_def)
  from upgrade_0029_Inr [OF up] obtain buyer_id k where
    buyer: "role_ids rows ''Buyer'' = Some buyer_id" and urs: "urs = map (primary_row t (role_ids rows) buyer_id) (with_uuids env k us)"
    by metis
  note one = rows_of_user [OF ids _ urs]
  have primary: "primary_of urs (u_id u) = Some (legacy_role_id (role_ids rows) buyer_id (lg_role u))" if u: "u \<in> set us" for u
  proof -
    obtain x where x: "filter (\<lambda>x. ur_user_id x = u_id u) urs = [x]" "ur_role_id x = legacy_role_id (role_ids rows) buyer_id (lg_role u)"
      "ur_is_primary x" using one [OF u] by auto
    have "filter (\<lambda>x. ur_user_id x = u_id u \<and> ur_is_primary x) urs = filter ur_is_primary (filter (\<lambda>x. ur_user_id x = u_id u) urs)"
      by (simp add: conj_commute)
    with x show ?thesis by (simp add: primary_of_def)
  qed
  have ok: "\<forall>u \<in> set us. case primary_of urs (u_id u) of None \<Rightarrow> False | Some i \<Rightarrow> i \<in> r_id ` set rows"
    using down by (auto simp: upgrade_0030_def list_all_iff split: if_splits)
  show thesis
  proof (rule that [OF up _ _ _ buyer])
    show "roles db' = rows" "user_roles db' = map user_role.truncate urs"
      using down by (auto simp: upgrade_0030_def split: if_splits)
    show "users db' = map (\<lambda>u. (user.truncate u)\<lparr>u_primary_role_id := legacy_role_id (role_ids rows) buyer_id (lg_role u)\<rparr>) us"
      using down primary by (auto simp: upgrade_0030_def split: if_splits)
    show "\<forall>u \<in> set us. \<exists>x. filter (\<lambda>x. ur_user_id x = u_id u) urs = [x] \<and> ur_role_id x = legacy_role_id (role_ids rows) buyer_id (lg_role u)"
      using one by blast
    show "\<forall>u \<in> set us. legacy_role_id (role_ids rows) buyer_id (lg_role u) \<in> r_id ` set rows"
      using ok primary by fastforce
  qed
qed

lemma filter_truncated: "filter (\<lambda>x. ur_user_id x = i) (map user_role.truncate urs) = map user_role.truncate (filter (\<lambda>x. ur_user_id x = i) urs)"
  by (induction urs) auto

text \<open>The one role of an account, by its former text.\<close>

lemma migrated_role:
  assumes ids: "distinct (map u_id us)" and run: "migrate_roles env sd t n us db = Inr db'" and u: "u \<in> set us"
  obtains role where "roles_held (u_id u) db' = [role]" and "role \<in> set (roles db')"
    and "\<forall>r. lg_role u = Some r \<and> r \<noteq> [] \<and> r \<in> r_name ` set (roles db') \<longrightarrow> r_name role = r"
    and "\<forall>r. lg_role u = Some r \<and> r \<notin> r_name ` set (roles db') \<longrightarrow> r_name role = ''Buyer''"
proof -
  obtain rows urs buyer_id where up: "upgrade_0029 env sd t n us = Inr (rows, urs)"
    and rows: "roles db' = rows" and urs: "user_roles db' = map user_role.truncate urs"
    and us': "users db' = map (\<lambda>u. (user.truncate u)\<lparr>u_primary_role_id := legacy_role_id (role_ids rows) buyer_id (lg_role u)\<rparr>) us"
    and buyer: "role_ids rows ''Buyer'' = Some buyer_id"
    and each: "\<forall>u \<in> set us. \<exists>x. filter (\<lambda>x. ur_user_id x = u_id u) urs = [x] \<and>
      ur_role_id x = legacy_role_id (role_ids rows) buyer_id (lg_role u)"
    and mems: "\<forall>u \<in> set us. legacy_role_id (role_ids rows) buyer_id (lg_role u) \<in> r_id ` set rows"
    by (rule migrate_roles_Inr [OF ids run])
  note one = bspec [OF each u] and mem = bspec [OF mems u]
  obtain dist: "distinct (map r_id rows)" "distinct (map r_name rows)"
    using upgrade_0029_Inr [OF up] by (metis distinct_names)
  from mem obtain role where role: "role \<in> set rows" "r_id role = legacy_role_id (role_ids rows) buyer_id (lg_role u)" by auto
  have pick: "filter (\<lambda>r. r_id role = r_id r) rows = [role]"
    using unique_row [OF dist(1) role(1) refl] by (simp add: eq_commute)
  have "roles_held (u_id u) db' = [role]"
    using one role(2) pick by (auto simp: roles_held_def rows urs filter_truncated)
  moreover have "r_name role = r" if "lg_role u = Some r" "r \<noteq> []" "r \<in> r_name ` set rows" for r
  proof -
    from that(3) obtain x where x: "x \<in> set rows" "r_name x = r" by auto
    then have "role_ids rows r = Some (r_id x)" using role_ids_Some [OF dist(2)] by blast
    with that(1,2) role(2) have "r_id role = r_id x" by (simp add: legacy_role_id_def)
    with distinct_map_inj_on_eq [OF dist(1) role(1) x(1)] x(2) show ?thesis by simp
  qed
  moreover have "r_name role = ''Buyer''" if "lg_role u = Some r" "r \<notin> r_name ` set rows" for r
  proof -
    from that(2) have "role_ids rows r = None" by (simp add: role_ids_None)
    with that(1) role(2) have "r_id role = buyer_id" by (simp add: legacy_role_id_def)
    moreover obtain b where "b \<in> set rows" "r_name b = ''Buyer''" "r_id b = buyer_id"
      using buyer role_ids_Some [OF dist(2)] by blast
    ultimately show ?thesis using distinct_map_inj_on_eq [OF dist(1) role(1)] by metis
  qed
  ultimately show thesis using that role(1) rows by blast
qed

text \<open>C18. The role migrations establish what every service assumes: if they succeed, keys, unique
  columns and foreign keys of roles, assignments and accounts hold, every account holds
  exactly one role, which is its primary role, and its other columns are as before.\<close>

theorem migration_establishes_roles:
  assumes "distinct (map u_id us)" and "distinct (map (collate env \<circ> u_email) us)"
    and "migrate_roles env select_distinct t n us db = Inr db'"
  shows "users_ok (collate env) db' \<and> roles_inv db' \<and>
    (\<forall>u \<in> set (users db'). \<exists>role. roles_held (u_id u) db' = [role] \<and> r_id role = u_primary_role_id u) \<and>
    map (\<lambda>u. u\<lparr>u_primary_role_id := 0\<rparr>) (users db') = map (\<lambda>u. (user.truncate u)\<lparr>u_primary_role_id := 0\<rparr>) us"
proof -
  obtain rows urs buyer_id where up: "upgrade_0029 env select_distinct t n us = Inr (rows, urs)"
    and db': "roles db' = rows" "user_roles db' = map user_role.truncate urs"
      "users db' = map (\<lambda>u. (user.truncate u)\<lparr>u_primary_role_id := legacy_role_id (role_ids rows) buyer_id (lg_role u)\<rparr>) us"
    and buyer: "role_ids rows ''Buyer'' = Some buyer_id"
    and one: "\<forall>u \<in> set us. \<exists>x. filter (\<lambda>x. ur_user_id x = u_id u) urs = [x] \<and>
      ur_role_id x = legacy_role_id (role_ids rows) buyer_id (lg_role u)"
    and mem: "\<forall>u \<in> set us. legacy_role_id (role_ids rows) buyer_id (lg_role u) \<in> r_id ` set rows"
    by (rule migrate_roles_Inr [OF assms(1,3)])
  have rows: "distinct (map r_id rows)" "distinct (map (collate env \<circ> r_name) rows)"
    and ins: "insert_user_roles rows us urs = Inr urs"
    using upgrade_0029_Inr [OF up] by metis+
  have cols: "map u_id (users db') = map u_id us" "map (collate env \<circ> u_email) (users db') = map (collate env \<circ> u_email) us"
    by (simp_all add: db' comp_def)
  have keys: "map ur_id (user_roles db') = map ur_id urs"
    "map (\<lambda>x. (ur_user_id x, ur_role_id x)) (user_roles db') = map (\<lambda>x. (ur_user_id x, ur_role_id x)) urs"
    by (simp_all add: db' comp_def)
  have fks: "\<forall>x \<in> set urs. ur_user_id x \<in> u_id ` set us \<and> ur_role_id x \<in> r_id ` set rows"
    "distinct (map ur_id urs)" "distinct (map (\<lambda>x. (ur_user_id x, ur_role_id x)) urs)"
    using ins by (auto simp: insert_user_roles_def list_all_iff split: if_splits)
  have ids: "u_id ` set (users db') = u_id ` set us" using cols(1) by (metis set_map)
  have "users_ok (collate env) db'"
    unfolding users_ok_def cols keys
    using rows assms(1,2) fks mem ids by (auto simp: db')
  moreover have held: "\<exists>role. roles_held (u_id u) db' = [role] \<and> r_id role = u_primary_role_id u" if "u \<in> set (users db')" for u
  proof -
    from that obtain v where v: "v \<in> set us" "u_id u = u_id v"
      "u_primary_role_id u = legacy_role_id (role_ids rows) buyer_id (lg_role v)" by (auto simp: db')
    from bspec [OF mem v(1)] obtain role where role: "role \<in> set rows" "r_id role = u_primary_role_id u" using v(3) by auto
    have "filter (\<lambda>r. r_id role = r_id r) rows = [role]"
      using unique_row [OF rows(1) role(1) refl] by (simp add: eq_commute)
    with bspec [OF one v(1)] role(2) v have "roles_held (u_id u) db' = [role]"
      by (auto simp: roles_held_def db' filter_truncated)
    with role(2) show ?thesis by blast
  qed
  moreover have "roles_inv db'"
    unfolding roles_inv_def
  proof
    fix u assume "u \<in> set (users db')"
    from held [OF this] obtain role where "role \<in> set (roles_held (u_id u) db')" "r_id role = u_primary_role_id u" by auto
    then show "\<exists>ur \<in> set (user_roles db'). ur_user_id ur = u_id u \<and> ur_role_id ur = u_primary_role_id u"
      by (auto simp: set_roles_held)
  qed
  moreover have "map (\<lambda>u. u\<lparr>u_primary_role_id := 0\<rparr>) (users db') = map (\<lambda>u. (user.truncate u)\<lparr>u_primary_role_id := 0\<rparr>) us"
    by (simp add: db')
  ultimately show ?thesis by blast
qed

text \<open>What the server promises of SELECT DISTINCT: one of the stored spellings of every value.\<close>

definition distinct_law :: "env \<Rightarrow> (string list \<Rightarrow> string list) \<Rightarrow> bool" where
  "distinct_law env select_distinct \<longleftrightarrow> (\<forall>col. set (select_distinct col) \<subseteq> set col \<and>
     (\<forall>x \<in> set col. \<exists>y \<in> set (select_distinct col). collate env y = collate env x))"

lemma seed_names_distinct: "distinct (map fst SEED_ROLES)" "''Buyer'' \<in> set (map fst SEED_ROLES)" "length SEED_ROLES = 8"
  by code_simp+

lemma distinct_coll_names:
  "inj_on c (set ns) \<Longrightarrow> distinct ns \<Longrightarrow> map r_name rows = ns \<Longrightarrow> distinct (map (c \<circ> r_name) rows)"
  by (metis distinct_map list.map_comp)

lemma set_unseeded:
  "set (unseeded_names sd us) = set (sd (List.map_filter lg_role us)) - set (map fst SEED_ROLES)"
  by (auto simp: unseeded_names_def)

lemma role_row_fields [simp]: "r_id (role_row t i a b) = i" "r_name (role_row t i a b) = a"
  by (simp_all add: role_row_def)

lemma map_case_uuids:
  "map r_id (map (\<lambda>(i, a, b). role_row t i a b) xs) = map fst xs"
  "map r_name (map (\<lambda>(i, a, b). role_row t i a b) xs) = map (\<lambda>x. fst (snd x)) xs"
  "map r_id (map (\<lambda>(i, a). role_row t i a d) ys) = map fst ys"
  "map r_name (map (\<lambda>(i, a). role_row t i a d) ys) = map snd ys"
  by (simp_all add: comp_def case_prod_beta)

lemma with_uuids_append:
  "map fst (with_uuids env n xs) @ map fst (with_uuids env (n + length xs) ys) =
   map (uuid_source env) [n..<n + length xs + length ys]"
  by (rule nth_equalityI) (auto simp: nth_append)

lemma insert_roles_ok:
  "distinct (map r_id (rows @ new)) \<Longrightarrow> distinct (map (collate env \<circ> r_name) (rows @ new)) \<Longrightarrow>
   insert_roles env rows new = Inr (rows @ new)"
  by (simp only: insert_roles_def Let_def simp_thms if_True)

lemma legacy_role_id_in:
  assumes "role_ids rows b = Some i" and "distinct (map r_name rows)"
  shows "legacy_role_id (role_ids rows) i name \<in> r_id ` set rows"
  using assms by (auto simp: legacy_role_id_def role_ids_Some split: option.splits if_splits)

lemma upgrade_0029_succeeds:
  assumes ids: "distinct (map u_id us)"
    and uuids: "inj_on (uuid_source env) {n..<n + 8 + length (unseeded_names sd us) + length us}"
    and names: "inj_on (collate env) (set (map fst SEED_ROLES) \<union> set (unseeded_names sd us))"
  shows "\<exists>x. upgrade_0029 env sd t n us = Inr x"
proof -
  let ?un = "unseeded_names sd us"
  let ?seeded = "map (\<lambda>(i, a, b). role_row t i a b) (with_uuids env n SEED_ROLES)"
  let ?new = "map (\<lambda>(i, a). role_row t i a AUTO_CREATED) (with_uuids env (n + 8) ?un)"
  let ?rows = "?seeded @ ?new"
  have seeded_names: "map r_name ?seeded = map fst SEED_ROLES"
    unfolding map_case_uuids using map_with_uuids [of fst env n SEED_ROLES] by (simp add: case_prod_unfold)
  have new_names: "map r_name ?new = ?un" unfolding map_case_uuids by simp
  have un: "distinct ?un" "set (map fst SEED_ROLES) \<inter> set ?un = {}" by (auto simp: unseeded_names_def)
  have "map r_id ?rows = map (uuid_source env) [n..<n + 8 + length ?un]"
    unfolding map_append map_case_uuids using with_uuids_append [of env n SEED_ROLES ?un] seed_names_distinct(3) by simp
  moreover have "inj_on (uuid_source env) {n..<n + 8 + length ?un}" by (rule inj_on_subset [OF uuids]) auto
  ultimately have dist_ids: "distinct (map r_id ?rows)" by (simp add: distinct_map)
  have "map r_name ?rows = map fst SEED_ROLES @ ?un" unfolding map_append seeded_names new_names ..
  moreover have "inj_on (collate env) (set (map fst SEED_ROLES @ ?un))" using names by (simp only: set_append)
  moreover have "distinct (map fst SEED_ROLES @ ?un)" using un seed_names_distinct(1) by (simp only: distinct_append)
  ultimately have dist_names: "distinct (map (collate env \<circ> r_name) ?rows)" by (intro distinct_coll_names)
  have seed: "seed_roles env t n = Inr ?seeded"
    unfolding seed_roles_def using dist_ids dist_names by (intro insert_roles_ok [where rows = "[]", simplified]) simp_all
  have all: "(if ?un = [] then Inr ?seeded else insert_roles env ?seeded ?new) = Inr ?rows"
    using insert_roles_ok [OF dist_ids dist_names] by (auto simp: with_uuids_def)
  have plain: "distinct (map r_name ?rows)" by (rule distinct_names [OF dist_names])
  have "''Buyer'' \<in> r_name ` set ?rows"
  proof -
    have "''Buyer'' \<in> set (map r_name ?seeded)" unfolding seeded_names by (rule seed_names_distinct(2))
    then show ?thesis by (simp only: set_map set_append image_Un Un_iff simp_thms)
  qed
  then obtain buyer_id where buyer: "role_ids ?rows ''Buyer'' = Some buyer_id"
    by (metis role_ids_None not_None_eq)
  let ?urs = "map (primary_row t (role_ids ?rows) buyer_id) (with_uuids env (n + 8 + length ?un) us)"
  have cols: "map ur_id ?urs = map fst (with_uuids env (n + 8 + length ?un) us)"
    "map ur_user_id ?urs = map u_id us" "filter ur_is_primary ?urs = ?urs"
    by (simp_all add: comp_def map_snd_uuids filter_id_conv del: with_uuids_simps(3))
  have "distinct (map ur_id ?urs)"
    unfolding cols by (intro distinct_with_uuids inj_on_subset [OF uuids]) auto
  moreover have "distinct (map fst (map (\<lambda>x. (ur_user_id x, ur_role_id x)) ?urs))"
    unfolding map_map [of fst] comp_def fst_conv cols by (rule ids)
  then have "distinct (map (\<lambda>x. (ur_user_id x, ur_role_id x)) ?urs)"
    by (rule distinct_map [THEN iffD1, THEN conjunct1])
  moreover have "distinct (map ur_user_id (filter ur_is_primary ?urs))" unfolding cols using ids .
  moreover have "list_all (\<lambda>x. ur_user_id x \<in> u_id ` set us \<and> ur_role_id x \<in> r_id ` set ?rows) ?urs"
    unfolding list_all_iff
    by (auto simp del: set_append map_append intro: legacy_role_id_in [OF buyer plain] dest: set_with_uuids)
  ultimately have "insert_user_roles ?rows us ?urs = Inr ?urs"
    by (simp only: insert_user_roles_def simp_thms if_True)
  with buyer show ?thesis
    by (simp only: upgrade_0029_def seed bind_result.simps backfill_user_roles_def Let_def seed_names_distinct(3) all
        option.case split: if_split) blast
qed

lemma migrate_roles_succeeds:
  assumes ids: "distinct (map u_id us)" and up: "upgrade_0029 env sd t n us = Inr (rows, urs)"
  shows "\<exists>db'. migrate_roles env sd t n us db = Inr db' \<and> roles db' = rows"
proof -
  from upgrade_0029_Inr [OF up] obtain buyer_id k where plain: "distinct (map (collate env \<circ> r_name) rows)"
    and buyer: "role_ids rows ''Buyer'' = Some buyer_id"
    and urs: "urs = map (primary_row t (role_ids rows) buyer_id) (with_uuids env k us)" by metis
  have "case primary_of urs (u_id u) of None \<Rightarrow> False | Some i \<Rightarrow> i \<in> r_id ` set rows" if u: "u \<in> set us" for u
  proof -
    from rows_of_user [OF ids u urs] obtain x where x: "filter (\<lambda>x. ur_user_id x = u_id u) urs = [x]"
      "ur_role_id x = legacy_role_id (role_ids rows) buyer_id (lg_role u)" "ur_is_primary x" by blast
    have "filter (\<lambda>x. ur_user_id x = u_id u \<and> ur_is_primary x) urs = filter ur_is_primary (filter (\<lambda>x. ur_user_id x = u_id u) urs)"
      by (simp add: conj_commute)
    with x legacy_role_id_in [OF buyer distinct_names [OF plain], of "lg_role u"] show ?thesis
      by (simp add: primary_of_def)
  qed
  then show ?thesis using up by (simp add: migrate_roles_def upgrade_0030_def list_all_iff)
qed

text \<open>No role is lost: as long as no two of the former role texts (and of the seeded names) are
  the same for the server but spelled differently, the migration succeeds, and everybody
  holds exactly the role named by the text, whether it was a seeded role or not.\<close>

theorem legacy_roles_kept:
  assumes "distinct (map u_id us)" and "distinct_law env select_distinct"
    and "inj_on (collate env) (set (map fst SEED_ROLES) \<union> set (List.map_filter lg_role us))"
    and "inj_on (uuid_source env) {n..<n + 8 + length (unseeded_names select_distinct us) + length us}"
  shows "\<exists>db'. migrate_roles env select_distinct t n us db = Inr db' \<and>
    (\<forall>u \<in> set us. \<forall>r. lg_role u = Some r \<and> r \<noteq> [] \<longrightarrow> map r_name (roles_held (u_id u) db') = [r])"
proof -
  let ?col = "List.map_filter lg_role us"
  have dist: "set (select_distinct ?col) \<subseteq> set ?col"
    "\<forall>x \<in> set ?col. \<exists>y \<in> set (select_distinct ?col). collate env y = collate env x"
    using assms(2) by (simp_all add: distinct_law_def)
  have all: "set ?col \<subseteq> set (select_distinct ?col)"
  proof
    fix x assume x: "x \<in> set ?col"
    then obtain y where y: "y \<in> set (select_distinct ?col)" "collate env y = collate env x" using dist(2) by blast
    with inj_onD [OF assms(3) y(2)] dist(1) x show "x \<in> set (select_distinct ?col)" by auto
  qed
  have "inj_on (collate env) (set (map fst SEED_ROLES) \<union> set (unseeded_names select_distinct us))"
    by (rule inj_on_subset [OF assms(3)]) (use dist(1) in \<open>auto simp: set_unseeded\<close>)
  from upgrade_0029_succeeds [OF assms(1,4) this] obtain rows urs where
    up: "upgrade_0029 env select_distinct t n us = Inr (rows, urs)" by fastforce
  then have names: "r_name ` set rows = set (map fst SEED_ROLES) \<union> set (unseeded_names select_distinct us)"
    by (rule upgrade_0029_Inr) simp
  obtain db' where run: "migrate_roles env select_distinct t n us db = Inr db'" and rows: "roles db' = rows"
    using migrate_roles_succeeds [OF assms(1) up] by blast
  have "map r_name (roles_held (u_id u) db') = [r]" if u: "u \<in> set us" and r: "lg_role u = Some r" "r \<noteq> []" for u r
  proof -
    have "r \<in> set ?col" using u r(1) by (force simp: List.map_filter_def)
    with all have "r \<in> r_name ` set (roles db')" unfolding rows names set_unseeded by blast
    moreover obtain role where "roles_held (u_id u) db' = [role]"
      "\<forall>r. lg_role u = Some r \<and> r \<noteq> [] \<and> r \<in> r_name ` set (roles db') \<longrightarrow> r_name role = r"
      by (rule migrated_role [OF assms(1) run u])
    ultimately show ?thesis using r by simp
  qed
  with run show ?thesis by blast
qed

text \<open>A role can be lost to spelling: where two former texts are the same for the server but
  spelled differently, SELECT DISTINCT reports one of them, the dictionary of the migration is
  keyed by the exact text, and everybody with another spelling becomes a buyer.\<close>

theorem legacy_spelling_becomes_buyer:
  assumes "distinct (map u_id us)" and "migrate_roles env select_distinct t n us db = Inr db'"
    and "u \<in> set us" and "lg_role u = Some r"
    and "r \<notin> set (map fst SEED_ROLES)" and "r \<notin> set (select_distinct (List.map_filter lg_role us))"
  shows "map r_name (roles_held (u_id u) db') = [''Buyer'']"
proof -
  obtain rows urs where up: "upgrade_0029 env select_distinct t n us = Inr (rows, urs)"
    and down: "upgrade_0030 (rows, urs) us db = Inr db'" using assms(2) by (auto simp: migrate_roles_def)
  have rows: "roles db' = rows" using down by (auto simp: upgrade_0030_def split: if_splits)
  have "r_name ` set rows = set (map fst SEED_ROLES) \<union> set (unseeded_names select_distinct us)"
    using up by (rule upgrade_0029_Inr) simp
  then have "r \<notin> r_name ` set (roles db')" using assms(5,6) by (simp only: rows set_unseeded) blast
  moreover obtain role where "roles_held (u_id u) db' = [role]"
    "\<forall>r. lg_role u = Some r \<and> r \<notin> r_name ` set (roles db') \<longrightarrow> r_name role = ''Buyer''"
    by (rule migrated_role [OF assms(1,2,3)])
  ultimately show ?thesis using assms(4) by simp
qed

section \<open>Down and up again\<close>

lemma flagged_fields [simp]:
  "ur_id (flagged db x) = ur_id x" "ur_user_id (flagged db x) = ur_user_id x" "ur_role_id (flagged db x) = ur_role_id x"
  "ur_is_primary (flagged db x) = is_primary_row db x" "user_role.truncate (flagged db x) = x"
  by (simp_all add: flagged_def user_role.defs flagged_user_role.defs)

lemma with_role_text_fields [simp]:
  "u_id (with_role_text c db u) = u_id u" "user.truncate (with_role_text c db u) = u"
  "lg_role (with_role_text c db u) = map_option (c \<circ> r_name) (get_by_id r_id (roles db) (u_primary_role_id u))"
  by (simp_all add: with_role_text_def user.defs legacy_user.defs)

lemma filter_flagged:
  "filter ur_is_primary (map (flagged db) xs) = map (flagged db) (filter (is_primary_row db) xs)"
  "filter (\<lambda>x. ur_user_id x = i \<and> ur_is_primary x) (map (flagged db) xs) =
     map (flagged db) (filter (\<lambda>x. ur_user_id x = i \<and> is_primary_row db x) xs)"
  by (induction xs) auto

lemma primary_rows_distinct:
  assumes ok: "users_ok coll db"
  shows "distinct (map ur_user_id (filter (is_primary_row db) (user_roles db)))"
proof -
  let ?pair = "\<lambda>x. (ur_user_id x, ur_role_id x)"
  have ids: "distinct (map u_id (users db))" and pairs: "distinct (map ?pair (user_roles db))"
    using ok by (simp_all add: users_ok_def)
  have "x = y" if "x \<in> set (user_roles db)" "y \<in> set (user_roles db)" "is_primary_row db x" "is_primary_row db y"
    "ur_user_id x = ur_user_id y" for x y
  proof -
    from that(3,4) obtain u v where u: "u \<in> set (users db)" "u_id u = ur_user_id x" "u_primary_role_id u = ur_role_id x"
      and v: "v \<in> set (users db)" "u_id v = ur_user_id y" "u_primary_role_id v = ur_role_id y"
      by (auto simp: is_primary_row_def list_ex_iff)
    have "u = v" using distinct_map_inj_on_eq [OF ids u(1) v(1)] u(2) v(2) that(5) by simp
    with u(3) v(3) have "?pair x = ?pair y" using that(5) by simp
    then show ?thesis by (rule distinct_map_inj_on_eq [OF pairs that(1,2)])
  qed
  then have "inj_on ur_user_id (set (filter (is_primary_row db) (user_roles db)))"
    by (intro inj_onI) simp
  moreover have "distinct (filter (is_primary_row db) (user_roles db))"
    using pairs by (simp add: distinct_map)
  ultimately show ?thesis by (simp add: distinct_map)
qed

lemma primary_of_flagged:
  assumes ok: "users_ok coll db" and inv: "roles_inv db" and u: "u \<in> set (users db)"
  shows "primary_of (map (flagged db) (user_roles db)) (u_id u) = Some (u_primary_role_id u)"
proof -
  have ids: "distinct (map u_id (users db))" using ok by (simp add: users_ok_def)
  obtain x where x: "x \<in> set (user_roles db)" "ur_user_id x = u_id u" "ur_role_id x = u_primary_role_id u"
    using inv u by (auto simp: roles_inv_def)
  let ?rows = "filter (\<lambda>x. ur_user_id x = u_id u \<and> is_primary_row db x) (user_roles db)"
  have "x \<in> set ?rows" using x u by (auto simp: is_primary_row_def list_ex_iff)
  then obtain y ys where y: "?rows = y # ys" by (cases ?rows) auto
  then have "y \<in> set ?rows" by simp
  then have prim: "is_primary_row db y" "ur_user_id y = u_id u" by auto
  then obtain v where v: "v \<in> set (users db)" "u_id v = u_id u" "u_primary_role_id v = ur_role_id y"
    by (auto simp: is_primary_row_def list_ex_iff)
  have "ur_role_id y = u_primary_role_id u" using distinct_map_inj_on_eq [OF ids v(1) u v(2)] v(3) by simp
  then show ?thesis unfolding primary_of_def filter_flagged y by simp
qed

text \<open>C29. Going down from 0030 and up again is the identity on every database that satisfies the
  constraints and the invariant of the roles, whatever the services did to it in between,
  provided the names of the roles fit the former column.\<close>

theorem downgrade_then_upgrade:
  assumes ok: "users_ok coll db" and inv: "roles_inv db" and "\<forall>r \<in> set (roles db). length (to_varchar (r_name r)) \<le> 30"
  shows "\<exists>mid us. downgrade_0030 to_varchar db = Inr (mid, us) \<and> upgrade_0030 mid us db = Inr db"
proof -
  let ?urs = "map (flagged db) (user_roles db)" and ?us = "map (with_role_text to_varchar db) (users db)"
  have spelled: "\<exists>r. lg_role (with_role_text to_varchar db u) = Some r \<and> length r \<le> 30" if u: "u \<in> set (users db)" for u
  proof -
    have "u_primary_role_id u \<in> r_id ` set (roles db)" using ok u by (simp add: users_ok_def)
    then obtain r where "get_by_id r_id (roles db) (u_primary_role_id u) = Some r"
      using get_by_id_None_iff [of r_id "roles db"] by fastforce
    moreover from this have "r \<in> set (roles db)" by (auto dest: get_by_id_SomeD)
    ultimately show ?thesis using assms(3) by simp
  qed
  have "map ur_user_id (filter ur_is_primary ?urs) = map ur_user_id (filter (is_primary_row db) (user_roles db))"
    unfolding filter_flagged by simp
  then have "distinct (map ur_user_id (filter ur_is_primary ?urs))" using primary_rows_distinct [OF ok] by simp
  moreover have "\<not> list_ex (\<lambda>u. case lg_role u of None \<Rightarrow> False | Some r \<Rightarrow> 30 < length r) ?us"
    "\<not> list_ex (\<lambda>u. lg_role u = None) ?us"
    unfolding list_ex_iff using spelled by fastforce+
  ultimately have down: "downgrade_0030 to_varchar db = Inr ((roles db, ?urs), ?us)"
    by (simp only: downgrade_0030_def Let_def simp_thms if_False)
  have fk: "\<forall>u \<in> set (users db). u_primary_role_id u \<in> r_id ` set (roles db)" using ok by (simp add: users_ok_def)
  have "map (\<lambda>u. (user.truncate u)\<lparr>u_primary_role_id := the (primary_of ?urs (u_id u))\<rparr>) ?us = users db"
    unfolding map_map by (rule map_idI) (simp add: primary_of_flagged [OF ok inv])
  moreover have "list_all (\<lambda>u. case primary_of ?urs (u_id u) of None \<Rightarrow> False | Some i \<Rightarrow> i \<in> r_id ` set (roles db)) ?us"
    unfolding list_all_iff using fk by (auto simp: primary_of_flagged [OF ok inv])
  ultimately have "upgrade_0030 (roles db, ?urs) ?us db = Inr db"
    by (simp add: upgrade_0030_def comp_def)
  with down show ?thesis by blast
qed

theorem downgrade_then_upgrade_witness:
  "\<exists>mid us. downgrade_0030 (\<lambda>s. s) sample_db = Inr (mid, us) \<and> upgrade_0030 mid us sample_db = Inr sample_db"
proof -
  have "users_ok lower sample_db" "roles_inv sample_db" "\<forall>r \<in> set (roles sample_db). length (r_name r) \<le> 30" by code_simp+
  then show ?thesis by (rule downgrade_then_upgrade)
qed

section \<open>Instances\<close>

definition legacy_sample :: "uuid \<Rightarrow> string \<Rightarrow> string \<Rightarrow> legacy_user" where
  "legacy_sample i email name = user.extend (sample_user i email ''pw'' 0) (legacy_user.fields (Some name))"

definition legacy_sellers :: "legacy_user list" where
  "legacy_sellers = [legacy_sample 11 ''ann@x.ae'' ''Seller'', legacy_sample 12 ''bob@x.ae'' ''Dealer'']"

text \<open>A server that reports the first spelling of each value.\<close>

fun first_spelling :: "(string \<Rightarrow> string) \<Rightarrow> string list \<Rightarrow> string list" where
  "first_spelling c [] = []"
| "first_spelling c (x # xs) = x # filter (\<lambda>y. c y \<noteq> c x) (first_spelling c xs)"

lemma first_spelling_law: "distinct_law env (first_spelling (collate env))"
proof -
  have "set (first_spelling c xs) \<subseteq> set xs" for c :: "string \<Rightarrow> string" and xs by (induction xs) auto
  moreover have "\<exists>y \<in> set (first_spelling c xs). c y = c x" if "x \<in> set xs" for c :: "string \<Rightarrow> string" and x xs
    using that
  proof (induction xs)
    case (Cons a xs)
    show ?case
    proof (cases "c x = c a")
      case False
      with Cons obtain y where "y \<in> set (first_spelling c xs)" "c y = c x" by auto
      with False show ?thesis by auto
    qed auto
  qed simp
  ultimately show ?thesis by (simp add: distinct_law_def)
qed

lemma sample_uuids: "m \<le> 100 \<Longrightarrow> inj_on (uuid_source sample_env) {n..<m}"
  by (rule inj_onI) (simp add: sample_env_def word_of_nat_eq_iff take_bit_nat_eq_self)

lemma collate_sample [simp]: "collate sample_env = lower"
  by (simp add: sample_env_def)

text \<open>Enough for a migration on the sample environment to succeed.\<close>

lemma sample_migrates:
  assumes "distinct (map u_id us)" and "unseeded_names sd us = un" and "distinct (map lower (map fst SEED_ROLES @ un))"
    and "length un + length us \<le> 50"
  shows "\<exists>db'. migrate_roles sample_env sd 5 0 us sample_db = Inr db'"
proof -
  have names: "inj_on (collate sample_env) (set (map fst SEED_ROLES) \<union> set (unseeded_names sd us))"
    using assms(2,3) unfolding distinct_map collate_sample set_append by simp
  have uuids: "inj_on (uuid_source sample_env) {0..<0 + 8 + length (unseeded_names sd us) + length us}"
    using assms(2,4) by (intro sample_uuids) simp
  from upgrade_0029_succeeds [OF assms(1) uuids names] migrate_roles_succeeds [OF assms(1)] show ?thesis by fastforce
qed

definition migrated_sample :: database where
  "migrated_sample = (case migrate_roles sample_env (first_spelling lower) 5 0 legacy_sellers sample_db of Inl _ \<Rightarrow> sample_db | Inr d \<Rightarrow> d)"

lemma legacy_sellers_facts:
  "distinct (map u_id legacy_sellers)" "distinct (map (collate sample_env \<circ> u_email) legacy_sellers)"
  "unseeded_names (first_spelling lower) legacy_sellers = [''Dealer'']"
  "distinct (map lower (map fst SEED_ROLES @ [''Dealer'']))" "length legacy_sellers = 2"
  "set (List.map_filter lg_role legacy_sellers) = {''Seller'', ''Dealer''}"
  by code_simp+

lemma migrated_sample_run: "migrate_roles sample_env (first_spelling lower) 5 0 legacy_sellers sample_db = Inr migrated_sample"
  using sample_migrates [OF legacy_sellers_facts(1,3,4)] legacy_sellers_facts(5)
  by (auto simp: migrated_sample_def)

theorem migration_establishes_roles_witness:
  "users_ok (collate sample_env) migrated_sample \<and> roles_inv migrated_sample \<and> length (users migrated_sample) = 2"
  using migration_establishes_roles [OF legacy_sellers_facts(1,2) migrated_sample_run] legacy_sellers_facts(5)
  by (auto dest: arg_cong [where f = length])

theorem legacy_roles_kept_witness:
  "map r_name (roles_held 12 migrated_sample) = [''Dealer'']"
proof -
  have "distinct_law sample_env (first_spelling lower)"
    using first_spelling_law [of sample_env] by simp
  moreover have "inj_on (collate sample_env) (set (map fst SEED_ROLES) \<union> set (List.map_filter lg_role legacy_sellers))"
  proof -
    have "set (map fst SEED_ROLES) \<union> set (List.map_filter lg_role legacy_sellers) = set (map fst SEED_ROLES @ [''Dealer''])"
      unfolding legacy_sellers_facts(6) by (auto simp: SEED_ROLES_def)
    with legacy_sellers_facts(4) show ?thesis by (simp only: distinct_map collate_sample)
  qed
  moreover have "inj_on (uuid_source sample_env)
      {0..<0 + 8 + length (unseeded_names (first_spelling lower) legacy_sellers) + length legacy_sellers}"
    by (rule sample_uuids) (simp add: legacy_sellers_facts)
  ultimately have "\<forall>u \<in> set legacy_sellers. \<forall>r. lg_role u = Some r \<and> r \<noteq> [] \<longrightarrow> map r_name (roles_held (u_id u) migrated_sample) = [r]"
    using legacy_roles_kept [OF legacy_sellers_facts(1), of sample_env "first_spelling lower" 0 5 sample_db] migrated_sample_run
    by simp
  then show ?thesis by (simp add: legacy_sellers_def legacy_sample_def sample_user_def user.defs legacy_user.defs)
qed

definition legacy_dealers :: "legacy_user list" where
  "legacy_dealers = [legacy_sample 11 ''ann@x.ae'' ''Dealer'', legacy_sample 12 ''bob@x.ae'' ''DEALER'']"

theorem legacy_spelling_becomes_buyer_witness:
  "\<exists>d. migrate_roles sample_env (first_spelling lower) 5 0 legacy_dealers sample_db = Inr d \<and>
     map r_name (roles_held 12 d) = [''Buyer'']"
proof -
  have facts: "distinct (map u_id legacy_dealers)" "unseeded_names (first_spelling lower) legacy_dealers = [''Dealer'']"
    "length legacy_dealers = 2" "''DEALER'' \<notin> set (map fst SEED_ROLES)"
    "''DEALER'' \<notin> set (first_spelling lower (List.map_filter lg_role legacy_dealers))" by code_simp+
  obtain d where d: "migrate_roles sample_env (first_spelling lower) 5 0 legacy_dealers sample_db = Inr d"
    using sample_migrates [OF facts(1,2) legacy_sellers_facts(4)] facts(3) by auto
  have "legacy_sample 12 ''bob@x.ae'' ''DEALER'' \<in> set legacy_dealers" by (simp add: legacy_dealers_def)
  from legacy_spelling_becomes_buyer [OF facts(1) d this _ facts(4,5)] d show ?thesis
    by (simp add: legacy_sample_def sample_user_def user.defs legacy_user.defs)
qed

end
