(* ===== verification/Seed_Properties.thy ===== *)
theory Seed_Properties
  imports Migration_Properties
begin

text \<open>
  The demo accounts of revision 0031: what they keep, that seeding twice is seeding once, and
  whom they make an administrator.
\<close>

section \<open>One account\<close>

definition holds :: "database \<Rightarrow> uuid \<Rightarrow> uuid \<Rightarrow> bool" where
  "holds db uid rid \<longleftrightarrow> (\<exists>x \<in> set (user_roles db). ur_user_id x = uid \<and> ur_role_id x = rid)"

text \<open>The account of a demo entry exists and holds its roles.\<close>

definition demo_present :: "env \<Rightarrow> (string \<rightharpoonup> uuid) \<Rightarrow> string \<times> string \<times> string \<times> string option \<Rightarrow> database \<Rightarrow> bool" where
  "demo_present env ids = (\<lambda>(email, role_name, full_name, secondary) db.
     \<exists>u \<in> set (users db). sql_eq env (u_email u) email \<and> (\<exists>i. ids role_name = Some i \<and> holds db (u_id u) i) \<and>
       (\<forall>n. secondary = Some n \<longrightarrow> (\<exists>i. ids n = Some i \<and> holds db (u_id u) i)))"

text \<open>A database that only gained accounts and assignments.\<close>

definition extends :: "database \<Rightarrow> database \<Rightarrow> bool" where
  "extends db db' \<longleftrightarrow> set (users db) \<subseteq> set (users db') \<and> set (user_roles db) \<subseteq> set (user_roles db') \<and> roles db' = roles db"

lemma extends_refl [simp]: "extends db db"
  by (simp add: extends_def)

lemma extends_trans: "extends a b \<Longrightarrow> extends b c \<Longrightarrow> extends a c"
  by (auto simp: extends_def)

lemma holds_extends: "holds db uid rid \<Longrightarrow> extends db db' \<Longrightarrow> holds db' uid rid"
  by (auto simp: holds_def extends_def)

lemma demo_present_extends:
  assumes "demo_present env ids d db" and "extends db db'" shows "demo_present env ids d db'"
proof -
  obtain email role_name full_name secondary where d: "d = (email, role_name, full_name, secondary)" by (cases d)
  from assms(1) d obtain u where u: "u \<in> set (users db)" "sql_eq env (u_email u) email"
    "\<exists>i. ids role_name = Some i \<and> holds db (u_id u) i"
    "\<forall>n. secondary = Some n \<longrightarrow> (\<exists>i. ids n = Some i \<and> holds db (u_id u) i)" by (auto simp: demo_present_def)
  have "u \<in> set (users db')" using u(1) assms(2) by (auto simp: extends_def)
  moreover have "\<exists>i. ids role_name = Some i \<and> holds db' (u_id u) i" using u(3) holds_extends [OF _ assms(2)] by blast
  moreover have "\<forall>n. secondary = Some n \<longrightarrow> (\<exists>i. ids n = Some i \<and> holds db' (u_id u) i)"
    using u(4) holds_extends [OF _ assms(2)] by blast
  ultimately show ?thesis using u(2) by (auto simp: demo_present_def d)
qed

lemma insert_unless_Inr:
  assumes "insert_unless env t e r db = Inr db'"
  shows "(db' = db \<and> e db) \<or> (db' = insert_row t r db \<and> \<not> e db \<and> integrity_ok (collate env) r db)"
  using assms by (auto simp: insert_unless_def split: if_splits)

lemma insert_unless_schema:
  "insert_unless env t e r db = Inr db' \<Longrightarrow> schema_ok (collate env) db \<Longrightarrow> schema_ok (collate env) db'"
  using insert_unless_Inr schema.insert_keeps by metis

lemma grant_role_Inr:
  assumes "grant_role env t i uid rid db = Inr db'"
  shows "extends db db' \<and> holds db' uid rid \<and> users db' = users db"
  using insert_unless_Inr [OF assms [unfolded grant_role_def]]
  by (auto simp: extends_def holds_def list_ex_iff)

lemma stored_user_id_Inr:
  assumes "stored_user_id env email db = Inr uid"
  shows "\<exists>u. filter (\<lambda>u. sql_eq env (u_email u) email) (users db) = [u] \<and> uid = u_id u"
  using assms by (auto simp: stored_user_id_def split: list.splits)

lemma seed_demo_user_parts:
  assumes "seed_demo_user env t h ids (email, role_name, full_name, secondary) (db, n) = Inr (db', n')"
  obtains primary uid db1 db2 where "ids role_name = Some primary"
    and "insert_unless env t (\<lambda>db. list_ex (\<lambda>u. sql_eq env (u_email u) email) (users db))
       (RUser (demo_user (uuid_source env n) email h full_name primary)) db = Inr db1"
    and "stored_user_id env email db1 = Inr uid"
    and "grant_role env t (uuid_source env (n + 1)) uid primary db1 = Inr db2"
    and "(secondary = None \<and> db' = db2) \<or>
      (\<exists>name rid. secondary = Some name \<and> ids name = Some rid \<and> grant_role env t (uuid_source env (n + 2)) uid rid db2 = Inr db')"
proof (cases "ids role_name")
  case None
  with assms show thesis by (simp add: seed_demo_user_def role_key_def)
next
  case (Some primary)
  with assms obtain db1 uid db2 where parts:
    "insert_unless env t (\<lambda>db. list_ex (\<lambda>u. sql_eq env (u_email u) email) (users db))
       (RUser (demo_user (uuid_source env n) email h full_name primary)) db = Inr db1"
    "stored_user_id env email db1 = Inr uid"
    "grant_role env t (uuid_source env (n + 1)) uid primary db1 = Inr db2"
    and rest: "(case secondary of None \<Rightarrow> Inr (db2, n + 2)
     | Some name \<Rightarrow> bind_result (role_key ids name) (\<lambda>rid.
         map_result (\<lambda>db3. (db3, n + 3)) (grant_role env t (uuid_source env (n + 2)) uid rid db2))) = Inr (db', n')"
    by (auto simp: seed_demo_user_def role_key_def)
  have "(secondary = None \<and> db' = db2) \<or>
      (\<exists>name rid. secondary = Some name \<and> ids name = Some rid \<and> grant_role env t (uuid_source env (n + 2)) uid rid db2 = Inr db')"
    using rest by (cases secondary) (auto simp: role_key_def split: option.splits)
  with Some parts show thesis by (rule that)
qed

lemma seed_demo_user_Inr:
  assumes run: "seed_demo_user env t h ids (email, role_name, full_name, secondary) (db, n) = Inr (db', n')"
    and ok: "schema_ok (collate env) db" and inv: "roles_inv db"
  shows "schema_ok (collate env) db' \<and> roles_inv db' \<and> extends db db' \<and>
    demo_present env ids (email, role_name, full_name, secondary) db'"
proof -
  obtain primary uid db1 db2 where primary: "ids role_name = Some primary"
    and ins: "insert_unless env t (\<lambda>db. list_ex (\<lambda>u. sql_eq env (u_email u) email) (users db))
       (RUser (demo_user (uuid_source env n) email h full_name primary)) db = Inr db1"
    and uid: "stored_user_id env email db1 = Inr uid"
    and grant: "grant_role env t (uuid_source env (n + 1)) uid primary db1 = Inr db2"
    and sec: "(secondary = None \<and> db' = db2) \<or>
      (\<exists>name rid. secondary = Some name \<and> ids name = Some rid \<and> grant_role env t (uuid_source env (n + 2)) uid rid db2 = Inr db')"
    by (rule seed_demo_user_parts [OF run])
  obtain u where u: "filter (\<lambda>u. sql_eq env (u_email u) email) (users db1) = [u]" "uid = u_id u"
    using stored_user_id_Inr [OF uid] by blast
  have in_u: "u \<in> set (users db1)" "sql_eq env (u_email u) email"
    using arg_cong [OF u(1), of set] by auto
  have new: "v \<in> set (users db) \<or> (v = u \<and> u_primary_role_id v = primary)" if "v \<in> set (users db1)" for v
  proof (cases "v \<in> set (users db)")
    case False
    with that insert_unless_Inr [OF ins] have v: "v = (demo_user (uuid_source env n) email h full_name primary)\<lparr>u_created_at := t\<rparr>" by auto
    then have "sql_eq env (u_email v) email" "u_primary_role_id v = primary" by (simp_all add: demo_user_def sql_eq_def)
    with that have "v \<in> set (filter (\<lambda>u. sql_eq env (u_email u) email) (users db1))" by simp
    then have "v = u" unfolding u(1) by simp
    with \<open>u_primary_role_id v = primary\<close> show ?thesis by simp
  qed simp
  have e1: "extends db db1" using insert_unless_Inr [OF ins] by (auto simp: extends_def)
  note g = grant_role_Inr [OF grant]
  have "roles_inv db2"
    unfolding roles_inv_def
  proof
    fix v assume v: "v \<in> set (users db2)"
    then consider "v \<in> set (users db)" | "v = u" "u_primary_role_id v = primary" using new g by auto
    then show "\<exists>ur \<in> set (user_roles db2). ur_user_id ur = u_id v \<and> ur_role_id ur = u_primary_role_id v"
    proof cases
      case 1
      with inv have "holds db (u_id v) (u_primary_role_id v)" by (auto simp: roles_inv_def holds_def)
      from holds_extends [OF holds_extends [OF this e1]] g show ?thesis by (auto simp: holds_def)
    next
      case 2
      with g u(2) show ?thesis by (auto simp: holds_def)
    qed
  qed
  moreover have "schema_ok (collate env) db2"
    using insert_unless_schema [OF grant [unfolded grant_role_def] insert_unless_schema [OF ins ok]] .
  moreover have base: "extends db db2" "holds db2 (u_id u) primary" "u \<in> set (users db2)"
    using extends_trans [OF e1] g u(2) in_u(1) by auto
  ultimately show ?thesis
  proof (cases secondary)
    case None
    with sec \<open>roles_inv db2\<close> \<open>schema_ok _ db2\<close> base primary in_u(2) show ?thesis
      by (auto simp: demo_present_def)
  next
    case (Some name)
    with sec obtain rid where rid: "ids name = Some rid" "grant_role env t (uuid_source env (n + 2)) uid rid db2 = Inr db'" by auto
    note g2 = grant_role_Inr [OF rid(2)]
    have "schema_ok (collate env) db'" by (rule insert_unless_schema [OF rid(2) [unfolded grant_role_def] \<open>schema_ok _ db2\<close>])
    moreover have "roles_inv db'"
      using \<open>roles_inv db2\<close> g2 unfolding roles_inv_def extends_def by (metis subsetD)
    moreover have "demo_present env ids (email, role_name, full_name, secondary) db'"
      using g2 base primary rid(1) in_u(2) u(2) Some holds_extends [OF base(2)]
      by (auto simp: demo_present_def)
    ultimately show ?thesis using extends_trans [OF base(1)] g2 by blast
  qed
qed

section \<open>All accounts\<close>

lemma seed_demo_users_Inr:
  assumes "seed_demo_users env t h ids ds (db, n) = Inr (db', n')"
    and "schema_ok (collate env) db" and "roles_inv db"
  shows "schema_ok (collate env) db' \<and> roles_inv db' \<and> extends db db' \<and> (\<forall>d \<in> set ds. demo_present env ids d db')"
  using assms
proof (induction ds arbitrary: db n)
  case Nil
  then show ?case by simp
next
  case (Cons d ds)
  obtain email role_name full_name secondary where d: "d = (email, role_name, full_name, secondary)" by (cases d)
  obtain db1 n1 where one: "seed_demo_user env t h ids d (db, n) = Inr (db1, n1)"
    and rest: "seed_demo_users env t h ids ds (db1, n1) = Inr (db', n')"
    using Cons.prems(1) by auto
  note step = seed_demo_user_Inr [OF one [unfolded d] Cons.prems(2,3)]
  note ih = Cons.IH [OF rest conjunct1 [OF step] conjunct1 [OF conjunct2 [OF step]]]
  have "demo_present env ids d db'" using demo_present_extends [of env ids d db1 db'] step ih d by blast
  with ih step extends_trans [of db db1 db'] show ?case by auto
qed

lemma seed_demo_user_again:
  assumes ok: "schema_ok (collate env) db" and here: "demo_present env ids d db"
  shows "\<exists>n'. seed_demo_user env t h ids d (db, n) = Inr (db, n')"
proof -
  obtain email role_name full_name secondary where d: "d = (email, role_name, full_name, secondary)" by (cases d)
  from here d obtain u i where u: "u \<in> set (users db)" "sql_eq env (u_email u) email" "ids role_name = Some i" "holds db (u_id u) i"
    "\<forall>n. secondary = Some n \<longrightarrow> (\<exists>i. ids n = Some i \<and> holds db (u_id u) i)" by (auto simp: demo_present_def)
  have "distinct (map (collate env \<circ> u_email) (users db))" using ok by (simp add: schema_ok_def users_ok_def)
  from filter_key_unique [OF this u(1)] u(2) have "filter (\<lambda>u. sql_eq env (u_email u) email) (users db) = [u]"
    by (simp add: sql_eq_def)
  then have uid: "stored_user_id env email db = Inr (u_id u)" by (simp add: stored_user_id_def)
  have grant: "grant_role env t j (u_id u) k db = Inr db" if "holds db (u_id u) k" for j k
    using that by (auto simp: grant_role_def insert_unless_def holds_def list_ex_iff)
  have ins: "insert_unless env t (\<lambda>db. list_ex (\<lambda>u. sql_eq env (u_email u) email) (users db)) r db = Inr db" for r
    using u(1,2) by (auto simp: insert_unless_def list_ex_iff)
  show ?thesis
    using u(3-5) by (cases secondary) (auto simp: seed_demo_user_def d role_key_def ins uid grant)
qed

lemma seed_demo_users_again:
  assumes "schema_ok (collate env) db" and "\<forall>d \<in> set ds. demo_present env ids d db"
  shows "\<exists>n'. seed_demo_users env t h ids ds (db, n) = Inr (db, n')"
  using assms(2)
proof (induction ds arbitrary: n)
  case (Cons d ds)
  then obtain n1 where "seed_demo_user env t h ids d (db, n) = Inr (db, n1)"
    using seed_demo_user_again [OF assms(1)] by fastforce
  with Cons show ?case by simp
qed simp

lemma upgrade_0031_Inr:
  assumes "schema_ok (collate env) db" and "roles_inv db" and "upgrade_0031 env t salt n db = Inr db'"
  shows "schema_ok (collate env) db' \<and> roles_inv db' \<and> extends db db' \<and>
    (\<forall>d \<in> set DEMO_USERS. demo_present env (role_ids (roles db)) d db')"
proof -
  obtain n' where "seed_demo_users env t (argon2_hash env salt DEMO_PASSWORD) (role_ids (roles db)) DEMO_USERS (db, n) = Inr (db', n')"
    using assms(3) by (auto simp: upgrade_0031_def)
  from seed_demo_users_Inr [OF this assms(1,2)] show ?thesis .
qed

lemma held_by_name:
  assumes ok: "schema_ok coll db" and "role_ids (roles db) name = Some i" and "holds db uid i"
  shows "\<exists>r \<in> set (roles_held uid db). r_name r = name"
proof -
  have "distinct (map r_name (roles db))" using ok by (intro distinct_names [of coll]) (simp add: schema_ok_def users_ok_def)
  from role_ids_Some [OF this] assms(2) obtain r where "r \<in> set (roles db)" "r_name r = name" "r_id r = i" by blast
  with assms(3) have "r \<in> set (roles_held uid db)" by (auto simp: set_roles_held holds_def)
  with \<open>r_name r = name\<close> show ?thesis by blast
qed

text \<open>Seeding the demo accounts keeps the constraints, the invariant of the roles and all rows
  there were, gives each listed address an account that holds the listed roles, and run again
  it changes nothing.\<close>

theorem demo_seed_idempotent:
  assumes "schema_ok (collate env) db" and "roles_inv db" and "upgrade_0031 env t salt n db = Inr db'"
  shows "schema_ok (collate env) db' \<and> roles_inv db' \<and>
    set (users db) \<subseteq> set (users db') \<and> set (user_roles db) \<subseteq> set (user_roles db') \<and>
    (\<forall>(email, role_name, full_name, secondary) \<in> set DEMO_USERS. \<exists>u \<in> set (users db'). sql_eq env (u_email u) email \<and>
       (\<exists>r \<in> set (roles_held (u_id u) db'). r_name r = role_name)) \<and>
    upgrade_0031 env t' salt' n' db' = Inr db'"
proof -
  note out = upgrade_0031_Inr [OF assms]
  then have same: "roles db' = roles db" by (simp add: extends_def)
  from out same have "\<exists>n''. seed_demo_users env t' (argon2_hash env salt' DEMO_PASSWORD) (role_ids (roles db')) DEMO_USERS (db', n') = Inr (db', n'')"
    by (intro seed_demo_users_again) auto
  then have again: "upgrade_0031 env t' salt' n' db' = Inr db'" by (auto simp: upgrade_0031_def)
  have "\<exists>u \<in> set (users db'). sql_eq env (u_email u) email \<and> (\<exists>r \<in> set (roles_held (u_id u) db'). r_name r = role_name)"
    if d: "(email, role_name, full_name, secondary) \<in> set DEMO_USERS" for email role_name full_name secondary
  proof -
    from out d have "demo_present env (role_ids (roles db')) (email, role_name, full_name, secondary) db'" using same by auto
    then obtain u i where "u \<in> set (users db')" "sql_eq env (u_email u) email" "role_ids (roles db') role_name = Some i"
      "holds db' (u_id u) i" by (auto simp: demo_present_def)
    with held_by_name out show ?thesis by blast
  qed
  with out again show ?thesis by (auto simp: extends_def)
qed

text \<open>Seeding makes an administrator of whoever had registered the address of a demo
  administrator before: the account keeps its own password and gains the role.\<close>

theorem demo_seed_promotes_existing:
  assumes "schema_ok (collate env) db" and "roles_inv db" and "upgrade_0031 env t salt n db = Inr db'"
    and "u \<in> set (users db)" and "u_email u = ''admin1@gmail.com''"
  shows "u \<in> set (users db') \<and> (\<exists>r \<in> set (roles_held (u_id u) db'). r_name r = ''Admin'')"
proof -
  note out = upgrade_0031_Inr [OF assms(1-3)]
  have same: "roles db' = roles db" and u: "u \<in> set (users db')" using out assms(4) by (auto simp: extends_def)
  have "(''admin1@gmail.com'', ''Admin'', ''Admin One'', Some ''Buyer'') \<in> set DEMO_USERS" by (simp add: DEMO_USERS_def)
  with out have "demo_present env (role_ids (roles db')) (''admin1@gmail.com'', ''Admin'', ''Admin One'', Some ''Buyer'') db'"
    using same by simp
  then obtain v i where v: "v \<in> set (users db')" "sql_eq env (u_email v) ''admin1@gmail.com''"
    "role_ids (roles db') ''Admin'' = Some i" "holds db' (u_id v) i" by (auto simp: demo_present_def)
  have "distinct (map (collate env \<circ> u_email) (users db'))" using out by (simp add: schema_ok_def users_ok_def)
  from distinct_map_inj_on_eq [OF this u v(1)] v(2) assms(5) have "v = u" by (simp add: sql_eq_def)
  with v held_by_name u out show ?thesis by blast
qed

section \<open>Fresh identifiers are enough\<close>

lemma grant_role_succeeds:
  assumes "uid \<in> u_id ` set (users db)" and "rid \<in> r_id ` set (roles db)" and "i \<notin> ur_id ` set (user_roles db)"
  shows "\<exists>db'. grant_role env t i uid rid db = Inr db' \<and> ur_id ` set (user_roles db') \<subseteq> insert i (ur_id ` set (user_roles db))"
proof (cases "holds db uid rid")
  case True
  then show ?thesis by (auto simp: grant_role_def insert_unless_def holds_def list_ex_iff)
next
  case False
  then have "\<not> list_ex (\<lambda>x. ur_user_id x = uid \<and> ur_role_id x = rid) (user_roles db)"
    by (auto simp: holds_def list_ex_iff)
  moreover have "integrity_ok (collate env) (RUserRole \<lparr>ur_id = i, ur_user_id = uid, ur_role_id = rid, ur_assigned_at = 0\<rparr>) db"
    using assms False by (auto simp: holds_def)
  ultimately show ?thesis by (simp add: grant_role_def insert_unless_def)
qed

definition role_known :: "(string \<rightharpoonup> uuid) \<Rightarrow> database \<Rightarrow> string \<Rightarrow> bool" where
  "role_known ids db name = (case ids name of None \<Rightarrow> False | Some i \<Rightarrow> i \<in> r_id ` set (roles db))"

definition demo_roles_known :: "(string \<rightharpoonup> uuid) \<Rightarrow> database \<Rightarrow> string \<times> string \<times> string \<times> string option \<Rightarrow> bool" where
  "demo_roles_known ids db = (\<lambda>(email, role_name, full_name, secondary).
     role_known ids db role_name \<and> (case secondary of None \<Rightarrow> True | Some m \<Rightarrow> role_known ids db m))"

lemma role_known_iff: "role_known ids db name \<longleftrightarrow> (\<exists>i. ids name = Some i \<and> i \<in> r_id ` set (roles db))"
  by (simp add: role_known_def split: option.splits)

lemma two_inserts: "A \<subseteq> insert b B \<Longrightarrow> B \<subseteq> insert a C \<Longrightarrow> a \<in> S \<Longrightarrow> b \<in> S \<Longrightarrow> A \<subseteq> S \<union> C"
  by blast

lemma seed_demo_user_succeeds:
  assumes ok: "schema_ok (collate env) db" and known: "demo_roles_known ids db d"
    and fresh: "uuid_source env n \<notin> u_id ` set (users db)"
      "uuid_source env ` {n..<n + 3} \<inter> ur_id ` set (user_roles db) = {}" and inj: "inj_on (uuid_source env) {n..<n + 3}"
  shows "\<exists>db' n'. seed_demo_user env t h ids d (db, n) = Inr (db', n') \<and> n' \<le> n + 3 \<and> n < n' \<and>
    u_id ` set (users db') \<subseteq> insert (uuid_source env n) (u_id ` set (users db)) \<and>
    ur_id ` set (user_roles db') \<subseteq> uuid_source env ` {n..<n'} \<union> ur_id ` set (user_roles db)"
proof -
  obtain email role_name full_name secondary where d: "d = (email, role_name, full_name, secondary)" by (cases d)
  from known d obtain p where p: "ids role_name = Some p" "p \<in> r_id ` set (roles db)"
    and sec: "\<forall>m. secondary = Some m \<longrightarrow> (\<exists>i. ids m = Some i \<and> i \<in> r_id ` set (roles db))"
    by (auto simp: demo_roles_known_def role_known_iff split: option.splits)
  let ?exists = "\<lambda>db. list_ex (\<lambda>u. sql_eq env (u_email u) email) (users db)"
  let ?nu = "demo_user (uuid_source env n) email h full_name p"
  define db1 where "db1 = (if ?exists db then db else insert_row t (RUser ?nu) db)"
  have ins: "insert_unless env t ?exists (RUser ?nu) db = Inr db1"
    using fresh(1) p(2) by (auto simp: insert_unless_def db1_def demo_user_def sql_eq_def list_ex_iff image_iff eq_commute)
  have tabs: "user_roles db1 = user_roles db" "roles db1 = roles db"
    "u_id ` set (users db1) \<subseteq> insert (uuid_source env n) (u_id ` set (users db))"
    by (auto simp: db1_def demo_user_def)
  have ok1: "schema_ok (collate env) db1" by (rule insert_unless_schema [OF ins ok])
  have "?exists db1" by (auto simp: db1_def demo_user_def sql_eq_def)
  then obtain u where u: "u \<in> set (users db1)" "sql_eq env (u_email u) email" by (auto simp: list_ex_iff)
  have "distinct (map (collate env \<circ> u_email) (users db1))" using ok1 by (simp add: schema_ok_def users_ok_def)
  from filter_key_unique [OF this u(1)] u(2) have "filter (\<lambda>u. sql_eq env (u_email u) email) (users db1) = [u]"
    by (simp add: sql_eq_def)
  then have uid: "stored_user_id env email db1 = Inr (u_id u)" by (simp add: stored_user_id_def)
  have new: "uuid_source env (n + 1) \<notin> ur_id ` set (user_roles db)" "uuid_source env (n + 2) \<notin> ur_id ` set (user_roles db)"
    "uuid_source env (n + 2) \<noteq> uuid_source env (n + 1)"
  proof -
    have "uuid_source env (n + 1) \<in> uuid_source env ` {n..<n + 3}" "uuid_source env (n + 2) \<in> uuid_source env ` {n..<n + 3}" by auto
    then show "uuid_source env (n + 1) \<notin> ur_id ` set (user_roles db)" "uuid_source env (n + 2) \<notin> ur_id ` set (user_roles db)"
      using fresh(2) by blast+
    show "uuid_source env (n + 2) \<noteq> uuid_source env (n + 1)" using inj_onD [OF inj, of "n + 2" "n + 1"] by auto
  qed
  obtain db2 where db2: "grant_role env t (uuid_source env (n + 1)) (u_id u) p db1 = Inr db2"
    "ur_id ` set (user_roles db2) \<subseteq> insert (uuid_source env (n + 1)) (ur_id ` set (user_roles db))"
    using grant_role_succeeds [where uid = "u_id u" and db = db1 and rid = p and i = "uuid_source env (n + 1)" and env = env and t = t] u(1) p(2) tabs new(1) by auto
  note g = grant_role_Inr [OF db2(1)]
  show ?thesis
  proof (cases secondary)
    case None
    with ins uid db2 g tabs p show ?thesis
      by (auto simp: seed_demo_user_def d role_key_def)
  next
    case (Some m)
    with sec obtain i where i: "ids m = Some i" "i \<in> r_id ` set (roles db)" by blast
    have "\<exists>db3. grant_role env t (uuid_source env (n + 2)) (u_id u) i db2 = Inr db3 \<and>
        ur_id ` set (user_roles db3) \<subseteq> insert (uuid_source env (n + 2)) (ur_id ` set (user_roles db2))"
    proof (rule grant_role_succeeds)
      show "u_id u \<in> u_id ` set (users db2)" using g u(1) by simp
      show "i \<in> r_id ` set (roles db2)" using g i(2) tabs(2) by (simp add: extends_def)
      show "uuid_source env (n + 2) \<notin> ur_id ` set (user_roles db2)" using new db2(2) by blast
    qed
    then obtain db3 where db3: "grant_role env t (uuid_source env (n + 2)) (u_id u) i db2 = Inr db3"
      "ur_id ` set (user_roles db3) \<subseteq> insert (uuid_source env (n + 2)) (ur_id ` set (user_roles db2))" by blast
    have "uuid_source env (n + 1) \<in> uuid_source env ` {n..<n + 3}" "uuid_source env (n + 2) \<in> uuid_source env ` {n..<n + 3}" by auto
    from two_inserts [OF db3(2) db2(2) this]
    have "ur_id ` set (user_roles db3) \<subseteq> uuid_source env ` {n..<n + 3} \<union> ur_id ` set (user_roles db)" .
    moreover have "u_id ` set (users db3) \<subseteq> insert (uuid_source env n) (u_id ` set (users db))"
      using grant_role_Inr [OF db3(1)] g tabs by simp
    moreover have "seed_demo_user env t h ids d (db, n) = Inr (db3, n + 3)"
      using ins uid db2(1) db3(1) p(1) i(1) Some by (simp add: seed_demo_user_def d role_key_def)
    ultimately show ?thesis by (intro exI [of _ db3] exI [of _ "n + 3"]) simp
  qed
qed

lemma disjoint_step:
  "U1 \<subseteq> insert i U \<Longrightarrow> R1 \<subseteq> S \<union> R \<Longrightarrow> N \<inter> (U \<union> R) = {} \<Longrightarrow> L \<subseteq> N \<Longrightarrow> L \<inter> S = {} \<Longrightarrow> i \<in> S \<Longrightarrow>
   L \<inter> (U1 \<union> R1) = {}"
  by blast

lemma seed_demo_users_succeed:
  assumes "schema_ok (collate env) db" and "roles_inv db" and "\<forall>d \<in> set ds. demo_roles_known ids db d"
    and "uuid_source env ` {n..<n + 3 * length ds} \<inter> (u_id ` set (users db) \<union> ur_id ` set (user_roles db)) = {}"
    and "inj_on (uuid_source env) {n..<n + 3 * length ds}"
  shows "\<exists>s. seed_demo_users env t h ids ds (db, n) = Inr s"
  using assms
proof (induction ds arbitrary: db n)
  case Nil
  then show ?case by simp
next
  case (Cons d ds)
  let ?new = "uuid_source env ` {n..<n + 3 * length (d # ds)}"
  have "uuid_source env n \<in> ?new" "uuid_source env ` {n..<n + 3} \<subseteq> ?new" by auto
  then have fresh: "uuid_source env n \<notin> u_id ` set (users db)" "uuid_source env ` {n..<n + 3} \<inter> ur_id ` set (user_roles db) = {}"
    using Cons.prems(4) by blast+
  have inj: "inj_on (uuid_source env) {n..<n + 3}" by (rule inj_on_subset [OF Cons.prems(5)]) auto
  have "demo_roles_known ids db d" using Cons.prems(3) by simp
  from seed_demo_user_succeeds [OF Cons.prems(1) this fresh inj] obtain db1 n1 where one: "seed_demo_user env t h ids d (db, n) = Inr (db1, n1)" "n1 \<le> n + 3" "n < n1"
    "u_id ` set (users db1) \<subseteq> insert (uuid_source env n) (u_id ` set (users db))"
    "ur_id ` set (user_roles db1) \<subseteq> uuid_source env ` {n..<n1} \<union> ur_id ` set (user_roles db)" by blast
  obtain email role_name full_name secondary where d: "d = (email, role_name, full_name, secondary)" by (cases d)
  note step = seed_demo_user_Inr [OF one(1) [unfolded d] Cons.prems(1,2)]
  have "roles db1 = roles db" using step by (simp add: extends_def)
  then have "role_known ids db1 = role_known ids db" by (simp add: role_known_def fun_eq_iff split: option.splits)
  then have "demo_roles_known ids db1 = demo_roles_known ids db" by (simp only: demo_roles_known_def)
  then have known: "\<forall>d \<in> set ds. demo_roles_known ids db1 d" using Cons.prems(3) by simp
  have sub: "{n1..<n1 + 3 * length ds} \<subseteq> {n..<n + 3 * length (d # ds)}" using one(2,3) by auto
  have later: "uuid_source env ` {n1..<n1 + 3 * length ds} \<inter> uuid_source env ` {n..<n1} = {}"
  proof -
    have "uuid_source env ` {n1..<n1 + 3 * length ds} \<inter> uuid_source env ` {n..<n1} =
        uuid_source env ` ({n1..<n1 + 3 * length ds} \<inter> {n..<n1})"
      by (rule inj_on_image_Int [OF Cons.prems(5) sub, symmetric]) (use one(2) in auto)
    then show ?thesis by simp
  qed
  have "uuid_source env n \<in> uuid_source env ` {n..<n1}" using one(3) by auto
  note disj = disjoint_step [OF one(4,5) Cons.prems(4) image_mono [OF sub] later this]
  have "\<exists>s. seed_demo_users env t h ids ds (db1, n1) = Inr s"
    using step by (intro Cons.IH known disj inj_on_subset [OF Cons.prems(5) sub]) simp_all
  with one(1) show ?case by simp
qed

text \<open>An account that Ann registered under the address of the first demo administrator.\<close>

definition squatted_db :: database where
  "squatted_db = empty_database\<lparr>
     roles := map (\<lambda>(i, n). sample_role i n) (zip [1, 2, 3, 4, 5, 6, 7, 8] (map fst SEED_ROLES)),
     users := [sample_user 11 ''admin1@gmail.com'' ''pw1'' 1],
     user_roles := [\<lparr>ur_id = 21, ur_user_id = 11, ur_role_id = 1, ur_assigned_at = 5\<rparr>]\<rparr>"

lemma squatted_facts: "schema_ok lower squatted_db" "roles_inv squatted_db"
  by code_simp+

lemma sample_uuid_new: "a < 1000 \<Longrightarrow> b < 1000 \<Longrightarrow> uuid_source sample_env a \<noteq> word_of_nat b"
  by (simp add: sample_env_def word_of_nat_eq_iff take_bit_nat_eq_self del: of_nat_add)

lemma squatted_seeded: "\<exists>db'. upgrade_0031 sample_env 9 0 100 squatted_db = Inr db'"
proof -
  have known: "\<forall>d \<in> set DEMO_USERS. demo_roles_known (role_ids (roles squatted_db)) squatted_db d"
    by code_simp
  have "uuid_source sample_env ` {100..<100 + 3 * length DEMO_USERS} \<inter>
      (u_id ` set (users squatted_db) \<union> ur_id ` set (user_roles squatted_db)) = {}"
    using sample_uuid_new [of _ 11] sample_uuid_new [of _ 21] by (auto simp: squatted_db_def sample_user_def DEMO_USERS_def)
  moreover have "inj_on (uuid_source sample_env) {100..<100 + 3 * length DEMO_USERS}"
    by (rule inj_onI) (simp add: sample_env_def DEMO_USERS_def word_of_nat_eq_iff take_bit_nat_eq_self)
  ultimately have "\<exists>s. seed_demo_users sample_env 9 (argon2_hash sample_env 0 DEMO_PASSWORD) (role_ids (roles squatted_db))
      DEMO_USERS (squatted_db, 100) = Inr s"
    using squatted_facts known by (intro seed_demo_users_succeed) simp_all
  then show ?thesis by (auto simp: upgrade_0031_def)
qed

theorem demo_seed_idempotent_witness:
  "\<exists>db'. upgrade_0031 sample_env 9 0 100 squatted_db = Inr db' \<and> roles_inv db' \<and> upgrade_0031 sample_env 10 1 200 db' = Inr db'"
proof -
  obtain db' where run: "upgrade_0031 sample_env 9 0 100 squatted_db = Inr db'" using squatted_seeded by blast
  from demo_seed_idempotent [OF _ squatted_facts(2) run] squatted_facts(1) run show ?thesis by simp
qed

theorem demo_seed_promotes_existing_witness:
  "\<exists>db'. upgrade_0031 sample_env 9 0 100 squatted_db = Inr db' \<and>
     sample_user 11 ''admin1@gmail.com'' ''pw1'' 1 \<in> set (users db') \<and> (\<exists>r \<in> set (roles_held 11 db'). r_name r = ''Admin'')"
proof -
  obtain db' where run: "upgrade_0031 sample_env 9 0 100 squatted_db = Inr db'" using squatted_seeded by blast
  have "sample_user 11 ''admin1@gmail.com'' ''pw1'' 1 \<in> set (users squatted_db)" by (simp add: squatted_db_def)
  from demo_seed_promotes_existing [OF _ squatted_facts(2) run this] squatted_facts(1) run
  show ?thesis by (simp add: sample_user_def)
qed

end
