(* ===== verification/Schema_Names.thy ===== *)
theory Schema_Names
  imports Awa_Prelude
begin

text \<open>
  The names that the migrations and the models use: tables (\<open>T_\<close>), columns (\<open>C_\<close>), constraints and
  indexes (\<open>K_\<close>). A name is an identifier with the number under which it is listed here; \<open>spelling\<close> gives
  its text, and no two names of a kind have the same number or text.
\<close>

type_synonym ident = int

abbreviation T_auctions :: ident where "T_auctions \<equiv> 0"
abbreviation T_bids :: ident where "T_bids \<equiv> 1"
abbreviation T_menu_items :: ident where "T_menu_items \<equiv> 2"
abbreviation T_auction_categories :: ident where "T_auction_categories \<equiv> 3"
abbreviation T_featured_auctions :: ident where "T_featured_auctions \<equiv> 4"
abbreviation T_how_it_works_steps :: ident where "T_how_it_works_steps \<equiv> 5"
abbreviation T_value_added_services :: ident where "T_value_added_services \<equiv> 6"
abbreviation T_footer_settings :: ident where "T_footer_settings \<equiv> 7"
abbreviation T_footer_links :: ident where "T_footer_links \<equiv> 8"
abbreviation T_users :: ident where "T_users \<equiv> 9"
abbreviation T_refresh_tokens :: ident where "T_refresh_tokens \<equiv> 10"
abbreviation T_password_reset_tokens :: ident where "T_password_reset_tokens \<equiv> 11"
abbreviation T_email_verification_tokens :: ident where "T_email_verification_tokens \<equiv> 12"
abbreviation T_vehicle_listings :: ident where "T_vehicle_listings \<equiv> 13"
abbreviation T_admin_nav_items :: ident where "T_admin_nav_items \<equiv> 14"
abbreviation T_admin_dashboard_cards :: ident where "T_admin_dashboard_cards \<equiv> 15"
abbreviation T_vehicle_status_metrics :: ident where "T_vehicle_status_metrics \<equiv> 16"
abbreviation T_vehicle_payment_records :: ident where "T_vehicle_payment_records \<equiv> 17"
abbreviation T_vehicle_makes :: ident where "T_vehicle_makes \<equiv> 18"
abbreviation T_vehicle_models :: ident where "T_vehicle_models \<equiv> 19"
abbreviation T_vehicle_branches :: ident where "T_vehicle_branches \<equiv> 20"
abbreviation T_vehicle_colors :: ident where "T_vehicle_colors \<equiv> 21"
abbreviation T_vehicle_key_options :: ident where "T_vehicle_key_options \<equiv> 22"
abbreviation T_fuel_types :: ident where "T_fuel_types \<equiv> 23"
abbreviation T_bidding_models :: ident where "T_bidding_models \<equiv> 24"
abbreviation T_vehicle_years :: ident where "T_vehicle_years \<equiv> 25"
abbreviation T_sub_sellers :: ident where "T_sub_sellers \<equiv> 26"
abbreviation T_roles :: ident where "T_roles \<equiv> 27"
abbreviation T_user_roles :: ident where "T_user_roles \<equiv> 28"

abbreviation C_id :: ident where "C_id \<equiv> 29"
abbreviation C_vehicle_id :: ident where "C_vehicle_id \<equiv> 30"
abbreviation C_status :: ident where "C_status \<equiv> 31"
abbreviation C_starting_price :: ident where "C_starting_price \<equiv> 32"
abbreviation C_reserve_price :: ident where "C_reserve_price \<equiv> 33"
abbreviation C_starts_at :: ident where "C_starts_at \<equiv> 34"
abbreviation C_ends_at :: ident where "C_ends_at \<equiv> 35"
abbreviation C_created_at :: ident where "C_created_at \<equiv> 36"
abbreviation C_updated_at :: ident where "C_updated_at \<equiv> 37"
abbreviation C_auction_id :: ident where "C_auction_id \<equiv> 38"
abbreviation C_bidder_id :: ident where "C_bidder_id \<equiv> 39"
abbreviation C_amount :: ident where "C_amount \<equiv> 40"
abbreviation C_kafka_partition :: ident where "C_kafka_partition \<equiv> 41"
abbreviation C_kafka_offset :: ident where "C_kafka_offset \<equiv> 42"
abbreviation C_parent_id :: ident where "C_parent_id \<equiv> 43"
abbreviation C_label_en :: ident where "C_label_en \<equiv> 44"
abbreviation C_label_ar :: ident where "C_label_ar \<equiv> 45"
abbreviation C_url :: ident where "C_url \<equiv> 46"
abbreviation C_opens_new_tab :: ident where "C_opens_new_tab \<equiv> 47"
abbreviation C_sort_order :: ident where "C_sort_order \<equiv> 48"
abbreviation C_is_active :: ident where "C_is_active \<equiv> 49"
abbreviation C_name_en :: ident where "C_name_en \<equiv> 50"
abbreviation C_name_ar :: ident where "C_name_ar \<equiv> 51"
abbreviation C_slug :: ident where "C_slug \<equiv> 52"
abbreviation C_icon_url :: ident where "C_icon_url \<equiv> 53"
abbreviation C_link_url :: ident where "C_link_url \<equiv> 54"
abbreviation C_title_en :: ident where "C_title_en \<equiv> 55"
abbreviation C_title_ar :: ident where "C_title_ar \<equiv> 56"
abbreviation C_image_url :: ident where "C_image_url \<equiv> 57"
abbreviation C_badge_en :: ident where "C_badge_en \<equiv> 58"
abbreviation C_badge_ar :: ident where "C_badge_ar \<equiv> 59"
abbreviation C_step_number :: ident where "C_step_number \<equiv> 60"
abbreviation C_description_en :: ident where "C_description_en \<equiv> 61"
abbreviation C_description_ar :: ident where "C_description_ar \<equiv> 62"
abbreviation C_about_text_en :: ident where "C_about_text_en \<equiv> 63"
abbreviation C_about_text_ar :: ident where "C_about_text_ar \<equiv> 64"
abbreviation C_copyright_en :: ident where "C_copyright_en \<equiv> 65"
abbreviation C_copyright_ar :: ident where "C_copyright_ar \<equiv> 66"
abbreviation C_support_phone :: ident where "C_support_phone \<equiv> 67"
abbreviation C_support_email :: ident where "C_support_email \<equiv> 68"
abbreviation C_facebook_url :: ident where "C_facebook_url \<equiv> 69"
abbreviation C_instagram_url :: ident where "C_instagram_url \<equiv> 70"
abbreviation C_youtube_url :: ident where "C_youtube_url \<equiv> 71"
abbreviation C_app_store_url :: ident where "C_app_store_url \<equiv> 72"
abbreviation C_google_play_url :: ident where "C_google_play_url \<equiv> 73"
abbreviation C_section :: ident where "C_section \<equiv> 74"
abbreviation C_email :: ident where "C_email \<equiv> 75"
abbreviation C_password_hash :: ident where "C_password_hash \<equiv> 76"
abbreviation C_first_name :: ident where "C_first_name \<equiv> 77"
abbreviation C_last_name :: ident where "C_last_name \<equiv> 78"
abbreviation C_phone :: ident where "C_phone \<equiv> 79"
abbreviation C_role :: ident where "C_role \<equiv> 80"
abbreviation C_is_email_verified :: ident where "C_is_email_verified \<equiv> 81"
abbreviation C_failed_login_attempts :: ident where "C_failed_login_attempts \<equiv> 82"
abbreviation C_locked_until :: ident where "C_locked_until \<equiv> 83"
abbreviation C_last_login_at :: ident where "C_last_login_at \<equiv> 84"
abbreviation C_user_id :: ident where "C_user_id \<equiv> 85"
abbreviation C_token_hash :: ident where "C_token_hash \<equiv> 86"
abbreviation C_expires_at :: ident where "C_expires_at \<equiv> 87"
abbreviation C_revoked_at :: ident where "C_revoked_at \<equiv> 88"
abbreviation C_used_at :: ident where "C_used_at \<equiv> 89"
abbreviation C_icon_class :: ident where "C_icon_class \<equiv> 90"
abbreviation C_item_type :: ident where "C_item_type \<equiv> 91"
abbreviation C_visibility :: ident where "C_visibility \<equiv> 92"
abbreviation C_category_key :: ident where "C_category_key \<equiv> 93"
abbreviation C_category_label_en :: ident where "C_category_label_en \<equiv> 94"
abbreviation C_category_label_ar :: ident where "C_category_label_ar \<equiv> 95"
abbreviation C_detail_url :: ident where "C_detail_url \<equiv> 96"
abbreviation C_lot_number :: ident where "C_lot_number \<equiv> 97"
abbreviation C_mileage :: ident where "C_mileage \<equiv> 98"
abbreviation C_location_en :: ident where "C_location_en \<equiv> 99"
abbreviation C_location_ar :: ident where "C_location_ar \<equiv> 100"
abbreviation C_bid_amount :: ident where "C_bid_amount \<equiv> 101"
abbreviation C_countdown_label :: ident where "C_countdown_label \<equiv> 102"
abbreviation C_category_sort_order :: ident where "C_category_sort_order \<equiv> 103"
abbreviation C_vehicle_listing_id :: ident where "C_vehicle_listing_id \<equiv> 104"
abbreviation C_seller_id :: ident where "C_seller_id \<equiv> 105"
abbreviation C_section_key :: ident where "C_section_key \<equiv> 106"
abbreviation C_group_key :: ident where "C_group_key \<equiv> 107"
abbreviation C_stat_key :: ident where "C_stat_key \<equiv> 108"
abbreviation C_color_class :: ident where "C_color_class \<equiv> 109"
abbreviation C_lot_no :: ident where "C_lot_no \<equiv> 110"
abbreviation C_chassis_number :: ident where "C_chassis_number \<equiv> 111"
abbreviation C_title :: ident where "C_title \<equiv> 112"
abbreviation C_year_of_make :: ident where "C_year_of_make \<equiv> 113"
abbreviation C_buyer_name :: ident where "C_buyer_name \<equiv> 114"
abbreviation C_buyer_email :: ident where "C_buyer_email \<equiv> 115"
abbreviation C_seller_name :: ident where "C_seller_name \<equiv> 116"
abbreviation C_seller_email :: ident where "C_seller_email \<equiv> 117"
abbreviation C_payment_status :: ident where "C_payment_status \<equiv> 118"
abbreviation C_payment_due_date :: ident where "C_payment_due_date \<equiv> 119"
abbreviation C_location :: ident where "C_location \<equiv> 120"
abbreviation C_max_bid :: ident where "C_max_bid \<equiv> 121"
abbreviation C_make_id :: ident where "C_make_id \<equiv> 122"
abbreviation C_year :: ident where "C_year \<equiv> 123"
abbreviation C_model_id :: ident where "C_model_id \<equiv> 124"
abbreviation C_branch_id :: ident where "C_branch_id \<equiv> 125"
abbreviation C_color_id :: ident where "C_color_id \<equiv> 126"
abbreviation C_keys_option_id :: ident where "C_keys_option_id \<equiv> 127"
abbreviation C_fuel_type_id :: ident where "C_fuel_type_id \<equiv> 128"
abbreviation C_bidding_model_id :: ident where "C_bidding_model_id \<equiv> 129"
abbreviation C_target_selling_price :: ident where "C_target_selling_price \<equiv> 130"
abbreviation C_minimum_selling_price :: ident where "C_minimum_selling_price \<equiv> 131"
abbreviation C_previous_number_plate :: ident where "C_previous_number_plate \<equiv> 132"
abbreviation C_sub_seller_id :: ident where "C_sub_seller_id \<equiv> 133"
abbreviation C_created_by_id :: ident where "C_created_by_id \<equiv> 134"
abbreviation C_mulkhiya_document_url :: ident where "C_mulkhiya_document_url \<equiv> 135"
abbreviation C_terms_accepted :: ident where "C_terms_accepted \<equiv> 136"
abbreviation C_name :: ident where "C_name \<equiv> 137"
abbreviation C_external_id :: ident where "C_external_id \<equiv> 138"
abbreviation C_description :: ident where "C_description \<equiv> 139"
abbreviation C_role_id :: ident where "C_role_id \<equiv> 140"
abbreviation C_is_primary :: ident where "C_is_primary \<equiv> 141"
abbreviation C_assigned_at :: ident where "C_assigned_at \<equiv> 142"
abbreviation C_primary_role_id :: ident where "C_primary_role_id \<equiv> 143"

abbreviation K_ck_auction_starting_price_nonneg :: ident where "K_ck_auction_starting_price_nonneg \<equiv> 144"
abbreviation K_ck_auction_ends_after_starts :: ident where "K_ck_auction_ends_after_starts \<equiv> 145"
abbreviation K_ix_auctions_status_ends_at :: ident where "K_ix_auctions_status_ends_at \<equiv> 146"
abbreviation K_ck_bid_amount_positive :: ident where "K_ck_bid_amount_positive \<equiv> 147"
abbreviation K_ck_bid_status_valid :: ident where "K_ck_bid_status_valid \<equiv> 148"
abbreviation K_ix_bids_auction_amount :: ident where "K_ix_bids_auction_amount \<equiv> 149"
abbreviation K_uq_bids_kafka_position :: ident where "K_uq_bids_kafka_position \<equiv> 150"
abbreviation K_ck_users_failed_logins_nonneg :: ident where "K_ck_users_failed_logins_nonneg \<equiv> 151"
abbreviation K_uq_users_email :: ident where "K_uq_users_email \<equiv> 152"
abbreviation K_uq_refresh_tokens_token_hash :: ident where "K_uq_refresh_tokens_token_hash \<equiv> 153"
abbreviation K_uq_password_reset_tokens_token_hash :: ident where "K_uq_password_reset_tokens_token_hash \<equiv> 154"
abbreviation K_uq_email_verification_tokens_token_hash :: ident where "K_uq_email_verification_tokens_token_hash \<equiv> 155"
abbreviation K_fk_featured_auctions_vehicle_listing_id :: ident where "K_fk_featured_auctions_vehicle_listing_id \<equiv> 156"
abbreviation K_fk_auctions_vehicle_id :: ident where "K_fk_auctions_vehicle_id \<equiv> 157"
abbreviation K_fk_vehicle_listings_seller_id :: ident where "K_fk_vehicle_listings_seller_id \<equiv> 158"
abbreviation K_fk_bids_bidder_id :: ident where "K_fk_bids_bidder_id \<equiv> 159"
abbreviation K_fk_admin_nav_items_parent_id :: ident where "K_fk_admin_nav_items_parent_id \<equiv> 160"
abbreviation K_uq_roles_name :: ident where "K_uq_roles_name \<equiv> 161"
abbreviation K_uq_user_roles_user_id_role_id :: ident where "K_uq_user_roles_user_id_role_id \<equiv> 162"
abbreviation K_uq_user_roles_one_primary_per_user :: ident where "K_uq_user_roles_one_primary_per_user \<equiv> 163"
abbreviation K_fk_users_primary_role_id_roles :: ident where "K_fk_users_primary_role_id_roles \<equiv> 164"

definition spelling :: "(ident \<times> string) list" where
  "spelling =
     [(T_auctions, ''auctions''), (T_bids, ''bids''), (T_menu_items, ''menu_items''),
      (T_auction_categories, ''auction_categories''), (T_featured_auctions, ''featured_auctions''),
      (T_how_it_works_steps, ''how_it_works_steps''),
      (T_value_added_services, ''value_added_services''), (T_footer_settings, ''footer_settings''),
      (T_footer_links, ''footer_links''), (T_users, ''users''),
      (T_refresh_tokens, ''refresh_tokens''), (T_password_reset_tokens, ''password_reset_tokens''),
      (T_email_verification_tokens, ''email_verification_tokens''),
      (T_vehicle_listings, ''vehicle_listings''), (T_admin_nav_items, ''admin_nav_items''),
      (T_admin_dashboard_cards, ''admin_dashboard_cards''),
      (T_vehicle_status_metrics, ''vehicle_status_metrics''),
      (T_vehicle_payment_records, ''vehicle_payment_records''),
      (T_vehicle_makes, ''vehicle_makes''), (T_vehicle_models, ''vehicle_models''),
      (T_vehicle_branches, ''vehicle_branches''), (T_vehicle_colors, ''vehicle_colors''),
      (T_vehicle_key_options, ''vehicle_key_options''), (T_fuel_types, ''fuel_types''),
      (T_bidding_models, ''bidding_models''), (T_vehicle_years, ''vehicle_years''),
      (T_sub_sellers, ''sub_sellers''), (T_roles, ''roles''), (T_user_roles, ''user_roles''),
      (C_id, ''id''), (C_vehicle_id, ''vehicle_id''), (C_status, ''status''),
      (C_starting_price, ''starting_price''), (C_reserve_price, ''reserve_price''),
      (C_starts_at, ''starts_at''), (C_ends_at, ''ends_at''), (C_created_at, ''created_at''),
      (C_updated_at, ''updated_at''), (C_auction_id, ''auction_id''), (C_bidder_id, ''bidder_id''),
      (C_amount, ''amount''), (C_kafka_partition, ''kafka_partition''),
      (C_kafka_offset, ''kafka_offset''), (C_parent_id, ''parent_id''), (C_label_en, ''label_en''),
      (C_label_ar, ''label_ar''), (C_url, ''url''), (C_opens_new_tab, ''opens_new_tab''),
      (C_sort_order, ''sort_order''), (C_is_active, ''is_active''), (C_name_en, ''name_en''),
      (C_name_ar, ''name_ar''), (C_slug, ''slug''), (C_icon_url, ''icon_url''),
      (C_link_url, ''link_url''), (C_title_en, ''title_en''), (C_title_ar, ''title_ar''),
      (C_image_url, ''image_url''), (C_badge_en, ''badge_en''), (C_badge_ar, ''badge_ar''),
      (C_step_number, ''step_number''), (C_description_en, ''description_en''),
      (C_description_ar, ''description_ar''), (C_about_text_en, ''about_text_en''),
      (C_about_text_ar, ''about_text_ar''), (C_copyright_en, ''copyright_en''),
      (C_copyright_ar, ''copyright_ar''), (C_support_phone, ''support_phone''),
      (C_support_email, ''support_email''), (C_facebook_url, ''facebook_url''),
      (C_instagram_url, ''instagram_url''), (C_youtube_url, ''youtube_url''),
      (C_app_store_url, ''app_store_url''), (C_google_play_url, ''google_play_url''),
      (C_section, ''section''), (C_email, ''email''), (C_password_hash, ''password_hash''),
      (C_first_name, ''first_name''), (C_last_name, ''last_name''), (C_phone, ''phone''),
      (C_role, ''role''), (C_is_email_verified, ''is_email_verified''),
      (C_failed_login_attempts, ''failed_login_attempts''), (C_locked_until, ''locked_until''),
      (C_last_login_at, ''last_login_at''), (C_user_id, ''user_id''),
      (C_token_hash, ''token_hash''), (C_expires_at, ''expires_at''),
      (C_revoked_at, ''revoked_at''), (C_used_at, ''used_at''), (C_icon_class, ''icon_class''),
      (C_item_type, ''item_type''), (C_visibility, ''visibility''),
      (C_category_key, ''category_key''), (C_category_label_en, ''category_label_en''),
      (C_category_label_ar, ''category_label_ar''), (C_detail_url, ''detail_url''),
      (C_lot_number, ''lot_number''), (C_mileage, ''mileage''), (C_location_en, ''location_en''),
      (C_location_ar, ''location_ar''), (C_bid_amount, ''bid_amount''),
      (C_countdown_label, ''countdown_label''), (C_category_sort_order, ''category_sort_order''),
      (C_vehicle_listing_id, ''vehicle_listing_id''), (C_seller_id, ''seller_id''),
      (C_section_key, ''section_key''), (C_group_key, ''group_key''), (C_stat_key, ''stat_key''),
      (C_color_class, ''color_class''), (C_lot_no, ''lot_no''),
      (C_chassis_number, ''chassis_number''), (C_title, ''title''),
      (C_year_of_make, ''year_of_make''), (C_buyer_name, ''buyer_name''),
      (C_buyer_email, ''buyer_email''), (C_seller_name, ''seller_name''),
      (C_seller_email, ''seller_email''), (C_payment_status, ''payment_status''),
      (C_payment_due_date, ''payment_due_date''), (C_location, ''location''),
      (C_max_bid, ''max_bid''), (C_make_id, ''make_id''), (C_year, ''year''),
      (C_model_id, ''model_id''), (C_branch_id, ''branch_id''), (C_color_id, ''color_id''),
      (C_keys_option_id, ''keys_option_id''), (C_fuel_type_id, ''fuel_type_id''),
      (C_bidding_model_id, ''bidding_model_id''),
      (C_target_selling_price, ''target_selling_price''),
      (C_minimum_selling_price, ''minimum_selling_price''),
      (C_previous_number_plate, ''previous_number_plate''), (C_sub_seller_id, ''sub_seller_id''),
      (C_created_by_id, ''created_by_id''), (C_mulkhiya_document_url, ''mulkhiya_document_url''),
      (C_terms_accepted, ''terms_accepted''), (C_name, ''name''), (C_external_id, ''external_id''),
      (C_description, ''description''), (C_role_id, ''role_id''), (C_is_primary, ''is_primary''),
      (C_assigned_at, ''assigned_at''), (C_primary_role_id, ''primary_role_id''),
      (K_ck_auction_starting_price_nonneg, ''ck_auction_starting_price_nonneg''),
      (K_ck_auction_ends_after_starts, ''ck_auction_ends_after_starts''),
      (K_ix_auctions_status_ends_at, ''ix_auctions_status_ends_at''),
      (K_ck_bid_amount_positive, ''ck_bid_amount_positive''),
      (K_ck_bid_status_valid, ''ck_bid_status_valid''),
      (K_ix_bids_auction_amount, ''ix_bids_auction_amount''),
      (K_uq_bids_kafka_position, ''uq_bids_kafka_position''),
      (K_ck_users_failed_logins_nonneg, ''ck_users_failed_logins_nonneg''),
      (K_uq_users_email, ''uq_users_email''),
      (K_uq_refresh_tokens_token_hash, ''uq_refresh_tokens_token_hash''),
      (K_uq_password_reset_tokens_token_hash, ''uq_password_reset_tokens_token_hash''),
      (K_uq_email_verification_tokens_token_hash, ''uq_email_verification_tokens_token_hash''),
      (K_fk_featured_auctions_vehicle_listing_id, ''fk_featured_auctions_vehicle_listing_id''),
      (K_fk_auctions_vehicle_id, ''fk_auctions_vehicle_id''),
      (K_fk_vehicle_listings_seller_id, ''fk_vehicle_listings_seller_id''),
      (K_fk_bids_bidder_id, ''fk_bids_bidder_id''),
      (K_fk_admin_nav_items_parent_id, ''fk_admin_nav_items_parent_id''),
      (K_uq_roles_name, ''uq_roles_name''),
      (K_uq_user_roles_user_id_role_id, ''uq_user_roles_user_id_role_id''),
      (K_uq_user_roles_one_primary_per_user, ''uq_user_roles_one_primary_per_user''),
      (K_fk_users_primary_role_id_roles, ''fk_users_primary_role_id_roles'')]"

lemma distinct_idents: "map fst spelling = [0..164]"
  unfolding spelling_def by code_simp

end
