(* ===== verification/Schema_Ddl.thy ===== *)
theory Schema_Ddl
  imports Schema_Names
begin

text \<open>
  The statements that the migrations (\<^verbatim>\<open>alembic/versions/\<close>) send to the server, and what they do
  to the schema: \<open>op.create_table\<close>, \<open>op.add_column\<close>, \<open>op.drop_column\<close>, \<open>op.alter_column\<close>,
  \<open>op.create_index\<close>, \<open>op.create_foreign_key\<close> and their inverses. The server is SQL Server, which refuses
  to drop what something else refers to: a table named by a foreign key of another table, or
  a column used by an index, a foreign key, a check or a default. The contents of the tables are not part
  of the schema; what depends on them (NOT NULL and unique columns over existing rows) is the concern of
  the theories on the data.
\<close>

section \<open>Schemas\<close>

datatype col_type = Uuid | String nat | Unicode nat | Integer | BigInteger | Boolean | Numeric nat nat
  | DateTime bool \<comment> \<open>with a time zone\<close> | Date

datatype server_default = SaTrue | SaFalse | SaNow | SaText string

datatype on_delete = CASCADE | SET_NULL | NO_ACTION

text \<open>A condition in SQL, with the columns that it uses.\<close>

datatype condition = Condition (condition_columns: "ident list") (condition_text: string)

record column =
  c_name :: ident
  c_type :: col_type
  c_nullable :: bool
  c_default :: "server_default option"

record foreign_key =
  fk_name :: "ident option" \<comment> \<open>\<open>None\<close>: named by the server\<close>
  fk_column :: ident
  fk_table :: ident
  fk_ref_column :: ident
  fk_on_delete :: on_delete

text \<open>
  The name of an index: \<open>ix_<table>_<column>\<close>, which is also what \<open>index=True\<close> stands for, another name given
  in the source, or, for \<open>unique=True\<close>, one that the server generates.
\<close>

datatype index_name = Ix ident ident | Named ident | Generated ident ident

record index =
  ix_name :: index_name
  ix_columns :: "ident list"
  ix_unique :: bool
  ix_where :: "condition option"

record table_schema =
  t_name :: ident
  t_columns :: "column list"
  t_primary_key :: "ident list"
  t_foreign_keys :: "foreign_key list"
  t_indexes :: "index list"
  t_checks :: "(ident \<times> condition) list"

type_synonym schema = "table_schema list"

section \<open>Statements\<close>

text \<open>The arguments of \<open>sa.Column\<close> after its name and type, and the items of a table.\<close>

datatype column_option = PrimaryKey | ForeignKey ident ident on_delete | Nullable bool
  | ServerDefault server_default | Indexed | Unique

datatype table_item = Column ident col_type "column_option list" | CheckConstraint ident condition

datatype statement =
    CreateTable ident "table_item list"
  | DropTable ident
  | AddColumn ident table_item
  | DropColumn ident ident
  | AlterDefault ident ident "server_default option"
  | AlterNullable ident ident bool
  | CreateIndex index_name ident "ident list" bool "condition option"
  | DropIndex index_name ident
  | CreateForeignKey ident ident ident ident ident on_delete
  | DropConstraint ident ident
  | DropForeignKeysOf ident ident \<comment> \<open>the generated names are looked up in \<open>sys.foreign_keys\<close>\<close>

datatype ddl_error = NoSuchTable ident | TableExists ident | NoSuchColumn ident ident | ColumnExists ident ident
  | ColumnInUse ident ident | TableReferenced ident | NoSuchIndex ident index_name | IndexExists ident index_name
  | NoSuchConstraint ident ident | ConstraintExists ident ident | BadReference ident ident | NotNullWithoutDefault ident ident
  | MalformedTable ident

section \<open>Lookup\<close>

text \<open>
  The search through the tables branches by equations on the truth value, which the simplifier evaluates
  without going through the rest of the schema again.
\<close>

fun table_named :: "ident \<Rightarrow> schema \<Rightarrow> table_schema option"
and table_here :: "bool \<Rightarrow> ident \<Rightarrow> table_schema \<Rightarrow> schema \<Rightarrow> table_schema option" where
  "table_named n [] = None"
| "table_named n (t # ts) = table_here (t_name t = n) n t ts"
| "table_here True n t ts = Some t"
| "table_here False n t ts = table_named n ts"

fun table_exists :: "ident \<Rightarrow> schema \<Rightarrow> bool" where
  "table_exists n [] \<longleftrightarrow> False"
| "table_exists n (t # ts) \<longleftrightarrow> t_name t = n \<or> table_exists n ts"

fun find_column :: "ident \<Rightarrow> column list \<Rightarrow> column option" where
  "find_column c [] = None"
| "find_column c (x # xs) = (if c_name x = c then Some x else find_column c xs)"

definition column_names :: "table_schema \<Rightarrow> ident list" where
  "column_names t = map c_name (t_columns t)"

definition has_column :: "table_schema \<Rightarrow> ident \<Rightarrow> bool" where
  "has_column t c \<longleftrightarrow> find_column c (t_columns t) \<noteq> None"

definition has_index :: "table_schema \<Rightarrow> index_name \<Rightarrow> bool" where
  "has_index t i \<longleftrightarrow> list_ex (\<lambda>x. ix_name x = i) (t_indexes t)"

definition index_uses :: "ident \<Rightarrow> index \<Rightarrow> bool" where
  "index_uses c i \<longleftrightarrow> c \<in> set (ix_columns i) \<or> (case ix_where i of None \<Rightarrow> False | Some w \<Rightarrow> c \<in> set (condition_columns w))"

text \<open>
  Whether something of the table refers to a column; a foreign key of another table can refer to the
  primary key only.
\<close>

definition column_in_use :: "table_schema \<Rightarrow> column \<Rightarrow> bool" where
  "column_in_use t x \<longleftrightarrow> c_default x \<noteq> None \<or> c_name x \<in> set (t_primary_key t) \<or>
     list_ex (index_uses (c_name x)) (t_indexes t) \<or>
     list_ex (\<lambda>f. fk_column f = c_name x) (t_foreign_keys t) \<or>
     list_ex (\<lambda>k. c_name x \<in> set (condition_columns (snd k))) (t_checks t)"

text \<open>A foreign key refers to the primary key of a table, of the same type.\<close>

definition column_type :: "table_schema \<Rightarrow> ident \<Rightarrow> col_type option" where
  "column_type t c = map_option c_type (find_column c (t_columns t))"

fun key_column_type :: "table_schema option \<Rightarrow> ident \<Rightarrow> col_type option" where
  "key_column_type None c = None"
| "key_column_type (Some r) c = (if t_primary_key r = [c] then column_type r c else None)"

definition key_type :: "schema \<Rightarrow> ident \<Rightarrow> ident \<Rightarrow> col_type option" where
  "key_type s n c = key_column_type (table_named n s) c"

definition reference_ok :: "schema \<Rightarrow> table_schema \<Rightarrow> foreign_key \<Rightarrow> bool" where
  "reference_ok s t f \<longleftrightarrow>
     column_type t (fk_column f) \<noteq> None \<and> key_type s (fk_table f) (fk_ref_column f) = column_type t (fk_column f)"

fun keys_exist :: "schema \<Rightarrow> col_type \<Rightarrow> foreign_key list \<Rightarrow> bool" where
  "keys_exist s ty [] \<longleftrightarrow> True"
| "keys_exist s ty (f # fs) \<longleftrightarrow> key_type s (fk_table f) (fk_ref_column f) = Some ty \<and> keys_exist s ty fs"

section \<open>What an item declares\<close>

definition option_default :: "column_option \<Rightarrow> server_default option" where
  "option_default d = (case d of ServerDefault v \<Rightarrow> Some v | _ \<Rightarrow> None)"

definition column_of :: "ident \<Rightarrow> col_type \<Rightarrow> column_option list \<Rightarrow> column" where
  "column_of c ty opts =
     \<lparr>c_name = c, c_type = ty, c_nullable = \<not> (PrimaryKey \<in> set opts \<or> Nullable False \<in> set opts),
      c_default = first_row (List.map_filter option_default opts)\<rparr>"

definition reference_of :: "ident \<Rightarrow> column_option \<Rightarrow> foreign_key option" where
  "reference_of c d = (case d of
     ForeignKey r rc act \<Rightarrow> Some \<lparr>fk_name = None, fk_column = c, fk_table = r, fk_ref_column = rc, fk_on_delete = act\<rparr>
   | _ \<Rightarrow> None)"

text \<open>\<open>index=True\<close> makes an index, unique if \<open>unique=True\<close> is given too; \<open>unique=True\<close> alone a unique constraint.\<close>

definition indexes_of :: "ident \<Rightarrow> ident \<Rightarrow> column_option list \<Rightarrow> index list" where
  "indexes_of n c opts =
     (if Indexed \<in> set opts
      then [\<lparr>ix_name = Ix n c, ix_columns = [c], ix_unique = (Unique \<in> set opts), ix_where = None\<rparr>]
      else if Unique \<in> set opts
      then [\<lparr>ix_name = Generated n c, ix_columns = [c], ix_unique = True, ix_where = None\<rparr>]
      else [])"

fun item_columns :: "table_item \<Rightarrow> column list" where
  "item_columns (Column c ty opts) = [column_of c ty opts]"
| "item_columns (CheckConstraint k condition) = []"

fun item_key :: "table_item \<Rightarrow> ident list" where
  "item_key (Column c ty opts) = (if PrimaryKey \<in> set opts then [c] else [])"
| "item_key (CheckConstraint k condition) = []"

fun item_references :: "table_item \<Rightarrow> foreign_key list" where
  "item_references (Column c ty opts) = List.map_filter (reference_of c) opts"
| "item_references (CheckConstraint k condition) = []"

fun item_indexes :: "ident \<Rightarrow> table_item \<Rightarrow> index list" where
  "item_indexes n (Column c ty opts) = indexes_of n c opts"
| "item_indexes n (CheckConstraint k condition) = []"

fun item_checks :: "table_item \<Rightarrow> (ident \<times> condition) list" where
  "item_checks (Column c ty opts) = []"
| "item_checks (CheckConstraint k condition) = [(k, condition)]"

definition table_of :: "ident \<Rightarrow> table_item list \<Rightarrow> table_schema" where
  "table_of n items =
     \<lparr>t_name = n, t_columns = concat (map item_columns items), t_primary_key = concat (map item_key items),
      t_foreign_keys = concat (map item_references items), t_indexes = concat (map (item_indexes n) items),
      t_checks = concat (map item_checks items)\<rparr>"

section \<open>Execution\<close>

fun guard :: "bool \<Rightarrow> ddl_error \<Rightarrow> 'a \<Rightarrow> ddl_error + 'a" where
  "guard True e x = Inr x"
| "guard False e x = Inl e"

fun unless :: "ddl_error option \<Rightarrow> 'a \<Rightarrow> ddl_error + 'a" where
  "unless None x = Inr x"
| "unless (Some e) x = Inl e"

text \<open>A statement on one table: the table is edited in place.\<close>

fun with_head :: "table_schema list \<Rightarrow> ddl_error + table_schema \<Rightarrow> ddl_error + schema" where
  "with_head ts (Inl e) = Inl e"
| "with_head ts (Inr t) = Inr (t # ts)"

fun with_tail :: "table_schema \<Rightarrow> ddl_error + schema \<Rightarrow> ddl_error + schema" where
  "with_tail t (Inl e) = Inl e"
| "with_tail t (Inr ts) = Inr (t # ts)"

fun edit_table :: "(table_schema \<Rightarrow> ddl_error + table_schema) \<Rightarrow> ident \<Rightarrow> schema \<Rightarrow> ddl_error + schema"
and edit_here :: "bool \<Rightarrow> (table_schema \<Rightarrow> ddl_error + table_schema) \<Rightarrow> ident \<Rightarrow> table_schema \<Rightarrow> schema \<Rightarrow> ddl_error + schema" where
  "edit_table f n [] = Inl (NoSuchTable n)"
| "edit_table f n (t # ts) = edit_here (t_name t = n) f n t ts"
| "edit_here True f n t ts = with_head ts (f t)"
| "edit_here False f n t ts = with_tail t (edit_table f n ts)"

definition table_ok :: "schema \<Rightarrow> table_schema \<Rightarrow> bool" where
  "table_ok s t \<longleftrightarrow> distinct (column_names t) \<and> distinct (map ix_name (t_indexes t)) \<and>
     list_all (has_column t) (t_primary_key t) \<and>
     list_all (\<lambda>i. ix_columns i \<noteq> [] \<and> list_all (has_column t) (ix_columns i)) (t_indexes t) \<and>
     list_all (reference_ok s t) (t_foreign_keys t)"

fun check_table :: "table_schema \<Rightarrow> ddl_error + schema \<Rightarrow> ddl_error + schema" where
  "check_table t (Inl e) = Inl e"
| "check_table t (Inr s) = guard (table_ok s t) (MalformedTable (t_name t)) s"

definition create_table :: "schema \<Rightarrow> table_schema \<Rightarrow> ddl_error + schema" where
  "create_table s t =
     check_table t (guard (\<not> table_exists (t_name t) s) (TableExists (t_name t)) (s @ [t]))"

definition refers_to :: "ident \<Rightarrow> table_schema \<Rightarrow> bool" where
  "refers_to n t \<longleftrightarrow> t_name t \<noteq> n \<and> list_ex (\<lambda>f. fk_table f = n) (t_foreign_keys t)"

text \<open>
  A new column refers to tables that exist already, its own table among them; a column without a
  default has to accept NULL in the rows that exist.
\<close>

definition new_column_error :: "bool \<Rightarrow> ident \<Rightarrow> col_type \<Rightarrow> column_option list \<Rightarrow> table_schema \<Rightarrow> ddl_error option" where
  "new_column_error referable c ty opts t =
     (if has_column t c then Some (ColumnExists (t_name t) c)
      else if \<not> c_nullable (column_of c ty opts) \<and> c_default (column_of c ty opts) = None then Some (NotNullWithoutDefault (t_name t) c)
      else if list_ex (\<lambda>i. has_index t (ix_name i)) (indexes_of (t_name t) c opts) then Some (IndexExists (t_name t) (Ix (t_name t) c))
      else if PrimaryKey \<in> set opts \<or> \<not> referable
        then Some (BadReference (t_name t) c)
      else None)"

definition append_column :: "ident \<Rightarrow> col_type \<Rightarrow> column_option list \<Rightarrow> table_schema \<Rightarrow> table_schema" where
  "append_column c ty opts t =
     \<lparr>t_name = t_name t, t_columns = t_columns t @ [column_of c ty opts], t_primary_key = t_primary_key t,
      t_foreign_keys = t_foreign_keys t @ item_references (Column c ty opts),
      t_indexes = t_indexes t @ indexes_of (t_name t) c opts, t_checks = t_checks t\<rparr>"

definition add_column :: "schema \<Rightarrow> ident \<Rightarrow> col_type \<Rightarrow> column_option list \<Rightarrow> table_schema \<Rightarrow> ddl_error + table_schema" where
  "add_column s c ty opts t = unless (new_column_error (keys_exist s ty (item_references (Column c ty opts))) c ty opts t)
     (append_column c ty opts t)"

definition dropped_column_error :: "ident \<Rightarrow> table_schema \<Rightarrow> ddl_error option" where
  "dropped_column_error c t =
     (case find_column c (t_columns t) of
        None \<Rightarrow> Some (NoSuchColumn (t_name t) c)
      | Some x \<Rightarrow> if column_in_use t x then Some (ColumnInUse (t_name t) c) else None)"

definition drop_column :: "ident \<Rightarrow> table_schema \<Rightarrow> ddl_error + table_schema" where
  "drop_column c t = unless (dropped_column_error c t)
     (t\<lparr>t_columns := filter (\<lambda>y. c_name y \<noteq> c) (t_columns t)\<rparr>)"

definition alter_column :: "ident \<Rightarrow> (column \<Rightarrow> column) \<Rightarrow> table_schema \<Rightarrow> ddl_error + table_schema" where
  "alter_column c f t = guard (has_column t c) (NoSuchColumn (t_name t) c)
     (t\<lparr>t_columns := update_where (\<lambda>x. c_name x = c) f (t_columns t)\<rparr>)"

definition create_index :: "index \<Rightarrow> table_schema \<Rightarrow> ddl_error + table_schema" where
  "create_index i t = unless
     (if has_index t (ix_name i) then Some (IndexExists (t_name t) (ix_name i))
      else if ix_columns i = [] \<or> \<not> list_all (has_column t) (ix_columns i) then Some (NoSuchIndex (t_name t) (ix_name i))
      else None)
     (t\<lparr>t_indexes := t_indexes t @ [i]\<rparr>)"

definition drop_index :: "index_name \<Rightarrow> table_schema \<Rightarrow> ddl_error + table_schema" where
  "drop_index i t = guard (has_index t i) (NoSuchIndex (t_name t) i)
     (t\<lparr>t_indexes := filter (\<lambda>x. ix_name x \<noteq> i) (t_indexes t)\<rparr>)"

definition has_constraint :: "table_schema \<Rightarrow> ident \<Rightarrow> bool" where
  "has_constraint t k \<longleftrightarrow> list_ex (\<lambda>g. fk_name g = Some k) (t_foreign_keys t)"

definition new_constraint_error :: "bool \<Rightarrow> foreign_key \<Rightarrow> table_schema \<Rightarrow> ddl_error option" where
  "new_constraint_error referable f t =
     (if has_constraint t (the (fk_name f)) then Some (ConstraintExists (t_name t) (the (fk_name f)))
      else if referable then None else Some (BadReference (t_name t) (fk_column f)))"

definition add_foreign_key :: "schema \<Rightarrow> foreign_key \<Rightarrow> table_schema \<Rightarrow> ddl_error + table_schema" where
  "add_foreign_key s f t = unless (new_constraint_error (reference_ok s t f) f t)
     (t\<lparr>t_foreign_keys := t_foreign_keys t @ [f]\<rparr>)"

definition drop_constraint :: "ident \<Rightarrow> table_schema \<Rightarrow> ddl_error + table_schema" where
  "drop_constraint k t = guard (has_constraint t k) (NoSuchConstraint (t_name t) k)
     (t\<lparr>t_foreign_keys := filter (\<lambda>g. fk_name g \<noteq> Some k) (t_foreign_keys t)\<rparr>)"

definition drop_foreign_keys_of :: "ident \<Rightarrow> table_schema \<Rightarrow> ddl_error + table_schema" where
  "drop_foreign_keys_of c t = Inr (t\<lparr>t_foreign_keys := filter (\<lambda>g. fk_column g \<noteq> c) (t_foreign_keys t)\<rparr>)"

fun remove_table :: "ident \<Rightarrow> schema \<Rightarrow> schema"
and remove_here :: "bool \<Rightarrow> ident \<Rightarrow> table_schema \<Rightarrow> schema \<Rightarrow> schema" where
  "remove_table n [] = []"
| "remove_table n (t # ts) = remove_here (t_name t = n) n t ts"
| "remove_here True n t ts = remove_table n ts"
| "remove_here False n t ts = t # remove_table n ts"

fun drop_table :: "ident \<Rightarrow> ddl_error + schema \<Rightarrow> ddl_error + schema" where
  "drop_table n (Inl e) = Inl e"
| "drop_table n (Inr s) = guard (\<not> list_ex (refers_to n) s) (TableReferenced n) (remove_table n s)"

fun execute :: "statement \<Rightarrow> schema \<Rightarrow> ddl_error + schema" where
  "execute (CreateTable n items) s = create_table s (table_of n items)"
| "execute (DropTable n) s =
     drop_table n (guard (table_exists n s) (NoSuchTable n) s)"
| "execute (AddColumn n (Column c ty opts)) s = edit_table (add_column s c ty opts) n s"
| "execute (AddColumn n (CheckConstraint k condition)) s = Inl (MalformedTable n)"
| "execute (DropColumn n c) s = edit_table (drop_column c) n s"
| "execute (AlterDefault n c d) s = edit_table (alter_column c (c_default_update (\<lambda>_. d))) n s"
| "execute (AlterNullable n c b) s = edit_table (alter_column c (c_nullable_update (\<lambda>_. b))) n s"
| "execute (CreateIndex i n cs u w) s =
     edit_table (create_index \<lparr>ix_name = i, ix_columns = cs, ix_unique = u, ix_where = w\<rparr>) n s"
| "execute (DropIndex i n) s = edit_table (drop_index i) n s"
| "execute (CreateForeignKey k n r c rc act) s =
     edit_table (add_foreign_key s
       \<lparr>fk_name = Some k, fk_column = c, fk_table = r, fk_ref_column = rc, fk_on_delete = act\<rparr>) n s"
| "execute (DropConstraint k n) s = edit_table (drop_constraint k) n s"
| "execute (DropForeignKeysOf n c) s = edit_table (drop_foreign_keys_of c) n s"

fun run_ddl :: "statement list \<Rightarrow> schema \<Rightarrow> ddl_error + schema" where
  "run_ddl [] s = Inr s"
| "run_ddl (x # xs) s = bind_result (execute x s) (run_ddl xs)"

lemma guard_Inr_iff [simp]: "guard b e x = Inr y \<longleftrightarrow> b \<and> y = x"
  by (cases b) auto

lemma unless_Inr_iff [simp]: "unless e x = Inr y \<longleftrightarrow> e = None \<and> y = x"
  by (cases e) auto

lemma check_table_Inr_iff [simp]: "check_table t r = Inr s \<longleftrightarrow> r = Inr s \<and> table_ok s t"
  by (cases r) auto

lemma drop_table_Inr_iff [simp]:
  "drop_table n r = Inr s' \<longleftrightarrow> (\<exists>s. r = Inr s \<and> \<not> list_ex (refers_to n) s \<and> s' = remove_table n s)"
  by (cases r) auto

lemma run_ddl_append: "run_ddl (xs @ ys) s = bind_result (run_ddl xs s) (run_ddl ys)"
proof (induction xs arbitrary: s)
  case (Cons x xs)
  then show ?case by (cases "execute x s") auto
qed simp

end
