(* ===== verification/Schema_Migrations.thy ===== *)
theory Schema_Migrations
  imports Schema_Ddl
begin

text \<open>
  The schema part of every migration under \<^verbatim>\<open>alembic/versions/\<close>, in the order of the calls: \<open>ddl_N\<close> is
  \<open>upgrade\<close> of revision \<open>N\<close>, \<open>ddl_N_down\<close> its \<open>downgrade\<close>. The revisions that do not appear change rows
  only. \<open>nullable\<close>, \<open>index\<close>, \<open>unique\<close> and the server default are given as in the source;
  \<open>onupdate\<close> is not rendered into the schema.
\<close>

definition ddl_0001 :: "statement list" where
  "ddl_0001 =
     [CreateTable T_auctions
       [Column C_id Uuid [PrimaryKey],
        Column C_vehicle_id Uuid [Nullable False],
        Column C_status (String 20) [Nullable False, ServerDefault (SaText ''scheduled'')],
        Column C_starting_price (Numeric 12 2) [Nullable False],
        Column C_reserve_price (Numeric 12 2) [Nullable True],
        Column C_starts_at (DateTime True) [Nullable False],
        Column C_ends_at (DateTime True) [Nullable False],
        Column C_created_at (DateTime True) [ServerDefault SaNow],
        Column C_updated_at (DateTime True) [ServerDefault SaNow],
        CheckConstraint K_ck_auction_starting_price_nonneg (Condition [C_starting_price] ''starting_price >= 0''),
        CheckConstraint K_ck_auction_ends_after_starts (Condition [C_ends_at, C_starts_at] ''ends_at > starts_at'')],
      CreateIndex (Ix T_auctions C_vehicle_id) T_auctions [C_vehicle_id] False None,
      CreateIndex (Named K_ix_auctions_status_ends_at) T_auctions [C_status, C_ends_at] False None,
      CreateTable T_bids
       [Column C_id Uuid [PrimaryKey],
        Column C_auction_id Uuid [ForeignKey T_auctions C_id CASCADE, Nullable False],
        Column C_bidder_id Uuid [Nullable False],
        Column C_amount (Numeric 12 2) [Nullable False],
        Column C_status (String 20) [Nullable False, ServerDefault (SaText ''pending'')],
        Column C_kafka_partition Integer [Nullable True],
        Column C_kafka_offset BigInteger [Nullable True],
        Column C_created_at (DateTime True) [ServerDefault SaNow],
        CheckConstraint K_ck_bid_amount_positive (Condition [C_amount] ''amount > 0''),
        CheckConstraint K_ck_bid_status_valid (Condition [C_status] (concat [''status in ('', [CHR 0x27], ''pending'', [CHR 0x27], '','', [CHR 0x27], ''accepted'', [CHR 0x27], '','', [CHR 0x27], ''rejected'', [CHR 0x27], '')'']))],
      CreateIndex (Ix T_bids C_bidder_id) T_bids [C_bidder_id] False None,
      CreateIndex (Named K_ix_bids_auction_amount) T_bids [C_auction_id, C_amount] False None,
      CreateIndex (Named K_uq_bids_kafka_position) T_bids [C_kafka_partition, C_kafka_offset] True (Some (Condition [C_kafka_offset] ''kafka_offset IS NOT NULL''))]"

definition ddl_0001_down :: "statement list" where
  "ddl_0001_down =
     [DropTable T_bids,
      DropTable T_auctions]"

definition ddl_0002 :: "statement list" where
  "ddl_0002 =
     [CreateTable T_menu_items
       [Column C_id Uuid [PrimaryKey],
        Column C_parent_id Uuid [ForeignKey T_menu_items C_id NO_ACTION, Nullable True],
        Column C_label_en (Unicode 100) [Nullable False],
        Column C_label_ar (Unicode 100) [Nullable False],
        Column C_url (String 500) [Nullable False],
        Column C_opens_new_tab Boolean [Nullable False, ServerDefault SaFalse],
        Column C_sort_order Integer [Nullable False, ServerDefault (SaText ''0'')],
        Column C_is_active Boolean [Nullable False, ServerDefault SaTrue],
        Column C_created_at (DateTime True) [ServerDefault SaNow],
        Column C_updated_at (DateTime True) [ServerDefault SaNow]],
      CreateIndex (Ix T_menu_items C_parent_id) T_menu_items [C_parent_id] False None,
      CreateTable T_auction_categories
       [Column C_id Uuid [PrimaryKey],
        Column C_name_en (Unicode 100) [Nullable False],
        Column C_name_ar (Unicode 100) [Nullable False],
        Column C_slug (String 100) [Nullable False, Unique],
        Column C_icon_url (String 500) [Nullable True],
        Column C_link_url (String 500) [Nullable False],
        Column C_sort_order Integer [Nullable False, ServerDefault (SaText ''0'')],
        Column C_is_active Boolean [Nullable False, ServerDefault SaTrue],
        Column C_created_at (DateTime True) [ServerDefault SaNow],
        Column C_updated_at (DateTime True) [ServerDefault SaNow]],
      CreateTable T_featured_auctions
       [Column C_id Uuid [PrimaryKey],
        Column C_auction_id Uuid [ForeignKey T_auctions C_id SET_NULL, Nullable True],
        Column C_title_en (Unicode 200) [Nullable False],
        Column C_title_ar (Unicode 200) [Nullable False],
        Column C_image_url (String 500) [Nullable True],
        Column C_badge_en (Unicode 50) [Nullable True],
        Column C_badge_ar (Unicode 50) [Nullable True],
        Column C_sort_order Integer [Nullable False, ServerDefault (SaText ''0'')],
        Column C_is_active Boolean [Nullable False, ServerDefault SaTrue],
        Column C_created_at (DateTime True) [ServerDefault SaNow],
        Column C_updated_at (DateTime True) [ServerDefault SaNow]],
      CreateIndex (Ix T_featured_auctions C_auction_id) T_featured_auctions [C_auction_id] False None,
      CreateTable T_how_it_works_steps
       [Column C_id Uuid [PrimaryKey],
        Column C_step_number Integer [Nullable False],
        Column C_title_en (Unicode 150) [Nullable False],
        Column C_title_ar (Unicode 150) [Nullable False],
        Column C_description_en (Unicode 500) [Nullable False],
        Column C_description_ar (Unicode 500) [Nullable False],
        Column C_icon_url (String 500) [Nullable True],
        Column C_sort_order Integer [Nullable False, ServerDefault (SaText ''0'')],
        Column C_is_active Boolean [Nullable False, ServerDefault SaTrue],
        Column C_created_at (DateTime True) [ServerDefault SaNow],
        Column C_updated_at (DateTime True) [ServerDefault SaNow]],
      CreateTable T_value_added_services
       [Column C_id Uuid [PrimaryKey],
        Column C_name_en (Unicode 150) [Nullable False],
        Column C_name_ar (Unicode 150) [Nullable False],
        Column C_description_en (Unicode 500) [Nullable True],
        Column C_description_ar (Unicode 500) [Nullable True],
        Column C_icon_url (String 500) [Nullable True],
        Column C_link_url (String 500) [Nullable False],
        Column C_sort_order Integer [Nullable False, ServerDefault (SaText ''0'')],
        Column C_is_active Boolean [Nullable False, ServerDefault SaTrue],
        Column C_created_at (DateTime True) [ServerDefault SaNow],
        Column C_updated_at (DateTime True) [ServerDefault SaNow]],
      CreateTable T_footer_settings
       [Column C_id Uuid [PrimaryKey],
        Column C_about_text_en (Unicode 1000) [Nullable False],
        Column C_about_text_ar (Unicode 1000) [Nullable False],
        Column C_copyright_en (Unicode 200) [Nullable False],
        Column C_copyright_ar (Unicode 200) [Nullable False],
        Column C_support_phone (String 50) [Nullable True],
        Column C_support_email (String 200) [Nullable True],
        Column C_facebook_url (String 500) [Nullable True],
        Column C_instagram_url (String 500) [Nullable True],
        Column C_youtube_url (String 500) [Nullable True],
        Column C_app_store_url (String 500) [Nullable True],
        Column C_google_play_url (String 500) [Nullable True],
        Column C_updated_at (DateTime True) [ServerDefault SaNow]],
      CreateTable T_footer_links
       [Column C_id Uuid [PrimaryKey],
        Column C_section (String 50) [Nullable False, ServerDefault (SaText ''quick_links'')],
        Column C_label_en (Unicode 150) [Nullable False],
        Column C_label_ar (Unicode 150) [Nullable False],
        Column C_url (String 500) [Nullable False],
        Column C_sort_order Integer [Nullable False, ServerDefault (SaText ''0'')],
        Column C_is_active Boolean [Nullable False, ServerDefault SaTrue],
        Column C_created_at (DateTime True) [ServerDefault SaNow],
        Column C_updated_at (DateTime True) [ServerDefault SaNow]]]"

definition ddl_0002_down :: "statement list" where
  "ddl_0002_down =
     [DropTable T_footer_links,
      DropTable T_footer_settings,
      DropTable T_value_added_services,
      DropTable T_how_it_works_steps,
      DropTable T_featured_auctions,
      DropTable T_auction_categories,
      DropTable T_menu_items]"

definition ddl_0003 :: "statement list" where
  "ddl_0003 =
     [CreateTable T_users
       [Column C_id Uuid [PrimaryKey],
        Column C_email (String 320) [Nullable False],
        Column C_password_hash (String 255) [Nullable False],
        Column C_first_name (Unicode 100) [Nullable False],
        Column C_last_name (Unicode 100) [Nullable False],
        Column C_phone (String 30) [Nullable True],
        Column C_role (String 30) [Nullable False, ServerDefault (SaText ''Buyer'')],
        Column C_is_active Boolean [Nullable False, ServerDefault SaTrue],
        Column C_is_email_verified Boolean [Nullable False, ServerDefault SaFalse],
        Column C_failed_login_attempts Integer [Nullable False, ServerDefault (SaText ''0'')],
        Column C_locked_until (DateTime True) [Nullable True],
        Column C_last_login_at (DateTime True) [Nullable True],
        Column C_created_at (DateTime True) [ServerDefault SaNow],
        Column C_updated_at (DateTime True) [ServerDefault SaNow],
        CheckConstraint K_ck_users_failed_logins_nonneg (Condition [C_failed_login_attempts] ''failed_login_attempts >= 0'')],
      CreateIndex (Named K_uq_users_email) T_users [C_email] True None,
      CreateTable T_refresh_tokens
       [Column C_id Uuid [PrimaryKey],
        Column C_user_id Uuid [ForeignKey T_users C_id CASCADE, Nullable False],
        Column C_token_hash (String 64) [Nullable False],
        Column C_expires_at (DateTime True) [Nullable False],
        Column C_revoked_at (DateTime True) [Nullable True],
        Column C_created_at (DateTime True) [ServerDefault SaNow]],
      CreateIndex (Ix T_refresh_tokens C_user_id) T_refresh_tokens [C_user_id] False None,
      CreateIndex (Named K_uq_refresh_tokens_token_hash) T_refresh_tokens [C_token_hash] True None,
      CreateTable T_password_reset_tokens
       [Column C_id Uuid [PrimaryKey],
        Column C_user_id Uuid [ForeignKey T_users C_id CASCADE, Nullable False],
        Column C_token_hash (String 64) [Nullable False],
        Column C_expires_at (DateTime True) [Nullable False],
        Column C_used_at (DateTime True) [Nullable True],
        Column C_created_at (DateTime True) [ServerDefault SaNow]],
      CreateIndex (Ix T_password_reset_tokens C_user_id) T_password_reset_tokens [C_user_id] False None,
      CreateIndex (Named K_uq_password_reset_tokens_token_hash) T_password_reset_tokens [C_token_hash] True None,
      CreateTable T_email_verification_tokens
       [Column C_id Uuid [PrimaryKey],
        Column C_user_id Uuid [ForeignKey T_users C_id CASCADE, Nullable False],
        Column C_token_hash (String 64) [Nullable False],
        Column C_expires_at (DateTime True) [Nullable False],
        Column C_used_at (DateTime True) [Nullable True],
        Column C_created_at (DateTime True) [ServerDefault SaNow]],
      CreateIndex (Ix T_email_verification_tokens C_user_id) T_email_verification_tokens [C_user_id] False None,
      CreateIndex (Named K_uq_email_verification_tokens_token_hash) T_email_verification_tokens [C_token_hash] True None]"

definition ddl_0003_down :: "statement list" where
  "ddl_0003_down =
     [DropTable T_email_verification_tokens,
      DropTable T_password_reset_tokens,
      DropTable T_refresh_tokens,
      DropIndex (Named K_uq_users_email) T_users,
      DropTable T_users]"

definition ddl_0004 :: "statement list" where
  "ddl_0004 =
     [AddColumn T_menu_items (Column C_icon_class (String 100) [Nullable True]),
      AddColumn T_menu_items (Column C_item_type (String 30) [Nullable False, ServerDefault (SaText ''link'')]),
      AddColumn T_menu_items (Column C_visibility (String 30) [Nullable False, ServerDefault (SaText ''all'')]),
      AlterDefault T_menu_items C_item_type None,
      AlterDefault T_menu_items C_visibility None]"

definition ddl_0004_down :: "statement list" where
  "ddl_0004_down =
     [DropColumn T_menu_items C_visibility,
      DropColumn T_menu_items C_item_type,
      DropColumn T_menu_items C_icon_class]"

definition ddl_0005 :: "statement list" where
  "ddl_0005 =
     [AddColumn T_featured_auctions (Column C_category_key (String 80) [Nullable False, ServerDefault (SaText ''newly_listed'')]),
      AddColumn T_featured_auctions (Column C_category_label_en (Unicode 100) [Nullable False, ServerDefault (SaText ''Newly Listed Vehicles'')]),
      AddColumn T_featured_auctions (Column C_category_label_ar (Unicode 100) [Nullable False, ServerDefault (SaText [CHR 0xD9, CHR 0x85, CHR 0xD8, CHR 0xB1, CHR 0xD9, CHR 0x83, CHR 0xD8, CHR 0xA8, CHR 0xD8, CHR 0xA7, CHR 0xD8, CHR 0xAA, CHR 0x20, CHR 0xD9, CHR 0x85, CHR 0xD8, CHR 0xAF, CHR 0xD8, CHR 0xB1, CHR 0xD8, CHR 0xAC, CHR 0xD8, CHR 0xA9, CHR 0x20, CHR 0xD8, CHR 0xAD, CHR 0xD8, CHR 0xAF, CHR 0xD9, CHR 0x8A, CHR 0xD8, CHR 0xAB, CHR 0xD9, CHR 0x8B, CHR 0xD8, CHR 0xA7])]),
      AddColumn T_featured_auctions (Column C_visibility (String 30) [Nullable False, ServerDefault (SaText ''all'')]),
      AddColumn T_featured_auctions (Column C_detail_url (String 500) [Nullable True]),
      AddColumn T_featured_auctions (Column C_lot_number (String 50) [Nullable True]),
      AddColumn T_featured_auctions (Column C_mileage (String 50) [Nullable True]),
      AddColumn T_featured_auctions (Column C_location_en (Unicode 100) [Nullable True]),
      AddColumn T_featured_auctions (Column C_location_ar (Unicode 100) [Nullable True]),
      AddColumn T_featured_auctions (Column C_bid_amount (String 50) [Nullable True]),
      AddColumn T_featured_auctions (Column C_countdown_label (String 50) [Nullable True]),
      AddColumn T_featured_auctions (Column C_category_sort_order Integer [Nullable False, ServerDefault (SaText ''0'')]),
      AlterDefault T_featured_auctions C_category_key None,
      AlterDefault T_featured_auctions C_category_label_en None,
      AlterDefault T_featured_auctions C_category_label_ar None,
      AlterDefault T_featured_auctions C_visibility None,
      AlterDefault T_featured_auctions C_category_sort_order None]"

definition ddl_0005_down :: "statement list" where
  "ddl_0005_down =
     [DropColumn T_featured_auctions C_category_sort_order,
      DropColumn T_featured_auctions C_countdown_label,
      DropColumn T_featured_auctions C_bid_amount,
      DropColumn T_featured_auctions C_location_ar,
      DropColumn T_featured_auctions C_location_en,
      DropColumn T_featured_auctions C_mileage,
      DropColumn T_featured_auctions C_lot_number,
      DropColumn T_featured_auctions C_detail_url,
      DropColumn T_featured_auctions C_visibility,
      DropColumn T_featured_auctions C_category_label_ar,
      DropColumn T_featured_auctions C_category_label_en,
      DropColumn T_featured_auctions C_category_key]"

definition ddl_0006 :: "statement list" where
  "ddl_0006 =
     [CreateTable T_vehicle_listings
       [Column C_id Uuid [PrimaryKey],
        Column C_title_en (Unicode 200) [Nullable False],
        Column C_title_ar (Unicode 200) [Nullable False],
        Column C_image_url (String 500) [Nullable True],
        Column C_detail_url (String 500) [Nullable False],
        Column C_lot_number (String 50) [Nullable True],
        Column C_mileage (String 50) [Nullable True],
        Column C_location_en (Unicode 100) [Nullable True],
        Column C_location_ar (Unicode 100) [Nullable True],
        Column C_bid_amount (String 50) [Nullable True],
        Column C_countdown_label (String 50) [Nullable True],
        Column C_is_active Boolean [Nullable False, ServerDefault SaTrue],
        Column C_created_at (DateTime True) [ServerDefault SaNow],
        Column C_updated_at (DateTime True) [ServerDefault SaNow]],
      AddColumn T_featured_auctions (Column C_vehicle_listing_id Uuid [Nullable True]),
      CreateIndex (Ix T_featured_auctions C_vehicle_listing_id) T_featured_auctions [C_vehicle_listing_id] False None,
      CreateForeignKey K_fk_featured_auctions_vehicle_listing_id T_featured_auctions T_vehicle_listings C_vehicle_listing_id C_id SET_NULL]"

definition ddl_0006_down :: "statement list" where
  "ddl_0006_down =
     [DropConstraint K_fk_featured_auctions_vehicle_listing_id T_featured_auctions,
      DropIndex (Ix T_featured_auctions C_vehicle_listing_id) T_featured_auctions,
      DropColumn T_featured_auctions C_vehicle_listing_id,
      DropTable T_vehicle_listings]"

definition CARD_COLUMNS :: "ident list" where
  "CARD_COLUMNS =
     [C_countdown_label, C_bid_amount, C_location_ar, C_location_en, C_mileage, C_lot_number, C_detail_url, C_image_url, C_title_ar, C_title_en]"

definition ddl_0007 :: "statement list" where
  "ddl_0007 = map (DropColumn T_featured_auctions) CARD_COLUMNS"

definition ddl_0007_down :: "statement list" where
  "ddl_0007_down =
     [AddColumn T_featured_auctions (Column C_title_en (Unicode 200) [Nullable True]),
      AddColumn T_featured_auctions (Column C_title_ar (Unicode 200) [Nullable True]),
      AddColumn T_featured_auctions (Column C_image_url (String 500) [Nullable True]),
      AddColumn T_featured_auctions (Column C_detail_url (String 500) [Nullable True]),
      AddColumn T_featured_auctions (Column C_lot_number (String 50) [Nullable True]),
      AddColumn T_featured_auctions (Column C_mileage (String 50) [Nullable True]),
      AddColumn T_featured_auctions (Column C_location_en (Unicode 100) [Nullable True]),
      AddColumn T_featured_auctions (Column C_location_ar (Unicode 100) [Nullable True]),
      AddColumn T_featured_auctions (Column C_bid_amount (String 50) [Nullable True]),
      AddColumn T_featured_auctions (Column C_countdown_label (String 50) [Nullable True])]"

definition ddl_0008 :: "statement list" where
  "ddl_0008 =
     [CreateForeignKey K_fk_auctions_vehicle_id T_auctions T_vehicle_listings C_vehicle_id C_id NO_ACTION]"

definition ddl_0008_down :: "statement list" where
  "ddl_0008_down =
     [DropConstraint K_fk_auctions_vehicle_id T_auctions]"

definition ddl_0009 :: "statement list" where
  "ddl_0009 =
     [AddColumn T_vehicle_listings (Column C_seller_id Uuid [Nullable True]),
      CreateIndex (Ix T_vehicle_listings C_seller_id) T_vehicle_listings [C_seller_id] False None,
      CreateForeignKey K_fk_vehicle_listings_seller_id T_vehicle_listings T_users C_seller_id C_id SET_NULL,
      CreateForeignKey K_fk_bids_bidder_id T_bids T_users C_bidder_id C_id NO_ACTION]"

definition ddl_0009_down :: "statement list" where
  "ddl_0009_down =
     [DropConstraint K_fk_bids_bidder_id T_bids,
      DropConstraint K_fk_vehicle_listings_seller_id T_vehicle_listings,
      DropIndex (Ix T_vehicle_listings C_seller_id) T_vehicle_listings,
      DropColumn T_vehicle_listings C_seller_id]"

definition ddl_0010 :: "statement list" where
  "ddl_0010 =
     [CreateTable T_admin_nav_items
       [Column C_id Uuid [PrimaryKey],
        Column C_label_en (Unicode 100) [Nullable False],
        Column C_label_ar (Unicode 100) [Nullable False],
        Column C_icon_class (String 100) [Nullable True],
        Column C_url (String 500) [Nullable False],
        Column C_sort_order Integer [Nullable False, ServerDefault (SaText ''0'')],
        Column C_is_active Boolean [Nullable False, ServerDefault SaTrue],
        Column C_created_at (DateTime True) [ServerDefault SaNow],
        Column C_updated_at (DateTime True) [ServerDefault SaNow]],
      CreateTable T_admin_dashboard_cards
       [Column C_id Uuid [PrimaryKey],
        Column C_section_key (String 50) [Nullable False],
        Column C_label_en (Unicode 150) [Nullable False],
        Column C_label_ar (Unicode 150) [Nullable False],
        Column C_description_en (Unicode 300) [Nullable True],
        Column C_description_ar (Unicode 300) [Nullable True],
        Column C_icon_class (String 100) [Nullable True],
        Column C_url (String 500) [Nullable False],
        Column C_sort_order Integer [Nullable False, ServerDefault (SaText ''0'')],
        Column C_is_active Boolean [Nullable False, ServerDefault SaTrue],
        Column C_created_at (DateTime True) [ServerDefault SaNow],
        Column C_updated_at (DateTime True) [ServerDefault SaNow]],
      CreateIndex (Ix T_admin_dashboard_cards C_section_key) T_admin_dashboard_cards [C_section_key] False None,
      AlterDefault T_admin_nav_items C_sort_order None,
      AlterDefault T_admin_nav_items C_is_active None,
      AlterDefault T_admin_dashboard_cards C_sort_order None,
      AlterDefault T_admin_dashboard_cards C_is_active None]"

definition ddl_0010_down :: "statement list" where
  "ddl_0010_down =
     [DropIndex (Ix T_admin_dashboard_cards C_section_key) T_admin_dashboard_cards,
      DropTable T_admin_dashboard_cards,
      DropTable T_admin_nav_items]"

definition ddl_0011 :: "statement list" where
  "ddl_0011 =
     [AddColumn T_admin_nav_items (Column C_parent_id Uuid [Nullable True]),
      CreateIndex (Ix T_admin_nav_items C_parent_id) T_admin_nav_items [C_parent_id] False None,
      CreateForeignKey K_fk_admin_nav_items_parent_id T_admin_nav_items T_admin_nav_items C_parent_id C_id NO_ACTION]"

definition ddl_0011_down :: "statement list" where
  "ddl_0011_down =
     [DropConstraint K_fk_admin_nav_items_parent_id T_admin_nav_items,
      DropIndex (Ix T_admin_nav_items C_parent_id) T_admin_nav_items,
      DropColumn T_admin_nav_items C_parent_id]"

definition ddl_0012 :: "statement list" where
  "ddl_0012 =
     [AddColumn T_admin_dashboard_cards (Column C_image_url (String 500) [Nullable True])]"

definition ddl_0012_down :: "statement list" where
  "ddl_0012_down =
     [DropColumn T_admin_dashboard_cards C_image_url]"

definition ddl_0017 :: "statement list" where
  "ddl_0017 =
     [CreateTable T_vehicle_status_metrics
       [Column C_id Uuid [PrimaryKey],
        Column C_group_key (String 50) [Nullable False, Indexed],
        Column C_stat_key (String 100) [Nullable False],
        Column C_label_en (Unicode 150) [Nullable False],
        Column C_label_ar (Unicode 150) [Nullable False],
        Column C_icon_class (String 100) [Nullable True],
        Column C_image_url (String 500) [Nullable True],
        Column C_color_class (String 50) [Nullable True],
        Column C_sort_order Integer [Nullable False, ServerDefault (SaText ''0'')],
        Column C_is_active Boolean [Nullable False, ServerDefault SaTrue],
        Column C_created_at (DateTime False) [Nullable False, ServerDefault SaNow],
        Column C_updated_at (DateTime False) [Nullable False, ServerDefault SaNow]]]"

definition ddl_0017_down :: "statement list" where
  "ddl_0017_down =
     [DropTable T_vehicle_status_metrics]"

definition ddl_0018 :: "statement list" where
  "ddl_0018 =
     [CreateTable T_vehicle_payment_records
       [Column C_id Uuid [PrimaryKey],
        Column C_lot_no (String 50) [Nullable False, Indexed],
        Column C_chassis_number (String 100) [Nullable False, Indexed],
        Column C_title (Unicode 200) [Nullable False],
        Column C_year_of_make Integer [Nullable False],
        Column C_buyer_name (Unicode 150) [Nullable False, Indexed],
        Column C_buyer_email (String 200) [Nullable False],
        Column C_seller_name (Unicode 150) [Nullable False, Indexed],
        Column C_seller_email (String 200) [Nullable False],
        Column C_payment_status (String 50) [Nullable False, Indexed],
        Column C_payment_due_date Date [Nullable True],
        Column C_location (Unicode 200) [Nullable False],
        Column C_max_bid (Numeric 12 2) [Nullable False],
        Column C_created_at (DateTime False) [Nullable False, ServerDefault SaNow],
        Column C_updated_at (DateTime False) [Nullable False, ServerDefault SaNow]]]"

definition ddl_0018_down :: "statement list" where
  "ddl_0018_down =
     [DropTable T_vehicle_payment_records]"

definition simple_lookup_table :: "ident \<Rightarrow> nat \<Rightarrow> statement" where
  "simple_lookup_table name name_len =
     CreateTable name
       [Column C_id Uuid [PrimaryKey],
        Column C_name_en (Unicode name_len) [Nullable False],
        Column C_name_ar (Unicode name_len) [Nullable False],
        Column C_sort_order Integer [Nullable False, ServerDefault (SaText ''0'')],
        Column C_is_active Boolean [Nullable False, ServerDefault SaTrue],
        Column C_created_at (DateTime False) [Nullable False, ServerDefault SaNow],
        Column C_updated_at (DateTime False) [Nullable False, ServerDefault SaNow]]"

definition ddl_0019 :: "statement list" where
  "ddl_0019 =
     [simple_lookup_table T_vehicle_makes 100,
      CreateTable T_vehicle_models
       [Column C_id Uuid [PrimaryKey],
        Column C_make_id Uuid [ForeignKey T_vehicle_makes C_id CASCADE, Nullable False, Indexed],
        Column C_name_en (Unicode 100) [Nullable False],
        Column C_name_ar (Unicode 100) [Nullable False],
        Column C_sort_order Integer [Nullable False, ServerDefault (SaText ''0'')],
        Column C_is_active Boolean [Nullable False, ServerDefault SaTrue],
        Column C_created_at (DateTime False) [Nullable False, ServerDefault SaNow],
        Column C_updated_at (DateTime False) [Nullable False, ServerDefault SaNow]],
      simple_lookup_table T_vehicle_branches 100,
      simple_lookup_table T_vehicle_colors 50,
      simple_lookup_table T_vehicle_key_options 50,
      simple_lookup_table T_fuel_types 50,
      simple_lookup_table T_bidding_models 100,
      CreateTable T_vehicle_years
       [Column C_id Uuid [PrimaryKey],
        Column C_year Integer [Nullable False, Unique],
        Column C_sort_order Integer [Nullable False, ServerDefault (SaText ''0'')],
        Column C_is_active Boolean [Nullable False, ServerDefault SaTrue],
        Column C_created_at (DateTime False) [Nullable False, ServerDefault SaNow],
        Column C_updated_at (DateTime False) [Nullable False, ServerDefault SaNow]]]"

definition ddl_0019_down :: "statement list" where
  "ddl_0019_down =
     [DropTable T_vehicle_years,
      DropTable T_vehicle_models,
      DropTable T_vehicle_makes,
      DropTable T_bidding_models,
      DropTable T_fuel_types,
      DropTable T_vehicle_key_options,
      DropTable T_vehicle_colors,
      DropTable T_vehicle_branches]"

definition ddl_0020 :: "statement list" where
  "ddl_0020 =
     [AddColumn T_vehicle_listings (Column C_chassis_number (String 100) [Nullable True]),
      CreateIndex (Ix T_vehicle_listings C_chassis_number) T_vehicle_listings [C_chassis_number] True (Some (Condition [C_chassis_number] ''chassis_number IS NOT NULL'')),
      AddColumn T_vehicle_listings (Column C_make_id Uuid [ForeignKey T_vehicle_makes C_id NO_ACTION, Nullable True]),
      AddColumn T_vehicle_listings (Column C_model_id Uuid [ForeignKey T_vehicle_models C_id NO_ACTION, Nullable True]),
      AddColumn T_vehicle_listings (Column C_branch_id Uuid [ForeignKey T_vehicle_branches C_id NO_ACTION, Nullable True]),
      AddColumn T_vehicle_listings (Column C_color_id Uuid [ForeignKey T_vehicle_colors C_id NO_ACTION, Nullable True]),
      AddColumn T_vehicle_listings (Column C_keys_option_id Uuid [ForeignKey T_vehicle_key_options C_id NO_ACTION, Nullable True]),
      AddColumn T_vehicle_listings (Column C_fuel_type_id Uuid [ForeignKey T_fuel_types C_id NO_ACTION, Nullable True]),
      AddColumn T_vehicle_listings (Column C_bidding_model_id Uuid [ForeignKey T_bidding_models C_id SET_NULL, Nullable True]),
      AddColumn T_vehicle_listings (Column C_year Integer [Nullable True]),
      AddColumn T_vehicle_listings (Column C_target_selling_price (Numeric 12 2) [Nullable True]),
      AddColumn T_vehicle_listings (Column C_minimum_selling_price (Numeric 12 2) [Nullable True]),
      AddColumn T_vehicle_listings (Column C_previous_number_plate (String 50) [Nullable True]),
      AddColumn T_vehicle_listings (Column C_sub_seller_id Uuid [ForeignKey T_users C_id NO_ACTION, Nullable True]),
      AddColumn T_vehicle_listings (Column C_created_by_id Uuid [ForeignKey T_users C_id NO_ACTION, Nullable True]),
      AddColumn T_vehicle_listings (Column C_mulkhiya_document_url (String 500) [Nullable True]),
      AddColumn T_vehicle_listings (Column C_terms_accepted Boolean [Nullable False, ServerDefault SaFalse]),
      AddColumn T_vehicle_listings (Column C_status (String 30) [Nullable False, ServerDefault (SaText ''submitted'')])]"

definition ddl_0020_down :: "statement list" where
  "ddl_0020_down =
     [DropColumn T_vehicle_listings C_status,
      DropColumn T_vehicle_listings C_terms_accepted,
      DropColumn T_vehicle_listings C_mulkhiya_document_url,
      DropColumn T_vehicle_listings C_created_by_id,
      DropColumn T_vehicle_listings C_sub_seller_id,
      DropColumn T_vehicle_listings C_previous_number_plate,
      DropColumn T_vehicle_listings C_minimum_selling_price,
      DropColumn T_vehicle_listings C_target_selling_price,
      DropColumn T_vehicle_listings C_year,
      DropColumn T_vehicle_listings C_bidding_model_id,
      DropColumn T_vehicle_listings C_fuel_type_id,
      DropColumn T_vehicle_listings C_keys_option_id,
      DropColumn T_vehicle_listings C_color_id,
      DropColumn T_vehicle_listings C_branch_id,
      DropColumn T_vehicle_listings C_model_id,
      DropColumn T_vehicle_listings C_make_id,
      DropIndex (Ix T_vehicle_listings C_chassis_number) T_vehicle_listings,
      DropColumn T_vehicle_listings C_chassis_number]"

definition ddl_0022 :: "statement list" where
  "ddl_0022 =
     [CreateTable T_sub_sellers
       [Column C_id Uuid [PrimaryKey],
        Column C_seller_id Uuid [ForeignKey T_users C_id CASCADE, Nullable False, Indexed],
        Column C_name (Unicode 150) [Nullable False],
        Column C_phone (String 30) [Nullable True],
        Column C_external_id (String 50) [Nullable True, Indexed],
        Column C_is_active Boolean [Nullable False, ServerDefault SaTrue],
        Column C_created_at (DateTime False) [Nullable False, ServerDefault SaNow],
        Column C_updated_at (DateTime False) [Nullable False, ServerDefault SaNow]],
      DropForeignKeysOf T_vehicle_listings C_sub_seller_id,
      DropColumn T_vehicle_listings C_sub_seller_id,
      AddColumn T_vehicle_listings (Column C_sub_seller_id Uuid [ForeignKey T_sub_sellers C_id NO_ACTION, Nullable True])]"

definition ddl_0022_down :: "statement list" where
  "ddl_0022_down =
     [DropForeignKeysOf T_vehicle_listings C_sub_seller_id,
      DropColumn T_vehicle_listings C_sub_seller_id,
      AddColumn T_vehicle_listings (Column C_sub_seller_id Uuid [ForeignKey T_users C_id NO_ACTION, Nullable True]),
      DropTable T_sub_sellers]"

definition ddl_0029 :: "statement list" where
  "ddl_0029 =
     [CreateTable T_roles
       [Column C_id Uuid [PrimaryKey],
        Column C_name (Unicode 50) [Nullable False],
        Column C_description (Unicode 255) [Nullable True],
        Column C_is_active Boolean [Nullable False, ServerDefault SaTrue],
        Column C_created_at (DateTime True) [ServerDefault SaNow],
        Column C_updated_at (DateTime True) [ServerDefault SaNow]],
      CreateIndex (Named K_uq_roles_name) T_roles [C_name] True None,
      CreateTable T_user_roles
       [Column C_id Uuid [PrimaryKey],
        Column C_user_id Uuid [ForeignKey T_users C_id CASCADE, Nullable False],
        Column C_role_id Uuid [ForeignKey T_roles C_id CASCADE, Nullable False],
        Column C_is_primary Boolean [Nullable False, ServerDefault SaFalse],
        Column C_assigned_at (DateTime True) [ServerDefault SaNow]],
      CreateIndex (Ix T_user_roles C_user_id) T_user_roles [C_user_id] False None,
      CreateIndex (Ix T_user_roles C_role_id) T_user_roles [C_role_id] False None,
      CreateIndex (Named K_uq_user_roles_user_id_role_id) T_user_roles [C_user_id, C_role_id] True None,
      CreateIndex (Named K_uq_user_roles_one_primary_per_user) T_user_roles [C_user_id] True (Some (Condition [C_is_primary] ''is_primary = 1'')),
      AlterDefault T_roles C_is_active None,
      AlterDefault T_user_roles C_is_primary None]"

definition ddl_0029_down :: "statement list" where
  "ddl_0029_down =
     [DropIndex (Named K_uq_user_roles_one_primary_per_user) T_user_roles,
      DropIndex (Named K_uq_user_roles_user_id_role_id) T_user_roles,
      DropIndex (Ix T_user_roles C_role_id) T_user_roles,
      DropIndex (Ix T_user_roles C_user_id) T_user_roles,
      DropTable T_user_roles,
      DropIndex (Named K_uq_roles_name) T_roles,
      DropTable T_roles]"

definition ddl_0030 :: "statement list" where
  "ddl_0030 =
     [AddColumn T_users (Column C_primary_role_id Uuid [Nullable True]),
      AlterNullable T_users C_primary_role_id False,
      CreateForeignKey K_fk_users_primary_role_id_roles T_users T_roles C_primary_role_id C_id NO_ACTION,
      CreateIndex (Ix T_users C_primary_role_id) T_users [C_primary_role_id] False None,
      AlterDefault T_users C_role None,
      DropColumn T_users C_role,
      DropIndex (Named K_uq_user_roles_one_primary_per_user) T_user_roles,
      DropColumn T_user_roles C_is_primary]"

definition ddl_0030_down :: "statement list" where
  "ddl_0030_down =
     [AddColumn T_user_roles (Column C_is_primary Boolean [Nullable False, ServerDefault SaFalse]),
      AlterDefault T_user_roles C_is_primary None,
      CreateIndex (Named K_uq_user_roles_one_primary_per_user) T_user_roles [C_user_id] True (Some (Condition [C_is_primary] ''is_primary = 1'')),
      AddColumn T_users (Column C_role (String 30) [Nullable True]),
      AlterNullable T_users C_role False,
      AlterDefault T_users C_role (Some (SaText ''Buyer'')),
      DropIndex (Ix T_users C_primary_role_id) T_users,
      DropConstraint K_fk_users_primary_role_id_roles T_users,
      DropColumn T_users C_primary_role_id]"

end
