(* ===== verification/Schema_Models.thy ===== *)
theory Schema_Models
  imports Schema_Ddl
begin

text \<open>
  The schema that the ORM classes under \<^verbatim>\<open>models/\<close> declare, one definition per class, each table after those it
  refers to. A column is nullable as its \<open>Mapped\<close> annotation or its
  \<open>nullable\<close> says; \<open>Mapped[int]\<close> is an INTEGER and \<open>Mapped[datetime]\<close> a DATETIME without a time zone, the
  defaults of SQLAlchemy. Python-side defaults are not part of the schema. A named
  \<open>UniqueConstraint\<close> is given by its unique index.
\<close>

definition declared :: "ident \<Rightarrow> table_item list \<Rightarrow> index list \<Rightarrow> table_schema" where
  "declared n items ixs = (let t = table_of n items in t\<lparr>t_indexes := t_indexes t @ ixs\<rparr>)"

definition admin_dashboard_cards_model :: table_schema where
  "admin_dashboard_cards_model = declared T_admin_dashboard_cards
       [Column C_id Uuid [PrimaryKey],
        Column C_section_key (String 50) [Nullable False, Indexed],
        Column C_label_en (Unicode 150) [Nullable False],
        Column C_label_ar (Unicode 150) [Nullable False],
        Column C_description_en (Unicode 300) [Nullable True],
        Column C_description_ar (Unicode 300) [Nullable True],
        Column C_icon_class (String 100) [Nullable True],
        Column C_url (String 500) [Nullable False],
        Column C_image_url (String 500) [Nullable True],
        Column C_sort_order Integer [Nullable False],
        Column C_is_active Boolean [Nullable False],
        Column C_created_at (DateTime False) [Nullable False, ServerDefault SaNow],
        Column C_updated_at (DateTime False) [Nullable False, ServerDefault SaNow]]
       []"

definition admin_nav_items_model :: table_schema where
  "admin_nav_items_model = declared T_admin_nav_items
       [Column C_id Uuid [PrimaryKey],
        Column C_parent_id Uuid [ForeignKey T_admin_nav_items C_id NO_ACTION, Nullable True],
        Column C_label_en (Unicode 100) [Nullable False],
        Column C_label_ar (Unicode 100) [Nullable False],
        Column C_icon_class (String 100) [Nullable True],
        Column C_url (String 500) [Nullable False],
        Column C_sort_order Integer [Nullable False],
        Column C_is_active Boolean [Nullable False],
        Column C_created_at (DateTime False) [Nullable False, ServerDefault SaNow],
        Column C_updated_at (DateTime False) [Nullable False, ServerDefault SaNow]]
       []"

definition auction_categories_model :: table_schema where
  "auction_categories_model = declared T_auction_categories
       [Column C_id Uuid [PrimaryKey],
        Column C_name_en (Unicode 100) [Nullable False],
        Column C_name_ar (Unicode 100) [Nullable False],
        Column C_slug (String 100) [Nullable False, Unique],
        Column C_icon_url (String 500) [Nullable True],
        Column C_link_url (String 500) [Nullable False],
        Column C_sort_order Integer [Nullable False],
        Column C_is_active Boolean [Nullable False],
        Column C_created_at (DateTime False) [Nullable False, ServerDefault SaNow],
        Column C_updated_at (DateTime False) [Nullable False, ServerDefault SaNow]]
       []"

definition bidding_models_model :: table_schema where
  "bidding_models_model = declared T_bidding_models
       [Column C_id Uuid [PrimaryKey],
        Column C_name_en (Unicode 100) [Nullable False],
        Column C_name_ar (Unicode 100) [Nullable False],
        Column C_sort_order Integer [Nullable False],
        Column C_is_active Boolean [Nullable False],
        Column C_created_at (DateTime False) [Nullable False, ServerDefault SaNow],
        Column C_updated_at (DateTime False) [Nullable False, ServerDefault SaNow]]
       []"

definition footer_links_model :: table_schema where
  "footer_links_model = declared T_footer_links
       [Column C_id Uuid [PrimaryKey],
        Column C_section (String 50) [Nullable False],
        Column C_label_en (Unicode 150) [Nullable False],
        Column C_label_ar (Unicode 150) [Nullable False],
        Column C_url (String 500) [Nullable False],
        Column C_sort_order Integer [Nullable False],
        Column C_is_active Boolean [Nullable False],
        Column C_created_at (DateTime False) [Nullable False, ServerDefault SaNow],
        Column C_updated_at (DateTime False) [Nullable False, ServerDefault SaNow]]
       []"

definition footer_settings_model :: table_schema where
  "footer_settings_model = declared T_footer_settings
       [Column C_id Uuid [PrimaryKey],
        Column C_about_text_en (Unicode 1000) [Nullable False],
        Column C_about_text_ar (Unicode 1000) [Nullable False],
        Column C_copyright_en (Unicode 200) [Nullable False],
        Column C_copyright_ar (Unicode 200) [Nullable False],
        Column C_support_phone (String 50) [Nullable True],
        Column C_support_email (String 200) [Nullable True],
        Column C_facebook_url (String 500) [Nullable True],
        Column C_instagram_url (String 500) [Nullable True],
        Column C_youtube_url (String 500) [Nullable True],
        Column C_app_store_url (String 500) [Nullable True],
        Column C_google_play_url (String 500) [Nullable True],
        Column C_updated_at (DateTime False) [Nullable False, ServerDefault SaNow]]
       []"

definition fuel_types_model :: table_schema where
  "fuel_types_model = declared T_fuel_types
       [Column C_id Uuid [PrimaryKey],
        Column C_name_en (Unicode 50) [Nullable False],
        Column C_name_ar (Unicode 50) [Nullable False],
        Column C_sort_order Integer [Nullable False],
        Column C_is_active Boolean [Nullable False],
        Column C_created_at (DateTime False) [Nullable False, ServerDefault SaNow],
        Column C_updated_at (DateTime False) [Nullable False, ServerDefault SaNow]]
       []"

definition how_it_works_steps_model :: table_schema where
  "how_it_works_steps_model = declared T_how_it_works_steps
       [Column C_id Uuid [PrimaryKey],
        Column C_step_number Integer [Nullable False],
        Column C_title_en (Unicode 150) [Nullable False],
        Column C_title_ar (Unicode 150) [Nullable False],
        Column C_description_en (Unicode 500) [Nullable False],
        Column C_description_ar (Unicode 500) [Nullable False],
        Column C_icon_url (String 500) [Nullable True],
        Column C_sort_order Integer [Nullable False],
        Column C_is_active Boolean [Nullable False],
        Column C_created_at (DateTime False) [Nullable False, ServerDefault SaNow],
        Column C_updated_at (DateTime False) [Nullable False, ServerDefault SaNow]]
       []"

definition menu_items_model :: table_schema where
  "menu_items_model = declared T_menu_items
       [Column C_id Uuid [PrimaryKey],
        Column C_parent_id Uuid [ForeignKey T_menu_items C_id NO_ACTION, Nullable True],
        Column C_label_en (Unicode 100) [Nullable False],
        Column C_label_ar (Unicode 100) [Nullable False],
        Column C_url (String 500) [Nullable False],
        Column C_icon_class (String 100) [Nullable True],
        Column C_item_type (String 30) [Nullable False],
        Column C_visibility (String 30) [Nullable False],
        Column C_opens_new_tab Boolean [Nullable False],
        Column C_sort_order Integer [Nullable False],
        Column C_is_active Boolean [Nullable False],
        Column C_created_at (DateTime False) [Nullable False, ServerDefault SaNow],
        Column C_updated_at (DateTime False) [Nullable False, ServerDefault SaNow]]
       []"

definition roles_model :: table_schema where
  "roles_model = declared T_roles
       [Column C_id Uuid [PrimaryKey],
        Column C_name (Unicode 50) [Nullable False, Unique, Indexed],
        Column C_description (Unicode 255) [Nullable True],
        Column C_is_active Boolean [Nullable False],
        Column C_created_at (DateTime True) [Nullable False, ServerDefault SaNow],
        Column C_updated_at (DateTime True) [Nullable False, ServerDefault SaNow]]
       []"

definition users_model :: table_schema where
  "users_model = declared T_users
       [Column C_id Uuid [PrimaryKey],
        Column C_email (String 320) [Nullable False, Unique, Indexed],
        Column C_password_hash (String 255) [Nullable False],
        Column C_first_name (Unicode 100) [Nullable False],
        Column C_last_name (Unicode 100) [Nullable False],
        Column C_phone (String 30) [Nullable True],
        Column C_primary_role_id Uuid [ForeignKey T_roles C_id NO_ACTION, Nullable False, Indexed],
        Column C_is_active Boolean [Nullable False],
        Column C_is_email_verified Boolean [Nullable False],
        Column C_failed_login_attempts Integer [Nullable False],
        Column C_locked_until (DateTime True) [Nullable True],
        Column C_last_login_at (DateTime True) [Nullable True],
        Column C_created_at (DateTime True) [Nullable False, ServerDefault SaNow],
        Column C_updated_at (DateTime True) [Nullable False, ServerDefault SaNow]]
       []"

definition email_verification_tokens_model :: table_schema where
  "email_verification_tokens_model = declared T_email_verification_tokens
       [Column C_id Uuid [PrimaryKey],
        Column C_user_id Uuid [ForeignKey T_users C_id CASCADE, Nullable False, Indexed],
        Column C_token_hash (String 64) [Nullable False, Unique],
        Column C_expires_at (DateTime True) [Nullable False],
        Column C_used_at (DateTime True) [Nullable True],
        Column C_created_at (DateTime True) [Nullable False, ServerDefault SaNow]]
       []"

definition password_reset_tokens_model :: table_schema where
  "password_reset_tokens_model = declared T_password_reset_tokens
       [Column C_id Uuid [PrimaryKey],
        Column C_user_id Uuid [ForeignKey T_users C_id CASCADE, Nullable False, Indexed],
        Column C_token_hash (String 64) [Nullable False, Unique],
        Column C_expires_at (DateTime True) [Nullable False],
        Column C_used_at (DateTime True) [Nullable True],
        Column C_created_at (DateTime True) [Nullable False, ServerDefault SaNow]]
       []"

definition refresh_tokens_model :: table_schema where
  "refresh_tokens_model = declared T_refresh_tokens
       [Column C_id Uuid [PrimaryKey],
        Column C_user_id Uuid [ForeignKey T_users C_id CASCADE, Nullable False, Indexed],
        Column C_token_hash (String 64) [Nullable False, Unique],
        Column C_expires_at (DateTime True) [Nullable False],
        Column C_revoked_at (DateTime True) [Nullable True],
        Column C_created_at (DateTime True) [Nullable False, ServerDefault SaNow]]
       []"

definition sub_sellers_model :: table_schema where
  "sub_sellers_model = declared T_sub_sellers
       [Column C_id Uuid [PrimaryKey],
        Column C_seller_id Uuid [ForeignKey T_users C_id CASCADE, Nullable False, Indexed],
        Column C_name (Unicode 150) [Nullable False],
        Column C_phone (String 30) [Nullable True],
        Column C_external_id (String 50) [Nullable True, Indexed],
        Column C_is_active Boolean [Nullable False],
        Column C_created_at (DateTime False) [Nullable False, ServerDefault SaNow],
        Column C_updated_at (DateTime False) [Nullable False, ServerDefault SaNow]]
       []"

definition user_roles_model :: table_schema where
  "user_roles_model = declared T_user_roles
       [Column C_id Uuid [PrimaryKey],
        Column C_user_id Uuid [ForeignKey T_users C_id CASCADE, Nullable False, Indexed],
        Column C_role_id Uuid [ForeignKey T_roles C_id CASCADE, Nullable False, Indexed],
        Column C_assigned_at (DateTime True) [Nullable False, ServerDefault SaNow]]
       [\<lparr>ix_name = Named K_uq_user_roles_user_id_role_id, ix_columns = [C_user_id, C_role_id], ix_unique = True, ix_where = None\<rparr>]"

definition value_added_services_model :: table_schema where
  "value_added_services_model = declared T_value_added_services
       [Column C_id Uuid [PrimaryKey],
        Column C_name_en (Unicode 150) [Nullable False],
        Column C_name_ar (Unicode 150) [Nullable False],
        Column C_description_en (Unicode 500) [Nullable True],
        Column C_description_ar (Unicode 500) [Nullable True],
        Column C_icon_url (String 500) [Nullable True],
        Column C_link_url (String 500) [Nullable False],
        Column C_sort_order Integer [Nullable False],
        Column C_is_active Boolean [Nullable False],
        Column C_created_at (DateTime False) [Nullable False, ServerDefault SaNow],
        Column C_updated_at (DateTime False) [Nullable False, ServerDefault SaNow]]
       []"

definition vehicle_branches_model :: table_schema where
  "vehicle_branches_model = declared T_vehicle_branches
       [Column C_id Uuid [PrimaryKey],
        Column C_name_en (Unicode 100) [Nullable False],
        Column C_name_ar (Unicode 100) [Nullable False],
        Column C_sort_order Integer [Nullable False],
        Column C_is_active Boolean [Nullable False],
        Column C_created_at (DateTime False) [Nullable False, ServerDefault SaNow],
        Column C_updated_at (DateTime False) [Nullable False, ServerDefault SaNow]]
       []"

definition vehicle_colors_model :: table_schema where
  "vehicle_colors_model = declared T_vehicle_colors
       [Column C_id Uuid [PrimaryKey],
        Column C_name_en (Unicode 50) [Nullable False],
        Column C_name_ar (Unicode 50) [Nullable False],
        Column C_sort_order Integer [Nullable False],
        Column C_is_active Boolean [Nullable False],
        Column C_created_at (DateTime False) [Nullable False, ServerDefault SaNow],
        Column C_updated_at (DateTime False) [Nullable False, ServerDefault SaNow]]
       []"

definition vehicle_key_options_model :: table_schema where
  "vehicle_key_options_model = declared T_vehicle_key_options
       [Column C_id Uuid [PrimaryKey],
        Column C_name_en (Unicode 50) [Nullable False],
        Column C_name_ar (Unicode 50) [Nullable False],
        Column C_sort_order Integer [Nullable False],
        Column C_is_active Boolean [Nullable False],
        Column C_created_at (DateTime False) [Nullable False, ServerDefault SaNow],
        Column C_updated_at (DateTime False) [Nullable False, ServerDefault SaNow]]
       []"

definition vehicle_makes_model :: table_schema where
  "vehicle_makes_model = declared T_vehicle_makes
       [Column C_id Uuid [PrimaryKey],
        Column C_name_en (Unicode 100) [Nullable False],
        Column C_name_ar (Unicode 100) [Nullable False],
        Column C_sort_order Integer [Nullable False],
        Column C_is_active Boolean [Nullable False],
        Column C_created_at (DateTime False) [Nullable False, ServerDefault SaNow],
        Column C_updated_at (DateTime False) [Nullable False, ServerDefault SaNow]]
       []"

definition vehicle_models_model :: table_schema where
  "vehicle_models_model = declared T_vehicle_models
       [Column C_id Uuid [PrimaryKey],
        Column C_make_id Uuid [ForeignKey T_vehicle_makes C_id CASCADE, Nullable False, Indexed],
        Column C_name_en (Unicode 100) [Nullable False],
        Column C_name_ar (Unicode 100) [Nullable False],
        Column C_sort_order Integer [Nullable False],
        Column C_is_active Boolean [Nullable False],
        Column C_created_at (DateTime False) [Nullable False, ServerDefault SaNow],
        Column C_updated_at (DateTime False) [Nullable False, ServerDefault SaNow]]
       []"

definition vehicle_listings_model :: table_schema where
  "vehicle_listings_model = declared T_vehicle_listings
       [Column C_id Uuid [PrimaryKey],
        Column C_seller_id Uuid [ForeignKey T_users C_id SET_NULL, Nullable True, Indexed],
        Column C_title_en (Unicode 200) [Nullable False],
        Column C_title_ar (Unicode 200) [Nullable False],
        Column C_image_url (String 500) [Nullable True],
        Column C_detail_url (String 500) [Nullable False],
        Column C_lot_number (String 50) [Nullable True],
        Column C_mileage (String 50) [Nullable True],
        Column C_location_en (Unicode 100) [Nullable True],
        Column C_location_ar (Unicode 100) [Nullable True],
        Column C_bid_amount (String 50) [Nullable True],
        Column C_countdown_label (String 50) [Nullable True],
        Column C_is_active Boolean [Nullable False],
        Column C_chassis_number (String 100) [Nullable True, Unique, Indexed],
        Column C_make_id Uuid [ForeignKey T_vehicle_makes C_id NO_ACTION, Nullable True],
        Column C_model_id Uuid [ForeignKey T_vehicle_models C_id NO_ACTION, Nullable True],
        Column C_branch_id Uuid [ForeignKey T_vehicle_branches C_id NO_ACTION, Nullable True],
        Column C_color_id Uuid [ForeignKey T_vehicle_colors C_id NO_ACTION, Nullable True],
        Column C_keys_option_id Uuid [ForeignKey T_vehicle_key_options C_id NO_ACTION, Nullable True],
        Column C_fuel_type_id Uuid [ForeignKey T_fuel_types C_id NO_ACTION, Nullable True],
        Column C_bidding_model_id Uuid [ForeignKey T_bidding_models C_id SET_NULL, Nullable True],
        Column C_year Integer [Nullable True],
        Column C_target_selling_price (Numeric 12 2) [Nullable True],
        Column C_minimum_selling_price (Numeric 12 2) [Nullable True],
        Column C_previous_number_plate (String 50) [Nullable True],
        Column C_sub_seller_id Uuid [ForeignKey T_sub_sellers C_id NO_ACTION, Nullable True],
        Column C_created_by_id Uuid [ForeignKey T_users C_id NO_ACTION, Nullable True],
        Column C_mulkhiya_document_url (String 500) [Nullable True],
        Column C_terms_accepted Boolean [Nullable False],
        Column C_status (String 30) [Nullable False],
        Column C_created_at (DateTime False) [Nullable False, ServerDefault SaNow],
        Column C_updated_at (DateTime False) [Nullable False, ServerDefault SaNow]]
       []"

definition auctions_model :: table_schema where
  "auctions_model = declared T_auctions
       [Column C_id Uuid [PrimaryKey],
        Column C_vehicle_id Uuid [ForeignKey T_vehicle_listings C_id NO_ACTION, Nullable False, Indexed],
        Column C_status (String 20) [Nullable False],
        Column C_starting_price (Numeric 12 2) [Nullable False],
        Column C_reserve_price (Numeric 12 2) [Nullable True],
        Column C_starts_at (DateTime True) [Nullable False],
        Column C_ends_at (DateTime True) [Nullable False],
        Column C_created_at (DateTime True) [Nullable False, ServerDefault SaNow],
        Column C_updated_at (DateTime True) [Nullable False, ServerDefault SaNow],
        CheckConstraint K_ck_auction_starting_price_nonneg (Condition [C_starting_price] ''starting_price >= 0''),
        CheckConstraint K_ck_auction_ends_after_starts (Condition [C_ends_at, C_starts_at] ''ends_at > starts_at'')]
       [\<lparr>ix_name = Named K_ix_auctions_status_ends_at, ix_columns = [C_status, C_ends_at], ix_unique = False, ix_where = None\<rparr>]"

definition bids_model :: table_schema where
  "bids_model = declared T_bids
       [Column C_id Uuid [PrimaryKey],
        Column C_auction_id Uuid [ForeignKey T_auctions C_id CASCADE, Nullable False],
        Column C_bidder_id Uuid [ForeignKey T_users C_id NO_ACTION, Nullable False, Indexed],
        Column C_amount (Numeric 12 2) [Nullable False],
        Column C_status (String 20) [Nullable False],
        Column C_kafka_partition Integer [Nullable True],
        Column C_kafka_offset Integer [Nullable True],
        Column C_created_at (DateTime True) [Nullable False, ServerDefault SaNow],
        CheckConstraint K_ck_bid_amount_positive (Condition [C_amount] ''amount > 0''),
        CheckConstraint K_ck_bid_status_valid (Condition [C_status] (concat [''status in ('', [CHR 0x27], ''pending'', [CHR 0x27], '','', [CHR 0x27], ''accepted'', [CHR 0x27], '','', [CHR 0x27], ''rejected'', [CHR 0x27], '')'']))]
       [\<lparr>ix_name = Named K_ix_bids_auction_amount, ix_columns = [C_auction_id, C_amount], ix_unique = False, ix_where = None\<rparr>,
        \<lparr>ix_name = Named K_uq_bids_kafka_position, ix_columns = [C_kafka_partition, C_kafka_offset], ix_unique = True, ix_where = Some (Condition [C_kafka_offset] ''kafka_offset IS NOT NULL'')\<rparr>]"

definition featured_auctions_model :: table_schema where
  "featured_auctions_model = declared T_featured_auctions
       [Column C_id Uuid [PrimaryKey],
        Column C_auction_id Uuid [ForeignKey T_auctions C_id SET_NULL, Nullable True],
        Column C_vehicle_listing_id Uuid [ForeignKey T_vehicle_listings C_id SET_NULL, Nullable True],
        Column C_badge_en (Unicode 50) [Nullable True],
        Column C_badge_ar (Unicode 50) [Nullable True],
        Column C_category_key (String 80) [Nullable False],
        Column C_category_label_en (Unicode 100) [Nullable False],
        Column C_category_label_ar (Unicode 100) [Nullable False],
        Column C_visibility (String 30) [Nullable False],
        Column C_category_sort_order Integer [Nullable False],
        Column C_sort_order Integer [Nullable False],
        Column C_is_active Boolean [Nullable False],
        Column C_created_at (DateTime False) [Nullable False, ServerDefault SaNow],
        Column C_updated_at (DateTime False) [Nullable False, ServerDefault SaNow]]
       []"

definition vehicle_payment_records_model :: table_schema where
  "vehicle_payment_records_model = declared T_vehicle_payment_records
       [Column C_id Uuid [PrimaryKey],
        Column C_lot_no (String 50) [Nullable False, Indexed],
        Column C_chassis_number (String 100) [Nullable False, Indexed],
        Column C_title (Unicode 200) [Nullable False],
        Column C_year_of_make Integer [Nullable False],
        Column C_buyer_name (Unicode 150) [Nullable False, Indexed],
        Column C_buyer_email (String 200) [Nullable False],
        Column C_seller_name (Unicode 150) [Nullable False, Indexed],
        Column C_seller_email (String 200) [Nullable False],
        Column C_payment_status (String 50) [Nullable False, Indexed],
        Column C_payment_due_date Date [Nullable True],
        Column C_location (Unicode 200) [Nullable False],
        Column C_max_bid (Numeric 12 2) [Nullable False],
        Column C_created_at (DateTime False) [Nullable False, ServerDefault SaNow],
        Column C_updated_at (DateTime False) [Nullable False, ServerDefault SaNow]]
       []"

definition vehicle_status_metrics_model :: table_schema where
  "vehicle_status_metrics_model = declared T_vehicle_status_metrics
       [Column C_id Uuid [PrimaryKey],
        Column C_group_key (String 50) [Nullable False, Indexed],
        Column C_stat_key (String 100) [Nullable False],
        Column C_label_en (Unicode 150) [Nullable False],
        Column C_label_ar (Unicode 150) [Nullable False],
        Column C_icon_class (String 100) [Nullable True],
        Column C_image_url (String 500) [Nullable True],
        Column C_color_class (String 50) [Nullable True],
        Column C_sort_order Integer [Nullable False],
        Column C_is_active Boolean [Nullable False],
        Column C_created_at (DateTime False) [Nullable False, ServerDefault SaNow],
        Column C_updated_at (DateTime False) [Nullable False, ServerDefault SaNow]]
       []"

definition vehicle_years_model :: table_schema where
  "vehicle_years_model = declared T_vehicle_years
       [Column C_id Uuid [PrimaryKey],
        Column C_year Integer [Nullable False, Unique],
        Column C_sort_order Integer [Nullable False],
        Column C_is_active Boolean [Nullable False],
        Column C_created_at (DateTime False) [Nullable False, ServerDefault SaNow],
        Column C_updated_at (DateTime False) [Nullable False, ServerDefault SaNow]]
       []"

definition models_schema :: schema where
  "models_schema =
     [admin_dashboard_cards_model, admin_nav_items_model, auction_categories_model,
     bidding_models_model, footer_links_model, footer_settings_model, fuel_types_model,
     how_it_works_steps_model, menu_items_model, roles_model, users_model,
     email_verification_tokens_model, password_reset_tokens_model, refresh_tokens_model,
     sub_sellers_model, user_roles_model, value_added_services_model, vehicle_branches_model,
     vehicle_colors_model, vehicle_key_options_model, vehicle_makes_model, vehicle_models_model,
     vehicle_listings_model, auctions_model, bids_model, featured_auctions_model,
     vehicle_payment_records_model, vehicle_status_metrics_model, vehicle_years_model]"

end
