(* ===== verification/Schema_Laws.thy ===== *)
theory Schema_Laws
  imports Schema_Migrations Schema_Models
begin

text \<open>
  Histories of the schema: the revisions in the order in which Alembic runs them, whether a downgrade gives
  back the schema before its upgrade, and how a schema compares with the one that the ORM classes declare.
\<close>

section \<open>Revisions\<close>

text \<open>The revisions with a schema part: number, upgrade and downgrade.\<close>

definition revisions :: "(nat \<times> statement list \<times> statement list) list" where
  "revisions =
     [(1, ddl_0001, ddl_0001_down), (2, ddl_0002, ddl_0002_down), (3, ddl_0003, ddl_0003_down),
      (4, ddl_0004, ddl_0004_down), (5, ddl_0005, ddl_0005_down), (6, ddl_0006, ddl_0006_down),
      (7, ddl_0007, ddl_0007_down), (8, ddl_0008, ddl_0008_down), (9, ddl_0009, ddl_0009_down),
      (10, ddl_0010, ddl_0010_down), (11, ddl_0011, ddl_0011_down), (12, ddl_0012, ddl_0012_down),
      (17, ddl_0017, ddl_0017_down), (18, ddl_0018, ddl_0018_down), (19, ddl_0019, ddl_0019_down),
      (20, ddl_0020, ddl_0020_down), (22, ddl_0022, ddl_0022_down), (29, ddl_0029, ddl_0029_down),
      (30, ddl_0030, ddl_0030_down)]"

definition upgrades :: "(nat \<times> statement list \<times> statement list) list \<Rightarrow> statement list" where
  "upgrades rs = concat (map (\<lambda>(n, up, down). up) rs)"

definition upgrade_ddl :: "statement list" where
  "upgrade_ddl = upgrades revisions"

text \<open>\<open>alembic downgrade\<close> from the newest revision on.\<close>

definition downgrade_ddl :: "statement list" where
  "downgrade_ddl = concat (map (\<lambda>(n, up, down). down) (rev revisions))"

section \<open>Schemas up to the order of columns\<close>

definition same_set :: "'a list \<Rightarrow> 'a list \<Rightarrow> bool" where
  "same_set xs ys \<longleftrightarrow> list_all (\<lambda>x. x \<in> set ys) xs \<and> list_all (\<lambda>y. y \<in> set xs) ys"

definition same_table :: "table_schema \<Rightarrow> table_schema \<Rightarrow> bool" where
  "same_table t t' \<longleftrightarrow> t_primary_key t = t_primary_key t' \<and> same_set (t_columns t) (t_columns t') \<and>
     same_set (t_foreign_keys t) (t_foreign_keys t') \<and> same_set (t_indexes t) (t_indexes t') \<and>
     same_set (t_checks t) (t_checks t')"

fun has_same :: "table_schema option \<Rightarrow> table_schema \<Rightarrow> bool" where
  "has_same None t \<longleftrightarrow> False"
| "has_same (Some t') t \<longleftrightarrow> (if t' = t then True else same_table t' t)"

fun same_tables :: "schema \<Rightarrow> schema \<Rightarrow> bool" where
  "same_tables s [] \<longleftrightarrow> True"
| "same_tables s (t # ts) \<longleftrightarrow> has_same (table_named (t_name t) s) t \<and> same_tables s ts"

definition same_schema :: "schema \<Rightarrow> schema \<Rightarrow> bool" where
  "same_schema s s' \<longleftrightarrow> length s = length s' \<and> same_tables s s'"

fun restores :: "ddl_error + schema \<Rightarrow> schema \<Rightarrow> bool" where
  "restores (Inl e) s \<longleftrightarrow> False"
| "restores (Inr s') s \<longleftrightarrow> same_schema s' s"

text \<open>The revisions, from a schema on, whose downgrade does not give back the schema before them.\<close>

fun listed :: "bool \<Rightarrow> nat \<Rightarrow> nat list \<Rightarrow> nat list" where
  "listed True n ns = ns"
| "listed False n ns = n # ns"

fun report :: "nat \<Rightarrow> statement list \<Rightarrow> schema \<Rightarrow> (schema \<Rightarrow> nat list) \<Rightarrow> ddl_error + schema \<Rightarrow> nat list" where
  "report n down s rest (Inl e) = [n]"
| "report n down s rest (Inr s') = listed (restores (run_ddl down s') s) n (rest s')"

fun not_undone :: "(nat \<times> statement list \<times> statement list) list \<Rightarrow> schema \<Rightarrow> nat list" where
  "not_undone [] s = []"
| "not_undone ((n, up, down) # rs) s = report n down s (not_undone rs) (run_ddl up s)"

lemma upgrades_simps [simp]: "upgrades [] = []" "upgrades ((n, up, down) # rs) = up @ upgrades rs"
  by (simp_all add: upgrades_def)

lemma upgrades_append: "upgrades (rs @ rs') = upgrades rs @ upgrades rs'"
  by (simp add: upgrades_def)

lemma not_undone_append:
  "run_ddl (upgrades rs) s = Inr s' \<Longrightarrow> not_undone (rs @ rs') s = not_undone rs s @ not_undone rs' s'"
proof (induction rs arbitrary: s)
  case (Cons r rs)
  obtain n up down where r: "r = (n, up, down)" by (cases r)
  with Cons.prems obtain u where up: "run_ddl up s = Inr u" "run_ddl (upgrades rs) u = Inr s'"
    by (auto simp: run_ddl_append)
  then show ?case
    using Cons.IH [OF up(2)] by (cases "restores (run_ddl down u) s") (simp_all add: r)
qed simp

section \<open>The schema of the models\<close>

text \<open>
  A time stamp that the server fills in: its time zone and whether it may be NULL make no difference to
  the program, which never writes it.
\<close>

definition server_stamped :: "column \<Rightarrow> bool" where
  "server_stamped x \<longleftrightarrow> c_default x = Some SaNow \<and> (c_type x = DateTime True \<or> c_type x = DateTime False)"

definition same_column :: "column \<Rightarrow> column \<Rightarrow> bool" where
  "same_column x y \<longleftrightarrow> c_type x = c_type y \<and> c_nullable x = c_nullable y \<or> server_stamped x \<and> server_stamped y"

definition column_agrees :: "table_schema \<Rightarrow> column \<Rightarrow> bool" where
  "column_agrees d y \<longleftrightarrow> (case find_column (c_name y) (t_columns d) of None \<Rightarrow> False | Some x \<Rightarrow> same_column x y)"

text \<open>The columns of the deployed table \<open>d\<close> that differ from the model \<open>m\<close>.\<close>

fun column_drift :: "table_schema option \<Rightarrow> table_schema \<Rightarrow> ident list" where
  "column_drift None m = column_names m"
| "column_drift (Some d) m =
     map c_name (filter (\<lambda>y. \<not> column_agrees d y) (t_columns m)) @ filter (\<lambda>c. \<not> has_column m c) (column_names d)"

fun drift :: "schema \<Rightarrow> schema \<Rightarrow> (ident \<times> ident) list" where
  "drift [] s = []"
| "drift (m # ms) s = map (Pair (t_name m)) (column_drift (table_named (t_name m) s) m) @ drift ms s"

definition reference :: "foreign_key \<Rightarrow> ident \<times> ident \<times> ident \<times> on_delete" where
  "reference f = (fk_column f, fk_table f, fk_ref_column f, fk_on_delete f)"

definition unique_keys :: "table_schema \<Rightarrow> ident list list" where
  "unique_keys t = map ix_columns (filter ix_unique (t_indexes t))"

text \<open>The same primary key, foreign keys and unique keys; every check of the model is one of the server.\<close>

fun same_constraints :: "table_schema option \<Rightarrow> table_schema \<Rightarrow> bool" where
  "same_constraints None m \<longleftrightarrow> False"
| "same_constraints (Some d) m \<longleftrightarrow> t_primary_key d = t_primary_key m \<and>
     same_set (map reference (t_foreign_keys d)) (map reference (t_foreign_keys m)) \<and>
     same_set (unique_keys d) (unique_keys m) \<and> list_all (\<lambda>k. k \<in> set (t_checks d)) (t_checks m)"

fun all_constrained :: "schema \<Rightarrow> schema \<Rightarrow> bool" where
  "all_constrained [] s \<longleftrightarrow> True"
| "all_constrained (m # ms) s \<longleftrightarrow> same_constraints (table_named (t_name m) s) m \<and> all_constrained ms s"

definition constrained_as :: "schema \<Rightarrow> schema \<Rightarrow> bool" where
  "constrained_as models s \<longleftrightarrow> length s = length models \<and> all_constrained models s"

section \<open>Well-formed schemas\<close>

definition schema_wf :: "schema \<Rightarrow> bool" where
  "schema_wf s \<longleftrightarrow> distinct (map t_name s) \<and> list_all (table_ok s) s"

lemma find_column_Some: "find_column c xs = Some x \<Longrightarrow> x \<in> set xs \<and> c_name x = c"
  by (induction xs) (auto split: if_splits)

lemma find_column_None_iff: "find_column c xs = None \<longleftrightarrow> c \<notin> c_name ` set xs"
  by (induction xs) auto

lemma has_column_iff: "has_column t c \<longleftrightarrow> c \<in> set (column_names t)"
  by (auto simp: has_column_def column_names_def find_column_None_iff)

lemma find_column_append: "find_column c (xs @ ys) = (case find_column c xs of None \<Rightarrow> find_column c ys | Some x \<Rightarrow> Some x)"
  by (induction xs) auto

lemma find_column_filter: "d \<noteq> c \<Longrightarrow> find_column d (filter (\<lambda>y. c_name y \<noteq> c) xs) = find_column d xs"
  by (induction xs) auto

lemma find_column_update:
  assumes "\<And>x. c_name (f x) = c_name x" and "\<And>x. c_type (f x) = c_type x"
  shows "map_option c_type (find_column d (update_where P f xs)) = map_option c_type (find_column d xs)"
  using assms by (induction xs) auto

lemma table_exists_iff: "table_exists n s \<longleftrightarrow> n \<in> t_name ` set s"
  by (induction s) auto

lemma table_named_None_iff: "table_named n s = None \<longleftrightarrow> n \<notin> t_name ` set s"
proof (induction s)
  case (Cons t ts)
  then show ?case by (cases "t_name t = n") auto
qed simp

lemma table_named_Cons [simp]: "table_named n (t # ts) = (if t_name t = n then Some t else table_named n ts)"
  by (cases "t_name t = n") auto

declare table_named.simps(2) [simp del]

lemma table_named_append: "table_named n (s @ s') = (case table_named n s of None \<Rightarrow> table_named n s' | Some t \<Rightarrow> Some t)"
  by (induction s) auto

lemma remove_table_filter: "remove_table n s = filter (\<lambda>t. t_name t \<noteq> n) s"
proof (induction s)
  case (Cons t ts)
  then show ?case by (cases "t_name t = n") auto
qed simp

lemma table_named_remove: "m \<noteq> n \<Longrightarrow> table_named m (remove_table n s) = table_named m s"
  by (induction s) (auto simp: remove_table_filter)

lemma edit_table_Inr:
  assumes "edit_table f n s = Inr s'"
  obtains as t bs t' where "s = as @ t # bs" and "s' = as @ t' # bs" and "t_name t = n" and "f t = Inr t'"
  using assms
proof (induction s arbitrary: s' thesis)
  case (Cons u us)
  show ?case
  proof (cases "t_name u = n")
    case True
    with Cons.prems(2) obtain t' where "f u = Inr t'" and "s' = t' # us" by (cases "f u") auto
    with True Cons.prems(1) [of "[]" u us t'] show ?thesis by simp
  next
    case False
    with Cons.prems(2) obtain us' where us': "edit_table f n us = Inr us'" "s' = u # us'" by (cases "edit_table f n us") auto
    then obtain as t bs t' where "us = as @ t # bs" "us' = as @ t' # bs" "t_name t = n" "f t = Inr t'"
      using Cons.IH by metis
    with us'(2) Cons.prems(1) [of "u # as" t bs t'] show ?thesis by simp
  qed
qed simp

text \<open>A schema in which every key is still there.\<close>

definition keeps_keys :: "schema \<Rightarrow> schema \<Rightarrow> bool" where
  "keeps_keys s s' \<longleftrightarrow> (\<forall>n c ty. key_type s n c = Some ty \<longrightarrow> key_type s' n c = Some ty)"

lemma reference_ok_mono: "reference_ok s t f \<Longrightarrow> keeps_keys s s' \<Longrightarrow> reference_ok s' t f"
  by (auto simp: reference_ok_def keeps_keys_def)

lemma table_ok_mono: "table_ok s t \<Longrightarrow> keeps_keys s s' \<Longrightarrow> table_ok s' t"
  by (auto simp: table_ok_def list_all_iff intro: reference_ok_mono)

text \<open>An edit that keeps the name of the table, its primary key and the type of the key's columns.\<close>

definition keeps_table_key :: "table_schema \<Rightarrow> table_schema \<Rightarrow> bool" where
  "keeps_table_key t t' \<longleftrightarrow> t_name t' = t_name t \<and> t_primary_key t' = t_primary_key t \<and>
     (\<forall>c ty. t_primary_key t = [c] \<longrightarrow> column_type t c = Some ty \<longrightarrow> column_type t' c = Some ty)"

lemma key_column_kept: "keeps_table_key t t' \<Longrightarrow> key_column_type (Some t) c = Some ty \<Longrightarrow> key_column_type (Some t') c = Some ty"
  by (auto simp: keeps_table_key_def split: if_splits)

lemma keeps_keys_edit:
  assumes "keeps_table_key t t'" shows "keeps_keys (as @ t # bs) (as @ t' # bs)"
proof -
  have "t_name t' = t_name t" using assms by (simp add: keeps_table_key_def)
  then show ?thesis
    using key_column_kept [OF assms]
    by (auto simp: keeps_keys_def key_type_def table_named_append split: option.splits if_splits)
qed

text \<open>What each edit of a table keeps.\<close>

definition good_edit :: "schema \<Rightarrow> table_schema \<Rightarrow> table_schema \<Rightarrow> bool" where
  "good_edit s t t' \<longleftrightarrow> keeps_table_key t t' \<and> (\<forall>s'. keeps_keys s s' \<longrightarrow> table_ok s' t')"

lemma column_type_append:
  "column_type t c = Some ty \<Longrightarrow> t_columns t' = t_columns t @ xs \<Longrightarrow> column_type t' c = Some ty"
  by (auto simp: column_type_def find_column_append)

lemma reference_ok_columns:
  assumes "reference_ok s t f" and "\<And>c ty. column_type t c = Some ty \<Longrightarrow> c = fk_column f \<Longrightarrow> column_type t' c = Some ty"
  shows "reference_ok s t' f"
  using assms by (auto simp: reference_ok_def)

lemma keys_exist_iff: "keys_exist s ty fs \<longleftrightarrow> (\<forall>f \<in> set fs. key_type s (fk_table f) (fk_ref_column f) = Some ty)"
  by (induction fs) auto

lemma item_references_column: "f \<in> set (item_references (Column c ty opts)) \<Longrightarrow> fk_column f = c"
  by (auto simp: List.map_filter_def reference_of_def split: column_option.splits)

lemma indexes_of_columns: "i \<in> set (indexes_of n c opts) \<Longrightarrow> ix_columns i = [c]"
  by (auto simp: indexes_of_def split: if_splits)

lemma distinct_indexes_of: "distinct (map ix_name (indexes_of n c opts))"
  by (simp add: indexes_of_def)

lemma add_column_good:
  assumes ok: "table_ok s t" and run: "add_column s c ty opts t = Inr t'"
  shows "good_edit s t t'"
proof -
  have none: "new_column_error (keys_exist s ty (item_references (Column c ty opts))) c ty opts t = None"
    and t': "t' = append_column c ty opts t"
    using run by (auto simp: add_column_def)
  from none have new: "c \<notin> set (column_names t)" and ix: "\<And>i. i \<in> set (indexes_of (t_name t) c opts) \<Longrightarrow> \<not> has_index t (ix_name i)"
    and key: "PrimaryKey \<notin> set opts" and keys: "keys_exist s ty (item_references (Column c ty opts))"
    by (auto simp: new_column_error_def has_column_iff list_ex_iff split: if_splits)
  have cols: "t_columns t' = t_columns t @ [column_of c ty opts]" by (simp add: t' append_column_def)
  have parts: "t_primary_key t' = t_primary_key t" "t_indexes t' = t_indexes t @ indexes_of (t_name t) c opts"
    "t_foreign_keys t' = t_foreign_keys t @ item_references (Column c ty opts)" by (simp_all add: t' append_column_def)
  have names: "column_names t' = column_names t @ [c]" by (simp add: column_names_def cols column_of_def)
  have own: "column_type t' c = Some ty"
    using new by (auto simp: column_type_def cols find_column_append column_of_def column_names_def find_column_None_iff split: option.splits dest: find_column_Some)
  have old: "column_type t' d = Some ty'" if "column_type t d = Some ty'" for d ty'
    using that cols by (rule column_type_append)
  have "keeps_table_key t t'"
    using old by (auto simp: keeps_table_key_def t' append_column_def)
  moreover have "table_ok s' t'" if mono: "keeps_keys s s'" for s'
  proof -
    note ok' = table_ok_mono [OF ok mono]
    have "reference_ok s' t' f" if "f \<in> set (t_foreign_keys t)" for f
      using ok' that old by (auto simp: table_ok_def list_all_iff intro: reference_ok_columns)
    moreover have "reference_ok s' t' f" if "f \<in> set (item_references (Column c ty opts))" for f
      using that keys mono own item_references_column [OF that]
      by (auto simp: reference_ok_def keys_exist_iff keeps_keys_def)
    moreover have "distinct (map ix_name (t_indexes t'))"
      using ok ix distinct_indexes_of [of "t_name t" c opts]
      by (auto simp: parts table_ok_def has_index_def list_ex_iff)
    ultimately show ?thesis
      using ok' new unfolding table_ok_def list_all_iff has_column_iff names parts by (auto dest: indexes_of_columns)
  qed
  ultimately show ?thesis by (simp add: good_edit_def)
qed

lemma drop_column_good:
  assumes ok: "table_ok s t" and run: "drop_column c t = Inr t'"
  shows "good_edit s t t'"
proof -
  have "dropped_column_error c t = None" and t': "t' = t\<lparr>t_columns := filter (\<lambda>y. c_name y \<noteq> c) (t_columns t)\<rparr>"
    using run by (auto simp: drop_column_def)
  then obtain x where "find_column c (t_columns t) = Some x" and "\<not> column_in_use t x"
    by (auto simp: dropped_column_error_def split: option.splits if_splits)
  moreover from this(1) have "c_name x = c" by (simp add: find_column_Some)
  ultimately have unused: "c \<notin> set (t_primary_key t)" "\<And>i. i \<in> set (t_indexes t) \<Longrightarrow> c \<notin> set (ix_columns i)"
    "\<And>f. f \<in> set (t_foreign_keys t) \<Longrightarrow> fk_column f \<noteq> c"
    by (auto simp: column_in_use_def list_ex_iff index_uses_def)
  have other: "column_type t' d = column_type t d" if "d \<noteq> c" for d
    using that by (simp add: column_type_def t' find_column_filter)
  have parts: "t_primary_key t' = t_primary_key t" "t_indexes t' = t_indexes t" "t_foreign_keys t' = t_foreign_keys t"
    by (simp_all add: t')
  have names: "column_names t' = filter (\<lambda>d. d \<noteq> c) (column_names t)"
    by (simp add: column_names_def t' filter_map o_def)
  have "keeps_table_key t t'" using unused(1) other by (auto simp: keeps_table_key_def t')
  moreover have "table_ok s' t'" if mono: "keeps_keys s s'" for s'
  proof -
    note ok' = table_ok_mono [OF ok mono]
    have "reference_ok s' t' f" if "f \<in> set (t_foreign_keys t)" for f
      using ok' that other [OF unused(3) [OF that]] by (auto simp: table_ok_def list_all_iff reference_ok_def)
    moreover have "d \<noteq> c" if "d \<in> set (t_primary_key t) \<or> (\<exists>i \<in> set (t_indexes t). d \<in> set (ix_columns i))" for d
      using that unused(1,2) by blast
    ultimately show ?thesis
      using ok' unfolding table_ok_def list_all_iff has_column_iff names parts by auto
  qed
  ultimately show ?thesis by (simp add: good_edit_def)
qed

lemma same_columns_good:
  assumes "table_ok s t" and "t_name t' = t_name t" and "t_primary_key t' = t_primary_key t"
    and "column_names t' = column_names t" and types: "\<And>c. column_type t' c = column_type t c"
    and "distinct (map ix_name (t_indexes t'))"
    and "\<And>i. i \<in> set (t_indexes t') \<Longrightarrow> i \<in> set (t_indexes t) \<or> ix_columns i \<noteq> [] \<and> list_all (has_column t) (ix_columns i)"
    and "\<And>f. f \<in> set (t_foreign_keys t') \<Longrightarrow> f \<in> set (t_foreign_keys t) \<or> reference_ok s t f"
  shows "good_edit s t t'"
proof -
  have "keeps_table_key t t'" using assms(2,3) types by (simp add: keeps_table_key_def)
  moreover have "table_ok s' t'" if mono: "keeps_keys s s'" for s'
  proof -
    have "reference_ok s' t f" if "f \<in> set (t_foreign_keys t')" for f
      using assms(1) assms(8) [OF that] mono by (auto simp: table_ok_def list_all_iff intro: reference_ok_mono)
    then have "list_all (reference_ok s' t') (t_foreign_keys t')"
      using types by (simp add: list_all_iff reference_ok_def)
    moreover have "ix_columns i \<noteq> [] \<and> list_all (has_column t') (ix_columns i)" if "i \<in> set (t_indexes t')" for i
      using assms(1,4) assms(7) [OF that] by (auto simp: table_ok_def list_all_iff has_column_iff)
    ultimately show ?thesis
      using assms(1,3,4,6) by (simp add: table_ok_def list_all_iff has_column_iff)
  qed
  ultimately show ?thesis by (simp add: good_edit_def)
qed

lemma alter_column_good:
  assumes "table_ok s t" and "alter_column c f t = Inr t'"
    and "\<And>x. c_name (f x) = c_name x" and "\<And>x. c_type (f x) = c_type x"
  shows "good_edit s t t'"
proof -
  have t': "t' = t\<lparr>t_columns := update_where (\<lambda>x. c_name x = c) f (t_columns t)\<rparr>"
    using assms(2) by (auto simp: alter_column_def)
  show ?thesis
    by (rule same_columns_good [OF assms(1)])
      (use assms(1,3,4) in \<open>auto simp: t' column_names_def column_type_def find_column_update table_ok_def\<close>)
qed

lemma create_index_good:
  assumes "table_ok s t" and "create_index i t = Inr t'"
  shows "good_edit s t t'"
proof -
  have new: "\<not> has_index t (ix_name i)" and cols: "ix_columns i \<noteq> []" "list_all (has_column t) (ix_columns i)"
    and t': "t' = t\<lparr>t_indexes := t_indexes t @ [i]\<rparr>"
    using assms(2) by (auto simp: create_index_def split: if_splits)
  show ?thesis
    by (rule same_columns_good [OF assms(1)])
      (use assms(1) new cols in \<open>auto simp: t' column_names_def column_type_def table_ok_def has_index_def list_ex_iff\<close>)
qed

lemma drop_index_good:
  assumes "table_ok s t" and "drop_index i t = Inr t'"
  shows "good_edit s t t'"
proof -
  have t': "t' = t\<lparr>t_indexes := filter (\<lambda>x. ix_name x \<noteq> i) (t_indexes t)\<rparr>"
    using assms(2) by (auto simp: drop_index_def)
  show ?thesis
    by (rule same_columns_good [OF assms(1)])
      (use assms(1) in \<open>auto simp: t' column_names_def column_type_def table_ok_def distinct_map_filter\<close>)
qed

lemma foreign_key_edits_good:
  assumes "table_ok s t"
  shows "add_foreign_key s f t = Inr t' \<Longrightarrow> good_edit s t t'"
    and "drop_constraint k t = Inr t' \<Longrightarrow> good_edit s t t'"
    and "drop_foreign_keys_of c t = Inr t' \<Longrightarrow> good_edit s t t'"
proof -
  have keys: "good_edit s t (t\<lparr>t_foreign_keys := fs\<rparr>)"
    if "\<And>f. f \<in> set fs \<Longrightarrow> f \<in> set (t_foreign_keys t) \<or> reference_ok s t f" for fs
    by (rule same_columns_good [OF assms]) (use assms that in \<open>auto simp: column_names_def column_type_def table_ok_def\<close>)
  show "add_foreign_key s f t = Inr t' \<Longrightarrow> good_edit s t t'"
    by (auto simp: add_foreign_key_def new_constraint_error_def split: if_splits intro!: keys)
  show "drop_constraint k t = Inr t' \<Longrightarrow> good_edit s t t'"
    by (auto simp: drop_constraint_def intro!: keys)
  show "drop_foreign_keys_of c t = Inr t' \<Longrightarrow> good_edit s t t'"
    by (auto simp: drop_foreign_keys_of_def intro!: keys)
qed

lemma edit_table_wf:
  assumes wf: "schema_wf s" and run: "edit_table f n s = Inr s'"
    and good: "\<And>t t'. table_ok s t \<Longrightarrow> f t = Inr t' \<Longrightarrow> good_edit s t t'"
  shows "schema_wf s'"
proof -
  obtain as t bs t' where s: "s = as @ t # bs" and s': "s' = as @ t' # bs" and run': "f t = Inr t'"
    using run by (elim edit_table_Inr)
  have edit: "good_edit s t t'" using wf good [OF _ run'] by (simp add: schema_wf_def s)
  then have kept: "keeps_keys s s'" unfolding s s' by (auto simp: good_edit_def intro: keeps_keys_edit)
  then have "list_all (table_ok s') as" "list_all (table_ok s') bs" "table_ok s' t'"
    using wf edit by (auto simp: schema_wf_def s list_all_iff good_edit_def intro: table_ok_mono)
  moreover have "t_name t' = t_name t" using edit by (simp add: good_edit_def keeps_table_key_def)
  ultimately show ?thesis using wf by (simp add: schema_wf_def s s')
qed

lemma create_table_wf:
  assumes wf: "schema_wf s" and run: "create_table s t = Inr s'"
  shows "schema_wf s'"
proof -
  have new: "t_name t \<notin> t_name ` set s" and s': "s' = s @ [t]" and ok: "table_ok s' t"
    using run by (auto simp: create_table_def table_exists_iff)
  have "key_type s' n c = Some ty" if "key_type s n c = Some ty" for n c ty
    using that by (cases "table_named n s") (auto simp: key_type_def s' table_named_append)
  then have "keeps_keys s s'" by (simp add: keeps_keys_def)
  then show ?thesis
    using wf new ok by (auto simp: schema_wf_def s' list_all_iff intro: table_ok_mono)
qed

lemma drop_table_wf:
  assumes wf: "schema_wf s" and run: "drop_table n (guard b e s) = Inr s'"
  shows "schema_wf s'"
proof -
  have unused: "\<not> list_ex (refers_to n) s" and s': "s' = remove_table n s"
    using run by auto
  have "table_ok s' t" if t: "t \<in> set s" "t_name t \<noteq> n" for t
  proof -
    have "fk_table f \<noteq> n" if "f \<in> set (t_foreign_keys t)" for f
      using unused t that by (auto simp: list_ex_iff refers_to_def)
    then have "reference_ok s' t f" if "f \<in> set (t_foreign_keys t)" for f
      using wf t(1) that by (auto simp: schema_wf_def table_ok_def list_all_iff reference_ok_def key_type_def s' table_named_remove)
    then show ?thesis using wf t(1) by (auto simp: schema_wf_def table_ok_def list_all_iff)
  qed
  then show ?thesis
    using wf by (auto simp: schema_wf_def s' remove_table_filter list_all_iff distinct_map_filter)
qed

lemma execute_wf: "schema_wf s \<Longrightarrow> execute x s = Inr s' \<Longrightarrow> schema_wf s'"
proof (induction x s rule: execute.induct)
  case (1 n items s)
  then show ?case by (simp add: create_table_wf)
next
  case (2 n s)
  then show ?case using drop_table_wf by simp
qed (auto elim!: edit_table_wf intro: add_column_good drop_column_good alter_column_good create_index_good drop_index_good
       foreign_key_edits_good)

lemma run_ddl_wf: "schema_wf s \<Longrightarrow> run_ddl xs s = Inr s' \<Longrightarrow> schema_wf s'"
  by (induction xs arbitrary: s) (auto dest: execute_wf)

end
