(* ===== verification/Content_Rows.thy ===== *)
theory Content_Rows
  imports Session
begin

text \<open>
  What the revisions that fill tables share (\<^verbatim>\<open>alembic/versions\<close>): insertions and deletions with the
  constraints of their table, the comparison with a list of texts on the server, and the texts of the rows. The
  characters of a \<open>string\<close> are those up to U+00FF, so that a text with others, such as an Arabic label, is
  kept as its UTF-8 bytes.
\<close>

section \<open>Texts\<close>

definition utf8_char :: "int \<Rightarrow> string" where
  "utf8_char c =
     (if c < 0x80 then [char_of c]
      else if c < 0x800 then [char_of (0xC0 + c div 64), char_of (0x80 + c mod 64)]
      else [char_of (0xE0 + c div 4096), char_of (0x80 + c div 64 mod 64), char_of (0x80 + c mod 64)])"

definition utf8 :: "int list \<Rightarrow> string" where
  "utf8 = concat \<circ> map utf8_char"

text \<open>\<open>urllib.parse.quote\<close>: every byte but the unreserved ones and the slash is escaped.\<close>

definition unreserved :: "char \<Rightarrow> bool" where
  "unreserved c \<longleftrightarrow>
     (let n = of_char c :: nat in 48 \<le> n \<and> n \<le> 57 \<or> 65 \<le> n \<and> n \<le> 90 \<or> 97 \<le> n \<and> n \<le> 122) \<or> c \<in> set ''_.-~/''"

definition quote_char :: "char \<Rightarrow> string" where
  "quote_char c =
     (if unreserved c then [c]
      else let n = of_char c :: nat; digits = ''0123456789ABCDEF'' in [CHR ''%'', digits ! (n div 16), digits ! (n mod 16)])"

definition quote :: "string \<Rightarrow> string" where
  "quote = concat \<circ> map quote_char"

section \<open>Insertions and deletions\<close>

text \<open>\<open>op.bulk_insert\<close>: the key is unique in the table.\<close>

definition insert_rows :: "('a \<Rightarrow> 'k) \<Rightarrow> 'a list \<Rightarrow> 'a list \<Rightarrow> exn + 'a list" where
  "insert_rows key rows new =
     (if distinct (map key (rows @ new)) then Inr (rows @ new) else Inl IntegrityError)"

text \<open>A table whose rows refer to rows of the same table, without an action on deletion.\<close>

definition parents_exist :: "('a \<Rightarrow> uuid) \<Rightarrow> ('a \<Rightarrow> uuid option) \<Rightarrow> 'a list \<Rightarrow> bool" where
  "parents_exist key parent rows \<longleftrightarrow> list_all (\<lambda>r. fk_opt key rows (parent r)) rows"

definition insert_tree :: "('a \<Rightarrow> uuid) \<Rightarrow> ('a \<Rightarrow> uuid option) \<Rightarrow> 'a list \<Rightarrow> 'a list \<Rightarrow> exn + 'a list" where
  "insert_tree key parent rows new =
     bind_result (insert_rows key rows new) (\<lambda>rows'.
     if parents_exist key parent rows' then Inr rows' else Inl IntegrityError)"

definition delete_where :: "('a \<Rightarrow> bool) \<Rightarrow> 'a list \<Rightarrow> 'a list" where
  "delete_where P = filter (\<lambda>r. \<not> P r)"

definition delete_tree :: "('a \<Rightarrow> uuid) \<Rightarrow> ('a \<Rightarrow> uuid option) \<Rightarrow> ('a \<Rightarrow> bool) \<Rightarrow> 'a list \<Rightarrow> exn + 'a list" where
  "delete_tree key parent P rows =
     (let rest = delete_where P rows in if parents_exist key parent rest then Inr rest else Inl IntegrityError)"

text \<open>\<open>column IN (...)\<close>; a NULL is in no list.\<close>

definition sql_in :: "env \<Rightarrow> string \<Rightarrow> string list \<Rightarrow> bool" where
  "sql_in env a xs \<longleftrightarrow> list_ex (sql_eq env a) xs"

definition sql_is :: "env \<Rightarrow> string option \<Rightarrow> string \<Rightarrow> bool" where
  "sql_is env a b \<longleftrightarrow> (case a of None \<Rightarrow> False | Some x \<Rightarrow> sql_eq env x b)"

definition coalesce :: "'a option \<Rightarrow> 'a \<Rightarrow> 'a option" where
  "coalesce a b = (case a of None \<Rightarrow> Some b | Some x \<Rightarrow> Some x)"

text \<open>\<open>enumerate(rows, start=1)\<close>, with a fresh identifier from \<open>u\<close> for each row.\<close>

definition numbered :: "(nat \<Rightarrow> uuid) \<Rightarrow> (uuid \<Rightarrow> int \<Rightarrow> 'a \<Rightarrow> 'b) \<Rightarrow> 'a list \<Rightarrow> 'b list" where
  "numbered u f xs = map (\<lambda>(k, x). f (u k) (int k + 1) x) (List.enumerate 0 xs)"

text \<open>\<open>shift u k\<close>: the identifiers from the \<open>k\<close>-th on.\<close>

definition shift :: "(nat \<Rightarrow> uuid) \<Rightarrow> nat \<Rightarrow> nat \<Rightarrow> uuid" where
  "shift u k n = u (k + n)"

section \<open>Lemmas\<close>

lemma sort_key_sorted: "sorted (map k xs) \<Longrightarrow> sort_key k xs = xs"
proof (induction xs)
  case (Cons x xs)
  then show ?case by (cases xs) auto
qed simp

lemma shift_upt: "map (shift u k) [0..<n] = map u [k..<k + n]"
  by (rule nth_equalityI) (simp_all add: shift_def)

lemma insert_rows_Inr:
  "insert_rows key rows new = Inr rows' \<longleftrightarrow> distinct (map key (rows @ new)) \<and> rows' = rows @ new"
  by (auto simp: insert_rows_def)

lemma insert_tree_Inr:
  "insert_tree key parent rows new = Inr rows' \<longleftrightarrow>
     rows' = rows @ new \<and> distinct (map key rows') \<and> parents_exist key parent rows'"
  unfolding insert_tree_def bind_result_Inr_iff insert_rows_Inr by (auto simp del: distinct_append map_append)

lemma delete_tree_Inr:
  "delete_tree key parent P rows = Inr rows' \<longleftrightarrow> rows' = delete_where P rows \<and> parents_exist key parent rows'"
  by (auto simp: delete_tree_def Let_def)

lemma delete_where_append: "delete_where P (xs @ ys) = delete_where P xs @ delete_where P ys"
  by (simp add: delete_where_def)

lemma delete_where_none: "(\<And>x. x \<in> set xs \<Longrightarrow> \<not> P x) \<Longrightarrow> delete_where P xs = xs"
  by (simp add: delete_where_def)

lemma delete_where_all: "(\<And>x. x \<in> set xs \<Longrightarrow> P x) \<Longrightarrow> delete_where P xs = []"
  by (simp add: delete_where_def filter_empty_conv)

lemma length_numbered [simp]: "length (numbered u f xs) = length xs"
  by (simp add: numbered_def)

lemma set_numbered: "set (numbered u f xs) = {f (u k) (int k + 1) (xs ! k) | k. k < length xs}"
  by (auto simp: numbered_def in_set_enumerate_eq image_iff)

lemma map_numbered: "map g (numbered u f xs) = numbered u (\<lambda>i n x. g (f i n x)) xs"
  by (simp add: numbered_def case_prod_beta')

section \<open>Fresh identifiers\<close>

text \<open>The identifiers that one revision draws are distinct; none draws three hundred.\<close>

abbreviation drawn :: "(nat \<Rightarrow> uuid) \<Rightarrow> uuid set" where
  "drawn u \<equiv> u ` {..<300}"

abbreviation fresh :: "(nat \<Rightarrow> uuid) \<Rightarrow> bool" where
  "fresh u \<equiv> inj_on u {..<300}"

lemma distinct_keys:
  "fresh u \<Longrightarrow> map key rows = map u ns \<Longrightarrow> distinct ns \<and> set ns \<subseteq> {..<300} \<Longrightarrow> distinct (map key rows)"
  by (auto simp: distinct_map intro: inj_on_subset)

lemma distinct_drawn:
  assumes "fresh u" and "fresh v" and "drawn u \<inter> drawn v = {}"
    and "distinct ms \<and> set ms \<subseteq> {..<300}" and "distinct ns \<and> set ns \<subseteq> {..<300}"
  shows "distinct (map u ms @ map v ns)"
proof -
  have "u ` set ms \<inter> v ` set ns = {}" using assms(3-5) by blast
  moreover have "distinct (map u ms)" "distinct (map v ns)"
    using assms(4,5) inj_on_subset [OF assms(1)] inj_on_subset [OF assms(2)] by (auto simp: distinct_map)
  ultimately show ?thesis by simp
qed

lemma insert_first: "distinct (map key rows) \<Longrightarrow> insert_rows key [] rows = Inr rows"
  by (simp add: insert_rows_def)

lemma distinct_draws:
  assumes "list_all (\<lambda>k. fresh (u k) \<and> distinct (ns k) \<and> set (ns k) \<subseteq> {..<300}) ks" and "distinct ks"
    and "\<And>j k. j \<in> set ks \<Longrightarrow> k \<in> set ks \<Longrightarrow> j \<noteq> k \<Longrightarrow> drawn (u j) \<inter> drawn (u k) = {}"
  shows "distinct (concat (map (\<lambda>k. map (u k) (ns k)) ks))"
  using assms
proof (induction ks)
  case (Cons k ks)
  have "distinct (map (u k) (ns k))" using Cons.prems(1) by (auto simp: distinct_map intro: inj_on_subset)
  moreover have "u k ` set (ns k) \<inter> u j ` set (ns j) = {}" if "j \<in> set ks" for j
  proof -
    have "set (ns k) \<subseteq> {..<300}" "set (ns j) \<subseteq> {..<300}" using Cons.prems(1) that by (auto simp: list_all_iff)
    moreover have "drawn (u k) \<inter> drawn (u j) = {}" using Cons.prems(2,3) that by auto
    ultimately show ?thesis by blast
  qed
  ultimately show ?case using Cons by auto
qed simp

lemma numbered_keys: "(\<And>i n x. key (f i n x) = i) \<Longrightarrow> map key (numbered u f xs) = map u [0..<length xs]"
  by (rule nth_equalityI) (simp_all add: numbered_def nth_enumerate_eq case_prod_beta')

lemma parents_exist_columns:
  "parents_exist key parent rows \<longleftrightarrow>
     list_all (\<lambda>p. case p of None \<Rightarrow> True | Some j \<Rightarrow> j \<in> set (map key rows)) (map parent rows)"
  by (simp add: parents_exist_def list.pred_map o_def fk_opt_def cong: option.case_cong)

end
