(* ===== verification/Home_Migration.thy ===== *)
theory Home_Migration
  imports Content_Rows
begin

text \<open>
  The content of the home page: \<^verbatim>\<open>alembic/versions/0002_content_tables.py\<close>,
  \<^verbatim>\<open>0004_menu_item_metadata.py\<close>, \<^verbatim>\<open>0005_featured_auction_tabs.py\<close>,
  \<^verbatim>\<open>0006_vehicle_listings.py\<close>, \<^verbatim>\<open>0007_remove_featured_auction_card_columns.py\<close>, the row part of
  \<^verbatim>\<open>0020_vehicle_submissions.py\<close>, \<^verbatim>\<open>0027_home_menu_url.py\<close> and
  \<^verbatim>\<open>0028_menu_items_admin_icon_null.py\<close>. A table that a later revision gives more columns has a record for each
  of its shapes; the last shape is that of \<open>Schema_Tables\<close>. \<open>u\<close> gives the identifiers that \<open>uuid4\<close> draws in a
  revision, \<open>t\<close> is the time of the server.
\<close>

section \<open>0002: the first content\<close>

record menu_item_0002 =
  m_id :: uuid
  m_parent_id :: "uuid option"
  m_label_en :: string
  m_label_ar :: string
  m_url :: string
  m_opens_new_tab :: bool
  m_sort_order :: int
  m_is_active :: bool

record featured_0002 =
  f_id :: uuid
  f_auction_id :: "uuid option"
  f_title_en :: string
  f_title_ar :: string
  f_image_url :: "string option"
  f_badge_en :: "string option"
  f_badge_ar :: "string option"
  f_sort_order :: int
  f_is_active :: bool
  f_created_at :: time

text \<open>The rows of the insertions; \<open>is_active\<close> is left to its default.\<close>

definition menu_row :: "uuid \<Rightarrow> uuid option \<Rightarrow> string \<Rightarrow> string \<Rightarrow> string \<Rightarrow> bool \<Rightarrow> int \<Rightarrow> menu_item_0002" where
  "menu_row i parent en ar url new_tab n = \<lparr>m_id = i, m_parent_id = parent, m_label_en = en, m_label_ar = ar,
     m_url = url, m_opens_new_tab = new_tab, m_sort_order = n, m_is_active = True\<rparr>"

definition MENU :: "(nat \<Rightarrow> uuid) \<Rightarrow> menu_item_0002 list" where
  "MENU u =
     [menu_row (u 2) None ''Home'' (utf8 [0x627, 0x644, 0x635, 0x641, 0x62D, 0x629, 0x20, 0x627, 0x644, 0x631, 0x626, 0x64A, 0x633, 0x64A, 0x629]) ''/'' False 1,
      menu_row (u 0) None ''All Auctions'' (utf8 [0x62C, 0x645, 0x64A, 0x639, 0x20, 0x627, 0x644, 0x645, 0x632, 0x627, 0x62F, 0x627, 0x62A]) ''/seller-buyer/all-auction/vehicles'' False 2,
      menu_row (u 3) None ''Sell Your Car'' (utf8 [0x628, 0x64A, 0x639, 0x20, 0x633, 0x64A, 0x627, 0x631, 0x62A, 0x643]) ''/seller-buyer/sell-car'' False 3,
      menu_row (u 1) None ''Help'' (utf8 [0x627, 0x644, 0x645, 0x633, 0x627, 0x639, 0x62F, 0x629]) ''#'' False 4,
      menu_row (u 4) None ''Sign Up'' (utf8 [0x625, 0x646, 0x634, 0x627, 0x621, 0x20, 0x62D, 0x633, 0x627, 0x628]) ''/sign-up'' False 5,
      menu_row (u 5) None ''Log In'' (utf8 [0x62A, 0x633, 0x62C, 0x64A, 0x644, 0x20, 0x627, 0x644, 0x62F, 0x62E, 0x648, 0x644]) ''login'' False 6,
      menu_row (u 6) (Some (u 0)) ''Online Auctions'' (utf8 [0x645, 0x632, 0x627, 0x62F, 0x627, 0x62A, 0x20, 0x639, 0x644, 0x649, 0x20, 0x627, 0x644, 0x627, 0x646, 0x62A, 0x631, 0x646, 0x62A]) ''/seller-buyer/all-auction/vehicles'' False 1,
      menu_row (u 7) (Some (u 0)) ''Silent Auctions'' (utf8 [0x627, 0x644, 0x645, 0x632, 0x627, 0x62F, 0x20, 0x627, 0x644, 0x635, 0x627, 0x645, 0x62A]) ''/seller-buyer/all-auction/silent-auctions'' False 2,
      menu_row (u 8) (Some (u 0)) ''Equipment & Machinery'' (utf8 [0x627, 0x644, 0x622, 0x644, 0x64A, 0x627, 0x62A, 0x20, 0x648, 0x627, 0x644, 0x645, 0x639, 0x62F, 0x627, 0x62A]) ''/seller-buyer/all-auction/equipment-machinery'' False 3,
      menu_row (u 9) (Some (u 0)) ''Emirates Moto'' (utf8 [0x627, 0x644, 0x625, 0x645, 0x627, 0x631, 0x627, 0x62A, 0x20, 0x645, 0x648, 0x62A, 0x648]) ''https://emiratesmoto.ae/'' True 4,
      menu_row (u 10) (Some (u 1)) ''FAQs'' (utf8 [0x627, 0x644, 0x623, 0x633, 0x626, 0x644, 0x629, 0x20, 0x627, 0x644, 0x634, 0x627, 0x626, 0x639, 0x629]) ''/seller-buyer/auctions/faqs'' False 1,
      menu_row (u 11) (Some (u 1)) ''About Us'' (utf8 [0x639, 0x646, 0x20, 0x627, 0x644, 0x648, 0x637, 0x646, 0x64A, 0x629]) ''/seller-buyer/about-wataneya'' False 2,
      menu_row (u 12) (Some (u 1)) ''Find Branches'' (utf8 [0x623, 0x642, 0x631, 0x628, 0x20, 0x641, 0x631, 0x639]) ''/seller-buyer/auctions/help/find-branch'' False 3,
      menu_row (u 13) (Some (u 1)) ''Contact Us'' (utf8 [0x62A, 0x648, 0x627, 0x635, 0x644, 0x20, 0x645, 0x639, 0x646, 0x627]) ''/seller-buyer/auctions/help/Contact-us'' False 4]"

definition category_row :: "uuid \<Rightarrow> string \<Rightarrow> string \<Rightarrow> string \<Rightarrow> string option \<Rightarrow> string \<Rightarrow> int \<Rightarrow> auction_category" where
  "category_row i en ar slug icon link n = \<lparr>ac_id = i, ac_name_en = en, ac_name_ar = ar, ac_slug = slug, ac_icon_url = icon,
     ac_link_url = link, ac_sort_order = n, ac_is_active = True\<rparr>"

definition CATEGORIES :: "(nat \<Rightarrow> uuid) \<Rightarrow> auction_category list" where
  "CATEGORIES u =
     [category_row (u 14) ''Online Auctions'' (utf8 [0x645, 0x632, 0x627, 0x62F, 0x627, 0x62A, 0x20, 0x639, 0x644, 0x649, 0x20, 0x627, 0x644, 0x627, 0x646, 0x62A, 0x631, 0x646, 0x62A]) ''online-auctions'' None ''/seller-buyer/all-auction/vehicles'' 1,
      category_row (u 15) ''Silent Auctions'' (utf8 [0x627, 0x644, 0x645, 0x632, 0x627, 0x62F, 0x20, 0x627, 0x644, 0x635, 0x627, 0x645, 0x62A]) ''silent-auctions'' None ''/seller-buyer/all-auction/silent-auctions'' 2,
      category_row (u 16) ''UAE Plates'' (utf8 [0x644, 0x648, 0x62D, 0x627, 0x62A, 0x20, 0x627, 0x644, 0x645, 0x631, 0x643, 0x628, 0x627, 0x62A]) ''uae-plates'' None ''/seller-buyer/coming-soon'' 3,
      category_row (u 17) ''Equipment & Machinery'' (utf8 [0x627, 0x644, 0x622, 0x644, 0x64A, 0x627, 0x62A, 0x20, 0x648, 0x627, 0x644, 0x645, 0x639, 0x62F, 0x627, 0x62A]) ''equipment-machinery'' None ''/seller-buyer/coming-soon'' 4,
      category_row (u 18) ''Emirates Moto'' (utf8 [0x627, 0x644, 0x625, 0x645, 0x627, 0x631, 0x627, 0x62A, 0x20, 0x645, 0x648, 0x62A, 0x648]) ''emirates-moto'' None ''https://emiratesmoto.ae/'' 5]"

definition featured_row :: "time \<Rightarrow> uuid \<Rightarrow> uuid option \<Rightarrow> string \<Rightarrow> string \<Rightarrow> string option \<Rightarrow> string option \<Rightarrow> string option \<Rightarrow> int \<Rightarrow> featured_0002" where
  "featured_row t i auction en ar img badge_en badge_ar n = \<lparr>f_id = i, f_auction_id = auction, f_title_en = en,
     f_title_ar = ar, f_image_url = img, f_badge_en = badge_en, f_badge_ar = badge_ar, f_sort_order = n, f_is_active = True,
     f_created_at = t\<rparr>"

definition FEATURED :: "time \<Rightarrow> (nat \<Rightarrow> uuid) \<Rightarrow> featured_0002 list" where
  "FEATURED t u =
     [featured_row t (u 19) None ''Newly Listed Vehicles'' (utf8 [0x645, 0x631, 0x643, 0x628, 0x627, 0x62A, 0x20, 0x645, 0x62F, 0x631, 0x62C, 0x629, 0x20, 0x62D, 0x62F, 0x64A, 0x62B, 0x64B, 0x627]) None (Some ''New'') (Some (utf8 [0x62C, 0x62F, 0x64A, 0x62F])) 1,
      featured_row t (u 20) None ''Ending Soon'' (utf8 [0x64A, 0x646, 0x62A, 0x647, 0x64A, 0x20, 0x642, 0x631, 0x64A, 0x628, 0x64B, 0x627]) None (Some ''Ending Soon'') (Some (utf8 [0x64A, 0x646, 0x62A, 0x647, 0x64A, 0x20, 0x642, 0x631, 0x64A, 0x628, 0x64B, 0x627])) 2,
      featured_row t (u 21) None ''Hot Items'' (utf8 [0x627, 0x644, 0x623, 0x643, 0x62B, 0x631, 0x20, 0x631, 0x648, 0x627, 0x62C, 0x64B, 0x627]) None (Some ''Hot'') (Some (utf8 [0x631, 0x627, 0x626, 0x62C])) 3]"

definition step_row :: "uuid \<Rightarrow> int \<Rightarrow> string \<Rightarrow> string \<Rightarrow> string \<Rightarrow> string \<Rightarrow> string option \<Rightarrow> int \<Rightarrow> how_it_works_step" where
  "step_row i k en ar description_en description_ar icon n = \<lparr>hs_id = i, hs_step_number = k, hs_title_en = en,
     hs_title_ar = ar, hs_description_en = description_en, hs_description_ar = description_ar, hs_icon_url = icon,
     hs_sort_order = n, hs_is_active = True\<rparr>"

definition STEPS :: "(nat \<Rightarrow> uuid) \<Rightarrow> how_it_works_step list" where
  "STEPS u =
     [step_row (u 22) 1 ''Sign Up & Verify Account'' (utf8 [0x625, 0x646, 0x634, 0x627, 0x621, 0x20, 0x62D, 0x633, 0x627, 0x628, 0x20, 0x648, 0x62A, 0x648, 0x62B, 0x64A, 0x642, 0x647]) ''Create your account and complete verification in minutes to start bidding.'' (utf8 [0x623, 0x646, 0x634, 0x626, 0x20, 0x62D, 0x633, 0x627, 0x628, 0x643, 0x20, 0x648, 0x623, 0x643, 0x645, 0x644, 0x20, 0x627, 0x644, 0x62A, 0x648, 0x62B, 0x64A, 0x642, 0x20, 0x62E, 0x644, 0x627, 0x644, 0x20, 0x62F, 0x642, 0x627, 0x626, 0x642, 0x20, 0x644, 0x62A, 0x628, 0x62F, 0x623, 0x20, 0x628, 0x627, 0x644, 0x645, 0x632, 0x627, 0x64A, 0x62F, 0x629, 0x2E]) None 1,
      step_row (u 23) 2 ''Browse & Place Bids'' (utf8 [0x62A, 0x635, 0x641, 0x62D, 0x20, 0x627, 0x644, 0x645, 0x632, 0x627, 0x62F, 0x627, 0x62A, 0x20, 0x648, 0x642, 0x62F, 0x645, 0x20, 0x639, 0x631, 0x648, 0x636, 0x643]) ''Explore our extensive inventory and place competitive bids on your desired vehicles.'' (utf8 [0x62A, 0x635, 0x641, 0x62D, 0x20, 0x645, 0x62C, 0x645, 0x648, 0x639, 0x62A, 0x646, 0x627, 0x20, 0x627, 0x644, 0x648, 0x627, 0x633, 0x639, 0x629, 0x20, 0x648, 0x642, 0x62F, 0x645, 0x20, 0x639, 0x631, 0x648, 0x636, 0x20, 0x62A, 0x646, 0x627, 0x641, 0x633, 0x64A, 0x629, 0x20, 0x639, 0x644, 0x649, 0x20, 0x627, 0x644, 0x645, 0x631, 0x643, 0x628, 0x627, 0x62A, 0x20, 0x627, 0x644, 0x62A, 0x64A, 0x20, 0x62A, 0x631, 0x64A, 0x62F, 0x647, 0x627, 0x2E]) None 2,
      step_row (u 24) 3 ''Win & Make Payment'' (utf8 [0x627, 0x644, 0x641, 0x648, 0x632, 0x20, 0x648, 0x627, 0x644, 0x62F, 0x641, 0x639]) ''Won the auction? Complete your payment securely through our trusted platform.'' (utf8 [0x647, 0x644, 0x20, 0x641, 0x632, 0x62A, 0x20, 0x628, 0x627, 0x644, 0x645, 0x632, 0x627, 0x62F, 0x61F, 0x20, 0x623, 0x643, 0x645, 0x644, 0x20, 0x627, 0x644, 0x62F, 0x641, 0x639, 0x20, 0x628, 0x623, 0x645, 0x627, 0x646, 0x20, 0x639, 0x628, 0x631, 0x20, 0x645, 0x646, 0x635, 0x62A, 0x646, 0x627, 0x20, 0x627, 0x644, 0x645, 0x648, 0x62B, 0x648, 0x642, 0x629, 0x2E]) None 3,
      step_row (u 25) 4 ''Get Your Car Delivered'' (utf8 [0x62A, 0x648, 0x635, 0x64A, 0x644, 0x20, 0x627, 0x644, 0x633, 0x64A, 0x627, 0x631, 0x629, 0x20, 0x625, 0x644, 0x649, 0x20, 0x628, 0x627, 0x628, 0x20, 0x645, 0x646, 0x632, 0x644, 0x643]) ''Sit back and relax as we handle the delivery of your vehicle to your doorstep.'' (utf8 [0x627, 0x633, 0x62A, 0x631, 0x62E, 0x650, 0x20, 0x648, 0x62F, 0x639, 0x646, 0x627, 0x20, 0x646, 0x62A, 0x648, 0x644, 0x649, 0x20, 0x62A, 0x648, 0x635, 0x64A, 0x644, 0x20, 0x645, 0x631, 0x643, 0x628, 0x62A, 0x643, 0x20, 0x625, 0x644, 0x649, 0x20, 0x628, 0x627, 0x628, 0x20, 0x645, 0x646, 0x632, 0x644, 0x643, 0x2E]) None 4]"

definition service_row :: "uuid \<Rightarrow> string \<Rightarrow> string \<Rightarrow> string option \<Rightarrow> string option \<Rightarrow> string option \<Rightarrow> string \<Rightarrow> int \<Rightarrow> value_added_service" where
  "service_row i en ar description_en description_ar icon link n = \<lparr>vs_id = i, vs_name_en = en, vs_name_ar = ar,
     vs_description_en = description_en, vs_description_ar = description_ar, vs_icon_url = icon, vs_link_url = link,
     vs_sort_order = n, vs_is_active = True\<rparr>"

definition SERVICES :: "(nat \<Rightarrow> uuid) \<Rightarrow> value_added_service list" where
  "SERVICES u =
     [service_row (u 26) ''Vehicle Inspection'' (utf8 [0x641, 0x62D, 0x635, 0x20, 0x627, 0x644, 0x645, 0x631, 0x643, 0x628, 0x627, 0x62A]) None None None ''/seller-buyer/upcoming-page'' 1,
      service_row (u 27) ''Vehicle Delivery'' (utf8 [0x62E, 0x62F, 0x645, 0x629, 0x20, 0x62A, 0x648, 0x635, 0x64A, 0x644, 0x20, 0x627, 0x644, 0x645, 0x631, 0x643, 0x628, 0x629]) None None None ''/seller-buyer/vehicle-delivery'' 2,
      service_row (u 28) ''Ownership Transfer'' (utf8 [0x62E, 0x62F, 0x645, 0x629, 0x20, 0x646, 0x642, 0x644, 0x20, 0x645, 0x644, 0x643, 0x64A, 0x629, 0x20, 0x627, 0x644, 0x645, 0x631, 0x643, 0x628, 0x629]) None None None ''/seller-buyer/upcoming-page'' 3,
      service_row (u 29) ''Polishing & Detailing'' (utf8 [0x62A, 0x644, 0x645, 0x64A, 0x639, 0x20, 0x648, 0x62A, 0x641, 0x627, 0x635, 0x64A, 0x644, 0x20, 0x627, 0x644, 0x645, 0x631, 0x643, 0x628, 0x629]) None None None ''/seller-buyer/upcoming-page'' 4,
      service_row (u 30) ''Maintenance & Repairs'' (utf8 [0x635, 0x64A, 0x627, 0x646, 0x629, 0x20, 0x648, 0x625, 0x635, 0x644, 0x627, 0x62D, 0x20, 0x627, 0x644, 0x645, 0x631, 0x643, 0x628, 0x629]) None None None ''/seller-buyer/upcoming-page'' 5,
      service_row (u 31) ''More Services'' (utf8 [0x627, 0x644, 0x645, 0x632, 0x64A, 0x62F, 0x20, 0x645, 0x646, 0x20, 0x627, 0x644, 0x62E, 0x62F, 0x645, 0x627, 0x62A]) None None None ''/seller-buyer/upcoming-page'' 6]"

text \<open>The key of the one row of \<open>footer_settings\<close> is no field of its record.\<close>

definition footer_row ::
    "uuid \<Rightarrow> string \<Rightarrow> string \<Rightarrow> string \<Rightarrow> string \<Rightarrow> string option \<Rightarrow> string option \<Rightarrow> string option \<Rightarrow> string option \<Rightarrow>
     string option \<Rightarrow> string option \<Rightarrow> string option \<Rightarrow> footer_settings_row" where
  "footer_row i about_en about_ar copyright_en copyright_ar phone email facebook instagram youtube app_store google_play =
     \<lparr>fs_about_text_en = about_en, fs_about_text_ar = about_ar, fs_copyright_en = copyright_en, fs_copyright_ar = copyright_ar,
      fs_support_phone = phone, fs_support_email = email, fs_facebook_url = facebook, fs_instagram_url = instagram,
      fs_youtube_url = youtube, fs_app_store_url = app_store, fs_google_play_url = google_play\<rparr>"

definition FOOTER :: "(nat \<Rightarrow> uuid) \<Rightarrow> footer_settings_row list" where
  "FOOTER u =
     [footer_row (u 32) ''Al Wataneya Auctions, established in 2010 by Emirates Transport, is a leading UAE vehicle auction platform, offering diverse vehicles for individuals & businesses.'' (utf8 [0x62A, 0x623, 0x633, 0x633, 0x62A, 0x20, 0x634, 0x631, 0x643, 0x629, 0x20, 0x627, 0x644, 0x648, 0x637, 0x646, 0x64A, 0x629, 0x20, 0x644, 0x644, 0x645, 0x632, 0x627, 0x62F, 0x627, 0x62A, 0x20, 0x641, 0x64A, 0x20, 0x639, 0x627, 0x645, 0x20, 0x32, 0x30, 0x31, 0x30, 0x20, 0x645, 0x646, 0x20, 0x642, 0x628, 0x644, 0x20, 0x645, 0x624, 0x633, 0x633, 0x629, 0x20, 0x627, 0x644, 0x625, 0x645, 0x627, 0x631, 0x627, 0x62A, 0x20, 0x644, 0x644, 0x646, 0x642, 0x644, 0x60C, 0x20, 0x648, 0x647, 0x64A, 0x20, 0x645, 0x646, 0x635, 0x629, 0x20, 0x631, 0x627, 0x626, 0x62F, 0x629, 0x20, 0x644, 0x644, 0x645, 0x632, 0x627, 0x62F, 0x627, 0x62A, 0x20, 0x641, 0x64A, 0x20, 0x62F, 0x648, 0x644, 0x629, 0x20, 0x627, 0x644, 0x625, 0x645, 0x627, 0x631, 0x627, 0x62A, 0x20, 0x62A, 0x642, 0x62F, 0x645, 0x20, 0x645, 0x631, 0x643, 0x628, 0x627, 0x62A, 0x20, 0x645, 0x62A, 0x646, 0x648, 0x639, 0x629, 0x20, 0x644, 0x644, 0x623, 0x641, 0x631, 0x627, 0x62F, 0x20, 0x648, 0x627, 0x644, 0x634, 0x631, 0x643, 0x627, 0x62A, 0x2E]) (utf8 [0xA9, 0x20, 0x32, 0x30, 0x32, 0x35, 0x20, 0x41, 0x6C, 0x6C, 0x20, 0x72, 0x69, 0x67, 0x68, 0x74, 0x73, 0x20, 0x72, 0x65, 0x73, 0x65, 0x72, 0x76, 0x65, 0x64]) (utf8 [0xA9, 0x20, 0x32, 0x30, 0x32, 0x35, 0x20, 0x62C, 0x645, 0x64A, 0x639, 0x20, 0x627, 0x644, 0x62D, 0x642, 0x648, 0x642, 0x20, 0x645, 0x62D, 0x641, 0x648, 0x638, 0x629]) (Some ''+971 8006006'') (Some ''support@alwataneya.ae'') (Some ''https://facebook.com/alwataneya.auctions'') (Some ''https://instagram.com/alwataneya.auctions'') (Some ''https://www.youtube.com/channel/UCGtQXjGZIfmGNb-67TnYS4g'') None None]"

definition footer_link_row :: "uuid \<Rightarrow> string \<Rightarrow> string \<Rightarrow> string \<Rightarrow> string \<Rightarrow> int \<Rightarrow> footer_link" where
  "footer_link_row i sec en ar url n = \<lparr>fl_id = i, fl_section = sec, fl_label_en = en, fl_label_ar = ar, fl_url = url,
     fl_sort_order = n, fl_is_active = True\<rparr>"

definition FOOTER_LINKS :: "(nat \<Rightarrow> uuid) \<Rightarrow> footer_link list" where
  "FOOTER_LINKS u =
     [footer_link_row (u 33) ''quick_links'' ''About Al Wataneya'' (utf8 [0x639, 0x646, 0x20, 0x627, 0x644, 0x648, 0x637, 0x646, 0x64A, 0x629]) ''/seller-buyer/about-wataneya'' 1,
      footer_link_row (u 34) ''quick_links'' ''Terms & Conditions'' (utf8 [0x627, 0x644, 0x634, 0x631, 0x648, 0x637, 0x20, 0x648, 0x627, 0x644, 0x623, 0x62D, 0x643, 0x627, 0x645]) ''/seller-buyer/term'' 2,
      footer_link_row (u 35) ''quick_links'' ''FAQs'' (utf8 [0x627, 0x644, 0x623, 0x633, 0x626, 0x644, 0x629, 0x20, 0x627, 0x644, 0x634, 0x627, 0x626, 0x639, 0x629]) ''/seller-buyer/auctions/faqs'' 3]"

text \<open>\<open>_seed\<close>, over the tables just created.\<close>

record home_0002 =
  h_menu :: "menu_item_0002 list"
  h_categories :: "auction_category list"
  h_featured :: "featured_0002 list"
  h_steps :: "how_it_works_step list"
  h_services :: "value_added_service list"
  h_footer :: "footer_settings_row list"
  h_footer_links :: "footer_link list"

definition seed_0002 :: "env \<Rightarrow> time \<Rightarrow> (nat \<Rightarrow> uuid) \<Rightarrow> exn + home_0002" where
  "seed_0002 env t u =
     bind_result (insert_tree m_id m_parent_id [] (MENU u)) (\<lambda>menu.
     bind_result (insert_rows ac_id [] (CATEGORIES u)) (\<lambda>categories.
     if \<not> distinct (map (collate env \<circ> ac_slug) categories) then Inl IntegrityError else
     bind_result (insert_rows f_id [] (FEATURED t u)) (\<lambda>featured.
     bind_result (insert_rows hs_id [] (STEPS u)) (\<lambda>steps.
     bind_result (insert_rows vs_id [] (SERVICES u)) (\<lambda>services.
     bind_result (insert_rows fl_id [] (FOOTER_LINKS u)) (\<lambda>links.
     Inr \<lparr>h_menu = menu, h_categories = categories, h_featured = featured, h_steps = steps, h_services = services,
       h_footer = FOOTER u, h_footer_links = links\<rparr>))))))"

section \<open>0004: icons, types and visibility of menu items\<close>

text \<open>\<open>ADD COLUMN\<close>: the rows there get NULL or the server default.\<close>

definition add_metadata :: "menu_item_0002 \<Rightarrow> menu_item" where
  "add_metadata r = \<lparr>mi_id = m_id r, mi_parent_id = m_parent_id r, mi_label_en = m_label_en r, mi_label_ar = m_label_ar r,
     mi_url = m_url r, mi_icon_class = None, mi_item_type = ''link'', mi_visibility = ''all'',
     mi_opens_new_tab = m_opens_new_tab r, mi_sort_order = m_sort_order r, mi_is_active = m_is_active r\<rparr>"

text \<open>The sign-in links; \<open>sql_lower\<close> is the server's \<open>LOWER\<close>.\<close>

definition is_sign_in :: "env \<Rightarrow> (string \<Rightarrow> string) \<Rightarrow> menu_item \<Rightarrow> bool" where
  "is_sign_in env sql_lower r \<longleftrightarrow>
     sql_in env (sql_lower (mi_label_en r)) [''sign up'', ''log in'', ''login'', ''sign in'', ''register''] \<or>
     sql_in env (sql_lower (mi_url r)) [''/login'', ''/sign-up'', ''/signup'', ''/register'', ''login'']"

definition metadata_row ::
    "uuid \<Rightarrow> uuid option \<Rightarrow> string \<Rightarrow> string \<Rightarrow> string \<Rightarrow> string option \<Rightarrow> string \<Rightarrow> string \<Rightarrow> bool \<Rightarrow> int \<Rightarrow> bool \<Rightarrow> menu_item" where
  "metadata_row i parent en ar url icon item_type visibility new_tab n active =
     \<lparr>mi_id = i, mi_parent_id = parent, mi_label_en = en, mi_label_ar = ar, mi_url = url, mi_icon_class = icon,
      mi_item_type = item_type, mi_visibility = visibility, mi_opens_new_tab = new_tab, mi_sort_order = n, mi_is_active = active\<rparr>"

definition ADMIN_MENU :: "(nat \<Rightarrow> uuid) \<Rightarrow> menu_item list" where
  "ADMIN_MENU u =
     [metadata_row (u 0) None ''Admin'' (utf8 [0x642, 0x627, 0x626, 0x645, 0x629, 0x20, 0x627, 0x644, 0x625, 0x62F, 0x627, 0x631, 0x629]) ''#'' (Some ''fa-solid fa-user-shield'') ''dropdown'' ''authenticated'' False 90 True,
      metadata_row (u 1) (Some (u 0)) ''Dashboard'' (utf8 [0x644, 0x648, 0x62D, 0x629, 0x20, 0x627, 0x644, 0x62A, 0x62D, 0x643, 0x645]) ''/admin'' (Some ''fa-solid fa-gauge-high'') ''link'' ''authenticated'' False 1 True,
      metadata_row (u 2) (Some (u 0)) ''Auctions'' (utf8 [0x627, 0x644, 0x645, 0x632, 0x627, 0x62F, 0x627, 0x62A]) ''/admin/auctions'' (Some ''fa-solid fa-gavel'') ''link'' ''authenticated'' False 2 True,
      metadata_row (u 3) (Some (u 0)) ''Users'' (utf8 [0x627, 0x644, 0x645, 0x633, 0x62A, 0x62E, 0x62F, 0x645, 0x648, 0x646]) ''/admin/users'' (Some ''fa-solid fa-users'') ''link'' ''authenticated'' False 3 True,
      metadata_row (u 4) None ''Notifications'' (utf8 [0x627, 0x644, 0x625, 0x634, 0x639, 0x627, 0x631, 0x627, 0x62A]) ''#notifications'' (Some ''fa-solid fa-bell'') ''notification'' ''authenticated'' False 91 True,
      metadata_row (u 5) None ''Profile'' (utf8 [0x627, 0x644, 0x645, 0x644, 0x641, 0x20, 0x627, 0x644, 0x634, 0x62E, 0x635, 0x64A]) ''/profile'' (Some ''fa-solid fa-circle-user'') ''profile'' ''authenticated'' False 92 True]"

definition upgrade_0004 :: "env \<Rightarrow> (string \<Rightarrow> string) \<Rightarrow> (nat \<Rightarrow> uuid) \<Rightarrow> menu_item_0002 list \<Rightarrow> exn + menu_item list" where
  "upgrade_0004 env sql_lower u rows =
     insert_tree mi_id mi_parent_id
       (update_where (is_sign_in env sql_lower) (\<lambda>r. r\<lparr>mi_visibility := ''anonymous''\<rparr>) (map add_metadata rows))
       (ADMIN_MENU u)"

definition drop_metadata :: "menu_item \<Rightarrow> menu_item_0002" where
  "drop_metadata r = \<lparr>m_id = mi_id r, m_parent_id = mi_parent_id r, m_label_en = mi_label_en r, m_label_ar = mi_label_ar r,
     m_url = mi_url r, m_opens_new_tab = mi_opens_new_tab r, m_sort_order = mi_sort_order r, m_is_active = mi_is_active r\<rparr>"

definition downgrade_0004 :: "env \<Rightarrow> menu_item list \<Rightarrow> exn + menu_item_0002 list" where
  "downgrade_0004 env rows =
     map_result (map drop_metadata)
       (delete_tree mi_id mi_parent_id
         (\<lambda>r. sql_in env (mi_item_type r) [''notification'', ''profile''] \<or>
              sql_in env (mi_label_en r) [''Admin'', ''Dashboard'', ''Auctions'', ''Users'']) rows)"

section \<open>0005: the tabs of the featured auctions\<close>

record featured_0005 = featured_0002 +
  f_category_key :: string
  f_category_label_en :: string
  f_category_label_ar :: string
  f_visibility :: string
  f_detail_url :: "string option"
  f_lot_number :: "string option"
  f_mileage :: "string option"
  f_location_en :: "string option"
  f_location_ar :: "string option"
  f_bid_amount :: "string option"
  f_countdown_label :: "string option"
  f_category_sort_order :: int

definition VEHICLE_IMAGE_URL :: string where
  "VEHICLE_IMAGE_URL = ''https://images.unsplash.com/photo-1605559424843-9e4c228bf1c2?auto=format&fit=crop&w=640&q=85''"

definition ABU_DHABI_AR :: string where
  "ABU_DHABI_AR = utf8 [0x623, 0x628, 0x648, 0x638, 0x628, 0x64A]"

definition add_tab_columns :: "featured_0002 \<Rightarrow> featured_0005" where
  "add_tab_columns r = featured_0002.extend r
     (featured_0005.fields ''newly_listed'' ''Newly Listed Vehicles''
        (utf8 [0x645, 0x631, 0x643, 0x628, 0x627, 0x62A, 0x20, 0x645, 0x62F, 0x631, 0x62C, 0x629, 0x20, 0x62D, 0x62F, 0x64A, 0x62B, 0x64B, 0x627])
        ''all'' None None None None None None None 0)"

text \<open>\<open>_update_existing_public_rows\<close>: badge, category key and labels, titles and the two orders.\<close>

definition PUBLIC_ROWS :: "(string \<times> string \<times> string \<times> string \<times> string \<times> string \<times> int \<times> int) list" where
  "PUBLIC_ROWS =
     [(''New'', ''newly_listed'', ''Newly Listed Vehicles'', utf8 [0x645, 0x631, 0x643, 0x628, 0x627, 0x62A, 0x20, 0x645, 0x62F, 0x631, 0x62C, 0x629, 0x20, 0x62D, 0x62F, 0x64A, 0x62B, 0x64B, 0x627], ''Toyota Land Cruiser 2025'', utf8 [0x62A, 0x648, 0x64A, 0x648, 0x62A, 0x627, 0x20, 0x644, 0x627, 0x646, 0x62F, 0x20, 0x643, 0x631, 0x648, 0x632, 0x631, 0x20, 0x32, 0x30, 0x32, 0x35], 5, 1),
      (''Ending Soon'', ''ending_soon'', ''Ending Soon'', utf8 [0x64A, 0x646, 0x62A, 0x647, 0x64A, 0x20, 0x642, 0x631, 0x64A, 0x628, 0x64B, 0x627], ''Nissan Patrol Platinum 2024'', utf8 [0x646, 0x64A, 0x633, 0x627, 0x646, 0x20, 0x628, 0x627, 0x62A, 0x631, 0x648, 0x644, 0x20, 0x628, 0x644, 0x627, 0x62A, 0x64A, 0x646, 0x64A, 0x648, 0x645, 0x20, 0x32, 0x30, 0x32, 0x34], 2, 1),
      (''Hot'', ''hot_items'', ''Hot Items'', utf8 [0x639, 0x646, 0x627, 0x635, 0x631, 0x20, 0x631, 0x627, 0x626, 0x62C, 0x629], ''Mercedes-Benz GLE 2023'', utf8 [0x645, 0x631, 0x633, 0x64A, 0x62F, 0x633, 0x20, 0x628, 0x646, 0x632, 0x20, 0x47, 0x4C, 0x45, 0x20, 0x32, 0x30, 0x32, 0x33], 6, 1)]"

definition public_row ::
    "string \<times> string \<times> string \<times> string \<times> string \<times> string \<times> int \<times> int \<Rightarrow> featured_0005 \<Rightarrow> featured_0005" where
  "public_row = (\<lambda>(badge, key, label_en, label_ar, title_en, title_ar, category_order, n) r.
     r\<lparr>f_category_key := key, f_category_label_en := label_en, f_category_label_ar := label_ar, f_title_en := title_en,
       f_title_ar := title_ar, f_visibility := ''all'', f_image_url := coalesce (f_image_url r) VEHICLE_IMAGE_URL,
       f_detail_url := coalesce (f_detail_url r) ''/seller-buyer/vehicle-details/102684'',
       f_lot_number := coalesce (f_lot_number r) ''102684'', f_mileage := coalesce (f_mileage r) ''100002 KM'',
       f_location_en := coalesce (f_location_en r) ''Abu Dhabi'', f_location_ar := coalesce (f_location_ar r) ABU_DHABI_AR,
       f_bid_amount := coalesce (f_bid_amount r) ''AED 5,500'',
       f_countdown_label := coalesce (f_countdown_label r) ''3D: 2H: 48M: 46S'',
       f_category_sort_order := category_order, f_sort_order := n\<rparr>)"

definition update_public_rows :: "env \<Rightarrow> featured_0005 list \<Rightarrow> featured_0005 list" where
  "update_public_rows env rows =
     fold (\<lambda>p. update_where (\<lambda>r. sql_is env (f_badge_en r) (fst p)) (public_row p)) PUBLIC_ROWS rows"

text \<open>\<open>_insert_authenticated_rows\<close>: the columns of \<open>base\<close> and those of the row.\<close>

definition authenticated_row ::
    "time \<Rightarrow> uuid \<Rightarrow> string \<Rightarrow> string \<Rightarrow> string \<Rightarrow> string \<Rightarrow> string \<Rightarrow> string \<Rightarrow> string \<Rightarrow> int \<Rightarrow> featured_0005" where
  "authenticated_row t i title_en title_ar badge_en badge_ar key label_en label_ar category_order =
     \<lparr>f_id = i, f_auction_id = None, f_title_en = title_en, f_title_ar = title_ar, f_image_url = Some VEHICLE_IMAGE_URL,
      f_badge_en = Some badge_en, f_badge_ar = Some badge_ar, f_sort_order = 1, f_is_active = True, f_created_at = t,
      f_category_key = key, f_category_label_en = label_en, f_category_label_ar = label_ar, f_visibility = ''authenticated'',
      f_detail_url = Some ''/seller-buyer/vehicle-details/102684'', f_lot_number = Some ''102684'',
      f_mileage = Some ''100002 KM'', f_location_en = Some ''Abu Dhabi'', f_location_ar = Some ABU_DHABI_AR,
      f_bid_amount = Some ''AED 5,500'', f_countdown_label = Some ''3D: 2H: 48M: 46S'',
      f_category_sort_order = category_order\<rparr>"

definition AUTHENTICATED_ROWS :: "time \<Rightarrow> (nat \<Rightarrow> uuid) \<Rightarrow> featured_0005 list" where
  "AUTHENTICATED_ROWS t u =
     [authenticated_row t (u 0) ''Toyota Land Cruiser 2025'' (utf8 [0x62A, 0x648, 0x64A, 0x648, 0x62A, 0x627, 0x20, 0x644, 0x627, 0x646, 0x62F, 0x20, 0x643, 0x631, 0x648, 0x632, 0x631, 0x20, 0x32, 0x30, 0x32, 0x35]) ''Recommended'' (utf8 [0x645, 0x648, 0x635, 0x649, 0x20, 0x628, 0x647]) ''recommended'' ''Recommended'' (utf8 [0x645, 0x648, 0x635, 0x649, 0x20, 0x628, 0x647]) 1,
      authenticated_row t (u 1) ''Recently Viewed Vehicle'' (utf8 [0x645, 0x631, 0x643, 0x628, 0x629, 0x20, 0x62A, 0x645, 0x62A, 0x20, 0x645, 0x634, 0x627, 0x647, 0x62F, 0x62A, 0x647, 0x627, 0x20, 0x645, 0x624, 0x62E, 0x631, 0x64B, 0x627]) ''Recently Viewed'' (utf8 [0x634, 0x648, 0x647, 0x62F, 0x20, 0x645, 0x624, 0x62E, 0x631, 0x64B, 0x627]) ''recently_viewed'' ''Recently Viewed'' (utf8 [0x634, 0x648, 0x647, 0x62F, 0x20, 0x645, 0x624, 0x62E, 0x631, 0x64B, 0x627]) 3,
      authenticated_row t (u 2) ''Your Favorite Vehicle'' (utf8 [0x645, 0x631, 0x643, 0x628, 0x62A, 0x643, 0x20, 0x627, 0x644, 0x645, 0x641, 0x636, 0x644, 0x629]) ''Favorite'' (utf8 [0x627, 0x644, 0x645, 0x641, 0x636, 0x644, 0x629]) ''favorites'' ''Your Favorites'' (utf8 [0x645, 0x641, 0x636, 0x644, 0x627, 0x62A, 0x643]) 4]"

definition upgrade_0005 :: "env \<Rightarrow> time \<Rightarrow> (nat \<Rightarrow> uuid) \<Rightarrow> featured_0002 list \<Rightarrow> exn + featured_0005 list" where
  "upgrade_0005 env t u rows =
     insert_rows f_id (update_public_rows env (map add_tab_columns rows)) (AUTHENTICATED_ROWS t u)"

definition downgrade_0005 :: "env \<Rightarrow> featured_0005 list \<Rightarrow> featured_0002 list" where
  "downgrade_0005 env rows =
     map featured_0002.truncate
       (delete_where (\<lambda>r. sql_in env (f_category_key r) [''recommended'', ''recently_viewed'', ''favorites'']) rows)"

section \<open>0006 and 0007: the card texts move to listings\<close>

record listing_0006 =
  l_id :: uuid
  l_title_en :: string
  l_title_ar :: string
  l_image_url :: "string option"
  l_detail_url :: string
  l_lot_number :: "string option"
  l_mileage :: "string option"
  l_location_en :: "string option"
  l_location_ar :: "string option"
  l_bid_amount :: "string option"
  l_countdown_label :: "string option"
  l_is_active :: bool
  l_created_at :: time

record featured_0006 = featured_0005 +
  f_vehicle_listing_id :: "uuid option"

definition add_listing_column :: "featured_0005 \<Rightarrow> featured_0006" where
  "add_listing_column r = featured_0005.extend r (featured_0006.fields None)"

text \<open>\<open>row["detail_url"] or "#"\<close>.\<close>

definition detail_or_hash :: "string option \<Rightarrow> string" where
  "detail_or_hash d = (case d of None \<Rightarrow> ''#'' | Some x \<Rightarrow> if x = [] then ''#'' else x)"

definition backfilled_listing :: "time \<Rightarrow> uuid \<Rightarrow> featured_0006 \<Rightarrow> listing_0006" where
  "backfilled_listing t i r = \<lparr>l_id = i, l_title_en = f_title_en r, l_title_ar = f_title_ar r, l_image_url = f_image_url r,
     l_detail_url = detail_or_hash (f_detail_url r), l_lot_number = f_lot_number r, l_mileage = f_mileage r,
     l_location_en = f_location_en r, l_location_ar = f_location_ar r, l_bid_amount = f_bid_amount r,
     l_countdown_label = f_countdown_label r, l_is_active = True, l_created_at = t\<rparr>"

text \<open>The loop over the selected rows: insert a listing, then point the row at it.\<close>

fun backfill_listings ::
    "time \<Rightarrow> (uuid \<times> featured_0006) list \<Rightarrow> listing_0006 list \<times> featured_0006 list \<Rightarrow> exn + listing_0006 list \<times> featured_0006 list" where
  "backfill_listings t [] s = Inr s"
| "backfill_listings t ((i, r) # todo) (listings, featured) =
     bind_result (insert_rows l_id listings [backfilled_listing t i r]) (\<lambda>listings'.
     backfill_listings t todo
       (listings', update_where (\<lambda>x. f_id x = f_id r) (\<lambda>x. x\<lparr>f_vehicle_listing_id := Some i\<rparr>) featured))"

definition backfill_vehicle_listings ::
    "time \<Rightarrow> (nat \<Rightarrow> uuid) \<Rightarrow> featured_0006 list \<Rightarrow> exn + listing_0006 list \<times> featured_0006 list" where
  "backfill_vehicle_listings t u rows =
     (let selected = filter (\<lambda>r. f_vehicle_listing_id r = None) rows in
      backfill_listings t (zip (map u [0..<length selected]) selected) ([], rows))"

definition upgrade_0006 :: "time \<Rightarrow> (nat \<Rightarrow> uuid) \<Rightarrow> featured_0005 list \<Rightarrow> exn + listing_0006 list \<times> featured_0006 list" where
  "upgrade_0006 t u rows = backfill_vehicle_listings t u (map add_listing_column rows)"

text \<open>0007 drops the columns \<open>CARD_COLUMNS\<close>.\<close>

definition drop_card_columns :: "featured_0006 \<Rightarrow> featured_auction" where
  "drop_card_columns r = \<lparr>fa_id = f_id r, fa_auction_id = f_auction_id r, fa_vehicle_listing_id = f_vehicle_listing_id r,
     fa_badge_en = f_badge_en r, fa_badge_ar = f_badge_ar r, fa_category_key = f_category_key r,
     fa_category_label_en = f_category_label_en r, fa_category_label_ar = f_category_label_ar r,
     fa_visibility = f_visibility r, fa_category_sort_order = f_category_sort_order r, fa_sort_order = f_sort_order r,
     fa_is_active = f_is_active r, fa_created_at = f_created_at r\<rparr>"

section \<open>0009 and 0020: the columns of the intake form\<close>

text \<open>\<open>seller_id\<close> of 0009 is NULL, as is what 0020 adds but for its two defaults.\<close>

definition add_intake_columns :: "listing_0006 \<Rightarrow> vehicle_listing" where
  "add_intake_columns l = \<lparr>vl_id = l_id l, vl_seller_id = None, vl_title_en = l_title_en l, vl_title_ar = l_title_ar l,
     vl_image_url = l_image_url l, vl_detail_url = l_detail_url l, vl_lot_number = l_lot_number l, vl_mileage = l_mileage l,
     vl_location_en = l_location_en l, vl_location_ar = l_location_ar l, vl_bid_amount = l_bid_amount l,
     vl_countdown_label = l_countdown_label l, vl_is_active = l_is_active l, vl_chassis_number = None, vl_make_id = None,
     vl_model_id = None, vl_branch_id = None, vl_color_id = None, vl_keys_option_id = None, vl_fuel_type_id = None,
     vl_bidding_model_id = None, vl_year = None, vl_target_selling_price = None, vl_minimum_selling_price = None,
     vl_previous_number_plate = None, vl_sub_seller_id = None, vl_created_by_id = None, vl_mulkhiya_document_url = None,
     vl_terms_accepted = False, vl_status = ''submitted'', vl_created_at = l_created_at l\<rparr>"

text \<open>\<open>UPDATE vehicle_listings SET status = 'published'\<close>.\<close>

definition upgrade_0020 :: "listing_0006 list \<Rightarrow> vehicle_listing list" where
  "upgrade_0020 listings = map (\<lambda>v. v\<lparr>vl_status := ''published''\<rparr>) (map add_intake_columns listings)"

section \<open>0027 and 0028: menu links and icons\<close>

definition upgrade_0027 :: "env \<Rightarrow> menu_item list \<Rightarrow> menu_item list" where
  "upgrade_0027 env = update_where (\<lambda>r. sql_eq env (mi_url r) ''/seller-buyer/home'') (\<lambda>r. r\<lparr>mi_url := ''/''\<rparr>)"

definition downgrade_0027 :: "env \<Rightarrow> menu_item list \<Rightarrow> menu_item list" where
  "downgrade_0027 env =
     update_where (\<lambda>r. sql_eq env (mi_url r) ''/'' \<and> sql_eq env (mi_label_en r) ''Home'') (\<lambda>r. r\<lparr>mi_url := ''/seller-buyer/home''\<rparr>)"

definition upgrade_0028 :: "env \<Rightarrow> menu_item list \<Rightarrow> menu_item list" where
  "upgrade_0028 env = update_where (\<lambda>r. sql_is env (mi_icon_class r) ''fa-solid fa-user-shield'') (\<lambda>r. r\<lparr>mi_icon_class := None\<rparr>)"

definition downgrade_0028 :: "env \<Rightarrow> menu_item list \<Rightarrow> menu_item list" where
  "downgrade_0028 env =
     update_where (\<lambda>r. sql_eq env (mi_label_en r) ''Admin'' \<and> sql_eq env (mi_url r) ''#'' \<and> mi_icon_class r = None)
       (\<lambda>r. r\<lparr>mi_icon_class := Some ''fa-solid fa-user-shield''\<rparr>)"

section \<open>A new installation\<close>

text \<open>The revisions in their order, on an empty database; each draws its own identifiers.\<close>

definition install_home :: "env \<Rightarrow> (string \<Rightarrow> string) \<Rightarrow> time \<Rightarrow> (nat \<Rightarrow> nat \<Rightarrow> uuid) \<Rightarrow> database \<Rightarrow> exn + database" where
  "install_home env sql_lower t u db =
     bind_result (seed_0002 env t (u 2)) (\<lambda>h.
     bind_result (upgrade_0004 env sql_lower (u 4) (h_menu h)) (\<lambda>menu.
     bind_result (upgrade_0005 env t (u 5) (h_featured h)) (\<lambda>featured.
     bind_result (upgrade_0006 t (u 6) featured) (\<lambda>(listings, cards).
     Inr (db\<lparr>menu_items := upgrade_0028 env (upgrade_0027 env menu), auction_categories := h_categories h,
       featured_auctions := map drop_card_columns cards, vehicle_listings := upgrade_0020 listings,
       how_it_works_steps := h_steps h, value_added_services := h_services h, footer_settings := h_footer h,
       footer_links := h_footer_links h\<rparr>)))))"

end
