(* ===== verification/Home_Laws.thy ===== *)
theory Home_Laws
  imports Home_Migration Content_Service
begin

text \<open>
  What the revisions of the home page do to what is served: the menu as a tree of labels, which no later revision
  changes, and the listings into which 0006 moves the texts of the featured auctions.
\<close>

section \<open>The menu as a tree of labels\<close>

definition menu_label :: "lang \<Rightarrow> menu_item \<Rightarrow> string" where
  "menu_label l i = pick (Some (mi_label_en i)) (Some (mi_label_ar i)) l"

definition menu_tops :: "menu_item list \<Rightarrow> menu_item list" where
  "menu_tops items = order_by mi_sort_order (filter (\<lambda>i. mi_parent_id i = None \<and> mi_is_active i) items)"

definition menu_kids :: "menu_item list \<Rightarrow> menu_item \<Rightarrow> menu_item list" where
  "menu_kids items i = filter mi_is_active (menu_children items i)"

definition label_tree :: "lang \<Rightarrow> menu_item list \<Rightarrow> (string \<times> string list) list" where
  "label_tree l items = map (\<lambda>i. (menu_label l i, map (menu_label l) (menu_kids items i))) (menu_tops items)"

definition two_levels :: "menu_item list \<Rightarrow> bool" where
  "two_levels items \<longleftrightarrow> list_all (\<lambda>i. list_all (\<lambda>c. menu_kids items c = []) (menu_kids items i)) (menu_tops items)"

text \<open>The same tree, read off what is served.\<close>

fun read_label :: "menu_item_read \<Rightarrow> string" where
  "read_label (Menu_Item_Read i label url icon item_type visibility new_tab children) = label"

fun read_children :: "menu_item_read \<Rightarrow> menu_item_read list" where
  "read_children (Menu_Item_Read i label url icon item_type visibility new_tab children) = children"

definition served_tree :: "menu_item_read list \<Rightarrow> (string \<times> string list) list" where
  "served_tree = map (\<lambda>m. (read_label m, map read_label (read_children m)))"

lemma map_results_leaves:
  "list_all (\<lambda>c. menu_kids items c = []) cs \<Longrightarrow>
   \<exists>ms. map_results (menu_item_to_schema items l (Suc 0)) cs = Inr ms \<and> map read_label ms = map (menu_label l) cs"
  by (induction cs) (auto simp: menu_kids_def menu_label_def)

lemma map_results_tops:
  "list_all (\<lambda>i. list_all (\<lambda>c. menu_kids items c = []) (menu_kids items i)) ts \<Longrightarrow>
   \<exists>ms. map_results (menu_item_to_schema items l (Suc (Suc 0))) ts = Inr ms \<and>
     served_tree ms = map (\<lambda>i. (menu_label l i, map (menu_label l) (menu_kids items i))) ts"
proof (induction ts)
  case (Cons t ts)
  obtain cs where "map_results (menu_item_to_schema items l (Suc 0)) (menu_kids items t) = Inr cs"
    and "map read_label cs = map (menu_label l) (menu_kids items t)"
    using map_results_leaves Cons.prems by fastforce
  with Cons show ?case by (auto simp: served_tree_def menu_label_def menu_kids_def)
qed (simp add: served_tree_def)

lemma menu_served:
  assumes "two_levels items"
  shows "\<exists>menu. map_results (menu_item_to_schema items l MENU_LEVELS) (menu_tops items) = Inr menu \<and>
    served_tree menu = label_tree l items"
  using map_results_tops [of items "menu_tops items" l] assms
  by (simp add: two_levels_def label_tree_def MENU_LEVELS_def numeral_2_eq_2)

section \<open>Updates that keep the tree\<close>

lemma insort_key_map: "(\<And>x. k (f x) = k x) \<Longrightarrow> insort_key k (f x) (map f xs) = map f (insort_key k x xs)"
  by (induction xs) auto

lemma sort_key_map: "(\<And>x. k (f x) = k x) \<Longrightarrow> sort_key k (map f xs) = map f (sort_key k xs)"
  by (induction xs) (simp_all add: insort_key_map)

text \<open>An update of other columns than those that make the tree.\<close>

definition keeps_place :: "(menu_item \<Rightarrow> menu_item) \<Rightarrow> bool" where
  "keeps_place f \<longleftrightarrow> (\<forall>i. mi_id (f i) = mi_id i \<and> mi_parent_id (f i) = mi_parent_id i \<and> mi_label_en (f i) = mi_label_en i \<and>
     mi_label_ar (f i) = mi_label_ar i \<and> mi_sort_order (f i) = mi_sort_order i \<and> mi_is_active (f i) = mi_is_active i)"

lemma keeps_placeI:
  "keeps_place (\<lambda>r. r\<lparr>mi_visibility := v\<rparr>)" "keeps_place (\<lambda>r. r\<lparr>mi_url := v\<rparr>)" "keeps_place (\<lambda>r. r\<lparr>mi_icon_class := c\<rparr>)"
  by (simp_all add: keeps_place_def)

lemma keeps_place_if: "keeps_place f \<Longrightarrow> keeps_place (\<lambda>i. if P i then f i else i)"
  by (simp add: keeps_place_def)

lemma menu_tops_map: "keeps_place f \<Longrightarrow> menu_tops (map f items) = map f (menu_tops items)"
  by (simp add: menu_tops_def keeps_place_def filter_map o_def sort_key_map)

lemma menu_kids_map: "keeps_place f \<Longrightarrow> menu_kids (map f items) (f i) = map f (menu_kids items i)"
  by (simp add: menu_kids_def menu_children_def keeps_place_def filter_map o_def sort_key_map)

lemma menu_label_map: "keeps_place f \<Longrightarrow> menu_label l (f i) = menu_label l i"
  by (simp add: menu_label_def keeps_place_def)

lemma label_tree_map: "keeps_place f \<Longrightarrow> label_tree l (map f items) = label_tree l items"
  by (simp add: label_tree_def menu_tops_map menu_kids_map menu_label_map o_def)

lemma two_levels_map: "keeps_place f \<Longrightarrow> two_levels (map f items) = two_levels items"
  by (simp add: two_levels_def menu_tops_map menu_kids_map list_all_iff)

lemma label_tree_update [simp]: "keeps_place f \<Longrightarrow> label_tree l (update_where P f items) = label_tree l items"
  unfolding update_where_def by (intro label_tree_map keeps_place_if)

lemma two_levels_update [simp]: "keeps_place f \<Longrightarrow> two_levels (update_where P f items) = two_levels items"
  unfolding update_where_def by (intro two_levels_map keeps_place_if)


lemma update_where_append_disjoint:
  assumes "distinct (map mi_id (xs @ ys))"
  shows "update_where P f xs @ ys = update_where (\<lambda>i. P i \<and> mi_id i \<in> mi_id ` set xs) f (xs @ ys)"
proof -
  have "update_where (\<lambda>i. P i \<and> mi_id i \<in> mi_id ` set xs) f ys = ys"
    using assms by (intro update_where_none) auto
  moreover have "update_where (\<lambda>i. P i \<and> mi_id i \<in> mi_id ` set xs) f xs = update_where P f xs"
    by (simp add: update_where_def)
  ultimately show ?thesis by (simp add: update_where_def)
qed

text \<open>The first content and the items of 0004, without the updates.\<close>

definition first_menu :: "(nat \<Rightarrow> uuid) \<Rightarrow> (nat \<Rightarrow> uuid) \<Rightarrow> menu_item list" where
  "first_menu u v = map add_metadata (MENU u) @ ADMIN_MENU v"

lemma upgrade_0004_menu:
  assumes "upgrade_0004 env sql_lower v (MENU u) = Inr items"
  shows "label_tree l items = label_tree l (first_menu u v) \<and> two_levels items = two_levels (first_menu u v) \<and>
    distinct (map mi_id (first_menu u v))"
proof -
  let ?f = "\<lambda>r. r\<lparr>mi_visibility := ''anonymous''\<rparr>"
  let ?xs = "map add_metadata (MENU u)"
  have items: "items = update_where (is_sign_in env sql_lower) ?f ?xs @ ADMIN_MENU v"
    and ids: "distinct (map mi_id items)"
    using assms by (auto simp: upgrade_0004_def insert_tree_Inr simp del: distinct_append map_append)
  have d: "distinct (map mi_id (first_menu u v))"
    using ids unfolding items first_menu_def by simp
  from update_where_append_disjoint [OF d [unfolded first_menu_def]] items
  have "items = update_where (\<lambda>i. is_sign_in env sql_lower i \<and> mi_id i \<in> mi_id ` set ?xs) ?f (first_menu u v)"
    by (simp only: first_menu_def)
  then show ?thesis using d by (simp add: keeps_placeI)
qed

section \<open>The tree of a new installation\<close>

text \<open>
  A menu without its texts: key, parent, English label and order. The tree is read off the skeleton, and renaming the
  keys does not change it, so that it is computed on numbers.
\<close>

type_synonym 'k skeleton = "('k \<times> 'k option \<times> string \<times> int) list"

fun place :: "menu_item \<Rightarrow> uuid \<times> uuid option \<times> string \<times> int" where
  "place i = (mi_id i, mi_parent_id i, mi_label_en i, mi_sort_order i)"

definition s_order :: "'k skeleton \<Rightarrow> 'k skeleton" where
  "s_order = sort_key (snd \<circ> snd \<circ> snd)"

definition s_tops :: "'k skeleton \<Rightarrow> 'k skeleton" where
  "s_tops s = s_order (filter (\<lambda>e. fst (snd e) = None) s)"

definition s_kids :: "'k skeleton \<Rightarrow> 'k \<Rightarrow> 'k skeleton" where
  "s_kids s k = s_order (filter (\<lambda>e. fst (snd e) = Some k) s)"

definition s_tree :: "'k skeleton \<Rightarrow> (string \<times> string list) list" where
  "s_tree s = map (\<lambda>e. (fst (snd (snd e)), map (fst \<circ> snd \<circ> snd) (s_kids s (fst e)))) (s_tops s)"

definition s_two_levels :: "'k skeleton \<Rightarrow> bool" where
  "s_two_levels s \<longleftrightarrow> list_all (\<lambda>e. list_all (\<lambda>c. s_kids s (fst c) = []) (s_kids s (fst e))) (s_tops s)"

lemma sort_key_map_both: "(\<And>x. k (f x) = k' x) \<Longrightarrow> sort_key k (map f xs) = map f (sort_key k' xs)"
proof (induction xs)
  case (Cons x xs)
  have "insort_key k (f y) (map f ys) = map f (insort_key k' y ys)" for y ys
    by (induction ys) (simp_all add: Cons.prems)
  with Cons show ?case by simp
qed simp

lemma menu_label_En [simp]: "menu_label En i = mi_label_en i"
  by (simp add: menu_label_def pick_def text_or_def)

lemma s_tops_place: "list_all mi_is_active items \<Longrightarrow> s_tops (map place items) = map place (menu_tops items)"
  by (simp add: s_tops_def s_order_def menu_tops_def filter_map o_def sort_key_map_both [where k' = mi_sort_order]
      list_all_iff cong: filter_cong)

lemma s_kids_place: "list_all mi_is_active items \<Longrightarrow> s_kids (map place items) (mi_id i) = map place (menu_kids items i)"
  by (simp add: s_kids_def s_order_def menu_kids_def menu_children_def filter_map o_def
      sort_key_map_both [where k' = mi_sort_order] list_all_iff filter_True_id cong: filter_cong)

lemma s_tree_place: "list_all mi_is_active items \<Longrightarrow> label_tree En items = s_tree (map place items)"
  by (simp add: label_tree_def s_tree_def s_tops_place s_kids_place o_def)

lemma s_two_levels_place: "list_all mi_is_active items \<Longrightarrow> two_levels items = s_two_levels (map place items)"
  by (simp add: two_levels_def s_two_levels_def s_tops_place s_kids_place list_all_iff)

text \<open>Renaming.\<close>

fun rename :: "('k \<Rightarrow> 'l) \<Rightarrow> 'k \<times> 'k option \<times> string \<times> int \<Rightarrow> 'l \<times> 'l option \<times> string \<times> int" where
  "rename g (k, p, label, n) = (g k, map_option g p, label, n)"

definition s_closed :: "'k skeleton \<Rightarrow> bool" where
  "s_closed s \<longleftrightarrow> list_all (\<lambda>e. case fst (snd e) of None \<Rightarrow> True | Some p \<Rightarrow> p \<in> set (map fst s)) s"

lemma rename_sel [simp]:
  "fst (rename g e) = g (fst e)" "fst (snd (rename g e)) = map_option g (fst (snd e))" "snd (snd (rename g e)) = snd (snd e)"
  by (cases e; simp)+

lemma s_tops_rename: "s_tops (map (rename g) s) = map (rename g) (s_tops s)"
  by (simp add: s_tops_def s_order_def filter_map o_def sort_key_map_both [where k' = "\<lambda>e. snd (snd (snd e))"])

lemma s_kids_rename:
  assumes "inj_on g (set (map fst s))" and "s_closed s" and "k \<in> set (map fst s)"
  shows "s_kids (map (rename g) s) (g k) = map (rename g) (s_kids s k)"
proof -
  have "map_option g (fst (snd e)) = Some (g k) \<longleftrightarrow> fst (snd e) = Some k" if "e \<in> set s" for e
  proof (cases "fst (snd e)")
    case (Some p)
    then have "p \<in> set (map fst s)" using assms(2) that by (force simp: s_closed_def list_all_iff)
    then show ?thesis using assms(1,3) Some by (auto simp: inj_on_def)
  qed simp
  then have "filter (\<lambda>e. map_option g (fst (snd e)) = Some (g k)) s = filter (\<lambda>e. fst (snd e) = Some k) s"
    by (intro filter_cong) auto
  then show ?thesis
    by (simp add: s_kids_def s_order_def filter_map o_def sort_key_map_both [where k' = "\<lambda>e. snd (snd (snd e))"])
qed

lemma s_tops_subset: "set (s_tops s) \<subseteq> set s"
  by (auto simp: s_tops_def s_order_def)

lemma s_kids_subset: "set (s_kids s k) \<subseteq> set s"
  by (auto simp: s_kids_def s_order_def)

lemma s_kids_entry:
  assumes "inj_on g (set (map fst s))" and "s_closed s" and "e \<in> set s"
  shows "s_kids (map (rename g) s) (g (fst e)) = map (rename g) (s_kids s (fst e))"
  using assms by (intro s_kids_rename) auto

lemma s_tree_rename:
  assumes "inj_on g (set (map fst s))" and "s_closed s"
  shows "s_tree (map (rename g) s) = s_tree s"
proof -
  have "s_kids (map (rename g) s) (g (fst e)) = map (rename g) (s_kids s (fst e))" if "e \<in> set (s_tops s)" for e
    using that s_tops_subset [of s] by (intro s_kids_entry [OF assms]) blast
  then show ?thesis by (simp add: s_tree_def s_tops_rename o_def)
qed

lemma s_two_levels_rename:
  assumes "inj_on g (set (map fst s))" and "s_closed s"
  shows "s_two_levels (map (rename g) s) = s_two_levels s"
proof -
  have top: "s_kids (map (rename g) s) (g (fst e)) = map (rename g) (s_kids s (fst e))" if "e \<in> set (s_tops s)" for e
    using that s_tops_subset [of s] by (intro s_kids_entry [OF assms]) blast
  have kid: "s_kids (map (rename g) s) (g (fst c)) = map (rename g) (s_kids s (fst c))" if "c \<in> set (s_kids s k)" for c k
    using that s_kids_subset [of s] by (intro s_kids_entry [OF assms]) blast
  show ?thesis by (simp add: s_two_levels_def s_tops_rename list.pred_map o_def top kid cong: list.pred_cong)
qed

text \<open>The keys of 0002 as the numbers from 0, those of 0004 from 20 on.\<close>

definition FIRST_SKELETON :: "int skeleton" where
  "FIRST_SKELETON =
     [(2, None, ''Home'', 1), (0, None, ''All Auctions'', 2), (3, None, ''Sell Your Car'', 3), (1, None, ''Help'', 4),
      (4, None, ''Sign Up'', 5), (5, None, ''Log In'', 6), (6, Some 0, ''Online Auctions'', 1),
      (7, Some 0, ''Silent Auctions'', 2), (8, Some 0, ''Equipment & Machinery'', 3), (9, Some 0, ''Emirates Moto'', 4),
      (10, Some 1, ''FAQs'', 1), (11, Some 1, ''About Us'', 2), (12, Some 1, ''Find Branches'', 3), (13, Some 1, ''Contact Us'', 4),
      (20, None, ''Admin'', 90), (21, Some 20, ''Dashboard'', 1), (22, Some 20, ''Auctions'', 2), (23, Some 20, ''Users'', 3),
      (24, None, ''Notifications'', 91), (25, None, ''Profile'', 92)]"

definition first_key :: "(nat \<Rightarrow> uuid) \<Rightarrow> (nat \<Rightarrow> uuid) \<Rightarrow> int \<Rightarrow> uuid" where
  "first_key u v k = (if k < 20 then u (nat k) else v (nat (k - 20)))"

lemma first_menu_place: "map place (first_menu u v) = map (rename (first_key u v)) FIRST_SKELETON"
  by (simp add: first_menu_def MENU_def ADMIN_MENU_def add_metadata_def menu_row_def metadata_row_def FIRST_SKELETON_def first_key_def)

lemma first_menu_active: "list_all mi_is_active (first_menu u v)"
  by (simp add: first_menu_def MENU_def ADMIN_MENU_def add_metadata_def menu_row_def metadata_row_def)

definition FIRST_TREE :: "(string \<times> string list) list" where
  "FIRST_TREE =
     [(''Home'', []),
      (''All Auctions'', [''Online Auctions'', ''Silent Auctions'', ''Equipment & Machinery'', ''Emirates Moto'']),
      (''Sell Your Car'', []),
      (''Help'', [''FAQs'', ''About Us'', ''Find Branches'', ''Contact Us'']),
      (''Sign Up'', []),
      (''Log In'', []),
      (''Admin'', [''Dashboard'', ''Auctions'', ''Users'']),
      (''Notifications'', []),
      (''Profile'', [])]"

lemma first_skeleton:
  "s_closed FIRST_SKELETON" "s_tree FIRST_SKELETON = FIRST_TREE" "s_two_levels FIRST_SKELETON"
  by code_simp+

lemma first_menu_tree:
  assumes "distinct (map mi_id (first_menu u v))"
  shows "label_tree En (first_menu u v) = FIRST_TREE" and "two_levels (first_menu u v)"
proof -
  have "map mi_id (first_menu u v) = map fst (map place (first_menu u v))" by (simp add: o_def)
  also have "\<dots> = map (first_key u v) (map fst FIRST_SKELETON)" by (simp add: first_menu_place o_def)
  finally have "distinct (map (first_key u v) (map fst FIRST_SKELETON))" using assms by (simp only:)
  then have inj: "inj_on (first_key u v) (set (map fst FIRST_SKELETON))" unfolding distinct_map by (rule conjunct2)
  show "label_tree En (first_menu u v) = FIRST_TREE"
    by (simp add: s_tree_place first_menu_active first_menu_place s_tree_rename [OF inj] first_skeleton)
  show "two_levels (first_menu u v)"
    by (simp add: s_two_levels_place first_menu_active first_menu_place s_two_levels_rename [OF inj] first_skeleton)
qed

section \<open>The listings of 0006\<close>

text \<open>A row with its new listing.\<close>

definition linked :: "uuid \<Rightarrow> featured_0006 \<Rightarrow> featured_0006" where
  "linked i r = r\<lparr>f_vehicle_listing_id := Some i\<rparr>"

lemma backfill_listings_run:
  assumes "backfill_listings t (zip is rs) (ls, pre @ rs) = Inr (ls', rows)" and "length is = length rs"
    and "distinct (map f_id (pre @ rs))"
  shows "ls' = ls @ map2 (backfilled_listing t) is rs \<and> rows = pre @ map2 linked is rs \<and>
    (distinct (map l_id ls) \<longrightarrow> distinct (map l_id ls'))"
  using assms
proof (induction rs arbitrary: "is" ls pre)
  case (Cons r rs)
  then obtain i js where "is": "is = i # js" by (cases "is") auto
  have "update_where (\<lambda>x. f_id x = f_id r) (linked i) (pre @ r # rs) = (pre @ [linked i r]) @ rs"
  proof -
    have other: "x \<in> set pre \<union> set rs \<Longrightarrow> f_id x \<noteq> f_id r" for x
      using Cons.prems(3) by (auto simp: rev_image_eqI)
    have "update_where (\<lambda>x. f_id x = f_id r) (linked i) pre = pre" by (rule update_where_none) (simp add: other)
    moreover have "update_where (\<lambda>x. f_id x = f_id r) (linked i) rs = rs" by (rule update_where_none) (simp add: other)
    ultimately show ?thesis by (simp add: update_where_def)
  qed
  then have run: "backfill_listings t (zip js rs) (ls @ [backfilled_listing t i r], (pre @ [linked i r]) @ rs) = Inr (ls', rows)"
    and ls: "distinct (map l_id (ls @ [backfilled_listing t i r]))"
    using Cons.prems(1) by (auto simp: "is" insert_rows_Inr linked_def [abs_def] simp del: append_assoc)
  have d: "distinct (map f_id ((pre @ [linked i r]) @ rs))" using Cons.prems(3) by (simp add: linked_def)
  have "length js = length rs" using Cons.prems(2) by (simp add: "is")
  note ih = Cons.IH [OF run this d]
  have "distinct (map l_id ls')" using ih ls by blast
  moreover have "ls' = ls @ map2 (backfilled_listing t) is (r # rs)" using conjunct1 [OF ih] by (simp add: "is")
  moreover have "rows = pre @ map2 linked is (r # rs)" using conjunct1 [OF conjunct2 [OF ih]] by (simp add: "is")
  ultimately show ?case by blast
qed simp

lemma upgrade_0006_run:
  assumes "upgrade_0006 t u rows = Inr (listings, cards)" and "distinct (map f_id rows)"
  shows "listings = map2 (backfilled_listing t) (map u [0..<length rows]) (map add_listing_column rows)"
    and "cards = map2 linked (map u [0..<length rows]) (map add_listing_column rows)"
    and "distinct (map l_id listings)"
proof -
  let ?rs = "map add_listing_column rows"
  have ids: "map f_id ?rs = map f_id rows" by (simp add: add_listing_column_def featured_0005.defs o_def)
  have "filter (\<lambda>r. f_vehicle_listing_id r = None) ?rs = ?rs"
    by (intro filter_True_id) (auto simp: add_listing_column_def featured_0005.defs featured_0006.defs)
  then have b: "backfill_listings t (zip (map u [0..<length rows]) ?rs) ([], [] @ ?rs) = Inr (listings, cards)"
    using assms(1) by (simp add: upgrade_0006_def backfill_vehicle_listings_def Let_def)
  have d: "distinct (map f_id ([] @ ?rs))" using assms(2) by (simp only: append_Nil ids)
  have "length (map u [0..<length rows]) = length ?rs" by simp
  note run = backfill_listings_run [OF b this d]
  show "listings = map2 (backfilled_listing t) (map u [0..<length rows]) ?rs" using conjunct1 [OF run] by (simp only: append_Nil)
  show "cards = map2 linked (map u [0..<length rows]) ?rs" using conjunct1 [OF conjunct2 [OF run]] by (simp only: append_Nil)
  show "distinct (map l_id listings)" using conjunct2 [OF conjunct2 [OF run]] by simp
qed

text \<open>Each row, as 0007 leaves it, and the listing it is linked to, as 0020 leaves it.\<close>

lemma upgrade_0006_linked:
  assumes "upgrade_0006 t u rows = Inr (listings, cards)" and "distinct (map f_id rows)" and "k < length rows"
  shows "map drop_card_columns cards ! k = drop_card_columns (linked (u k) (add_listing_column (rows ! k)))"
    and "get_by_id vl_id (upgrade_0020 listings) (u k) =
      Some ((add_intake_columns (backfilled_listing t (u k) (add_listing_column (rows ! k))))\<lparr>vl_status := ''published''\<rparr>)"
proof -
  note run = upgrade_0006_run [OF assms(1,2)]
  show "map drop_card_columns cards ! k = drop_card_columns (linked (u k) (add_listing_column (rows ! k)))"
    using assms(3) by (simp add: run(2))
  let ?v = "(add_intake_columns (backfilled_listing t (u k) (add_listing_column (rows ! k))))\<lparr>vl_status := ''published''\<rparr>"
  have "map vl_id (upgrade_0020 listings) = map l_id listings"
    by (simp add: upgrade_0020_def add_intake_columns_def o_def)
  then have d: "distinct (map vl_id (upgrade_0020 listings))" using run(3) by (simp only:)
  have "upgrade_0020 listings ! k = ?v" and "k < length (upgrade_0020 listings)"
    using assms(3) by (simp_all add: upgrade_0020_def run(1))
  then have "?v \<in> set (upgrade_0020 listings)" by (metis nth_mem)
  from get_by_id_unique [OF d this] show "get_by_id vl_id (upgrade_0020 listings) (u k) = Some ?v"
    by (simp add: add_intake_columns_def backfilled_listing_def)
qed

section \<open>The featured auctions of a new installation\<close>

definition BADGES :: "string list" where
  "BADGES = [''New'', ''Ending Soon'', ''Hot'']"

definition TAB_KEYS :: "string list" where
  "TAB_KEYS = [''recommended'', ''ending_soon'', ''recently_viewed'', ''favorites'', ''newly_listed'', ''hot_items'']"

text \<open>Where the collation tells the badges apart, each update of 0005 hits the row that it is for.\<close>

definition first_featured :: "time \<Rightarrow> (nat \<Rightarrow> uuid) \<Rightarrow> (nat \<Rightarrow> uuid) \<Rightarrow> featured_0005 list" where
  "first_featured t u v = map2 public_row PUBLIC_ROWS (map add_tab_columns (FEATURED t u)) @ AUTHENTICATED_ROWS t v"

lemma public_row_badge [simp]: "f_badge_en (public_row p r) = f_badge_en r"
  by (simp add: public_row_def split: prod.splits)

lemma update_three:
  assumes "distinct (map (collate env) [fst p, fst q, fst r])"
    and "f_badge_en a = Some (fst p)" "f_badge_en b = Some (fst q)" "f_badge_en c = Some (fst r)"
  shows "fold (\<lambda>p. update_where (\<lambda>r. sql_is env (f_badge_en r) (fst p)) (public_row p)) [p, q, r] [a, b, c] =
    [public_row p a, public_row q b, public_row r c]"
  using assms by (auto simp: sql_is_def sql_eq_def)

lemma upgrade_0005_first:
  assumes "distinct (map (collate env) BADGES)" and "upgrade_0005 env t v (FEATURED t u) = Inr rows"
  shows "rows = first_featured t u v" and "distinct (map f_id rows)"
proof -
  obtain p q r where pqr: "PUBLIC_ROWS = [p, q, r]" and "map fst [p, q, r] = BADGES"
    by (simp add: PUBLIC_ROWS_def BADGES_def)
  obtain a b c where abc: "map add_tab_columns (FEATURED t u) = [a, b, c]"
    and "map f_badge_en [a, b, c] = map Some BADGES"
    by (simp add: FEATURED_def featured_row_def add_tab_columns_def featured_0002.defs BADGES_def)
  have "update_public_rows env (map add_tab_columns (FEATURED t u)) = map2 public_row PUBLIC_ROWS (map add_tab_columns (FEATURED t u))"
    unfolding update_public_rows_def pqr abc using assms(1) \<open>map fst [p, q, r] = BADGES\<close> \<open>map f_badge_en [a, b, c] = map Some BADGES\<close>
    by (subst update_three) (auto simp: BADGES_def)
  with assms(2) show "rows = first_featured t u v"
    by (auto simp: upgrade_0005_def insert_rows_Inr first_featured_def simp del: distinct_append map_append)
  show "distinct (map f_id rows)"
    using assms(2) by (auto simp: upgrade_0005_def insert_rows_Inr simp del: distinct_append map_append)
qed

text \<open>What decides about the tabs.\<close>

lemma first_featured_keys:
  "map (\<lambda>r. (f_category_key r, f_category_sort_order r, f_sort_order r, f_is_active r)) (first_featured t u v) =
    [(''newly_listed'', 5, 1, True), (''ending_soon'', 2, 1, True), (''hot_items'', 6, 1, True), (''recommended'', 1, 1, True),
     (''recently_viewed'', 3, 1, True), (''favorites'', 4, 1, True)]"
  by (simp add: first_featured_def PUBLIC_ROWS_def FEATURED_def featured_row_def add_tab_columns_def featured_0002.defs
      featured_0005.defs public_row_def AUTHENTICATED_ROWS_def authenticated_row_def)

lemma first_featured_card:
  "list_all (\<lambda>r. f_image_url r = Some VEHICLE_IMAGE_URL \<and> f_bid_amount r = Some ''AED 5,500'' \<and> f_lot_number r = Some ''102684'')
    (first_featured t u v)"
  by (simp add: first_featured_def PUBLIC_ROWS_def FEATURED_def featured_row_def add_tab_columns_def featured_0002.defs
      featured_0005.defs public_row_def AUTHENTICATED_ROWS_def authenticated_row_def coalesce_def)

section \<open>The migrations succeed\<close>

lemma content_ids:
  "map m_id (MENU u) = map u [2, 0, 3, 1, 4, 5, 6, 7, 8, 9, 10, 11, 12, 13]"
  "map ac_id (CATEGORIES u) = map u [14, 15, 16, 17, 18]"
  "map f_id (FEATURED t u) = map u [19, 20, 21]"
  "map hs_id (STEPS u) = map u [22, 23, 24, 25]"
  "map vs_id (SERVICES u) = map u [26, 27, 28, 29, 30, 31]"
  "map fl_id (FOOTER_LINKS u) = map u [33, 34, 35]"
  "map mi_id (ADMIN_MENU u) = map u [0, 1, 2, 3, 4, 5]"
  "map f_id (AUTHENTICATED_ROWS t u) = map u [0, 1, 2]"
  by (simp_all add: MENU_def menu_row_def CATEGORIES_def category_row_def FEATURED_def featured_row_def STEPS_def step_row_def
      SERVICES_def service_row_def FOOTER_LINKS_def footer_link_row_def ADMIN_MENU_def metadata_row_def AUTHENTICATED_ROWS_def
      authenticated_row_def)

definition SLUGS :: "string list" where
  "SLUGS = [''online-auctions'', ''silent-auctions'', ''uae-plates'', ''equipment-machinery'', ''emirates-moto'']"

lemma category_slugs: "map ac_slug (CATEGORIES u) = SLUGS"
  by (simp add: CATEGORIES_def category_row_def SLUGS_def)

lemma menu_parents:
  "map m_parent_id (MENU u) = [None, None, None, None, None, None, Some (u 0), Some (u 0), Some (u 0), Some (u 0),
      Some (u 1), Some (u 1), Some (u 1), Some (u 1)]"
  "map mi_parent_id (ADMIN_MENU v) = [None, Some (v 0), Some (v 0), Some (v 0), None, None]"
  by (simp_all add: MENU_def menu_row_def ADMIN_MENU_def metadata_row_def)

lemma seed_0002_succeeds:
  assumes "fresh u" and "distinct (map (collate env) SLUGS)"
  shows "\<exists>h. seed_0002 env t u = Inr h"
proof -
  have ids: "insert_rows m_id [] (MENU u) = Inr (MENU u)" "insert_rows ac_id [] (CATEGORIES u) = Inr (CATEGORIES u)"
    "insert_rows f_id [] (FEATURED t u) = Inr (FEATURED t u)" "insert_rows hs_id [] (STEPS u) = Inr (STEPS u)"
    "insert_rows vs_id [] (SERVICES u) = Inr (SERVICES u)" "insert_rows fl_id [] (FOOTER_LINKS u) = Inr (FOOTER_LINKS u)"
    by (intro insert_first distinct_keys [OF assms(1)], rule content_ids, simp)+
  have "parents_exist m_id m_parent_id (MENU u)"
    unfolding parents_exist_columns content_ids menu_parents by simp
  moreover have "distinct (map (collate env \<circ> ac_slug) (CATEGORIES u))"
    using assms(2) by (simp only: map_map [symmetric] category_slugs)
  ultimately show ?thesis
    unfolding seed_0002_def insert_tree_def ids bind_result.simps
    by (simp only: bind_result.simps if_True if_False simp_thms) blast
qed

lemma upgrade_0004_succeeds:
  assumes "fresh u" and "fresh v" and "drawn u \<inter> drawn v = {}"
  shows "\<exists>rows. upgrade_0004 env sql_lower v (MENU u) = Inr rows"
proof -
  let ?xs = "update_where (is_sign_in env sql_lower) (\<lambda>r. r\<lparr>mi_visibility := ''anonymous''\<rparr>) (map add_metadata (MENU u))"
  have xs: "map mi_id ?xs = map m_id (MENU u)" "map mi_parent_id ?xs = map m_parent_id (MENU u)"
    by (simp_all add: add_metadata_def o_def)
  have "distinct (map mi_id (?xs @ ADMIN_MENU v))"
    unfolding map_append xs content_ids by (rule distinct_drawn [OF assms]) simp_all
  moreover have "parents_exist mi_id mi_parent_id (?xs @ ADMIN_MENU v)"
    unfolding parents_exist_columns map_append xs content_ids menu_parents by simp
  ultimately show ?thesis unfolding upgrade_0004_def insert_tree_Inr by blast
qed

lemma upgrade_0005_succeeds:
  assumes "fresh u" and "fresh v" and "drawn u \<inter> drawn v = {}"
  shows "\<exists>rows. upgrade_0005 env t v (FEATURED t u) = Inr rows \<and> length rows = 6"
proof -
  have keep: "map f_id (update_where P (public_row p) rows) = map f_id rows" for P p and rows :: "featured_0005 list"
    by (rule map_update_where) (simp add: public_row_def split: prod.splits)
  have "map f_id (fold (\<lambda>p. update_where (Q p) (public_row p)) ps rows) = map f_id rows"
    for Q ps and rows :: "featured_0005 list"
    by (induction ps arbitrary: rows) (simp_all add: keep)
  then have ids: "map f_id (update_public_rows env (map add_tab_columns (FEATURED t u))) = map f_id (FEATURED t u)"
    by (simp add: update_public_rows_def add_tab_columns_def featured_0002.defs o_def)
  have "distinct (map f_id (update_public_rows env (map add_tab_columns (FEATURED t u)) @ AUTHENTICATED_ROWS t v))"
    unfolding map_append ids content_ids by (rule distinct_drawn [OF assms]) simp_all
  moreover have "length (update_public_rows env (map add_tab_columns (FEATURED t u)) @ AUTHENTICATED_ROWS t v) = 6"
    using arg_cong [OF ids, of length] by (simp add: FEATURED_def AUTHENTICATED_ROWS_def)
  ultimately show ?thesis unfolding upgrade_0005_def insert_rows_Inr by blast
qed

lemma backfilled_listing_id [simp]: "l_id (backfilled_listing t i r) = i"
  by (simp add: backfilled_listing_def)

lemma backfill_listings_succeeds:
  "distinct (map l_id ls @ is) \<Longrightarrow> length is = length rs \<Longrightarrow> \<exists>s'. backfill_listings t (zip is rs) (ls, rows) = Inr s'"
proof (induction rs arbitrary: "is" ls rows)
  case (Cons r rs)
  then obtain i js where "is": "is = i # js" by (cases "is") auto
  let ?ls = "ls @ [backfilled_listing t i r]"
  have d: "distinct (map l_id ?ls @ js)" and "length js = length rs" using Cons.prems by (auto simp: "is")
  moreover have "insert_rows l_id ls [backfilled_listing t i r] = Inr ?ls" unfolding insert_rows_Inr using d by simp
  ultimately show ?case
    using Cons.IH unfolding "is" zip_Cons_Cons backfill_listings.simps by (simp only: bind_result.simps)
qed simp

lemma upgrade_0006_succeeds:
  assumes "fresh u" and "length rows \<le> 300"
  shows "\<exists>s. upgrade_0006 t u rows = Inr s"
proof -
  let ?selected = "filter (\<lambda>r. f_vehicle_listing_id r = None) (map add_listing_column rows)"
  have "length ?selected \<le> 300" using assms(2) by (intro order_trans [OF length_filter_le]) simp
  then have "inj_on u {0..<length ?selected}" by (intro inj_on_subset [OF assms(1)]) auto
  then have "distinct (map l_id [] @ map u [0..<length ?selected])" by (simp only: list.map append_Nil distinct_map distinct_upt set_upt simp_thms)
  then show ?thesis
    unfolding upgrade_0006_def backfill_vehicle_listings_def Let_def
    by (rule backfill_listings_succeeds) (simp only: length_map length_upt minus_nat.diff_0)
qed

text \<open>The revisions run through on empty tables, if \<open>uuid4\<close> draws no identifier twice.\<close>

lemma install_home_succeeds:
  assumes u: "fresh (u 2)" "fresh (u 4)" "fresh (u 5)" "fresh (u 6)"
    and apart: "drawn (u 2) \<inter> drawn (u 4) = {}" "drawn (u 2) \<inter> drawn (u 5) = {}"
    and slugs: "distinct (map (collate env) SLUGS)"
  shows "\<exists>db'. install_home env sql_lower t u db = Inr db'"
proof -
  obtain h where h: "seed_0002 env t (u 2) = Inr h" using seed_0002_succeeds [OF u(1) slugs] by blast
  then have tables: "h_menu h = MENU (u 2)" "h_featured h = FEATURED t (u 2)"
    by (auto simp: seed_0002_def insert_tree_Inr insert_rows_Inr split: if_splits)
  obtain menu where menu: "upgrade_0004 env sql_lower (u 4) (MENU (u 2)) = Inr menu"
    using upgrade_0004_succeeds [OF u(1,2) apart(1)] by blast
  obtain rows where rows: "upgrade_0005 env t (u 5) (FEATURED t (u 2)) = Inr rows" and "length rows = 6"
    using upgrade_0005_succeeds [OF u(1,3) apart(2)] by blast
  obtain listings cards where "upgrade_0006 t (u 6) rows = Inr (listings, cards)"
    using upgrade_0006_succeeds [OF u(4), of rows t] \<open>length rows = 6\<close> by fastforce
  with h menu rows show ?thesis by (simp add: install_home_def tables)
qed

end
