(* ===== verification/Dashboard_Migration.thy ===== *)
theory Dashboard_Migration
  imports Content_Rows
begin

text \<open>
  The rows of the admin dashboard: \<^verbatim>\<open>alembic/versions/0010_admin_dashboard.py\<close> to
  \<^verbatim>\<open>0017_vehicle_status_metrics.py\<close>, \<^verbatim>\<open>0024_seller_card_images.py\<close>, \<^verbatim>\<open>0025_seller_card_icons_null.py\<close>,
  \<^verbatim>\<open>0026_admin_menu_icon_null.py\<close> and \<^verbatim>\<open>0032_admin_nav_overview_icons.py\<close>. As for the home page, \<open>u\<close> gives
  the identifiers that a revision draws, and a table that gets a column later has a record of its earlier shape.
\<close>

section \<open>0010: navigation and first cards\<close>

record nav_item_0010 =
  n_id :: uuid
  n_label_en :: string
  n_label_ar :: string
  n_icon_class :: "string option"
  n_url :: string
  n_sort_order :: int
  n_is_active :: bool

record card_0010 =
  c_id :: uuid
  c_section_key :: string
  c_label_en :: string
  c_label_ar :: string
  c_description_en :: "string option"
  c_description_ar :: "string option"
  c_icon_class :: "string option"
  c_url :: string
  c_sort_order :: int
  c_is_active :: bool

definition nav_row_0010 :: "uuid \<Rightarrow> string \<Rightarrow> string \<Rightarrow> string option \<Rightarrow> string \<Rightarrow> int \<Rightarrow> nav_item_0010" where
  "nav_row_0010 i en ar icon url n = \<lparr>n_id = i, n_label_en = en, n_label_ar = ar, n_icon_class = icon, n_url = url,
     n_sort_order = n, n_is_active = True\<rparr>"

definition NAV_ITEMS :: "(nat \<Rightarrow> uuid) \<Rightarrow> nav_item_0010 list" where
  "NAV_ITEMS u =
     [nav_row_0010 (u 0) ''Home'' (utf8 [0x627, 0x644, 0x631, 0x626, 0x64A, 0x633, 0x64A, 0x629]) (Some ''fa-solid fa-house'') ''/'' 1,
      nav_row_0010 (u 1) ''Sellers'' (utf8 [0x627, 0x644, 0x628, 0x627, 0x626, 0x639, 0x648, 0x646]) (Some ''fa-solid fa-user-tag'') ''/admin/sellers'' 2,
      nav_row_0010 (u 2) ''Operations'' (utf8 [0x627, 0x644, 0x639, 0x645, 0x644, 0x64A, 0x627, 0x62A]) (Some ''fa-solid fa-gears'') ''/admin/operations'' 3,
      nav_row_0010 (u 3) ''Management'' (utf8 [0x627, 0x644, 0x625, 0x62F, 0x627, 0x631, 0x629]) (Some ''fa-solid fa-users-gear'') ''/admin/management'' 4,
      nav_row_0010 (u 4) ''Accountant'' (utf8 [0x627, 0x644, 0x645, 0x62D, 0x627, 0x633, 0x628, 0x629]) (Some ''fa-solid fa-file-invoice-dollar'') ''/admin/accountant'' 5,
      nav_row_0010 (u 5) ''Reports'' (utf8 [0x627, 0x644, 0x62A, 0x642, 0x627, 0x631, 0x64A, 0x631]) (Some ''fa-solid fa-chart-column'') ''/admin/reports'' 6,
      nav_row_0010 (u 6) ''Admin'' (utf8 [0x627, 0x644, 0x625, 0x62F, 0x627, 0x631, 0x629, 0x20, 0x627, 0x644, 0x639, 0x627, 0x645, 0x629]) (Some ''fa-solid fa-user-shield'') ''/admin'' 7]"

text \<open>The cards: labels, descriptions, icon and link; sections and numbers come from the loops.\<close>

definition DASHBOARD_SECTION :: "(string \<times> string \<times> string \<times> string \<times> string \<times> string) list" where
  "DASHBOARD_SECTION =
     [(''Auctions'', utf8 [0x627, 0x644, 0x645, 0x632, 0x627, 0x62F, 0x627, 0x62A], ''Review live, scheduled, and closed auctions.'', utf8 [0x645, 0x631, 0x627, 0x62C, 0x639, 0x629, 0x20, 0x627, 0x644, 0x645, 0x632, 0x627, 0x62F, 0x627, 0x62A, 0x20, 0x627, 0x644, 0x645, 0x628, 0x627, 0x634, 0x631, 0x629, 0x20, 0x648, 0x627, 0x644, 0x645, 0x62C, 0x62F, 0x648, 0x644, 0x629, 0x20, 0x648, 0x627, 0x644, 0x645, 0x63A, 0x644, 0x642, 0x629, 0x2E], ''fa-solid fa-gavel'', ''/admin/auctions''),
      (''Users'', utf8 [0x627, 0x644, 0x645, 0x633, 0x62A, 0x62E, 0x62F, 0x645, 0x648, 0x646], ''Manage buyer and seller accounts.'', utf8 [0x625, 0x62F, 0x627, 0x631, 0x629, 0x20, 0x62D, 0x633, 0x627, 0x628, 0x627, 0x62A, 0x20, 0x627, 0x644, 0x645, 0x634, 0x62A, 0x631, 0x64A, 0x646, 0x20, 0x648, 0x627, 0x644, 0x628, 0x627, 0x626, 0x639, 0x64A, 0x646, 0x2E], ''fa-solid fa-users'', ''/admin/users'')]"

definition SELLERS_SECTION :: "(string \<times> string \<times> string \<times> string \<times> string \<times> string) list" where
  "SELLERS_SECTION =
     [(''Add a New Car'', utf8 [0x625, 0x636, 0x627, 0x641, 0x629, 0x20, 0x633, 0x64A, 0x627, 0x631, 0x629, 0x20, 0x62C, 0x62F, 0x64A, 0x62F, 0x629], ''List a new vehicle for sale or auction.'', utf8 [0x625, 0x62F, 0x631, 0x627, 0x62C, 0x20, 0x645, 0x631, 0x643, 0x628, 0x629, 0x20, 0x62C, 0x62F, 0x64A, 0x62F, 0x629, 0x20, 0x644, 0x644, 0x628, 0x64A, 0x639, 0x20, 0x623, 0x648, 0x20, 0x627, 0x644, 0x645, 0x632, 0x627, 0x62F, 0x2E], ''fa-solid fa-car'', ''/admin/sellers/add-a-new-car''),
      (''My Vehicles'', utf8 [0x645, 0x631, 0x643, 0x628, 0x627, 0x62A, 0x64A], ''View and manage all vehicles you've listed.'', utf8 [0x639, 0x631, 0x636, 0x20, 0x648, 0x625, 0x62F, 0x627, 0x631, 0x629, 0x20, 0x62C, 0x645, 0x64A, 0x639, 0x20, 0x627, 0x644, 0x645, 0x631, 0x643, 0x628, 0x627, 0x62A, 0x20, 0x627, 0x644, 0x62A, 0x64A, 0x20, 0x623, 0x62F, 0x631, 0x62C, 0x62A, 0x647, 0x627, 0x2E], ''fa-solid fa-car-side'', ''/admin/sellers/my-vehicles''),
      (''My Received Vehicles'', utf8 [0x627, 0x644, 0x645, 0x631, 0x643, 0x628, 0x627, 0x62A, 0x20, 0x627, 0x644, 0x645, 0x633, 0x62A, 0x644, 0x645, 0x629], ''Vehicles received and pending processing.'', utf8 [0x627, 0x644, 0x645, 0x631, 0x643, 0x628, 0x627, 0x62A, 0x20, 0x627, 0x644, 0x645, 0x633, 0x62A, 0x644, 0x645, 0x629, 0x20, 0x648, 0x627, 0x644, 0x645, 0x639, 0x644, 0x642, 0x629, 0x20, 0x642, 0x64A, 0x62F, 0x20, 0x627, 0x644, 0x645, 0x639, 0x627, 0x644, 0x62C, 0x629, 0x2E], ''fa-solid fa-truck-ramp-box'', ''/admin/sellers/my-received-vehicles''),
      (''Active Auctions'', utf8 [0x627, 0x644, 0x645, 0x632, 0x627, 0x62F, 0x627, 0x62A, 0x20, 0x627, 0x644, 0x646, 0x634, 0x637, 0x629], ''Auctions currently open for bidding.'', utf8 [0x627, 0x644, 0x645, 0x632, 0x627, 0x62F, 0x627, 0x62A, 0x20, 0x627, 0x644, 0x645, 0x641, 0x62A, 0x648, 0x62D, 0x629, 0x20, 0x62D, 0x627, 0x644, 0x64A, 0x64B, 0x627, 0x20, 0x644, 0x644, 0x645, 0x632, 0x627, 0x64A, 0x62F, 0x629, 0x2E], ''fa-solid fa-gavel'', ''/admin/sellers/active-auctions''),
      (''Sold Undelivered'', utf8 [0x645, 0x628, 0x627, 0x639, 0x629, 0x20, 0x648, 0x63A, 0x64A, 0x631, 0x20, 0x645, 0x633, 0x644, 0x645, 0x629], ''Sold vehicles awaiting delivery.'', utf8 [0x627, 0x644, 0x645, 0x631, 0x643, 0x628, 0x627, 0x62A, 0x20, 0x627, 0x644, 0x645, 0x628, 0x627, 0x639, 0x629, 0x20, 0x628, 0x627, 0x646, 0x62A, 0x638, 0x627, 0x631, 0x20, 0x627, 0x644, 0x62A, 0x633, 0x644, 0x64A, 0x645, 0x2E], ''fa-solid fa-box-open'', ''/admin/sellers/sold-undelivered''),
      (''Unsold Vehicles Undelivered'', utf8 [0x63A, 0x64A, 0x631, 0x20, 0x645, 0x628, 0x627, 0x639, 0x629, 0x20, 0x648, 0x63A, 0x64A, 0x631, 0x20, 0x645, 0x633, 0x644, 0x645, 0x629], ''Unsold vehicles still awaiting return delivery.'', utf8 [0x627, 0x644, 0x645, 0x631, 0x643, 0x628, 0x627, 0x62A, 0x20, 0x63A, 0x64A, 0x631, 0x20, 0x627, 0x644, 0x645, 0x628, 0x627, 0x639, 0x629, 0x20, 0x627, 0x644, 0x62A, 0x64A, 0x20, 0x644, 0x627, 0x20, 0x62A, 0x632, 0x627, 0x644, 0x20, 0x628, 0x627, 0x646, 0x62A, 0x638, 0x627, 0x631, 0x20, 0x625, 0x639, 0x627, 0x62F, 0x629, 0x20, 0x627, 0x644, 0x62A, 0x633, 0x644, 0x64A, 0x645, 0x2E], ''fa-solid fa-triangle-exclamation'', ''/admin/sellers/unsold-vehicles-undelivered''),
      (''My Invoices'', utf8 [0x641, 0x648, 0x627, 0x62A, 0x64A, 0x631, 0x64A], ''View invoices issued to your account.'', utf8 [0x639, 0x631, 0x636, 0x20, 0x627, 0x644, 0x641, 0x648, 0x627, 0x62A, 0x64A, 0x631, 0x20, 0x627, 0x644, 0x635, 0x627, 0x62F, 0x631, 0x629, 0x20, 0x644, 0x62D, 0x633, 0x627, 0x628, 0x643, 0x2E], ''fa-solid fa-file-invoice'', ''/admin/sellers/my-invoices''),
      (''My Payments'', utf8 [0x645, 0x62F, 0x641, 0x648, 0x639, 0x627, 0x62A, 0x64A], ''Track payments received and outstanding.'', utf8 [0x62A, 0x62A, 0x628, 0x639, 0x20, 0x627, 0x644, 0x645, 0x62F, 0x641, 0x648, 0x639, 0x627, 0x62A, 0x20, 0x627, 0x644, 0x645, 0x633, 0x62A, 0x644, 0x645, 0x629, 0x20, 0x648, 0x627, 0x644, 0x645, 0x633, 0x62A, 0x62D, 0x642, 0x629, 0x2E], ''fa-solid fa-wallet'', ''/admin/sellers/my-payments''),
      (''Requested Services'', utf8 [0x627, 0x644, 0x62E, 0x62F, 0x645, 0x627, 0x62A, 0x20, 0x627, 0x644, 0x645, 0x637, 0x644, 0x648, 0x628, 0x629], ''Services you've requested for your vehicles.'', utf8 [0x627, 0x644, 0x62E, 0x62F, 0x645, 0x627, 0x62A, 0x20, 0x627, 0x644, 0x62A, 0x64A, 0x20, 0x637, 0x644, 0x628, 0x62A, 0x647, 0x627, 0x20, 0x644, 0x645, 0x631, 0x643, 0x628, 0x627, 0x62A, 0x643, 0x2E], ''fa-solid fa-clipboard-list'', ''/admin/sellers/requested-services''),
      (''Completed Requests'', utf8 [0x627, 0x644, 0x637, 0x644, 0x628, 0x627, 0x62A, 0x20, 0x627, 0x644, 0x645, 0x643, 0x62A, 0x645, 0x644, 0x629], ''Service requests that have been completed.'', utf8 [0x637, 0x644, 0x628, 0x627, 0x62A, 0x20, 0x627, 0x644, 0x62E, 0x62F, 0x645, 0x629, 0x20, 0x627, 0x644, 0x62A, 0x64A, 0x20, 0x62A, 0x645, 0x20, 0x625, 0x646, 0x62C, 0x627, 0x632, 0x647, 0x627, 0x2E], ''fa-solid fa-circle-check'', ''/admin/sellers/completed-requests''),
      (''Unapproved Vehicle'', utf8 [0x645, 0x631, 0x643, 0x628, 0x629, 0x20, 0x63A, 0x64A, 0x631, 0x20, 0x645, 0x639, 0x62A, 0x645, 0x62F, 0x629], ''Vehicles pending approval before listing.'', utf8 [0x627, 0x644, 0x645, 0x631, 0x643, 0x628, 0x627, 0x62A, 0x20, 0x628, 0x627, 0x646, 0x62A, 0x638, 0x627, 0x631, 0x20, 0x627, 0x644, 0x645, 0x648, 0x627, 0x641, 0x642, 0x629, 0x20, 0x642, 0x628, 0x644, 0x20, 0x627, 0x644, 0x625, 0x62F, 0x631, 0x627, 0x62C, 0x2E], ''fa-solid fa-car-burst'', ''/admin/sellers/unapproved-vehicle'')]"

definition card_row ::
    "string \<Rightarrow> uuid \<Rightarrow> int \<Rightarrow> string \<times> string \<times> string \<times> string \<times> string \<times> string \<Rightarrow> card_0010" where
  "card_row sec i n = (\<lambda>(label_en, label_ar, description_en, description_ar, icon, url).
     \<lparr>c_id = i, c_section_key = sec, c_label_en = label_en, c_label_ar = label_ar, c_description_en = Some description_en,
      c_description_ar = Some description_ar, c_icon_class = Some icon, c_url = url, c_sort_order = n, c_is_active = True\<rparr>)"

definition seed_dashboard_cards :: "(nat \<Rightarrow> uuid) \<Rightarrow> card_0010 list" where
  "seed_dashboard_cards u =
     numbered u (card_row ''dashboard'') DASHBOARD_SECTION @
     numbered (shift u (length DASHBOARD_SECTION)) (card_row ''sellers'') SELLERS_SECTION"

definition seed_0010 :: "(nat \<Rightarrow> uuid) \<Rightarrow> exn + nav_item_0010 list \<times> card_0010 list" where
  "seed_0010 u =
     bind_result (insert_rows n_id [] (NAV_ITEMS u)) (\<lambda>navs.
     bind_result (insert_rows c_id [] (seed_dashboard_cards (shift u (length navs)))) (\<lambda>cards.
     Inr (navs, cards)))"

section \<open>0011: submenus and the real dashboard\<close>

definition add_parent_column :: "nav_item_0010 \<Rightarrow> admin_nav_item" where
  "add_parent_column r = \<lparr>an_id = n_id r, an_parent_id = None, an_label_en = n_label_en r, an_label_ar = n_label_ar r,
     an_icon_class = n_icon_class r, an_url = n_url r, an_sort_order = n_sort_order r, an_is_active = n_is_active r\<rparr>"

definition nav_row :: "uuid \<Rightarrow> uuid option \<Rightarrow> string \<Rightarrow> string \<Rightarrow> string option \<Rightarrow> string \<Rightarrow> int \<Rightarrow> admin_nav_item" where
  "nav_row i parent en ar icon url n = \<lparr>an_id = i, an_parent_id = parent, an_label_en = en, an_label_ar = ar,
     an_icon_class = icon, an_url = url, an_sort_order = n, an_is_active = True\<rparr>"

text \<open>\<open>scalar_one\<close>.\<close>

fun scalar_one :: "'a list \<Rightarrow> exn + 'a" where
  "scalar_one [] = Inl NoResultFound"
| "scalar_one [x] = Inr x"
| "scalar_one (x # y # zs) = Inl MultipleResultsFound"

definition NAV_CHILDREN :: "uuid \<Rightarrow> (nat \<Rightarrow> uuid) \<Rightarrow> admin_nav_item list" where
  "NAV_CHILDREN admin_id u =
     [nav_row (u 0) (Some admin_id) ''Dashboard'' (utf8 [0x644, 0x648, 0x62D, 0x629, 0x20, 0x627, 0x644, 0x62A, 0x62D, 0x643, 0x645]) None ''/admin/dashboard'' 1,
      nav_row (u 1) (Some admin_id) ''In Store'' (utf8 [0x62F, 0x627, 0x62E, 0x644, 0x20, 0x627, 0x644, 0x645, 0x62A, 0x62C, 0x631]) None ''/admin/instore'' 2]"

definition DASHBOARD_CARDS :: "(string \<times> string \<times> string \<times> string \<times> string \<times> string) list" where
  "DASHBOARD_CARDS =
     [(''Location List'', utf8 [0x642, 0x627, 0x626, 0x645, 0x629, 0x20, 0x627, 0x644, 0x645, 0x648, 0x627, 0x642, 0x639], ''Manage branch and yard locations.'', utf8 [0x625, 0x62F, 0x627, 0x631, 0x629, 0x20, 0x645, 0x648, 0x627, 0x642, 0x639, 0x20, 0x627, 0x644, 0x641, 0x631, 0x648, 0x639, 0x20, 0x648, 0x627, 0x644, 0x633, 0x627, 0x62D, 0x627, 0x62A, 0x2E], ''fa-solid fa-location-dot'', ''/admin/dashboard/location-list''),
      (''Services List'', utf8 [0x642, 0x627, 0x626, 0x645, 0x629, 0x20, 0x627, 0x644, 0x62E, 0x62F, 0x645, 0x627, 0x62A], ''Manage the value-added services offered to sellers.'', utf8 [0x625, 0x62F, 0x627, 0x631, 0x629, 0x20, 0x627, 0x644, 0x62E, 0x62F, 0x645, 0x627, 0x62A, 0x20, 0x630, 0x627, 0x62A, 0x20, 0x627, 0x644, 0x642, 0x64A, 0x645, 0x629, 0x20, 0x627, 0x644, 0x645, 0x636, 0x627, 0x641, 0x629, 0x20, 0x627, 0x644, 0x645, 0x642, 0x62F, 0x645, 0x629, 0x20, 0x644, 0x644, 0x628, 0x627, 0x626, 0x639, 0x64A, 0x646, 0x2E], ''fa-solid fa-hand-holding-dollar'', ''/admin/dashboard/services-list''),
      (''Message Templates'', utf8 [0x642, 0x648, 0x627, 0x644, 0x628, 0x20, 0x627, 0x644, 0x631, 0x633, 0x627, 0x626, 0x644], ''Manage notification and email message templates.'', utf8 [0x625, 0x62F, 0x627, 0x631, 0x629, 0x20, 0x642, 0x648, 0x627, 0x644, 0x628, 0x20, 0x631, 0x633, 0x627, 0x626, 0x644, 0x20, 0x627, 0x644, 0x625, 0x634, 0x639, 0x627, 0x631, 0x627, 0x62A, 0x20, 0x648, 0x627, 0x644, 0x628, 0x631, 0x64A, 0x62F, 0x20, 0x627, 0x644, 0x625, 0x644, 0x643, 0x62A, 0x631, 0x648, 0x646, 0x64A, 0x2E], ''fa-solid fa-comment-dots'', ''/admin/dashboard/message-templates''),
      (''Auction Groups'', utf8 [0x645, 0x62C, 0x645, 0x648, 0x639, 0x627, 0x62A, 0x20, 0x627, 0x644, 0x645, 0x632, 0x627, 0x62F, 0x627, 0x62A], ''Manage groupings used to organize auctions.'', utf8 [0x625, 0x62F, 0x627, 0x631, 0x629, 0x20, 0x627, 0x644, 0x62A, 0x62C, 0x645, 0x64A, 0x639, 0x627, 0x62A, 0x20, 0x627, 0x644, 0x645, 0x633, 0x62A, 0x62E, 0x62F, 0x645, 0x629, 0x20, 0x644, 0x62A, 0x646, 0x638, 0x64A, 0x645, 0x20, 0x627, 0x644, 0x645, 0x632, 0x627, 0x62F, 0x627, 0x62A, 0x2E], ''fa-solid fa-layer-group'', ''/admin/dashboard/auction-groups''),
      (''Inspection Packages'', utf8 [0x628, 0x627, 0x642, 0x627, 0x62A, 0x20, 0x627, 0x644, 0x641, 0x62D, 0x635], ''Manage vehicle inspection package offerings.'', utf8 [0x625, 0x62F, 0x627, 0x631, 0x629, 0x20, 0x628, 0x627, 0x642, 0x627, 0x62A, 0x20, 0x641, 0x62D, 0x635, 0x20, 0x627, 0x644, 0x645, 0x631, 0x643, 0x628, 0x627, 0x62A, 0x20, 0x627, 0x644, 0x645, 0x642, 0x62F, 0x645, 0x629, 0x2E], ''fa-solid fa-clipboard-check'', ''/admin/dashboard/inspection-packages''),
      (''Complaint Details'', utf8 [0x62A, 0x641, 0x627, 0x635, 0x64A, 0x644, 0x20, 0x627, 0x644, 0x634, 0x643, 0x627, 0x648, 0x649], ''Review and manage submitted complaints.'', utf8 [0x645, 0x631, 0x627, 0x62C, 0x639, 0x629, 0x20, 0x648, 0x625, 0x62F, 0x627, 0x631, 0x629, 0x20, 0x627, 0x644, 0x634, 0x643, 0x627, 0x648, 0x649, 0x20, 0x627, 0x644, 0x645, 0x642, 0x62F, 0x645, 0x629, 0x2E], ''fa-solid fa-triangle-exclamation'', ''/admin/dashboard/complaint-details'')]"

abbreviation in_section :: "env \<Rightarrow> string \<Rightarrow> card_0010 \<Rightarrow> bool" where
  "in_section env sec c \<equiv> sql_eq env (c_section_key c) sec"

definition upgrade_0011 ::
    "env \<Rightarrow> (nat \<Rightarrow> uuid) \<Rightarrow> nav_item_0010 list \<times> card_0010 list \<Rightarrow> exn + admin_nav_item list \<times> card_0010 list" where
  "upgrade_0011 env u = (\<lambda>(navs, cards).
     bind_result (scalar_one (map an_id (filter (\<lambda>r. sql_eq env (an_label_en r) ''Admin'') (map add_parent_column navs)))) (\<lambda>admin_id.
     bind_result (insert_tree an_id an_parent_id (map add_parent_column navs) (NAV_CHILDREN admin_id u)) (\<lambda>navs'.
     bind_result (insert_rows c_id (delete_where (in_section env ''dashboard'') cards)
       (numbered (shift u (length (NAV_CHILDREN admin_id u))) (card_row ''dashboard'') DASHBOARD_CARDS)) (\<lambda>cards'.
     Inr (navs', cards')))))"

definition drop_parent_column :: "admin_nav_item \<Rightarrow> nav_item_0010" where
  "drop_parent_column r = \<lparr>n_id = an_id r, n_label_en = an_label_en r, n_label_ar = an_label_ar r, n_icon_class = an_icon_class r,
     n_url = an_url r, n_sort_order = an_sort_order r, n_is_active = an_is_active r\<rparr>"

definition downgrade_0011 ::
    "env \<Rightarrow> admin_nav_item list \<times> card_0010 list \<Rightarrow> exn + nav_item_0010 list \<times> card_0010 list" where
  "downgrade_0011 env = (\<lambda>(navs, cards).
     map_result (\<lambda>rest. (map drop_parent_column rest, delete_where (in_section env ''dashboard'') cards))
       (delete_tree an_id an_parent_id (\<lambda>r. sql_in env (an_label_en r) [''Dashboard'', ''In Store'']) navs))"

section \<open>0012 to 0016: a grid of cards per section\<close>

definition IMAGE_BASE :: string where
  "IMAGE_BASE = ''https://uat-alwataneya.et.ae/PA_AdminDashboard/resource/images/''"

definition image_of :: "string \<Rightarrow> string" where
  "image_of filename = IMAGE_BASE @ quote filename"

definition add_image_column :: "card_0010 \<Rightarrow> admin_dashboard_card" where
  "add_image_column c = \<lparr>dc_id = c_id c, dc_section_key = c_section_key c, dc_label_en = c_label_en c,
     dc_label_ar = c_label_ar c, dc_description_en = c_description_en c, dc_description_ar = c_description_ar c,
     dc_icon_class = c_icon_class c, dc_url = c_url c, dc_image_url = None, dc_sort_order = c_sort_order c,
     dc_is_active = c_is_active c\<rparr>"

definition drop_image_column :: "admin_dashboard_card \<Rightarrow> card_0010" where
  "drop_image_column c = \<lparr>c_id = dc_id c, c_section_key = dc_section_key c, c_label_en = dc_label_en c,
     c_label_ar = dc_label_ar c, c_description_en = dc_description_en c, c_description_ar = dc_description_ar c,
     c_icon_class = dc_icon_class c, c_url = dc_url c, c_sort_order = dc_sort_order c, c_is_active = dc_is_active c\<rparr>"

text \<open>The row of the five loops: slug, labels and file name; \<open>base\<close> is the link before the slug.\<close>

definition image_card :: "string \<Rightarrow> string \<Rightarrow> uuid \<Rightarrow> int \<Rightarrow> string \<times> string \<times> string \<times> string \<Rightarrow> admin_dashboard_card" where
  "image_card sec base i n = (\<lambda>(slug, label_en, label_ar, filename).
     \<lparr>dc_id = i, dc_section_key = sec, dc_label_en = label_en, dc_label_ar = label_ar, dc_description_en = None,
      dc_description_ar = None, dc_icon_class = None, dc_url = base @ slug, dc_image_url = Some (image_of filename),
      dc_sort_order = n, dc_is_active = True\<rparr>)"

definition delete_section :: "env \<Rightarrow> string \<Rightarrow> admin_dashboard_card list \<Rightarrow> admin_dashboard_card list" where
  "delete_section env sec = delete_where (\<lambda>c. sql_eq env (dc_section_key c) sec)"

definition OPERATIONS_CARDS :: "(string \<times> string \<times> string \<times> string) list" where
  "OPERATIONS_CARDS =
     [(''addnew-car'', ''Add a New Car'', utf8 [0x625, 0x636, 0x627, 0x641, 0x629, 0x20, 0x633, 0x64A, 0x627, 0x631, 0x629, 0x20, 0x62C, 0x62F, 0x64A, 0x62F, 0x629], ''add-new-car.svg''),
      (''add-new-car-from-erp'', ''Request Vehicle from ERP'', utf8 [0x637, 0x644, 0x628, 0x20, 0x645, 0x631, 0x643, 0x628, 0x629, 0x20, 0x645, 0x646, 0x20, 0x646, 0x638, 0x627, 0x645, 0x20, 0x45, 0x52, 0x50], ''add-new-car.svg''),
      (''request-vehicle'', ''Request Vehicle'', utf8 [0x637, 0x644, 0x628, 0x20, 0x645, 0x631, 0x643, 0x628, 0x629], ''request vehicle.svg''),
      (''washed-vehicle'', ''Washed Vehicle'', utf8 [0x645, 0x631, 0x643, 0x628, 0x629, 0x20, 0x645, 0x63A, 0x633, 0x648, 0x644, 0x629], ''Washed vehicle.svg''),
      (''photo-vehicle'', ''Photo Vehicle'', utf8 [0x62A, 0x635, 0x648, 0x64A, 0x631, 0x20, 0x627, 0x644, 0x645, 0x631, 0x643, 0x628, 0x629], ''photo vehicle.svg''),
      (''technical-test'', ''Technical Test'', utf8 [0x627, 0x644, 0x641, 0x62D, 0x635, 0x20, 0x627, 0x644, 0x641, 0x646, 0x64A], ''tecnical report.svg''),
      (''submitted-by-seller'', ''Submitted by Seller'', utf8 [0x645, 0x642, 0x62F, 0x645, 0x629, 0x20, 0x645, 0x646, 0x20, 0x627, 0x644, 0x628, 0x627, 0x626, 0x639], ''submit by seller.svg''),
      (''inactive-auctions'', ''Inactive Auctions'', utf8 [0x627, 0x644, 0x645, 0x632, 0x627, 0x62F, 0x627, 0x62A, 0x20, 0x63A, 0x64A, 0x631, 0x20, 0x627, 0x644, 0x646, 0x634, 0x637, 0x629], ''inactive auction.svg''),
      (''active-auctionn'', ''Active Auctions'', utf8 [0x627, 0x644, 0x645, 0x632, 0x627, 0x62F, 0x627, 0x62A, 0x20, 0x627, 0x644, 0x646, 0x634, 0x637, 0x629], ''Active auction.svg''),
      (''awarded-report'', ''Awarded Report'', utf8 [0x62A, 0x642, 0x631, 0x64A, 0x631, 0x20, 0x627, 0x644, 0x62A, 0x631, 0x633, 0x64A, 0x629], ''awarded report.svg''),
      (''approved-by-seller'', ''Approved by Seller'', utf8 [0x645, 0x639, 0x62A, 0x645, 0x62F, 0x629, 0x20, 0x645, 0x646, 0x20, 0x627, 0x644, 0x628, 0x627, 0x626, 0x639], ''Approved by seller.svg''),
      (''underapproval'', ''Under Approval'', utf8 [0x642, 0x64A, 0x62F, 0x20, 0x627, 0x644, 0x645, 0x648, 0x627, 0x641, 0x642, 0x629], ''under approval.svg''),
      (''sold-vehicle'', ''Sold Undelivered'', utf8 [0x645, 0x628, 0x627, 0x639, 0x629, 0x20, 0x648, 0x63A, 0x64A, 0x631, 0x20, 0x645, 0x633, 0x644, 0x645, 0x629], ''sold undelivered.svg''),
      (''buyer-change'', ''Buyer Change'', utf8 [0x62A, 0x63A, 0x64A, 0x64A, 0x631, 0x20, 0x627, 0x644, 0x645, 0x634, 0x62A, 0x631, 0x64A], ''buyer change.svg''),
      (''completed-bch-services'', ''Completed B.Ch Services'', utf8 [0x62E, 0x62F, 0x645, 0x627, 0x62A, 0x20, 0x42, 0x2E, 0x43, 0x68, 0x20, 0x627, 0x644, 0x645, 0x643, 0x62A, 0x645, 0x644, 0x629], ''Completed B.Ch Services.svg''),
      (''car-inspection-services'', ''Car Inspection Services'', utf8 [0x62E, 0x62F, 0x645, 0x627, 0x62A, 0x20, 0x641, 0x62D, 0x635, 0x20, 0x627, 0x644, 0x633, 0x64A, 0x627, 0x631, 0x629], ''Car inspection services.svg''),
      (''unsold-vehicle'', ''Unsold'', utf8 [0x63A, 0x64A, 0x631, 0x20, 0x645, 0x628, 0x627, 0x639, 0x629], ''unsold-1.svg''),
      (''completed-inspection-services'', ''Completed Inspection Services'', utf8 [0x62E, 0x62F, 0x645, 0x627, 0x62A, 0x20, 0x627, 0x644, 0x641, 0x62D, 0x635, 0x20, 0x627, 0x644, 0x645, 0x643, 0x62A, 0x645, 0x644, 0x629], ''Completed Inspection Services.svg''),
      (''sold-delivered'', ''Sold Delivered'', utf8 [0x645, 0x628, 0x627, 0x639, 0x629, 0x20, 0x648, 0x645, 0x633, 0x644, 0x645, 0x629], ''sold delivered.svg''),
      (''get-archived-list'', ''Archived Vehicle'', utf8 [0x645, 0x631, 0x643, 0x628, 0x629, 0x20, 0x645, 0x624, 0x631, 0x634, 0x641, 0x629], ''Archived vehicle.svg''),
      (''marketing'', ''Marketing'', utf8 [0x627, 0x644, 0x62A, 0x633, 0x648, 0x64A, 0x642], ''marketing.svg''),
      (''pending_services'', ''Pending Services'', utf8 [0x627, 0x644, 0x62E, 0x62F, 0x645, 0x627, 0x62A, 0x20, 0x627, 0x644, 0x645, 0x639, 0x644, 0x642, 0x629], ''pending servies.svg''),
      (''services-in-process'', ''Services in Process'', utf8 [0x627, 0x644, 0x62E, 0x62F, 0x645, 0x627, 0x62A, 0x20, 0x642, 0x64A, 0x62F, 0x20, 0x627, 0x644, 0x62A, 0x646, 0x641, 0x64A, 0x630], ''Services in progress.svg''),
      (''completed-requests'', ''Completed Requests'', utf8 [0x627, 0x644, 0x637, 0x644, 0x628, 0x627, 0x62A, 0x20, 0x627, 0x644, 0x645, 0x643, 0x62A, 0x645, 0x644, 0x629], ''Completed services.svg''),
      (''sp-requested-services'', ''SP Requested Services'', utf8 [0x627, 0x644, 0x62E, 0x62F, 0x645, 0x627, 0x62A, 0x20, 0x627, 0x644, 0x645, 0x637, 0x644, 0x648, 0x628, 0x629, 0x20, 0x645, 0x646, 0x20, 0x645, 0x632, 0x648, 0x62F, 0x20, 0x627, 0x644, 0x62E, 0x62F, 0x645, 0x629], ''report.png''),
      (''completed-sp-services'', ''Completed SP Services'', utf8 [0x62E, 0x62F, 0x645, 0x627, 0x62A, 0x20, 0x645, 0x632, 0x648, 0x62F, 0x20, 0x627, 0x644, 0x62E, 0x62F, 0x645, 0x629, 0x20, 0x627, 0x644, 0x645, 0x643, 0x62A, 0x645, 0x644, 0x629], ''report.png''),
      (''operations-logs'', ''Operation Log'', utf8 [0x633, 0x62C, 0x644, 0x20, 0x627, 0x644, 0x639, 0x645, 0x644, 0x64A, 0x627, 0x62A], ''log.png''),
      (''under-approval-direct-sales'', ''Under Approval Direct Sales'', utf8 [0x627, 0x644, 0x628, 0x64A, 0x639, 0x20, 0x627, 0x644, 0x645, 0x628, 0x627, 0x634, 0x631, 0x20, 0x642, 0x64A, 0x62F, 0x20, 0x627, 0x644, 0x645, 0x648, 0x627, 0x641, 0x642, 0x629], ''attestation.png''),
      (''center-manager'', ''Center Manager'', utf8 [0x645, 0x62F, 0x64A, 0x631, 0x20, 0x627, 0x644, 0x645, 0x631, 0x643, 0x632], ''awarded report.svg'')]"

definition upgrade_0012 :: "(nat \<Rightarrow> uuid) \<Rightarrow> card_0010 list \<Rightarrow> exn + admin_dashboard_card list" where
  "upgrade_0012 u cards =
     insert_rows dc_id (map add_image_column cards) (numbered u (image_card ''operations'' ''/admin/operations/'') OPERATIONS_CARDS)"

definition downgrade_0012 :: "env \<Rightarrow> admin_dashboard_card list \<Rightarrow> card_0010 list" where
  "downgrade_0012 env cards = map drop_image_column (delete_section env ''operations'' cards)"

definition MANAGEMENT_CARDS :: "(string \<times> string \<times> string \<times> string) list" where
  "MANAGEMENT_CARDS =
     [(''active-auctions'', ''Active Auctions'', utf8 [0x627, 0x644, 0x645, 0x632, 0x627, 0x62F, 0x627, 0x62A, 0x20, 0x627, 0x644, 0x646, 0x634, 0x637, 0x629], ''Active auction.svg''),
      (''sales-invoice-details'', ''Sales Invoice Details'', utf8 [0x62A, 0x641, 0x627, 0x635, 0x64A, 0x644, 0x20, 0x641, 0x627, 0x62A, 0x648, 0x631, 0x629, 0x20, 0x627, 0x644, 0x645, 0x628, 0x64A, 0x639, 0x627, 0x62A], ''Sales invoice details.svg''),
      (''sellers-report'', ''Sellers Report'', utf8 [0x62A, 0x642, 0x631, 0x64A, 0x631, 0x20, 0x627, 0x644, 0x628, 0x627, 0x626, 0x639, 0x64A, 0x646], ''Sales report.svg''),
      (''sales-report'', ''Sales Report'', utf8 [0x62A, 0x642, 0x631, 0x64A, 0x631, 0x20, 0x627, 0x644, 0x645, 0x628, 0x64A, 0x639, 0x627, 0x62A], ''Sales report.svg''),
      (''auction-list'', ''Auction List'', utf8 [0x642, 0x627, 0x626, 0x645, 0x629, 0x20, 0x627, 0x644, 0x645, 0x632, 0x627, 0x62F, 0x627, 0x62A], ''seller report.svg''),
      (''customers-list'', ''Customer List'', utf8 [0x642, 0x627, 0x626, 0x645, 0x629, 0x20, 0x627, 0x644, 0x639, 0x645, 0x644, 0x627, 0x621], ''Customer list.svg''),
      (''auction-batch-list'', ''Auction Batch List'', utf8 [0x642, 0x627, 0x626, 0x645, 0x629, 0x20, 0x62F, 0x641, 0x639, 0x627, 0x62A, 0x20, 0x627, 0x644, 0x645, 0x632, 0x627, 0x62F], ''Auction Batch List.svg''),
      (''sellers-list'', ''Seller List'', utf8 [0x642, 0x627, 0x626, 0x645, 0x629, 0x20, 0x627, 0x644, 0x628, 0x627, 0x626, 0x639, 0x64A, 0x646], ''Seller list.svg''),
      (''income-totals'', ''Income Totals'', utf8 [0x625, 0x62C, 0x645, 0x627, 0x644, 0x64A, 0x20, 0x627, 0x644, 0x62F, 0x62E, 0x644], ''income total.svg''),
      (''monthly-income-totals'', ''Monthly Income Totals'', utf8 [0x625, 0x62C, 0x645, 0x627, 0x644, 0x64A, 0x20, 0x627, 0x644, 0x62F, 0x62E, 0x644, 0x20, 0x627, 0x644, 0x634, 0x647, 0x631, 0x64A], ''monthly income totals.svg''),
      (''employees-permission'', ''Employees Permission'', utf8 [0x635, 0x644, 0x627, 0x62D, 0x64A, 0x627, 0x62A, 0x20, 0x627, 0x644, 0x645, 0x648, 0x638, 0x641, 0x64A, 0x646], ''permissions.svg''),
      (''penalty-management'', ''Penalty Management'', utf8 [0x625, 0x62F, 0x627, 0x631, 0x629, 0x20, 0x627, 0x644, 0x63A, 0x631, 0x627, 0x645, 0x627, 0x62A], ''Auction Batch List.svg'')]"

definition upgrade_0013 :: "(nat \<Rightarrow> uuid) \<Rightarrow> admin_dashboard_card list \<Rightarrow> exn + admin_dashboard_card list" where
  "upgrade_0013 u cards =
     insert_rows dc_id cards (numbered u (image_card ''management'' ''/admin/management/'') MANAGEMENT_CARDS)"

definition downgrade_0013 :: "env \<Rightarrow> admin_dashboard_card list \<Rightarrow> admin_dashboard_card list" where
  "downgrade_0013 env = delete_section env ''management''"

definition ACCOUNTANT_CARDS :: "(string \<times> string \<times> string \<times> string) list" where
  "ACCOUNTANT_CARDS =
     [(''Sold-Vehicles'', ''Sold Undelivered'', utf8 [0x645, 0x628, 0x627, 0x639, 0x629, 0x20, 0x648, 0x63A, 0x64A, 0x631, 0x20, 0x645, 0x633, 0x644, 0x645, 0x629], ''sold undelivered.svg''),
      (''car-inspection-invoices'', ''Car Inspection Invoices'', utf8 [0x641, 0x648, 0x627, 0x62A, 0x64A, 0x631, 0x20, 0x641, 0x62D, 0x635, 0x20, 0x627, 0x644, 0x633, 0x64A, 0x627, 0x631, 0x629], ''Car inspection services.svg''),
      (''buyer-change-invoices'', ''Buyer Change Invoices'', utf8 [0x641, 0x648, 0x627, 0x62A, 0x64A, 0x631, 0x20, 0x62A, 0x63A, 0x64A, 0x64A, 0x631, 0x20, 0x627, 0x644, 0x645, 0x634, 0x62A, 0x631, 0x64A], ''Buyer change incvoice.svg''),
      (''seller-invoice-list'', ''Seller Invoice List'', utf8 [0x642, 0x627, 0x626, 0x645, 0x629, 0x20, 0x641, 0x648, 0x627, 0x62A, 0x64A, 0x631, 0x20, 0x627, 0x644, 0x628, 0x627, 0x626, 0x639], ''Seller invoice list.svg''),
      (''buyer-invoice-list'', ''Buyer Invoice List'', utf8 [0x642, 0x627, 0x626, 0x645, 0x629, 0x20, 0x641, 0x648, 0x627, 0x62A, 0x64A, 0x631, 0x20, 0x627, 0x644, 0x645, 0x634, 0x62A, 0x631, 0x64A], ''Buyer invoice list.svg''),
      (''seller-payments'', ''Seller Payments'', utf8 [0x645, 0x62F, 0x641, 0x648, 0x639, 0x627, 0x62A, 0x20, 0x627, 0x644, 0x628, 0x627, 0x626, 0x639], ''Seller payments.svg''),
      (''buyer-payments'', ''Buyer Payments'', utf8 [0x645, 0x62F, 0x641, 0x648, 0x639, 0x627, 0x62A, 0x20, 0x627, 0x644, 0x645, 0x634, 0x62A, 0x631, 0x64A], ''Buyer payments.svg''),
      (''customer'', ''Customers'', utf8 [0x627, 0x644, 0x639, 0x645, 0x644, 0x627, 0x621], ''Customers.svg''),
      (''security-deposit'', ''Security Deposit'', utf8 [0x627, 0x644, 0x648, 0x62F, 0x64A, 0x639, 0x629, 0x20, 0x627, 0x644, 0x636, 0x645, 0x627, 0x646, 0x64A, 0x629], ''Security deposits.svg''),
      (''seller-invoices-list'', ''Seller Invoice List'', utf8 [0x642, 0x627, 0x626, 0x645, 0x629, 0x20, 0x641, 0x648, 0x627, 0x62A, 0x64A, 0x631, 0x20, 0x627, 0x644, 0x628, 0x627, 0x626, 0x639], ''Seller invoice list.svg''),
      (''fines-penalties'', ''Fines and Penalties'', utf8 [0x627, 0x644, 0x63A, 0x631, 0x627, 0x645, 0x627, 0x62A, 0x20, 0x648, 0x627, 0x644, 0x639, 0x642, 0x648, 0x628, 0x627, 0x62A], ''Seller invoice list.svg'')]"

definition upgrade_0014 :: "(nat \<Rightarrow> uuid) \<Rightarrow> admin_dashboard_card list \<Rightarrow> exn + admin_dashboard_card list" where
  "upgrade_0014 u cards =
     insert_rows dc_id cards (numbered u (image_card ''accountant'' ''/admin/accountant/'') ACCOUNTANT_CARDS)"

definition downgrade_0014 :: "env \<Rightarrow> admin_dashboard_card list \<Rightarrow> admin_dashboard_card list" where
  "downgrade_0014 env = delete_section env ''accountant''"

definition REPORTS_CARDS :: "(string \<times> string \<times> string \<times> string) list" where
  "REPORTS_CARDS =
     [(''statistical-report'', ''Statistical Report'', utf8 [0x627, 0x644, 0x62A, 0x642, 0x631, 0x64A, 0x631, 0x20, 0x627, 0x644, 0x625, 0x62D, 0x635, 0x627, 0x626, 0x64A], ''Statical Report.svg''),
      (''sales-report'', ''Sales Report'', utf8 [0x62A, 0x642, 0x631, 0x64A, 0x631, 0x20, 0x627, 0x644, 0x645, 0x628, 0x64A, 0x639, 0x627, 0x62A], ''Sales report.svg''),
      (''sales-report-by-features'', ''Sales Report by Features'', utf8 [0x62A, 0x642, 0x631, 0x64A, 0x631, 0x20, 0x627, 0x644, 0x645, 0x628, 0x64A, 0x639, 0x627, 0x62A, 0x20, 0x62D, 0x633, 0x628, 0x20, 0x627, 0x644, 0x645, 0x64A, 0x632, 0x627, 0x62A], ''Sales Report By Features.svg''),
      (''active-auction'', ''Active Auctions'', utf8 [0x627, 0x644, 0x645, 0x632, 0x627, 0x62F, 0x627, 0x62A, 0x20, 0x627, 0x644, 0x646, 0x634, 0x637, 0x629], ''Active auction.svg''),
      (''auction-end'', ''Auction End'', utf8 [0x627, 0x646, 0x62A, 0x647, 0x627, 0x621, 0x20, 0x627, 0x644, 0x645, 0x632, 0x627, 0x62F], ''Auction end.svg''),
      (''car-price-report'', ''Car Price Report'', utf8 [0x62A, 0x642, 0x631, 0x64A, 0x631, 0x20, 0x623, 0x633, 0x639, 0x627, 0x631, 0x20, 0x627, 0x644, 0x633, 0x64A, 0x627, 0x631, 0x627, 0x62A], ''Car inspection report.svg''),
      (''feature-car-price-report'', ''Feature Car Price Report'', utf8 [0x62A, 0x642, 0x631, 0x64A, 0x631, 0x20, 0x623, 0x633, 0x639, 0x627, 0x631, 0x20, 0x627, 0x644, 0x633, 0x64A, 0x627, 0x631, 0x627, 0x62A, 0x20, 0x627, 0x644, 0x645, 0x645, 0x64A, 0x632, 0x629], ''Feature car price report.svg''),
      (''delivered-vehicles'', ''Delivered Vehicles'', utf8 [0x627, 0x644, 0x645, 0x631, 0x643, 0x628, 0x627, 0x62A, 0x20, 0x627, 0x644, 0x645, 0x633, 0x644, 0x645, 0x629], ''Feature car price report.svg''),
      (''auction-reports'', ''Auction Reports'', utf8 [0x62A, 0x642, 0x627, 0x631, 0x64A, 0x631, 0x20, 0x627, 0x644, 0x645, 0x632, 0x627, 0x62F, 0x627, 0x62A], ''Feature car price report.svg''),
      (''vehicle-management'', ''Vehicle Management'', utf8 [0x625, 0x62F, 0x627, 0x631, 0x629, 0x20, 0x627, 0x644, 0x645, 0x631, 0x643, 0x628, 0x627, 0x62A], ''Feature car price report.svg''),
      (''buyer-reports'', ''Buyer Report'', utf8 [0x62A, 0x642, 0x631, 0x64A, 0x631, 0x20, 0x627, 0x644, 0x645, 0x634, 0x62A, 0x631, 0x64A], ''Feature car price report.svg''),
      (''sellers-reports'', ''Seller Report'', utf8 [0x62A, 0x642, 0x631, 0x64A, 0x631, 0x20, 0x627, 0x644, 0x628, 0x627, 0x626, 0x639], ''Feature car price report.svg''),
      (''other-reports'', ''Other Reports'', utf8 [0x62A, 0x642, 0x627, 0x631, 0x64A, 0x631, 0x20, 0x623, 0x62E, 0x631, 0x649], ''Feature car price report.svg''),
      (''brand-performance-report'', ''Brand Performance Report'', utf8 [0x62A, 0x642, 0x631, 0x64A, 0x631, 0x20, 0x623, 0x62F, 0x627, 0x621, 0x20, 0x627, 0x644, 0x639, 0x644, 0x627, 0x645, 0x629, 0x20, 0x627, 0x644, 0x62A, 0x62C, 0x627, 0x631, 0x64A, 0x629], ''Feature car price report.svg''),
      (''inspection-reports'', ''Inspection Reports'', utf8 [0x62A, 0x642, 0x627, 0x631, 0x64A, 0x631, 0x20, 0x627, 0x644, 0x641, 0x62D, 0x635], ''Feature car price report.svg''),
      (''approval-creation'', ''Approval Creation'', utf8 [0x625, 0x646, 0x634, 0x627, 0x621, 0x20, 0x627, 0x644, 0x645, 0x648, 0x627, 0x641, 0x642, 0x629], ''Feature car price report.svg'')]"

definition upgrade_0015 :: "(nat \<Rightarrow> uuid) \<Rightarrow> admin_dashboard_card list \<Rightarrow> exn + admin_dashboard_card list" where
  "upgrade_0015 u cards =
     insert_rows dc_id cards (numbered u (image_card ''reports'' ''/admin/reports/'') REPORTS_CARDS)"

definition downgrade_0015 :: "env \<Rightarrow> admin_dashboard_card list \<Rightarrow> admin_dashboard_card list" where
  "downgrade_0015 env = delete_section env ''reports''"

definition ADMIN_CARDS :: "(string \<times> string \<times> string \<times> string) list" where
  "ADMIN_CARDS =
     [(''service-list'', ''Service List'', utf8 [0x642, 0x627, 0x626, 0x645, 0x629, 0x20, 0x627, 0x644, 0x62E, 0x62F, 0x645, 0x629], ''service.png''),
      (''expense-list'', ''Expense List'', utf8 [0x642, 0x627, 0x626, 0x645, 0x629, 0x20, 0x627, 0x644, 0x645, 0x635, 0x631, 0x648, 0x641, 0x627, 0x62A], ''Expense List.svg''),
      (''features-list'', ''Features Management'', utf8 [0x625, 0x62F, 0x627, 0x631, 0x629, 0x20, 0x627, 0x644, 0x645, 0x64A, 0x632, 0x627, 0x62A], ''features.svg''),
      (''make-model'', ''Makes and Models Management'', utf8 [0x625, 0x62F, 0x627, 0x631, 0x629, 0x20, 0x627, 0x644, 0x645, 0x627, 0x631, 0x643, 0x627, 0x62A, 0x20, 0x648, 0x627, 0x644, 0x645, 0x648, 0x62F, 0x64A, 0x644, 0x627, 0x62A], ''Makes Models.svg''),
      (''locations'', ''Location List'', utf8 [0x642, 0x627, 0x626, 0x645, 0x629, 0x20, 0x627, 0x644, 0x645, 0x648, 0x627, 0x642, 0x639], ''my-invoices.svg''),
      (''services'', ''Services List'', utf8 [0x642, 0x627, 0x626, 0x645, 0x629, 0x20, 0x627, 0x644, 0x62E, 0x62F, 0x645, 0x627, 0x62A], ''service.png''),
      (''message-templates'', ''Message Templates'', utf8 [0x642, 0x648, 0x627, 0x644, 0x628, 0x20, 0x627, 0x644, 0x631, 0x633, 0x627, 0x626, 0x644], ''Message Templates.svg''),
      (''auction-groups'', ''Auction Groups'', utf8 [0x645, 0x62C, 0x645, 0x648, 0x639, 0x627, 0x62A, 0x20, 0x627, 0x644, 0x645, 0x632, 0x627, 0x62F, 0x627, 0x62A], ''totalcustomer.svg''),
      (''inspection-packages'', ''Inspection Packages'', utf8 [0x628, 0x627, 0x642, 0x627, 0x62A, 0x20, 0x627, 0x644, 0x641, 0x62D, 0x635], ''Expense List.svg''),
      (''compliance-details'', ''Complaint Details'', utf8 [0x62A, 0x641, 0x627, 0x635, 0x64A, 0x644, 0x20, 0x627, 0x644, 0x634, 0x643, 0x627, 0x648, 0x649], ''Expense List.svg'')]"

definition upgrade_0016 :: "(nat \<Rightarrow> uuid) \<Rightarrow> admin_dashboard_card list \<Rightarrow> exn + admin_dashboard_card list" where
  "upgrade_0016 u cards = insert_rows dc_id cards (numbered u (image_card ''admin'' ''/admin/'') ADMIN_CARDS)"

definition downgrade_0016 :: "env \<Rightarrow> admin_dashboard_card list \<Rightarrow> admin_dashboard_card list" where
  "downgrade_0016 env = delete_section env ''admin''"

section \<open>0017: status metrics\<close>

definition REALTIME :: "(string \<times> string \<times> string \<times> string option \<times> string option \<times> string option) list" where
  "REALTIME =
     [(''in_yard_count'', ''In Yard'', utf8 [0x641, 0x64A, 0x20, 0x627, 0x644, 0x633, 0x627, 0x62D, 0x629], None, Some ''entrances 2.png'', Some ''bg-primary''),
      (''in_inspection_count'', ''Inspection'', utf8 [0x627, 0x644, 0x641, 0x62D, 0x635], None, Some ''Vector.png'', Some ''bg-success''),
      (''in_washing_count'', ''Washing'', utf8 [0x627, 0x644, 0x63A, 0x633, 0x64A, 0x644], None, Some ''car-wash.png'', Some ''bg-danger''),
      (''in_live_auction_count'', ''Auction'', utf8 [0x627, 0x644, 0x645, 0x632, 0x627, 0x62F], None, Some ''mingcute_auction-fill.svg'', Some ''bg-dark''),
      (''in_seller_unapproved_count'', ''Pending Approval'', utf8 [0x628, 0x627, 0x646, 0x62A, 0x638, 0x627, 0x631, 0x20, 0x627, 0x644, 0x645, 0x648, 0x627, 0x641, 0x642, 0x629], None, Some ''streamline-sharp-color_time-lapse.png'', Some ''bg-pending'')]"

definition MTD :: "(string \<times> string \<times> string \<times> string option \<times> string option \<times> string option) list" where
  "MTD =
     [(''vehicle_received'', ''Approved'', utf8 [0x62A, 0x645, 0x62A, 0x20, 0x627, 0x644, 0x645, 0x648, 0x627, 0x641, 0x642, 0x629], Some ''fa fa-check'', None, Some ''bg-success''),
      (''internal_vehicle_received'', ''Delivered'', utf8 [0x62A, 0x645, 0x20, 0x627, 0x644, 0x62A, 0x633, 0x644, 0x64A, 0x645], Some ''fa fa-money-bill'', None, Some ''bg-info''),
      (''total_auctions'', ''Paid'', utf8 [0x645, 0x62F, 0x641, 0x648, 0x639], Some ''fa fa-car'', None, Some ''bg-primary''),
      (''in_seller_approved_count'', ''Seller Approve'', utf8 [0x645, 0x648, 0x627, 0x641, 0x642, 0x629, 0x20, 0x627, 0x644, 0x628, 0x627, 0x626, 0x639], Some ''fa fa-exclamation'', None, Some ''bg-warning''),
      (''is_buyer_paid'', ''Buyer Paid'', utf8 [0x62F, 0x641, 0x639, 0x20, 0x627, 0x644, 0x645, 0x634, 0x62A, 0x631, 0x64A], None, Some ''paid.png'', None),
      (''paid_not_delivered'', ''Pending Payment'', utf8 [0x627, 0x644, 0x62F, 0x641, 0x639, 0x20, 0x645, 0x639, 0x644, 0x642], None, Some ''pending payments.png'', None),
      (''delivered'', ''Paid Delivered'', utf8 [0x62A, 0x645, 0x20, 0x627, 0x644, 0x62F, 0x641, 0x639, 0x20, 0x648, 0x627, 0x644, 0x62A, 0x633, 0x644, 0x64A, 0x645], None, Some ''delivered.png'', None)]"

definition PAYMENT_SUMMARY :: "(string \<times> string \<times> string \<times> string option \<times> string option \<times> string option) list" where
  "PAYMENT_SUMMARY =
     [(''paid_awaiting_documents'', ''Paid - Awaiting Documents'', utf8 [0x645, 0x62F, 0x641, 0x648, 0x639, 0x20, 0x2D, 0x20, 0x628, 0x627, 0x646, 0x62A, 0x638, 0x627, 0x631, 0x20, 0x627, 0x644, 0x645, 0x633, 0x62A, 0x646, 0x62F, 0x627, 0x62A], None, Some ''entrances 2.png'', Some ''bg-primary''),
      (''paid_documents_ready_pending_deliver'', ''Paid - Documents Ready'', utf8 [0x645, 0x62F, 0x641, 0x648, 0x639, 0x20, 0x2D, 0x20, 0x627, 0x644, 0x645, 0x633, 0x62A, 0x646, 0x62F, 0x627, 0x62A, 0x20, 0x62C, 0x627, 0x647, 0x632, 0x629], None, Some ''Vector.png'', Some ''bg-success''),
      (''pending_buyer_payment'', ''Pending Buyer Payment'', utf8 [0x628, 0x627, 0x646, 0x62A, 0x638, 0x627, 0x631, 0x20, 0x62F, 0x641, 0x639, 0x20, 0x627, 0x644, 0x645, 0x634, 0x62A, 0x631, 0x64A], None, Some ''car-wash.png'', Some ''bg-danger''),
      (''pending_seller_payment'', ''Pending Seller Payment'', utf8 [0x628, 0x627, 0x646, 0x62A, 0x638, 0x627, 0x631, 0x20, 0x62F, 0x641, 0x639, 0x20, 0x627, 0x644, 0x628, 0x627, 0x626, 0x639], None, Some ''car-wash.png'', Some ''bg-danger'')]"

definition metric_row ::
    "string \<Rightarrow> uuid \<Rightarrow> int \<Rightarrow> string \<times> string \<times> string \<times> string option \<times> string option \<times> string option \<Rightarrow> vehicle_status_metric" where
  "metric_row key i n = (\<lambda>(stat, label_en, label_ar, icon, filename, color).
     \<lparr>vsm_id = i, vsm_group_key = key, vsm_stat_key = stat, vsm_label_en = label_en, vsm_label_ar = label_ar,
      vsm_icon_class = icon, vsm_image_url = (case filename of None \<Rightarrow> None | Some f \<Rightarrow> if f = [] then None else Some (image_of f)),
      vsm_color_class = color, vsm_sort_order = n, vsm_is_active = True\<rparr>)"

text \<open>The nested loops over \<open>_GROUPS\<close>.\<close>

definition METRIC_GROUPS ::
    "(string \<times> (string \<times> string \<times> string \<times> string option \<times> string option \<times> string option) list) list" where
  "METRIC_GROUPS = [(''realtime'', REALTIME), (''mtd'', MTD), (''payment_summary'', PAYMENT_SUMMARY)]"

fun metric_rows ::
    "(nat \<Rightarrow> uuid) \<Rightarrow> (string \<times> (string \<times> string \<times> string \<times> string option \<times> string option \<times> string option) list) list \<Rightarrow> vehicle_status_metric list" where
  "metric_rows u [] = []"
| "metric_rows u ((key, rows) # groups) = numbered u (metric_row key) rows @ metric_rows (shift u (length rows)) groups"

definition upgrade_0017 :: "(nat \<Rightarrow> uuid) \<Rightarrow> exn + vehicle_status_metric list" where
  "upgrade_0017 u = insert_rows vsm_id [] (metric_rows u METRIC_GROUPS)"

section \<open>0024 and 0025: pictures instead of icons\<close>

definition SELLER_CARD_IMAGES :: "(string \<times> string) list" where
  "SELLER_CARD_IMAGES =
     [(''/admin/sellers/add-a-new-car'', ''add-new-car.svg''),
      (''/admin/sellers/my-vehicles'', ''my-vehicles.svg''),
      (''/admin/sellers/my-received-vehicles'', ''my-received-vehicles.svg''),
      (''/admin/sellers/active-auctions'', ''liveauction.svg''),
      (''/admin/sellers/sold-undelivered'', ''sold-vehicles.svg''),
      (''/admin/sellers/unsold-vehicles-undelivered'', ''unsold-vehicles.svg''),
      (''/admin/sellers/my-invoices'', ''my-invoices.svg''),
      (''/admin/sellers/my-payments'', ''my-payments.svg''),
      (''/admin/sellers/requested-services'', ''report.png''),
      (''/admin/sellers/completed-requests'', ''completed-requests.svg''),
      (''/admin/sellers/unapproved-vehicle'', ''under-approval.svg'')]"

definition seller_card :: "env \<Rightarrow> string \<Rightarrow> admin_dashboard_card \<Rightarrow> bool" where
  "seller_card env url c \<longleftrightarrow> sql_eq env (dc_section_key c) ''sellers'' \<and> sql_eq env (dc_url c) url"

definition upgrade_0024 :: "env \<Rightarrow> admin_dashboard_card list \<Rightarrow> admin_dashboard_card list" where
  "upgrade_0024 env =
     fold (\<lambda>(url, filename). update_where (seller_card env url) (\<lambda>c. c\<lparr>dc_image_url := Some (image_of filename)\<rparr>)) SELLER_CARD_IMAGES"

definition downgrade_0024 :: "env \<Rightarrow> admin_dashboard_card list \<Rightarrow> admin_dashboard_card list" where
  "downgrade_0024 env =
     fold (\<lambda>(url, filename). update_where (seller_card env url) (\<lambda>c. c\<lparr>dc_image_url := None\<rparr>)) SELLER_CARD_IMAGES"

definition SELLER_ICON_CLASSES :: "(string \<times> string) list" where
  "SELLER_ICON_CLASSES =
     [(''/admin/sellers/add-a-new-car'', ''fa-solid fa-car''),
      (''/admin/sellers/my-vehicles'', ''fa-solid fa-car-side''),
      (''/admin/sellers/my-received-vehicles'', ''fa-solid fa-truck-ramp-box''),
      (''/admin/sellers/active-auctions'', ''fa-solid fa-gavel''),
      (''/admin/sellers/sold-undelivered'', ''fa-solid fa-box-open''),
      (''/admin/sellers/unsold-vehicles-undelivered'', ''fa-solid fa-triangle-exclamation''),
      (''/admin/sellers/my-invoices'', ''fa-solid fa-file-invoice''),
      (''/admin/sellers/my-payments'', ''fa-solid fa-wallet''),
      (''/admin/sellers/requested-services'', ''fa-solid fa-clipboard-list''),
      (''/admin/sellers/completed-requests'', ''fa-solid fa-circle-check''),
      (''/admin/sellers/unapproved-vehicle'', ''fa-solid fa-car-burst'')]"

definition upgrade_0025 :: "env \<Rightarrow> admin_dashboard_card list \<Rightarrow> admin_dashboard_card list" where
  "upgrade_0025 env = update_where (\<lambda>c. sql_eq env (dc_section_key c) ''sellers'') (\<lambda>c. c\<lparr>dc_icon_class := None\<rparr>)"

definition downgrade_0025 :: "env \<Rightarrow> admin_dashboard_card list \<Rightarrow> admin_dashboard_card list" where
  "downgrade_0025 env =
     fold (\<lambda>(url, icon). update_where (seller_card env url) (\<lambda>c. c\<lparr>dc_icon_class := Some icon\<rparr>)) SELLER_ICON_CLASSES"

section \<open>0026 and 0032: the Admin group\<close>

definition ADMIN_LABEL_AR :: string where
  "ADMIN_LABEL_AR = utf8 [0x627, 0x644, 0x625, 0x62F, 0x627, 0x631, 0x629, 0x20, 0x627, 0x644, 0x639, 0x627, 0x645, 0x629]"

definition upgrade_0026 :: "env \<Rightarrow> admin_nav_item list \<Rightarrow> admin_nav_item list" where
  "upgrade_0026 env = update_where (\<lambda>r. sql_eq env (an_url r) ''/admin'')
     (\<lambda>r. r\<lparr>an_label_en := ''Admin'', an_label_ar := ADMIN_LABEL_AR, an_icon_class := None\<rparr>)"

definition downgrade_0026 :: "env \<Rightarrow> admin_nav_item list \<Rightarrow> admin_nav_item list" where
  "downgrade_0026 env = update_where (\<lambda>r. sql_eq env (an_url r) ''/admin'')
     (\<lambda>r. r\<lparr>an_label_en := ''Admin'', an_label_ar := ADMIN_LABEL_AR, an_icon_class := Some ''fa-solid fa-user-shield''\<rparr>)"

definition ADMIN_URL :: string where
  "ADMIN_URL = ''/admin''"

definition ADMIN_ICON :: string where
  "ADMIN_ICON = ''fa-solid fa-border-all''"

definition CHILD_ITEMS :: "(string \<times> string \<times> string \<times> string \<times> int) list" where
  "CHILD_ITEMS =
     [(''Dashboard'', utf8 [0x644, 0x648, 0x62D, 0x629, 0x20, 0x627, 0x644, 0x62A, 0x62D, 0x643, 0x645], ''fa-solid fa-gauge-high'', ''/admin/dashboard'', 1),
      (''In Store'', utf8 [0x62F, 0x627, 0x62E, 0x644, 0x20, 0x627, 0x644, 0x645, 0x62A, 0x62C, 0x631], ''fa-solid fa-store'', ''/admin/instore'', 2)]"

text \<open>Update the row that a link finds, or insert it: \<open>scalar()\<close> takes the first row.\<close>

definition row_by_url :: "env \<Rightarrow> string \<Rightarrow> admin_nav_item list \<Rightarrow> uuid option" where
  "row_by_url env url navs = map_option an_id (first_row (filter (\<lambda>r. sql_eq env (an_url r) url) navs))"

definition update_or_insert ::
    "env \<Rightarrow> string \<Rightarrow> (admin_nav_item \<Rightarrow> admin_nav_item) \<Rightarrow> admin_nav_item \<Rightarrow> admin_nav_item list \<Rightarrow> exn + uuid \<times> admin_nav_item list" where
  "update_or_insert env url f new navs =
     (case row_by_url env url navs of
        None \<Rightarrow> map_result (Pair (an_id new)) (insert_tree an_id an_parent_id navs [new])
      | Some i \<Rightarrow> Inr (i, update_where (\<lambda>r. an_id r = i) f navs))"

definition place_child ::
    "uuid \<Rightarrow> string \<times> string \<times> string \<times> string \<times> int \<Rightarrow> admin_nav_item \<Rightarrow> admin_nav_item" where
  "place_child admin_id = (\<lambda>(label_en, label_ar, icon, url, n) r.
     r\<lparr>an_parent_id := Some admin_id, an_label_en := label_en, an_label_ar := label_ar, an_icon_class := Some icon,
       an_sort_order := n, an_is_active := True\<rparr>)"

definition child_row :: "uuid \<Rightarrow> uuid \<Rightarrow> string \<times> string \<times> string \<times> string \<times> int \<Rightarrow> admin_nav_item" where
  "child_row i admin_id = (\<lambda>(label_en, label_ar, icon, url, n). nav_row i (Some admin_id) label_en label_ar (Some icon) url n)"

text \<open>\<open>uuid4\<close> is only called for a row that is inserted; \<open>u k\<close> is what it then gives for the \<open>k\<close>-th item.\<close>

fun place_children ::
    "env \<Rightarrow> uuid \<Rightarrow> (nat \<Rightarrow> uuid) \<Rightarrow> (string \<times> string \<times> string \<times> string \<times> int) list \<Rightarrow> admin_nav_item list \<Rightarrow> exn + admin_nav_item list" where
  "place_children env admin_id u [] navs = Inr navs"
| "place_children env admin_id u (item # items) navs =
     bind_result (update_or_insert env (fst (snd (snd (snd item)))) (place_child admin_id item) (child_row (u 0) admin_id item) navs) (\<lambda>(i, navs').
     place_children env admin_id (shift u 1) items navs')"

definition upgrade_0032 :: "env \<Rightarrow> (nat \<Rightarrow> uuid) \<Rightarrow> admin_nav_item list \<Rightarrow> exn + admin_nav_item list" where
  "upgrade_0032 env u navs =
     bind_result (update_or_insert env ADMIN_URL (\<lambda>r. r\<lparr>an_icon_class := Some ADMIN_ICON, an_is_active := True\<rparr>)
       (nav_row (u 0) None ''Admin'' ADMIN_LABEL_AR (Some ADMIN_ICON) ADMIN_URL 7) navs) (\<lambda>(admin_id, navs').
     place_children env admin_id (shift u 1) CHILD_ITEMS navs')"

definition downgrade_0032 :: "env \<Rightarrow> admin_nav_item list \<Rightarrow> admin_nav_item list" where
  "downgrade_0032 env = update_where (\<lambda>r. sql_in env (an_url r) [''/admin'', ''/admin/dashboard'', ''/admin/instore''])
     (\<lambda>r. r\<lparr>an_icon_class := None\<rparr>)"

section \<open>A new installation\<close>

definition install_dashboard :: "env \<Rightarrow> (nat \<Rightarrow> nat \<Rightarrow> uuid) \<Rightarrow> database \<Rightarrow> exn + database" where
  "install_dashboard env u db =
     bind_result (seed_0010 (u 10)) (\<lambda>s10.
     bind_result (upgrade_0011 env (u 11) s10) (\<lambda>(navs, cards11).
     bind_result (upgrade_0012 (u 12) cards11) (\<lambda>cards12.
     bind_result (upgrade_0013 (u 13) cards12) (\<lambda>cards13.
     bind_result (upgrade_0014 (u 14) cards13) (\<lambda>cards14.
     bind_result (upgrade_0015 (u 15) cards14) (\<lambda>cards15.
     bind_result (upgrade_0016 (u 16) cards15) (\<lambda>cards16.
     bind_result (upgrade_0017 (u 17)) (\<lambda>metrics.
     bind_result (upgrade_0032 env (u 32) (upgrade_0026 env navs)) (\<lambda>navs32.
     Inr (db\<lparr>admin_nav_items := navs32, admin_dashboard_cards := upgrade_0025 env (upgrade_0024 env cards16),
       vehicle_status_metrics := metrics\<rparr>))))))))))"

end
