(* ===== verification/Dashboard_Laws.thy ===== *)
theory Dashboard_Laws
  imports Dashboard_Migration Admin_Service
begin

text \<open>
  What the revisions of the dashboard leave: 0032 makes the group of \<open>/admin\<close>, whatever rows were there, and a new
  installation has cards in every section that its navigation links to.
\<close>

section \<open>Updating or inserting the row of a link\<close>

text \<open>The first row with the link is \<open>i\<close>, and \<open>f\<close> has nothing to change in it.\<close>

definition settled :: "env \<Rightarrow> string \<Rightarrow> uuid \<Rightarrow> (admin_nav_item \<Rightarrow> admin_nav_item) \<Rightarrow> admin_nav_item list \<Rightarrow> bool" where
  "settled env url i f navs \<longleftrightarrow>
     (\<exists>r. first_row (filter (\<lambda>r. sql_eq env (an_url r) url) navs) = Some r \<and> an_id r = i \<and> f r = r)"

text \<open>What the updates of 0032 are: they set columns other than key and link, once for all.\<close>

definition sets_columns :: "(admin_nav_item \<Rightarrow> admin_nav_item) \<Rightarrow> bool" where
  "sets_columns f \<longleftrightarrow> (\<forall>r. an_id (f r) = an_id r \<and> an_url (f r) = an_url r \<and> f (f r) = f r)"

lemma first_row_update:
  assumes "sets_columns f"
  shows "first_row (filter (\<lambda>r. sql_eq env (an_url r) url) (update_where P f navs)) =
    map_option (\<lambda>r. if P r then f r else r) (first_row (filter (\<lambda>r. sql_eq env (an_url r) url) navs))"
  using assms by (induction navs) (auto simp: sets_columns_def)

lemma first_row_append: "first_row (xs @ ys) = (case first_row xs of None \<Rightarrow> first_row ys | Some x \<Rightarrow> Some x)"
  by (cases xs) auto

lemma update_or_insert_settles:
  assumes "update_or_insert env url f new navs = Inr (i, navs')" and "sets_columns f" and "f new = new" and "an_url new = url"
  shows "settled env url i f navs'"
proof (cases "first_row (filter (\<lambda>r. sql_eq env (an_url r) url) navs)")
  case None
  then have "i = an_id new" "navs' = navs @ [new]"
    using assms(1) by (auto simp: update_or_insert_def row_by_url_def insert_tree_Inr)
  with None assms(3,4) show ?thesis by (simp add: settled_def)
next
  case (Some r)
  then have "i = an_id r" "navs' = update_where (\<lambda>x. an_id x = i) f navs"
    using assms(1) by (auto simp: update_or_insert_def row_by_url_def)
  with Some assms(2) show ?thesis by (simp add: settled_def first_row_update) (simp add: sets_columns_def)
qed

text \<open>It leaves alone what another link has.\<close>

lemma update_or_insert_other:
  assumes "update_or_insert env url f new navs = Inr (i, navs')" and "sets_columns f" and "an_url new = url"
    and "settled env url' j g navs" and "\<not> sql_eq env url url'" and "distinct (map an_id navs)"
  shows "settled env url' j g navs'"
proof -
  obtain s where s: "first_row (filter (\<lambda>r. sql_eq env (an_url r) url') navs) = Some s" "an_id s = j" "g s = s"
    using assms(4) by (auto simp: settled_def)
  show ?thesis
  proof (cases "first_row (filter (\<lambda>r. sql_eq env (an_url r) url) navs)")
    case None
    then have "navs' = navs @ [new]" using assms(1) by (auto simp: update_or_insert_def row_by_url_def insert_tree_Inr)
    with s show ?thesis by (simp add: settled_def first_row_append)
  next
    case (Some r)
    then have navs': "navs' = update_where (\<lambda>x. an_id x = an_id r) f navs"
      using assms(1) by (auto simp: update_or_insert_def row_by_url_def)
    have "r \<in> set navs" "sql_eq env (an_url r) url" "s \<in> set navs" "sql_eq env (an_url s) url'"
      using first_row_filterD [OF Some] first_row_filterD [OF s(1)] by auto
    then have "an_id s \<noteq> an_id r"
      using assms(5,6) by (metis distinct_map_inj_on_eq sql_eq_def)
    with s show ?thesis by (simp add: settled_def navs' first_row_update [OF assms(2)])
  qed
qed

text \<open>On a settled link it does nothing.\<close>

lemma update_or_insert_settled:
  assumes "settled env url i f navs" and "distinct (map an_id navs)"
  shows "update_or_insert env url f new navs = Inr (i, navs)"
proof -
  obtain r where r: "first_row (filter (\<lambda>r. sql_eq env (an_url r) url) navs) = Some r" "an_id r = i" "f r = r"
    using assms(1) by (auto simp: settled_def)
  have "update_where (\<lambda>x. an_id x = i) f navs = navs"
    unfolding update_where_def
    using first_row_filterD [OF r(1)] r(2,3) assms(2) by (intro map_idI) (metis distinct_map_inj_on_eq)
  then show ?thesis using r by (simp add: update_or_insert_def row_by_url_def)
qed

lemma update_or_insert_keys:
  assumes "update_or_insert env url f new navs = Inr (i, navs')" and "sets_columns f" and "distinct (map an_id navs)"
  shows "distinct (map an_id navs')"
  using assms by (auto simp: update_or_insert_def insert_tree_Inr sets_columns_def simp del: distinct_append map_append split: option.splits)

section \<open>0032\<close>

definition GROUP_URLS :: "string list" where
  "GROUP_URLS = ADMIN_URL # map (\<lambda>(label_en, label_ar, icon, url, n). url) CHILD_ITEMS"

text \<open>The row of the group, and the two below it, as 0032 wants them.\<close>

definition overview :: "admin_nav_item \<Rightarrow> admin_nav_item" where
  "overview r = r\<lparr>an_icon_class := Some ADMIN_ICON, an_is_active := True\<rparr>"

lemma sets_overview: "sets_columns overview" and sets_place_child: "sets_columns (place_child a item)"
  by (auto simp: sets_columns_def overview_def place_child_def split: prod.splits)

lemma overview_new: "overview (nav_row i None ''Admin'' ADMIN_LABEL_AR (Some ADMIN_ICON) ADMIN_URL 7) =
    nav_row i None ''Admin'' ADMIN_LABEL_AR (Some ADMIN_ICON) ADMIN_URL 7"
  by (simp add: overview_def nav_row_def)

lemma place_child_new: "place_child a item (child_row i a item) = child_row i a item"
  by (simp add: place_child_def child_row_def nav_row_def split: prod.splits)

lemma child_row_url: "an_url (child_row i a item) = fst (snd (snd (snd item)))"
  by (simp add: child_row_def nav_row_def split: prod.splits)

lemma upgrade_0032_overview:
  "upgrade_0032 env u navs =
     bind_result (update_or_insert env ADMIN_URL overview
       (nav_row (u 0) None ''Admin'' ADMIN_LABEL_AR (Some ADMIN_ICON) ADMIN_URL 7) navs) (\<lambda>(admin_id, navs').
     place_children env admin_id (shift u 1) CHILD_ITEMS navs')"
  by (simp add: upgrade_0032_def overview_def [abs_def])

text \<open>A list of children is settled if each of them is.\<close>

definition all_settled :: "env \<Rightarrow> uuid \<Rightarrow> (string \<times> string \<times> string \<times> string \<times> int) list \<Rightarrow> admin_nav_item list \<Rightarrow> bool" where
  "all_settled env a items navs \<longleftrightarrow> (\<forall>item \<in> set items. \<exists>i. settled env (fst (snd (snd (snd item)))) i (place_child a item) navs)"

abbreviation item_url :: "string \<times> string \<times> string \<times> string \<times> int \<Rightarrow> string" where
  "item_url item \<equiv> fst (snd (snd (snd item)))"

lemma place_children_settle:
  assumes "place_children env a u items navs = Inr navs'" and "distinct (map an_id navs)"
    and "distinct (map (collate env \<circ> item_url) items)"
  shows "all_settled env a items navs' \<and> distinct (map an_id navs') \<and>
    (\<forall>url j g. collate env url \<notin> (collate env \<circ> item_url) ` set items \<longrightarrow> settled env url j g navs \<longrightarrow> settled env url j g navs')"
  using assms
proof (induction items arbitrary: u navs)
  case Nil
  then show ?case by (simp add: all_settled_def)
next
  case (Cons item items)
  from Cons.prems(1) obtain i n1
    where step: "update_or_insert env (item_url item) (place_child a item) (child_row (u 0) a item) navs = Inr (i, n1)"
      and rest: "place_children env a (shift u 1) items n1 = Inr navs'"
    by auto
  note d = update_or_insert_keys [OF step sets_place_child Cons.prems(2)]
  have ds: "distinct (map (collate env \<circ> item_url) items)" and new: "collate env (item_url item) \<notin> (collate env \<circ> item_url) ` set items"
    using Cons.prems(3) by (simp_all add: o_def)
  note ih = Cons.IH [OF rest d ds]
  have "settled env (item_url item) i (place_child a item) n1"
    by (rule update_or_insert_settles [OF step sets_place_child place_child_new child_row_url])
  then have "settled env (item_url item) i (place_child a item) navs'" using ih new by blast
  moreover have "settled env url j g navs'"
    if "collate env url \<notin> (collate env \<circ> item_url) ` set (item # items)" "settled env url j g navs" for url j g
  proof -
    have "\<not> sql_eq env (item_url item) url" using that(1) by (auto simp: sql_eq_def)
    from update_or_insert_other [OF step sets_place_child child_row_url that(2) this Cons.prems(2)] ih that(1)
    show ?thesis by auto
  qed
  ultimately show ?case using ih by (auto simp: all_settled_def)
qed

lemma place_children_settled:
  assumes "all_settled env a items navs" and "distinct (map an_id navs)"
  shows "place_children env a u items navs = Inr navs"
  using assms
proof (induction items arbitrary: u)
  case (Cons item items)
  then obtain i where "settled env (item_url item) i (place_child a item) navs" by (auto simp: all_settled_def)
  from update_or_insert_settled [OF this Cons.prems(2)] Cons show ?case by (auto simp: all_settled_def)
qed simp

lemma group_urls: "GROUP_URLS = ADMIN_URL # map item_url CHILD_ITEMS"
  by (simp add: GROUP_URLS_def case_prod_beta')

lemma child_placed:
  "place_child a (label_en, label_ar, icon, url, n) c = c \<Longrightarrow>
   an_parent_id c = Some a \<and> an_is_active c \<and> an_label_en c = label_en \<and> an_label_ar c = label_ar \<and> an_icon_class c = Some icon \<and>
   an_sort_order c = n"
  by (cases c) (simp add: place_child_def)

lemma upgrade_0032_settles:
  assumes "upgrade_0032 env u navs = Inr navs'" and "distinct (map an_id navs)" and "distinct (map (collate env) GROUP_URLS)"
  obtains a where "settled env ADMIN_URL a overview navs'" and "all_settled env a CHILD_ITEMS navs'" and "distinct (map an_id navs')"
proof -
  from assms(1) obtain a n1
    where step: "update_or_insert env ADMIN_URL overview (nav_row (u 0) None ''Admin'' ADMIN_LABEL_AR (Some ADMIN_ICON) ADMIN_URL 7) navs
        = Inr (a, n1)"
      and rest: "place_children env a (shift u 1) CHILD_ITEMS n1 = Inr navs'"
    by (auto simp: upgrade_0032_overview)
  have ds: "distinct (map (collate env \<circ> item_url) CHILD_ITEMS)"
    and new: "collate env ADMIN_URL \<notin> (collate env \<circ> item_url) ` set CHILD_ITEMS"
    using assms(3) by (auto simp: group_urls o_def image_image)
  note n1 = update_or_insert_settles [OF step sets_overview overview_new, unfolded nav_row_def, simplified]
  note ch = place_children_settle [OF rest update_or_insert_keys [OF step sets_overview assms(2)] ds]
  show ?thesis by (rule that [of a]) (use n1 ch new in blast)+
qed

section \<open>The cards of a section\<close>

text \<open>What decides where a card is shown, and as what in English.\<close>

definition card_place :: "admin_dashboard_card \<Rightarrow> string \<times> string \<times> int \<times> bool" where
  "card_place c = (dc_section_key c, dc_label_en c, dc_sort_order c, dc_is_active c)"

definition section_rows :: "env \<Rightarrow> string \<Rightarrow> admin_dashboard_card list \<Rightarrow> admin_dashboard_card list" where
  "section_rows env sec cards = order_by dc_sort_order (filter (\<lambda>c. dc_is_active c \<and> sql_eq env (dc_section_key c) sec) cards)"

lemma insort_key_map_both: "(\<And>x. k (f x) = k' x) \<Longrightarrow> insort_key k (f y) (map f ys) = map f (insort_key k' y ys)"
  by (induction ys) auto

lemma sort_key_image: "(\<And>x. k (f x) = k' x) \<Longrightarrow> sort_key k (map f xs) = map f (sort_key k' xs)"
  by (induction xs) (simp_all add: insort_key_map_both)

lemma section_rows_place:
  "map card_place (section_rows env sec cards) = sort_key (\<lambda>p. fst (snd (snd p)))
     (filter (\<lambda>p. snd (snd (snd p)) \<and> sql_eq env (fst p) sec) (map card_place cards))"
  by (simp add: section_rows_def filter_map o_def card_place_def sort_key_image [where k' = dc_sort_order])

text \<open>Updates of pictures and icons change nothing of it.\<close>

lemma place_update: "(\<And>c. card_place (f c) = card_place c) \<Longrightarrow> map card_place (update_where P f cards) = map card_place cards"
  by (rule map_update_where)

lemma upgrade_0024_place: "map card_place (upgrade_0024 env cards) = map card_place cards"
proof -
  have "map card_place (fold (\<lambda>(url, filename). update_where (seller_card env url) (\<lambda>c. c\<lparr>dc_image_url := Some (image_of filename)\<rparr>)) ps cards) =
      map card_place cards" for ps
    by (induction ps arbitrary: cards) (auto simp: place_update card_place_def)
  then show ?thesis by (simp add: upgrade_0024_def)
qed

lemma upgrade_0025_place: "map card_place (upgrade_0025 env cards) = map card_place cards"
  unfolding upgrade_0025_def by (rule place_update) (simp add: card_place_def)

text \<open>Tables made of one block of rows per section.\<close>

definition block_of :: "string \<Rightarrow> string list \<Rightarrow> (string \<times> string \<times> int \<times> bool) list" where
  "block_of sec labels = map (\<lambda>(k, label). (sec, label, int k + 1, True)) (List.enumerate 0 labels)"

lemma enumerate_map: "List.enumerate n (map f xs) = map (\<lambda>(k, x). (k, f x)) (List.enumerate n xs)"
  by (induction xs arbitrary: n) auto

lemma block_image_cards:
  "map card_place (numbered u (image_card sec base) rows) = block_of sec (map (fst \<circ> snd) rows)"
  by (simp add: numbered_def block_of_def image_card_def card_place_def enumerate_map o_def case_prod_beta')

lemma block_cards:
  "map (card_place \<circ> add_image_column) (numbered u (card_row sec) rows) = block_of sec (map fst rows)"
  by (simp add: numbered_def block_of_def card_row_def add_image_column_def card_place_def enumerate_map o_def case_prod_beta')

lemma block_sorted: "sorted (map (\<lambda>p. fst (snd (snd p))) (block_of sec labels))"
  by (auto simp: block_of_def o_def case_prod_beta' sorted_iff_nth_mono nth_enumerate_eq)

lemma filter_block:
  "filter (\<lambda>p. snd (snd (snd p)) \<and> sql_eq env (fst p) sec) (block_of key labels) =
     (if sql_eq env key sec then block_of key labels else [])"
  by (auto simp: block_of_def filter_empty_conv intro!: filter_True_id)

text \<open>The section of one block among others.\<close>

definition blocks :: "(string \<times> string list) list \<Rightarrow> (string \<times> string \<times> int \<times> bool) list" where
  "blocks bs = concat (map (\<lambda>(sec, labels). block_of sec labels) bs)"

lemma filter_blocks:
  assumes "distinct (map (collate env \<circ> fst) bs)" and "(sec, labels) \<in> set bs"
  shows "filter (\<lambda>p. snd (snd (snd p)) \<and> sql_eq env (fst p) sec) (blocks bs) = block_of sec labels"
  using assms
proof (induction bs)
  case (Cons b bs)
  have none: "filter (\<lambda>p. snd (snd (snd p)) \<and> sql_eq env (fst p) s) (blocks cs) = []"
    if "collate env s \<notin> (collate env \<circ> fst) ` set cs" for s cs
    using that
  proof (induction cs)
    case (Cons c cs)
    then have "\<not> sql_eq env (fst c) s" by (auto simp: sql_eq_def)
    with Cons show ?case by (cases c) (simp add: blocks_def filter_block)
  qed (simp add: blocks_def)
  show ?case
  proof (cases "b = (sec, labels)")
    case True
    then have "collate env sec \<notin> (collate env \<circ> fst) ` set bs" using Cons.prems(1) by auto
    from none [OF this] True show ?thesis by (simp add: blocks_def filter_block)
  next
    case False
    then have "(sec, labels) \<in> set bs" using Cons.prems(2) by auto
    moreover from this have "collate env (fst b) \<noteq> collate env sec" using Cons.prems(1) by (force simp: image_iff)
    moreover from this have "\<not> sql_eq env (fst b) sec" by (simp add: sql_eq_def)
    ultimately show ?thesis using Cons by (cases b) (simp add: blocks_def filter_block)
  qed
qed simp

lemma section_rows_labels:
  assumes "map card_place cards = blocks bs" and "distinct (map (collate env \<circ> fst) bs)" and "(sec, labels) \<in> set bs"
  shows "map dc_label_en (section_rows env sec cards) = labels"
proof -
  have "map card_place (section_rows env sec cards) = block_of sec labels"
    by (simp only: section_rows_place assms(1) filter_blocks [OF assms(2,3)] sort_key_sorted [OF block_sorted])
  then have "map (fst \<circ> snd) (map card_place (section_rows env sec cards)) = map (fst \<circ> snd) (block_of sec labels)"
    by (simp only:)
  then show ?thesis by (simp add: card_place_def block_of_def o_def case_prod_beta')
qed

section \<open>A new installation\<close>

definition SECTION_LABELS :: "(string \<times> string list) list" where
  "SECTION_LABELS =
     [(''sellers'', map fst SELLERS_SECTION), (''dashboard'', map fst DASHBOARD_CARDS),
      (''operations'', map (fst \<circ> snd) OPERATIONS_CARDS), (''management'', map (fst \<circ> snd) MANAGEMENT_CARDS),
      (''accountant'', map (fst \<circ> snd) ACCOUNTANT_CARDS), (''reports'', map (fst \<circ> snd) REPORTS_CARDS),
      (''admin'', map (fst \<circ> snd) ADMIN_CARDS)]"

lemma section_keys: "map fst SECTION_LABELS =
    [''sellers'', ''dashboard'', ''operations'', ''management'', ''accountant'', ''reports'', ''admin'']"
  by (simp add: SECTION_LABELS_def)

lemma numbered_section: "c \<in> set (numbered u (card_row sec) rows) \<Longrightarrow> c_section_key c = sec"
  by (auto simp: numbered_def card_row_def)

lemma install_dashboardD:
  assumes "install_dashboard env u db = Inr db'"
  obtains navs cards11 cards12 cards13 cards14 cards15 cards16 s10 where "seed_0010 (u 10) = Inr s10"
    and "upgrade_0011 env (u 11) s10 = Inr (navs, cards11)" and "upgrade_0012 (u 12) cards11 = Inr cards12"
    and "upgrade_0013 (u 13) cards12 = Inr cards13" and "upgrade_0014 (u 14) cards13 = Inr cards14"
    and "upgrade_0015 (u 15) cards14 = Inr cards15" and "upgrade_0016 (u 16) cards15 = Inr cards16"
    and "upgrade_0032 env (u 32) (upgrade_0026 env navs) = Inr (admin_nav_items db')"
    and "admin_dashboard_cards db' = upgrade_0025 env (upgrade_0024 env cards16)"
  using assms by (auto simp: install_dashboard_def)

lemma seed_0010_tables:
  "seed_0010 u = Inr s \<Longrightarrow> s = (NAV_ITEMS u, seed_dashboard_cards (shift u (length (NAV_ITEMS u))))"
  by (auto simp: seed_0010_def insert_rows_Inr simp del: distinct_append map_append)

lemma delete_dashboard:
  assumes "\<not> sql_eq env ''sellers'' ''dashboard''"
  shows "delete_where (in_section env ''dashboard'') (seed_dashboard_cards u) =
    numbered (shift u (length DASHBOARD_SECTION)) (card_row ''sellers'') SELLERS_SECTION"
  unfolding seed_dashboard_cards_def delete_where_append
  by (subst delete_where_all, use numbered_section in fastforce)
     (subst delete_where_none, use numbered_section assms in fastforce, simp)

lemma upgrade_0011_cards:
  assumes "upgrade_0011 env v (navs, seed_dashboard_cards u) = Inr (navs', cards')" and "\<not> sql_eq env ''sellers'' ''dashboard''"
  shows "\<exists>u' v'. cards' = numbered u' (card_row ''sellers'') SELLERS_SECTION @ numbered v' (card_row ''dashboard'') DASHBOARD_CARDS"
  using assms(1) delete_dashboard [OF assms(2)]
  by (auto simp: upgrade_0011_def insert_rows_Inr simp del: distinct_append map_append)

lemma install_dashboard_cards:
  assumes "install_dashboard env u db = Inr db'" and "\<not> sql_eq env ''sellers'' ''dashboard''"
  shows "map card_place (admin_dashboard_cards db') = blocks SECTION_LABELS"
proof -
  obtain navs cards11 cards12 cards13 cards14 cards15 cards16 s10 where s: "seed_0010 (u 10) = Inr s10"
      "upgrade_0011 env (u 11) s10 = Inr (navs, cards11)"
    and up: "upgrade_0012 (u 12) cards11 = Inr cards12" "upgrade_0013 (u 13) cards12 = Inr cards13"
      "upgrade_0014 (u 14) cards13 = Inr cards14" "upgrade_0015 (u 15) cards14 = Inr cards15" "upgrade_0016 (u 16) cards15 = Inr cards16"
    and cards: "admin_dashboard_cards db' = upgrade_0025 env (upgrade_0024 env cards16)"
    using assms(1) by (rule install_dashboardD)
  obtain u' v' where first: "cards11 = numbered u' (card_row ''sellers'') SELLERS_SECTION @ numbered v' (card_row ''dashboard'') DASHBOARD_CARDS"
    using upgrade_0011_cards [OF s(2) [unfolded seed_0010_tables [OF s(1)]] assms(2)] by blast
  have "map card_place cards16 = blocks SECTION_LABELS"
    using up unfolding upgrade_0012_def upgrade_0013_def upgrade_0014_def upgrade_0015_def upgrade_0016_def insert_rows_Inr first
    by (simp add: block_image_cards block_cards blocks_def SECTION_LABELS_def del: distinct_append)
  then show ?thesis by (simp add: cards upgrade_0025_place upgrade_0024_place)
qed

text \<open>The links of the navigation: 0032 finds all of its rows.\<close>

lemma update_or_insert_urls:
  assumes "update_or_insert env url f new navs = Inr (i, navs')" and "sets_columns f" and "url \<in> an_url ` set navs"
  shows "map an_url navs' = map an_url navs"
proof -
  have "filter (\<lambda>r. sql_eq env (an_url r) url) navs \<noteq> []"
    using assms(3) sql_eq_refl by (fastforce simp: filter_empty_conv)
  then obtain r where "first_row (filter (\<lambda>r. sql_eq env (an_url r) url) navs) = Some r"
    by (cases "filter (\<lambda>r. sql_eq env (an_url r) url) navs") auto
  with assms(1,2) show ?thesis by (auto simp: update_or_insert_def row_by_url_def sets_columns_def)
qed

lemma place_children_urls:
  assumes "place_children env a u items navs = Inr navs'" and "item_url ` set items \<subseteq> an_url ` set navs"
  shows "map an_url navs' = map an_url navs"
  using assms
proof (induction items arbitrary: u navs)
  case (Cons item items)
  then obtain i n1
    where step: "update_or_insert env (item_url item) (place_child a item) (child_row (u 0) a item) navs = Inr (i, n1)"
      and rest: "place_children env a (shift u 1) items n1 = Inr navs'"
    by auto
  have same: "map an_url n1 = map an_url navs"
    using update_or_insert_urls [OF step sets_place_child] Cons.prems(2) by simp
  then have "an_url ` set n1 = an_url ` set navs" by (metis list.set_map)
  with Cons.IH [OF rest] Cons.prems(2) same show ?case by simp
qed simp

definition NAV_URLS :: "string list" where
  "NAV_URLS = [''/'', ''/admin/sellers'', ''/admin/operations'', ''/admin/management'', ''/admin/accountant'', ''/admin/reports'',
     ''/admin'', ''/admin/dashboard'', ''/admin/instore'']"

lemma navs_0011_urls:
  assumes "upgrade_0011 env v (NAV_ITEMS u, cards) = Inr (navs, cards')"
  shows "map an_url navs = NAV_URLS"
proof -
  have "\<exists>a. navs = map add_parent_column (NAV_ITEMS u) @ NAV_CHILDREN a v"
    using assms by (auto simp: upgrade_0011_def insert_tree_Inr simp del: distinct_append map_append)
  then show ?thesis
    by (auto simp: NAV_ITEMS_def nav_row_0010_def add_parent_column_def NAV_CHILDREN_def nav_row_def NAV_URLS_def)
qed

lemma install_dashboard_urls:
  assumes "install_dashboard env u db = Inr db'"
  shows "map an_url (admin_nav_items db') = NAV_URLS"
proof -
  obtain navs cards11 s10 where s: "seed_0010 (u 10) = Inr s10" "upgrade_0011 env (u 11) s10 = Inr (navs, cards11)"
    and up: "upgrade_0032 env (u 32) (upgrade_0026 env navs) = Inr (admin_nav_items db')"
    using assms by (rule install_dashboardD)
  have "map an_url navs = NAV_URLS" by (rule navs_0011_urls [OF s(2) [unfolded seed_0010_tables [OF s(1)]]])
  then have urls: "map an_url (upgrade_0026 env navs) = NAV_URLS"
    by (simp add: upgrade_0026_def)
  then have mem: "x \<in> set NAV_URLS \<Longrightarrow> x \<in> an_url ` set (upgrade_0026 env navs)" for x by (metis list.set_map)
  obtain a n1 where step: "update_or_insert env ADMIN_URL overview
        (nav_row (u 32 0) None ''Admin'' ADMIN_LABEL_AR (Some ADMIN_ICON) ADMIN_URL 7) (upgrade_0026 env navs) = Inr (a, n1)"
      and rest: "place_children env a (shift (u 32) 1) CHILD_ITEMS n1 = Inr (admin_nav_items db')"
    using up by (auto simp: upgrade_0032_overview)
  have n1: "map an_url n1 = NAV_URLS"
    using update_or_insert_urls [OF step sets_overview mem] urls by (simp add: NAV_URLS_def ADMIN_URL_def)
  have "item_url ` set CHILD_ITEMS \<subseteq> set NAV_URLS" by (simp add: CHILD_ITEMS_def NAV_URLS_def)
  then have "item_url ` set CHILD_ITEMS \<subseteq> an_url ` set n1" using n1 by (metis list.set_map)
  from place_children_urls [OF rest this] n1 show ?thesis by simp
qed

section \<open>The revisions succeed\<close>

definition NAV_LABELS :: "string list" where
  "NAV_LABELS = [''Home'', ''Sellers'', ''Operations'', ''Management'', ''Accountant'', ''Reports'', ''Admin'']"

lemma dashboard_ids:
  "map n_id (NAV_ITEMS u) = map u [0, 1, 2, 3, 4, 5, 6]" "map an_id (NAV_CHILDREN a u) = map u [0, 1]"
  "map n_label_en (NAV_ITEMS u) = NAV_LABELS" "map an_parent_id (NAV_CHILDREN a u) = [Some a, Some a]"
  "length DASHBOARD_SECTION = 2" "length SELLERS_SECTION = 11" "length DASHBOARD_CARDS = 6" "length (NAV_ITEMS u) = 7"
  "length (NAV_CHILDREN a u) = 2"
  by (simp_all add: NAV_ITEMS_def NAV_CHILDREN_def nav_row_0010_def nav_row_def DASHBOARD_SECTION_def SELLERS_SECTION_def
      DASHBOARD_CARDS_def NAV_LABELS_def)

lemma card_ids:
  "map c_id (numbered u (card_row sec) cs) = map u [0..<length cs]"
  "map dc_id (numbered u (image_card sec base) ds) = map u [0..<length ds]"
  "map vsm_id (numbered u (metric_row g) ms) = map u [0..<length ms]"
  by (intro numbered_keys; simp add: card_row_def image_card_def metric_row_def split: prod.splits)+

lemma metric_ids: "map vsm_id (metric_rows u groups) = map u [0..<sum_list (map (length \<circ> snd) groups)]"
proof (induction u groups rule: metric_rows.induct)
  case (2 u key rows groups)
  then show ?case by (simp add: card_ids shift_upt upt_add_eq_append [of 0 "length rows", simplified])
qed simp

lemma find_admin:
  assumes "distinct (map (collate env) NAV_LABELS)"
  shows "\<exists>a \<in> set (map n_id (NAV_ITEMS u)).
    scalar_one (map an_id (filter (\<lambda>r. sql_eq env (an_label_en r) ''Admin'') (map add_parent_column (NAV_ITEMS u)))) = Inr a"
proof -
  have "map an_label_en (map add_parent_column (NAV_ITEMS u)) = map n_label_en (NAV_ITEMS u)"
    by (simp add: add_parent_column_def)
  then have labels: "map an_label_en (map add_parent_column (NAV_ITEMS u)) = NAV_LABELS" by (simp only: dashboard_ids)
  then have d: "distinct (map (collate env \<circ> an_label_en) (map add_parent_column (NAV_ITEMS u)))"
    using assms by (simp only: map_map [symmetric])
  have "''Admin'' \<in> set (map an_label_en (map add_parent_column (NAV_ITEMS u)))" unfolding labels by (simp add: NAV_LABELS_def)
  then obtain r where r: "r \<in> set (map add_parent_column (NAV_ITEMS u))" "''Admin'' = an_label_en r" by auto
  from filter_key_unique [OF d r(1)] r(2)
  have "filter (\<lambda>r. sql_eq env (an_label_en r) ''Admin'') (map add_parent_column (NAV_ITEMS u)) = [r]" by (simp add: sql_eq_def)
  moreover have "an_id r \<in> set (map n_id (NAV_ITEMS u))" using r(1) by (auto simp: add_parent_column_def)
  ultimately show ?thesis by auto
qed

text \<open>The keys of the cards, by revision.\<close>

definition card_draws :: "nat \<Rightarrow> nat list" where
  "card_draws k = (if k = 10 then [9..<20] else if k = 11 then [2..<8] else if k = 12 then [0..<length OPERATIONS_CARDS]
     else if k = 13 then [0..<length MANAGEMENT_CARDS] else if k = 14 then [0..<length ACCOUNTANT_CARDS]
     else if k = 15 then [0..<length REPORTS_CARDS] else [0..<length ADMIN_CARDS])"

lemma card_counts:
  "length OPERATIONS_CARDS = 29" "length MANAGEMENT_CARDS = 12" "length ACCOUNTANT_CARDS = 11" "length REPORTS_CARDS = 16"
  "length ADMIN_CARDS = 10" "sum_list (map (length \<circ> snd) METRIC_GROUPS) = 16"
  by (simp_all add: OPERATIONS_CARDS_def MANAGEMENT_CARDS_def ACCOUNTANT_CARDS_def REPORTS_CARDS_def ADMIN_CARDS_def
      METRIC_GROUPS_def REALTIME_def MTD_def PAYMENT_SUMMARY_def)

abbreviation card_keys :: "(nat \<Rightarrow> nat \<Rightarrow> uuid) \<Rightarrow> nat list \<Rightarrow> uuid list" where
  "card_keys u ks \<equiv> concat (map (\<lambda>k. map (u k) (card_draws k)) ks)"

lemma card_keys_distinct:
  assumes "\<And>k. k \<in> {10..<17} \<Longrightarrow> fresh (u k)"
    and "\<And>j k. j \<in> {10..<17} \<Longrightarrow> k \<in> {10..<17} \<Longrightarrow> j \<noteq> k \<Longrightarrow> drawn (u j) \<inter> drawn (u k) = {}"
  shows "distinct (card_keys u [10, 11, 12, 13, 14, 15, 16])"
proof (rule distinct_draws)
  have "list_all (\<lambda>k. distinct (card_draws k) \<and> set (card_draws k) \<subseteq> {..<300}) [10, 11, 12, 13, 14, 15, 16]"
    by (auto simp: card_draws_def card_counts)
  then show "list_all (\<lambda>k. fresh (u k) \<and> distinct (card_draws k) \<and> set (card_draws k) \<subseteq> {..<300}) [10, 11, 12, 13, 14, 15, 16]"
    using assms(1) by (simp add: list_all_iff)
  show "distinct [10, 11, 12, 13, 14, 15, 16 :: nat]" by simp
  fix j k assume "j \<in> set [10, 11, 12, 13, 14, 15, 16 :: nat]" "k \<in> set [10, 11, 12, 13, 14, 15, 16 :: nat]" "j \<noteq> k"
  then show "drawn (u j) \<inter> drawn (u k) = {}" by (intro assms(2)) auto
qed

lemma seed_0010_succeeds: "fresh u \<Longrightarrow> \<exists>s. seed_0010 u = Inr s"
proof -
  assume u: "fresh u"
  have "distinct (map n_id (NAV_ITEMS u))" by (rule distinct_keys [OF u dashboard_ids(1)]) simp
  moreover have "map c_id (seed_dashboard_cards (shift u 7)) = map u ([7..<9] @ [9..<20])"
    by (simp add: seed_dashboard_cards_def card_ids dashboard_ids shift_upt) (simp add: shift_def add.commute)
  then have "distinct (map c_id (seed_dashboard_cards (shift u 7)))" by (rule distinct_keys [OF u]) auto
  ultimately show ?thesis by (simp add: seed_0010_def insert_first dashboard_ids)
qed

lemma upgrade_0011_succeeds:
  assumes u: "fresh u" "fresh v" "drawn u \<inter> drawn v = {}"
    and env: "distinct (map (collate env) NAV_LABELS)" "\<not> sql_eq env ''sellers'' ''dashboard''"
  shows "\<exists>navs cards. upgrade_0011 env v (NAV_ITEMS u, seed_dashboard_cards (shift u 7)) = Inr (navs, cards) \<and>
    map c_id cards = map u [9..<20] @ map v [2..<8]"
proof -
  obtain a where a: "a \<in> set (map n_id (NAV_ITEMS u))"
      "scalar_one (map an_id (filter (\<lambda>r. sql_eq env (an_label_en r) ''Admin'') (map add_parent_column (NAV_ITEMS u)))) = Inr a"
    using find_admin [OF env(1)] by blast
  let ?navs = "map add_parent_column (NAV_ITEMS u) @ NAV_CHILDREN a v"
  have ids: "map an_id ?navs = map u [0, 1, 2, 3, 4, 5, 6] @ map v [0, 1]"
    unfolding map_append dashboard_ids(2) by (simp add: add_parent_column_def o_def dashboard_ids(1) [simplified])
  have parents: "map an_parent_id ?navs = replicate 7 None @ [Some a, Some a]"
    unfolding map_append dashboard_ids(4)
    by (simp add: add_parent_column_def o_def map_replicate_const dashboard_ids)
  have "distinct (map an_id ?navs)" unfolding ids by (rule distinct_drawn [OF u]) simp_all
  moreover have "parents_exist an_id an_parent_id ?navs"
    using a(1) unfolding parents_exist_columns parents ids dashboard_ids(1) by (auto simp: list_all_iff)
  ultimately have navs: "insert_tree an_id an_parent_id (map add_parent_column (NAV_ITEMS u)) (NAV_CHILDREN a v) = Inr ?navs"
    unfolding insert_tree_Inr by blast
  have rest: "delete_where (in_section env ''dashboard'') (seed_dashboard_cards (shift u 7)) =
      numbered (shift (shift u 7) 2) (card_row ''sellers'') SELLERS_SECTION"
    using delete_dashboard [OF env(2)] by (simp add: dashboard_ids)
  let ?cards = "numbered (shift (shift u 7) 2) (card_row ''sellers'') SELLERS_SECTION @ numbered (shift v 2) (card_row ''dashboard'') DASHBOARD_CARDS"
  have keys: "map c_id ?cards = map u [9..<20] @ map v [2..<8]"
    by (simp add: card_ids dashboard_ids shift_upt) (simp add: shift_def add.commute)
  have "distinct (map c_id ?cards)" unfolding keys by (rule distinct_drawn [OF u]) auto
  then have "insert_rows c_id (delete_where (in_section env ''dashboard'') (seed_dashboard_cards (shift u 7)))
      (numbered (shift v 2) (card_row ''dashboard'') DASHBOARD_CARDS) = Inr ?cards"
    unfolding insert_rows_Inr rest by blast
  then show ?thesis using keys by (simp add: upgrade_0011_def a(2) navs dashboard_ids)
qed

lemma url_found: "url \<in> an_url ` set navs \<Longrightarrow> \<exists>i. row_by_url env url navs = Some i"
proof -
  assume "url \<in> an_url ` set navs"
  then have "filter (\<lambda>r. sql_eq env (an_url r) url) navs \<noteq> []" using sql_eq_refl by (fastforce simp: filter_empty_conv)
  then show ?thesis by (cases "filter (\<lambda>r. sql_eq env (an_url r) url) navs") (auto simp: row_by_url_def)
qed

lemma update_or_insert_found:
  assumes "url \<in> an_url ` set navs" and "sets_columns f"
  shows "\<exists>i navs'. update_or_insert env url f new navs = Inr (i, navs') \<and> map an_url navs' = map an_url navs"
  using url_found [OF assms(1), of env] assms(2) by (auto simp: update_or_insert_def sets_columns_def)

lemma place_children_found:
  "item_url ` set items \<subseteq> an_url ` set navs \<Longrightarrow> \<exists>navs'. place_children env a u items navs = Inr navs'"
proof (induction items arbitrary: u navs)
  case (Cons item items)
  have "item_url item \<in> an_url ` set navs" using Cons.prems by simp
  from update_or_insert_found [OF this sets_place_child]
  obtain i n1 where n1: "update_or_insert env (item_url item) (place_child a item) (child_row (u 0) a item) navs = Inr (i, n1)"
      "map an_url n1 = map an_url navs"
    by blast
  have "an_url ` set n1 = an_url ` set navs" using n1(2) by (metis list.set_map)
  then have "item_url ` set items \<subseteq> an_url ` set n1" using Cons.prems by simp
  from Cons.IH [OF this, of "shift u 1"] n1(1) show ?case by simp
qed simp

lemma upgrade_0032_found:
  assumes "map an_url navs = NAV_URLS"
  shows "\<exists>navs'. upgrade_0032 env u navs = Inr navs'"
proof -
  have urls: "an_url ` set navs = set NAV_URLS" using assms by (metis list.set_map)
  have "ADMIN_URL \<in> an_url ` set navs" unfolding urls by (simp add: NAV_URLS_def ADMIN_URL_def)
  from update_or_insert_found [OF this sets_overview]
  obtain a n1 where n1: "update_or_insert env ADMIN_URL overview
      (nav_row (u 0) None ''Admin'' ADMIN_LABEL_AR (Some ADMIN_ICON) ADMIN_URL 7) navs = Inr (a, n1)" "map an_url n1 = map an_url navs"
    by blast
  have "item_url ` set CHILD_ITEMS \<subseteq> set NAV_URLS" by (simp add: CHILD_ITEMS_def NAV_URLS_def)
  then have "item_url ` set CHILD_ITEMS \<subseteq> an_url ` set n1" using n1(2) urls by (metis list.set_map)
  from place_children_found [OF this] n1(1) show ?thesis by (auto simp: upgrade_0032_overview)
qed

text \<open>The five grids of cards.\<close>

lemma grid_inserted:
  assumes "map dc_id cs = card_keys u ks" and "card_draws k = [0..<length new]" and "distinct (card_keys u (ks @ [k]))"
  shows "\<exists>cs'. insert_rows dc_id cs (numbered (u k) (image_card sec base) new) = Inr cs' \<and> map dc_id cs' = card_keys u (ks @ [k])"
proof -
  have "map dc_id (cs @ numbered (u k) (image_card sec base) new) = card_keys u (ks @ [k])"
    by (simp add: assms(1,2) card_ids)
  with assms(3) show ?thesis unfolding insert_rows_Inr by metis
qed

lemma card_keys_prefix: "distinct (card_keys u (ks @ ls)) \<Longrightarrow> distinct (card_keys u ks)"
  by simp

lemma grids_succeed:
  assumes "map c_id cards11 = map (u 10) [9..<20] @ map (u 11) [2..<8]"
    and "distinct (card_keys u [10, 11, 12, 13, 14, 15, 16])"
  shows "\<exists>c12 c13 c14 c15 c16. upgrade_0012 (u 12) cards11 = Inr c12 \<and> upgrade_0013 (u 13) c12 = Inr c13 \<and>
    upgrade_0014 (u 14) c13 = Inr c14 \<and> upgrade_0015 (u 15) c14 = Inr c15 \<and> upgrade_0016 (u 16) c15 = Inr c16"
proof -
  have d: "distinct (card_keys u ([10, 11] @ [12]))"
    by (rule card_keys_prefix [where ls = "[13, 14, 15, 16]"]) (use assms(2) in \<open>simp only: append.simps\<close>)
  have d13: "distinct (card_keys u (([10, 11] @ [12]) @ [13]))"
    by (rule card_keys_prefix [where ls = "[14, 15, 16]"]) (use assms(2) in \<open>simp only: append.simps\<close>)
  have d14: "distinct (card_keys u ((([10, 11] @ [12]) @ [13]) @ [14]))"
    by (rule card_keys_prefix [where ls = "[15, 16]"]) (use assms(2) in \<open>simp only: append.simps\<close>)
  have d15: "distinct (card_keys u (((([10, 11] @ [12]) @ [13]) @ [14]) @ [15]))"
    by (rule card_keys_prefix [where ls = "[16]"]) (use assms(2) in \<open>simp only: append.simps\<close>)
  have d16: "distinct (card_keys u ((((([10, 11] @ [12]) @ [13]) @ [14]) @ [15]) @ [16]))"
    using assms(2) by (simp only: append.simps)
  have draws: "card_draws 12 = [0..<length OPERATIONS_CARDS]" "card_draws 13 = [0..<length MANAGEMENT_CARDS]"
    "card_draws 14 = [0..<length ACCOUNTANT_CARDS]" "card_draws 15 = [0..<length REPORTS_CARDS]" "card_draws 16 = [0..<length ADMIN_CARDS]"
    by (simp_all add: card_draws_def)
  have "map dc_id (map add_image_column cards11) = map c_id cards11" by (simp add: add_image_column_def)
  then have c11: "map dc_id (map add_image_column cards11) = card_keys u [10, 11]"
    by (simp only: assms(1)) (simp add: card_draws_def)
  obtain c12 where c12: "upgrade_0012 (u 12) cards11 = Inr c12" "map dc_id c12 = card_keys u ([10, 11] @ [12])"
    using grid_inserted [OF c11 draws(1) d] unfolding upgrade_0012_def by blast
  obtain c13 where c13: "upgrade_0013 (u 13) c12 = Inr c13" "map dc_id c13 = card_keys u (([10, 11] @ [12]) @ [13])"
    using grid_inserted [OF c12(2) draws(2) d13] unfolding upgrade_0013_def by blast
  obtain c14 where c14: "upgrade_0014 (u 14) c13 = Inr c14" "map dc_id c14 = card_keys u ((([10, 11] @ [12]) @ [13]) @ [14])"
    using grid_inserted [OF c13(2) draws(3) d14] unfolding upgrade_0014_def by blast
  obtain c15 where c15: "upgrade_0015 (u 15) c14 = Inr c15" "map dc_id c15 = card_keys u (((([10, 11] @ [12]) @ [13]) @ [14]) @ [15])"
    using grid_inserted [OF c14(2) draws(4) d15] unfolding upgrade_0015_def by blast
  obtain c16 where "upgrade_0016 (u 16) c15 = Inr c16"
    using grid_inserted [OF c15(2) draws(5) d16] unfolding upgrade_0016_def by blast
  with c12(1) c13(1) c14(1) c15(1) show ?thesis by blast
qed

lemma upgrade_0017_succeeds: "fresh u \<Longrightarrow> \<exists>ms. upgrade_0017 u = Inr ms"
proof -
  assume u: "fresh u"
  have "distinct (map vsm_id (metric_rows u METRIC_GROUPS))"
    by (rule distinct_keys [OF u metric_ids]) (auto simp: card_counts [simplified])
  then show ?thesis by (simp add: upgrade_0017_def insert_first)
qed

lemma section_label_counts: "map (length \<circ> snd) SECTION_LABELS = [11, 6, 29, 12, 11, 16, 10]"
  by (simp add: SECTION_LABELS_def card_counts dashboard_ids)

lemma section_labels:
  assumes "sec \<in> set (map fst SECTION_LABELS)"
  obtains labels where "(sec, labels) \<in> set SECTION_LABELS" "labels \<noteq> []"
proof -
  obtain labels where p: "(sec, labels) \<in> set SECTION_LABELS" using assms by auto
  then have "length labels \<in> set (map (length \<circ> snd) SECTION_LABELS)" by force
  then have "labels \<noteq> []" unfolding section_label_counts by auto
  with p show thesis by (rule that)
qed

text \<open>The revisions run through, if \<open>uuid4\<close> draws no identifier twice.\<close>

lemma install_dashboard_succeeds:
  assumes fresh: "\<And>k. k \<in> {10..17} \<Longrightarrow> fresh (u k)"
    and apart: "\<And>j k. j \<in> {10..17} \<Longrightarrow> k \<in> {10..17} \<Longrightarrow> j \<noteq> k \<Longrightarrow> drawn (u j) \<inter> drawn (u k) = {}"
    and env: "distinct (map (collate env) NAV_LABELS)" "\<not> sql_eq env ''sellers'' ''dashboard''"
  shows "\<exists>db'. install_dashboard env u db = Inr db'"
proof -
  obtain s where s: "seed_0010 (u 10) = Inr s" using seed_0010_succeeds fresh by fastforce
  have u: "fresh (u 10)" "fresh (u 11)" "drawn (u 10) \<inter> drawn (u 11) = {}" by (intro fresh apart; simp)+
  obtain navs cards where up11: "upgrade_0011 env (u 11) (NAV_ITEMS (u 10), seed_dashboard_cards (shift (u 10) 7)) = Inr (navs, cards)"
      "map c_id cards = map (u 10) [9..<20] @ map (u 11) [2..<8]"
    using upgrade_0011_succeeds [OF u env] by blast
  have "distinct (card_keys u [10, 11, 12, 13, 14, 15, 16])" by (rule card_keys_distinct, rule fresh, simp, rule apart, simp_all)
  from grids_succeed [OF up11(2) this] obtain c12 c13 c14 c15 c16 where "upgrade_0012 (u 12) cards = Inr c12"
      "upgrade_0013 (u 13) c12 = Inr c13" "upgrade_0014 (u 14) c13 = Inr c14" "upgrade_0015 (u 15) c14 = Inr c15"
      "upgrade_0016 (u 16) c15 = Inr c16"
    by blast
  moreover obtain ms where "upgrade_0017 (u 17) = Inr ms" using upgrade_0017_succeeds fresh by fastforce
  moreover have "map an_url (upgrade_0026 env navs) = NAV_URLS"
    using navs_0011_urls [OF up11(1)] by (simp add: upgrade_0026_def)
  then obtain navs' where "upgrade_0032 env (u 32) (upgrade_0026 env navs) = Inr navs'"
    using upgrade_0032_found by blast
  ultimately show ?thesis
    using s up11(1) seed_0010_tables [OF s] by (simp add: install_dashboard_def dashboard_ids)
qed

end
