(* ===== verification/Content_Properties.thy ===== *)
theory Content_Properties
  imports Home_Laws Dashboard_Laws Read_Laws Sample_World
begin

text \<open>
  The properties of the content that the migrations put into the database: what a new installation serves, and what
  the migrations of existing rows keep.
\<close>

section \<open>The menu of a new installation\<close>

lemma install_homeD:
  assumes "install_home env sql_lower t u db = Inr db'"
  obtains h menu featured listings cards where "seed_0002 env t (u 2) = Inr h"
    and "upgrade_0004 env sql_lower (u 4) (h_menu h) = Inr menu" and "upgrade_0005 env t (u 5) (h_featured h) = Inr featured"
    and "upgrade_0006 t (u 6) featured = Inr (listings, cards)"
    and "menu_items db' = upgrade_0028 env (upgrade_0027 env menu)"
    and "featured_auctions db' = map drop_card_columns cards" and "vehicle_listings db' = upgrade_0020 listings"
  using assms by (auto simp: install_home_def)

lemma seed_0002_tables:
  assumes "seed_0002 env t u = Inr h"
  shows "h_menu h = MENU u" and "h_featured h = FEATURED t u"
  using assms by (auto simp: seed_0002_def insert_tree_Inr insert_rows_Inr split: if_splits)

text \<open>After the migrations the menu is served, in both languages; in English it is the tree of labels
  \<open>FIRST_TREE\<close>: nine entries, of which All Auctions, Help and Admin have children. The updates of 0004, 0027 and 0028 keep the
  tree, under any collation.\<close>

theorem fresh_menu_served:
  assumes "install_home env sql_lower t u db = Inr db'" and "clean w" and "committed w = db'"
  shows "\<exists>menu. fst (get_menu_endpoint env l w) = Inr menu \<and> (l = En \<longrightarrow> served_tree menu = FIRST_TREE)"
proof -
  obtain h menu where h: "seed_0002 env t (u 2) = Inr h" "upgrade_0004 env sql_lower (u 4) (h_menu h) = Inr menu"
    and items: "menu_items db' = upgrade_0028 env (upgrade_0027 env menu)"
    using assms(1) by (rule install_homeD)
  note first = upgrade_0004_menu [OF h(2) [unfolded seed_0002_tables [OF h(1)]]]
  have two: "two_levels (menu_items db')" and tree: "label_tree En (menu_items db') = FIRST_TREE"
    using first first_menu_tree by (simp_all add: items upgrade_0027_def upgrade_0028_def keeps_placeI)
  have w: "\<not> deactive w" "work w = db'" using assms(2,3) by (simp_all add: clean_def)
  obtain served where served: "map_results (menu_item_to_schema (menu_items db') l MENU_LEVELS) (menu_tops (menu_items db')) = Inr served"
      "served_tree served = label_tree l (menu_items db')"
    using menu_served [OF two] by blast
  then have "fst (get_menu_endpoint env l w) = Inr served"
    using w by (simp add: get_menu_endpoint_def request_session_result get_menu_def query_def menu_tops_def)
  with served(2) tree show ?thesis by auto
qed

section \<open>The featured auctions of a new installation\<close>






text \<open>A row of 0005, as the later revisions leave it.\<close>

definition final_row :: "uuid \<Rightarrow> featured_0005 \<Rightarrow> featured_auction" where
  "final_row i r = drop_card_columns (linked i (add_listing_column r))"

definition final_listing :: "time \<Rightarrow> uuid \<Rightarrow> featured_0005 \<Rightarrow> vehicle_listing" where
  "final_listing t i r = (add_intake_columns (backfilled_listing t i (add_listing_column r)))\<lparr>vl_status := ''published''\<rparr>"

lemma final_row_sel [simp]:
  "fa_id (final_row i r) = f_id r" "fa_vehicle_listing_id (final_row i r) = Some i" "fa_category_key (final_row i r) = f_category_key r"
  "fa_category_sort_order (final_row i r) = f_category_sort_order r" "fa_sort_order (final_row i r) = f_sort_order r"
  "fa_is_active (final_row i r) = f_is_active r" "fa_auction_id (final_row i r) = f_auction_id r"
  by (simp_all add: final_row_def drop_card_columns_def linked_def add_listing_column_def featured_0005.defs featured_0006.defs)

lemma final_listing_sel [simp]:
  "vl_id (final_listing t i r) = i" "vl_title_en (final_listing t i r) = f_title_en r" "vl_title_ar (final_listing t i r) = f_title_ar r"
  "vl_image_url (final_listing t i r) = f_image_url r" "vl_detail_url (final_listing t i r) = detail_or_hash (f_detail_url r)"
  "vl_lot_number (final_listing t i r) = f_lot_number r" "vl_mileage (final_listing t i r) = f_mileage r"
  "vl_location_en (final_listing t i r) = f_location_en r" "vl_location_ar (final_listing t i r) = f_location_ar r"
  "vl_bid_amount (final_listing t i r) = f_bid_amount r" "vl_countdown_label (final_listing t i r) = f_countdown_label r"
  "vl_is_active (final_listing t i r)"
  by (simp_all add: final_listing_def add_intake_columns_def backfilled_listing_def add_listing_column_def featured_0005.defs featured_0006.defs)

lemma upgrade_0006_final:
  assumes "upgrade_0006 t u rows = Inr (listings, cards)" and "distinct (map f_id rows)" and "k < length rows"
    and "featured_auctions db = map drop_card_columns cards" and "vehicle_listings db = upgrade_0020 listings"
  shows "featured_auctions db ! k = final_row (u k) (rows ! k)"
    and "row_vehicle db (final_row (u k) (rows ! k)) = Some (final_listing t (u k) (rows ! k))"
    and "length (featured_auctions db) = length rows"
  using upgrade_0006_linked [OF assms(1-3)] upgrade_0006_run(2) [OF assms(1,2)] assms(4,5)
  by (simp_all add: final_row_def [symmetric] final_listing_def [symmetric] row_vehicle_def)


section \<open>The move of the card texts\<close>

text \<open>C22. Whatever rows \<^verbatim>\<open>featured_auctions\<close> had, moving their texts to listings (0006), dropping their columns (0007) and adding
  those of the intake form (0020) lose nothing of what is shown: every row is shown with its former title, picture, lot
  number, mileage, location, bid and countdown, and links to \<open>#\<close> where it linked nowhere.\<close>

theorem card_content_preserved:
  assumes "upgrade_0006 t u rows = Inr (listings, cards)" and "distinct (map f_id rows)" and "r \<in> set rows"
    and "featured_auctions db = map drop_card_columns cards" and "vehicle_listings db = upgrade_0020 listings"
  shows "\<exists>row \<in> set (featured_auctions db). \<exists>item. fa_id row = f_id r \<and> featured_auction_item_to_schema db l row = Some item \<and>
    fir_title item = pick (Some (f_title_en r)) (Some (f_title_ar r)) l \<and> fir_image_url item = f_image_url r \<and>
    fir_lot_number item = f_lot_number r \<and> fir_mileage item = f_mileage r \<and>
    fir_location item = or_none (pick (f_location_en r) (f_location_ar r) l) \<and> fir_bid_amount item = f_bid_amount r \<and>
    fir_countdown_label item = f_countdown_label r \<and> fir_detail_url item = detail_or_hash (f_detail_url r)"
proof -
  obtain k where k: "k < length rows" "r = rows ! k" using assms(3) by (metis in_set_conv_nth)
  note final = upgrade_0006_final [OF assms(1,2) k(1) assms(4,5)]
  have "final_row (u k) r \<in> set (featured_auctions db)" using final(1,3) k by (metis nth_mem)
  moreover have "\<exists>item. featured_auction_item_to_schema db l (final_row (u k) r) = Some item \<and>
    fir_title item = pick (Some (f_title_en r)) (Some (f_title_ar r)) l \<and> fir_image_url item = f_image_url r \<and>
    fir_lot_number item = f_lot_number r \<and> fir_mileage item = f_mileage r \<and>
    fir_location item = or_none (pick (f_location_en r) (f_location_ar r) l) \<and> fir_bid_amount item = f_bid_amount r \<and>
    fir_countdown_label item = f_countdown_label r \<and> fir_detail_url item = detail_or_hash (f_detail_url r)"
    using final(2) k(2) by (simp add: featured_auction_item_to_schema_def Let_def)
  ultimately show ?thesis by (intro bexI [of _ "final_row (u k) r"]) simp_all
qed

section \<open>The dashboard\<close>

text \<open>C28. Revision 0032 is idempotent, whatever rows the navigation has: a second run changes nothing, whatever identifiers
  it would draw. After the first there is an active row for \<^verbatim>\<open>/admin\<close> with its icon, and both its children are
  below it, active, with the labels, icons and order of \<open>CHILD_ITEMS\<close>, whether they were there before or not. The collation has to
  tell the three links apart.\<close>

theorem overview_migration_idempotent:
  assumes "upgrade_0032 env u navs = Inr navs'" and "distinct (map an_id navs)" and "distinct (map (collate env) GROUP_URLS)"
  shows "upgrade_0032 env v navs' = Inr navs' \<and>
    (\<exists>a \<in> set navs'. sql_eq env (an_url a) ADMIN_URL \<and> an_is_active a \<and> an_icon_class a = Some ADMIN_ICON \<and>
       list_all (\<lambda>(label_en, label_ar, icon, url, n). \<exists>c \<in> set navs'. sql_eq env (an_url c) url \<and> an_parent_id c = Some (an_id a) \<and>
         an_is_active c \<and> an_label_en c = label_en \<and> an_label_ar c = label_ar \<and> an_icon_class c = Some icon \<and>
         an_sort_order c = n) CHILD_ITEMS)"
proof -
  obtain a where top: "settled env ADMIN_URL a overview navs'" and kids: "all_settled env a CHILD_ITEMS navs'"
    and d: "distinct (map an_id navs')"
    using upgrade_0032_settles [OF assms] by blast
  have "upgrade_0032 env v navs' = Inr navs'"
    by (simp add: upgrade_0032_overview update_or_insert_settled [OF top d] place_children_settled [OF kids d])
  moreover obtain r where r: "r \<in> set navs'" "sql_eq env (an_url r) ADMIN_URL" "an_id r = a" "overview r = r"
    using top by (auto simp: settled_def dest: first_row_filterD)
  moreover have "an_is_active r \<and> an_icon_class r = Some ADMIN_ICON" using r(4) by (cases r) (simp add: overview_def)
  moreover have "\<exists>c \<in> set navs'. sql_eq env (an_url c) (item_url item) \<and> place_child a item c = c" if "item \<in> set CHILD_ITEMS" for item
    using kids that by (fastforce simp: all_settled_def settled_def dest: first_row_filterD)
  then have "list_all (\<lambda>(label_en, label_ar, icon, url, n). \<exists>c \<in> set navs'. sql_eq env (an_url c) url \<and> an_parent_id c = Some (an_id r) \<and>
       an_is_active c \<and> an_label_en c = label_en \<and> an_label_ar c = label_ar \<and> an_icon_class c = Some icon \<and>
       an_sort_order c = n) CHILD_ITEMS"
    using r(3) by (auto simp: list_all_iff) (metis child_placed)
  ultimately show ?thesis by blast
qed

text \<open>C27. In a new installation every link of the sidebar to a section of the dashboard, \<^verbatim>\<open>/admin/instore\<close> apart, leads to cards: the
  section has all cards that its revision lists, in that order, and no others. The collation has to tell the section keys apart.\<close>

theorem navigation_leads_to_cards:
  assumes "install_dashboard env u db = Inr db'" and "distinct (map (collate env) (map fst SECTION_LABELS))"
    and "clean w" and "committed w = db'"
    and "row \<in> set (admin_nav_items db')" and "section_key_from_url (an_url row) = Some sec" and "sec \<noteq> ''instore''"
  shows "\<exists>cards. fst (get_admin_dashboard_cards env En sec w) = Inr cards \<and> cards \<noteq> [] \<and>
    (sec, map dcr_label cards) \<in> set SECTION_LABELS"
proof -
  have "an_url row \<in> set NAV_URLS" using assms(5) install_dashboard_urls [OF assms(1)] by (metis image_eqI list.set_map)
  then have "sec \<in> {''sellers'', ''operations'', ''management'', ''accountant'', ''reports'', ''dashboard''}"
    using assms(6,7) by (auto simp: NAV_URLS_def section_key_from_url_def or_none_def)
  then have "sec \<in> set (map fst SECTION_LABELS)" unfolding section_keys by auto
  then obtain labels where labels: "(sec, labels) \<in> set SECTION_LABELS" "labels \<noteq> []" by (rule section_labels)
  have "\<not> sql_eq env ''sellers'' ''dashboard''" using assms(2) by (simp add: section_keys sql_eq_def)
  note place = install_dashboard_cards [OF assms(1) this]
  let ?rows = "section_rows env sec (admin_dashboard_cards db')"
  have rows: "map dc_label_en ?rows = labels"
    using assms(2) by (intro section_rows_labels [OF place _ labels(1)]) simp
  have read: "map dcr_label (map (card_read En) ?rows) = map dc_label_en ?rows"
    by (simp add: card_read_def pick_def text_or_def)
  have "fst (get_admin_dashboard_cards env En sec w) = Inr (map (card_read En) ?rows)"
    using assms(3,4) by (simp add: get_admin_dashboard_cards_def section_rows_def query_def clean_def)
  moreover have "map (card_read En) ?rows \<noteq> []" using rows labels(2) by auto
  moreover have "(sec, map dcr_label (map (card_read En) ?rows)) \<in> set SECTION_LABELS" unfolding read rows by (rule labels(1))
  ultimately show ?thesis by blast
qed

section \<open>Instances\<close>

definition fresh_uuid :: "nat \<Rightarrow> nat \<Rightarrow> uuid" where
  "fresh_uuid revision n = word_of_nat (300 * revision + n)"

definition fresh_db :: database where
  "fresh_db = (case install_home sample_env lower 5 fresh_uuid empty_database of Inl e \<Rightarrow> empty_database | Inr db \<Rightarrow> db)"

lemma fresh_uuid_inj:
  assumes "fresh_uuid j m = fresh_uuid k n" and "j < 40" "k < 40" "m < 300" "n < 300"
  shows "300 * j + m = 300 * k + n"
proof -
  have "unat (fresh_uuid i l) = 300 * i + l" if "i < 40" "l < 300" for i l
    unfolding fresh_uuid_def unat_of_nat using that by simp
  with assms show ?thesis by metis
qed

lemma fresh_uuid_fresh: "k < 40 \<Longrightarrow> fresh (fresh_uuid k)"
  by (rule inj_onI) (auto dest: fresh_uuid_inj)

lemma fresh_uuid_apart:
  assumes "j < 40" "k < 40" "j \<noteq> k"
  shows "drawn (fresh_uuid j) \<inter> drawn (fresh_uuid k) = {}"
proof (rule equals0I)
  fix x assume "x \<in> drawn (fresh_uuid j) \<inter> drawn (fresh_uuid k)"
  then obtain m n where "m < 300" "n < 300" "fresh_uuid j m = fresh_uuid k n" by auto
  then have "300 * j + m = 300 * k + n" using assms by (intro fresh_uuid_inj)
  with \<open>m < 300\<close> \<open>n < 300\<close> \<open>j \<noteq> k\<close> show False by arith
qed

lemma fresh_install: "install_home sample_env lower 5 fresh_uuid empty_database = Inr fresh_db"
proof -
  have slugs: "distinct (map (collate sample_env) SLUGS)" by code_simp
  have "\<exists>db. install_home sample_env lower 5 fresh_uuid empty_database = Inr db"
    by (rule install_home_succeeds [OF _ _ _ _ _ _ slugs]; intro fresh_uuid_fresh fresh_uuid_apart; simp)
  then show ?thesis by (auto simp: fresh_db_def)
qed

theorem fresh_menu_served_witness:
  "\<exists>menu. fst (get_menu_endpoint sample_env En (initial_world fresh_db)) = Inr menu \<and> served_tree menu = FIRST_TREE"
  using fresh_menu_served [OF fresh_install clean_initial, of fresh_db En] by (simp add: initial_world_def)


definition sample_card_row :: featured_0005 where
  "sample_card_row = authenticated_row 5 7 ''Patrol'' [] ''Hot'' [] ''hot_items'' ''Hot'' [] 1"

theorem card_content_preserved_witness:
  "\<exists>item. featured_auction_item_to_schema
      (empty_database\<lparr>featured_auctions := [final_row 8 sample_card_row], vehicle_listings := [final_listing 5 8 sample_card_row]\<rparr>)
      En (final_row 8 sample_card_row) = Some item \<and> fir_title item = ''Patrol'' \<and> fir_lot_number item = Some ''102684''"
proof -
  let ?db = "empty_database\<lparr>featured_auctions := [final_row 8 sample_card_row], vehicle_listings := [final_listing 5 8 sample_card_row]\<rparr>"
  let ?l = "backfilled_listing 5 8 (add_listing_column sample_card_row)" and ?c = "linked 8 (add_listing_column sample_card_row)"
  have "upgrade_0006 5 (\<lambda>_. 8) [sample_card_row] = Inr ([?l], [?c])" by code_simp
  moreover have "featured_auctions ?db = map drop_card_columns [?c]" by (simp add: final_row_def)
  moreover have "vehicle_listings ?db = upgrade_0020 [?l]" by (simp add: final_listing_def upgrade_0020_def)
  ultimately show ?thesis
    using card_content_preserved [of 5 "\<lambda>_. 8" "[sample_card_row]" "[?l]" "[?c]" sample_card_row ?db En]
    by (auto simp: sample_card_row_def authenticated_row_def pick_def text_or_def)
qed

definition dashboard_db :: database where
  "dashboard_db = (case install_dashboard sample_env fresh_uuid empty_database of Inl e \<Rightarrow> empty_database | Inr db \<Rightarrow> db)"

lemma dashboard_install: "install_dashboard sample_env fresh_uuid empty_database = Inr dashboard_db"
proof -
  have env: "distinct (map (collate sample_env) NAV_LABELS)" "\<not> sql_eq sample_env ''sellers'' ''dashboard''" by code_simp+
  have "\<exists>db. install_dashboard sample_env fresh_uuid empty_database = Inr db"
    by (rule install_dashboard_succeeds [OF _ _ env]; intro fresh_uuid_fresh fresh_uuid_apart; simp)
  then show ?thesis by (auto simp: dashboard_db_def)
qed

theorem navigation_leads_to_cards_witness:
  "\<exists>cards. fst (get_admin_dashboard_cards sample_env En ''reports'' (initial_world dashboard_db)) = Inr cards \<and> cards \<noteq> [] \<and>
     (''reports'', map dcr_label cards) \<in> set SECTION_LABELS"
proof -
  have "''/admin/reports'' \<in> set (map an_url (admin_nav_items dashboard_db))"
    unfolding install_dashboard_urls [OF dashboard_install] by (simp add: NAV_URLS_def)
  then obtain row where "row \<in> set (admin_nav_items dashboard_db)" "an_url row = ''/admin/reports''" by auto
  moreover have "section_key_from_url ''/admin/reports'' = Some ''reports''" by code_simp
  moreover have "distinct (map (collate sample_env) (map fst SECTION_LABELS))" unfolding section_keys by code_simp
  ultimately show ?thesis
    using navigation_leads_to_cards [OF dashboard_install _ clean_initial, of dashboard_db row "''reports''"]
    by (simp add: initial_world_def)
qed

definition lone_item :: admin_nav_item where
  "lone_item = \<lparr>an_id = 3, an_parent_id = None, an_label_en = ''Store'', an_label_ar = [], an_icon_class = None,
     an_url = ''/admin/instore'', an_sort_order = 5, an_is_active = False\<rparr>"

theorem overview_migration_idempotent_witness:
  "\<exists>navs. upgrade_0032 sample_env (\<lambda>k. word_of_nat (10 + k)) [lone_item] = Inr navs \<and> length navs = 3 \<and>
     upgrade_0032 sample_env (\<lambda>k. word_of_nat (20 + k)) navs = Inr navs"
proof -
  let ?run = "upgrade_0032 sample_env (\<lambda>k. word_of_nat (10 + k)) [lone_item]"
  have "map_result length ?run = Inr 3" by code_simp
  then obtain navs where navs: "?run = Inr navs" "length navs = 3" by auto
  have "distinct (map an_id [lone_item])" "distinct (map (collate sample_env) GROUP_URLS)" by code_simp+
  from overview_migration_idempotent [OF navs(1) this] navs show ?thesis by auto
qed

end
