(* ===== verification/Lookup_Migration.thy ===== *)
theory Lookup_Migration
  imports Content_Rows Role_Migration Vehicle_Intake
begin

text \<open>
  The rows behind the form with which cars are entered: the dropdowns of
  \<^verbatim>\<open>alembic/versions/0019_vehicle_lookup_tables.py\<close>, the clients of \<^verbatim>\<open>0021_seed_uat_seller_users.py\<close> and their sub-sellers
  of \<^verbatim>\<open>0023_seed_sub_sellers.py\<close>; and the payment records of \<^verbatim>\<open>0018_vehicle_payment_records.py\<close>. \<open>u\<close> gives the
  identifiers that a revision draws, \<open>t\<close> is its time.
\<close>

section \<open>0018: payment records\<close>

text \<open>A date is its proleptic ordinal.\<close>

definition RECORDS :: "(string \<times> string \<times> string \<times> int \<times> string \<times> string \<times> string \<times> string \<times> string \<times> int option \<times> string \<times> decimal) list" where
  "RECORDS =
     [(''100288'', ''021225191836429'', ''Buick Other 2019'', 2019, ''S V Krishna Reddy'', ''krishnareddy0296@example.com'', ''Rajesh Meesarapu'', ''dhanasri0911@example.com'', ''pending_buyer_payment'', Some 739791, ''Dubai'', Finite False 390000 (-2)),
      (''100312'', ''CV888788888'', ''Bufori Other 2017'', 2017, ''S V Krishna Reddy'', ''krishnareddy0296@example.com'', ''Ahmed Abd elnaeim Elmenayar'', ''sellertestaccount@example.com'', ''pending_buyer_payment'', Some 739787, ''Abu Dhabi - Industrial City'', Finite False 810000 (-2)),
      (''100313'', ''DSFDFGGGGDTTT'', ''Bentley Continental GT 2018'', 2018, ''S V Krishna Reddy'', ''krishnareddy0296@example.com'', ''Ahmed Abd elnaeim Elmenayar'', ''sellertestaccount@example.com'', ''pending_buyer_payment'', Some 739787, ''Abu Dhabi - Industrial City'', Finite False 390000 (-2)),
      (''100314'', ''CHSN30102025001'', ''Toyota Fortuner 2021'', 2021, ''S V Krishna Reddy'', ''krishnareddy0296@example.com'', ''Rajesh Meesarapu'', ''dhanasri0911@example.com'', ''pending_buyer_payment'', Some 739802, ''Abu Dhabi'', Finite False 5000000 (-2)),
      (''100325'', ''CHSN24022025004'', ''Mitsubishi XPander 2020'', 2020, ''S V Krishna Reddy'', ''krishnareddy0296@example.com'', ''Ahmed Abd elnaeim Elmenayar'', ''sellertestaccount@example.com'', ''paid_awaiting_documents'', None, ''Abu Dhabi - Mussaffah Industrial Area'', Finite False 970000 (-2)),
      (''100357'', ''130326144124749'', ''Toyota Corona 2025'', 2025, ''S V Krishna Reddy'', ''krishnareddy0296@example.com'', ''Rajesh Meesarapu'', ''dhanasri0911@example.com'', ''pending_buyer_payment'', Some 739791, ''Abu Dhabi'', Finite False 220000 (-2)),
      (''101131'', ''130326150434031'', ''Toyota Fortuner 2020'', 2020, ''Krishna Reddy11'', ''sheelamvenkatakrishna@example.com'', ''Krishna Reddy S V33'', ''udayasheelam81088@example.com'', ''paid_documents_ready_pending_deliver'', None, ''Abu Dhabi'', Finite False 3450000 (-2)),
      (''101427'', ''070426113119568'', ''Toyota Corona 2021'', 2021, ''Shishir Patel Buyer'', ''shishirpatelbuyer@example.com'', ''Rajesh Meesarapu'', ''dhanasri0911@example.com'', ''pending_buyer_payment'', Some 739801, ''Abu Dhabi'', Finite False 150000 (-2)),
      (''101429'', ''070426113124640'', ''Toyota Land Cruiser 2025'', 2025, ''S V Krishna Reddy'', ''krishnareddy0296@example.com'', ''Rajesh Meesarapu'', ''dhanasri0911@example.com'', ''paid_documents_ready_pending_deliver'', None, ''Abu Dhabi'', Finite False 9500000 (-2)),
      (''101447'', ''070426113205416'', ''Nissan Altima 2025'', 2025, ''S V Krishna Reddy'', ''krishnareddy0296@example.com'', ''Rajesh Meesarapu'', ''dhanasri0911@example.com'', ''pending_buyer_payment'', Some 739799, ''Abu Dhabi'', Finite False 1000000 (-2)),
      (''101448'', ''070426113207341'', ''Nissan Sunny 2024'', 2024, ''S V Krishna Reddy'', ''krishnareddy0296@example.com'', ''Rajesh Meesarapu'', ''dhanasri0911@example.com'', ''pending_buyer_payment'', Some 739802, ''Abu Dhabi'', Finite False 1245000 (-2)),
      (''101454'', ''070426113240873'', ''Nissan Altima 2023'', 2023, ''buyertestuser'', ''testuseruat@example.com'', ''Krishna Reddy S V'', ''udayasheelam8108@example.com'', ''paid_awaiting_documents'', None, ''Abu Dhabi'', Finite False 100000 (-2)),
      (''103147'', ''CHSN10052025003'', ''Toyota Camry 2021'', 2021, ''testdoc'', ''testdoc@example.com'', ''Krishna Reddy S V'', ''udayasheelam8108@example.com'', ''paid_awaiting_documents'', None, ''Abu Dhabi - Al Faya ET Station'', Finite False 230000 (-2)),
      (''103148'', ''CHSN11052026001'', ''Toyota Land Cruiser 2025'', 2025, ''S V Krishna Reddy'', ''krishnareddy0296@example.com'', ''Krishna Reddy S V'', ''udayasheelam8108@example.com'', ''paid_documents_ready_pending_deliver'', None, ''Sharjah'', Finite False 120000 (-2)),
      (''103153'', ''123456789001'', ''Acura CSXEL 2025'', 2025, ''S V Krishna Reddy'', ''krishnareddy0296@example.com'', ''Krishna Reddy S V'', ''udayasheelam8108@example.com'', ''pending_buyer_payment'', Some 739774, ''Abu Dhabi'', Finite False 20000 (-2)),
      (''103161'', ''CHSN22052025001'', ''Toyota Land Cruiser 2021'', 2021, ''S V Krishna Reddy'', ''krishnareddy0296@example.com'', ''Krishna Reddy S V'', ''udayasheelam8108@example.com'', ''paid_documents_ready_pending_deliver'', None, ''Abu Dhabi'', Finite False 310000 (-2)),
      (''103183'', ''CHSN18062025001'', ''Toyota Land Cruiser 2021'', 2021, ''S V Krishna Reddy'', ''krishnareddy0296@example.com'', ''Krishna Reddy S V'', ''udayasheelam8108@example.com'', ''paid_awaiting_documents'', None, ''Abu Dhabi'', Finite False 1030000 (-2)),
      (''103186'', ''CHSN22062025001'', ''Toyota Land Cruiser 5.7 2020'', 2020, ''testdoc'', ''testdoc@example.com'', ''Krishna Reddy S V'', ''udayasheelam8108@example.com'', ''pending_buyer_payment'', Some 739801, ''Abu Dhabi - Al Ajban'', Finite False 140000 (-2)),
      (''103187'', ''CHSN22062026002'', ''Toyota Fortuner 2025'', 2025, ''S V Krishna Reddy'', ''krishnareddy0296@example.com'', ''Anuritha Seller'', ''anuritha.j@example.com'', ''pending_buyer_payment'', Some 739795, ''Abu Dhabi - Al Ajban'', Finite False 440000 (-2)),
      (''100999'', ''CHSN01012026099'', ''Nissan Patrol 2024'', 2024, ''Mohammed Al Zaabi'', ''mohammed.z@example.com'', ''Fatima Al Nuaimi'', ''fatima.n@example.com'', ''pending_seller_payment'', Some 739797, ''Dubai'', Finite False 4200000 (-2))]"

definition payment_row ::
    "time \<Rightarrow> uuid \<Rightarrow> string \<times> string \<times> string \<times> int \<times> string \<times> string \<times> string \<times> string \<times> string \<times> int option \<times> string \<times> decimal \<Rightarrow> vehicle_payment_record" where
  "payment_row t i = (\<lambda>(lot_no, chassis_number, title, year_of_make, buyer_name, buyer_email, seller_name, seller_email,
       payment_status, payment_due_date, location, max_bid).
     \<lparr>vp_id = i, vp_lot_no = lot_no, vp_chassis_number = chassis_number, vp_title = title, vp_year_of_make = year_of_make,
      vp_buyer_name = buyer_name, vp_buyer_email = buyer_email, vp_seller_name = seller_name, vp_seller_email = seller_email,
      vp_payment_status = payment_status, vp_payment_due_date = payment_due_date, vp_location = location, vp_max_bid = max_bid,
      vp_created_at = t\<rparr>)"

definition upgrade_0018 :: "time \<Rightarrow> (nat \<Rightarrow> uuid) \<Rightarrow> exn + vehicle_payment_record list" where
  "upgrade_0018 t u = insert_rows vp_id [] (numbered u (\<lambda>i _. payment_row t i) RECORDS)"

section \<open>0019: dropdowns\<close>

definition BRANCHES :: "(string \<times> string) list" where
  "BRANCHES =
     [(''Abu Dhabi'', utf8 [0x623, 0x628, 0x648, 0x20, 0x638, 0x628, 0x64A]),
      (''Sharjah'', utf8 [0x627, 0x644, 0x634, 0x627, 0x631, 0x642, 0x629])]"

definition COLORS :: "(string \<times> string) list" where
  "COLORS =
     [(''-'', ''-''),
      (''Beige'', utf8 [0x628, 0x64A, 0x62C]),
      (''Black'', utf8 [0x623, 0x633, 0x648, 0x62F]),
      (''Blue'', utf8 [0x623, 0x632, 0x631, 0x642]),
      (''Brown'', utf8 [0x628, 0x646, 0x64A]),
      (''Burgundy'', utf8 [0x639, 0x646, 0x627, 0x628, 0x64A]),
      (''Dark blue'', utf8 [0x623, 0x632, 0x631, 0x642, 0x20, 0x62F, 0x627, 0x643, 0x646]),
      (''Golden'', utf8 [0x630, 0x647, 0x628, 0x64A]),
      (''Gray Color'', ''Gray Color''),
      (''Green'', utf8 [0x623, 0x62E, 0x636, 0x631]),
      (''Grey'', utf8 [0x631, 0x645, 0x627, 0x62F, 0x64A]),
      (''LEADEN'', ''LEADEN''),
      (''Maroon'', utf8 [0x62E, 0x645, 0x631, 0x64A]),
      (''ORANGE'', utf8 [0x628, 0x631, 0x62A, 0x642, 0x627, 0x644, 0x64A]),
      (''Other Color'', utf8 [0x644, 0x648, 0x646, 0x20, 0x622, 0x62E, 0x631]),
      (''pearly white'', utf8 [0x623, 0x628, 0x64A, 0x636, 0x20, 0x644, 0x624, 0x644, 0x624, 0x64A]),
      (''Pink'', utf8 [0x648, 0x631, 0x62F, 0x64A]),
      (''Purple'', utf8 [0x628, 0x646, 0x641, 0x633, 0x62C, 0x64A]),
      (''Red'', utf8 [0x623, 0x62D, 0x645, 0x631]),
      (''Silver'', utf8 [0x641, 0x636, 0x64A]),
      (''Tan'', ''Tan''),
      (''Teal'', ''Teal''),
      (''White'', utf8 [0x623, 0x628, 0x64A, 0x636]),
      (''White Pink'', ''White Pink''),
      (''Yellow'', utf8 [0x623, 0x635, 0x641, 0x631])]"

definition KEY_OPTIONS :: "(string \<times> string) list" where
  "KEY_OPTIONS =
     [(''1 Key'', utf8 [0x645, 0x641, 0x62A, 0x627, 0x62D, 0x20, 0x648, 0x627, 0x62D, 0x62F]),
      (''2 Keys'', utf8 [0x645, 0x641, 0x62A, 0x627, 0x62D, 0x627, 0x646]),
      (''3 Keys'', utf8 [0x33, 0x20, 0x645, 0x641, 0x627, 0x62A, 0x64A, 0x62D])]"

definition FUEL_TYPES :: "(string \<times> string) list" where
  "FUEL_TYPES =
     [(''Petrol'', utf8 [0x628, 0x646, 0x632, 0x64A, 0x646]),
      (''Diesel'', utf8 [0x62F, 0x64A, 0x632, 0x644]),
      (''Hybrid'', utf8 [0x647, 0x62C, 0x64A, 0x646]),
      (''Electric'', utf8 [0x643, 0x647, 0x631, 0x628, 0x627, 0x626, 0x64A]),
      (''CNG'', utf8 [0x63A, 0x627, 0x632, 0x20, 0x637, 0x628, 0x64A, 0x639, 0x64A, 0x20, 0x645, 0x636, 0x63A, 0x648, 0x637])]"

definition BIDDING_MODELS :: "(string \<times> string) list" where
  "BIDDING_MODELS =
     [(''Regular auction'', ''Regular auction''),
      (''Offline auction'', ''Offline auction''),
      (''Hybrid auction'', ''Hybrid auction''),
      (''Silent auction'', utf8 [0x627, 0x644, 0x645, 0x632, 0x627, 0x62F, 0x20, 0x627, 0x644, 0x635, 0x627, 0x645, 0x62A]),
      (''Direct auction'', utf8 [0x627, 0x644, 0x639, 0x645, 0x644, 0x20, 0x627, 0x644, 0x645, 0x628, 0x627, 0x634, 0x631])]"

definition YEARS :: "int list" where
  "YEARS =
     [2025, 2024, 2023, 2022, 2021, 2020, 2019, 2018, 2017, 2016, 2015, 2014, 2013, 2012, 2011, 2010,
      2009, 2008, 2007, 2006, 2005, 2004, 2003, 2002, 2001, 2000, 1999, 1998, 1997, 1996, 1995, 1994,
      1993, 1992, 1991, 1990, 1989, 1988, 1987, 1986, 1985, 1984, 1983, 1982, 1981, 1980, 1979, 1978,
      1977, 1976, 1975, 1974, 1973, 1972, 1971, 1970, 1969, 1968, 1967, 1966, 1965, 1964, 1963, 1962,
      1961, 1960, 1958, 1954, 1950, 1948, 1927]"

definition MAKES :: "string list" where
  "MAKES =
     [''Acura'', ''Alfa Romeo'', ''Aston Martin'', ''Audi'', ''Bentley'', ''Bizzarrini'', ''BMW'', ''Bufori'',
      ''Bugatti'', ''Buick'', ''Cadillac'', ''Chevrolet'', ''Chrysler'', ''Citroen'', ''Scrap'', ''Daewoo'',
      ''Daihatsu'', ''DeLorean'', ''Dodge'', ''Ferrari'', ''Fiat'', ''Ford'', ''GMC'', ''Honda'',
      ''Hummer'', ''Hyundai'', ''Infiniti'', ''Isuzu'', ''Jaguar'', ''Jeep'', ''Kia'', ''Lada'',
      ''Lamborghini'', ''Lancia'', ''Land Rover'', ''Lexus'', ''Lincoln'', ''Lotus'', ''Maserati'', ''Maybach'',
      ''Mazda'', ''McLaren'', ''Mercedes-Benz'', ''Mercury'', ''MINI'', ''Mitsubishi'', ''Nissan'', ''Opel'',
      ''Oullim'', ''Peugeot'', ''Pontiac'', ''Porsche'', ''Proton'', ''Renault'', ''Rolls Royce'', ''Range Rover'',
      ''Saab'', ''25 Seats'', ''Skoda'', ''Smart'', ''Speranza'', ''Ssang Yong'', ''Subaru'', ''Suzuki'',
      ''TATA'', ''Toyota'', ''Volkswagen'', ''Volvo'', ''Wiesmann'', ''Other Make'']"

definition MODELS_BY_MAKE :: "(string \<times> (string \<times> string) list) list" where
  "MODELS_BY_MAKE =
     [(''Toyota'', [(''Camry'', utf8 [0x643, 0x627, 0x645, 0x631, 0x64A]), (''Corolla'', utf8 [0x643, 0x648, 0x631, 0x648, 0x644, 0x627]), (''Land Cruiser'', utf8 [0x644, 0x627, 0x646, 0x62F, 0x20, 0x643, 0x631, 0x648, 0x632, 0x631]), (''Fortuner'', utf8 [0x641, 0x648, 0x631, 0x62A, 0x634, 0x646, 0x631]), (''Hilux'', utf8 [0x647, 0x627, 0x64A, 0x644, 0x643, 0x633]), (''Yaris'', utf8 [0x64A, 0x627, 0x631, 0x64A, 0x633])]),
      (''Nissan'', [(''Altima'', utf8 [0x627, 0x644, 0x62A, 0x64A, 0x645, 0x627]), (''Patrol'', utf8 [0x628, 0x627, 0x62A, 0x631, 0x648, 0x644]), (''Sunny'', utf8 [0x635, 0x646, 0x64A]), (''X-Trail'', utf8 [0x627, 0x643, 0x633, 0x20, 0x62A, 0x631, 0x64A, 0x644]), (''Maxima'', utf8 [0x645, 0x627, 0x643, 0x633, 0x64A, 0x645, 0x627])]),
      (''Honda'', [(''Accord'', utf8 [0x623, 0x643, 0x648, 0x631, 0x62F]), (''Civic'', utf8 [0x633, 0x64A, 0x641, 0x64A, 0x643]), (''CR-V'', utf8 [0x633, 0x64A, 0x20, 0x622, 0x631, 0x2D, 0x641, 0x64A])]),
      (''Mercedes-Benz'', [(''C-Class'', utf8 [0x627, 0x644, 0x641, 0x626, 0x629, 0x20, 0x43]), (''E-Class'', utf8 [0x627, 0x644, 0x641, 0x626, 0x629, 0x20, 0x45]), (''S-Class'', utf8 [0x627, 0x644, 0x641, 0x626, 0x629, 0x20, 0x53]), (''GLE'', utf8 [0x62C, 0x64A, 0x20, 0x625, 0x644, 0x20, 0x625, 0x64A])]),
      (''BMW'', [(''3 Series'', utf8 [0x627, 0x644, 0x641, 0x626, 0x629, 0x20, 0x33]), (''5 Series'', utf8 [0x627, 0x644, 0x641, 0x626, 0x629, 0x20, 0x35]), (''X5'', utf8 [0x625, 0x643, 0x633, 0x20, 0x35])]),
      (''Ford'', [(''Explorer'', utf8 [0x625, 0x643, 0x633, 0x628, 0x644, 0x648, 0x631, 0x631]), (''F-150'', utf8 [0x625, 0x641, 0x2D, 0x31, 0x35, 0x30]), (''Mustang'', utf8 [0x645, 0x648, 0x633, 0x62A, 0x646, 0x62C])]),
      (''Chevrolet'', [(''Tahoe'', utf8 [0x62A, 0x627, 0x647, 0x648]), (''Malibu'', utf8 [0x645, 0x627, 0x644, 0x64A, 0x628, 0x648]), (''Camaro'', utf8 [0x643, 0x627, 0x645, 0x627, 0x631, 0x648])]),
      (''Hyundai'', [(''Elantra'', utf8 [0x625, 0x644, 0x646, 0x62A, 0x631, 0x627]), (''Sonata'', utf8 [0x633, 0x648, 0x646, 0x627, 0x62A, 0x627]), (''Tucson'', utf8 [0x62A, 0x648, 0x633, 0x627, 0x646])]),
      (''Kia'', [(''Sportage'', utf8 [0x633, 0x628, 0x648, 0x631, 0x62A, 0x627, 0x62C]), (''Sorento'', utf8 [0x633, 0x648, 0x631, 0x64A, 0x646, 0x62A, 0x648]), (''Optima'', utf8 [0x623, 0x648, 0x628, 0x62A, 0x64A, 0x645, 0x627])]),
      (''Lexus'', [(''ES'', utf8 [0x625, 0x64A, 0x20, 0x625, 0x633]), (''RX'', utf8 [0x622, 0x631, 0x20, 0x625, 0x643, 0x633]), (''LX'', utf8 [0x625, 0x644, 0x20, 0x625, 0x643, 0x633])]),
      (''Mitsubishi'', [(''Pajero'', utf8 [0x628, 0x627, 0x62C, 0x64A, 0x631, 0x648]), (''Lancer'', utf8 [0x644, 0x627, 0x646, 0x633, 0x631]), (''Attrage'', utf8 [0x623, 0x62A, 0x631, 0x627, 0x62C])]),
      (''Land Rover'', [(''Range Rover'', utf8 [0x631, 0x64A, 0x646, 0x62C, 0x20, 0x631, 0x648, 0x641, 0x631]), (''Discovery'', utf8 [0x62F, 0x64A, 0x633, 0x643, 0x641, 0x631, 0x64A]), (''Defender'', utf8 [0x62F, 0x64A, 0x641, 0x646, 0x62F, 0x631])]),
      (''Audi'', [(''A4'', utf8 [0x625, 0x64A, 0x647, 0x20, 0x34]), (''A6'', utf8 [0x625, 0x64A, 0x647, 0x20, 0x36]), (''Q7'', utf8 [0x643, 0x64A, 0x648, 0x20, 0x37])]),
      (''Volkswagen'', [(''Passat'', utf8 [0x628, 0x627, 0x633, 0x627, 0x62A]), (''Tiguan'', utf8 [0x62A, 0x64A, 0x63A, 0x648, 0x627, 0x646]), (''Golf'', utf8 [0x62C, 0x648, 0x644, 0x641])]),
      (''Mazda'', [(''CX-5'', utf8 [0x633, 0x64A, 0x20, 0x625, 0x643, 0x633, 0x2D, 0x35]), (''Mazda 6'', utf8 [0x645, 0x627, 0x632, 0x62F, 0x627, 0x20, 0x36]), (''Mazda 3'', utf8 [0x645, 0x627, 0x632, 0x62F, 0x627, 0x20, 0x33])])]"

definition label_row :: "time \<Rightarrow> uuid \<Rightarrow> int \<Rightarrow> string \<times> string \<Rightarrow> lookup_row" where
  "label_row t i n = (\<lambda>(name_en, name_ar). \<lparr>lk_id = i, lk_name_en = name_en, lk_name_ar = name_ar, lk_sort_order = n,
     lk_is_active = True, lk_created_at = t\<rparr>)"

definition seed_labels :: "time \<Rightarrow> (nat \<Rightarrow> uuid) \<Rightarrow> (string \<times> string) list \<Rightarrow> exn + lookup_row list" where
  "seed_labels t u rows = insert_rows lk_id [] (numbered u (label_row t) rows)"

definition year_row :: "time \<Rightarrow> uuid \<Rightarrow> int \<Rightarrow> int \<Rightarrow> vehicle_year" where
  "year_row t i n year = \<lparr>vy_id = i, vy_year = year, vy_sort_order = n, vy_is_active = True, vy_created_at = t\<rparr>"

text \<open>The key and the unique column \<open>year\<close>.\<close>

definition seed_years :: "time \<Rightarrow> (nat \<Rightarrow> uuid) \<Rightarrow> exn + vehicle_year list" where
  "seed_years t u =
     bind_result (insert_rows vy_id [] (numbered u (year_row t) YEARS)) (\<lambda>rows.
     if distinct (map vy_year rows) then Inr rows else Inl IntegrityError)"

definition model_row :: "time \<Rightarrow> uuid \<Rightarrow> uuid \<Rightarrow> int \<Rightarrow> string \<times> string \<Rightarrow> vehicle_model" where
  "model_row t make_id i n label = lookup_row.extend (label_row t i n label) (vehicle_model.fields make_id)"

definition models_of :: "string \<Rightarrow> (string \<times> string) list" where
  "models_of make_en = (case map_of MODELS_BY_MAKE make_en of None \<Rightarrow> [] | Some labels \<Rightarrow> labels)"

text \<open>The loop over the makes: each is inserted at once, its models are collected.\<close>

fun seed_makes ::
    "time \<Rightarrow> (nat \<Rightarrow> uuid) \<Rightarrow> int \<Rightarrow> string list \<Rightarrow> vehicle_make list \<times> vehicle_model list \<Rightarrow> exn + vehicle_make list \<times> vehicle_model list" where
  "seed_makes t u n [] s = Inr s"
| "seed_makes t u n (make_en # rest) (makes, model_rows) =
     bind_result (insert_rows lk_id makes [label_row t (u 0) n (make_en, make_en)]) (\<lambda>makes'.
     seed_makes t (shift u (Suc (length (models_of make_en)))) (n + 1) rest
       (makes', model_rows @ numbered (shift u 1) (model_row t (u 0)) (models_of make_en)))"

definition insert_models :: "vehicle_make list \<Rightarrow> vehicle_model list \<Rightarrow> exn + vehicle_model list" where
  "insert_models makes new =
     bind_result (insert_rows lk_id [] new) (\<lambda>rows.
     if list_all (\<lambda>m. vm_make_id m \<in> lk_id ` set makes) rows then Inr rows else Inl IntegrityError)"

definition upgrade_0019 :: "time \<Rightarrow> (nat \<Rightarrow> uuid) \<Rightarrow> database \<Rightarrow> exn + database" where
  "upgrade_0019 t u db =
     (let u1 = shift u (length BRANCHES); u2 = shift u1 (length COLORS); u3 = shift u2 (length KEY_OPTIONS);
          u4 = shift u3 (length FUEL_TYPES); u5 = shift u4 (length BIDDING_MODELS); u6 = shift u5 (length YEARS) in
      bind_result (seed_labels t u BRANCHES) (\<lambda>branches.
      bind_result (seed_labels t u1 COLORS) (\<lambda>colors.
      bind_result (seed_labels t u2 KEY_OPTIONS) (\<lambda>keys.
      bind_result (seed_labels t u3 FUEL_TYPES) (\<lambda>fuels.
      bind_result (seed_labels t u4 BIDDING_MODELS) (\<lambda>biddings.
      bind_result (seed_years t u5) (\<lambda>years.
      bind_result (seed_makes t u6 1 MAKES ([], [])) (\<lambda>(makes, model_rows).
      bind_result (insert_models makes model_rows) (\<lambda>models.
      Inr (db\<lparr>vehicle_branches := branches, vehicle_colors := colors, vehicle_key_options := keys, fuel_types := fuels,
        bidding_models := biddings, vehicle_years := years, vehicle_makes := makes, vehicle_models := models\<rparr>))))))))))"

section \<open>0021: clients\<close>

text \<open>An account of this time still has its role as a text (\<open>legacy_user\<close>); the column \<open>u_primary_role_id\<close> comes later.\<close>

definition PLACEHOLDER_PASSWORD_HASH :: string where
  "PLACEHOLDER_PASSWORD_HASH = ''external-uat-import-no-login''"

definition SELLER_USERS :: "(uuid \<times> string \<times> string \<times> string) list" where
  "SELLER_USERS =
     [(0x5a8163ab9ce44041ae54876d110ec035, ''testuat'', ''testuat1@gmail.com'', ''+9716362626262''),
      (0x621e04d1834b4d68a5efd47d81bbad6f, ''Israa Seller'', ''kondalasivakumar19@gmail.com'', ''+971801902703''),
      (0x10d9c04e5b814fd18415ff32f9fd5e25, ''buyertestuser'', ''testuseruat@gmail.com'', ''+971767766767''),
      (0xee36d0ff120b4c72b2274413b0a710fe, ''Seller One'', ''sellerone@gmail.com'', ''+971808808808''),
      (0xf7814baf7d5d4f88a02006c34164ba15, ''selleri'', ''selleri@gmail.com'', ''+971708708709''),
      (0xba0f914ae84e4c23bea2f80eeab1e876, ''Buyer Test User'', ''buyertestuser@gmail.com'', ''+971808089090''),
      (0x496bcba0516c41d5b89e4dd65d72afce, ''selltest'', ''selltest@gmail.com'', ''+971783737334''),
      (0xd43d43a21da64445b02503225f54b4ef, ''Seller Test User'', ''sellertestuser@gmail.com'', ''+971909909090''),
      (0x77362c91303b493dad56fe9585a57287, ''Test Seller'', ''testseller@gmail.com'', ''+971990099000''),
      (0xe426ba72129940bea63f0e35db1ce85f, ''tcont'', ''tcont@gmail.com'', ''+9717473838383''),
      (0xc19e4c20bf0647e0a2089716abef66dc, ''Sriteja Seller'', ''sritejaseller@gmail.com'', ''+971908123096''),
      (0x6921bd9dd8774e62b6d61da03ad50576, ''fone'', ''fone@gmail.com'', ''+971726262726''),
      (0x148de3272a1d451eb6a0f76c24fda26c, ''Anuritha Seller One'', ''anuritha@agilitics.edu.sg'', ''+971701348846''),
      (0x80ef87cd643d4c648e7f3d62803aa37c, ''Shishir Patel Seller'', ''rahanpatel364@gmail.com'', ''+971908876098''),
      (0xbb5a636b4b82451493b5d7cfdd6e1f1c, ''Shishir Patel Buyer'', ''shishirpatelbuyer@gmail.com'', ''+971809107308''),
      (0xaa4c90c20c604628a6980b7ad8d3874e, ''Krishna Seller'', ''saikohliyadav@gmail.com'', ''+971876098709''),
      (0xcb7ba03465ba4c3db2685832c719fef4, ''Dinesh Seller One'', ''dineshsellerone@gmail.com'', ''+971809807806''),
      (0x3fef3e2409d74abbb944c02bc19f0b18, ''Shishir Seller'', ''shishirpatel123@gmail.com'', ''+971902109876''),
      (0x90a3836e759f4a1a9de195b856dca05b, ''signtest'', ''signtest@gmail.com'', ''+9717373737337''),
      (0x942e50672c6d44a9b2e0410893ca7694, ''txselll'', ''txselll@gmail.com'', ''+971737362626''),
      (0x80037bad74d24ccd85cbd552236b40f4, ''txsell'', ''txsell@gmail.com'', ''+971567567576''),
      (0x5e75fe4907b64741b94eb8b5c7be45f3, ''sellse'', ''sesell@gmail.com'', ''+971675675667''),
      (0xcda2b6f448334c1590b9ccc68544a33c, ''Dinesh Seller'', ''saisravan@agilitics.edu.sg'', ''+971762098108''),
      (0x1ccfaa582c954fba99928d1eb916b08e, ''alwataneyaseller'', ''alwataneyaseller@gmail.com'', ''+971709832165''),
      (0x02c84c1786a440b2acfff93bffc16ac2, ''alwatneyabuyer'', ''alwatneyabuyer@gmail.com'', ''+971987612098''),
      (0x667f76104cfc4554a8df9353ba8126b1, ''uatcool'', ''uatcool@gmail.com'', ''+971637366262''),
      (0xbe99cb068bc44e80aa978b3576a53c05, ''AWA Buyer Ten'', ''awabuyerten@gmail.com'', ''+971832098321''),
      (0xea27ab1f173345a68def114ea670d7ce, ''testog'', ''testog@gmail.com'', ''+971737733737''),
      (0x0ebb016b2c564aad9a8aab459c0e3c7c, ''tbuyer'', ''tbuyer@gmail.com'', ''+971727262628''),
      (0x0a1adc1443ca4da6a79be03e4dc7e569, ''AWA Buyer Seven'', ''awabuyerseven@gmail.com'', ''+971876209187''),
      (0x9e309d191acf4e7ba824706b0f902e46, ''Anuritha Seller'', ''anuritha.j@gmail.com'', ''+971876345098''),
      (0xf3791bbe955f433ba37e8313e8881d80, ''testcoone'', ''testcoone@gmail.com'', ''+971727262627''),
      (0x64841bc97016486a8fe01cbf1dea2cad, ''testcont'', ''testcont@gmail.com'', ''+971827272729''),
      (0x071ba597167a4e69a65355b9e96c66ae, ''anubuyer'', ''anubuyer@gmail.com'', ''+971656767889''),
      (0x49f8ef952a574098bb80d241c4e4d8d7, ''AWA Seller One'', ''awasellerone@gmail.com'', ''+971783903186''),
      (0xbada7a1fc2a84ed49aaeed89fd1d593c, ''Krishna Inspection Executive'', ''krishnaexecutive@gmail.com'', ''+97156363773''),
      (0xbaa4f6d7fbd74f8c8f2356b2ac9035b4, ''Sravan Washing Assistant'', ''sravanwashing@gmail.com'', ''+97173827272''),
      (0x875e7df106f84bc6a7e398de10ede18e, ''Dinesh Yard Assistant'', ''dineshyard@gmail.com'', ''+97173622772''),
      (0x38744230af854420aae6bcb6b8f81231, ''teja yard'', ''tejayard@gmail.com'', ''+97173837373''),
      (0x015de271b7d44977ba2738faef9d7e0e, ''Krishna Reddy S V'', ''udayasheelam8108@gmail.com'', ''+971632986532''),
      (0xabd08c17144b47d0b6f1c933d75d7e9f, ''AWA Admin'', ''awa.admin@gmail.com'', ''+971638190288''),
      (0xec291db271a04368a18a875f72c66220, ''AWA Admin1'', ''awa.admin@gmail1.com'', ''+97191111111''),
      (0xb518e8f8d97243b58df534c2697bde6f, ''sravanbuy'', ''sravanbuy@gmail.com'', ''+971567976568''),
      (0x9f62f75fc3fb4788b7cb8dc96c1b692e, ''kishorebuyer'', ''kishorebuyer@gmail.com'', ''+971678534678''),
      (0xba45e9a0efb94e628f735f4e37f91a86, ''kishore'', ''kishore@gmail.com'', ''+971456789754''),
      (0x9c0ba8bf6da14ff1896d1fe16853d16a, ''Shishir Sai'', ''shishirsai@gmail.com'', ''+971394573998''),
      (0x870c326c9434487a9d983782a6cb5c1d, ''sdfsdf'', ''dsgsfs@gmail.com'', ''+971123456789''),
      (0x3bab5430d9384808b544990d98e77db0, ''saisravanam'', ''sravan@gmail.com'', ''+971987987654''),
      (0xdb843fb7b7c44f8ba01ee244c49b46ab, ''Sai K'', ''sai.k@gmail.com'', ''+971884747474''),
      (0x744cce043d9f4fa78044fcd428ec4565, ''Sheshu'', ''sheshu@gmail.com'', ''+971979879788'')]"

definition imported_user :: "time \<Rightarrow> uuid \<times> string \<times> string \<times> string \<Rightarrow> legacy_user" where
  "imported_user t = (\<lambda>(user_id, name, email, phone).
     \<lparr>u_id = user_id, u_email = lower email, u_password_hash = PLACEHOLDER_PASSWORD_HASH,
      u_first_name = fst (split_name name), u_last_name = snd (split_name name), u_phone = Some phone, u_primary_role_id = 0,
      u_is_active = True, u_is_email_verified = False, u_failed_login_attempts = 0, u_locked_until = None,
      u_last_login_at = None, u_created_at = t, lg_role = Some ''Seller''\<rparr>)"

text \<open>The key and the unique index on the address.\<close>

definition insert_account :: "env \<Rightarrow> legacy_user \<Rightarrow> legacy_user list \<Rightarrow> exn + legacy_user list" where
  "insert_account env x us =
     bind_result (insert_rows u_id us [x]) (\<lambda>us'.
     if distinct (map (collate env \<circ> u_email) us') then Inr us' else Inl IntegrityError)"

definition import_seller ::
    "env \<Rightarrow> time \<Rightarrow> uuid \<times> string \<times> string \<times> string \<Rightarrow> legacy_user list \<Rightarrow> exn + legacy_user list" where
  "import_seller env t row us =
     (let x = imported_user t row in
      if list_ex (\<lambda>y. sql_eq env (u_email y) (u_email x)) us then Inr us else insert_account env x us)"

fun import_sellers ::
    "env \<Rightarrow> time \<Rightarrow> (uuid \<times> string \<times> string \<times> string) list \<Rightarrow> legacy_user list \<Rightarrow> exn + legacy_user list" where
  "import_sellers env t [] us = Inr us"
| "import_sellers env t (row # rows) us = bind_result (import_seller env t row us) (import_sellers env t rows)"

definition upgrade_0021 :: "env \<Rightarrow> time \<Rightarrow> legacy_user list \<Rightarrow> exn + legacy_user list" where
  "upgrade_0021 env t = import_sellers env t SELLER_USERS"

text \<open>
  Deleting accounts takes their tokens along, leaves their cars without a seller, and fails when a bid or a car names one
  as its bidder, creator or, as long as the column refers to accounts, sub-seller.
\<close>

definition delete_accounts :: "(legacy_user \<Rightarrow> bool) \<Rightarrow> legacy_user list \<times> database \<Rightarrow> exn + legacy_user list \<times> database" where
  "delete_accounts P = (\<lambda>(us, db).
     let gone = map u_id (filter P us); names = (\<lambda>i. list_ex (\<lambda>j. i = Some j) gone) in
     if list_ex (\<lambda>b. names (Some (b_bidder_id b))) (bids db) \<or>
        list_ex (\<lambda>v. names (vl_created_by_id v) \<or> names (vl_sub_seller_id v)) (vehicle_listings db)
     then Inl IntegrityError
     else Inr (delete_where P us,
       db\<lparr>refresh_tokens := delete_where (\<lambda>x. names (Some (rt_user_id x))) (refresh_tokens db),
          password_reset_tokens := delete_where (\<lambda>x. names (Some (pr_user_id x))) (password_reset_tokens db),
          email_verification_tokens := delete_where (\<lambda>x. names (Some (ev_user_id x))) (email_verification_tokens db),
          vehicle_listings := map (\<lambda>v. if names (vl_seller_id v) then v\<lparr>vl_seller_id := None\<rparr> else v) (vehicle_listings db)\<rparr>))"

fun remove_sellers ::
    "env \<Rightarrow> (uuid \<times> string \<times> string \<times> string) list \<Rightarrow> legacy_user list \<times> database \<Rightarrow> exn + legacy_user list \<times> database" where
  "remove_sellers env [] s = Inr s"
| "remove_sellers env (row # rows) s =
     bind_result (delete_accounts (\<lambda>x. u_id x = fst row \<and> sql_eq env (u_password_hash x) PLACEHOLDER_PASSWORD_HASH) s)
       (remove_sellers env rows)"

definition downgrade_0021 :: "env \<Rightarrow> legacy_user list \<times> database \<Rightarrow> exn + legacy_user list \<times> database" where
  "downgrade_0021 env = remove_sellers env SELLER_USERS"

section \<open>0023: sub-sellers\<close>

definition SUB_SELLERS :: "(string \<times> uuid \<times> string \<times> string) list" where
  "SUB_SELLERS =
     [(''1057'', 0x9e309d191acf4e7ba824706b0f902e46, ''Anuritha 1'', ''+876098123''),
      (''1056'', 0x9e309d191acf4e7ba824706b0f902e46, ''Anuritha J'', ''+876209734'')]"

definition sub_seller_row :: "time \<Rightarrow> uuid \<Rightarrow> string \<times> uuid \<times> string \<times> string \<Rightarrow> sub_seller" where
  "sub_seller_row t i = (\<lambda>(external_id, seller_id, name, phone).
     \<lparr>ss_id = i, ss_seller_id = seller_id, ss_name = name, ss_phone = Some phone, ss_external_id = Some external_id,
      ss_is_active = True, ss_created_at = t\<rparr>)"

text \<open>The reference to the seller holds, as the row is only inserted when the account exists.\<close>

definition seed_sub_seller ::
    "env \<Rightarrow> time \<Rightarrow> legacy_user list \<Rightarrow> uuid \<Rightarrow> string \<times> uuid \<times> string \<times> string \<Rightarrow> sub_seller list \<Rightarrow> exn + sub_seller list" where
  "seed_sub_seller env t us i row subs =
     (if list_ex (\<lambda>s. sql_is env (ss_external_id s) (fst row)) subs \<or> \<not> list_ex (\<lambda>x. u_id x = fst (snd row)) us
      then Inr subs else insert_rows ss_id subs [sub_seller_row t i row])"

fun seed_sub_sellers ::
    "env \<Rightarrow> time \<Rightarrow> legacy_user list \<Rightarrow> (nat \<Rightarrow> uuid) \<Rightarrow> (string \<times> uuid \<times> string \<times> string) list \<Rightarrow> sub_seller list \<Rightarrow> exn + sub_seller list" where
  "seed_sub_sellers env t us u [] subs = Inr subs"
| "seed_sub_sellers env t us u (row # rows) subs =
     bind_result (seed_sub_seller env t us (u 0) row subs) (seed_sub_sellers env t us (shift u 1) rows)"

definition upgrade_0023 :: "env \<Rightarrow> time \<Rightarrow> legacy_user list \<Rightarrow> (nat \<Rightarrow> uuid) \<Rightarrow> sub_seller list \<Rightarrow> exn + sub_seller list" where
  "upgrade_0023 env t us u = seed_sub_sellers env t us u SUB_SELLERS"

text \<open>A car that names a sub-seller keeps it from being deleted.\<close>

fun remove_sub_sellers ::
    "env \<Rightarrow> vehicle_listing list \<Rightarrow> (string \<times> uuid \<times> string \<times> string) list \<Rightarrow> sub_seller list \<Rightarrow> exn + sub_seller list" where
  "remove_sub_sellers env cars [] subs = Inr subs"
| "remove_sub_sellers env cars (row # rows) subs =
     (let P = (\<lambda>s. sql_is env (ss_external_id s) (fst row)) in
      if list_ex (\<lambda>v. list_ex (\<lambda>s. vl_sub_seller_id v = Some (ss_id s)) (filter P subs)) cars then Inl IntegrityError
      else remove_sub_sellers env cars rows (delete_where P subs))"

definition downgrade_0023 :: "env \<Rightarrow> vehicle_listing list \<Rightarrow> sub_seller list \<Rightarrow> exn + sub_seller list" where
  "downgrade_0023 env cars = remove_sub_sellers env cars SUB_SELLERS"

section \<open>A new installation\<close>

text \<open>The accounts of the time before 0021, and what 0021, 0023, 0029 and 0030 make of them.\<close>

definition install_clients ::
    "env \<Rightarrow> (string list \<Rightarrow> string list) \<Rightarrow> time \<Rightarrow> (nat \<Rightarrow> uuid) \<Rightarrow> nat \<Rightarrow> legacy_user list \<Rightarrow> database \<Rightarrow> exn + database" where
  "install_clients env select_distinct t u n us db =
     bind_result (upgrade_0021 env t us) (\<lambda>us'.
     bind_result (upgrade_0023 env t us' u (sub_sellers db)) (\<lambda>subs.
     migrate_roles env select_distinct t n us' (db\<lparr>sub_sellers := subs\<rparr>)))"

end
