(* ===== verification/Lookup_Laws.thy ===== *)
theory Lookup_Laws
  imports Lookup_Migration Migration_Properties Read_Laws "HOL-Library.Multiset"
begin

text \<open>
  What the revisions 0019, 0021 and 0023 leave in their tables, and what the intake service finds there: the dropdowns
  in their order, the cell of a sheet that a label is found by, the imported accounts and their removal.
\<close>

lemma filter_one_more:
  assumes "filter P xs = [x]" and "Q x" shows "filter (\<lambda>y. P y \<and> Q y) xs = [x]"
proof -
  have "filter (\<lambda>y. P y \<and> Q y) xs = filter Q (filter P xs)" by (simp add: conj_commute)
  with assms show ?thesis by simp
qed

text \<open>\<open>lower\<close> on the bits of a character, with which long lists of texts evaluate.\<close>

lemma lower_char_bits [code]:
  "lower_char (Char b0 b1 b2 b3 b4 b5 b6 b7) =
     Char b0 b1 b2 b3 b4
       (b5 \<or> b6 \<and> (if b7 then \<not> (b0 \<and> b1 \<and> b2 \<and> b3 \<and> b4) \<and> \<not> (b0 \<and> b1 \<and> b2 \<and> \<not> b3 \<and> b4)
                    else (b0 \<or> b1 \<or> b2 \<or> b3 \<or> b4) \<and> \<not> (b3 \<and> b4 \<and> (b2 \<or> b0 \<and> b1)))) b6 b7"
  by (cases b0; cases b1; cases b2; cases b3; cases b4; cases b5; cases b6; cases b7; simp add: lower_char_def Let_def char_of_def bit_0)

section \<open>The rows of a dropdown\<close>

abbreviation label_of :: "'a lookup_row_scheme \<Rightarrow> string \<times> string" where
  "label_of r \<equiv> (lk_name_en r, lk_name_ar r)"

lemma label_row_fields [simp]:
  "lk_id (label_row t i n l) = i" "lk_name_en (label_row t i n l) = fst l" "lk_name_ar (label_row t i n l) = snd l"
  "lk_sort_order (label_row t i n l) = n" "lk_is_active (label_row t i n l)"
  by (simp_all add: label_row_def case_prod_beta')

lemma model_row_fields [simp]:
  "lk_id (model_row t k i n l) = i" "lk_name_en (model_row t k i n l) = fst l" "lk_name_ar (model_row t k i n l) = snd l"
  "lk_sort_order (model_row t k i n l) = n" "lk_is_active (model_row t k i n l)" "vm_make_id (model_row t k i n l) = k"
  by (simp_all add: model_row_def lookup_row.defs vehicle_model.defs)

lemma numbered_values: "(\<And>i n x. g (f i n x) = x) \<Longrightarrow> map g (numbered u f xs) = xs"
  by (rule nth_equalityI) (simp_all add: numbered_def nth_enumerate_eq case_prod_beta')

lemma numbered_orders: "(\<And>i n x. g (f i n x) = n) \<Longrightarrow> map g (numbered u f xs) = map (\<lambda>k. int k + 1) [0..<length xs]"
  by (rule nth_equalityI) (simp_all add: numbered_def nth_enumerate_eq case_prod_beta')

lemma sorted_orders: "sorted (map (\<lambda>k. int k + m) [0..<n])"
  by (simp add: sorted_iff_nth_mono)

text \<open>A table that holds a dropdown: its labels in order, all active, in the order of the form.\<close>

definition holds_labels :: "'a lookup_row_scheme list \<Rightarrow> (string \<times> string) list \<Rightarrow> bool" where
  "holds_labels rows labels \<longleftrightarrow> map label_of rows = labels \<and> sorted (map lk_sort_order rows) \<and> list_all lk_is_active rows"

lemma holds_numbered_labels: "holds_labels (numbered u (label_row t) labels) labels"
  unfolding holds_labels_def
  by (simp add: numbered_values numbered_orders sorted_orders list.pred_set set_numbered) auto

lemma holds_numbered_models: "holds_labels (numbered u (model_row t k) labels) labels"
  unfolding holds_labels_def
  by (simp add: numbered_values numbered_orders sorted_orders list.pred_set set_numbered) auto

lemma seed_labels_Inr: "seed_labels t u labels = Inr rows \<Longrightarrow> holds_labels rows labels"
  by (auto simp: seed_labels_def insert_rows_Inr holds_numbered_labels simp del: distinct_append)

lemma holds_labels_row:
  assumes "holds_labels rows labels" and "l \<in> set labels"
  obtains r where "r \<in> set rows" and "label_of r = l" and "lk_is_active r"
  using assms by (auto simp: holds_labels_def list_all_iff)

text \<open>The options of the form.\<close>

lemma holds_labels_options:
  assumes "holds_labels rows labels"
  shows "map lo_label (map (lookup_option arabic) (order_by lk_sort_order (filter lk_is_active rows))) =
    map (\<lambda>(en, ar). pick_label en ar arabic) labels"
proof -
  have "filter lk_is_active rows = rows" using assms by (simp add: holds_labels_def list_all_iff)
  moreover have "order_by lk_sort_order rows = rows" using assms by (simp add: holds_labels_def sort_key_sorted)
  moreover have "labels = map label_of rows" using assms by (simp add: holds_labels_def)
  ultimately show ?thesis by (simp add: lookup_option_def)
qed

section \<open>Makes and models\<close>

fun make_rows :: "time \<Rightarrow> (nat \<Rightarrow> uuid) \<Rightarrow> int \<Rightarrow> string list \<Rightarrow> vehicle_make list" where
  "make_rows t u n [] = []"
| "make_rows t u n (m # ms) = label_row t (u 0) n (m, m) # make_rows t (shift u (Suc (length (models_of m)))) (n + 1) ms"

fun model_rows :: "time \<Rightarrow> (nat \<Rightarrow> uuid) \<Rightarrow> string list \<Rightarrow> vehicle_model list" where
  "model_rows t u [] = []"
| "model_rows t u (m # ms) =
     numbered (shift u 1) (model_row t (u 0)) (models_of m) @ model_rows t (shift u (Suc (length (models_of m)))) ms"

lemma seed_makes_Inr:
  "seed_makes t u n ms (ks, vs) = Inr (ks', vs') \<Longrightarrow> distinct (map lk_id ks) \<Longrightarrow>
   ks' = ks @ make_rows t u n ms \<and> vs' = vs @ model_rows t u ms \<and> distinct (map lk_id ks')"
proof (induction ms arbitrary: u n ks vs)
  case (Cons m ms)
  let ?ks = "ks @ [label_row t (u 0) n (m, m)]"
  have "distinct (map lk_id ?ks)"
    "seed_makes t (shift u (Suc (length (models_of m)))) (n + 1) ms
       (?ks, vs @ numbered (shift u 1) (model_row t (u 0)) (models_of m)) = Inr (ks', vs')"
    using Cons.prems(1) by (auto simp: insert_rows_Inr)
  note IH = Cons.IH [OF this(2,1)]
  show ?case
    by (intro conjI; (rule IH [THEN conjunct2, THEN conjunct2])?)
       (use IH in \<open>simp_all only: make_rows.simps model_rows.simps append_assoc append.simps\<close>)
qed simp

lemma make_rows_fields:
  "map label_of (make_rows t u n ms) = map (\<lambda>m. (m, m)) ms"
  "map lk_sort_order (make_rows t u n ms) = map (\<lambda>k. int k + n) [0..<length ms]"
  "list_all lk_is_active (make_rows t u n ms)"
proof (induction ms arbitrary: u n)
  case (Cons m ms)
  case 1 show ?case using Cons(1) by simp
  case 2
  have "map (\<lambda>k. int k + n) [0..<Suc (length ms)] = n # map (\<lambda>k. int k + (n + 1)) [0..<length ms]"
    by (rule nth_equalityI) (auto simp: nth_Cons simp del: upt_Suc split: nat.splits)
  with Cons(2) [of _ "n + 1"] show ?case by simp
  case 3 show ?case using Cons(3) by simp
qed simp_all

lemma holds_make_rows: "holds_labels (make_rows t u n ms) (map (\<lambda>m. (m, m)) ms)"
  by (simp add: holds_labels_def make_rows_fields sorted_orders)

text \<open>The models of one make are those listed for it.\<close>

lemma model_rows_foreign: "i \<notin> lk_id ` set (make_rows t u n ms) \<Longrightarrow> filter (\<lambda>v. vm_make_id v = i) (model_rows t u ms) = []"
proof (induction ms arbitrary: u n)
  case (Cons m ms)
  have "filter (\<lambda>v. vm_make_id v = i) (model_rows t (shift u (Suc (length (models_of m)))) ms) = []"
    by (rule Cons.IH [where n = "n + 1"]) (use Cons.prems in simp)
  moreover have "filter (\<lambda>v. vm_make_id v = i) (numbered (shift u 1) (model_row t (u 0)) (models_of m)) = []"
    using Cons.prems by (auto simp: filter_empty_conv set_numbered)
  ultimately show ?case by simp
qed simp

lemma model_rows_of:
  "distinct (map lk_id (make_rows t u n ms)) \<Longrightarrow> k \<in> set (make_rows t u n ms) \<Longrightarrow>
   \<exists>v. filter (\<lambda>x. vm_make_id x = lk_id k) (model_rows t u ms) = numbered v (model_row t (lk_id k)) (models_of (lk_name_en k))"
proof (induction ms arbitrary: u n)
  case (Cons m ms)
  let ?u = "shift u (Suc (length (models_of m)))" and ?own = "numbered (shift u 1) (model_row t (u 0)) (models_of m)"
  show ?case
  proof (cases "lk_id k = u 0")
    case True
    with Cons.prems have k: "k = label_row t (u 0) n (m, m)" by (auto simp: image_iff)
    have "filter (\<lambda>x. vm_make_id x = u 0) (model_rows t ?u ms) = []"
      using Cons.prems(1) by (intro model_rows_foreign [where n = "n + 1"]) (simp add: image_iff)
    moreover have "filter (\<lambda>x. vm_make_id x = u 0) ?own = ?own" by (simp add: filter_id_conv set_numbered) auto
    ultimately show ?thesis using k by auto
  next
    case False
    then have "k \<in> set (make_rows t ?u (n + 1) ms)" using Cons.prems(2) by auto
    moreover have "filter (\<lambda>x. vm_make_id x = lk_id k) ?own = []" using False by (auto simp: filter_empty_conv set_numbered)
    ultimately show ?thesis using Cons.IH [of ?u "n + 1"] Cons.prems(1) by simp
  qed
qed simp


section \<open>After 0019\<close>

definition holds_years :: "vehicle_year list \<Rightarrow> int list \<Rightarrow> bool" where
  "holds_years rows years \<longleftrightarrow> map vy_year rows = years \<and> sorted (map vy_sort_order rows) \<and> list_all vy_is_active rows"

lemma seed_years_Inr: "seed_years t u = Inr rows \<Longrightarrow> holds_years rows YEARS"
proof -
  assume "seed_years t u = Inr rows"
  then have "rows = numbered u (year_row t) YEARS" by (auto simp: seed_years_def insert_rows_Inr split: if_splits)
  then show ?thesis
    unfolding holds_years_def
    by (simp add: numbered_values numbered_orders year_row_def sorted_orders list.pred_set set_numbered) auto
qed

lemma upgrade_0019_labels:
  assumes "upgrade_0019 t u db = Inr db'"
  shows "holds_labels (vehicle_branches db') BRANCHES" "holds_labels (vehicle_colors db') COLORS"
    "holds_labels (vehicle_key_options db') KEY_OPTIONS" "holds_labels (fuel_types db') FUEL_TYPES"
    "holds_labels (bidding_models db') BIDDING_MODELS" "holds_years (vehicle_years db') YEARS"
  using assms by (auto simp: upgrade_0019_def Let_def intro: seed_labels_Inr seed_years_Inr split: prod.splits)

lemma upgrade_0019_makes:
  assumes "upgrade_0019 t u db = Inr db'"
  shows "holds_labels (vehicle_makes db') (map (\<lambda>m. (m, m)) MAKES)"
    and "k \<in> set (vehicle_makes db') \<Longrightarrow>
      holds_labels (filter (\<lambda>x. vm_make_id x = lk_id k) (vehicle_models db')) (models_of (lk_name_en k))"
proof -
  obtain v ks vs where run: "seed_makes t v 1 MAKES ([], []) = Inr (ks, vs)" "insert_models ks vs = Inr (vehicle_models db')"
    and makes: "vehicle_makes db' = ks"
    using assms by (auto simp: upgrade_0019_def Let_def)
  have "ks = make_rows t v 1 MAKES \<and> vs = model_rows t v MAKES \<and> distinct (map lk_id ks)"
    by (rule seed_makes_Inr [OF run(1), unfolded append_Nil]) simp
  then have ks: "ks = make_rows t v 1 MAKES" "vs = model_rows t v MAKES" "distinct (map lk_id ks)" by blast+
  have "vehicle_models db' = vs" using run(2) by (auto simp: insert_models_def insert_rows_Inr split: if_splits)
  then have models: "vehicle_models db' = model_rows t v MAKES" using ks(2) by simp
  show "holds_labels (vehicle_makes db') (map (\<lambda>m. (m, m)) MAKES)" unfolding makes ks(1) by (rule holds_make_rows)
  assume "k \<in> set (vehicle_makes db')"
  then have k: "k \<in> set (make_rows t v 1 MAKES)" by (simp add: makes ks(1))
  obtain v' where "filter (\<lambda>x. vm_make_id x = lk_id k) (model_rows t v MAKES) = numbered v' (model_row t (lk_id k)) (models_of (lk_name_en k))"
    using model_rows_of [OF ks(3) [unfolded ks(1)] k] by blast
  then show "holds_labels (filter (\<lambda>x. vm_make_id x = lk_id k) (vehicle_models db')) (models_of (lk_name_en k))"
    unfolding models by (simp only: holds_numbered_models)
qed

text \<open>The revision runs through, if \<open>uuid4\<close> draws no identifier twice.\<close>

fun draws_of :: "string list \<Rightarrow> nat" where
  "draws_of [] = 0"
| "draws_of (m # ms) = Suc (length (models_of m)) + draws_of ms"

lemma shift_shift: "shift (shift u a) b = shift u (a + b)"
  by (rule ext) (simp add: shift_def add.assoc)

lemma label_ids:
  "map lk_id (numbered u (label_row t) ls) = map u [0..<length ls]" "map lk_id (numbered u (model_row t k) ls) = map u [0..<length ls]"
  by (rule numbered_keys; simp)+

lemma make_model_ids:
  "mset (map lk_id (make_rows t u n ms)) + mset (map lk_id (model_rows t u ms)) = mset (map u [0..<draws_of ms])"
proof (induction ms arbitrary: u n)
  case (Cons m ms)
  let ?k = "length (models_of m)"
  have draws: "map u [0..<draws_of (m # ms)] = u 0 # map (shift u 1) [0..<?k] @ map (shift u (Suc ?k)) [0..<draws_of ms]"
    by (rule nth_equalityI) (auto simp: nth_Cons nth_append shift_def simp del: upt_Suc split: nat.splits)
  note rest = Cons.IH [of "shift u (Suc ?k)" "n + 1"]
  show ?case
    unfolding draws by (simp add: label_ids rest [symmetric] ac_simps del: mset_map draws_of.simps)
qed simp

lemma seed_makes_succeeds:
  "distinct (map lk_id (ks @ make_rows t u n ms)) \<Longrightarrow>
   seed_makes t u n ms (ks, vs) = Inr (ks @ make_rows t u n ms, vs @ model_rows t u ms)"
proof (induction ms arbitrary: u n ks vs)
  case (Cons m ms)
  let ?ks = "ks @ [label_row t (u 0) n (m, m)]"
  have d: "distinct (map lk_id (?ks @ make_rows t (shift u (Suc (length (models_of m)))) (n + 1) ms))"
    using Cons.prems by (simp only: make_rows.simps append_assoc append.simps)
  then have "insert_rows lk_id ks [label_row t (u 0) n (m, m)] = Inr ?ks" by (simp add: insert_rows_def)
  with Cons.IH [OF d] show ?case by simp
qed simp

lemma model_rows_makes: "v \<in> set (model_rows t u ms) \<Longrightarrow> vm_make_id v \<in> lk_id ` set (make_rows t u n ms)"
proof (induction ms arbitrary: u n)
  case (Cons m ms)
  show ?case
  proof (cases "v \<in> set (numbered (shift u 1) (model_row t (u 0)) (models_of m))")
    case False
    then show ?thesis using Cons.prems Cons.IH [of "shift u (Suc (length (models_of m)))" "n + 1"] by simp
  qed (auto simp: set_numbered)
qed simp

lemma model_counts:
  "map (\<lambda>(m, ls). (m, length ls)) MODELS_BY_MAKE =
    [(''Toyota'', 6), (''Nissan'', 5), (''Honda'', 3), (''Mercedes-Benz'', 4), (''BMW'', 3), (''Ford'', 3), (''Chevrolet'', 3),
     (''Hyundai'', 3), (''Kia'', 3), (''Lexus'', 3), (''Mitsubishi'', 3), (''Land Rover'', 3), (''Audi'', 3), (''Volkswagen'', 3),
     (''Mazda'', 3)]"
  by (simp add: MODELS_BY_MAKE_def)

lemma length_models_of:
  "length (models_of m) = (case map_of (map (\<lambda>(m, ls). (m, length ls)) MODELS_BY_MAKE) m of None \<Rightarrow> 0 | Some n \<Rightarrow> n)"
  by (simp add: models_of_def map_of_map split: option.splits)

lemma draws_of_sum: "draws_of ms = sum_list (map (\<lambda>m. Suc (length (models_of m))) ms)"
  by (induction ms) simp_all

lemma lookup_counts:
  "length BRANCHES = 2" "length COLORS = 25" "length KEY_OPTIONS = 3" "length FUEL_TYPES = 5" "length BIDDING_MODELS = 5"
  "length YEARS = 71" "draws_of MAKES = 121"
proof -
  show "length BRANCHES = 2" "length COLORS = 25" "length KEY_OPTIONS = 3" "length FUEL_TYPES = 5" "length BIDDING_MODELS = 5" "length YEARS = 71"
    by (simp_all add: BRANCHES_def COLORS_def KEY_OPTIONS_def FUEL_TYPES_def BIDDING_MODELS_def YEARS_def)
  show "draws_of MAKES = 121" unfolding draws_of_sum length_models_of model_counts by code_simp
qed

lemma upgrade_0019_succeeds:
  assumes u: "fresh u"
  shows "\<exists>db'. upgrade_0019 t u db = Inr db'"
proof -
  have labels: "\<exists>rows. seed_labels t (shift u a) ls = Inr rows" if "a + length ls \<le> 300" for a ls
  proof -
    have "distinct (map lk_id (numbered (shift u a) (label_row t) ls))"
      by (rule distinct_keys [OF u, of _ _ "[a..<a + length ls]"]) (use that in \<open>auto simp: label_ids shift_upt\<close>)
    then show ?thesis by (simp add: seed_labels_def insert_first)
  qed
  have shift0: "u = shift u 0" by (rule ext) (simp add: shift_def)
  have "map vy_id (numbered (shift u 40) (year_row t) YEARS) = map u [40..<111]"
    using numbered_keys [of vy_id "year_row t" "shift u 40" YEARS] by (simp add: year_row_def shift_upt lookup_counts)
  then have "distinct (map vy_id (numbered (shift u 40) (year_row t) YEARS))" by (rule distinct_keys [OF u]) auto
  moreover have "map vy_year (numbered (shift u 40) (year_row t) YEARS) = YEARS" by (rule numbered_values) (simp add: year_row_def)
  moreover have "distinct YEARS" by code_simp
  ultimately have years: "\<exists>rows. seed_years t (shift u 40) = Inr rows" by (simp add: seed_years_def insert_first)
  let ?makes = "make_rows t (shift u 111) 1 MAKES" and ?models = "model_rows t (shift u 111) MAKES"
  have upt: "distinct (map u [a..<b])" if "b \<le> 300" for a b
    using that by (auto simp: distinct_map intro: inj_on_subset [OF u])
  have "mset (map lk_id ?makes @ map lk_id ?models) = mset (map u [111..<111 + 121])"
    unfolding mset_append make_model_ids lookup_counts shift_upt ..
  moreover have "distinct (map u [111..<111 + 121])" by (rule upt) simp
  ultimately have d: "distinct (map lk_id ?makes @ map lk_id ?models)" by (metis mset_eq_imp_distinct_iff)
  then have makes: "seed_makes t (shift u 111) 1 MAKES ([], []) = Inr (?makes, ?models)"
    using seed_makes_succeeds [where ks = "[]" and vs = "[]"] by simp
  have models: "insert_models ?makes ?models = Inr ?models"
    using d model_rows_makes [where n = 1] by (auto simp: insert_models_def insert_first list_all_iff)
  obtain r1 r2 r3 r4 r5 where "seed_labels t u BRANCHES = Inr r1" "seed_labels t (shift u 2) COLORS = Inr r2"
      "seed_labels t (shift u 27) KEY_OPTIONS = Inr r3" "seed_labels t (shift u 30) FUEL_TYPES = Inr r4"
      "seed_labels t (shift u 35) BIDDING_MODELS = Inr r5"
    using labels [of 0 BRANCHES] labels [of 2 COLORS] labels [of 27 KEY_OPTIONS] labels [of 30 FUEL_TYPES] labels [of 35 BIDDING_MODELS]
    by (auto simp: lookup_counts shift0 [symmetric])
  moreover obtain ys where "seed_years t (shift u 40) = Inr ys" using years by blast
  ultimately show ?thesis
    using makes models by (simp add: upgrade_0019_def Let_def shift_shift lookup_counts)
qed

section \<open>The cell of a sheet\<close>

text \<open>The texts that a cell may have for one entry, as the server compares them; no two entries share one.\<close>

definition label_keys :: "env \<Rightarrow> string \<times> string \<Rightarrow> string list" where
  "label_keys env l = remdups [collate env (lower (fst l)), collate env (lower (snd l))]"

definition told_apart :: "env \<Rightarrow> (string \<times> string) list \<Rightarrow> bool" where
  "told_apart env labels \<longleftrightarrow> distinct (concat (map (label_keys env) labels))"

lemma distinct_concat_same:
  assumes "distinct (concat (map f xs))" and "x \<in> set xs" "y \<in> set xs" and "a \<in> set (f x)" "a \<in> set (f y)"
  shows "x = y"
  using assms by (induction xs) auto

lemma find_label:
  assumes "holds_labels rows labels" and "told_apart env labels" and "l \<in> set labels" and "cell \<in> {fst l, snd l}"
  obtains r where "first_row (filter (\<lambda>r. lk_is_active r \<and> (label_matches env (lk_name_en r) cell \<or> label_matches env (lk_name_ar r) cell)) rows) = Some r"
    and "r \<in> set rows" and "label_of r = l"
proof -
  let ?P = "\<lambda>r. lk_is_active r \<and> (label_matches env (lk_name_en r) cell \<or> label_matches env (lk_name_ar r) cell)"
  obtain r0 where r0: "r0 \<in> set rows" "label_of r0 = l" "lk_is_active r0" by (rule holds_labels_row [OF assms(1,3)])
  then have "?P r0" using assms(4) by (auto simp: label_matches_def sql_eq_def)
  with r0(1) obtain r where first: "first_row (filter ?P rows) = Some r" by (cases "filter ?P rows") (auto simp: filter_empty_conv)
  then have r: "r \<in> set rows" "?P r" by (auto dest: first_row_filterD)
  have "label_of r \<in> set labels" using r(1) assms(1) by (auto simp: holds_labels_def)
  moreover have "collate env (lower cell) \<in> set (label_keys env (label_of r))" "collate env (lower cell) \<in> set (label_keys env l)"
    using r(2) assms(4) by (auto simp: label_matches_def sql_eq_def label_keys_def)
  ultimately have "label_of r = l" by (rule distinct_concat_same [OF assms(2) [unfolded told_apart_def] _ assms(3)])
  with first r(1) that show thesis by blast
qed

lemma find_label_run:
  assumes "clean w" and "holds_labels (filter extra (table (committed w))) labels" and "told_apart env labels"
    and "l \<in> set labels" and "cell \<in> {fst l, snd l}" and "strip cell \<noteq> []"
  obtains r where "find_if cell (find_lookup_by_label env table extra cell) w = (Inr (Some r), w)"
    and "r \<in> set (table (committed w))" and "extra r" and "label_of r = l"
proof -
  obtain r where r: "first_row (filter (\<lambda>r. lk_is_active r \<and> (label_matches env (lk_name_en r) cell \<or> label_matches env (lk_name_ar r) cell))
      (filter extra (table (committed w)))) = Some r" "r \<in> set (filter extra (table (committed w)))" "label_of r = l"
    by (rule find_label [OF assms(2-5)])
  have "filter (\<lambda>r. lk_is_active r \<and> Q r \<and> extra r) rows = filter (\<lambda>r. lk_is_active r \<and> Q r) (filter extra rows)" for Q rows
    by (induction rows) auto
  then have "find_if cell (find_lookup_by_label env table extra cell) w = (Inr (Some r), w)"
    using assms(1,6) r(1) by (simp add: find_if_def find_lookup_by_label_def query_def clean_def del: filter_filter)
  with r(2,3) that show thesis by simp
qed

lemma find_if_query:
  assumes "clean w" obtains x where "find_if cell (query env (\<lambda>db. Inr (f db))) w = (Inr x, w)"
  using assms that by (cases "strip cell = []") (auto simp: find_if_def query_def ret_def clean_def)

lemma error_fields_subset: "set (map fst (error_if b field message)) \<subseteq> allowed \<longleftrightarrow> (b \<longrightarrow> field \<in> allowed)"
  by (cases b) (simp_all add: error_if_def)

text \<open>No listed label is blank.\<close>

lemma labels_not_blank:
  "l \<in> set BRANCHES \<Longrightarrow> strip (fst l) \<noteq> []" "l \<in> set COLORS \<Longrightarrow> strip (fst l) \<noteq> []" "l \<in> set KEY_OPTIONS \<Longrightarrow> strip (fst l) \<noteq> []"
  "l \<in> set FUEL_TYPES \<Longrightarrow> strip (fst l) \<noteq> []" "l \<in> set BIDDING_MODELS \<Longrightarrow> strip (fst l) \<noteq> []" "m \<in> set MAKES \<Longrightarrow> strip m \<noteq> []"
  "l \<in> set (models_of m) \<Longrightarrow> strip (fst l) \<noteq> []"
proof -
  have *: "list_all (list_all (\<lambda>l. strip (fst l) \<noteq> [])) [BRANCHES, COLORS, KEY_OPTIONS, FUEL_TYPES, BIDDING_MODELS]"
    by code_simp
  have makes: "list_all (\<lambda>m. strip m \<noteq> []) MAKES" by code_simp
  have models: "list_all (\<lambda>(_, ls). list_all (\<lambda>l. strip (fst l) \<noteq> []) ls) MODELS_BY_MAKE" by code_simp
  show "l \<in> set BRANCHES \<Longrightarrow> strip (fst l) \<noteq> []" "l \<in> set COLORS \<Longrightarrow> strip (fst l) \<noteq> []" "l \<in> set KEY_OPTIONS \<Longrightarrow> strip (fst l) \<noteq> []"
    "l \<in> set FUEL_TYPES \<Longrightarrow> strip (fst l) \<noteq> []" "l \<in> set BIDDING_MODELS \<Longrightarrow> strip (fst l) \<noteq> []"
    using * by (simp_all add: list_all_iff)
  show "m \<in> set MAKES \<Longrightarrow> strip m \<noteq> []" using makes by (simp add: list_all_iff)
  assume "l \<in> set (models_of m)"
  then obtain ls where ls: "map_of MODELS_BY_MAKE m = Some ls" "l \<in> set ls"
    by (cases "map_of MODELS_BY_MAKE m") (auto simp: models_of_def)
  with map_of_SomeD [OF ls(1)] models show "strip (fst l) \<noteq> []" unfolding list_all_iff by fast
qed

section \<open>The imported accounts\<close>

lemma imported_user_fields [simp]:
  "u_id (imported_user t row) = fst row" "u_email (imported_user t row) = lower (fst (snd (snd row)))"
  "u_password_hash (imported_user t row) = PLACEHOLDER_PASSWORD_HASH" "u_is_active (imported_user t row)"
  "lg_role (imported_user t row) = Some ''Seller''"
  by (simp_all add: imported_user_def case_prod_beta')

abbreviation row_email :: "uuid \<times> string \<times> string \<times> string \<Rightarrow> string" where
  "row_email row \<equiv> lower (fst (snd (snd row)))"

definition has_address :: "env \<Rightarrow> string \<Rightarrow> 'a user_scheme list \<Rightarrow> bool" where
  "has_address env a us \<longleftrightarrow> list_ex (\<lambda>y. sql_eq env (u_email y) a) us"

lemma has_address_append [simp]: "has_address env a (us @ vs) \<longleftrightarrow> has_address env a us \<or> has_address env a vs"
  by (simp add: has_address_def)

lemma import_seller_Inr:
  "import_seller env t row us = Inr us' \<longleftrightarrow>
     (if has_address env (row_email row) us then us' = us
      else us' = us @ [imported_user t row] \<and> distinct (map u_id us') \<and> distinct (map (collate env \<circ> u_email) us'))"
  by (auto simp: import_seller_def Let_def has_address_def insert_account_def insert_rows_Inr split: if_splits simp del: distinct_append map_append)

text \<open>What the import adds: the listed rows whose address is not taken, in their order.\<close>

fun added :: "env \<Rightarrow> time \<Rightarrow> (uuid \<times> string \<times> string \<times> string) list \<Rightarrow> legacy_user list \<Rightarrow> legacy_user list" where
  "added env t [] us = []"
| "added env t (row # rows) us =
     (if has_address env (row_email row) us then added env t rows us
      else imported_user t row # added env t rows (us @ [imported_user t row]))"

lemma import_sellers_added: "import_sellers env t rows us = Inr us' \<Longrightarrow> us' = us @ added env t rows us"
proof (induction rows arbitrary: us)
  case (Cons row rows)
  then obtain us1 where us1: "import_seller env t row us = Inr us1" "import_sellers env t rows us1 = Inr us'" by auto
  note rest = Cons.IH [OF us1(2)]
  show ?case
  proof (cases "has_address env (row_email row) us")
    case True
    then have "us1 = us" using us1(1) by (simp add: import_seller_Inr)
    with rest True show ?thesis by simp
  next
    case False
    then have "us1 = us @ [imported_user t row]" using us1(1) by (simp add: import_seller_Inr)
    with rest False show ?thesis by simp
  qed
qed simp

lemma added_rows: "set (added env t rows us) \<subseteq> imported_user t ` set rows"
  by (induction rows arbitrary: us) auto

lemma import_sellers_ids:
  "import_sellers env t rows us = Inr us' \<Longrightarrow> distinct (map u_id us) \<Longrightarrow> distinct (map u_id us')"
  by (induction rows arbitrary: us) (auto simp: import_seller_Inr split: if_splits simp del: distinct_append map_append)

lemma added_address: "row \<in> set rows \<Longrightarrow> has_address env (row_email row) (us @ added env t rows us)"
proof (induction rows arbitrary: us)
  case (Cons r rows)
  have *: "has_address env (row_email r) (us @ added env t (r # rows) us)" by (simp add: has_address_def)
  show ?case
  proof (cases "row = r")
    case False
    then show ?thesis using Cons.IH [of us] Cons.IH [of "us @ [imported_user t r]"] Cons.prems by (simp add: has_address_def)
  qed (use * in simp)
qed simp

text \<open>A second import finds every address taken.\<close>

lemma import_sellers_again:
  "list_all (\<lambda>row. has_address env (row_email row) us) rows \<Longrightarrow> import_sellers env t rows us = Inr us"
  by (induction rows) (simp_all add: import_seller_def has_address_def)

text \<open>A listed row is added under its own identifier, if neither an account nor an earlier row has its address.\<close>

lemma added_own:
  assumes "distinct (map (collate env \<circ> row_email) rows)" and "row \<in> set rows" and "\<not> has_address env (row_email row) us"
  shows "imported_user t row \<in> set (added env t rows us)"
  using assms
proof (induction rows arbitrary: us)
  case (Cons r rows)
  show ?case
  proof (cases "row = r")
    case False
    then have row: "row \<in> set rows" using Cons.prems(2) by simp
    have "(collate env \<circ> row_email) r \<notin> set (map (collate env \<circ> row_email) rows)" using Cons.prems(1) by simp
    moreover have "(collate env \<circ> row_email) row \<in> set (map (collate env \<circ> row_email) rows)" using row by (simp only: set_map imageI)
    ultimately have "collate env (row_email row) \<noteq> collate env (row_email r)" by (metis comp_apply)
    then have "\<not> has_address env (row_email row) (us @ [imported_user t r])"
      using Cons.prems(3) by (simp add: has_address_def sql_eq_def)
    with Cons.IH [OF _ row] Cons.prems(1,3) show ?thesis by auto
  qed (use Cons.prems(3) in simp)
qed simp

text \<open>The import runs through, if no account has an identifier of the list, and its addresses differ for the server.\<close>

lemma import_sellers_succeeds:
  "distinct (map fst rows) \<Longrightarrow> set (map fst rows) \<inter> u_id ` set us = {} \<Longrightarrow> distinct (map u_id us) \<Longrightarrow>
   distinct (map (collate env \<circ> u_email) us) \<Longrightarrow> \<exists>us'. import_sellers env t rows us = Inr us'"
proof (induction rows arbitrary: us)
  case (Cons row rows)
  show ?case
  proof (cases "has_address env (row_email row) us")
    case True
    then show ?thesis using Cons.IH [of us] Cons.prems by (simp add: import_seller_def has_address_def)
  next
    case False
    let ?us = "us @ [imported_user t row]"
    have ids: "distinct (map u_id ?us)" using Cons.prems(2,3) by auto
    have "collate env (row_email row) \<notin> (\<lambda>x. collate env (u_email x)) ` set us"
      using False by (auto simp: has_address_def list_ex_iff sql_eq_def)
    then have mails: "distinct (map (collate env \<circ> u_email) ?us)" using Cons.prems(4) by (simp add: comp_def)
    have "import_seller env t row us = Inr ?us" unfolding import_seller_Inr using False ids mails by simp
    moreover have "set (map fst rows) \<inter> u_id ` set ?us = {}" using Cons.prems(1,2) by auto
    ultimately show ?thesis using Cons.IH [OF _ _ ids mails] Cons.prems(1) by simp
  qed
qed simp

section \<open>Their roles\<close>

lemma has_address_column: "has_address env a us \<longleftrightarrow> list_ex (\<lambda>e. sql_eq env e a) (map u_email us)"
  by (simp add: has_address_def list_ex_iff)

lemma migrate_roles_accounts:
  assumes "distinct (map u_id us)" and "migrate_roles env sd t n us db = Inr db'"
  shows "sub_sellers db' = sub_sellers db" "map u_id (users db') = map u_id us" "map u_email (users db') = map u_email us"
proof -
  show "sub_sellers db' = sub_sellers db"
    using assms(2) by (auto simp: migrate_roles_def upgrade_0030_def split: if_splits)
  obtain ids buyer_id where "users db' = map (\<lambda>u. (user.truncate u)\<lparr>u_primary_role_id := legacy_role_id ids buyer_id (lg_role u)\<rparr>) us"
    by (rule migrate_roles_Inr [OF assms]) blast
  then show "map u_id (users db') = map u_id us" "map u_email (users db') = map u_email us" by simp_all
qed

lemma migrated_seller:
  assumes "distinct (map u_id us)" and "migrate_roles env sd t n us db = Inr db'" and "u \<in> set us" and "lg_role u = Some ''Seller''"
    and "u_is_active u"
  obtains c where "c \<in> set (users db')" and "u_id c = u_id u" and "u_email c = u_email u" and "u_password_hash c = u_password_hash u"
    and "u_is_active c" and "is_seller env db' c"
proof -
  obtain rows urs buyer_id where up: "upgrade_0029 env sd t n us = Inr (rows, urs)" and rows: "roles db' = rows"
    and accounts: "users db' = map (\<lambda>u. (user.truncate u)\<lparr>u_primary_role_id := legacy_role_id (role_ids rows) buyer_id (lg_role u)\<rparr>) us"
    by (rule migrate_roles_Inr [OF assms(1,2)])
  let ?c = "(user.truncate u)\<lparr>u_primary_role_id := legacy_role_id (role_ids rows) buyer_id (lg_role u)\<rparr>"
  obtain "r_name ` set rows = set (map fst SEED_ROLES) \<union> set (unseeded_names sd us)" by (rule upgrade_0029_Inr [OF up])
  then have seller: "''Seller'' \<in> r_name ` set (roles db')" unfolding rows by (simp add: SEED_ROLES_def)
  obtain role where held: "roles_held (u_id u) db' = [role]"
      and "\<forall>r. lg_role u = Some r \<and> r \<noteq> [] \<and> r \<in> r_name ` set (roles db') \<longrightarrow> r_name role = r"
    by (rule migrated_role [OF assms(1-3)])
  with assms(4) seller have name: "r_name role = ''Seller''" by simp
  have "role \<in> set (roles_held (u_id u) db')" unfolding held by simp
  then obtain ur where "role \<in> set (roles db')" "ur \<in> set (user_roles db')" "ur_user_id ur = u_id u" "ur_role_id ur = r_id role"
    unfolding set_roles_held by blast
  moreover have c: "u_is_active ?c" "u_password_hash ?c = u_password_hash u" using assms(5) by (simp_all add: user.defs)
  ultimately have "is_seller env db' ?c" using name by (auto simp: is_seller_def list_ex_iff intro!: bexI [of _ ur] bexI [of _ role])
  moreover have "?c \<in> set (users db')" using assms(3) by (simp add: accounts)
  ultimately show thesis using c by (intro that [of ?c]) simp_all
qed

section \<open>Sub-sellers\<close>

lemma sub_seller_row_fields [simp]:
  "ss_id (sub_seller_row t i row) = i" "ss_seller_id (sub_seller_row t i row) = fst (snd row)"
  "ss_external_id (sub_seller_row t i row) = Some (fst row)" "ss_is_active (sub_seller_row t i row)"
  by (simp_all add: sub_seller_row_def case_prod_beta')

lemma seed_sub_sellers_Inr:
  "seed_sub_sellers env t us u rows subs = Inr subs' \<Longrightarrow> distinct (map ss_id subs) \<Longrightarrow>
   distinct (map ss_id subs') \<and> set subs \<subseteq> set subs' \<and>
   (\<forall>s \<in> set subs'. s \<in> set subs \<or> (\<exists>row \<in> set rows. \<exists>i. s = sub_seller_row t i row)) \<and>
   (\<forall>row \<in> set rows. fst (snd row) \<in> u_id ` set us \<longrightarrow> (\<exists>s \<in> set subs'. sql_is env (ss_external_id s) (fst row)))"
proof (induction rows arbitrary: u subs)
  case (Cons row rows)
  obtain subs1 where one: "seed_sub_seller env t us (u 0) row subs = Inr subs1"
    and rest: "seed_sub_sellers env t us (shift u 1) rows subs1 = Inr subs'"
    using Cons.prems(1) by auto
  have step: "distinct (map ss_id subs1)" "set subs \<subseteq> set subs1" "\<forall>s \<in> set subs1. s \<in> set subs \<or> s = sub_seller_row t (u 0) row"
    "fst (snd row) \<in> u_id ` set us \<longrightarrow> (\<exists>s \<in> set subs1. sql_is env (ss_external_id s) (fst row))"
    using one Cons.prems(2)
    by (auto simp: seed_sub_seller_def insert_rows_Inr list_ex_iff sql_is_def split: if_splits)
  show ?case using Cons.IH [OF rest step(1)] step(2-4) by (simp; blast)
qed simp

section \<open>Their removal\<close>

text \<open>No row of another table names the account.\<close>

definition unreferenced :: "database \<Rightarrow> uuid \<Rightarrow> bool" where
  "unreferenced db i \<longleftrightarrow>
     list_all (\<lambda>b. b_bidder_id b \<noteq> i) (bids db) \<and>
     list_all (\<lambda>v. vl_created_by_id v \<noteq> Some i \<and> vl_sub_seller_id v \<noteq> Some i \<and> vl_seller_id v \<noteq> Some i) (vehicle_listings db) \<and>
     list_all (\<lambda>x. rt_user_id x \<noteq> i) (refresh_tokens db) \<and> list_all (\<lambda>x. pr_user_id x \<noteq> i) (password_reset_tokens db) \<and>
     list_all (\<lambda>x. ev_user_id x \<noteq> i) (email_verification_tokens db)"

lemma delete_accounts_unreferenced:
  assumes "\<And>x. x \<in> set us \<Longrightarrow> P x \<Longrightarrow> unreferenced db (u_id x)"
  shows "delete_accounts P (us, db) = Inr (delete_where P us, db)"
proof -
  have gone: "list_ex (\<lambda>j. i = Some j) (map u_id (filter P us)) \<longleftrightarrow> (\<exists>x \<in> set us. P x \<and> i = Some (u_id x))" for i
    by (auto simp: list_ex_iff)
  have named: "\<not> list_ex (\<lambda>j. i = Some j) (map u_id (filter P us))" if "\<And>j. unreferenced db j \<Longrightarrow> i \<noteq> Some j" for i
    using assms that by (auto simp: gone)
  have bids: "\<not> list_ex (\<lambda>b. list_ex (\<lambda>j. Some (b_bidder_id b) = Some j) (map u_id (filter P us))) (bids db)"
  proof
    assume "list_ex (\<lambda>b. list_ex (\<lambda>j. Some (b_bidder_id b) = Some j) (map u_id (filter P us))) (bids db)"
    then obtain b where b: "b \<in> set (bids db)" "list_ex (\<lambda>j. Some (b_bidder_id b) = Some j) (map u_id (filter P us))"
      unfolding list_ex_iff by blast
    have "\<not> list_ex (\<lambda>j. Some (b_bidder_id b) = Some j) (map u_id (filter P us))"
      by (rule named) (use b(1) in \<open>auto simp: unreferenced_def list_all_iff\<close>)
    with b(2) show False by (rule notE [rotated])
  qed
  have cars: "\<not> list_ex (\<lambda>j. vl_created_by_id v = Some j) (map u_id (filter P us))"
      "\<not> list_ex (\<lambda>j. vl_sub_seller_id v = Some j) (map u_id (filter P us))"
      "\<not> list_ex (\<lambda>j. vl_seller_id v = Some j) (map u_id (filter P us))" if "v \<in> set (vehicle_listings db)" for v
    using that by (intro named; auto simp: unreferenced_def list_all_iff)+
  have tokens:
    "delete_where (\<lambda>x. list_ex (\<lambda>j. Some (rt_user_id x) = Some j) (map u_id (filter P us))) (refresh_tokens db) = refresh_tokens db"
    "delete_where (\<lambda>x. list_ex (\<lambda>j. Some (pr_user_id x) = Some j) (map u_id (filter P us))) (password_reset_tokens db) = password_reset_tokens db"
    "delete_where (\<lambda>x. list_ex (\<lambda>j. Some (ev_user_id x) = Some j) (map u_id (filter P us))) (email_verification_tokens db) = email_verification_tokens db"
    by (intro delete_where_none named; auto simp: unreferenced_def list_all_iff)+
  have "map (\<lambda>v. if list_ex (\<lambda>j. vl_seller_id v = Some j) (map u_id (filter P us)) then v\<lparr>vl_seller_id := None\<rparr> else v) (vehicle_listings db) =
      vehicle_listings db"
    using cars(3) by (intro map_idI) simp
  moreover have "\<not> list_ex (\<lambda>v. list_ex (\<lambda>j. vl_created_by_id v = Some j) (map u_id (filter P us)) \<or>
      list_ex (\<lambda>j. vl_sub_seller_id v = Some j) (map u_id (filter P us))) (vehicle_listings db)"
    using cars(1,2) by (simp add: list_ex_iff)
  ultimately show ?thesis using bids unfolding delete_accounts_def Let_def prod.case tokens by simp
qed

lemma remove_sellers_unreferenced:
  assumes "\<And>row. row \<in> set rows \<Longrightarrow> unreferenced db (fst row)"
  shows "remove_sellers env rows (us, db) =
    Inr (delete_where (\<lambda>x. u_id x \<in> fst ` set rows \<and> sql_eq env (u_password_hash x) PLACEHOLDER_PASSWORD_HASH) us, db)"
  using assms
proof (induction rows arbitrary: us)
  case (Cons row rows)
  have "delete_accounts (\<lambda>x. u_id x = fst row \<and> sql_eq env (u_password_hash x) PLACEHOLDER_PASSWORD_HASH) (us, db) =
    Inr (delete_where (\<lambda>x. u_id x = fst row \<and> sql_eq env (u_password_hash x) PLACEHOLDER_PASSWORD_HASH) us, db)"
    by (rule delete_accounts_unreferenced) (use Cons.prems in auto)
  then show ?case using Cons.IH Cons.prems by (simp add: delete_where_def) (rule arg_cong [where f = "\<lambda>P. filter P us"], auto)
qed (simp add: delete_where_def)

end
