(* ===== verification/Lookup_Properties.thy ===== *)
theory Lookup_Properties
  imports Lookup_Laws Content_Properties
begin

text \<open>
  Properties of the rows behind the intake form (revisions 0019, 0021 and 0023), stated over what the intake
  service answers from them, and their instances.
\<close>

section \<open>Dropdowns\<close>

text \<open>In a new installation every dropdown of the intake form offers exactly the listed labels in the listed order,
  in either language, every make exactly its own models, and the years are those of the list.\<close>

theorem seeded_dropdowns_served:
  assumes "upgrade_0019 t u db = Inr db'" and "clean w" and "committed w = db'"
  shows "map_result (map lo_label) (fst (get_branches env arabic w)) = Inr (map (\<lambda>(en, ar). pick_label en ar arabic) BRANCHES) \<and>
    map_result (map lo_label) (fst (get_colors env arabic w)) = Inr (map (\<lambda>(en, ar). pick_label en ar arabic) COLORS) \<and>
    map_result (map lo_label) (fst (get_key_options env arabic w)) = Inr (map (\<lambda>(en, ar). pick_label en ar arabic) KEY_OPTIONS) \<and>
    map_result (map lo_label) (fst (get_fuel_types env arabic w)) = Inr (map (\<lambda>(en, ar). pick_label en ar arabic) FUEL_TYPES) \<and>
    map_result (map lo_label) (fst (get_bidding_models env arabic w)) = Inr (map (\<lambda>(en, ar). pick_label en ar arabic) BIDDING_MODELS) \<and>
    fst (get_years env w) = Inr YEARS \<and>
    (\<exists>makes. fst (get_makes env arabic w) = Inr makes \<and> map lo_label makes = MAKES \<and>
       list_all (\<lambda>m. map_result (map lo_label) (fst (get_models env arabic (lo_id m) w)) =
         Inr (map (\<lambda>(en, ar). pick_label en ar arabic) (models_of (lo_label m)))) makes)"
proof -
  have options: "map_result (map lo_label) (fst (active_lookup_options env table arabic w)) =
      Inr (map (\<lambda>(en, ar). pick_label en ar arabic) labels)"
    if "holds_labels (table db') labels" for table :: "database \<Rightarrow> lookup_row list" and labels
    using holds_labels_options [OF that, of arabic] assms(2,3) by (simp add: active_lookup_options_def query_def clean_def)
  note labels = upgrade_0019_labels [OF assms(1)] and makes = upgrade_0019_makes [OF assms(1)]
  have "fst (get_years env w) = Inr YEARS"
  proof -
    have "filter vy_is_active (vehicle_years db') = vehicle_years db'" "order_by vy_sort_order (vehicle_years db') = vehicle_years db'"
      using labels(6) by (simp_all add: holds_years_def list_all_iff sort_key_sorted)
    then show ?thesis using labels(6) assms(2,3) by (simp add: get_years_def query_def clean_def holds_years_def)
  qed
  moreover let ?makes = "map (lookup_option arabic) (order_by lk_sort_order (filter lk_is_active (vehicle_makes db')))"
  have "fst (get_makes env arabic w) = Inr ?makes"
    using assms(2,3) by (simp add: get_makes_def active_lookup_options_def query_def clean_def)
  moreover have "map lo_label ?makes = MAKES"
    using holds_labels_options [OF makes(1), of arabic] by (simp add: pick_label_def o_def)
  moreover have "map_result (map lo_label) (fst (get_models env arabic (lo_id m) w)) =
      Inr (map (\<lambda>(en, ar). pick_label en ar arabic) (models_of (lo_label m)))" if m: "m \<in> set ?makes" for m
  proof -
    obtain k where k: "k \<in> set (vehicle_makes db')" "m = lookup_option arabic k" using m by auto
    have "label_of k \<in> set (map label_of (vehicle_makes db'))" using k(1) by simp
    then have "label_of k \<in> set (map (\<lambda>m. (m, m)) MAKES)" using makes(1) by (simp only: holds_labels_def)
    then have "lo_label m = lk_name_en k" "lo_id m = lk_id k" using k(2) by (auto simp: lookup_option_def pick_label_def)
    moreover have "filter (\<lambda>v. lk_is_active v \<and> vm_make_id v = lk_id k) (vehicle_models db') =
        filter lk_is_active (filter (\<lambda>v. vm_make_id v = lk_id k) (vehicle_models db'))" by (simp add: conj_commute)
    ultimately show ?thesis
      using holds_labels_options [OF makes(2) [OF k(1)], of arabic] assms(2,3)
      by (simp add: get_models_def query_def clean_def del: filter_filter)
  qed
  ultimately show ?thesis
    using options [of vehicle_branches, OF labels(1)] options [of vehicle_colors, OF labels(2)]
      options [of vehicle_key_options, OF labels(3)] options [of fuel_types, OF labels(4)] options [of bidding_models, OF labels(5)]
    unfolding get_branches_def get_colors_def get_key_options_def get_fuel_types_def get_bidding_models_def list_all_iff by blast
qed

section \<open>Sheets\<close>

definition labels_told_apart :: "env \<Rightarrow> bool" where
  "labels_told_apart env \<longleftrightarrow>
     list_all (told_apart env) [BRANCHES, COLORS, KEY_OPTIONS, FUEL_TYPES, BIDDING_MODELS, map (\<lambda>m. (m, m)) MAKES] \<and>
     list_all (told_apart env \<circ> snd) MODELS_BY_MAKE"

text \<open>C25. In a new installation a row of a sheet whose cells are listed labels, the model one of its make, resolves to
  the rows with those labels: no error concerns any of these cells. The server has to tell the labels of a
  list apart, in both languages.\<close>

theorem seeded_sheet_row_resolves:
  assumes "upgrade_0019 t u db = Inr db'" and "labels_told_apart env" and "clean w" and "committed w = db'"
    and "bk_make row \<in> set MAKES" and "bk_model row \<in> fst ` set (models_of (bk_make row))"
    and "bk_branch row \<in> fst ` set BRANCHES" and "bk_color row \<in> fst ` set COLORS" and "bk_keys_option row \<in> fst ` set KEY_OPTIONS"
    and "bk_fuel_type row \<in> fst ` set FUEL_TYPES" and "bk_bidding_model row \<in> fst ` set BIDDING_MODELS"
  shows "\<exists>rs. resolve_bulk_row env row w = (Inr rs, w) \<and>
    map_option lk_name_en (rs_make rs) = Some (bk_make row) \<and> map_option lk_name_en (rs_model rs) = Some (bk_model row) \<and>
    map_option vm_make_id (rs_model rs) = map_option lk_id (rs_make rs) \<and>
    map_option lk_name_en (rs_branch rs) = Some (bk_branch row) \<and> map_option lk_name_en (rs_color rs) = Some (bk_color row) \<and>
    map_option lk_name_en (rs_keys_option rs) = Some (bk_keys_option row) \<and>
    map_option lk_name_en (rs_fuel_type rs) = Some (bk_fuel_type row) \<and>
    map_option lk_name_en (rs_bidding_model rs) = Some (bk_bidding_model row) \<and>
    set (map fst (bulk_row_errors row rs)) \<subseteq> {''chassis_number'', ''previous_number_plate'', ''year'', ''target_selling_price'',
      ''minimum_selling_price'', ''client'', ''sub_client''}"
proof -
  note labels = upgrade_0019_labels [OF assms(1), folded assms(4)] and makes = upgrade_0019_makes [OF assms(1), folded assms(4)]
  have apart: "told_apart env BRANCHES" "told_apart env COLORS" "told_apart env KEY_OPTIONS" "told_apart env FUEL_TYPES"
      "told_apart env BIDDING_MODELS" "told_apart env (map (\<lambda>m. (m, m)) MAKES)"
    using assms(2) by (simp_all add: labels_told_apart_def)
  have cell: "\<exists>r. find_if c (find_lookup_by_label env table (\<lambda>_. True) c) w = (Inr (Some r), w) \<and> lk_name_en r = c"
    if holds: "holds_labels (table (committed w)) ls" and ap: "told_apart env ls" and c: "c \<in> fst ` set ls"
      and blank: "\<And>l. l \<in> set ls \<Longrightarrow> strip (fst l) \<noteq> []"
    for table :: "database \<Rightarrow> lookup_row list" and ls c
  proof -
    obtain l where l: "l \<in> set ls" "c = fst l" using c by auto
    have all: "holds_labels (filter (\<lambda>_. True) (table (committed w))) ls" using holds by simp
    obtain r where "find_if c (find_lookup_by_label env table (\<lambda>_. True) c) w = (Inr (Some r), w)" "label_of r = l"
      by (rule find_label_run [where extra = "\<lambda>_. True" and table = table and w = w, OF assms(3) all ap l(1)]) (use l blank [OF l(1)] in auto)
    with l(2) show ?thesis by auto
  qed
  obtain mk where mk: "find_if (bk_make row) (find_lookup_by_label env vehicle_makes (\<lambda>_. True) (bk_make row)) w = (Inr (Some mk), w)"
      "mk \<in> set (vehicle_makes (committed w))" "lk_name_en mk = bk_make row"
    by (rule find_label_run [where extra = "\<lambda>_. True" and table = vehicle_makes and w = w, OF assms(3) _ apart(6), of "(bk_make row, bk_make row)" "bk_make row"])
      (use makes(1) assms(5) labels_not_blank(6) in auto)
  obtain lm where lm: "lm \<in> set (models_of (bk_make row))" "bk_model row = fst lm" using assms(6) by auto
  have "told_apart env (models_of (bk_make row))"
  proof (cases "map_of MODELS_BY_MAKE (bk_make row)")
    case (Some ls)
    with assms(2) map_of_SomeD [OF Some] show ?thesis unfolding labels_told_apart_def list_all_iff models_of_def by fastforce
  qed (simp add: models_of_def told_apart_def)
  then obtain model where model: "find_if (bk_model row) (find_lookup_by_label env vehicle_models (\<lambda>r. vm_make_id r = lk_id mk) (bk_model row)) w =
        (Inr (Some model), w)" "vm_make_id model = lk_id mk" "lk_name_en model = bk_model row"
    by (rule find_label_run [where extra = "\<lambda>r. vm_make_id r = lk_id mk" and table = vehicle_models and w = w,
          OF assms(3) makes(2) [OF mk(2), unfolded mk(3)] _ lm(1), of env "bk_model row"])
      (use lm labels_not_blank(7) in auto)
  obtain branch where branch: "find_if (bk_branch row) (find_lookup_by_label env vehicle_branches (\<lambda>_. True) (bk_branch row)) w = (Inr (Some branch), w)"
      "lk_name_en branch = bk_branch row" using cell [of vehicle_branches, OF labels(1) apart(1) assms(7) labels_not_blank(1)] by blast
  obtain color where color: "find_if (bk_color row) (find_lookup_by_label env vehicle_colors (\<lambda>_. True) (bk_color row)) w = (Inr (Some color), w)"
      "lk_name_en color = bk_color row" using cell [of vehicle_colors, OF labels(2) apart(2) assms(8) labels_not_blank(2)] by blast
  obtain keys where keys: "find_if (bk_keys_option row) (find_lookup_by_label env vehicle_key_options (\<lambda>_. True) (bk_keys_option row)) w = (Inr (Some keys), w)"
      "lk_name_en keys = bk_keys_option row" using cell [of vehicle_key_options, OF labels(3) apart(3) assms(9) labels_not_blank(3)] by blast
  obtain fuel where fuel: "find_if (bk_fuel_type row) (find_lookup_by_label env fuel_types (\<lambda>_. True) (bk_fuel_type row)) w = (Inr (Some fuel), w)"
      "lk_name_en fuel = bk_fuel_type row" using cell [of fuel_types, OF labels(4) apart(4) assms(10) labels_not_blank(4)] by blast
  obtain bidding where bidding: "find_if (bk_bidding_model row) (find_lookup_by_label env bidding_models (\<lambda>_. True) (bk_bidding_model row)) w = (Inr (Some bidding), w)"
      "lk_name_en bidding = bk_bidding_model row" using cell [of bidding_models, OF labels(5) apart(5) assms(11) labels_not_blank(5)] by blast
  obtain client where client: "find_if (bk_client row) (find_client_by_name env (bk_client row)) w = (Inr client, w)"
    unfolding find_client_by_name_def by (rule find_if_query [OF assms(3)])
  obtain sub where sub: "(case client of None \<Rightarrow> ret None
      | Some c \<Rightarrow> find_if (bk_sub_client row) (find_sub_seller_by_name env (u_id c) (bk_sub_client row))) w = (Inr sub, w)"
  proof (cases client)
    case (Some c)
    obtain s where "find_if (bk_sub_client row) (find_sub_seller_by_name env (u_id c) (bk_sub_client row)) w = (Inr s, w)"
      unfolding find_sub_seller_by_name_def by (rule find_if_query [OF assms(3)])
    then show thesis using Some by (intro that) simp
  qed (auto simp: ret_def intro: that)
  let ?rs = "\<lparr>rs_make = Some mk, rs_model = Some model, rs_branch = Some branch, rs_color = Some color, rs_keys_option = Some keys,
    rs_fuel_type = Some fuel, rs_bidding_model = Some bidding, rs_client = client, rs_sub_seller = sub\<rparr>"
  have "resolve_bulk_row env row w = (Inr ?rs, w)"
    unfolding resolve_bulk_row_def bind_def by (simp add: mk(1) model(1) branch(1) color(1) keys(1) fuel(1) bidding(1) client sub ret_def)
  moreover have "model_error row ?rs = []" using lm labels_not_blank(7) by (simp add: model_error_def error_if_def)
  then have "set (map fst (bulk_row_errors row ?rs)) \<subseteq> {''chassis_number'', ''previous_number_plate'', ''year'', ''target_selling_price'',
      ''minimum_selling_price'', ''client'', ''sub_client''}"
    unfolding bulk_row_errors_def map_append set_append Un_subset_iff error_fields_subset by simp
  ultimately show ?thesis
    using mk(3) model(2,3) branch(2) color(2) keys(2) fuel(2) bidding(2) by (intro exI [of _ ?rs]) simp
qed

section \<open>Clients\<close>

text \<open>C24. After the imports 0021 and 0023 and the role migrations, the form accepts the imported clients: every listed address
  belongs to an account; where no account had it before, it is that of the listed row, with the placeholder for a hash, an
  active seller whom the checks of a submission accept; and so they do the sub-sellers whose client exists.
  The server has to tell the listed addresses apart.\<close>

theorem imported_clients_accepted:
  assumes "install_clients env select_distinct t u n us db = Inr db'" and "distinct (map u_id us)"
    and "distinct (map (collate env \<circ> row_email) SELLER_USERS)" and "sub_sellers db = []" and "clean w" and "committed w = db'"
  shows "list_all (\<lambda>row. has_address env (row_email row) (users db') \<and>
      (has_address env (row_email row) us \<or>
        (\<exists>c \<in> set (users db'). u_id c = fst row \<and> u_email c = row_email row \<and> u_password_hash c = PLACEHOLDER_PASSWORD_HASH \<and>
          is_seller env db' c) \<and>
        fst (user_exists env (fst row) w) = Inr True)) SELLER_USERS \<and>
    list_all (\<lambda>row. fst (snd row) \<notin> u_id ` set (users db') \<or>
      (\<exists>s \<in> set (sub_sellers db'). sql_is env (ss_external_id s) (fst row) \<and>
        fst (is_sub_seller_of_client env (ss_id s) (fst (snd row)) w) = Inr True)) SUB_SELLERS"
proof -
  obtain us' subs where import: "import_sellers env t SELLER_USERS us = Inr us'"
    and subs: "seed_sub_sellers env t us' u SUB_SELLERS [] = Inr subs"
    and roles: "migrate_roles env select_distinct t n us' (db\<lparr>sub_sellers := subs\<rparr>) = Inr db'"
    using assms(1,4) by (auto simp: install_clients_def upgrade_0021_def upgrade_0023_def)
  have ids: "distinct (map u_id us')" by (rule import_sellers_ids [OF import assms(2)])
  note us' = import_sellers_added [OF import] and accounts = migrate_roles_accounts [OF ids roles]
  have w: "work w = db'" "\<not> deactive w" using assms(5,6) by (simp_all add: clean_def)
  have "has_address env (row_email row) (users db')" if "row \<in> set SELLER_USERS" for row
    using added_address [OF that, of env us t] by (simp add: has_address_column accounts us')
  moreover have "(\<exists>c \<in> set (users db'). u_id c = fst row \<and> u_email c = row_email row \<and> u_password_hash c = PLACEHOLDER_PASSWORD_HASH \<and>
        is_seller env db' c) \<and> fst (user_exists env (fst row) w) = Inr True"
    if row: "row \<in> set SELLER_USERS" and free: "\<not> has_address env (row_email row) us" for row
  proof -
    have "imported_user t row \<in> set us'" using added_own [OF assms(3) row free] by (simp add: us')
    then obtain c where c: "c \<in> set (users db')" "u_id c = fst row" "u_email c = row_email row"
        "u_password_hash c = PLACEHOLDER_PASSWORD_HASH" "u_is_active c" "is_seller env db' c"
      by (rule migrated_seller [OF ids roles]) simp_all
    have "filter (\<lambda>x. u_id x = fst row) (users db') = [c]" by (rule unique_row [where k = u_id, OF _ c(1,2)]) (simp add: accounts ids)
    then have "filter (\<lambda>x. u_id x = fst row \<and> u_is_active x) (users db') = [c]"
      using c(5) by (rule filter_one_more)
    then have "fst (user_exists env (fst row) w) = Inr True" by (simp add: user_exists_def query_def bind_def ret_def w)
    with c show ?thesis by blast
  qed
  moreover have "\<exists>s \<in> set (sub_sellers db'). sql_is env (ss_external_id s) (fst row) \<and>
      fst (is_sub_seller_of_client env (ss_id s) (fst (snd row)) w) = Inr True"
    if row: "row \<in> set SUB_SELLERS" and seller: "fst (snd row) \<in> u_id ` set (users db')" for row
  proof -
    have "fst (snd row) \<in> u_id ` set us'" using seller accounts(2) by (metis list.set_map)
    with seed_sub_sellers_Inr [OF subs] row obtain s where s: "s \<in> set subs" "sql_is env (ss_external_id s) (fst row)"
      and rows: "\<exists>row \<in> set SUB_SELLERS. \<exists>i. s = sub_seller_row t i row" and keys: "distinct (map ss_id subs)"
      by auto
    have "ss_is_active s \<and> ss_seller_id s = fst (snd row)" using rows row by (auto simp: SUB_SELLERS_def)
    moreover have "filter (\<lambda>x. ss_id x = ss_id s) subs = [s]" by (rule unique_row [where k = ss_id, OF keys s(1) refl])
    ultimately have "filter (\<lambda>x. ss_id x = ss_id s \<and> ss_is_active x \<and> ss_seller_id x = fst (snd row)) subs = [s]"
      by (intro filter_one_more)
    then have "fst (is_sub_seller_of_client env (ss_id s) (fst (snd row)) w) = Inr True"
      by (simp add: is_sub_seller_of_client_def query_def bind_def ret_def w accounts)
    with s show ?thesis by (auto simp: accounts)
  qed
  ultimately show ?thesis unfolding list_all_iff by blast
qed

text \<open>C26. The import of the clients can be repeated and undone: a second run changes nothing, and the downgrade gives back the
  accounts there were, as long as no other table names a listed account and no account there was has the
  placeholder for a hash.\<close>

theorem import_undone:
  assumes "upgrade_0021 env t us = Inr us'" and "list_all (\<lambda>row. unreferenced db (fst row)) SELLER_USERS"
    and "list_all (\<lambda>x. \<not> sql_eq env (u_password_hash x) PLACEHOLDER_PASSWORD_HASH) us"
  shows "upgrade_0021 env t' us' = Inr us' \<and> downgrade_0021 env (us', db) = Inr (us, db)"
proof -
  have us': "us' = us @ added env t SELLER_USERS us" by (rule import_sellers_added [OF assms(1) [unfolded upgrade_0021_def]])
  have "list_all (\<lambda>row. has_address env (row_email row) us') SELLER_USERS" using added_address by (fastforce simp: list_all_iff us')
  then have "upgrade_0021 env t' us' = Inr us'" unfolding upgrade_0021_def by (rule import_sellers_again)
  moreover let ?P = "\<lambda>x. u_id x \<in> fst ` set SELLER_USERS \<and> sql_eq env (u_password_hash x) PLACEHOLDER_PASSWORD_HASH"
  have "downgrade_0021 env (us', db) = Inr (delete_where ?P us', db)"
    unfolding downgrade_0021_def by (rule remove_sellers_unreferenced) (use assms(2) in \<open>simp add: list_all_iff\<close>)
  moreover have "delete_where ?P us = us" using assms(3) by (intro delete_where_none) (simp add: list_all_iff)
  moreover have "delete_where ?P (added env t SELLER_USERS us) = []"
  proof (rule delete_where_all)
    fix x assume "x \<in> set (added env t SELLER_USERS us)"
    then obtain row where "row \<in> set SELLER_USERS" "x = imported_user t row" using added_rows by blast
    then show "?P x" by simp
  qed
  ultimately show ?thesis by (simp add: us' delete_where_append)
qed

section \<open>Instances\<close>

definition lookup_db :: database where
  "lookup_db = (case upgrade_0019 5 (fresh_uuid 19) empty_database of Inl e \<Rightarrow> empty_database | Inr db \<Rightarrow> db)"

lemma lookup_install: "upgrade_0019 5 (fresh_uuid 19) empty_database = Inr lookup_db"
proof -
  have "fresh (fresh_uuid 19)" by (rule fresh_uuid_fresh) simp
  then obtain db where "upgrade_0019 5 (fresh_uuid 19) empty_database = Inr db" using upgrade_0019_succeeds by blast
  then show ?thesis by (simp add: lookup_db_def)
qed

theorem seeded_dropdowns_served_witness:
  "fst (get_years sample_env (initial_world lookup_db)) = Inr YEARS \<and>
   map_result (map lo_label) (fst (get_colors sample_env True (initial_world lookup_db))) =
     Inr (map (\<lambda>(en, ar). pick_label en ar True) COLORS)"
  using seeded_dropdowns_served [OF lookup_install clean_initial, of lookup_db sample_env True] by (simp add: initial_world_def)

definition sample_sheet_row :: vehicle_bulk_row_input where
  "sample_sheet_row = \<lparr>bk_row_number = 2, bk_chassis_number = ''CH1'', bk_make = ''Toyota'', bk_model = ''Camry'',
     bk_branch = ''Sharjah'', bk_year = ''2020'', bk_keys_option = ''2 Keys'', bk_fuel_type = ''Hybrid'', bk_color = ''Dark blue'',
     bk_target_selling_price = ''100'', bk_minimum_selling_price = ''90'', bk_client = ''Ann'', bk_sub_client = [],
     bk_previous_number_plate = ''A1'', bk_bidding_model = ''Silent auction''\<rparr>"

lemma sample_sheet_labels:
  "bk_make sample_sheet_row \<in> set MAKES" "bk_model sample_sheet_row \<in> fst ` set (models_of (bk_make sample_sheet_row))"
  "bk_branch sample_sheet_row \<in> fst ` set BRANCHES" "bk_color sample_sheet_row \<in> fst ` set COLORS"
  "bk_keys_option sample_sheet_row \<in> fst ` set KEY_OPTIONS" "bk_fuel_type sample_sheet_row \<in> fst ` set FUEL_TYPES"
  "bk_bidding_model sample_sheet_row \<in> fst ` set BIDDING_MODELS"
  unfolding sample_sheet_row_def
  by (simp_all add: MAKES_def models_of_def MODELS_BY_MAKE_def BRANCHES_def COLORS_def KEY_OPTIONS_def FUEL_TYPES_def BIDDING_MODELS_def)

theorem seeded_sheet_row_resolves_witness:
  "\<exists>rs. resolve_bulk_row sample_env sample_sheet_row (initial_world lookup_db) = (Inr rs, initial_world lookup_db) \<and>
     map_option lk_name_en (rs_model rs) = Some ''Camry'' \<and> map_option lk_name_en (rs_color rs) = Some ''Dark blue''"
proof -
  have "labels_told_apart sample_env" by code_simp
  moreover have "bk_model sample_sheet_row = ''Camry''" "bk_color sample_sheet_row = ''Dark blue''" by (simp_all add: sample_sheet_row_def)
  ultimately show ?thesis
    using seeded_sheet_row_resolves [OF lookup_install _ clean_initial _ sample_sheet_labels, of sample_env lookup_db]
    by (auto simp: initial_world_def)
qed

text \<open>An account there was has an address of the list.\<close>

definition former_accounts :: "legacy_user list" where
  "former_accounts = [legacy_sample 11 ''testuat1@gmail.com'' ''Buyer'']"

definition former_accounts_after :: "legacy_user list" where
  "former_accounts_after = (case upgrade_0021 sample_env 5 former_accounts of Inl e \<Rightarrow> [] | Inr us \<Rightarrow> us)"

lemma seller_users_differ:
  "distinct (map fst SELLER_USERS)" "distinct (map (collate sample_env \<circ> row_email) SELLER_USERS)"
proof -
  have "distinct (map (uint \<circ> fst) SELLER_USERS)"
    unfolding SELLER_USERS_def list.map o_apply fst_conv uint_numeral take_bit_numeral_numeral by simp
  then have "distinct (map uint (map fst SELLER_USERS))" by (simp only: list.map_comp)
  then show "distinct (map fst SELLER_USERS)" unfolding distinct_map by blast
  show "distinct (map (collate sample_env \<circ> row_email) SELLER_USERS)" by code_simp
qed

lemma former_import: "upgrade_0021 sample_env 5 former_accounts = Inr former_accounts_after"
proof -
  have "set (map fst SELLER_USERS) \<inter> u_id ` set former_accounts = {}"
    by (simp add: former_accounts_def legacy_sample_def sample_user_def user.defs legacy_user.defs SELLER_USERS_def)
  moreover have "distinct (map u_id former_accounts)" "distinct (map (collate sample_env \<circ> u_email) former_accounts)"
    by (simp_all add: former_accounts_def)
  ultimately show ?thesis
    using import_sellers_succeeds [OF seller_users_differ(1), of former_accounts sample_env 5]
    by (auto simp: former_accounts_after_def upgrade_0021_def)
qed

theorem import_undone_witness:
  "upgrade_0021 sample_env 9 former_accounts_after = Inr former_accounts_after \<and>
   downgrade_0021 sample_env (former_accounts_after, empty_database) = Inr (former_accounts, empty_database)"
proof -
  have "list_all (\<lambda>row. unreferenced empty_database (fst row)) SELLER_USERS"
    by (simp add: list_all_iff unreferenced_def empty_database_def)
  moreover have "list_all (\<lambda>x. \<not> sql_eq sample_env (u_password_hash x) PLACEHOLDER_PASSWORD_HASH) former_accounts" by code_simp
  ultimately show ?thesis by (rule import_undone [OF former_import])
qed

lemma added_length: "length (added env t rows us) \<le> length rows"
  by (induction rows arbitrary: us) (auto simp: le_SucI)

lemma seed_sub_sellers_succeeds: "fresh u \<Longrightarrow> \<exists>subs. upgrade_0023 env t us u [] = Inr subs"
  using inj_on_eq_iff [of u "{..<300}" 0 1]
  by (auto simp: upgrade_0023_def SUB_SELLERS_def seed_sub_seller_def insert_rows_def shift_def)

lemma former_migrates:
  "\<exists>db'. migrate_roles sample_env (first_spelling lower) 5 0 former_accounts_after db = Inr db'"
proof -
  have after: "former_accounts_after = former_accounts @ added sample_env 5 SELLER_USERS former_accounts"
    using import_sellers_added former_import by (simp add: upgrade_0021_def)
  have "distinct (map u_id former_accounts)" by (simp add: former_accounts_def)
  then have ids: "distinct (map u_id former_accounts_after)"
    using import_sellers_ids former_import by (simp add: upgrade_0021_def)
  have "lg_role x \<in> {Some ''Seller'', Some ''Buyer''}" if "x \<in> set former_accounts_after" for x
    using that added_rows [of sample_env 5 SELLER_USERS former_accounts]
    by (auto simp: after former_accounts_def legacy_sample_def legacy_user.defs user.defs)
  then have texts: "set (List.map_filter lg_role former_accounts_after) \<subseteq> {''Seller'', ''Buyer''}"
    by (fastforce simp: List.map_filter_def)
  have "set (first_spelling lower (List.map_filter lg_role former_accounts_after)) \<subseteq> set (List.map_filter lg_role former_accounts_after)"
    using first_spelling_law [of sample_env] by (simp add: distinct_law_def)
  with texts have "set (unseeded_names (first_spelling lower) former_accounts_after) = {}"
    unfolding set_unseeded by (auto simp: SEED_ROLES_def)
  then have none: "unseeded_names (first_spelling lower) former_accounts_after = []" by simp
  have "length SELLER_USERS = 50" by (simp add: SELLER_USERS_def)
  then have "length former_accounts_after \<le> 51"
    using added_length [of sample_env 5 SELLER_USERS former_accounts] by (simp add: after former_accounts_def)
  then have uuids: "inj_on (uuid_source sample_env)
      {0..<0 + 8 + length (unseeded_names (first_spelling lower) former_accounts_after) + length former_accounts_after}"
    by (intro sample_uuids) (simp add: none)
  have "distinct (map lower (map fst SEED_ROLES))" by code_simp
  then have names: "inj_on (collate sample_env) (set (map fst SEED_ROLES) \<union> set (unseeded_names (first_spelling lower) former_accounts_after))"
    unfolding none collate_sample by (simp only: distinct_map set_simps Un_empty_right)
  from upgrade_0029_succeeds [OF ids uuids names] migrate_roles_succeeds [OF ids] show ?thesis by fastforce
qed

definition client_db :: database where
  "client_db = (case install_clients sample_env (first_spelling lower) 5 (fresh_uuid 23) 0 former_accounts empty_database of
     Inl e \<Rightarrow> empty_database | Inr db \<Rightarrow> db)"

lemma client_install:
  "install_clients sample_env (first_spelling lower) 5 (fresh_uuid 23) 0 former_accounts empty_database = Inr client_db"
proof -
  have "fresh (fresh_uuid 23)" by (rule fresh_uuid_fresh) simp
  then obtain subs where "upgrade_0023 sample_env 5 former_accounts_after (fresh_uuid 23) [] = Inr subs"
    using seed_sub_sellers_succeeds by blast
  moreover obtain db' where "migrate_roles sample_env (first_spelling lower) 5 0 former_accounts_after
      (empty_database\<lparr>sub_sellers := subs\<rparr>) = Inr db'"
    using former_migrates by blast
  moreover have "sub_sellers empty_database = []" by (simp add: empty_database_def)
  ultimately have "install_clients sample_env (first_spelling lower) 5 (fresh_uuid 23) 0 former_accounts empty_database = Inr db'"
    unfolding install_clients_def former_import bind_result.simps by simp
  then show ?thesis by (simp add: client_db_def)
qed

theorem imported_clients_accepted_witness:
  "\<exists>c \<in> set (users client_db). u_email c = ''sellerone@gmail.com'' \<and> is_seller sample_env client_db c"
proof -
  let ?row = "(0xee36d0ff120b4c72b2274413b0a710fe :: uuid, ''Seller One'', ''sellerone@gmail.com'', ''+971808808808'')"
  have "distinct (map u_id former_accounts)" "sub_sellers empty_database = []" "committed (initial_world client_db) = client_db"
    by (simp_all add: former_accounts_def empty_database_def initial_world_def)
  from imported_clients_accepted [OF client_install this(1) seller_users_differ(2) this(2) clean_initial this(3)]
  have rows: "\<forall>row \<in> set SELLER_USERS. has_address sample_env (row_email row) former_accounts \<or>
      (\<exists>c \<in> set (users client_db). u_id c = fst row \<and> u_email c = row_email row \<and> u_password_hash c = PLACEHOLDER_PASSWORD_HASH \<and>
          is_seller sample_env client_db c)"
    unfolding list_all_iff by blast
  have "SELLER_USERS ! 3 = ?row" "3 < length SELLER_USERS" by (simp_all add: SELLER_USERS_def)
  then have "?row \<in> set SELLER_USERS" by (metis nth_mem)
  moreover have email: "row_email ?row = ''sellerone@gmail.com''" by code_simp
  moreover have "\<not> has_address sample_env ''sellerone@gmail.com'' former_accounts" by code_simp
  ultimately show ?thesis using rows by (metis (no_types, lifting))
qed

end
