(* ===== verification/Demo_Removal.thy ===== *)
theory Demo_Removal
  imports Seed_Properties Content_Rows
begin

text \<open>
  The downgrade of \<^verbatim>\<open>alembic/versions/0031_seed_role_demo_users.py\<close>: accounts are deleted by their address, with the
  actions of the foreign keys that refer to them.
\<close>

section \<open>Deleting accounts\<close>

definition one_of :: "uuid option \<Rightarrow> uuid list \<Rightarrow> bool" where
  "one_of i gone \<longleftrightarrow> (case i of None \<Rightarrow> False | Some j \<Rightarrow> j \<in> set gone)"

text \<open>
  Assignments, tokens and sub-sellers go with the account, and cars lose their seller; a bid by the account, or a car that it entered
  or whose sub-seller would go, stops the deletion.
\<close>

definition remove_accounts :: "(user \<Rightarrow> bool) \<Rightarrow> database \<Rightarrow> exn + database" where
  "remove_accounts P db =
     (let gone = map u_id (filter P (users db));
          gone_subs = map ss_id (filter (\<lambda>s. ss_seller_id s \<in> set gone) (sub_sellers db)) in
      if list_ex (\<lambda>b. b_bidder_id b \<in> set gone) (bids db) \<or>
         list_ex (\<lambda>v. one_of (vl_created_by_id v) gone \<or> one_of (vl_sub_seller_id v) gone_subs) (vehicle_listings db)
      then Inl IntegrityError
      else Inr (db\<lparr>users := delete_where P (users db),
        user_roles := delete_where (\<lambda>x. ur_user_id x \<in> set gone) (user_roles db),
        refresh_tokens := delete_where (\<lambda>x. rt_user_id x \<in> set gone) (refresh_tokens db),
        password_reset_tokens := delete_where (\<lambda>x. pr_user_id x \<in> set gone) (password_reset_tokens db),
        email_verification_tokens := delete_where (\<lambda>x. ev_user_id x \<in> set gone) (email_verification_tokens db),
        sub_sellers := delete_where (\<lambda>s. ss_seller_id s \<in> set gone) (sub_sellers db),
        vehicle_listings := map (\<lambda>v. if one_of (vl_seller_id v) gone then v\<lparr>vl_seller_id := None\<rparr> else v) (vehicle_listings db)\<rparr>))"

fun remove_demo_users :: "env \<Rightarrow> (string \<times> string \<times> string \<times> string option) list \<Rightarrow> database \<Rightarrow> exn + database" where
  "remove_demo_users env [] db = Inr db"
| "remove_demo_users env (d # ds) db =
     bind_result (remove_accounts (\<lambda>u. sql_eq env (u_email u) (fst d)) db) (remove_demo_users env ds)"

definition downgrade_0031 :: "env \<Rightarrow> database \<Rightarrow> exn + database" where
  "downgrade_0031 env = remove_demo_users env DEMO_USERS"

section \<open>What a deletion keeps\<close>

lemma set_delete_where [simp]: "set (delete_where P xs) = {x \<in> set xs. \<not> P x}"
  by (auto simp: delete_where_def)

lemma distinct_delete_where: "distinct (map f xs) \<Longrightarrow> distinct (map f (delete_where P xs))"
  by (simp add: delete_where_def distinct_map_filter)

lemma remaining_ids:
  "distinct (map u_id us) \<Longrightarrow> u_id ` set (delete_where P us) = u_id ` set us - set (map u_id (filter P us))"
  by (auto simp: distinct_map inj_on_def)

lemma remove_accounts_Inr:
  assumes "remove_accounts P db = Inr db'"
  shows "users db' = delete_where P (users db)" "roles db' = roles db" "auctions db' = auctions db" "bids db' = bids db"
    "user_roles db' = delete_where (\<lambda>x. ur_user_id x \<in> set (map u_id (filter P (users db)))) (user_roles db)"
    "refresh_tokens db' = delete_where (\<lambda>x. rt_user_id x \<in> set (map u_id (filter P (users db)))) (refresh_tokens db)"
    "password_reset_tokens db' = delete_where (\<lambda>x. pr_user_id x \<in> set (map u_id (filter P (users db)))) (password_reset_tokens db)"
    "email_verification_tokens db' = delete_where (\<lambda>x. ev_user_id x \<in> set (map u_id (filter P (users db)))) (email_verification_tokens db)"
    "map vl_id (vehicle_listings db') = map vl_id (vehicle_listings db)"
    "map vl_chassis_number (vehicle_listings db') = map vl_chassis_number (vehicle_listings db)"
    "\<forall>b \<in> set (bids db). b_bidder_id b \<notin> set (map u_id (filter P (users db)))"
  using assms by (auto simp: remove_accounts_def Let_def list_ex_iff split: if_splits)

lemma remove_accounts_users_ok:
  assumes run: "remove_accounts P db = Inr db'" and ok: "users_ok coll db"
  shows "users_ok coll db'"
proof -
  have ids: "distinct (map u_id (users db))" using ok by (simp add: users_ok_def)
  show ?thesis
    using ok unfolding users_ok_def remove_accounts_Inr [OF run] remaining_ids [OF ids]
    by (auto intro: distinct_delete_where)
qed

lemma remove_accounts_tokens_ok:
  assumes run: "remove_accounts P db = Inr db'" and ok: "users_ok coll db" "tokens_ok coll db"
  shows "tokens_ok coll db'"
proof -
  have ids: "distinct (map u_id (users db))" using ok(1) by (simp add: users_ok_def)
  show ?thesis
    using ok(2) unfolding tokens_ok_def remove_accounts_Inr [OF run] remaining_ids [OF ids]
    by (auto intro: distinct_delete_where)
qed

lemma remove_accounts_bids_ok:
  assumes run: "remove_accounts P db = Inr db'" and ok: "users_ok coll db" "bids_ok db"
  shows "bids_ok db'"
proof -
  have ids: "distinct (map u_id (users db))" using ok(1) by (simp add: users_ok_def)
  show ?thesis
    using ok(2) remove_accounts_Inr(11) [OF run]
    unfolding bids_ok_def remove_accounts_Inr(1-4) [OF run] remaining_ids [OF ids] by blast
qed

lemma remove_accounts_listings_ok:
  assumes "remove_accounts P db = Inr db'" and "listings_ok coll db"
  shows "listings_ok coll db'"
proof -
  have "map f (filter (\<lambda>v. vl_chassis_number v \<noteq> None) vs) = map f (filter (\<lambda>v. vl_chassis_number v \<noteq> None) vs')"
    if "map vl_chassis_number vs = map vl_chassis_number vs'" and "f = map_option coll \<circ> vl_chassis_number" for f vs vs'
  proof -
    have "map f (filter (\<lambda>v. vl_chassis_number v \<noteq> None) vs) = map (map_option coll) (filter (\<lambda>c. c \<noteq> None) (map vl_chassis_number vs))" for vs
      unfolding that(2) by (induction vs) auto
    then show ?thesis using that(1) by simp
  qed
  note chassis = this [OF remove_accounts_Inr(10) [OF assms(1)] refl]
  show ?thesis unfolding listings_ok_def remove_accounts_Inr(9) [OF assms(1)] chassis using assms(2) by (simp only: listings_ok_def)
qed

lemma remove_accounts_schema_ok: "remove_accounts P db = Inr db' \<Longrightarrow> schema_ok coll db \<Longrightarrow> schema_ok coll db'"
  unfolding schema_ok_def
  by (intro conjI; elim conjE)
     (rule remove_accounts_users_ok remove_accounts_tokens_ok remove_accounts_bids_ok remove_accounts_listings_ok; assumption)+

lemma remove_accounts_roles_inv:
  assumes run: "remove_accounts P db = Inr db'" and "users_ok coll db" and "roles_inv db"
  shows "roles_inv db'"
proof -
  have ids: "distinct (map u_id (users db))" using assms(2) by (simp add: users_ok_def)
  have kept: "u_id u \<notin> set (map u_id (filter P (users db)))" if "u \<in> set (users db)" "\<not> P u" for u
    using that distinct_map_inj_on_eq [OF ids] by auto
  show ?thesis unfolding roles_inv_def
  proof
    fix u assume "u \<in> set (users db')"
    then have u: "u \<in> set (users db)" "\<not> P u" by (simp_all add: remove_accounts_Inr(1) [OF run])
    obtain ur where ur: "ur \<in> set (user_roles db)" "ur_user_id ur = u_id u" "ur_role_id ur = u_primary_role_id u"
      using assms(3) u(1) unfolding roles_inv_def by blast
    with kept [OF u] have "ur \<in> set (user_roles db')" unfolding remove_accounts_Inr(5) [OF run] set_delete_where by simp
    with ur(2,3) show "\<exists>ur \<in> set (user_roles db'). ur_user_id ur = u_id u \<and> ur_role_id ur = u_primary_role_id u" by blast
  qed
qed

section \<open>The downgrade\<close>

lemma remove_demo_users_users:
  "remove_demo_users env ds db = Inr db' \<Longrightarrow>
   set (users db') = {u \<in> set (users db). \<forall>d \<in> set ds. \<not> sql_eq env (u_email u) (fst d)}"
  by (induction ds arbitrary: db) (auto simp: remove_accounts_Inr(1))

lemma remove_demo_users_keeps:
  "remove_demo_users env ds db = Inr db' \<Longrightarrow> schema_ok coll db \<and> roles_inv db \<Longrightarrow> schema_ok coll db' \<and> roles_inv db'"
proof (induction ds arbitrary: db)
  case (Cons d ds)
  then obtain db1 where db1: "remove_accounts (\<lambda>u. sql_eq env (u_email u) (fst d)) db = Inr db1" "remove_demo_users env ds db1 = Inr db'"
    by auto
  have "users_ok coll db" using Cons.prems(2) by (simp add: schema_ok_def)
  then have "schema_ok coll db1 \<and> roles_inv db1"
    using Cons.prems(2) remove_accounts_schema_ok [OF db1(1)] remove_accounts_roles_inv [OF db1(1)] by blast
  with Cons.IH [OF db1(2)] show ?case .
qed simp

text \<open>Where the downgrade succeeds, it keeps the constraints and the invariant of the roles, and takes away exactly the accounts
  with a listed address.\<close>

theorem demo_downgrade_consistent:
  assumes "schema_ok (collate env) db" and "roles_inv db" and "downgrade_0031 env db = Inr db'"
  shows "schema_ok (collate env) db' \<and> roles_inv db' \<and>
    set (users db') = {u \<in> set (users db). \<forall>d \<in> set DEMO_USERS. \<not> sql_eq env (u_email u) (fst d)}"
  using remove_demo_users_keeps [OF assms(3) [unfolded downgrade_0031_def]] assms(1,2)
    remove_demo_users_users [OF assms(3) [unfolded downgrade_0031_def]] by blast

text \<open>Among them are those that were there before the upgrade, which left them alone.\<close>

theorem demo_downgrade_deletes_existing:
  assumes "schema_ok (collate env) db" and "roles_inv db" and "upgrade_0031 env t salt n db = Inr db1" and "downgrade_0031 env db1 = Inr db2"
    and "x \<in> set (users db)" and "list_ex (\<lambda>d. sql_eq env (u_email x) (fst d)) DEMO_USERS"
  shows "x \<in> set (users db1) \<and> x \<notin> set (users db2)"
proof -
  have "x \<in> set (users db1)" using upgrade_0031_Inr [OF assms(1-3)] assms(5) by (auto simp: extends_def)
  moreover have "x \<notin> set (users db2)"
    using remove_demo_users_users [OF assms(4) [unfolded downgrade_0031_def]] assms(6) by (auto simp: list_ex_iff)
  ultimately show ?thesis by simp
qed

end
