(* ===== verification/Spec2Isabelle.thy ===== *)
theory Spec2Isabelle
  imports Auth_Properties Users_Properties Bid_Properties Worker_Properties Gateway_Properties
    Connection_Properties Dashboard_Properties Intake_Properties
    Migration_Properties Seed_Properties Schema_Properties Content_Properties
    Lookup_Properties Demo_Removal
begin

text \<open>
  A verification library of the AWA platform, the back end of a car auction: a FastAPI
  application (\<^verbatim>\<open>src/main.py\<close>, \<^verbatim>\<open>src/api\<close>), its services over an SQL database
  (\<^verbatim>\<open>src/services\<close>, \<^verbatim>\<open>src/models\<close>), a worker that decides bids from a Kafka topic
  (\<^verbatim>\<open>src/workers\<close>) and a WebSocket gateway that relays decisions from Redis (\<^verbatim>\<open>src/ws\<close>).

  \<^bold>\<open>How the parts interact.\<close> A request runs a handler of \<^verbatim>\<open>api/v1\<close> within a database session
  (\<^verbatim>\<open>core/database.py\<close>); the handler authenticates the bearer token (\<^verbatim>\<open>api/deps.py\<close>), calls a
  service and turns domain errors into HTTP errors. \<^verbatim>\<open>POST /auctions/{id}/bids\<close> only validates
  and publishes an event. The worker consumes the events in the order of each partition, decides each bid
  in one transaction (unique on the position of the message), and only then updates the
  cached highest bid (a Lua script in Redis), broadcasts the result and publishes it. The
  gateway holds one relay task per auction with clients, which forwards what is broadcast.

  \<^bold>\<open>Theories and the code they model.\<close>
  \<^item> \<open>Awa_Prelude\<close>: lists, rows and results that the rest shares. \<open>Py_Text\<close>, \<open>Py_Uuid\<close>,
    \<open>Py_Decimal\<close>, \<open>Py_Json\<close>: what the code uses of Python's strings, \<open>int()\<close>, \<open>UUID\<close> (128-bit
    words), \<open>Decimal\<close> (sign, coefficient and exponent, NaN and infinities) and \<open>json\<close>.
  \<^item> \<open>Domain_Errors\<close> (\<^verbatim>\<open>services/exceptions.py\<close>), \<open>App_Settings\<close> (\<^verbatim>\<open>core/config.py\<close>),
    \<open>Schema_Tables\<close> (\<^verbatim>\<open>models/\<close>): exceptions as the datatype \<open>exn\<close>, settings, one record per
    table, the database as the record of its tables, and the constraints checked at an insertion.
  \<^item> \<open>Session\<close>, \<open>Session_Laws\<close>, \<open>Read_Laws\<close> (\<^verbatim>\<open>core/database.py\<close> and the ORM session): a
    computation \<open>'a comp\<close> takes a \<open>world\<close> to an exception or a result and a \<open>world\<close>. The world
    holds the committed database, the database as the open transaction sees it, the rows added but
    not flushed, whether the session awaits a rollback, the cache, what was broadcast and
    published, and how many clock readings, identifiers, tokens and salts were drawn.
  \<^item> \<open>Role_Service\<close>, \<open>Users_Api\<close>, \<open>Users_Properties\<close>: roles and \<^verbatim>\<open>/users\<close>.
  \<^item> \<open>Token_Security\<close> (\<^verbatim>\<open>core/access_tokens.py\<close>, \<^verbatim>\<open>core/passwords.py\<close>, \<^verbatim>\<open>core/security.py\<close>),
    \<open>Auth_Service\<close>, \<open>Auth_Laws\<close>, \<open>Auth_Lockout\<close>, \<open>Auth_Api\<close>, \<open>Auth_Properties\<close>: authentication.
  \<^item> \<open>Bid_Service\<close>, \<open>Bid_Submission\<close>, \<open>Bid_Laws\<close>, \<open>Bid_Properties\<close>: auctions and bids.
  \<^item> \<open>Auction_Worker\<close>, \<open>Worker_Properties\<close>: the consume loop, its commits of offsets and its exits.
  \<^item> \<open>Ws_Gateway\<close>, \<open>Gateway_Properties\<close>: rooms and relay tasks as the step relation \<open>room_step\<close>.
  \<^item> \<open>Connections\<close>, \<open>Connection_Properties\<close>: engine, Redis and Kafka over start-up and shutdown, the probes.
  \<^item> \<open>Content_Service\<close>, \<open>Admin_Service\<close>, \<open>Vehicle_Payment\<close>, \<open>Dashboard_Properties\<close>: home page, dashboard, reports.
  \<^item> \<open>Vehicle_Intake\<close>, \<open>Intake_Laws\<close>, \<open>Intake_Properties\<close>: the entry of cars, single and from a sheet.
  \<^item> \<open>Schema_Names\<close>, \<open>Schema_Ddl\<close>, \<open>Schema_Migrations\<close>, \<open>Schema_Models\<close>, \<open>Schema_Laws\<close>,
    \<open>Schema_Properties\<close> (\<^verbatim>\<open>alembic/versions\<close>, \<^verbatim>\<open>models/\<close>): the schema as data, changed by the statements of
    the revisions and compared with what the ORM classes declare. Names of tables, columns and
    constraints are numbers there (\<open>spelling\<close> gives the text of each), so that whole histories evaluate
    in the kernel. A statement fails as it does on SQL Server; in particular a column is not
    dropped while a default, a key or an index is on it.
  \<^item> \<open>Role_Migration\<close>, \<open>Migration_Properties\<close>, \<open>Seed_Properties\<close> (revisions 0029 to 0031): what the
    migrations do to the rows of users and roles, over the tables of the services.
  \<^item> \<open>Content_Rows\<close>, \<open>Home_Migration\<close>, \<open>Home_Laws\<close>, \<open>Content_Properties\<close> (revisions 0002 to 0007, 0020, 0027 and
    0028): the rows of the home page from their first insertion to the tables that the services read.
  \<^item> \<open>Dashboard_Migration\<close>, \<open>Dashboard_Laws\<close>, \<open>Content_Properties\<close> (revisions 0010 to 0017, 0024 to 0026 and
    0032): the same for the sidebar, the cards and the metrics of the dashboard. In both, \<open>u k n\<close> is the \<open>n\<close>-th
    identifier that revision \<open>k\<close> draws; that it draws none twice is the hypothesis \<open>fresh\<close>.
  \<^item> \<open>Lookup_Migration\<close>, \<open>Lookup_Laws\<close>, \<open>Lookup_Properties\<close> (revisions 0018, 0019, 0021 and 0023): the dropdowns of the
    intake form, the imported clients and their sub-sellers, and what the form answers from them.
  \<^item> \<open>Demo_Removal\<close> (the downgrade of 0031): the deletion of accounts with the actions of the foreign keys.
  \<^item> \<open>Sample_World\<close>: the environment and the rows on which the properties are instantiated.

  \<^bold>\<open>Parameters.\<close> The record \<open>env\<close> collects what the code calls and does not define: the
  collation and pattern matching of the server, how it rounds numerics and which values it rejects,
  Argon2, SHA-256, JWT and JSON libraries, clocks, random sources, and whether Kafka and Redis answer.
  Properties that need a law of one of them state it as a hypothesis (\<open>jwt_library\<close>: a token
  signed here decodes to its claims until it expires; \<open>keeps_money\<close>: the column stores an
  amount of two decimals exactly; \<open>statuses_differ\<close>: the collation tells the bid states apart),
  and each is instantiated by a concrete function in the witness.

  \<^bold>\<open>What the lemmas show.\<close> The locale \<open>row_invariant\<close> is the contract between services and
  session: an invariant that insertions keep is kept by flush, commit, rollback and both
  context managers; keys, unique columns and foreign keys (\<open>schema_ok\<close>) are an instance, as
  is \<open>spent_in\<close> (a token stays spent) through \<open>token_table\<close> and \<open>single_use_tokens\<close>. The locale
  \<open>role_change\<close> is what the user endpoints rely on in the role service; \<open>localizer\<close> relates
  the two language pickers; \<open>connection\<close> and its two extensions are the life cycles of the
  connections. \<open>Bid_Laws\<close> relates decisions to the abstract ascending auction \<open>spec_bid\<close> by
  \<open>abs_auction\<close>, and \<open>Auction_Worker\<close> lifts this to any run of the worker.
  \<open>Schema_Laws\<close> shows that every accepted statement keeps a schema well-formed (\<open>run_ddl_wf\<close>);
  \<open>Schema_Properties\<close> evaluates the histories.

  \<^bold>\<open>Bounds.\<close> Every definition terminates on its own measure; no fuel is used except where the
  code has a bound: the menu is loaded \<open>MENU_LEVELS = 2\<close> levels deep below its top items, and the
  Kafka producer is started at most \<open>START_ATTEMPTS = 5\<close> times. The consume loop runs over a
  finite list of records; as each prefix of an endless stream is such a list, the safety
  properties carry over.

  \<^bold>\<open>Not modelled.\<close> Logging and tracing; the construction of the application and its routes; the
  construction of the Kafka consumer. Requests are sequential: a session sees no concurrent
  transaction. Rows that tie under ORDER BY come in insertion order. The disk on which
  documents are stored never fails. A failed request validation stands for its status, not for the text of its details.
\<close>

end
